(* ===== verification/Prelude.thy ===== *)
theory Prelude
  imports Main "HOL-Library.Multiset" "HOL-Library.Product_Lexorder"
    "HOL-Library.List_Lexorder" "HOL-Library.Char_ord" "HOL-Library.Word"
begin

text \<open>
  Shared vocabulary of the development: the result type of fallible Go calls, integers as Go
  has them, and the generic lemmas on lists, sorting and association lists that the component
  theories use.  A Go \<open>(T, error)\<close> pair is \<open>string + 'a\<close>: \<open>Inl\<close> carries the message of
  \<open>err.Error()\<close>, \<open>Inr\<close> the value.
\<close>

named_theorems go_defs \<open>definitions that automation may unfold\<close>

type_synonym 'a result = "string + 'a"

text \<open>
  Instants and durations are Go's \<open>time.Time\<close> and \<open>time.Duration\<close> as integers of
  nanoseconds since the Unix epoch.  The zero \<open>time.Time\<close> is 1 January of year 1.
\<close>

type_synonym time = int
type_synonym duration = int

definition second :: duration where "second = 1000000000"
definition minute :: duration where "minute = 60 * second"
definition hour :: duration where "hour = 60 * minute"
definition zero_time :: time where "zero_time = - 62135596800 * second"

definition max_duration :: duration where "max_duration = 2 ^ 63 - 1"
definition min_duration :: duration where "min_duration = - (2 ^ 63)"

text \<open>\<open>Time.Sub\<close> saturates at the bounds of an \<open>int64\<close>.\<close>

definition time_sub :: "time \<Rightarrow> time \<Rightarrow> duration" where
  "time_sub t u = max min_duration (min max_duration (t - u))"

lemmas duration_defs = second_def minute_def hour_def zero_time_def
  max_duration_def min_duration_def time_sub_def

text \<open>Conversion of an unsigned 64-bit value to Go's 64-bit \<open>int\<close> reinterprets its bits.\<close>

definition go_int :: "64 word \<Rightarrow> int" where
  "go_int w = sint w"

fun is_err :: "'a result \<Rightarrow> bool" where
  "is_err (Inl _) = True"
| "is_err (Inr _) = False"

subsection \<open>Lists\<close>

lemma find_SomeD: "find P xs = Some x \<Longrightarrow> x \<in> set xs \<and> P x"
  by (induction xs) (auto split: if_splits)

lemma set_map_filter_iff: "y \<in> set (List.map_filter f xs) \<longleftrightarrow> (\<exists>x\<in>set xs. f x = Some y)"
  by (induction xs) (auto simp: List.map_filter_simps split: option.splits)

lemma map_sort_key_self: "map f (sort_key f xs) = sort (map f xs)"
  by (rule properties_for_sort[symmetric]) simp_all

lemma sort_key_eq_of_mset:
  assumes "mset xs = mset ys" and "inj_on f (set xs)"
  shows "sort_key f xs = sort_key f ys"
proof -
  have "map f (sort_key f xs) = map f (sort_key f ys)"
    unfolding map_sort_key_self using assms(1) by (metis mset_map sorted_list_of_multiset_mset)
  moreover have "set (sort_key f xs) = set xs" and "set (sort_key f ys) = set xs"
    using assms(1) by (auto dest: mset_eq_setD)
  ultimately show ?thesis
    using assms(2) by (metis inj_on_map_eq_map set_append sup.idem)
qed

lemma distinct_filter_count:
  "distinct (map f xs) \<Longrightarrow> x \<in> set xs \<Longrightarrow> filter (\<lambda>y. f y = f x) xs = [x]"
  by (induction xs) (auto simp: filter_empty_conv image_iff)

subsection \<open>Association lists as Go maps\<close>

text \<open>
  A Go map that is only written and looked up is a HOL map; a map ranged over is an
  association list, because the range visits each key once.
\<close>

fun al_put :: "'k \<Rightarrow> 'v \<Rightarrow> ('k \<times> 'v) list \<Rightarrow> ('k \<times> 'v) list" where
  "al_put k v [] = [(k, v)]"
| "al_put k v ((k', v') # m) = (if k = k' then (k, v) # m else (k', v') # al_put k v m)"

definition al_del :: "'k \<Rightarrow> ('k \<times> 'v) list \<Rightarrow> ('k \<times> 'v) list" where
  "al_del k m = filter (\<lambda>(k', _). k' \<noteq> k) m"

lemma map_of_al_put [simp]: "map_of (al_put k v m) = (map_of m)(k \<mapsto> v)"
  by (induction k v m rule: al_put.induct) auto

lemma keys_al_put [simp]: "fst ` set (al_put k v m) = insert k (fst ` set m)"
  by (induction k v m rule: al_put.induct) auto

lemma distinct_al_put [simp]: "distinct (map fst m) \<Longrightarrow> distinct (map fst (al_put k v m))"
proof (induction k v m rule: al_put.induct)
  case (2 k v k' v' m)
  then show ?case using keys_al_put[of k v m] by auto
qed simp

lemma map_of_al_del [simp]: "map_of (al_del k m) = (map_of m)(k := None)"
  by (induction m) (auto simp: al_del_def)

lemma distinct_al_del [simp]: "distinct (map fst m) \<Longrightarrow> distinct (map fst (al_del k m))"
  unfolding al_del_def by (simp add: distinct_map_filter)

end
