(* ===== verification/GoStrings.thy ===== *)
theory GoStrings
  imports Prelude
begin

text \<open>
  The functions of Go's \<open>strings\<close>, \<open>strconv\<close> and \<open>fmt\<close> that the program uses, on byte
  strings (\<open>string\<close> is a list of 8-bit characters).  Case folding and white space are those of
  the ASCII range; bytes from 128 up are left alone.  Everything is executable.
\<close>

abbreviation byte :: "char \<Rightarrow> int" where "byte c \<equiv> of_char c"

definition is_digit :: "char \<Rightarrow> bool" where
  "is_digit c \<longleftrightarrow> 48 \<le> byte c \<and> byte c \<le> 57"

definition is_lower :: "char \<Rightarrow> bool" where
  "is_lower c \<longleftrightarrow> 97 \<le> byte c \<and> byte c \<le> 122"

definition is_upper :: "char \<Rightarrow> bool" where
  "is_upper c \<longleftrightarrow> 65 \<le> byte c \<and> byte c \<le> 90"

definition is_space :: "char \<Rightarrow> bool" where
  "is_space c \<longleftrightarrow> byte c = 32 \<or> (9 \<le> byte c \<and> byte c \<le> 13)"

definition lower_char :: "char \<Rightarrow> char" where
  "lower_char c = (if is_upper c then char_of (byte c + 32) else c)"

definition to_lower :: "string \<Rightarrow> string" where
  "to_lower s = map lower_char s"

definition trim_left :: "string \<Rightarrow> string" where
  "trim_left s = dropWhile is_space s"

definition trim_right :: "string \<Rightarrow> string" where
  "trim_right s = rev (dropWhile is_space (rev s))"

definition trim_space :: "string \<Rightarrow> string" where
  "trim_space s = trim_right (trim_left s)"

fun has_prefix :: "string \<Rightarrow> string \<Rightarrow> bool" where
  "has_prefix s [] = True"
| "has_prefix [] (_ # _) = False"
| "has_prefix (c # s) (p # ps) = (c = p \<and> has_prefix s ps)"

definition has_suffix :: "string \<Rightarrow> string \<Rightarrow> bool" where
  "has_suffix s p = has_prefix (rev s) (rev p)"

definition trim_prefix :: "string \<Rightarrow> string \<Rightarrow> string" where
  "trim_prefix s p = (if has_prefix s p then drop (length p) s else s)"

definition trim_suffix :: "string \<Rightarrow> string \<Rightarrow> string" where
  "trim_suffix s p = (if has_suffix s p then take (length s - length p) s else s)"

text \<open>\<open>strings.CutSuffix\<close>: the rest and whether the suffix was there.\<close>

definition cut_suffix :: "string \<Rightarrow> string \<Rightarrow> string \<times> bool" where
  "cut_suffix s p =
     (if has_suffix s p then (take (length s - length p) s, True) else (s, False))"

fun str_contains :: "string \<Rightarrow> string \<Rightarrow> bool" where
  "str_contains [] p = (p = [])"
| "str_contains (c # s) p = (has_prefix (c # s) p \<or> str_contains s p)"

text \<open>\<open>strings.Index\<close> and \<open>LastIndexByte\<close>; \<open>None\<close> is Go's \<open>-1\<close>.\<close>

fun str_index :: "string \<Rightarrow> string \<Rightarrow> nat option" where
  "str_index [] p = (if p = [] then Some 0 else None)"
| "str_index (c # s) p =
     (if has_prefix (c # s) p then Some 0 else map_option Suc (str_index s p))"

fun last_index_byte :: "string \<Rightarrow> char \<Rightarrow> nat option" where
  "last_index_byte [] b = None"
| "last_index_byte (c # s) b =
     (case last_index_byte s b of
        Some i \<Rightarrow> Some (Suc i)
      | None \<Rightarrow> if c = b then Some 0 else None)"

text \<open>\<open>strings.Split\<close> on a one-byte separator.\<close>

fun split_on :: "char \<Rightarrow> string \<Rightarrow> string list" where
  "split_on d [] = [[]]"
| "split_on d (c # s) =
     (if c = d then [] # split_on d s
      else (case split_on d s of [] \<Rightarrow> [[c]] | p # ps \<Rightarrow> (c # p) # ps))"

fun join_with :: "string \<Rightarrow> string list \<Rightarrow> string" where
  "join_with sep [] = []"
| "join_with sep [x] = x"
| "join_with sep (x # y # xs) = x @ sep @ join_with sep (y # xs)"

definition replace_byte :: "char \<Rightarrow> string \<Rightarrow> string \<Rightarrow> string" where
  "replace_byte c r s = concat (map (\<lambda>x. if x = c then r else [x]) s)"

text \<open>Decimal output (\<open>%d\<close>) of a non-negative number, and of any number.\<close>

function nat_string :: "int \<Rightarrow> string" where
  "nat_string n =
     (if n < 10 then [char_of (48 + n)]
      else nat_string (n div 10) @ [char_of (48 + n mod 10)])"
  by pat_completeness auto
termination
  by (relation "measure nat") auto

declare nat_string.simps [simp del]

definition int_string :: "int \<Rightarrow> string" where
  "int_string i = (if i < 0 then CHR ''-'' # nat_string (- i) else nat_string i)"

fun digits_value :: "int \<Rightarrow> string \<Rightarrow> int" where
  "digits_value acc [] = acc"
| "digits_value acc (c # s) = digits_value (acc * 10 + (byte c - 48)) s"

text \<open>\<open>strconv.Atoi\<close> on a 64-bit platform: optional sign, one or more digits, in range.\<close>

definition atoi :: "string \<Rightarrow> int option" where
  "atoi s =
     (let (neg, ds) = (case s of [] \<Rightarrow> (False, [])
                       | c # r \<Rightarrow> if c = CHR ''-'' then (True, r)
                                  else if c = CHR ''+'' then (False, r) else (False, s));
          v = (if neg then - digits_value 0 ds else digits_value 0 ds)
      in if ds \<noteq> [] \<and> list_all is_digit ds \<and> - (2 ^ 63) \<le> v \<and> v < 2 ^ 63 then Some v else None)"

text \<open>\<open>%q\<close>: only the printable ASCII case is used by the program's messages.\<close>

definition quoted :: "string \<Rightarrow> string" where
  "quoted s = ''\"'' @ concat (map (\<lambda>c. if c = CHR ''\"'' \<or> c = CHR 0x5C then [CHR 0x5C, c] else [c]) s)
     @ ''\"''"

subsection \<open>Lemmas\<close>

lemma has_prefix_iff: "has_prefix s p \<longleftrightarrow> (\<exists>r. s = p @ r)"
  by (induction s p rule: has_prefix.induct) auto

lemma has_suffix_iff: "has_suffix s p \<longleftrightarrow> (\<exists>r. s = r @ p)"
proof -
  have "has_suffix s p \<longleftrightarrow> (\<exists>r. rev s = rev p @ r)"
    by (simp add: has_suffix_def has_prefix_iff)
  also have "\<dots> \<longleftrightarrow> (\<exists>r. s = r @ p)"
    by (metis rev_append rev_rev_ident)
  finally show ?thesis .
qed

lemma has_prefix_append [simp]: "has_prefix (p @ r) p"
  by (auto simp: has_prefix_iff)

lemma has_suffix_append [simp]: "has_suffix (r @ p) p"
  by (auto simp: has_suffix_iff)

lemma trim_prefix_append [simp]: "trim_prefix (p @ r) p = r"
  by (simp add: trim_prefix_def)

lemma trim_suffix_append [simp]: "trim_suffix (r @ p) p = r"
  by (simp add: trim_suffix_def)

lemma cut_suffix_append [simp]: "cut_suffix (r @ p) p = (r, True)"
  by (simp add: cut_suffix_def)

lemma str_contains_single: "str_contains s [c] \<longleftrightarrow> c \<in> set s"
  by (induction s) auto

lemma split_on_not_Nil [simp]: "split_on d s \<noteq> []"
  by (cases s) (auto split: list.split)

lemma join_split_on: "join_with [d] (split_on d s) = s"
proof (induction s)
  case Nil
  then show ?case by simp
next
  case (Cons c s)
  obtain p ps where ps: "split_on d s = p # ps"
    by (cases "split_on d s") auto
  with Cons show ?case by (cases ps) auto
qed

lemma split_on_join:
  "ps \<noteq> [] \<Longrightarrow> \<forall>p\<in>set ps. d \<notin> set p \<Longrightarrow> split_on d (join_with [d] ps) = ps"
proof (induction "[d]" ps rule: join_with.induct)
  case 1
  then show ?case by simp
next
  case (2 x)
  have "d \<notin> set x \<Longrightarrow> split_on d x = [x]"
    by (induction x) auto
  with 2 show ?case by simp
next
  case (3 x y xs)
  have "d \<notin> set x \<Longrightarrow> split_on d (x @ d # r) = x # split_on d r" for r
    by (induction x) auto
  with 3 show ?case by simp
qed

lemma split_on_no_sep: "p \<in> set (split_on d s) \<Longrightarrow> d \<notin> set p"
proof (induction s arbitrary: p)
  case (Cons c s)
  then show ?case by (cases "split_on d s") (auto split: if_splits)
qed simp

lemma concat_split_on: "set (concat (split_on d s)) \<subseteq> set s"
proof (induction s)
  case (Cons c s)
  then show ?case by (cases "split_on d s") auto
qed simp

lemma lower_char_not_upper [simp]: "\<not> is_upper (lower_char c)"
  by (auto simp: lower_char_def is_upper_def)

lemma lower_char_idem [simp]: "lower_char (lower_char c) = lower_char c"
  using lower_char_not_upper[of c] by (simp add: lower_char_def[of "lower_char c"])

lemma to_lower_idem [simp]: "to_lower (to_lower s) = to_lower s"
  by (simp add: to_lower_def)

lemma to_lower_id: "\<forall>c\<in>set s. \<not> is_upper c \<Longrightarrow> to_lower s = s"
  by (induction s) (auto simp: to_lower_def lower_char_def)

lemma trim_space_id: "\<forall>c\<in>set s. \<not> is_space c \<Longrightarrow> trim_space s = s"
proof -
  assume a: "\<forall>c\<in>set s. \<not> is_space c"
  have "\<forall>c\<in>set r. \<not> is_space c \<Longrightarrow> dropWhile is_space r = r" for r
    by (cases r) auto
  from this[of s] this[of "rev s"] a show ?thesis
    by (simp add: trim_space_def trim_left_def trim_right_def)
qed

lemma digits_value_append:
  "digits_value acc (s @ [c]) = digits_value acc s * 10 + (byte c - 48)"
  by (induction acc s rule: digits_value.induct) auto

lemma byte_digit: "0 \<le> n \<Longrightarrow> n < 10 \<Longrightarrow> byte (char_of (48 + n)) = 48 + n" for n :: int
  by (simp add: of_char_of)

lemma nat_string_digits: "0 \<le> n \<Longrightarrow> list_all is_digit (nat_string n) \<and> nat_string n \<noteq> []"
proof (induction n rule: nat_string.induct)
  case (1 n)
  have d: "is_digit (char_of (48 + k))" if "0 \<le> k" "k < 10" for k :: int
    using that by (simp add: is_digit_def byte_digit)
  show ?case
  proof (cases "n < 10")
    case True
    with 1 d[of n] show ?thesis by (simp add: nat_string.simps[of n])
  next
    case False
    with 1 d[of "n mod 10"] show ?thesis by (simp add: nat_string.simps[of n])
  qed
qed

lemma digits_value_nat_string [simp]: "0 \<le> n \<Longrightarrow> digits_value 0 (nat_string n) = n"
proof (induction n rule: nat_string.induct)
  case (1 n)
  show ?case
  proof (cases "n < 10")
    case True
    with 1 show ?thesis by (subst nat_string.simps) (simp add: byte_digit)
  next
    case False
    with 1 show ?thesis
      by (subst nat_string.simps) (simp add: digits_value_append byte_digit)
  qed
qed

lemma nat_string_hd: "0 < n \<Longrightarrow> hd (nat_string n) \<noteq> CHR ''0''"
proof (induction n rule: nat_string.induct)
  case (1 n)
  show ?case
  proof (cases "n < 10")
    case True
    have "byte (char_of (48 + n)) \<noteq> byte CHR ''0''"
      using True 1 by (simp add: byte_digit)
    then have "char_of (48 + n) \<noteq> CHR ''0''" by metis
    with True show ?thesis by (subst nat_string.simps) simp
  next
    case False
    with 1 show ?thesis
      using nat_string_digits[of "n div 10"] by (subst nat_string.simps) simp
  qed
qed

lemma nat_string_inj: "0 \<le> m \<Longrightarrow> 0 \<le> n \<Longrightarrow> nat_string m = nat_string n \<longleftrightarrow> m = n"
  by (metis digits_value_nat_string)

lemma length_nat_string: "0 \<le> n \<Longrightarrow> n < 1000 \<Longrightarrow> length (nat_string n) \<le> 3"
  by (simp add: nat_string.simps[of n] nat_string.simps[of "n div 10"]
      nat_string.simps[of "n div 10 div 10"])

lemma length_nat_string_1: "0 \<le> n \<Longrightarrow> length (nat_string n) = 1 \<longleftrightarrow> n < 10"
  using nat_string_digits[of "n div 10"] by (simp add: nat_string.simps[of n])

lemma not_digit_in_nat_string: "0 \<le> n \<Longrightarrow> \<not> is_digit c \<Longrightarrow> c \<notin> set (nat_string n)"
  using nat_string_digits[of n] by (auto simp: list_all_iff)

lemma atoi_nat_string: "0 \<le> n \<Longrightarrow> n < 2 ^ 63 \<Longrightarrow> atoi (nat_string n) = Some n"
proof -
  assume n: "0 \<le> n" "n < 2 ^ 63"
  obtain c r where cr: "nat_string n = c # r"
    using nat_string_digits[of n] n by (cases "nat_string n") auto
  then have "is_digit c" using nat_string_digits[of n] n by simp
  then have "c \<noteq> CHR ''-''" and "c \<noteq> CHR ''+''" by (auto simp: is_digit_def)
  then show ?thesis
    using nat_string_digits[of n] digits_value_nat_string[of n] cr n
    by (auto simp: atoi_def Let_def)
qed

end
