(* ===== verification/NetIP.thy ===== *)
theory NetIP
  imports GoStrings
begin

text \<open>
  The part of Go's \<open>net/netip\<close> the program uses: addresses, prefixes, their parsers and
  printers, containment, masking and the address classes.  The zero \<open>Addr\<close> is
  \<open>NoAddr\<close>; an IPv4 address is a 32-bit word, an IPv6 address a 128-bit word with a zone.
\<close>

unbundle bit_operations_syntax

type_synonym ipv4 = "32 word"
type_synonym ipv6 = "128 word"

datatype addr = NoAddr | V4 ipv4 | V6 ipv6 string

fun is_valid :: "addr \<Rightarrow> bool" where
  "is_valid NoAddr = False"
| "is_valid _ = True"

fun bit_len :: "addr \<Rightarrow> int" where
  "bit_len NoAddr = 0"
| "bit_len (V4 _) = 32"
| "bit_len (V6 _ _) = 128"

fun is4 :: "addr \<Rightarrow> bool" where
  "is4 (V4 _) = True"
| "is4 _ = False"

fun is6 :: "addr \<Rightarrow> bool" where
  "is6 (V6 _ _) = True"
| "is6 _ = False"

fun is_4in6 :: "addr \<Rightarrow> bool" where
  "is_4in6 (V6 a _) = (drop_bit 32 a = 0xFFFF)"
| "is_4in6 _ = False"

fun unmap :: "addr \<Rightarrow> addr" where
  "unmap (V6 a z) = (if drop_bit 32 a = 0xFFFF then V4 (ucast a) else V6 a z)"
| "unmap a = a"

text \<open>Octets of an IPv4 address and the 16-bit groups of an IPv6 address.\<close>

definition octet :: "nat \<Rightarrow> ipv4 \<Rightarrow> int" where
  "octet i a = uint (drop_bit (24 - 8 * i) a AND 0xFF)"

definition group16 :: "nat \<Rightarrow> ipv6 \<Rightarrow> int" where
  "group16 i a = uint (drop_bit (112 - 16 * i) a AND 0xFFFF)"

fun is_unspecified :: "addr \<Rightarrow> bool" where
  "is_unspecified NoAddr = False"
| "is_unspecified (V4 a) = (a = 0)"
| "is_unspecified (V6 a z) = (a = 0 \<and> z = [])"

fun loopback_raw :: "addr \<Rightarrow> bool" where
  "loopback_raw NoAddr = False"
| "loopback_raw (V4 a) = (octet 0 a = 127)"
| "loopback_raw (V6 a _) = (a = 1)"

fun private_raw :: "addr \<Rightarrow> bool" where
  "private_raw NoAddr = False"
| "private_raw (V4 a) =
     (octet 0 a = 10 \<or> (octet 0 a = 172 \<and> octet 1 a div 16 = 1) \<or>
      (octet 0 a = 192 \<and> octet 1 a = 168))"
| "private_raw (V6 a _) = (group16 0 a div 512 = 126)"

fun link_local_unicast_raw :: "addr \<Rightarrow> bool" where
  "link_local_unicast_raw NoAddr = False"
| "link_local_unicast_raw (V4 a) = (octet 0 a = 169 \<and> octet 1 a = 254)"
| "link_local_unicast_raw (V6 a _) = (group16 0 a div 64 = 1018)"

fun multicast_raw :: "addr \<Rightarrow> bool" where
  "multicast_raw NoAddr = False"
| "multicast_raw (V4 a) = (octet 0 a div 16 = 14)"
| "multicast_raw (V6 a _) = (group16 0 a div 256 = 255)"

fun link_local_multicast_raw :: "addr \<Rightarrow> bool" where
  "link_local_multicast_raw NoAddr = False"
| "link_local_multicast_raw (V4 a) = (octet 0 a = 224 \<and> octet 1 a = 0 \<and> octet 2 a = 0)"
| "link_local_multicast_raw (V6 a _) = (group16 0 a div 256 = 255 \<and> group16 0 a mod 16 = 2)"

definition is_loopback :: "addr \<Rightarrow> bool" where "is_loopback a = loopback_raw (unmap a)"
definition is_private :: "addr \<Rightarrow> bool" where "is_private a = private_raw (unmap a)"
definition is_link_local_unicast :: "addr \<Rightarrow> bool" where
  "is_link_local_unicast a = link_local_unicast_raw (unmap a)"
definition is_multicast :: "addr \<Rightarrow> bool" where "is_multicast a = multicast_raw (unmap a)"
definition is_link_local_multicast :: "addr \<Rightarrow> bool" where
  "is_link_local_multicast a = link_local_multicast_raw (unmap a)"

lemmas addr_class_defs = is_loopback_def is_private_def is_link_local_unicast_def
  is_multicast_def is_link_local_multicast_def

subsection \<open>The order of addresses\<close>

text \<open>\<open>Addr.Compare\<close>: bit length first, then the value, then (IPv6) the zone.\<close>

fun addr_key :: "addr \<Rightarrow> int \<times> int \<times> string" where
  "addr_key NoAddr = (0, 0, [])"
| "addr_key (V4 a) = (32, uint a, [])"
| "addr_key (V6 a z) = (128, uint a, z)"

lemma addr_key_inj: "addr_key a = addr_key b \<longleftrightarrow> a = b"
  by (cases a; cases b) (auto simp: word_uint_eq_iff)

instantiation addr :: linorder
begin

definition less_eq_addr :: "addr \<Rightarrow> addr \<Rightarrow> bool" where
  "less_eq_addr a b \<longleftrightarrow> addr_key a \<le> addr_key b"

definition less_addr :: "addr \<Rightarrow> addr \<Rightarrow> bool" where
  "less_addr a b \<longleftrightarrow> addr_key a < addr_key b"

instance
proof
  fix x y z :: addr
  show "x < y \<longleftrightarrow> x \<le> y \<and> \<not> y \<le> x"
    unfolding less_eq_addr_def less_addr_def by (rule less_le_not_le)
  show "x \<le> x" unfolding less_eq_addr_def by (rule order_refl)
  show "x \<le> y \<Longrightarrow> y \<le> z \<Longrightarrow> x \<le> z" unfolding less_eq_addr_def by (rule order_trans)
  show "x \<le> y \<Longrightarrow> y \<le> x \<Longrightarrow> x = y"
    unfolding less_eq_addr_def using addr_key_inj[of x y] by (meson order_antisym)
  show "x \<le> y \<or> y \<le> x" unfolding less_eq_addr_def by (rule linear)
qed

end

lemma less_addr_code [simp]: "a < b \<longleftrightarrow> addr_key a < addr_key b" for a b :: addr
  by (rule less_addr_def)

lemma less_eq_addr_code [simp]: "a \<le> b \<longleftrightarrow> addr_key a \<le> addr_key b" for a b :: addr
  by (rule less_eq_addr_def)

subsection \<open>Prefixes\<close>

text \<open>
  A prefix is an address and a length; a length out of range is stored as \<open>-1\<close>, which is
  what \<open>Bits\<close> reports then.  The zone is dropped by \<open>PrefixFrom\<close>.
\<close>

record prefix =
  p_addr :: addr
  p_bits :: int

fun without_zone :: "addr \<Rightarrow> addr" where
  "without_zone (V6 a _) = V6 a []"
| "without_zone a = a"

definition prefix_from :: "addr \<Rightarrow> int \<Rightarrow> prefix" where
  "prefix_from a b =
     \<lparr>p_addr = without_zone a,
      p_bits = (if is_valid a \<and> 0 \<le> b \<and> b \<le> bit_len a then b else - 1)\<rparr>"

definition zero_prefix :: prefix where
  "zero_prefix = \<lparr>p_addr = NoAddr, p_bits = - 1\<rparr>"

definition prefix_valid :: "prefix \<Rightarrow> bool" where
  "prefix_valid p \<longleftrightarrow> 0 \<le> p_bits p"

definition mask_to :: "nat \<Rightarrow> 'a::len word \<Rightarrow> 'a word" where
  "mask_to b a = push_bit (LENGTH('a) - b) (drop_bit (LENGTH('a) - b) a)"

text \<open>\<open>Prefix.Masked\<close>; a prefix whose length is out of range becomes the zero prefix.\<close>

definition masked :: "prefix \<Rightarrow> prefix" where
  "masked p =
     (if \<not> prefix_valid p \<or> p_bits p > bit_len (p_addr p) then zero_prefix
      else (case p_addr p of
              NoAddr \<Rightarrow> zero_prefix
            | V4 a \<Rightarrow> prefix_from (V4 (mask_to (nat (p_bits p)) a)) (p_bits p)
            | V6 a _ \<Rightarrow> prefix_from (V6 (mask_to (nat (p_bits p)) a) []) (p_bits p)))"

definition same_net :: "nat \<Rightarrow> 'a::len word \<Rightarrow> 'a word \<Rightarrow> bool" where
  "same_net b x y \<longleftrightarrow> drop_bit (LENGTH('a) - b) (x XOR y) = 0"

fun p_contains :: "prefix \<Rightarrow> addr \<Rightarrow> bool" where
  "p_contains p (V4 x) =
     (case p_addr p of V4 n \<Rightarrow> prefix_valid p \<and> same_net (nat (p_bits p)) x n | _ \<Rightarrow> False)"
| "p_contains p (V6 x z) =
     (case p_addr p of V6 n _ \<Rightarrow> prefix_valid p \<and> z = [] \<and> same_net (nat (p_bits p)) x n | _ \<Rightarrow> False)"
| "p_contains p NoAddr = False"

subsection \<open>Parsing\<close>

definition parse_octet :: "string \<Rightarrow> int option" where
  "parse_octet s =
     (if s \<noteq> [] \<and> length s \<le> 3 \<and> list_all is_digit s \<and> (length s = 1 \<or> hd s \<noteq> CHR ''0'')
         \<and> digits_value 0 s \<le> 255
      then Some (digits_value 0 s) else None)"

definition ipv4_of :: "int \<Rightarrow> int \<Rightarrow> int \<Rightarrow> int \<Rightarrow> ipv4" where
  "ipv4_of a b c d = word_of_int (((a * 256 + b) * 256 + c) * 256 + d)"

definition parse_ipv4 :: "string \<Rightarrow> ipv4 option" where
  "parse_ipv4 s =
     (case split_on CHR ''.'' s of
        [a, b, c, d] \<Rightarrow>
          (case (parse_octet a, parse_octet b, parse_octet c, parse_octet d) of
             (Some a, Some b, Some c, Some d) \<Rightarrow> Some (ipv4_of a b c d)
           | _ \<Rightarrow> None)
      | _ \<Rightarrow> None)"

definition hex_val :: "char \<Rightarrow> int option" where
  "hex_val c =
     (let b = byte c in
      if 48 \<le> b \<and> b \<le> 57 then Some (b - 48)
      else if 97 \<le> b \<and> b \<le> 102 then Some (b - 87)
      else if 65 \<le> b \<and> b \<le> 70 then Some (b - 55)
      else None)"

text \<open>One hexadecimal group: at most four digits; the digits' value and the rest.\<close>

fun take_hex :: "nat \<Rightarrow> int \<Rightarrow> string \<Rightarrow> (nat \<times> int \<times> string) option" where
  "take_hex n acc [] = Some (n, acc, [])"
| "take_hex n acc (c # s) =
     (case hex_val c of
        None \<Rightarrow> Some (n, acc, c # s)
      | Some v \<Rightarrow> if n > 3 then None else take_hex (Suc n) (acc * 16 + v) s)"

text \<open>
  The loop of \<open>parseIPv6\<close>: the groups read so far and the position of the ellipsis.
  Each turn adds one group (or, for a trailing dotted quad, two) and at most eight fit, so
  eight units of fuel always suffice.
\<close>

fun ipv6_loop :: "nat \<Rightarrow> string \<Rightarrow> int list \<Rightarrow> nat option \<Rightarrow> (int list \<times> nat option \<times> string) option" where
  "ipv6_loop 0 s gs e = Some (gs, e, s)"
| "ipv6_loop (Suc fuel) s gs e =
     (if length gs \<ge> 8 then Some (gs, e, s) else
      case take_hex 0 0 s of
        None \<Rightarrow> None
      | Some (n, v, r) \<Rightarrow>
          if n = 0 then None
          else if r \<noteq> [] \<and> hd r = CHR ''.'' then
            (if e = None \<and> length gs \<noteq> 6 then None
             else if length gs > 6 then None
             else (case parse_ipv4 s of
                     None \<Rightarrow> None
                   | Some a \<Rightarrow> Some (gs @ [uint (drop_bit 16 a), uint (a AND 0xFFFF)], e, [])))
          else
            (let gs' = gs @ [v] in
             if r = [] then Some (gs', e, [])
             else if hd r \<noteq> CHR '':'' then None
             else if length r = 1 then None
             else (let r = tl r in
                   if hd r = CHR '':'' then
                     (if e \<noteq> None then None
                      else if tl r = [] then Some (gs', Some (length gs'), [])
                      else ipv6_loop fuel (tl r) gs' (Some (length gs')))
                   else ipv6_loop fuel r gs' e)))"

definition ipv6_of_groups :: "int list \<Rightarrow> ipv6" where
  "ipv6_of_groups gs = word_of_int (foldl (\<lambda>acc g. acc * 65536 + g) 0 gs)"

definition parse_ipv6_body :: "string \<Rightarrow> ipv6 option" where
  "parse_ipv6_body s =
     (let (s', e) = (if has_prefix s ''::'' then (drop 2 s, Some 0) else (s, None)) in
      if e \<noteq> None \<and> s' = [] then Some 0
      else (case ipv6_loop 8 s' [] e of
              None \<Rightarrow> None
            | Some (gs, e', rest) \<Rightarrow>
                if rest \<noteq> [] then None
                else if length gs < 8 then
                  (case e' of
                     None \<Rightarrow> None
                   | Some k \<Rightarrow> Some (ipv6_of_groups (take k gs @ replicate (8 - length gs) 0 @ drop k gs)))
                else if e' \<noteq> None then None
                else Some (ipv6_of_groups gs)))"

definition parse_ipv6 :: "string \<Rightarrow> addr option" where
  "parse_ipv6 s =
     (case str_index s ''%'' of
        None \<Rightarrow> map_option (\<lambda>a. V6 a []) (parse_ipv6_body s)
      | Some i \<Rightarrow> if drop (Suc i) s = [] then None
                  else map_option (\<lambda>a. V6 a (drop (Suc i) s)) (parse_ipv6_body (take i s)))"

text \<open>\<open>ParseAddr\<close> looks for the first of dot, colon and percent.\<close>

definition parse_addr :: "string \<Rightarrow> addr option" where
  "parse_addr s =
     (case find (\<lambda>c. c = CHR ''.'' \<or> c = CHR '':'' \<or> c = CHR ''%'') s of
        None \<Rightarrow> None
      | Some c \<Rightarrow> if c = CHR ''.'' then map_option V4 (parse_ipv4 s)
                  else if c = CHR '':'' then parse_ipv6 s else None)"

fun has_zone :: "addr \<Rightarrow> bool" where
  "has_zone (V6 _ z) = (z \<noteq> [])"
| "has_zone _ = False"

definition parse_prefix :: "string \<Rightarrow> prefix option" where
  "parse_prefix s =
     (case last_index_byte s CHR ''/'' of
        None \<Rightarrow> None
      | Some i \<Rightarrow>
          (case parse_addr (take i s) of
             None \<Rightarrow> None
           | Some a \<Rightarrow>
               if has_zone a then None
               else (let bs = drop (Suc i) s in
                     if length bs > 1 \<and> \<not> (49 \<le> byte (hd bs) \<and> byte (hd bs) \<le> 57) then None
                     else (case atoi bs of
                             None \<Rightarrow> None
                           | Some b \<Rightarrow> if b < 0 \<or> b > bit_len a then None
                                       else Some (prefix_from a b)))))"

subsection \<open>Printing\<close>

definition ipv4_string :: "ipv4 \<Rightarrow> string" where
  "ipv4_string a = join_with ''.'' (map (\<lambda>i. nat_string (octet i a)) [0, 1, 2, 3])"

definition hex_digit :: "int \<Rightarrow> char" where
  "hex_digit k = (if k < 10 then char_of (48 + k) else char_of (87 + k))"

function hex_string :: "int \<Rightarrow> string" where
  "hex_string n = (if n < 16 then [hex_digit n] else hex_string (n div 16) @ [hex_digit (n mod 16)])"
  by pat_completeness auto
termination
  by (relation "measure nat") auto

declare hex_string.simps [simp del]

definition zero_run :: "int list \<Rightarrow> nat \<Rightarrow> nat" where
  "zero_run gs i = length (takeWhile (\<lambda>g. g = 0) (drop i gs))"

text \<open>The first longest run of at least two zero groups.\<close>

definition best_run :: "int list \<Rightarrow> (nat \<times> nat) option" where
  "best_run gs =
     foldl (\<lambda>r i. let l = zero_run gs i in
              if l \<ge> 2 \<and> l > (case r of None \<Rightarrow> 0 | Some (s, e) \<Rightarrow> e - s) then Some (i, i + l) else r)
       None [0..<8]"

definition ipv6_body_string :: "ipv6 \<Rightarrow> string" where
  "ipv6_body_string a =
     (let gs = map (\<lambda>i. group16 i a) [0..<8];
          hexes = (\<lambda>xs. join_with '':'' (map hex_string xs))
      in case best_run gs of
           None \<Rightarrow> hexes gs
         | Some (s, e) \<Rightarrow> hexes (take s gs) @ ''::'' @ hexes (drop e gs))"

fun addr_string :: "addr \<Rightarrow> string" where
  "addr_string NoAddr = ''invalid IP''"
| "addr_string (V4 a) = ipv4_string a"
| "addr_string (V6 a z) =
     (if drop_bit 32 a = 0xFFFF then ''::ffff:'' @ ipv4_string (ucast a) else ipv6_body_string a)
     @ (if z = [] then [] else CHR ''%'' # z)"

definition prefix_string :: "prefix \<Rightarrow> string" where
  "prefix_string p =
     (if \<not> prefix_valid p then ''invalid Prefix''
      else addr_string (p_addr p) @ ''/'' @ int_string (p_bits p))"

end
