(* ===== verification/Model.thy ===== *)
theory Model
  imports NetIP
begin

text \<open>
  The domain types of \<open>internal/model/model.go\<close>.  A Go string type with named constants is a
  datatype with one constructor per constant and an \<open>Other\<close> constructor for any other
  string; a struct is a record whose fields carry a short prefix.  Optional pointers are
  \<open>option\<close>; the credential of a node is carried in clear, as in the renderer's snapshot.
\<close>

datatype mode = ModeA | ModeB | ModeC | ModeOther string

definition mode_valid :: "mode \<Rightarrow> bool" where
  "mode_valid m \<longleftrightarrow> m = ModeA \<or> m = ModeB \<or> m = ModeC"

fun mode_string :: "mode \<Rightarrow> string" where
  "mode_string ModeA = ''A''"
| "mode_string ModeB = ''B''"
| "mode_string ModeC = ''C''"
| "mode_string (ModeOther s) = s"

datatype component =
    ComponentXray | ComponentMosdns | ComponentNftables | ComponentFRR | ComponentWG

definition Components :: "component list" where
  "Components = [ComponentXray, ComponentMosdns, ComponentNftables, ComponentFRR, ComponentWG]"

fun component_string :: "component \<Rightarrow> string" where
  "component_string ComponentXray = ''xray''"
| "component_string ComponentMosdns = ''mosdns''"
| "component_string ComponentNftables = ''nftables''"
| "component_string ComponentFRR = ''frr''"
| "component_string ComponentWG = ''wireguard''"

datatype component_status =
    StatusUnknown | StatusActive | StatusDegraded | StatusDown | StatusDisabled

record component_health =
  h_name :: component
  h_status :: component_status
  h_version :: string
  h_last_error :: string
  h_last_apply :: "time option"

record meta =
  m_generation :: int
  m_last_applied :: int
  m_updated_at :: time

datatype protocol =
    ProtocolVMess | ProtocolVLESS | ProtocolTrojan | ProtocolShadowsocks | ProtocolSocks
  | ProtocolHTTP | ProtocolWireGuard | ProtocolHysteria | ProtocolCustom | ProtocolOther string

definition protocol_string :: "protocol \<Rightarrow> string" where
  "protocol_string p =
     (case p of ProtocolVMess \<Rightarrow> ''vmess'' | ProtocolVLESS \<Rightarrow> ''vless'' | ProtocolTrojan \<Rightarrow> ''trojan''
      | ProtocolShadowsocks \<Rightarrow> ''shadowsocks'' | ProtocolSocks \<Rightarrow> ''socks'' | ProtocolHTTP \<Rightarrow> ''http''
      | ProtocolWireGuard \<Rightarrow> ''wireguard'' | ProtocolHysteria \<Rightarrow> ''hysteria'' | ProtocolCustom \<Rightarrow> ''custom''
      | ProtocolOther s \<Rightarrow> s)"

record node =
  n_id :: string
  n_name :: string
  n_protocol :: protocol
  n_address :: string
  n_port :: int
  n_params :: string
  n_credential :: string
  n_enabled :: bool
  n_is_default :: bool
  n_latency_ms :: "int option"
  n_created_at :: time
  n_updated_at :: time

datatype group_kind = GroupFailover | GroupLoadBalance | GroupKindOther string

fun group_kind_string :: "group_kind \<Rightarrow> string" where
  "group_kind_string GroupFailover = ''failover''"
| "group_kind_string GroupLoadBalance = ''loadbalance''"
| "group_kind_string (GroupKindOther s) = s"

record outbound_group =
  g_id :: string
  g_name :: string
  g_kind :: group_kind
  g_member_ids :: "string list"
  g_strategy :: string
  g_created_at :: time
  g_updated_at :: time

record rule_set =
  rs_id :: string
  rs_name :: string
  rs_position :: int
  rs_enabled :: bool
  rs_builtin :: bool
  rs_created_at :: time
  rs_updated_at :: time

datatype match_kind = MatchDomain | MatchIP | MatchGeosite | MatchGeoIP | MatchOther string

datatype action_kind =
    ActionDirect | ActionProxy | ActionBlock | ActionNode | ActionGroup | ActionOther string

fun match_kind_string :: "match_kind \<Rightarrow> string" where
  "match_kind_string MatchDomain = ''domain''"
| "match_kind_string MatchIP = ''ip''"
| "match_kind_string MatchGeosite = ''geosite''"
| "match_kind_string MatchGeoIP = ''geoip''"
| "match_kind_string (MatchOther s) = s"

fun action_kind_string :: "action_kind \<Rightarrow> string" where
  "action_kind_string ActionDirect = ''direct''"
| "action_kind_string ActionProxy = ''proxy''"
| "action_kind_string ActionBlock = ''block''"
| "action_kind_string ActionNode = ''node''"
| "action_kind_string ActionGroup = ''group''"
| "action_kind_string (ActionOther s) = s"

record rule =
  ru_id :: string
  ru_set_id :: string
  ru_position :: int
  ru_match_kind :: match_kind
  ru_match_value :: string
  ru_action_kind :: action_kind
  ru_action_ref :: string
  ru_enabled :: bool
  ru_remark :: string
  ru_created_at :: time
  ru_updated_at :: time

datatype device_kind = DeviceMAC | DeviceIP | DeviceCIDR | DeviceKindOther string

datatype device_action = DeviceProxy | DeviceDirect | DeviceReject | DeviceActionOther string

definition device_action_string :: "device_action \<Rightarrow> string" where
  "device_action_string a = (case a of DeviceProxy \<Rightarrow> ''proxy'' | DeviceDirect \<Rightarrow> ''direct''
     | DeviceReject \<Rightarrow> ''reject'' | DeviceActionOther s \<Rightarrow> s)"

record device_policy =
  dp_id :: string
  dp_kind :: device_kind
  dp_value :: string
  dp_action :: device_action
  dp_remark :: string
  dp_created_at :: time
  dp_updated_at :: time

record bypass_destination =
  bd_id :: string
  bd_cidr :: string
  bd_remark :: string
  bd_created_at :: time

record dns_forward_rule =
  fw_suffix :: string
  fw_upstream :: string

record dns_config =
  dc_local_upstreams :: "string list"
  dc_remote_upstreams :: "string list"
  dc_cache_size :: int
  dc_lazy_cache :: bool
  dc_lazy_cache_ttl :: int
  dc_log_level :: string
  dc_hijack :: bool
  dc_block_dot :: bool
  dc_tap :: bool
  dc_ecs_subnet :: string
  dc_forward_rules :: "dns_forward_rule list"
  dc_ipv6_mode :: string
  dc_updated_at :: time

record network_config =
  nc_mode :: mode
  nc_management_iface :: string
  nc_service_iface :: string
  nc_fakeip_pool :: string
  nc_tproxy_port :: int
  nc_lan_default_policy :: string
  nc_ospf_push_batch :: int
  nc_ospf_push_interval :: int
  nc_ospf_resolve_workers :: int
  nc_ospf_publish_allow :: "string list"
  nc_node_failover_mode :: string
  nc_sniff_override :: bool
  nc_updated_at :: time

record changeset =
  cs_id :: string
  cs_generation :: int
  cs_actor :: string
  cs_summary :: string
  cs_diff :: string
  cs_reverted_by :: string
  cs_created_at :: time

record apply_log_entry =
  al_id :: int
  al_generation :: int
  al_component :: component
  al_action :: string
  al_ok :: bool
  al_duration_ms :: int
  al_error :: string
  al_at :: time

datatype event_level = LevelDebug | LevelInfo | LevelWarn | LevelError

record log_event =
  ev_id :: int
  ev_at :: time
  ev_level :: event_level
  ev_module :: string
  ev_type :: string
  ev_message :: string
  ev_trace_id :: string
  ev_actor :: string
  ev_details :: string

text \<open>A rule, node or group with every field at its zero value, for building examples.\<close>

definition zero_rule :: rule where
  "zero_rule = \<lparr>ru_id = [], ru_set_id = [], ru_position = 0, ru_match_kind = MatchOther [],
     ru_match_value = [], ru_action_kind = ActionOther [], ru_action_ref = [], ru_enabled = False,
     ru_remark = [], ru_created_at = zero_time, ru_updated_at = zero_time\<rparr>"

definition zero_node :: node where
  "zero_node = \<lparr>n_id = [], n_name = [], n_protocol = ProtocolOther [], n_address = [], n_port = 0,
     n_params = [], n_credential = [], n_enabled = False, n_is_default = False, n_latency_ms = None,
     n_created_at = zero_time, n_updated_at = zero_time\<rparr>"

definition zero_rule_set :: rule_set where
  "zero_rule_set = \<lparr>rs_id = [], rs_name = [], rs_position = 0, rs_enabled = False, rs_builtin = False,
     rs_created_at = zero_time, rs_updated_at = zero_time\<rparr>"

definition zero_group :: outbound_group where
  "zero_group = \<lparr>g_id = [], g_name = [], g_kind = GroupKindOther [], g_member_ids = [], g_strategy = [],
     g_created_at = zero_time, g_updated_at = zero_time\<rparr>"

definition zero_network_config :: network_config where
  "zero_network_config = \<lparr>nc_mode = ModeOther [], nc_management_iface = [], nc_service_iface = [],
     nc_fakeip_pool = [], nc_tproxy_port = 0, nc_lan_default_policy = [], nc_ospf_push_batch = 0,
     nc_ospf_push_interval = 0, nc_ospf_resolve_workers = 0, nc_ospf_publish_allow = [],
     nc_node_failover_mode = [], nc_sniff_override = False, nc_updated_at = zero_time\<rparr>"

definition zero_dns_config :: dns_config where
  "zero_dns_config = \<lparr>dc_local_upstreams = [], dc_remote_upstreams = [], dc_cache_size = 0,
     dc_lazy_cache = False, dc_lazy_cache_ttl = 0, dc_log_level = [], dc_hijack = False,
     dc_block_dot = False, dc_tap = False, dc_ecs_subnet = [], dc_forward_rules = [],
     dc_ipv6_mode = [], dc_updated_at = zero_time\<rparr>"

end
