(* ===== verification/Desired.thy ===== *)
theory Desired
  imports Model
begin

text \<open>
  \<open>internal/desired/snapshot.go\<close>: the snapshot of the desired state, its queries, and the
  loader that reads it statement by statement from a database other connections may be
  writing.  A database history maps the tick of each statement to the database it sees.
\<close>

text \<open>One cached DNS answer (\<open>store.ResolvedEntry\<close>).\<close>

record resolved_entry =
  re_domain :: string
  re_group :: string
  re_ips :: "string list"
  re_ttl :: int
  re_resolved_at :: time
  re_expires_at :: time
  re_fail_count :: int
  re_last_error :: string

record snapshot =
  s_generation :: int
  s_network :: network_config
  s_dns :: dns_config
  s_nodes :: "node list"
  s_groups :: "outbound_group list"
  s_rule_sets :: "rule_set list"
  s_rules :: "rule list"
  s_device_policies :: "device_policy list"
  s_bypass :: "bypass_destination list"
  s_resolved :: "resolved_entry list"
  s_protected_hosts :: "string list"

subsection \<open>Queries\<close>

definition snap_node :: "snapshot \<Rightarrow> string \<Rightarrow> node option" where
  "snap_node s i = find (\<lambda>n. n_id n = i) (s_nodes s)"

definition snap_group :: "snapshot \<Rightarrow> string \<Rightarrow> outbound_group option" where
  "snap_group s i = find (\<lambda>g. g_id g = i) (s_groups s)"

definition EnabledNodes :: "snapshot \<Rightarrow> node list" where
  "EnabledNodes s = filter n_enabled (s_nodes s)"

definition DefaultNode :: "snapshot \<Rightarrow> node option" where
  "DefaultNode s =
     (case find n_is_default (EnabledNodes s) of
        Some n \<Rightarrow> Some n
      | None \<Rightarrow> (case EnabledNodes s of [n] \<Rightarrow> Some n | _ \<Rightarrow> None))"

definition ActiveRules :: "snapshot \<Rightarrow> rule list" where
  "ActiveRules s =
     (let enabled_sets = map rs_id (filter rs_enabled (s_rule_sets s))
      in filter (\<lambda>r. ru_enabled r \<and> ru_set_id r \<in> set enabled_sets) (s_rules s))"

lemma snap_node_Some: "snap_node s i = Some n \<Longrightarrow> n \<in> set (s_nodes s) \<and> n_id n = i"
  unfolding snap_node_def by (drule find_SomeD)

lemma snap_group_Some: "snap_group s i = Some g \<Longrightarrow> g \<in> set (s_groups s) \<and> g_id g = i"
  unfolding snap_group_def by (drule find_SomeD)

lemma set_EnabledNodes [simp]: "n \<in> set (EnabledNodes s) \<longleftrightarrow> n \<in> set (s_nodes s) \<and> n_enabled n"
  by (auto simp: EnabledNodes_def)

lemma DefaultNode_Some:
  assumes "DefaultNode s = Some n"
  shows "n \<in> set (s_nodes s) \<and> n_enabled n"
proof -
  have "n \<in> set (EnabledNodes s)"
  proof (cases "find n_is_default (EnabledNodes s)")
    case None
    with assms have "EnabledNodes s = [n]" by (auto simp: DefaultNode_def split: list.splits)
    then show ?thesis by simp
  next
    case (Some m)
    with assms find_SomeD[OF Some] show ?thesis by (simp add: DefaultNode_def)
  qed
  then show ?thesis by simp
qed

lemma set_ActiveRules:
  "r \<in> set (ActiveRules s) \<longleftrightarrow> r \<in> set (s_rules s) \<and> ru_enabled r \<and>
     (\<exists>rs\<in>set (s_rule_sets s). rs_enabled rs \<and> rs_id rs = ru_set_id r)"
  by (auto simp: ActiveRules_def) (metis (mono_tags, lifting) image_iff mem_Collect_eq)

subsection \<open>Loading\<close>




definition bind_result :: "'a result \<Rightarrow> ('a \<Rightarrow> 'b result) \<Rightarrow> 'b result" where
  "bind_result r f = (case r of Inl e \<Rightarrow> Inl e | Inr x \<Rightarrow> f x)"

lemma bind_result_Inr [simp]: "bind_result r f = Inr y \<longleftrightarrow> (\<exists>x. r = Inr x \<and> f x = Inr y)"
  by (cases r) (auto simp: bind_result_def)

lemma bind_result_simps [simp]: "bind_result (Inl e) f = Inl e" "bind_result (Inr x) f = f x"
  by (simp_all add: bind_result_def)




subsection \<open>Consistency of a loaded snapshot\<close>













end
