(* ===== verification/NetIPFacts.thy ===== *)
theory NetIPFacts
  imports NetIP
begin

text \<open>
  The laws of \<open>net/netip\<close> the components rely on: prefixes as sets of addresses, masking,
  transitivity of containment, the octets of an IPv4 address, and the round trips of the
  IPv4 printers and parsers.
\<close>

subsection \<open>Networks as sets of addresses\<close>

lemma same_net_iff:
  "same_net b x y \<longleftrightarrow> drop_bit (LENGTH('a) - b) x = drop_bit (LENGTH('a) - b) y"
  for x y :: "'a::len word"
  unfolding same_net_def drop_bit_xor by (simp add: bit_eq_iff bit_xor_iff)

lemma same_net_refl [simp]: "same_net b x x"
  by (simp add: same_net_iff)

lemma same_net_sym: "same_net b x y \<Longrightarrow> same_net b y x"
  by (simp add: same_net_iff)

lemma same_net_trans: "same_net b x y \<Longrightarrow> same_net b y z \<Longrightarrow> same_net b x z"
  by (simp add: same_net_iff)

lemma same_net_shorter:
  fixes x y :: "'a::len word"
  assumes "same_net b x y" and "b' \<le> b" and "b \<le> LENGTH('a)"
  shows "same_net b' x y"
proof -
  have "drop_bit (LENGTH('a) - b') z = drop_bit (b - b') (drop_bit (LENGTH('a) - b) z)" for z :: "'a word"
    using assms by (simp add: drop_bit_drop_bit)
  with assms(1) show ?thesis by (simp only: same_net_iff)
qed

lemma drop_mask_to:
  "b \<le> LENGTH('a) \<Longrightarrow> drop_bit (LENGTH('a) - b) (mask_to b a) = drop_bit (LENGTH('a) - b) a"
  for a :: "'a::len word"
  unfolding mask_to_def
  by (intro bit_eqI) (auto simp: bit_drop_bit_eq bit_push_bit_iff dest: bit_imp_le_length)

lemma same_net_mask_to:
  "b \<le> LENGTH('a) \<Longrightarrow> same_net b x (mask_to b a) \<longleftrightarrow> same_net b x a"
  for a :: "'a::len word"
  by (simp add: same_net_iff drop_mask_to)

lemma mask_to_idem [simp]:
  "b \<le> LENGTH('a) \<Longrightarrow> mask_to b (mask_to b a) = mask_to b a"
  for a :: "'a::len word"
  unfolding mask_to_def[of b "mask_to b a"] drop_mask_to by (simp add: mask_to_def)

lemma mask_to_eq_iff:
  "b \<le> LENGTH('a) \<Longrightarrow> mask_to b x = mask_to b y \<longleftrightarrow> same_net b x y"
  for x y :: "'a::len word"
proof -
  assume b: "b \<le> LENGTH('a)"
  have "mask_to b x = mask_to b y \<Longrightarrow> same_net b x y"
    using drop_mask_to[OF b, of x] drop_mask_to[OF b, of y] by (simp add: same_net_iff)
  then show ?thesis by (auto simp: same_net_iff mask_to_def)
qed

lemma octet_same_net:
  assumes "same_net b x y" and "8 * (i + 1) \<le> b" and "b \<le> 32"
  shows "octet i x = octet i y"
proof -
  have "same_net (8 * (i + 1)) x y"
    by (rule same_net_shorter[OF assms(1)]) (use assms in auto)
  then have "drop_bit (LENGTH(32) - 8 * (i + 1)) x = drop_bit (LENGTH(32) - 8 * (i + 1)) y"
    by (simp only: same_net_iff)
  moreover have "LENGTH(32) - 8 * (i + 1) = 24 - 8 * i" by (simp add: diff_mult_distrib2)
  ultimately show ?thesis by (simp only: octet_def)
qed

lemma uint_drop_bit_32: "uint (drop_bit k (a::ipv4)) = uint a div 2 ^ k"
proof -
  have "take_bit LENGTH(32) (uint a) = uint a" by (rule take_bit_int_eq_self) (use uint_lt2p[of a] in auto)
  then show ?thesis by (simp only: unsigned_drop_bit_eq) (simp add: drop_bit_eq_div)
qed

lemma octet_uint: "octet i a = uint a div 2 ^ (24 - 8 * i) mod 256"
proof -
  have "(0xFF :: ipv4) = mask 8" by (simp add: mask_eq_decr_exp)
  then have "octet i a = uint (take_bit 8 (drop_bit (24 - 8 * i) a))"
    by (simp add: octet_def take_bit_eq_mask)
  also have "\<dots> = take_bit 8 (uint (drop_bit (24 - 8 * i) a))"
    by (simp add: unsigned_take_bit_eq)
  finally show ?thesis by (simp add: uint_drop_bit_32 take_bit_eq_mod)
qed

lemma octet_range: "0 \<le> octet i a \<and> octet i a < 256"
  by (simp add: octet_uint)

text \<open>Well-formed prefixes: what the constructors of \<open>netip\<close> produce.\<close>

definition wf_prefix :: "prefix \<Rightarrow> bool" where
  "wf_prefix p \<longleftrightarrow> - 1 \<le> p_bits p \<and> (p_bits p = - 1 \<or> p_bits p \<le> bit_len (p_addr p)) \<and>
     (p_addr p = NoAddr \<longrightarrow> p_bits p = - 1) \<and> \<not> has_zone (p_addr p)"

lemma wf_prefix_from [simp, intro]: "wf_prefix (prefix_from a b)"
  by (cases a) (auto simp: wf_prefix_def prefix_from_def)

lemma wf_zero_prefix [simp]: "wf_prefix zero_prefix"
  by (simp add: wf_prefix_def zero_prefix_def)

lemma wf_masked [simp, intro]: "wf_prefix (masked p)"
  by (auto simp: masked_def split: addr.split)

lemma parse_prefix_wf:
  assumes "parse_prefix s = Some p"
  shows "wf_prefix p \<and> prefix_valid p"
proof -
  obtain a b where "p = prefix_from a b" "0 \<le> b" "b \<le> bit_len a" "is_valid a"
  proof -
    have valid: "parse_addr t = Some a \<Longrightarrow> is_valid a" for t a
      by (auto simp: parse_addr_def parse_ipv6_def split: option.splits if_splits)
    show ?thesis using assms valid that
      unfolding parse_prefix_def Let_def
      by (force split: option.splits if_splits simp: not_less)
  qed
  then show ?thesis by (simp add: prefix_valid_def) (simp add: prefix_from_def)
qed

definition v4_prefix :: "ipv4 \<Rightarrow> int \<Rightarrow> prefix" where
  "v4_prefix n b = \<lparr>p_addr = V4 n, p_bits = b\<rparr>"

lemma v4_prefix_simps [simp]:
  "p_addr (v4_prefix n b) = V4 n" "p_bits (v4_prefix n b) = b"
  by (simp_all add: v4_prefix_def)

lemma wf_prefix_v4_cases:
  assumes "wf_prefix p" "is4 (p_addr p)" "prefix_valid p"
  obtains n b where "p = v4_prefix n (int b)" "b \<le> 32"
proof -
  from assms obtain n where n: "p_addr p = V4 n" by (cases "p_addr p") auto
  with assms have "0 \<le> p_bits p" "p_bits p \<le> 32" by (auto simp: wf_prefix_def prefix_valid_def)
  moreover have "p = v4_prefix n (p_bits p)" using n by (simp add: v4_prefix_def)
  ultimately show ?thesis
    by (intro that[of n "nat (p_bits p)"]) auto
qed

lemma contains_v4 [simp]:
  "p_contains (v4_prefix n (int b)) (V4 x) \<longleftrightarrow> same_net b x n"
  by (simp add: prefix_valid_def)

lemma masked_v4:
  "b \<le> 32 \<Longrightarrow> masked (v4_prefix n (int b)) = v4_prefix (mask_to b n) (int b)"
  by (simp add: masked_def prefix_valid_def prefix_from_def v4_prefix_def)

lemma contains_masked: "wf_prefix p \<Longrightarrow> p_contains (masked p) a = p_contains p a"
proof (cases "prefix_valid p")
  case True
  assume "wf_prefix p"
  with True show ?thesis
    by (cases "p_addr p"; cases a)
       (auto simp: masked_def prefix_from_def prefix_valid_def wf_prefix_def zero_prefix_def same_net_mask_to)
next
  case False
  then show ?thesis
    by (cases a) (auto simp: masked_def zero_prefix_def split: addr.split)
qed

text \<open>A prefix at most as long that contains the network address contains the whole prefix.\<close>

lemma contains_trans:
  assumes "wf_prefix p" "wf_prefix q" "p_bits p \<le> p_bits q"
    and "p_contains p (p_addr q)" and "p_contains q a"
  shows "p_contains p a"
proof -
  have step: "same_net (nat (p_bits p)) x z"
    if "same_net (nat (p_bits q)) x y" "same_net (nat (p_bits p)) y z" "nat (p_bits q) \<le> LENGTH('a)"
    for x y z :: "'a::len word"
  proof -
    have "same_net (nat (p_bits p)) x y"
      by (rule same_net_shorter[OF that(1)]) (use that assms(3) in auto)
    then show ?thesis using that(2) by (rule same_net_trans)
  qed
  show ?thesis using assms
    by (cases a; cases "p_addr q"; cases "p_addr p")
       (auto simp: wf_prefix_def prefix_valid_def intro: step)
qed

subsection \<open>Round trips\<close>

lemma dot_not_in_nat_string: "0 \<le> n \<Longrightarrow> CHR ''.'' \<notin> set (nat_string n)"
  by (rule not_digit_in_nat_string) (auto simp: is_digit_def)

lemma parse_octet_nat_string: "0 \<le> n \<Longrightarrow> n < 256 \<Longrightarrow> parse_octet (nat_string n) = Some n"
  using nat_string_digits[of n] length_nat_string[of n] nat_string_hd[of n] length_nat_string_1[of n]
  by (auto simp: parse_octet_def)

lemma ipv4_of_octets: "ipv4_of (octet 0 a) (octet 1 a) (octet 2 a) (octet 3 a) = a"
proof -
  let ?u = "uint a"
  have u: "?u < 2 ^ 32" "0 \<le> ?u" using uint_lt2p[of a] by auto
  then have "?u div 16777216 < 256" "0 \<le> ?u div 16777216"
    by (auto simp: pos_imp_zdiv_nonneg_iff)
  then have t: "?u div 256 div 256 div 256 mod 256 = ?u div 256 div 256 div 256"
    by (simp add: zdiv_zmult2_eq[symmetric] mod_pos_pos_trivial)
  have o: "octet 0 a = ?u div 256 div 256 div 256 mod 256" "octet 1 a = ?u div 256 div 256 mod 256"
    "octet 2 a = ?u div 256 mod 256" "octet 3 a = ?u mod 256"
    by (simp_all add: octet_uint zdiv_zmult2_eq[symmetric])
  have "((?u div 256 div 256 div 256 * 256 + ?u div 256 div 256 mod 256) * 256
      + ?u div 256 mod 256) * 256 + ?u mod 256 = ?u"
    by (simp only: div_mult_mod_eq)
  then show ?thesis by (simp add: ipv4_of_def o t del: One_nat_def)
qed

lemma parse_ipv4_string: "parse_ipv4 (ipv4_string a) = Some a"
proof -
  have "split_on CHR ''.'' (ipv4_string a) = map (\<lambda>i. nat_string (octet i a)) [0, 1, 2, 3]"
    unfolding ipv4_string_def using octet_range dot_not_in_nat_string
    by (intro split_on_join) auto
  then show ?thesis
    using octet_range ipv4_of_octets[of a] by (simp add: parse_ipv4_def parse_octet_nat_string)
qed

lemma ipv4_string_chars: "c \<in> set (ipv4_string a) \<Longrightarrow> is_digit c \<or> c = CHR ''.''"
  using nat_string_digits[OF conjunct1[OF octet_range], of _ a]
  by (auto simp: ipv4_string_def list_all_iff)

lemma parse_addr_ipv4_string [simp]: "parse_addr (ipv4_string a) = Some (V4 a)"
proof -
  have "CHR ''.'' \<in> set (ipv4_string a)" by (simp add: ipv4_string_def)
  then have "find (\<lambda>c. c = CHR ''.'' \<or> c = CHR '':'' \<or> c = CHR ''%'') (ipv4_string a) = Some CHR ''.''"
  proof -
    have "\<forall>c\<in>set s. is_digit c \<or> c = CHR ''.'' \<Longrightarrow> CHR ''.'' \<in> set s \<Longrightarrow>
        find (\<lambda>c. c = CHR ''.'' \<or> c = CHR '':'' \<or> c = CHR ''%'') s = Some CHR ''.''" for s
      by (induction s) (auto simp: is_digit_def)
    then show ?thesis using ipv4_string_chars \<open>CHR ''.'' \<in> set (ipv4_string a)\<close> by blast
  qed
  then show ?thesis by (simp add: parse_addr_def parse_ipv4_string)
qed

lemma last_index_byte_append:
  "c \<notin> set r \<Longrightarrow> last_index_byte (s @ c # r) c = Some (length s)"
proof (induction s)
  case Nil
  have "c \<notin> set r \<Longrightarrow> last_index_byte r c = None" by (induction r) (auto split: option.split)
  with Nil show ?case by simp
qed simp

lemma parse_prefix_string_v4:
  assumes "b \<le> 32"
  shows "parse_prefix (prefix_string (v4_prefix n (int b))) = Some (v4_prefix n (int b))"
proof -
  have nosl: "CHR ''/'' \<notin> set (nat_string (int b))"
    by (rule not_digit_in_nat_string) (auto simp: is_digit_def)
  have "atoi (nat_string (int b)) = Some (int b)"
    using assms by (intro atoi_nat_string) auto
  moreover have "49 \<le> byte (hd (nat_string (int b))) \<and> byte (hd (nat_string (int b))) \<le> 57"
    if "length (nat_string (int b)) > 1"
  proof -
    have pos: "0 < int b" using that length_nat_string_1[of "int b"] by auto
    obtain c r where cr: "nat_string (int b) = c # r"
      using nat_string_digits[of "int b"] by (cases "nat_string (int b)") auto
    have d: "is_digit c" using nat_string_digits[of "int b"] cr by simp
    have "byte c \<noteq> 48"
    proof
      assume "byte c = 48"
      then have "byte c = byte CHR ''0''" by simp
      then have "c = CHR ''0''" by (simp only: of_char_eq_iff)
      then show False using nat_string_hd[OF pos] cr by simp
    qed
    with d cr show ?thesis by (simp add: is_digit_def)
  qed
  ultimately show ?thesis
    using assms last_index_byte_append[OF nosl, of "ipv4_string n"]
    by (simp add: parse_prefix_def prefix_string_def prefix_valid_def int_string_def Let_def)
       (simp add: prefix_from_def v4_prefix_def)
qed

end
