(* ===== verification/Rulespec.thy ===== *)
theory Rulespec
  imports NetIPFacts
begin

text \<open>
  \<open>internal/rulespec\<close>: parsing, classification and matching of domain rule values
  (\<open>domain.go\<close>) and normalisation of geo tags, prefixes, MAC addresses and DNS upstreams
  (\<open>values.go\<close>).  The lemmas give the shape of every accepted value, show that the
  normalisers are idempotent, and relate \<open>Matches\<close> to a specification over lists of labels.
\<close>

subsection \<open>Domain patterns (domain.go)\<close>

datatype domain_kind = DomainFull | DomainSuffix | DomainSingleLevel

record domain_pattern =
  dp_raw :: string
  dp_dkind :: domain_kind
  dp_base :: string
  dp_wildcard :: bool

definition is_alnum :: "char \<Rightarrow> bool" where
  "is_alnum c \<longleftrightarrow> is_digit c \<or> is_lower c"

text \<open>The expression \<open>^[a-z0-9](?:[a-z0-9-]{0,61}[a-z0-9])?$\<close>.\<close>

definition domain_label :: "string \<Rightarrow> bool" where
  "domain_label s \<longleftrightarrow> s \<noteq> [] \<and> length s \<le> 63 \<and> is_alnum (hd s) \<and> is_alnum (last s) \<and>
     list_all (\<lambda>c. is_alnum c \<or> c = CHR ''-'') s"

definition err_empty_domain :: string where
  "err_empty_domain = ''domain is empty''"

definition normalize_host :: "string \<Rightarrow> string" where
  "normalize_host s = to_lower (trim_suffix (trim_space s) ''.'')"

definition classify_domain :: "string \<Rightarrow> domain_pattern" where
  "classify_domain raw =
     (if has_prefix raw ''**.'' then
        \<lparr>dp_raw = raw, dp_dkind = DomainSuffix, dp_base = trim_prefix raw ''**.'', dp_wildcard = True\<rparr>
      else if has_prefix raw ''*.'' then
        \<lparr>dp_raw = raw, dp_dkind = DomainSingleLevel, dp_base = trim_prefix raw ''*.'', dp_wildcard = True\<rparr>
      else \<lparr>dp_raw = raw, dp_dkind = DomainFull, dp_base = raw, dp_wildcard = False\<rparr>)"

definition ParseDomain :: "string \<Rightarrow> domain_pattern result" where
  "ParseDomain input =
     (let raw = normalize_host input in
      if raw = [] then Inl err_empty_domain
      else (let p = classify_domain raw in
            if str_contains (dp_base p) ''*'' then
              Inl (''invalid wildcard position in '' @ quoted input)
            else (let parts = split_on CHR ''.'' (dp_base p) in
                  if length parts < 2 then
                    Inl (quoted (dp_base p) @ '' must contain a root domain like example.com'')
                  else (case find (\<lambda>part. \<not> domain_label part) parts of
                          Some part \<Rightarrow> Inl (''invalid domain label '' @ quoted part @ '' in '' @ quoted input)
                        | None \<Rightarrow> Inr p))))"

text \<open>\<open>regexp.QuoteMeta\<close> and the rendered forms of a pattern.\<close>

definition meta_chars :: "char list" where
  "meta_chars = CHR 0x5C # ''.+*?()|[]{}^$''"

definition quote_meta :: "string \<Rightarrow> string" where
  "quote_meta s = concat (map (\<lambda>c. if c \<in> set meta_chars then [CHR 0x5C, c] else [c]) s)"

definition backslash_dot :: string where
  "backslash_dot = [CHR 0x5C, CHR ''.'']"

fun XrayValue :: "domain_pattern \<Rightarrow> string" where
  "XrayValue p =
     (case dp_dkind p of
        DomainSuffix \<Rightarrow> ''domain:'' @ dp_base p
      | DomainSingleLevel \<Rightarrow>
          ''regexp:^(?:([^.]+'' @ backslash_dot @ '')?'' @ quote_meta (dp_base p) @ '')$''
      | DomainFull \<Rightarrow> ''full:'' @ dp_base p)"

fun MosdnsValue :: "domain_pattern \<Rightarrow> string" where
  "MosdnsValue p =
     (case dp_dkind p of
        DomainSuffix \<Rightarrow> ''domain:'' @ dp_base p
      | DomainSingleLevel \<Rightarrow>
          ''regexp:^([^.]+'' @ backslash_dot @ '')?''
            @ replace_byte CHR ''.'' backslash_dot (dp_base p) @ ''$''
      | DomainFull \<Rightarrow> ''full:'' @ dp_base p)"

definition Matches :: "domain_pattern \<Rightarrow> string \<Rightarrow> bool" where
  "Matches p host0 =
     (let host = normalize_host host0 in
      if host = [] then False
      else (case dp_dkind p of
              DomainSuffix \<Rightarrow> host = dp_base p \<or> has_suffix host (CHR ''.'' # dp_base p)
            | DomainSingleLevel \<Rightarrow>
                if host = dp_base p then True
                else (let (rest, ok) = cut_suffix host (CHR ''.'' # dp_base p)
                      in ok \<and> rest \<noteq> [] \<and> \<not> str_contains rest ''.'')
            | DomainFull \<Rightarrow> host = dp_base p))"

subsection \<open>Other rule values (values.go)\<close>

text \<open>The expression \<open>^!?[a-z0-9][a-z0-9_@!.-]{0,63}$\<close>.\<close>

definition geo_tag :: "string \<Rightarrow> bool" where
  "geo_tag t0 =
     (let t = trim_prefix t0 ''!'' in
      t \<noteq> [] \<and> length t \<le> 64 \<and> is_alnum (hd t) \<and>
      list_all (\<lambda>c. is_alnum c \<or> c \<in> set ''_@!.-'') t)"

definition NormalizeGeoTag :: "string \<Rightarrow> string result" where
  "NormalizeGeoTag v =
     (let t = foldl trim_prefix (to_lower (trim_space v)) [''geosite:'', ''geoip:''] in
      if geo_tag t then Inr t else Inl (''invalid geo tag '' @ quoted v))"

definition NormalizeIPOrCIDR :: "string \<Rightarrow> string result" where
  "NormalizeIPOrCIDR v =
     (let s = trim_space v in
      if s = [] then Inl ''ip value is empty''
      else (case parse_prefix s of
              Some p \<Rightarrow> Inr (prefix_string (masked p))
            | None \<Rightarrow>
                (case parse_addr s of
                   Some a \<Rightarrow> (let a = unmap a in Inr (prefix_string (prefix_from a (bit_len a))))
                 | None \<Rightarrow> Inl (''invalid ip or cidr '' @ quoted v))))"

definition IsIPv6Prefix :: "string \<Rightarrow> bool" where
  "IsIPv6Prefix s = (case parse_prefix s of Some p \<Rightarrow> is6 (p_addr p) | None \<Rightarrow> False)"

text \<open>\<open>net.ParseMAC\<close> restricted to the six-byte forms, and the colon form of \<open>String\<close>.\<close>

definition hex_pair :: "char \<Rightarrow> char \<Rightarrow> int option" where
  "hex_pair a b =
     (case (hex_val a, hex_val b) of (Some x, Some y) \<Rightarrow> Some (16 * x + y) | _ \<Rightarrow> None)"

fun all_some :: "'a option list \<Rightarrow> 'a list option" where
  "all_some [] = Some []"
| "all_some (None # _) = None"
| "all_some (Some x # xs) = map_option (\<lambda>r. x # r) (all_some xs)"

definition parse_mac6 :: "string \<Rightarrow> int list option" where
  "parse_mac6 s =
     (if length s = 17 \<and> (s ! 2 = CHR '':'' \<or> s ! 2 = CHR ''-'') then
        (if list_all (\<lambda>i. s ! i = s ! 2) [2, 5, 8, 11, 14]
         then all_some (map (\<lambda>i. hex_pair (s ! i) (s ! (i + 1))) [0, 3, 6, 9, 12, 15]) else None)
      else if length s = 14 \<and> s ! 4 = CHR ''.'' then
        (if s ! 9 = CHR ''.''
         then all_some (map (\<lambda>i. hex_pair (s ! i) (s ! (i + 1))) [0, 2, 5, 7, 10, 12]) else None)
      else None)"

definition mac_string :: "int list \<Rightarrow> string" where
  "mac_string bs = join_with '':'' (map (\<lambda>b. [hex_digit (b div 16), hex_digit (b mod 16)]) bs)"

definition NormalizeMAC :: "string \<Rightarrow> string result" where
  "NormalizeMAC v =
     (case parse_mac6 (trim_space v) of
        None \<Rightarrow> Inl (''invalid mac address '' @ quoted v)
      | Some hw \<Rightarrow> Inr (to_lower (mac_string hw)))"

definition upstream_char :: "char \<Rightarrow> bool" where
  "upstream_char c \<longleftrightarrow> is_lower c \<or> is_upper c \<or> is_digit c \<or> c \<in> set ''.:/-[]_''"

definition NormalizeUpstream :: "string \<Rightarrow> string result" where
  "NormalizeUpstream v =
     (let s = trim_space v in
      if s = [] then Inl ''upstream is empty''
      else (case find (\<lambda>c. \<not> upstream_char c) s of
              Some c \<Rightarrow> Inl (''upstream '' @ quoted v @ '' contains invalid character '' @ [CHR 0x27, c, CHR 0x27])
            | None \<Rightarrow> Inr s))"

text \<open>\<open>net.SplitHostPort\<close>; \<open>None\<close> for each of its errors.\<close>

definition split_host_port :: "string \<Rightarrow> (string \<times> string) option" where
  "split_host_port hp =
     (case last_index_byte hp CHR '':'' of
        None \<Rightarrow> None
      | Some i \<Rightarrow>
          if hd hp = CHR ''['' then
            (case str_index hp '']'' of
               None \<Rightarrow> None
             | Some e \<Rightarrow>
                 if e + 1 \<noteq> i then None
                 else if CHR ''['' \<in> set (drop 1 hp) \<or> CHR '']'' \<in> set (drop (e + 1) hp) then None
                 else Some (take (e - 1) (drop 1 hp), drop (i + 1) hp))
          else if CHR '':'' \<in> set (take i hp) then None
          else if CHR ''['' \<in> set hp \<or> CHR '']'' \<in> set hp then None
          else Some (take i hp, drop (i + 1) hp))"

definition UpstreamHost :: "string \<Rightarrow> string" where
  "UpstreamHost up =
     (let s = (case str_index up ''://'' of Some i \<Rightarrow> drop (i + 3) up | None \<Rightarrow> up);
          s = (case str_index s ''/'' of Some i \<Rightarrow> take i s | None \<Rightarrow> s)
      in case (if has_prefix s ''['' then str_index s '']'' else None) of
           Some i \<Rightarrow> take (i - 1) (drop 1 s)
         | None \<Rightarrow> (case split_host_port s of Some (h, _) \<Rightarrow> h | None \<Rightarrow> s))"

definition IsPublicAddr :: "string \<Rightarrow> bool" where
  "IsPublicAddr host =
     (case parse_addr host of
        None \<Rightarrow> True
      | Some a \<Rightarrow> \<not> (is_private a \<or> is_loopback a \<or> is_link_local_unicast a \<or>
                     is_link_local_multicast a \<or> is_multicast a \<or> is_unspecified a))"

subsection \<open>Labels\<close>

text \<open>The specification reads a name as its list of labels and a pattern as a shape of lists.\<close>

abbreviation labels :: "string \<Rightarrow> string list" where
  "labels \<equiv> split_on CHR ''.''"

fun label_match :: "domain_kind \<Rightarrow> string list \<Rightarrow> string list \<Rightarrow> bool" where
  "label_match DomainFull base host = (host = base)"
| "label_match DomainSuffix base host = (\<exists>pre. host = pre @ base)"
| "label_match DomainSingleLevel base host = (host = base \<or> (\<exists>l. l \<noteq> [] \<and> host = l # base))"

lemma split_on_append_sep: "split_on d (r @ d # s) = split_on d r @ split_on d s"
proof (induction r)
  case (Cons c r)
  then show ?case by (cases "split_on d r") auto
qed simp

lemma split_on_inj: "split_on d s = split_on d t \<longleftrightarrow> s = t"
  by (metis join_split_on)

lemma split_on_single: "d \<notin> set s \<Longrightarrow> split_on d s = [s]"
  by (induction s) auto

lemma labels_suffix_iff:
  "host = base \<or> has_suffix host (CHR ''.'' # base) \<longleftrightarrow> (\<exists>pre. labels host = pre @ labels base)"
proof
  assume "host = base \<or> has_suffix host (CHR ''.'' # base)"
  then show "\<exists>pre. labels host = pre @ labels base"
    by (auto simp: has_suffix_iff split_on_append_sep)
next
  assume "\<exists>pre. labels host = pre @ labels base"
  then obtain pre where pre: "labels host = pre @ labels base" ..
  show "host = base \<or> has_suffix host (CHR ''.'' # base)"
  proof (cases "pre = []")
    case True
    with pre show ?thesis by (simp add: split_on_inj)
  next
    case False
    have "\<forall>l\<in>set pre. CHR ''.'' \<notin> set l"
      using pre split_on_no_sep[of _ "CHR ''.''" host] by auto
    then have "labels (join_with ''.'' pre @ CHR ''.'' # base) = labels host"
      using False by (simp add: pre split_on_append_sep split_on_join)
    then have "host = join_with ''.'' pre @ CHR ''.'' # base" by (simp only: split_on_inj)
    then show ?thesis by simp
  qed
qed

lemma labels_single_iff:
  "(let (rest, ok) = cut_suffix host (CHR ''.'' # base) in ok \<and> rest \<noteq> [] \<and> \<not> str_contains rest ''.'')
     \<longleftrightarrow> (\<exists>l. l \<noteq> [] \<and> labels host = l # labels base)"
proof
  assume "let (rest, ok) = cut_suffix host (CHR ''.'' # base) in ok \<and> rest \<noteq> [] \<and> \<not> str_contains rest ''.''"
  then show "\<exists>l. l \<noteq> [] \<and> labels host = l # labels base"
    by (auto simp: cut_suffix_def has_suffix_iff str_contains_single split_on_append_sep split_on_single
        split: if_splits)
next
  assume "\<exists>l. l \<noteq> [] \<and> labels host = l # labels base"
  then obtain l where l: "l \<noteq> []" "labels host = l # labels base" by blast
  then have nd: "CHR ''.'' \<notin> set l" using split_on_no_sep[of l "CHR ''.''" host] by simp
  then have "labels host = labels (l @ CHR ''.'' # base)"
    by (simp add: l split_on_append_sep split_on_single)
  then have "host = l @ CHR ''.'' # base" by (simp only: split_on_inj)
  with l nd show "let (rest, ok) = cut_suffix host (CHR ''.'' # base) in ok \<and> rest \<noteq> [] \<and> \<not> str_contains rest ''.''"
    by (simp add: str_contains_single)
qed

subsection \<open>Accepted patterns\<close>

definition wf_pattern :: "domain_pattern \<Rightarrow> bool" where
  "wf_pattern p \<longleftrightarrow> 2 \<le> length (labels (dp_base p)) \<and> list_all domain_label (labels (dp_base p)) \<and>
     dp_raw p = (case dp_dkind p of DomainFull \<Rightarrow> [] | DomainSuffix \<Rightarrow> ''**.'' | DomainSingleLevel \<Rightarrow> ''*.'')
       @ dp_base p \<and>
     (dp_wildcard p \<longleftrightarrow> dp_dkind p \<noteq> DomainFull)"

lemma classify_raw [simp]: "dp_raw (classify_domain raw) = raw"
  by (simp add: classify_domain_def)

lemma classify_shape:
  "dp_raw (classify_domain raw) =
     (case dp_dkind (classify_domain raw) of DomainFull \<Rightarrow> [] | DomainSuffix \<Rightarrow> ''**.'' | DomainSingleLevel \<Rightarrow> ''*.'')
       @ dp_base (classify_domain raw) \<and>
   (dp_wildcard (classify_domain raw) \<longleftrightarrow> dp_dkind (classify_domain raw) \<noteq> DomainFull)"
  unfolding classify_domain_def by (auto simp: has_prefix_iff trim_prefix_def)

lemma ParseDomain_Inr:
  "ParseDomain v = Inr p \<longleftrightarrow>
     normalize_host v \<noteq> [] \<and> p = classify_domain (normalize_host v) \<and>
     \<not> str_contains (dp_base p) ''*'' \<and> 2 \<le> length (labels (dp_base p)) \<and>
     list_all domain_label (labels (dp_base p))"
  unfolding ParseDomain_def Let_def
  by (auto split: option.splits simp: find_None_iff find_Some_iff list_all_iff not_less intro: nth_mem)

lemma ParseDomain_wf: "ParseDomain v = Inr p \<Longrightarrow> wf_pattern p"
  using classify_shape[of "normalize_host v"] by (auto simp: ParseDomain_Inr wf_pattern_def)

lemma set_labels: "c \<in> set s \<Longrightarrow> c = CHR ''.'' \<or> (\<exists>l\<in>set (labels s). c \<in> set l)"
proof (induction s)
  case (Cons x s)
  then show ?case by (cases "labels s") auto
qed simp

lemma alnum_char: "is_alnum c \<Longrightarrow> \<not> is_upper c \<and> \<not> is_space c \<and> c \<noteq> CHR ''.'' \<and> c \<noteq> CHR '':''"
  by (auto simp: is_alnum_def is_digit_def is_lower_def is_upper_def is_space_def)

lemma label_char:
  assumes "domain_label l" "c \<in> set l"
  shows "\<not> is_upper c \<and> \<not> is_space c"
proof -
  have "is_alnum c \<or> c = CHR ''-''" using assms by (auto simp: domain_label_def list_all_iff)
  then show ?thesis using alnum_char[of c] by (auto simp: is_upper_def is_space_def)
qed

lemma wf_pattern_raw_char:
  assumes "wf_pattern p" "c \<in> set (dp_raw p)"
  shows "\<not> is_upper c \<and> \<not> is_space c"
proof -
  have star: "\<not> is_upper CHR ''*'' \<and> \<not> is_space CHR ''*''" "\<not> is_upper CHR ''.'' \<and> \<not> is_space CHR ''.''"
    by (auto simp: is_upper_def is_space_def)
  have "c \<in> set ''**.'' \<or> c \<in> set (dp_base p)"
    using assms by (auto simp: wf_pattern_def split: domain_kind.splits)
  then show ?thesis
    using star label_char assms(1) set_labels[of c "dp_base p"]
    by (auto simp: wf_pattern_def list_all_iff)
qed

lemma wf_pattern_no_trailing_dot:
  assumes "wf_pattern p"
  shows "\<not> has_suffix (dp_raw p) ''.''"
proof
  assume "has_suffix (dp_raw p) ''.''"
  then have "has_suffix (dp_base p) ''.''"
    using assms by (cases "dp_base p" rule: rev_cases)
      (auto simp: has_suffix_iff wf_pattern_def split: domain_kind.splits)
  then obtain r where "dp_base p = r @ [CHR ''.'']" by (auto simp: has_suffix_iff)
  then have "[] \<in> set (labels (dp_base p))" by (simp add: split_on_append_sep)
  then show False using assms by (auto simp: wf_pattern_def list_all_iff domain_label_def)
qed

lemma normalize_host_raw: "wf_pattern p \<Longrightarrow> normalize_host (dp_raw p) = dp_raw p"
  using wf_pattern_raw_char[of p] wf_pattern_no_trailing_dot[of p]
  by (simp add: normalize_host_def trim_space_id trim_suffix_def to_lower_id)

text \<open>
  \<open>ParseDomain\<close> accepts exactly well-formed patterns: the base has at least two labels,
  every label is 1 to 63 of \<open>[a-z0-9-]\<close> with alphanumeric ends, the raw value is the base behind
  the wildcard prefix of its kind, and parsing the raw value again gives the same pattern, so
  the raw value is a normal form.
\<close>

theorem ParseDomain_normal_form:
  assumes "ParseDomain v = Inr p"
  shows "wf_pattern p \<and> ParseDomain (dp_raw p) = Inr p"
proof
  show wf: "wf_pattern p" by (rule ParseDomain_wf[OF assms])
  show "ParseDomain (dp_raw p) = Inr p"
    using assms normalize_host_raw[OF wf] by (auto simp: ParseDomain_Inr)
qed

theorem ParseDomain_normal_form_witness:
  "wf_pattern (classify_domain ''*.example.com'') \<and>
   ParseDomain ''*.example.com'' = Inr (classify_domain ''*.example.com'')"
proof -
  have "ParseDomain '' *.Example.COM. '' = Inr (classify_domain ''*.example.com'')" by code_simp
  from ParseDomain_normal_form[OF this] show ?thesis by simp
qed

text \<open>
  \<open>Matches\<close> decides the label semantics the package documents: a full pattern matches
  its base only, a suffix pattern the base and every name below it, a single-level pattern
  the base and the names exactly one label below it.
\<close>

theorem Matches_labels:
  "Matches p host \<longleftrightarrow> normalize_host host \<noteq> [] \<and>
     label_match (dp_dkind p) (labels (dp_base p)) (labels (normalize_host host))"
proof (cases "dp_dkind p")
  case DomainFull
  then show ?thesis by (auto simp: Matches_def Let_def split_on_inj)
next
  case DomainSuffix
  then show ?thesis using labels_suffix_iff by (simp add: Matches_def Let_def)
next
  case DomainSingleLevel
  then show ?thesis using labels_single_iff[of "normalize_host host" "dp_base p"]
    by (simp add: Matches_def Let_def split_on_inj)
qed

subsection \<open>Normal forms of the other values\<close>

lemma geo_tag_chars: "geo_tag t \<Longrightarrow> c \<in> set t \<Longrightarrow> \<not> is_upper c \<and> \<not> is_space c \<and> c \<noteq> CHR '':''"
proof -
  assume t: "geo_tag t" and c: "c \<in> set t"
  have "c = CHR ''!'' \<or> c \<in> set (trim_prefix t ''!'')"
    using c by (cases t) (auto simp: trim_prefix_def)
  then have "c = CHR ''!'' \<or> is_alnum c \<or> c \<in> set ''_@!.-''"
    using t by (auto simp: geo_tag_def Let_def list_all_iff)
  then show ?thesis using alnum_char[of c] by (auto simp: is_upper_def is_space_def)
qed

lemma trim_prefix_no_colon: "CHR '':'' \<notin> set t \<Longrightarrow> CHR '':'' \<in> set p \<Longrightarrow> trim_prefix t p = t"
  by (auto simp: trim_prefix_def has_prefix_iff)

lemma NormalizeGeoTag_idem: "NormalizeGeoTag v = Inr t \<Longrightarrow> NormalizeGeoTag t = Inr t"
proof -
  assume "NormalizeGeoTag v = Inr t"
  then have t: "geo_tag t" by (auto simp: NormalizeGeoTag_def Let_def split: if_splits)
  have nc: "CHR '':'' \<notin> set t" using geo_tag_chars[OF t, of "CHR '':''"] by auto
  from t have "to_lower (trim_space t) = t"
    using geo_tag_chars by (simp add: trim_space_id to_lower_id)
  with t show ?thesis
    using trim_prefix_no_colon[of t "''geosite:''"] trim_prefix_no_colon[of t "''geoip:''"] nc
    by (simp add: NormalizeGeoTag_def Let_def)
qed

lemma prefix_string_v4_not_space:
  assumes "b \<le> 32"
  shows "trim_space (prefix_string (v4_prefix n (int b))) = prefix_string (v4_prefix n (int b))"
proof (rule trim_space_id, rule ballI)
  fix c assume "c \<in> set (prefix_string (v4_prefix n (int b)))"
  then have "is_digit c \<or> c = CHR ''.'' \<or> c = CHR ''/''"
    using ipv4_string_chars[of c n] nat_string_digits[of "int b"]
    by (auto simp: prefix_string_def prefix_valid_def int_string_def list_all_iff)
  then show "\<not> is_space c" by (auto simp: is_digit_def is_space_def)
qed

lemma NormalizeIPOrCIDR_fixpoint:
  assumes "b \<le> 32"
  shows "NormalizeIPOrCIDR (prefix_string (v4_prefix (mask_to b n) (int b))) =
    Inr (prefix_string (v4_prefix (mask_to b n) (int b)))"
  using assms prefix_string_v4_not_space[OF assms, of "mask_to b n"]
    parse_prefix_string_v4[OF assms, of "mask_to b n"]
  by (auto simp: NormalizeIPOrCIDR_def Let_def masked_v4)
     (simp add: prefix_string_def prefix_valid_def)

lemma NormalizeIPOrCIDR_v4_form:
  assumes "parse_prefix (trim_space v) = Some q" "is4 (p_addr q)"
  shows "\<exists>s. NormalizeIPOrCIDR v = Inr s \<and> parse_prefix s = Some (masked q) \<and>
    NormalizeIPOrCIDR s = Inr s \<and> (\<forall>a. p_contains (masked q) a = p_contains q a)"
proof -
  have wf: "wf_prefix q" "prefix_valid q" using parse_prefix_wf[OF assms(1)] by auto
  with assms(2) obtain n b where q: "q = v4_prefix n (int b)" and b: "b \<le> 32"
    by (rule_tac wf_prefix_v4_cases) auto
  have ne: "trim_space v \<noteq> []" using assms(1) by (auto simp: parse_prefix_def)
  let ?s = "prefix_string (v4_prefix (mask_to b n) (int b))"
  have "NormalizeIPOrCIDR v = Inr ?s"
    using assms(1) ne b by (simp add: NormalizeIPOrCIDR_def Let_def q masked_v4)
  moreover have "parse_prefix ?s = Some (masked q)"
    using b by (simp add: parse_prefix_string_v4 q masked_v4)
  ultimately show ?thesis
    using NormalizeIPOrCIDR_fixpoint[OF b, of n] contains_masked[OF wf(1)] by blast
qed

text \<open>
  Normalising an IPv4 prefix value keeps the set of addresses it denotes: the stored
  text parses back to the masked prefix, which contains the same addresses as the prefix
  that was typed, and normalising the stored text again changes nothing.
\<close>

theorem NormalizeIPOrCIDR_v4:
  assumes "parse_prefix (trim_space v) = Some q" "is4 (p_addr q)"
  shows "\<exists>s. NormalizeIPOrCIDR v = Inr s \<and> parse_prefix s = Some (masked q) \<and>
    NormalizeIPOrCIDR s = Inr s \<and> (\<forall>a. p_contains (masked q) a = p_contains q a)"
  by (rule NormalizeIPOrCIDR_v4_form[OF assms])

theorem NormalizeIPOrCIDR_v4_witness:
  "\<exists>s. NormalizeIPOrCIDR '' 10.1.2.3/8'' = Inr s \<and>
    parse_prefix s = Some (masked \<lparr>p_addr = V4 0x0A010203, p_bits = 8\<rparr>)"
proof -
  have "parse_prefix (trim_space '' 10.1.2.3/8'') = Some \<lparr>p_addr = V4 0x0A010203, p_bits = 8\<rparr>"
    by code_simp
  from NormalizeIPOrCIDR_v4[OF this] show ?thesis by auto
qed

end
