(* ===== verification/GeoData.thy ===== *)
theory GeoData
  imports NetIPFacts
begin

text \<open>
  The data of \<open>internal/geo\<close> that other packages see: geosite entries, and the lookup
  interfaces \<open>IPSource\<close> and \<open>SiteSource\<close> as records of functions (the interface values
  \<open>routes.Sources\<close> and \<open>render.Deps\<close> hold).
\<close>

datatype entry_kind = KindPlain | KindRegex | KindRoot | KindFull | kindUnknown

record entry =
  e_kind :: entry_kind
  e_value :: string
  e_attrs :: "string list"

text \<open>\<open>Entry.MosdnsValue\<close> and \<open>Entry.XrayValue\<close> have the same body.\<close>

fun EntryMosdnsValue :: "entry \<Rightarrow> string" where
  "EntryMosdnsValue e =
     (case e_kind e of
        KindPlain \<Rightarrow> ''keyword:'' @ e_value e
      | KindRegex \<Rightarrow> ''regexp:'' @ e_value e
      | KindRoot \<Rightarrow> ''domain:'' @ e_value e
      | _ \<Rightarrow> ''full:'' @ e_value e)"

fun EntryXrayValue :: "entry \<Rightarrow> string" where
  "EntryXrayValue e =
     (case e_kind e of
        KindPlain \<Rightarrow> ''keyword:'' @ e_value e
      | KindRegex \<Rightarrow> ''regexp:'' @ e_value e
      | KindRoot \<Rightarrow> ''domain:'' @ e_value e
      | _ \<Rightarrow> ''full:'' @ e_value e)"

definition Resolvable :: "entry \<Rightarrow> bool" where
  "Resolvable e \<longleftrightarrow> e_kind e = KindRoot \<or> e_kind e = KindFull"

record ip_source =
  ip_has_tag :: "string \<Rightarrow> bool result"
  ip_cidrs :: "string \<Rightarrow> prefix list result"

record site_source =
  site_entries :: "string \<Rightarrow> entry list result"

end
