(* ===== verification/RouteEngine.thy ===== *)
theory RouteEngine
  imports Desired Rulespec GeoData
begin

text \<open>
  \<open>internal/routes/engine.go\<close>: the IPv4 prefixes the gateway announces over OSPF in modes B
  and C.  Candidates are collected rule by rule, pass the publishing policy one by one, and
  the survivors are pruned to the broadest prefixes.
\<close>

record sources =
  src_geoip :: "ip_source option"
  src_geosite :: "site_source option"
  src_default_iface :: string

datatype route_state = StateNone | StatePending | StatePublished | StateFailed | StateProtected

record route =
  r_prefix :: prefix
  r_source :: string
  r_rule_id :: string
  r_state :: route_state
  r_detail :: string

record engine_result =
  er_publish :: "route list"
  er_rejected :: "route list"
  er_domains :: "string list"
  er_warnings :: "string list"
  er_truncated :: int

definition MaxGeositeDomains :: int where
  "MaxGeositeDomains = 2000"

definition proxyAction :: "action_kind \<Rightarrow> bool" where
  "proxyAction k \<longleftrightarrow> k = ActionProxy \<or> k = ActionNode \<or> k = ActionGroup"

subsection \<open>Policy\<close>

text \<open>\<open>validate\<close>: \<open>None\<close> accepts, \<open>Some\<close> is the error text.\<close>

definition validate :: "prefix \<Rightarrow> string option" where
  "validate p =
     (case p_addr p of
        V4 a \<Rightarrow>
          (let b0 = octet 0 a; b1 = octet 1 a in
           if p_bits p = 0 then Some ''default route''
           else if is_unspecified (p_addr p) then Some ''unspecified address''
           else if is_loopback (p_addr p) then Some ''loopback''
           else if is_link_local_unicast (p_addr p) then Some ''link-local''
           else if b0 \<ge> 224 then Some ''multicast or reserved''
           else if b0 = 10 \<or> b0 = 0 then Some ''private or reserved address space''
           else if b0 = 172 \<and> b1 \<ge> 16 \<and> b1 \<le> 31 then Some ''private address space''
           else if b0 = 192 \<and> b1 = 168 then Some ''private address space''
           else if b0 = 100 \<and> b1 \<ge> 64 \<and> b1 \<le> 127 then Some ''CGNAT address space''
           else None)
      | _ \<Rightarrow> Some ''not IPv4'')"

text \<open>The \<open>/32\<close> of an address text, when it is IPv4.\<close>

definition host_prefix :: "string \<Rightarrow> prefix option" where
  "host_prefix ip =
     (case parse_addr ip of Some (V4 a) \<Rightarrow> Some (prefix_from (V4 a) 32) | _ \<Rightarrow> None)"

definition host_prefixes :: "string list \<Rightarrow> prefix list" where
  "host_prefixes ips = List.map_filter host_prefix ips"

text \<open>
  \<open>protectedPrefixes\<close>: the list in the order the code appends it.  The second component is
  the \<open>names\<close> map, as the assignments in order; the last one wins.
\<close>

definition protected_addr :: "snapshot \<Rightarrow> string \<Rightarrow> string \<Rightarrow> (prefix \<times> string) list" where
  "protected_addr s host name =
     (case host_prefix host of
        Some p \<Rightarrow> [(p, name)]
      | None \<Rightarrow> concat (map (\<lambda>e. if re_domain e = to_lower host
                                    then map (\<lambda>p. (p, name)) (host_prefixes (re_ips e)) else [])
                    (s_resolved s)))"

definition protectedPrefixes :: "snapshot \<Rightarrow> prefix list \<times> (prefix \<rightharpoonup> string)" where
  "protectedPrefixes s =
     (let ps = concat (map (\<lambda>n. protected_addr s (n_address n) (''node '' @ n_name n)) (s_nodes s))
            @ concat (map (\<lambda>h. protected_addr s h (''host '' @ h)) (s_protected_hosts s))
      in (map fst ps, map_of (rev ps)))"

definition ProtectedDomains :: "snapshot \<Rightarrow> string list" where
  "ProtectedDomains s =
     sort (foldl (\<lambda>out h0. let h = to_lower (trim_space h0) in
             if h = [] \<or> h \<in> set out \<or> parse_addr h \<noteq> None then out else out @ [h])
           [] (map n_address (s_nodes s) @ s_protected_hosts s))"

definition coveredBy :: "prefix \<Rightarrow> prefix list \<Rightarrow> (prefix \<rightharpoonup> string) \<Rightarrow> string" where
  "coveredBy p protected names =
     (case find (\<lambda>pp. p_contains p (p_addr pp)) protected of
        Some pp \<Rightarrow> (case names pp of Some n \<Rightarrow> n | None \<Rightarrow> []) @ '' '' @ addr_string (p_addr pp)
      | None \<Rightarrow> [])"

definition allowlist :: "string list \<Rightarrow> prefix list" where
  "allowlist ss = List.map_filter (\<lambda>s. case parse_prefix s of
       Some p \<Rightarrow> if is4 (p_addr p) then Some (masked p) else None
     | None \<Rightarrow> None) ss"

definition inAllowlist :: "prefix \<Rightarrow> prefix list \<Rightarrow> bool" where
  "inAllowlist p allow \<longleftrightarrow> (\<exists>a\<in>set allow. p_bits a \<le> p_bits p \<and> p_contains a (p_addr p))"

subsection \<open>Pruning\<close>

text \<open>
  \<open>sort.Slice\<close> is modelled by the stable sort; the tie order it leaves open only concerns
  routes with the same prefix, and \<open>prune_order_irrelevant\<close> below shows that the pruned
  prefixes do not depend on it.
\<close>

fun prune_loop :: "route list \<Rightarrow> route list \<Rightarrow> route list" where
  "prune_loop out [] = out"
| "prune_loop out (r # rs) =
     (if \<exists>q\<in>set out. p_bits (r_prefix q) \<le> p_bits (r_prefix r) \<and>
           p_contains (r_prefix q) (p_addr (r_prefix r))
      then prune_loop out rs else prune_loop (out @ [r]) rs)"

definition by_bits :: "route \<Rightarrow> int \<times> addr" where
  "by_bits r = (p_bits (r_prefix r), p_addr (r_prefix r))"

definition by_addr :: "route \<Rightarrow> addr \<times> int" where
  "by_addr r = (p_addr (r_prefix r), p_bits (r_prefix r))"

definition prune :: "route list \<Rightarrow> route list" where
  "prune rs = sort_key by_addr (prune_loop [] (sort_key by_bits rs))"

subsection \<open>Collecting candidates\<close>

record collector =
  c_cands :: "route list"
  c_warnings :: "string list"
  c_want :: "string list"
  c_truncated :: int

definition candidate :: "prefix \<Rightarrow> string \<Rightarrow> string \<Rightarrow> string \<Rightarrow> route" where
  "candidate p source rule_id detail =
     \<lparr>r_prefix = masked p, r_source = source, r_rule_id = rule_id, r_state = StateNone, r_detail = detail\<rparr>"

definition add_cands :: "route list \<Rightarrow> collector \<Rightarrow> collector" where
  "add_cands rs c = c\<lparr>c_cands := c_cands c @ rs\<rparr>"

definition add_warning :: "string \<Rightarrow> collector \<Rightarrow> collector" where
  "add_warning w c = c\<lparr>c_warnings := c_warnings c @ [w]\<rparr>"

definition add_want :: "string \<Rightarrow> collector \<Rightarrow> collector" where
  "add_want d c = c\<lparr>c_want := List.insert d (c_want c)\<rparr>"

definition v4_cands :: "prefix list \<Rightarrow> string \<Rightarrow> string \<Rightarrow> route list" where
  "v4_cands ps rule_id detail =
     map (\<lambda>p. candidate p ''geo'' rule_id detail) (filter (\<lambda>p. is4 (p_addr p)) ps)"

definition resolved_ips :: "snapshot \<Rightarrow> string \<Rightarrow> string list" where
  "resolved_ips s d =
     (case map_of (rev (map (\<lambda>e. (re_domain e, re_ips e)) (s_resolved s))) d of
        Some ips \<Rightarrow> ips | None \<Rightarrow> [])"

definition domain_cands :: "snapshot \<Rightarrow> string \<Rightarrow> string \<Rightarrow> string \<Rightarrow> route list" where
  "domain_cands s d rule_id detail =
     map (\<lambda>p. candidate p ''domain'' rule_id detail) (host_prefixes (resolved_ips s d))"

definition ip_step :: "rule \<Rightarrow> collector \<Rightarrow> collector" where
  "ip_step rule c =
     (case NormalizeIPOrCIDR (ru_match_value rule) of
        Inl _ \<Rightarrow> c
      | Inr v \<Rightarrow>
          (case parse_prefix v of
             None \<Rightarrow> c
           | Some p \<Rightarrow> if is4 (p_addr p) then add_cands [candidate p ''rule'' (ru_id rule) ''ip rule''] c
                       else c))"

definition geoip_step :: "sources \<Rightarrow> rule \<Rightarrow> collector \<Rightarrow> collector" where
  "geoip_step src rule c =
     (let tag = ru_match_value rule in
      if tag = ''private'' then c
      else (case src_geoip src of
              None \<Rightarrow> add_warning (''geoip:'' @ tag @ '' not published: no geodata installed'') c
            | Some g \<Rightarrow>
                if has_prefix tag ''!'' then
                  add_warning (''geoip:'' @ tag @ '': negated tags cannot be expressed as routes; skipped'') c
                else (case ip_cidrs g tag of
                        Inl e \<Rightarrow> add_warning (''geoip:'' @ tag @ '' not published: '' @ e) c
                      | Inr ps \<Rightarrow> add_cands (v4_cands ps (ru_id rule) (''geoip:'' @ tag)) c)))"

definition domain_step :: "snapshot \<Rightarrow> rule \<Rightarrow> collector \<Rightarrow> collector" where
  "domain_step s rule c =
     (if nc_mode (s_network s) \<noteq> ModeC then c
      else (case ParseDomain (ru_match_value rule) of
              Inl _ \<Rightarrow> c
            | Inr p \<Rightarrow>
                if dp_wildcard p then c
                else add_cands (domain_cands s (dp_base p) (ru_id rule) (dp_base p))
                       (add_want (dp_base p) c)))"

text \<open>The loop over the entries of a tag; \<open>n\<close> counts the resolvable ones taken so far.\<close>

fun entries_loop :: "snapshot \<Rightarrow> rule \<Rightarrow> int \<Rightarrow> entry list \<Rightarrow> collector \<Rightarrow> collector" where
  "entries_loop s rule n [] c = c"
| "entries_loop s rule n (e # es) c =
     (if \<not> Resolvable e then entries_loop s rule n es c
      else if n \<ge> MaxGeositeDomains then
        entries_loop s rule n es (c\<lparr>c_truncated := c_truncated c + 1\<rparr>)
      else entries_loop s rule (n + 1) es
        (add_cands (domain_cands s (e_value e) (ru_id rule)
            (''geosite:'' @ ru_match_value rule @ '' '' @ e_value e))
          (add_want (e_value e) c)))"

definition truncated_warning :: "string \<Rightarrow> string" where
  "truncated_warning tag = ''geosite:'' @ tag @ '' has more than '' @ int_string MaxGeositeDomains
     @ '' resolvable domains; the rest are not tracked. Use a geoip rule for large sets.''"

text \<open>The same-named geoip tag, when one exists and can be read.\<close>

definition geoip_fallback :: "sources \<Rightarrow> string \<Rightarrow> prefix list option" where
  "geoip_fallback src tag =
     (case src_geoip src of
        None \<Rightarrow> None
      | Some g \<Rightarrow>
          (case ip_has_tag g tag of
             Inr True \<Rightarrow> (case ip_cidrs g tag of Inr ps \<Rightarrow> Some ps | Inl _ \<Rightarrow> None)
           | _ \<Rightarrow> None))"

definition geosite_step :: "snapshot \<Rightarrow> sources \<Rightarrow> rule \<Rightarrow> collector \<Rightarrow> collector" where
  "geosite_step s src rule c =
     (if nc_mode (s_network s) \<noteq> ModeC then c
      else (let tag = ru_match_value rule in
        case geoip_fallback src tag of
          Some ps \<Rightarrow> add_cands (v4_cands ps (ru_id rule) (''geosite:'' @ tag @ '' via geoip:'' @ tag)) c
        | None \<Rightarrow>
            (case src_geosite src of
               None \<Rightarrow> add_warning (''geosite:'' @ tag @ '' not published: no geodata installed'') c
             | Some g \<Rightarrow>
                 (case site_entries g tag of
                    Inl e \<Rightarrow> add_warning (''geosite:'' @ tag @ '' not published: '' @ e) c
                  | Inr es \<Rightarrow>
                      (let c' = entries_loop s rule 0 es c in
                       if c_truncated c' > 0 then add_warning (truncated_warning tag) c' else c')))))"

definition rule_step :: "snapshot \<Rightarrow> sources \<Rightarrow> collector \<Rightarrow> rule \<Rightarrow> collector" where
  "rule_step s src c rule =
     (if \<not> proxyAction (ru_action_kind rule) then c
      else (case ru_match_kind rule of
              MatchIP \<Rightarrow> ip_step rule c
            | MatchGeoIP \<Rightarrow> geoip_step src rule c
            | MatchDomain \<Rightarrow> domain_step s rule c
            | MatchGeosite \<Rightarrow> geosite_step s src rule c
            | MatchOther _ \<Rightarrow> c))"

definition pool_step :: "snapshot \<Rightarrow> collector" where
  "pool_step s =
     (let c = \<lparr>c_cands = [], c_warnings = [], c_want = [], c_truncated = 0\<rparr>;
          pool = nc_fakeip_pool (s_network s)
      in if nc_mode (s_network s) \<noteq> ModeB then c
         else (case parse_prefix pool of
                 Some p \<Rightarrow> add_cands [candidate p ''fakeip'' [] ''Fake-IP pool''] c
               | None \<Rightarrow> add_warning (''invalid fakeip pool '' @ pool) c))"

definition collect :: "snapshot \<Rightarrow> sources \<Rightarrow> collector" where
  "collect s src = foldl (rule_step s src) (pool_step s) (ActiveRules s)"

subsection \<open>Compute\<close>

text \<open>The policy pass on one candidate: \<open>Inl\<close> a rejected route, \<open>Inr\<close> an accepted one.\<close>

definition policy :: "snapshot \<Rightarrow> route \<Rightarrow> route + route" where
  "policy s r =
     (let (protected, names) = protectedPrefixes s;
          allow = allowlist (nc_ospf_publish_allow (s_network s)) in
      case validate (r_prefix r) of
        Some e \<Rightarrow> Inl (r\<lparr>r_state := StateFailed, r_detail := r_detail r @ '': '' @ e\<rparr>)
      | None \<Rightarrow>
          (let name = coveredBy (r_prefix r) protected names in
           if name \<noteq> [] then
             Inl (r\<lparr>r_state := StateProtected, r_detail := r_detail r @ '': contains endpoint '' @ name\<rparr>)
           else if allow \<noteq> [] \<and> \<not> inAllowlist (r_prefix r) allow then
             Inl (r\<lparr>r_state := StateFailed, r_detail := r_detail r @ '': outside publish allowlist''\<rparr>)
           else Inr (r\<lparr>r_state := StatePending\<rparr>)))"

definition lefts :: "('a + 'b) list \<Rightarrow> 'a list" where
  "lefts xs = List.map_filter (\<lambda>x. case x of Inl a \<Rightarrow> Some a | Inr _ \<Rightarrow> None) xs"

definition rights :: "('a + 'b) list \<Rightarrow> 'b list" where
  "rights xs = List.map_filter (\<lambda>x. case x of Inl _ \<Rightarrow> None | Inr b \<Rightarrow> Some b) xs"

definition empty_result :: engine_result where
  "empty_result = \<lparr>er_publish = [], er_rejected = [], er_domains = [], er_warnings = [], er_truncated = 0\<rparr>"

definition Compute :: "snapshot \<Rightarrow> sources \<Rightarrow> engine_result" where
  "Compute s src =
     (if nc_mode (s_network s) = ModeA then empty_result
      else (let c = collect s src; verdicts = map (policy s) (c_cands c) in
        \<lparr>er_publish = prune (rights verdicts), er_rejected = lefts verdicts,
         er_domains = sort (c_want c), er_warnings = c_warnings c, er_truncated = c_truncated c\<rparr>))"

subsection \<open>Preflight and the published rows\<close>

record preflight_result =
  pr_ok :: bool
  pr_mode :: string
  pr_routes :: int
  pr_rejected :: int
  pr_protected :: "string list"
  pr_problems :: "string list"
  pr_warnings :: "string list"

definition preflight_iface :: "snapshot \<Rightarrow> sources \<Rightarrow> string list \<times> string list" where
  "preflight_iface s src =
     (if nc_service_iface (s_network s) = [] \<and> src_default_iface src = [] then
        ([''service interface not set: OSPF must know which LAN network to join (network <subnet> area 0)''], [])
      else if nc_service_iface (s_network s) = [] then
        ([], [''service interface not set; '' @ src_default_iface src @ '' (default route) will be used''])
      else ([], []))"

definition wildcard_problems :: "rule list \<Rightarrow> string list" where
  "wildcard_problems rs = List.map_filter (\<lambda>r.
       if ru_match_kind r = MatchDomain then
         (case ParseDomain (ru_match_value r) of
            Inr p \<Rightarrow> if dp_wildcard p then
                Some (''wildcard domain rule '' @ ru_match_value r
                      @ '' cannot be expressed as routes; remove it or use Mode A'')
              else None
          | Inl _ \<Rightarrow> None)
       else None) rs"

definition Preflight :: "snapshot \<Rightarrow> sources \<Rightarrow> mode \<Rightarrow> preflight_result" where
  "Preflight s src m =
     (if m = ModeA then
        \<lparr>pr_ok = True, pr_mode = mode_string m, pr_routes = 0, pr_rejected = 0, pr_protected = [],
         pr_problems = [], pr_warnings = []\<rparr>
      else (let res = Compute (s\<lparr>s_network := (s_network s)\<lparr>nc_mode := m\<rparr>\<rparr>) src;
                protected = map (\<lambda>r. prefix_string (r_prefix r) @ '' ('' @ r_detail r @ '')'')
                              (filter (\<lambda>r. r_state r = StateProtected) (er_rejected res));
                warn1 = (if protected \<noteq> [] then
                    [int_string (int (length protected)) @
                     '' route(s) contain a node or managed host address and are excluded to avoid a loop'']
                  else []);
                (iface_problems, iface_warnings) = preflight_iface s src;
                problems =
                  (if EnabledNodes s = [] then
                     [''no enabled node: in Mode B/C every steered flow needs a proxy outbound''] else [])
                  @ iface_problems @ wildcard_problems (s_rules s)
                  @ (if m = ModeB \<and> parse_prefix (nc_fakeip_pool (s_network s)) = None then
                       [''invalid Fake-IP pool '' @ nc_fakeip_pool (s_network s)] else [])
            in \<lparr>pr_ok = (problems = []), pr_mode = mode_string m,
                pr_routes = int (length (er_publish res)), pr_rejected = int (length (er_rejected res)),
                pr_protected = protected, pr_problems = problems,
                pr_warnings = er_warnings res @ warn1 @ iface_warnings\<rparr>))"

text \<open>\<open>store.PublishedRoute\<close> without its two timestamps, which the database fills in.\<close>

record published_route =
  pub_cidr :: string
  pub_source :: string
  pub_rule_id :: string
  pub_state :: route_state
  pub_detail :: string

definition published_row :: "route \<Rightarrow> published_route" where
  "published_row r = \<lparr>pub_cidr = prefix_string (r_prefix r), pub_source = r_source r,
     pub_rule_id = r_rule_id r, pub_state = r_state r, pub_detail = r_detail r\<rparr>"

definition ToPublished :: "route list \<Rightarrow> route list \<Rightarrow> published_route list" where
  "ToPublished publish rejected = map published_row (publish @ rejected)"

end
