(* ===== verification/Artifacts.thy ===== *)
theory Artifacts
  imports RouteEngine
begin

text \<open>
  The output type of \<open>internal/render\<close> and the constants the drivers share with it.  File
  contents are byte strings; a nil slice is \<open>None\<close> where the drivers distinguish it.
\<close>

definition RouteTable :: int where "RouteTable = 200"
definition RouteProtocol :: int where "RouteProtocol = 200"
definition FRRDistance :: int where "FRRDistance = 20"

definition TagDirect :: string where "TagDirect = ''direct''"
definition TagBlock :: string where "TagBlock = ''block''"
definition TagAutoProxy :: string where "TagAutoProxy = ''proxy-auto''"

definition NodeTag :: "string \<Rightarrow> string" where "NodeTag i = ''node-'' @ i"
definition GroupTag :: "string \<Rightarrow> string" where "GroupTag i = ''group-'' @ i"
definition RuleTag :: "string \<Rightarrow> string" where "RuleTag i = ''rule-'' @ i"

lemmas tag_defs = TagDirect_def TagBlock_def TagAutoProxy_def NodeTag_def GroupTag_def RuleTag_def

record wg_peer =
  wp_public_key :: string
  wp_preshared_key :: string
  wp_endpoint :: string
  wp_allowed_ips :: "string list"
  wp_keepalive :: int

record wg_iface =
  wi_node_id :: string
  wi_name :: string
  wi_private_key :: string
  wi_addresses :: "string list"
  wi_mtu :: int
  wi_peers :: "wg_peer list"
  wi_table :: int
  wi_mark :: int

record artifacts =
  a_generation :: int
  a_mode :: mode
  a_xray :: string
  a_xray_outbounds :: "(string \<times> string) list"
  a_xray_rules :: string
  a_xray_structural_hash :: string
  a_mosdns_config :: string
  a_mosdns_proxy_domains :: string
  a_mosdns_cn_domains :: "string option"
  a_nft :: string
  a_routes :: "route list"
  a_route_rejected :: "route list"
  a_resolve_domains :: "string list"
  a_frr :: "string option"
  a_wg :: "wg_iface list"
  a_warnings :: "string list"

definition zero_artifacts :: artifacts where
  "zero_artifacts = \<lparr>a_generation = 0, a_mode = ModeOther [], a_xray = [], a_xray_outbounds = [],
     a_xray_rules = [], a_xray_structural_hash = [], a_mosdns_config = [], a_mosdns_proxy_domains = [],
     a_mosdns_cn_domains = None, a_nft = [], a_routes = [], a_route_rejected = [],
     a_resolve_domains = [], a_frr = None, a_wg = [], a_warnings = []\<rparr>"

end
