(* ===== verification/Driver.thy ===== *)
theory Driver
  imports Artifacts
begin

text \<open>
  \<open>internal/driver/driver.go\<close>: plans and their actions.  The opaque \<open>State\<close> a driver hands
  from Plan to Apply is the type parameter of a plan.
\<close>

datatype driver_action_kind =
    ActionNoop | ActionWrite | ActionHot | ActionRestart | ActionStart | ActionExec | ActionSkipped

fun driver_action_string :: "driver_action_kind \<Rightarrow> string" where
  "driver_action_string ActionNoop = ''noop''"
| "driver_action_string ActionWrite = ''write''"
| "driver_action_string ActionHot = ''hot''"
| "driver_action_string ActionRestart = ''restart''"
| "driver_action_string ActionStart = ''start''"
| "driver_action_string ActionExec = ''exec''"
| "driver_action_string ActionSkipped = ''skipped''"

record driver_action =
  da_kind :: driver_action_kind
  da_detail :: string

record 'st plan =
  pl_component :: component
  pl_actions :: "driver_action list"
  pl_diff :: string
  pl_state :: "'st option"

definition Changes :: "'st plan \<Rightarrow> bool" where
  "Changes p \<longleftrightarrow> (\<exists>a\<in>set (pl_actions p). da_kind a \<noteq> ActionNoop \<and> da_kind a \<noteq> ActionSkipped)"

definition Summary :: "'st plan \<Rightarrow> string" where
  "Summary p =
     (if pl_actions p = [] then driver_action_string ActionNoop
      else join_with ''+'' (map (\<lambda>a. driver_action_string (da_kind a)) (pl_actions p)))"

lemma Changes_single [simp]:
  "Changes \<lparr>pl_component = c, pl_actions = [a], pl_diff = d, pl_state = st\<rparr>
     \<longleftrightarrow> da_kind a \<noteq> ActionNoop \<and> da_kind a \<noteq> ActionSkipped"
  by (simp add: Changes_def)

end
