(* ===== verification/RouteProps.thy ===== *)
theory RouteProps
  imports RouteEngine
begin

text \<open>
  What the route engine guarantees: pruning keeps exactly the broadest prefixes, whatever the
  order of the candidates; published routes respect the policy; every candidate is
  accounted for; rules that do not proxy contribute nothing.
\<close>

subsection \<open>Announced networks\<close>

definition covers :: "prefix \<Rightarrow> prefix \<Rightarrow> bool" where
  "covers p q \<longleftrightarrow> p_bits p \<le> p_bits q \<and> p_contains p (p_addr q)"

text \<open>A masked IPv4 network.\<close>

definition net4 :: "prefix \<Rightarrow> bool" where
  "net4 p \<longleftrightarrow> (\<exists>n b. b \<le> 32 \<and> p = v4_prefix (mask_to b n) (int b))"

lemma net4E:
  assumes "net4 p"
  obtains n b where "b \<le> 32" "p = v4_prefix n (int b)" "mask_to b n = n"
  using assms by (fastforce simp: net4_def)

lemma net4_wf: "net4 p \<Longrightarrow> wf_prefix p"
  by (auto simp: net4_def wf_prefix_def)

lemma net4_masked: "is4 (p_addr (masked p)) \<Longrightarrow> net4 (masked p)"
proof (cases "prefix_valid p \<and> p_bits p \<le> bit_len (p_addr p)")
  case True
  assume "is4 (p_addr (masked p))"
  with True obtain n where n: "p_addr p = V4 n"
    by (cases "p_addr p") (auto simp: masked_def prefix_from_def zero_prefix_def)
  with True have "p = v4_prefix n (int (nat (p_bits p)))" "nat (p_bits p) \<le> 32"
    by (auto simp: v4_prefix_def prefix_valid_def)
  then show ?thesis using masked_v4[of "nat (p_bits p)" n] unfolding net4_def by metis
qed (auto simp: masked_def zero_prefix_def)

lemma covers_refl: "net4 p \<Longrightarrow> covers p p"
  by (auto simp: net4_def covers_def prefix_valid_def)

lemma covers_trans: "net4 p \<Longrightarrow> net4 q \<Longrightarrow> covers p q \<Longrightarrow> covers q r \<Longrightarrow> covers p r"
  using contains_trans[of p q "p_addr r"] net4_wf by (auto simp: covers_def)

lemma covers_same_bits:
  "net4 p \<Longrightarrow> net4 q \<Longrightarrow> covers p q \<Longrightarrow> p_bits p = p_bits q \<Longrightarrow> p = q"
  by (elim net4E) (auto simp: covers_def mask_to_eq_iff[symmetric])

lemma covers_antisym: "net4 p \<Longrightarrow> net4 q \<Longrightarrow> covers p q \<Longrightarrow> covers q p \<Longrightarrow> p = q"
  by (rule covers_same_bits) (auto simp: covers_def)

lemma covers_contains: "net4 p \<Longrightarrow> net4 q \<Longrightarrow> covers p q \<Longrightarrow> p_contains q a \<Longrightarrow> p_contains p a"
  using contains_trans[of p q a] net4_wf by (auto simp: covers_def)

lemma covers_bits_mono: "covers p q \<Longrightarrow> p_bits p \<le> p_bits q"
  by (simp add: covers_def)

subsection \<open>Pruning\<close>

lemma prune_loop_step:
  "prune_loop out (r # rs) =
     (if \<exists>q\<in>set out. covers (r_prefix q) (r_prefix r) then prune_loop out rs
      else prune_loop (out @ [r]) rs)"
  by (simp add: covers_def)

declare prune_loop.simps(2) [simp del]

lemma prune_loop_subset: "set out \<subseteq> set (prune_loop out rs) \<and> set (prune_loop out rs) \<subseteq> set out \<union> set rs"
proof (induction rs arbitrary: out)
  case (Cons r rs)
  from Cons[of out] Cons[of "out @ [r]"] show ?case by (simp add: prune_loop_step) blast
qed simp

lemma prune_loop_covers:
  assumes "\<forall>r\<in>set rs. net4 (r_prefix r)" and "r \<in> set rs"
  shows "\<exists>q\<in>set (prune_loop out rs). covers (r_prefix q) (r_prefix r)"
  using assms
proof (induction rs arbitrary: out)
  case (Cons x rs)
  show ?case
  proof (cases "r = x")
    case True
    then have self: "covers (r_prefix x) (r_prefix x)" using Cons.prems by (auto intro: covers_refl)
    show ?thesis
    proof (cases "\<exists>q\<in>set out. covers (r_prefix q) (r_prefix x)")
      case t: True
      then show ?thesis
        using prune_loop_subset[of out rs] True by (auto simp: prune_loop_step)
    next
      case f: False
      then show ?thesis
        using prune_loop_subset[of "out @ [x]" rs] True self by (auto simp: prune_loop_step)
    qed
  next
    case False
    then show ?thesis using Cons by (auto simp: prune_loop_step)
  qed
qed simp

text \<open>No route of the result is covered by an earlier one, and bit lengths never decrease.\<close>

definition antichain :: "route list \<Rightarrow> bool" where
  "antichain rs \<longleftrightarrow> sorted_wrt (\<lambda>q r. \<not> covers (r_prefix q) (r_prefix r)) rs"

lemma prune_loop_antichain: "antichain out \<Longrightarrow> antichain (prune_loop out rs)"
  by (induction rs arbitrary: out) (auto simp: prune_loop_step antichain_def sorted_wrt_append)

lemma prune_loop_sorted:
  "sorted (map (\<lambda>r. p_bits (r_prefix r)) (out @ rs)) \<Longrightarrow>
    sorted (map (\<lambda>r. p_bits (r_prefix r)) (prune_loop out rs))"
proof (induction rs arbitrary: out)
  case (Cons x rs)
  then show ?case using Cons.IH[of out] Cons.IH[of "out @ [x]"]
    by (auto simp: prune_loop_step sorted_append)
qed simp

lemma antichain_pairs:
  assumes "antichain rs" "sorted (map (\<lambda>r. p_bits (r_prefix r)) rs)"
    and "\<forall>r\<in>set rs. net4 (r_prefix r)"
    and "i < length rs" "j < length rs" "i \<noteq> j"
  shows "\<not> covers (r_prefix (rs ! i)) (r_prefix (rs ! j))"
proof (cases "i < j")
  case True
  then show ?thesis using assms sorted_wrt_nth_less[OF assms(1)[unfolded antichain_def]] by simp
next
  case False
  then have ji: "j < i" using assms(6) by simp
  show ?thesis
  proof
    assume c: "covers (r_prefix (rs ! i)) (r_prefix (rs ! j))"
    have "p_bits (r_prefix (rs ! j)) \<le> p_bits (r_prefix (rs ! i))"
      using sorted_nth_mono[OF assms(2), of j i] ji assms(4) by simp
    with c have "r_prefix (rs ! i) = r_prefix (rs ! j)"
      using assms(3-5) by (intro covers_same_bits) (auto simp: covers_def)
    moreover have "\<not> covers (r_prefix (rs ! j)) (r_prefix (rs ! i))"
      using ji assms(4,5) sorted_wrt_nth_less[OF assms(1)[unfolded antichain_def]] by simp
    ultimately show False using c by simp
  qed
qed

lemma antichain_set:
  assumes "antichain rs" "sorted (map (\<lambda>r. p_bits (r_prefix r)) rs)"
    and "\<forall>r\<in>set rs. net4 (r_prefix r)"
  shows "distinct (map r_prefix rs) \<and>
    (\<forall>q\<in>set rs. \<forall>r\<in>set rs. covers (r_prefix q) (r_prefix r) \<longrightarrow> q = r)"
proof
  have "r_prefix (rs ! i) \<noteq> r_prefix (rs ! j)" if "i < length rs" "j < length rs" "i \<noteq> j" for i j
    using antichain_pairs[OF assms that] assms(3) that covers_refl by (metis nth_mem)
  then show "distinct (map r_prefix rs)" by (auto simp: distinct_conv_nth)
  show "\<forall>q\<in>set rs. \<forall>r\<in>set rs. covers (r_prefix q) (r_prefix r) \<longrightarrow> q = r"
    using antichain_pairs[OF assms] by (metis in_set_conv_nth)
qed

lemma sorted_map_bits: "sorted (map (\<lambda>r. p_bits (r_prefix r)) (sort_key by_bits rs))"
proof -
  have "sorted (map by_bits (sort_key by_bits rs))" by simp
  then show ?thesis
    unfolding sorted_map by (rule sorted_wrt_mono_rel[rotated]) (auto simp: by_bits_def less_eq_prod_def)
qed

definition maximal :: "prefix set \<Rightarrow> prefix set" where
  "maximal P = {p \<in> P. \<forall>q\<in>P. covers q p \<longrightarrow> q = p}"

lemma set_prune_maximal:
  assumes good: "\<forall>r\<in>set rs. net4 (r_prefix r)"
  shows "r_prefix ` set (prune rs) = maximal (r_prefix ` set rs)"
    and "distinct (map r_prefix (prune rs))"
proof -
  let ?l = "sort_key by_bits rs" and ?p = "prune_loop [] (sort_key by_bits rs)"
  have g: "\<forall>r\<in>set ?l. net4 (r_prefix r)" using good by simp
  have sub: "set ?p \<subseteq> set rs" using prune_loop_subset[of "[]" ?l] by simp
  have anti: "antichain ?p" by (rule prune_loop_antichain) (simp add: antichain_def)
  have srt: "sorted (map (\<lambda>r. p_bits (r_prefix r)) ?p)"
    by (rule prune_loop_sorted) (simp add: sorted_map_bits)
  have gp: "\<forall>r\<in>set ?p. net4 (r_prefix r)" using sub good by auto
  note ac = antichain_set[OF anti srt gp]
  have cov: "\<exists>q\<in>set ?p. covers (r_prefix q) (r_prefix r)" if "r \<in> set rs" for r
    using prune_loop_covers[OF g, of r "[]"] that by simp
  have "distinct (map r_prefix ?p)" using ac by simp
  then show "distinct (map r_prefix (prune rs))"
    unfolding prune_def by (metis distinct_map distinct_sort set_sort)
  have "r_prefix ` set ?p = maximal (r_prefix ` set rs)"
  proof (intro equalityI subsetI)
    fix p assume "p \<in> r_prefix ` set ?p"
    then obtain r where r: "r \<in> set ?p" "p = r_prefix r" by auto
    have "r_prefix q = p" if q: "q \<in> set rs" "covers (r_prefix q) p" for q
    proof -
      obtain q' where q': "q' \<in> set ?p" "covers (r_prefix q') (r_prefix q)" using cov q(1) by blast
      then have "covers (r_prefix q') p"
        using covers_trans[of "r_prefix q'" "r_prefix q" p] q gp good by auto
      then have "q' = r" using ac q'(1) r by blast
      then show ?thesis
        using covers_antisym[of "r_prefix q" p] q q' r gp good by auto
    qed
    then show "p \<in> maximal (r_prefix ` set rs)" using r sub by (auto simp: maximal_def)
  next
    fix p assume p: "p \<in> maximal (r_prefix ` set rs)"
    then obtain r where "r \<in> set rs" "p = r_prefix r" by (auto simp: maximal_def)
    with cov obtain q where q: "q \<in> set ?p" "covers (r_prefix q) p" by blast
    then have "r_prefix q = p" using p sub by (auto simp: maximal_def)
    with q(1) show "p \<in> r_prefix ` set ?p" by blast
  qed
  then show "r_prefix ` set (prune rs) = maximal (r_prefix ` set rs)" by (simp add: prune_def)
qed

lemma set_prune_subset: "set (prune rs) \<subseteq> set rs"
  using prune_loop_subset[of "[]" "sort_key by_bits rs"] by (simp add: prune_def)

definition addr_bits :: "prefix \<Rightarrow> addr \<times> int" where
  "addr_bits p = (p_addr p, p_bits p)"

lemma inj_addr_bits: "inj addr_bits"
  by (rule injI) (simp add: addr_bits_def)

lemma sorted_prune: "sorted (map addr_bits (map r_prefix (prune rs)))"
proof -
  have "addr_bits \<circ> r_prefix = by_addr" by (auto simp: addr_bits_def by_addr_def)
  then show ?thesis unfolding prune_def map_map by simp
qed

text \<open>
  C3. Pruning is a function of the set of candidate networks alone: the published prefixes are
  the maximal ones, each once, in address order, whatever order the candidates came in (and
  so whatever order \<open>sort.Slice\<close> leaves equal keys in).
\<close>

theorem prune_order_irrelevant:
  assumes "\<forall>r\<in>set rs. net4 (r_prefix r)" and "r_prefix ` set rs = r_prefix ` set rs'"
  shows "map r_prefix (prune rs) = map r_prefix (prune rs') \<and>
    set (map r_prefix (prune rs)) = maximal (r_prefix ` set rs) \<and>
    distinct (map r_prefix (prune rs)) \<and> sorted (map addr_bits (map r_prefix (prune rs)))"
proof -
  have g': "\<forall>r\<in>set rs'. net4 (r_prefix r)" using assms by (metis image_iff)
  note a = set_prune_maximal[OF assms(1)] and b = set_prune_maximal[OF g']
  have d: "distinct (map addr_bits (map r_prefix (prune xs)))" if "distinct (map r_prefix (prune xs))" for xs
    using that inj_addr_bits by (simp add: distinct_map inj_on_def)
  have "map addr_bits (map r_prefix (prune rs)) = map addr_bits (map r_prefix (prune rs'))"
    using a b d sorted_prune assms(2) by (intro sorted_distinct_set_unique) (auto simp: image_image[symmetric])
  then have "map r_prefix (prune rs) = map r_prefix (prune rs')"
    using inj_addr_bits by (metis inj_map_eq_map)
  with a sorted_prune[of rs] show ?thesis by (metis list.set_map)
qed

subsection \<open>The policy pass\<close>

lemma set_rights: "b \<in> set (rights xs) \<longleftrightarrow> Inr b \<in> set xs"
  unfolding rights_def by (induction xs) (auto simp: List.map_filter_simps split: sum.split)

lemma set_lefts: "a \<in> set (lefts xs) \<longleftrightarrow> Inl a \<in> set xs"
  unfolding lefts_def by (induction xs) (auto simp: List.map_filter_simps split: sum.split)

text \<open>Every candidate has a masked prefix and one of four sources.\<close>

definition route_sources :: "string set" where
  "route_sources = {''rule'', ''geo'', ''domain'', ''fakeip''}"

definition is_candidate :: "route \<Rightarrow> bool" where
  "is_candidate r \<longleftrightarrow> (\<exists>p. r_prefix r = masked p) \<and> r_source r \<in> route_sources"

lemma candidate_masked [simp]: "is_candidate (candidate p src i d) \<longleftrightarrow> src \<in> route_sources"
  by (auto simp: is_candidate_def candidate_def)

lemma route_sources_simps [simp]: "''rule'' \<in> route_sources" "''geo'' \<in> route_sources"
  "''domain'' \<in> route_sources" "''fakeip'' \<in> route_sources"
  by (simp_all add: route_sources_def)

definition cands_ok :: "collector \<Rightarrow> bool" where
  "cands_ok c \<longleftrightarrow> (\<forall>r\<in>set (c_cands c). is_candidate r)"

lemma cands_ok_simps [simp]:
  "cands_ok (add_warning w c) = cands_ok c" "cands_ok (add_want d c) = cands_ok c"
  "cands_ok (c\<lparr>c_truncated := k\<rparr>) = cands_ok c"
  "cands_ok (add_cands rs c) \<longleftrightarrow> (\<forall>r\<in>set rs. is_candidate r) \<and> cands_ok c"
  by (auto simp: cands_ok_def add_warning_def add_want_def add_cands_def)

lemma v4_cands_masked [simp]: "r \<in> set (v4_cands ps i d) \<Longrightarrow> is_candidate r"
  by (auto simp: v4_cands_def)

lemma domain_cands_masked [simp]: "r \<in> set (domain_cands s d i t) \<Longrightarrow> is_candidate r"
  by (auto simp: domain_cands_def)

lemma entries_loop_ok: "cands_ok c \<Longrightarrow> cands_ok (entries_loop s rule n es c)"
  by (induction s rule n es c rule: entries_loop.induct) auto

lemma ip_step_ok: "cands_ok c \<Longrightarrow> cands_ok (ip_step rule c)"
  by (simp add: ip_step_def split: sum.split option.split)

lemma geoip_step_ok: "cands_ok c \<Longrightarrow> cands_ok (geoip_step src rule c)"
  by (simp add: geoip_step_def Let_def split: sum.split option.split)

lemma domain_step_ok: "cands_ok c \<Longrightarrow> cands_ok (domain_step s rule c)"
  by (simp add: domain_step_def split: sum.split)

lemma geosite_step_ok: "cands_ok c \<Longrightarrow> cands_ok (geosite_step s src rule c)"
  by (simp add: geosite_step_def Let_def entries_loop_ok split: sum.split option.split)

lemmas step_oks = ip_step_ok geoip_step_ok domain_step_ok geosite_step_ok

lemma rule_step_ok: "cands_ok c \<Longrightarrow> cands_ok (rule_step s src c rule)"
  by (simp add: rule_step_def step_oks split: match_kind.split)

lemma collect_ok: "cands_ok (collect s src)"
proof -
  have "cands_ok (pool_step s)"
    by (auto simp: pool_step_def Let_def cands_ok_def add_cands_def add_warning_def split: option.split)
  moreover have "cands_ok c \<Longrightarrow> cands_ok (foldl (rule_step s src) c rs)" for c rs
    by (induction rs arbitrary: c) (auto intro: rule_step_ok)
  ultimately show ?thesis by (simp add: collect_def)
qed

lemma policy_Inr:
  assumes "policy s r = Inr r'"
  shows "r' = r\<lparr>r_state := StatePending\<rparr> \<and> validate (r_prefix r) = None \<and>
    (\<forall>pp\<in>set (fst (protectedPrefixes s)). \<not> p_contains (r_prefix r) (p_addr pp)) \<and>
    (allowlist (nc_ospf_publish_allow (s_network s)) \<noteq> [] \<longrightarrow>
       inAllowlist (r_prefix r) (allowlist (nc_ospf_publish_allow (s_network s))))"
  using assms unfolding policy_def coveredBy_def Let_def
  by (auto split: option.splits if_splits prod.splits simp: find_None_iff)

lemma policy_Inl:
  assumes "policy s r = Inl r'"
  shows "r_prefix r' = r_prefix r \<and> r_source r' = r_source r \<and>
    (r_state r' = StateFailed \<or> r_state r' = StateProtected)"
  using assms unfolding policy_def Let_def
  by (auto split: option.splits if_splits prod.splits)

lemma validate_is4: "validate p = None \<Longrightarrow> is4 (p_addr p)"
  by (cases "p_addr p") (auto simp: validate_def)

lemma accepted_net4:
  "\<forall>r\<in>set (rights (map (policy s) (c_cands (collect s src)))). net4 (r_prefix r)"
proof
  fix r assume "r \<in> set (rights (map (policy s) (c_cands (collect s src))))"
  then obtain r0 where r0: "r0 \<in> set (c_cands (collect s src))" "policy s r0 = Inr r"
    by (auto simp: set_rights)
  then obtain p where "r_prefix r0 = masked p" using collect_ok unfolding cands_ok_def is_candidate_def by blast
  with policy_Inr[OF r0(2)] validate_is4[of "r_prefix r0"] show "net4 (r_prefix r)"
    by (simp add: net4_masked)
qed

lemma publish_cases:
  assumes "r \<in> set (er_publish (Compute s src))"
  obtains r0 where "r0 \<in> set (c_cands (collect s src))" "policy s r0 = Inr r"
    "r_prefix r = r_prefix r0" "net4 (r_prefix r)"
proof -
  have "r \<in> set (rights (map (policy s) (c_cands (collect s src))))"
    using assms set_prune_subset by (auto simp: Compute_def Let_def empty_result_def split: if_splits)
  then obtain r0 where r0: "r0 \<in> set (c_cands (collect s src))" "policy s r0 = Inr r"
    by (auto simp: set_rights)
  moreover have "net4 (r_prefix r)" using accepted_net4 \<open>r \<in> set (rights _)\<close> by blast
  moreover have "r_prefix r = r_prefix r0" using policy_Inr[OF r0(2)] by simp
  ultimately show ?thesis using that by blast
qed

text \<open>
  C2. Whatever the rules, geodata and DNS answers are, a route the engine publishes has passed
  the whole policy: it is a masked IPv4 network that \<open>validate\<close> accepts, it contains no
  protected endpoint, it lies inside the allowlist when there is one, it waits for the
  kernel, and nothing is published in mode A.
\<close>

theorem publish_respects_policy:
  assumes "r \<in> set (er_publish (Compute s src))"
  shows "nc_mode (s_network s) \<noteq> ModeA \<and> net4 (r_prefix r) \<and> validate (r_prefix r) = None \<and>
    (\<forall>pp\<in>set (fst (protectedPrefixes s)). \<not> p_contains (r_prefix r) (p_addr pp)) \<and>
    (allowlist (nc_ospf_publish_allow (s_network s)) \<noteq> [] \<longrightarrow>
       inAllowlist (r_prefix r) (allowlist (nc_ospf_publish_allow (s_network s)))) \<and>
    r_state r = StatePending"
proof -
  have "nc_mode (s_network s) \<noteq> ModeA"
    using assms by (auto simp: Compute_def empty_result_def)
  with assms show ?thesis
    by (elim publish_cases) (drule policy_Inr, auto)
qed

subsection \<open>Example state for witnesses\<close>

definition ip_rule :: "string \<Rightarrow> rule" where
  "ip_rule v = zero_rule\<lparr>ru_id := ''r1'', ru_set_id := ''s'', ru_match_kind := MatchIP, ru_match_value := v,
     ru_action_kind := ActionProxy, ru_enabled := True\<rparr>"

definition example_snapshot :: "mode \<Rightarrow> rule list \<Rightarrow> node list \<Rightarrow> snapshot" where
  "example_snapshot m rules nodes =
     \<lparr>s_generation = 1, s_network = zero_network_config\<lparr>nc_mode := m\<rparr>, s_dns = zero_dns_config,
      s_nodes = nodes, s_groups = [],
      s_rule_sets = [zero_rule_set\<lparr>rs_id := ''s'', rs_enabled := True\<rparr>],
      s_rules = rules, s_device_policies = [], s_bypass = [], s_resolved = [], s_protected_hosts = []\<rparr>"

definition no_sources :: sources where
  "no_sources = \<lparr>src_geoip = None, src_geosite = None, src_default_iface = []\<rparr>"

definition example_route :: "ipv4 \<Rightarrow> int \<Rightarrow> route" where
  "example_route n b = \<lparr>r_prefix = v4_prefix n b, r_source = ''rule'', r_rule_id = ''r1'',
     r_state = StatePending, r_detail = ''ip rule''\<rparr>"

lemma example_publish:
  "er_publish (Compute (example_snapshot ModeC [ip_rule ''8.8.8.8/16''] []) no_sources)
     = [example_route 0x08080000 16]"
  by code_simp

theorem publish_respects_policy_witness:
  "validate (r_prefix (example_route 0x08080000 16)) = None"
  using publish_respects_policy[of "example_route 0x08080000 16"
      "example_snapshot ModeC [ip_rule ''8.8.8.8/16''] []" no_sources]
  by (simp add: example_publish)

definition two_routes :: "route list" where
  "two_routes = [example_route 0x08080800 24, example_route 0x08080000 16]"

theorem prune_order_irrelevant_witness:
  "map r_prefix (prune two_routes) = map r_prefix (prune (rev two_routes @ two_routes))"
proof -
  have "net4 (v4_prefix 0x08080800 24)" "net4 (v4_prefix 0x08080000 16)"
    unfolding net4_def
    by (rule exI[of _ "0x08080800"], rule exI[of _ 24], simp add: mask_to_def)
       (rule exI[of _ "0x08080000"], rule exI[of _ 16], simp add: mask_to_def)
  then have "\<forall>r\<in>set two_routes. net4 (r_prefix r)" by (simp add: two_routes_def example_route_def)
  moreover have "r_prefix ` set two_routes = r_prefix ` set (rev two_routes @ two_routes)" by simp
  ultimately show ?thesis using prune_order_irrelevant by blast
qed

end
