(* ===== verification/RouteDriver.thy ===== *)
theory RouteDriver
  imports Driver RouteProps
begin

text \<open>
  \<open>internal/driver/route\<close>: installing the rendered prefix set into the kernel table FRR
  redistributes.  The \<open>Kernel\<close> interface is a record of operations on the state \<open>'k\<close> of the
  routing tables (an \<open>error\<close> result is an optional message); its contract is the locale
  \<open>kernel\<close>, under which the driver is proved and which the in-memory \<open>Fake\<close> and, given the
  documented behaviour of the netlink library, the real \<open>Netlink\<close> satisfy.
\<close>

record 'k kernel_ops =
  k_list :: "'k \<Rightarrow> int \<Rightarrow> int \<Rightarrow> prefix list result"
  k_add :: "'k \<Rightarrow> int \<Rightarrow> int \<Rightarrow> prefix list \<Rightarrow> 'k \<times> string option"
  k_del :: "'k \<Rightarrow> int \<Rightarrow> int \<Rightarrow> prefix list \<Rightarrow> 'k \<times> string option"

type_synonym 'k sleeper = "'k \<Rightarrow> duration \<Rightarrow> 'k \<times> string option"

record 'k route_driver =
  rd_kernel :: "'k kernel_ops"
  rd_batch :: int
  rd_interval :: duration
  rd_sleep :: "'k sleeper option"
  rd_last_err :: string
  rd_last_apply :: time
  rd_cleaned :: bool
  rd_installed :: int

record plan_state =
  ps_add :: "prefix list"
  ps_del :: "prefix list"

definition sortPrefixes :: "prefix list \<Rightarrow> prefix list" where
  "sortPrefixes ps = sort_key (\<lambda>p. (p_addr p, p_bits p)) ps"

text \<open>\<open>sleepCtx\<close>: returns at once with the context's error when it is done, else after the pause.\<close>

definition sleepCtx :: "string option \<Rightarrow> 'k sleeper" where
  "sleepCtx ctx_err k d = (k, ctx_err)"

definition newDriver :: "'k kernel_ops \<Rightarrow> string option \<Rightarrow> 'k route_driver" where
  "newDriver K ctx_err = \<lparr>rd_kernel = K, rd_batch = 500, rd_interval = 2 * second,
     rd_sleep = Some (sleepCtx ctx_err), rd_last_err = [], rd_last_apply = zero_time,
     rd_cleaned = False, rd_installed = 0\<rparr>"

subsection \<open>Plan\<close>

text \<open>The ellipsis is one character of three bytes.\<close>

definition routeDiff :: "prefix list \<Rightarrow> prefix list \<Rightarrow> int \<Rightarrow> string" where
  "routeDiff add del limit =
     (let lines = map (\<lambda>p. ''- '' @ prefix_string p) del @ map (\<lambda>p. ''+ '' @ prefix_string p) add;
          lines' = (if int (length lines) > limit
                    then take (nat limit) lines @
                      [[CHR 0xE2, CHR 0x80, CHR 0xA6] @ '' '' @ int_string (int (length lines) - limit) @ '' more'']
                    else lines)
      in join_with [CHR 0x0A] lines')"

definition plan_state_of :: "prefix list \<Rightarrow> artifacts \<Rightarrow> plan_state" where
  "plan_state_of have art =
     (let want = map r_prefix (a_routes art) in
      \<lparr>ps_add = sortPrefixes (filter (\<lambda>p. p \<notin> set have) want),
       ps_del = sortPrefixes (filter (\<lambda>p. p \<notin> set want) have)\<rparr>)"

definition route_Plan :: "'k route_driver \<Rightarrow> 'k \<Rightarrow> artifacts \<Rightarrow> plan_state plan result" where
  "route_Plan d k art =
     (case k_list (rd_kernel d) k RouteTable RouteProtocol of
        Inl e \<Rightarrow> Inl (''list kernel routes: '' @ e)
      | Inr have \<Rightarrow>
          (let st = plan_state_of have art in
           if ps_add st = [] \<and> ps_del st = [] then
             Inr \<lparr>pl_component = ComponentFRR,
                  pl_actions = [\<lparr>da_kind = ActionNoop, da_detail = int_string (int (length have)) @
                    '' route(s) in table '' @ int_string RouteTable @ '', unchanged''\<rparr>],
                  pl_diff = [], pl_state = None\<rparr>
           else
             Inr \<lparr>pl_component = ComponentFRR,
                  pl_actions = [\<lparr>da_kind = ActionExec, da_detail = ''routes +'' @
                    int_string (int (length (ps_add st))) @ '' -'' @ int_string (int (length (ps_del st))) @
                    '' (table '' @ int_string RouteTable @ '')''\<rparr>],
                  pl_diff = routeDiff (ps_add st) (ps_del st) 60, pl_state = Some st\<rparr>))"

subsection \<open>Apply\<close>

text \<open>
  \<open>paced\<close> walks the list in slices of \<open>batch\<close> (at least one) and pauses between slices.  The
  argument \<open>pause\<close> is the sleep the driver has when its interval is positive.
\<close>

fun paced :: "('k \<Rightarrow> prefix list \<Rightarrow> 'k \<times> string option) \<Rightarrow> ('k \<Rightarrow> 'k \<times> string option) \<Rightarrow> int \<Rightarrow> 'k
    \<Rightarrow> prefix list \<Rightarrow> 'k \<times> string option" where
  "paced fn pause batch k [] = (k, None)"
| "paced fn pause batch k (p # ps) =
     (let chunk = p # take (nat (batch - 1)) ps; rest = drop (nat (batch - 1)) ps in
      case fn k chunk of
        (k', Some e) \<Rightarrow> (k', Some e)
      | (k', None) \<Rightarrow>
          if rest = [] then (k', None)
          else (case pause k' of
                  (k2, Some e) \<Rightarrow> (k2, Some e)
                | (k2, None) \<Rightarrow> paced fn pause batch k2 rest))"

definition rd_pause :: "'k route_driver \<Rightarrow> 'k \<Rightarrow> 'k \<times> string option" where
  "rd_pause d k = (case rd_sleep d of
       Some slp \<Rightarrow> if rd_interval d > 0 then slp k (rd_interval d) else (k, None)
     | None \<Rightarrow> (k, None))"

definition apply_state :: "'k route_driver \<Rightarrow> 'k \<Rightarrow> plan_state \<Rightarrow> 'k route_driver \<times> 'k \<times> string option" where
  "apply_state d k st =
     (let K = rd_kernel d; batch = (if rd_batch d \<le> 0 then 500 else rd_batch d) in
      case paced (\<lambda>k ps. k_del K k RouteTable RouteProtocol ps) (rd_pause d) batch k (ps_del st) of
        (k1, Some e) \<Rightarrow> (d, k1, Some (''delete routes: '' @ e))
      | (k1, None) \<Rightarrow>
          (case paced (\<lambda>k ps. k_add K k RouteTable RouteProtocol ps) (rd_pause d) batch k1 (ps_add st) of
             (k2, Some e) \<Rightarrow> (d, k2, Some (''add routes: '' @ e))
           | (k2, None) \<Rightarrow>
               (case k_list K k2 RouteTable RouteProtocol of
                  Inr have \<Rightarrow> (d\<lparr>rd_installed := int (length have)\<rparr>, k2, None)
                | Inl _ \<Rightarrow> (d, k2, None))))"

definition LegacyTables :: "int list" where "LegacyTables = [100]"

text \<open>One legacy table; a failure is only logged.\<close>

definition clean_table :: "'k kernel_ops \<Rightarrow> 'k \<Rightarrow> int \<Rightarrow> 'k" where
  "clean_table K k t =
     (if t = RouteTable then k
      else (case k_list K k t RouteProtocol of
              Inr old \<Rightarrow> if old \<noteq> [] then fst (k_del K k t RouteProtocol old) else k
            | Inl _ \<Rightarrow> k))"

definition route_Apply ::
  "time \<Rightarrow> 'k route_driver \<Rightarrow> 'k \<Rightarrow> plan_state plan \<Rightarrow> 'k route_driver \<times> 'k \<times> string option" where
  "route_Apply now d k plan =
     (let d1 = d\<lparr>rd_last_apply := now, rd_cleaned := True\<rparr>;
          k1 = (if rd_cleaned d then k else foldl (clean_table (rd_kernel d)) k LegacyTables) in
      case pl_state plan of
        None \<Rightarrow> (d1, k1, None)
      | Some st \<Rightarrow>
          (case apply_state d1 k1 st of
             (d2, k2, Some e) \<Rightarrow> (d2\<lparr>rd_last_err := e\<rparr>, k2, Some e)
           | (d2, k2, None) \<Rightarrow> (d2\<lparr>rd_last_err := []\<rparr>, k2, None)))"

definition route_Health :: "'k route_driver \<Rightarrow> component_health" where
  "route_Health d = \<lparr>h_name = ComponentFRR,
     h_status = (if rd_last_err d \<noteq> [] then StatusDegraded else StatusActive), h_version = [],
     h_last_error = rd_last_err d,
     h_last_apply = (if rd_last_apply d = zero_time then None else Some (rd_last_apply d))\<rparr>"

subsection \<open>The in-memory kernel\<close>

record fake =
  fk_tables :: "int \<Rightarrow> prefix list option"
  fk_adds :: int
  fk_dels :: int
  fk_fail :: "string option"

definition NewFake :: fake where
  "NewFake = \<lparr>fk_tables = (\<lambda>_. None), fk_adds = 0, fk_dels = 0, fk_fail = None\<rparr>"

definition fake_rows :: "fake \<Rightarrow> int \<Rightarrow> prefix list" where
  "fake_rows f t = (case fk_tables f t of Some ps \<Rightarrow> ps | None \<Rightarrow> [])"

definition fake_List :: "fake \<Rightarrow> int \<Rightarrow> int \<Rightarrow> prefix list result" where
  "fake_List f t _ = (case fk_fail f of Some e \<Rightarrow> Inl e | None \<Rightarrow> Inr (sortPrefixes (fake_rows f t)))"

definition fake_Add :: "fake \<Rightarrow> int \<Rightarrow> int \<Rightarrow> prefix list \<Rightarrow> fake \<times> string option" where
  "fake_Add f t _ ps =
     (case fk_fail f of
        Some e \<Rightarrow> (f, Some e)
      | None \<Rightarrow> (f\<lparr>fk_tables := (fk_tables f)(t := Some (foldl (\<lambda>m p. List.insert p m) (fake_rows f t) ps)),
                   fk_adds := fk_adds f + int (length ps)\<rparr>, None))"

definition fake_Del :: "fake \<Rightarrow> int \<Rightarrow> int \<Rightarrow> prefix list \<Rightarrow> fake \<times> string option" where
  "fake_Del f t _ ps =
     (case fk_fail f of
        Some e \<Rightarrow> (f, Some e)
      | None \<Rightarrow> (f\<lparr>fk_tables := (fk_tables f)(t := map_option (\<lambda>m. filter (\<lambda>p. p \<notin> set ps) m) (fk_tables f t)),
                   fk_dels := fk_dels f + int (length ps)\<rparr>, None))"

definition fake_ops :: "fake kernel_ops" where
  "fake_ops = \<lparr>k_list = fake_List, k_add = fake_Add, k_del = fake_Del\<rparr>"

subsection \<open>The netlink kernel\<close>

text \<open>
  The library's calls are parameters over the state \<open>'w\<close> of the host.  A listed route carries
  the destination (its IPv4 address, when it has one, and the mask size) or none.
\<close>

datatype nl_error = ESRCH | ENOENT | NlOther string

fun nl_error_string :: "nl_error \<Rightarrow> string" where
  "nl_error_string ESRCH = ''no such process''"
| "nl_error_string ENOENT = ''no such file or directory''"
| "nl_error_string (NlOther s) = s"

definition isNotExist :: "nl_error \<Rightarrow> bool" where
  "isNotExist e \<longleftrightarrow> e = ESRCH \<or> e = ENOENT \<or> nl_error_string e = ''no such process''"

record nl_route =
  nr_dst :: "(ipv4 option \<times> int) option"
  nr_link_index :: int
  nr_table :: int
  nr_protocol :: int

record 'w netlink_lib =
  nl_link_by_name :: "'w \<Rightarrow> string \<Rightarrow> int result"
  nl_route_list :: "'w \<Rightarrow> int \<Rightarrow> int \<Rightarrow> nl_route list result"
  nl_route_replace :: "'w \<Rightarrow> nl_route \<Rightarrow> 'w \<times> nl_error option"
  nl_route_del :: "'w \<Rightarrow> nl_route \<Rightarrow> 'w \<times> nl_error option"

text \<open>The \<open>sync.Once\<close>: \<open>None\<close> until the loopback index has been asked for.\<close>

record 'w netlink =
  nl_lo :: "int result option"
  nl_world :: 'w

definition nl_lo_index :: "'w netlink_lib \<Rightarrow> 'w netlink \<Rightarrow> 'w netlink \<times> int result" where
  "nl_lo_index L n =
     (case nl_lo n of
        Some r \<Rightarrow> (n, r)
      | None \<Rightarrow> (let r = nl_link_by_name L (nl_world n) ''lo'' in (n\<lparr>nl_lo := Some r\<rparr>, r)))"

definition nl_dst_prefix :: "nl_route \<Rightarrow> prefix option" where
  "nl_dst_prefix r = (case nr_dst r of Some (Some a, ones) \<Rightarrow> Some (prefix_from (V4 a) ones) | _ \<Rightarrow> None)"

definition netlink_List :: "'w netlink_lib \<Rightarrow> 'w netlink \<Rightarrow> int \<Rightarrow> int \<Rightarrow> prefix list result" where
  "netlink_List L n t proto =
     (case nl_route_list L (nl_world n) t proto of
        Inl e \<Rightarrow> Inl (''list routes table '' @ int_string t @ '': '' @ e)
      | Inr rs \<Rightarrow> Inr (sortPrefixes (List.map_filter nl_dst_prefix rs)))"

definition nl_make_route :: "int \<Rightarrow> int \<Rightarrow> int \<Rightarrow> prefix \<Rightarrow> nl_route" where
  "nl_make_route idx t proto p = \<lparr>nr_dst = Some (case p_addr p of V4 a \<Rightarrow> Some a | _ \<Rightarrow> None, p_bits p),
     nr_link_index = idx, nr_table = t, nr_protocol = proto\<rparr>"

fun netlink_Add :: "'w netlink_lib \<Rightarrow> 'w netlink \<Rightarrow> int \<Rightarrow> int \<Rightarrow> prefix list \<Rightarrow> 'w netlink \<times> string option" where
  "netlink_Add L n t proto [] = (n, None)"
| "netlink_Add L n t proto (p # ps) =
     (case nl_lo_index L n of
        (n1, Inl e) \<Rightarrow> (n1, Some e)
      | (n1, Inr idx) \<Rightarrow>
          (case nl_route_replace L (nl_world n1) (nl_make_route idx t proto p) of
             (w, Some e) \<Rightarrow> (n1\<lparr>nl_world := w\<rparr>, Some (''add '' @ prefix_string p @ '': '' @ nl_error_string e))
           | (w, None) \<Rightarrow> netlink_Add L (n1\<lparr>nl_world := w\<rparr>) t proto ps))"

fun netlink_Del :: "'w netlink_lib \<Rightarrow> 'w netlink \<Rightarrow> int \<Rightarrow> int \<Rightarrow> prefix list \<Rightarrow> 'w netlink \<times> string option" where
  "netlink_Del L n t proto [] = (n, None)"
| "netlink_Del L n t proto (p # ps) =
     (case nl_lo_index L n of
        (n1, Inl e) \<Rightarrow> (n1, Some e)
      | (n1, Inr idx) \<Rightarrow>
          (case nl_route_del L (nl_world n1) (nl_make_route idx t proto p) of
             (w, Some e) \<Rightarrow>
               if isNotExist e then netlink_Del L (n1\<lparr>nl_world := w\<rparr>) t proto ps
               else (n1\<lparr>nl_world := w\<rparr>, Some (''del '' @ prefix_string p @ '': '' @ nl_error_string e))
           | (w, None) \<Rightarrow> netlink_Del L (n1\<lparr>nl_world := w\<rparr>) t proto ps))"

definition netlink_ops :: "'w netlink_lib \<Rightarrow> 'w netlink kernel_ops" where
  "netlink_ops L = \<lparr>k_list = netlink_List L, k_add = netlink_Add L, k_del = netlink_Del L\<rparr>"

end
