(* ===== verification/RouteSafety.thy ===== *)
theory RouteSafety
  imports RouteProps
begin

text \<open>
  Consequences of the policy for addresses: reserved space and protected endpoints, the
  accounting of candidates, the modes, and the two places where the engine does less than its
  comments say (short prefixes over private space; the repeated truncation warning).
\<close>

subsection \<open>Reserved address space\<close>

text \<open>
  The space \<open>validate\<close> says is never announced: this-network, private, CGNAT, loopback,
  link-local, and everything from 224.0.0.0 up.
\<close>

definition reserved :: "ipv4 \<Rightarrow> bool" where
  "reserved a \<longleftrightarrow> octet 0 a = 0 \<or> is_private (V4 a) \<or> is_loopback (V4 a) \<or>
     is_link_local_unicast (V4 a) \<or> octet 0 a \<ge> 224 \<or>
     (octet 0 a = 100 \<and> 64 \<le> octet 1 a \<and> octet 1 a \<le> 127)"

lemma reserved_octets:
  "octet 0 a = octet 0 b \<Longrightarrow> octet 1 a = octet 1 b \<Longrightarrow> reserved a = reserved b"
  by (simp add: reserved_def addr_class_defs)

lemma validate_not_reserved: "validate (v4_prefix n b) = None \<Longrightarrow> \<not> reserved n"
  unfolding validate_def reserved_def Let_def
  by (auto simp: addr_class_defs split: if_splits)

text \<open>
  C4. A published prefix of 16 bits or more contains no reserved address at all: since such
  prefixes fix the two octets the policy looks at, checking the network address is enough.
\<close>

theorem publish_no_reserved:
  assumes "r \<in> set (er_publish (Compute s src))" and "16 \<le> p_bits (r_prefix r)"
    and "p_contains (r_prefix r) (V4 x)"
  shows "\<not> reserved x"
proof -
  have p: "net4 (r_prefix r)" "validate (r_prefix r) = None"
    using publish_cases[OF assms(1)] policy_Inr by metis+
  from p(1) obtain n b where nb: "b \<le> 32" "r_prefix r = v4_prefix n (int b)" by (auto elim: net4E)
  with assms have "same_net b x n" "16 \<le> b" by auto
  then have "octet 0 x = octet 0 n" "octet 1 x = octet 1 n"
    using octet_same_net[of b x n 0] octet_same_net[of b x n 1] nb(1) by auto
  with validate_not_reserved[of n "int b"] p(2) nb(2) reserved_octets[of x n] show ?thesis by simp
qed

theorem publish_no_reserved_witness: "\<not> reserved 0x08080101"
  by (rule publish_no_reserved[of "example_route 0x08080000 16"
        "example_snapshot ModeC [ip_rule ''8.8.8.8/16''] []" no_sources])
     (simp add: example_publish, simp add: example_route_def, code_simp)

text \<open>
  The bound of 16 bits is needed.  An operator's rule for 192.160.0.0/12 is announced as it
  stands although it contains all of 192.168.0.0/16: \<open>validate\<close> looks at the network address
  only, while its comment says that private space is never announced.
\<close>

theorem short_prefix_announces_private_space:
  "er_publish (Compute (example_snapshot ModeC [ip_rule ''192.160.0.0/12''] []) no_sources)
     = [example_route 0xC0A00000 12] \<and>
   {x. octet 0 x = 192 \<and> octet 1 x = 168}
     \<subseteq> {x. p_contains (r_prefix (example_route 0xC0A00000 12)) (V4 x) \<and> reserved x}"
proof (intro conjI subsetI CollectI)
  show "er_publish (Compute (example_snapshot ModeC [ip_rule ''192.160.0.0/12''] []) no_sources)
     = [example_route 0xC0A00000 12]" by code_simp
  fix x :: ipv4 assume "x \<in> {x. octet 0 x = 192 \<and> octet 1 x = 168}"
  then have x: "octet 0 x = 192 \<and> octet 1 x = 168" by simp
  from x show "reserved x" by (simp add: reserved_def addr_class_defs)
  have u: "uint x div 65536 mod 256 = 168" "uint x div 16777216 mod 256 = 192"
    using x by (simp_all add: octet_uint)
  have "uint x < 2 ^ 32" "0 \<le> uint x" using uint_lt2p[of x] by auto
  then have top: "uint x div 16777216 = 192"
    using u(2) by (subst (asm) mod_pos_pos_trivial) (auto simp: pos_imp_zdiv_nonneg_iff)
  have "uint x div 65536 = 192 * 256 + 168"
    using div_mult_mod_eq[of "uint x div 65536" 256] u(1) top
    by (simp add: zdiv_zmult2_eq[symmetric])
  then have "uint x div 1048576 = 3082"
    using zdiv_zmult2_eq[of 16 "uint x" 65536] by simp
  then have "drop_bit 20 x = (3082 :: ipv4)"
    using uint_drop_bit_32[of 20 x] by (simp add: word_uint_eq_iff)
  moreover have "drop_bit 20 (0xC0A00000 :: ipv4) = 3082" by simp
  ultimately have "same_net 12 x (0xC0A00000 :: ipv4)" by (simp add: same_net_iff)
  then show "p_contains (r_prefix (example_route 0xC0A00000 12)) (V4 x)"
    using contains_v4[of "0xC0A00000" 12 x] by (simp add: example_route_def)
qed

subsection \<open>Endpoints\<close>












subsection \<open>Nothing is lost\<close>

lemma candidate_accounted:
  assumes "nc_mode (s_network s) \<noteq> ModeA" "r0 \<in> set (c_cands (collect s src))"
  shows "(\<exists>r\<in>set (er_rejected (Compute s src)). r_prefix r = r_prefix r0) \<or>
    (\<exists>r\<in>set (er_publish (Compute s src)). covers (r_prefix r) (r_prefix r0))"
proof (cases "policy s r0")
  case (Inl r)
  then have "r \<in> set (er_rejected (Compute s src))"
    using assms by (force simp: Compute_def Let_def set_lefts)
  with policy_Inl[OF Inl] show ?thesis by blast
next
  case (Inr r)
  let ?ok = "rights (map (policy s) (c_cands (collect s src)))"
  have r: "r \<in> set ?ok" using assms(2) Inr by (force simp: set_rights)
  have "\<exists>q\<in>set (prune_loop [] (sort_key by_bits ?ok)). covers (r_prefix q) (r_prefix r)"
    using prune_loop_covers[of "sort_key by_bits ?ok" r "[]"] accepted_net4 r by simp
  then have "\<exists>q\<in>set (er_publish (Compute s src)). covers (r_prefix q) (r_prefix r)"
    using assms(1) by (simp add: Compute_def Let_def prune_def)
  with policy_Inr[OF Inr] show ?thesis by auto
qed

lemma collector_mono_simps [simp]:
  "c_cands (add_warning w c) = c_cands c" "c_cands (add_want d c) = c_cands c"
  "c_cands (add_cands rs c) = c_cands c @ rs"
  by (simp_all add: add_warning_def add_want_def add_cands_def)

lemma entries_loop_mono: "set (c_cands c) \<subseteq> set (c_cands (entries_loop s rule n es c))"
  by (induction s rule n es c rule: entries_loop.induct) (auto split: if_splits)

lemma ip_step_mono: "set (c_cands c) \<subseteq> set (c_cands (ip_step rule c))"
  by (auto simp: ip_step_def split: sum.split option.split)

lemma geoip_step_mono: "set (c_cands c) \<subseteq> set (c_cands (geoip_step src rule c))"
  by (auto simp: geoip_step_def Let_def split: sum.split option.split)

lemma domain_step_mono: "set (c_cands c) \<subseteq> set (c_cands (domain_step s rule c))"
  by (auto simp: domain_step_def split: sum.split)

lemma geosite_step_mono: "set (c_cands c) \<subseteq> set (c_cands (geosite_step s src rule c))"
proof -
  have "set (c_cands c) \<subseteq> set (c_cands (entries_loop s rule 0 es c))" for es
    by (rule entries_loop_mono)
  then show ?thesis by (simp add: geosite_step_def Let_def split: sum.split option.split)
qed

lemmas step_monos = ip_step_mono geoip_step_mono domain_step_mono geosite_step_mono

lemma rule_step_mono: "set (c_cands c) \<subseteq> set (c_cands (rule_step s src c rule))"
  using step_monos by (simp add: rule_step_def split: match_kind.split)

lemma foldl_rule_step_mono: "set (c_cands c) \<subseteq> set (c_cands (foldl (rule_step s src) c rs))"
proof (induction rs arbitrary: c)
  case (Cons r rs)
  then show ?case using rule_step_mono[of c s src r] by (simp add: order_trans)
qed simp

lemma foldl_rule_step_member:
  assumes "rule \<in> set rs" and "\<And>c. x \<in> set (c_cands (rule_step s src c rule))"
  shows "x \<in> set (c_cands (foldl (rule_step s src) c rs))"
  using assms(1)
proof (induction rs arbitrary: c)
  case (Cons r rs)
  then show ?case using assms(2)[of c] foldl_rule_step_mono by fastforce
qed simp

lemma ip_rule_covered:
  assumes "nc_mode (s_network s) \<noteq> ModeA" and "rule \<in> set (ActiveRules s)"
    and "proxyAction (ru_action_kind rule)" and "ru_match_kind rule = MatchIP"
    and "NormalizeIPOrCIDR (ru_match_value rule) = Inr v" "parse_prefix v = Some q" "is4 (p_addr q)"
  shows "(\<exists>r\<in>set (er_rejected (Compute s src)). r_prefix r = masked q) \<or>
    (\<exists>r\<in>set (er_publish (Compute s src)). \<forall>a. p_contains q a \<longrightarrow> p_contains (r_prefix r) a)"
proof -
  have wf: "wf_prefix q" "prefix_valid q" using parse_prefix_wf[OF assms(6)] by auto
  with assms(7) obtain n b where q: "q = v4_prefix n (int b)" "b \<le> 32"
    by (rule_tac wf_prefix_v4_cases) auto
  then have n4: "net4 (masked q)" by (auto simp: masked_v4 net4_def)
  let ?r = "candidate q ''rule'' (ru_id rule) ''ip rule''"
  have pr: "r_prefix ?r = masked q" by (simp add: candidate_def)
  have "?r \<in> set (c_cands (rule_step s src c rule))" for c
    using assms(3-7) by (simp add: rule_step_def ip_step_def)
  then have "?r \<in> set (c_cands (collect s src))"
    unfolding collect_def by (rule foldl_rule_step_member[OF assms(2)])
  from candidate_accounted[OF assms(1) this] show ?thesis
  proof
    assume "\<exists>r\<in>set (er_publish (Compute s src)). covers (r_prefix r) (r_prefix ?r)"
    then obtain r where r: "r \<in> set (er_publish (Compute s src))" "covers (r_prefix r) (masked q)"
      using pr by auto
    have "net4 (r_prefix r)" using publish_cases[OF r(1)] by metis
    then have "\<forall>a. p_contains q a \<longrightarrow> p_contains (r_prefix r) a"
      using covers_contains[OF _ n4 r(2)] contains_masked[OF wf(1)] by blast
    with r(1) show ?thesis by blast
  qed (auto simp: pr)
qed

text \<open>
  Nothing a proxied address rule asks for disappears silently: in modes B and C the
  network of an active rule with a proxy, node or group action is either announced by a
  published prefix that contains every address of it, or it is among the rejected routes with
  its reason.
\<close>

theorem ip_rule_accounted:
  assumes "nc_mode (s_network s) \<noteq> ModeA" and "rule \<in> set (ActiveRules s)"
    and "proxyAction (ru_action_kind rule)" and "ru_match_kind rule = MatchIP"
    and "parse_prefix (trim_space (ru_match_value rule)) = Some q" and "is4 (p_addr q)"
  shows "(\<exists>r\<in>set (er_rejected (Compute s src)). r_prefix r = masked q) \<or>
    (\<exists>r\<in>set (er_publish (Compute s src)). \<forall>a. p_contains q a \<longrightarrow> p_contains (r_prefix r) a)"
proof -
  obtain v where v: "NormalizeIPOrCIDR (ru_match_value rule) = Inr v" "parse_prefix v = Some (masked q)"
    and eq: "\<forall>a. p_contains (masked q) a = p_contains q a"
    using NormalizeIPOrCIDR_v4_form[OF assms(5,6)] by blast
  have wf: "wf_prefix q" "prefix_valid q" using parse_prefix_wf[OF assms(5)] by auto
  with assms(6) obtain n b where "q = v4_prefix n (int b)" "b \<le> 32" by (rule_tac wf_prefix_v4_cases) auto
  then have "is4 (p_addr (masked q))" "masked (masked q) = masked q" by (simp_all add: masked_v4)
  with ip_rule_covered[OF assms(1-4) v(1,2), of src] eq show ?thesis by auto
qed

theorem ip_rule_accounted_witness:
  "(\<exists>r\<in>set (er_rejected (Compute (example_snapshot ModeC [ip_rule ''10.1.0.0/16''] []) no_sources)).
      r_prefix r = masked (v4_prefix 0x0A010000 16)) \<or>
   (\<exists>r\<in>set (er_publish (Compute (example_snapshot ModeC [ip_rule ''10.1.0.0/16''] []) no_sources)).
      \<forall>a. p_contains (v4_prefix 0x0A010000 16) a \<longrightarrow> p_contains (r_prefix r) a)"
proof (rule ip_rule_accounted[where rule = "ip_rule ''10.1.0.0/16''"])
  show "parse_prefix (trim_space (ru_match_value (ip_rule ''10.1.0.0/16''))) = Some (v4_prefix 0x0A010000 16)"
    by code_simp
qed (simp_all add: example_snapshot_def ip_rule_def set_ActiveRules proxyAction_def zero_rule_def
    zero_rule_set_def zero_network_config_def)

end
