(* ===== verification/NetlinkProps.thy ===== *)
theory NetlinkProps
  imports KernelProps RouteSafety
begin

text \<open>
  The real kernel behind \<open>Netlink\<close>: given the documented behaviour of the netlink calls it
  satisfies the contract, so that what the route engine publishes is what FRR finds.
\<close>

text \<open>
  \<open>rib w t proto\<close> is the set of IPv4 networks other than the default route in table \<open>t\<close> with
  protocol \<open>proto\<close>.  A list call returns them (a default route has no destination); a replace
  call installs its route or fails without effect; a delete call removes its route, or fails
  without effect, with \<open>ESRCH\<close> or \<open>ENOENT\<close> only when there is no such route.
\<close>

definition rib_insert :: "('w \<Rightarrow> int \<Rightarrow> int \<Rightarrow> prefix set) \<Rightarrow> int \<Rightarrow> int \<Rightarrow> prefix \<Rightarrow> 'w \<Rightarrow> 'w \<Rightarrow> bool" where
  "rib_insert rib t proto p w w' \<longleftrightarrow>
     (\<forall>u. rib w' u proto = (if u = t then insert p (rib w u proto) else rib w u proto))"

definition rib_delete :: "('w \<Rightarrow> int \<Rightarrow> int \<Rightarrow> prefix set) \<Rightarrow> int \<Rightarrow> int \<Rightarrow> prefix \<Rightarrow> 'w \<Rightarrow> 'w \<Rightarrow> bool" where
  "rib_delete rib t proto p w w' \<longleftrightarrow>
     (\<forall>u. rib w' u proto = (if u = t then rib w u proto - {p} else rib w u proto))"

definition rib_same :: "('w \<Rightarrow> int \<Rightarrow> int \<Rightarrow> prefix set) \<Rightarrow> int \<Rightarrow> 'w \<Rightarrow> 'w \<Rightarrow> bool" where
  "rib_same rib proto w w' \<longleftrightarrow> (\<forall>u. rib w' u proto = rib w u proto)"

definition netlink_laws :: "'w netlink_lib \<Rightarrow> ('w \<Rightarrow> int \<Rightarrow> int \<Rightarrow> prefix set) \<Rightarrow> bool" where
  "netlink_laws L rib \<longleftrightarrow>
     (\<forall>w t proto rs. nl_route_list L w t proto = Inr rs \<longrightarrow>
        rib w t proto = {v4_prefix a b |a b. \<exists>r\<in>set rs. nr_dst r = Some (Some a, b)}) \<and>
     (\<forall>w t proto. \<forall>p\<in>rib w t proto. net4 p) \<and>
     (\<forall>w t proto idx p w' e. net4 p \<longrightarrow> nl_route_replace L w (nl_make_route idx t proto p) = (w', e) \<longrightarrow>
        (if e = None then rib_insert rib t proto p w w' else rib_same rib proto w w')) \<and>
     (\<forall>w t proto idx p w' e. net4 p \<longrightarrow> nl_route_del L w (nl_make_route idx t proto p) = (w', e) \<longrightarrow>
        (case e of None \<Rightarrow> rib_delete rib t proto p w w'
         | Some x \<Rightarrow> rib_same rib proto w w' \<and> (isNotExist x \<longrightarrow> p \<notin> rib w t proto)))"

lemma netlink_laws_list:
  assumes "netlink_laws L rib"
  shows "nl_route_list L w t proto = Inr rs \<Longrightarrow>
      rib w t proto = {v4_prefix a b |a b. \<exists>r\<in>set rs. nr_dst r = Some (Some a, b)}"
    and "p \<in> rib w t proto \<Longrightarrow> net4 p"
  using assms by (simp_all add: netlink_laws_def)

lemma netlink_laws_replace:
  assumes "netlink_laws L rib" "net4 p" "nl_route_replace L w (nl_make_route idx t proto p) = (w', e)"
  shows "if e = None then rib_insert rib t proto p w w' else rib_same rib proto w w'"
  using assms unfolding netlink_laws_def by blast

lemma netlink_laws_del:
  assumes "netlink_laws L rib" "net4 p" "nl_route_del L w (nl_make_route idx t proto p) = (w', e)"
  shows "case e of None \<Rightarrow> rib_delete rib t proto p w w'
    | Some x \<Rightarrow> rib_same rib proto w w' \<and> (isNotExist x \<longrightarrow> p \<notin> rib w t proto)"
  using assms unfolding netlink_laws_def by blast

definition netlink_table :: "('w \<Rightarrow> int \<Rightarrow> int \<Rightarrow> prefix set) \<Rightarrow> 'w netlink \<Rightarrow> int \<Rightarrow> prefix set" where
  "netlink_table rib n t = rib (nl_world n) t RouteProtocol"

lemma nl_lo_index_world: "nl_lo_index L n = (n', r) \<Longrightarrow> nl_world n' = nl_world n"
  by (auto simp: nl_lo_index_def Let_def split: option.splits)

lemma net4_prefix_from: "net4 (v4_prefix a b) \<Longrightarrow> prefix_from (V4 a) b = v4_prefix a b"
  by (auto simp: net4_def v4_prefix_def prefix_from_def)

lemma netlink_List_table:
  assumes "netlink_laws L rib" "netlink_List L n t RouteProtocol = Inr ps"
  shows "set ps = netlink_table rib n t \<and> (\<forall>p\<in>set ps. net4 p)"
proof -
  from assms(2) obtain rs where rs: "nl_route_list L (nl_world n) t RouteProtocol = Inr rs"
    and ps: "ps = sortPrefixes (List.map_filter nl_dst_prefix rs)"
    by (auto simp: netlink_List_def split: sum.splits)
  have rib: "netlink_table rib n t = {v4_prefix a b |a b. \<exists>r\<in>set rs. nr_dst r = Some (Some a, b)}"
    and net: "\<forall>p\<in>netlink_table rib n t. net4 p"
    unfolding netlink_table_def using netlink_laws_list(1)[OF assms(1) rs] netlink_laws_list(2)[OF assms(1)]
    by (blast, blast)
  have "set ps = {prefix_from (V4 a) b |a b. \<exists>r\<in>set rs. nr_dst r = Some (Some a, b)}"
  proof -
    have "nl_dst_prefix r = Some q \<longleftrightarrow> (\<exists>a b. nr_dst r = Some (Some a, b) \<and> q = prefix_from (V4 a) b)" for r q
      by (auto simp: nl_dst_prefix_def split: option.splits)
    then show ?thesis by (simp add: ps set_map_filter_iff set_eq_iff) blast
  qed
  also have "\<dots> = {v4_prefix a b |a b. \<exists>r\<in>set rs. nr_dst r = Some (Some a, b)}"
  proof -
    have "prefix_from (V4 a) b = v4_prefix a b" if "r \<in> set rs" "nr_dst r = Some (Some a, b)" for a b r
      using net rib that by (intro net4_prefix_from) blast
    then show ?thesis by (intro Collect_cong) metis
  qed
  finally show ?thesis using rib net by simp
qed

lemma netlink_Add_table:
  assumes laws: "netlink_laws L rib" and "\<forall>p\<in>set ps. net4 p" "netlink_Add L n t RouteProtocol ps = (n', r)"
  shows "\<exists>qs \<subseteq> set ps. netlink_table rib n' = (netlink_table rib n)(t := netlink_table rib n t \<union> qs) \<and>
    (r = None \<longrightarrow> qs = set ps)"
  using assms(2,3)
proof (induction ps arbitrary: n)
  case Nil
  then show ?case by (intro exI[of _ "{}"]) (simp add: fun_upd_idem)
next
  case (Cons p ps)
  obtain n1 lo where lo: "nl_lo_index L n = (n1, lo)" by fastforce
  have n1: "netlink_table rib n1 = netlink_table rib n"
    using nl_lo_index_world[OF lo] by (simp add: netlink_table_def fun_eq_iff)
  show ?case
  proof (cases lo)
    case (Inl e)
    with Cons.prems lo n1 show ?thesis by (intro exI[of _ "{}"]) (auto simp: fun_upd_idem)
  next
    case (Inr idx)
    obtain w e where call: "nl_route_replace L (nl_world n1) (nl_make_route idx t RouteProtocol p) = (w, e)"
      by fastforce
    have law: "if e = None then rib_insert rib t RouteProtocol p (nl_world n1) w
        else rib_same rib RouteProtocol (nl_world n1) w"
      using netlink_laws_replace[OF laws _ call] Cons.prems(1) by simp
    show ?thesis
    proof (cases e)
      case (Some x)
      with Cons.prems(2) lo Inr call have out: "n' = n1\<lparr>nl_world := w\<rparr>" "r \<noteq> None" by auto
      have "netlink_table rib n' = netlink_table rib n"
        using law Some out n1[symmetric] by (simp add: netlink_table_def rib_same_def fun_eq_iff)
      with out show ?thesis by (intro exI[of _ "{}"]) (simp add: fun_upd_idem)
    next
      case None
      with Cons.prems(2) lo Inr call have run: "netlink_Add L (n1\<lparr>nl_world := w\<rparr>) t RouteProtocol ps = (n', r)"
        by simp
      have "\<forall>q\<in>set ps. net4 q" using Cons.prems(1) by simp
      from Cons.IH[OF this run] obtain qs where qs: "qs \<subseteq> set ps"
        "netlink_table rib n' = (netlink_table rib (n1\<lparr>nl_world := w\<rparr>))
           (t := netlink_table rib (n1\<lparr>nl_world := w\<rparr>) t \<union> qs)" "r = None \<longrightarrow> qs = set ps" by blast
      have "netlink_table rib (n1\<lparr>nl_world := w\<rparr>) = (netlink_table rib n)(t := insert p (netlink_table rib n t))"
        using law None n1[symmetric] by (simp add: netlink_table_def rib_insert_def fun_eq_iff)
      with qs show ?thesis by (intro exI[of _ "insert p qs"]) (auto simp: fun_eq_iff)
    qed
  qed
qed

lemma netlink_Del_table:
  assumes laws: "netlink_laws L rib" and "\<forall>p\<in>set ps. net4 p" "netlink_Del L n t RouteProtocol ps = (n', r)"
  shows "\<exists>qs \<subseteq> set ps. netlink_table rib n' = (netlink_table rib n)(t := netlink_table rib n t - qs) \<and>
    (r = None \<longrightarrow> qs = set ps)"
  using assms(2,3)
proof (induction ps arbitrary: n)
  case Nil
  then show ?case by (intro exI[of _ "{}"]) (simp add: fun_upd_idem)
next
  case (Cons p ps)
  obtain n1 lo where lo: "nl_lo_index L n = (n1, lo)" by fastforce
  have n1: "netlink_table rib n1 = netlink_table rib n"
    using nl_lo_index_world[OF lo] by (simp add: netlink_table_def fun_eq_iff)
  show ?case
  proof (cases lo)
    case (Inl e)
    with Cons.prems lo n1 show ?thesis by (intro exI[of _ "{}"]) (auto simp: fun_upd_idem)
  next
    case (Inr idx)
    obtain w e where call: "nl_route_del L (nl_world n1) (nl_make_route idx t RouteProtocol p) = (w, e)"
      by fastforce
    have law: "case e of None \<Rightarrow> rib_delete rib t RouteProtocol p (nl_world n1) w
         | Some x \<Rightarrow> rib_same rib RouteProtocol (nl_world n1) w \<and>
             (isNotExist x \<longrightarrow> p \<notin> rib (nl_world n1) t RouteProtocol)"
      using netlink_laws_del[OF laws _ call] Cons.prems(1) by simp
    define n2 where "n2 = n1\<lparr>nl_world := w\<rparr>"
    show ?thesis
    proof (cases "e \<noteq> None \<and> \<not> isNotExist (the e)")
      case True
      with Cons.prems(2) lo Inr call have out: "n' = n2" "r \<noteq> None" by (auto simp: n2_def)
      have "netlink_table rib n' = netlink_table rib n"
        using law True out n1[symmetric] by (auto simp: n2_def netlink_table_def rib_same_def fun_eq_iff)
      with out show ?thesis by (intro exI[of _ "{}"]) (simp add: fun_upd_idem)
    next
      case False
      with Cons.prems(2) lo Inr call have run: "netlink_Del L n2 t RouteProtocol ps = (n', r)"
        by (auto simp: n2_def split: option.splits)
      have "\<forall>q\<in>set ps. net4 q" using Cons.prems(1) by simp
      from Cons.IH[OF this run] obtain qs where qs: "qs \<subseteq> set ps"
        "netlink_table rib n' = (netlink_table rib n2)(t := netlink_table rib n2 t - qs)"
        "r = None \<longrightarrow> qs = set ps" by blast
      have "netlink_table rib n2 = (netlink_table rib n)(t := netlink_table rib n t - {p})"
        using law False n1[symmetric]
        by (auto simp: n2_def netlink_table_def rib_delete_def rib_same_def fun_eq_iff split: option.splits)
      with qs show ?thesis by (intro exI[of _ "insert p qs"]) (auto simp: fun_eq_iff)
    qed
  qed
qed

lemma netlink_kernel:
  assumes "netlink_laws L rib"
  shows "kernel (netlink_ops L) (sleepCtx ctx) (netlink_table rib) net4"
proof unfold_locales
  fix n n' t ps and e :: string and d r
  show "k_list (netlink_ops L) n t RouteProtocol = Inr ps \<Longrightarrow>
      set ps = netlink_table rib n t \<and> (\<forall>p\<in>set ps. net4 p)"
    using netlink_List_table[OF assms] by (simp add: netlink_ops_def)
  show "sleepCtx ctx n d = (n', r) \<Longrightarrow> netlink_table rib n' = netlink_table rib n"
    by (simp add: sleepCtx_def)
  assume legal: "\<forall>p\<in>set ps. net4 p"
  show "netlink_table rib n' = (netlink_table rib n)(t := netlink_table rib n t \<union> set ps)"
    if "k_add (netlink_ops L) n t RouteProtocol ps = (n', None)"
    using netlink_Add_table[OF assms legal, of n t n' None] that by (auto simp: netlink_ops_def)
  show "\<exists>qs\<subseteq>set ps. netlink_table rib n' = (netlink_table rib n)(t := netlink_table rib n t \<union> qs)"
    if "k_add (netlink_ops L) n t RouteProtocol ps = (n', Some e)"
    using netlink_Add_table[OF assms legal, of n t n' "Some e"] that by (simp add: netlink_ops_def)
  show "netlink_table rib n' = (netlink_table rib n)(t := netlink_table rib n t - set ps)"
    if "k_del (netlink_ops L) n t RouteProtocol ps = (n', None)"
    using netlink_Del_table[OF assms legal, of n t n' None] that by (auto simp: netlink_ops_def)
  show "\<exists>qs\<subseteq>set ps. netlink_table rib n' = (netlink_table rib n)(t := netlink_table rib n t - qs)"
    if "k_del (netlink_ops L) n t RouteProtocol ps = (n', Some e)"
    using netlink_Del_table[OF assms legal, of n t n' "Some e"] that by (simp add: netlink_ops_def)
qed

text \<open>
  What the route engine publishes is what the kernel holds: in mode B or C, when an apply
  on the real kernel reports no error, table 200 holds exactly the published prefixes under
  the gateway's protocol number, and on any error it holds nothing but published or previously
  installed prefixes, with no published one lost.
\<close>

theorem netlink_installs_published:
  assumes "netlink_laws L rib"
    and "rd_kernel d = netlink_ops L" "rd_sleep d = Some (sleepCtx ctx)"
    and "a_routes art = er_publish (Compute s src)"
    and "route_Plan d n art = Inr plan" "route_Apply now d n plan = (d', n', r)"
  shows "(r = None \<longrightarrow> netlink_table rib n' RouteTable = wanted art) \<and>
    netlink_table rib n' RouteTable \<subseteq> wanted art \<union> netlink_table rib n RouteTable \<and>
    wanted art \<inter> netlink_table rib n RouteTable \<subseteq> netlink_table rib n' RouteTable"
proof -
  note K = netlink_kernel[OF assms(1), of ctx]
  have "kernel.drives (netlink_ops L) (sleepCtx ctx) d" using assms(2,3) by (simp add: kernel.drives_def[OF K])
  moreover have "\<forall>p\<in>wanted art. net4 p" using assms(4) by (auto elim: publish_cases)
  ultimately show ?thesis using kernel.converge[OF K _ assms(5,6)] by blast
qed

lemma v4_prefix_eta: "p_addr p = V4 a \<Longrightarrow> v4_prefix a (p_bits p) = p"
  by (simp add: v4_prefix_def)

text \<open>A test for networks that computes.\<close>

definition net4_code :: "prefix \<Rightarrow> bool" where
  "net4_code p = (case p_addr p of
       V4 a \<Rightarrow> 0 \<le> p_bits p \<and> p_bits p \<le> 32 \<and> mask_to (nat (p_bits p)) a = a | _ \<Rightarrow> False)"

lemma net4_code: "net4_code p \<longleftrightarrow> net4 p"
proof
  assume "net4_code p"
  then obtain a where a: "p_addr p = V4 a" "0 \<le> p_bits p" "p_bits p \<le> 32" "mask_to (nat (p_bits p)) a = a"
    by (auto simp: net4_code_def split: addr.splits)
  then have "p = v4_prefix (mask_to (nat (p_bits p)) a) (int (nat (p_bits p)))" by (simp add: v4_prefix_def)
  moreover have "nat (p_bits p) \<le> 32" using a by simp
  ultimately show "net4 p" unfolding net4_def by blast
qed (auto simp: net4_def net4_code_def)

text \<open>A host with a routing table held as an association list from tables to prefixes.\<close>

type_synonym tiny_host = "int \<Rightarrow> prefix list"

definition tiny_lib :: "tiny_host netlink_lib" where
  "tiny_lib = \<lparr>nl_link_by_name = (\<lambda>_ _. Inr 1),
     nl_route_list = (\<lambda>w t proto. Inr (map (\<lambda>p. \<lparr>nr_dst = Some (case p_addr p of V4 a \<Rightarrow> Some a | _ \<Rightarrow> None, p_bits p),
        nr_link_index = 1, nr_table = t, nr_protocol = proto\<rparr>) (filter net4_code (w t)))),
     nl_route_replace = (\<lambda>w r. case nr_dst r of Some (Some a, b) \<Rightarrow>
        (w(nr_table r := List.insert (v4_prefix a b) (w (nr_table r))), None) | _ \<Rightarrow> (w, Some (NlOther ''invalid''))),
     nl_route_del = (\<lambda>w r. case nr_dst r of Some (Some a, b) \<Rightarrow>
        if v4_prefix a b \<in> set (w (nr_table r))
        then (w(nr_table r := removeAll (v4_prefix a b) (w (nr_table r))), None) else (w, Some ESRCH)
      | _ \<Rightarrow> (w, Some (NlOther ''invalid'')))\<rparr>"

definition tiny_rib :: "tiny_host \<Rightarrow> int \<Rightarrow> int \<Rightarrow> prefix set" where
  "tiny_rib w t proto = set (filter net4_code (w t))"

lemma nl_make_route_net4:
  assumes "net4 p"
  obtains a where "p = v4_prefix a (p_bits p)" "nr_dst (nl_make_route idx t proto p) = Some (Some a, p_bits p)"
    "nr_table (nl_make_route idx t proto p) = t"
  using assms by (auto simp: net4_def nl_make_route_def)

lemma tiny_laws: "netlink_laws tiny_lib tiny_rib"
  unfolding netlink_laws_def
proof (intro conjI allI impI)
  fix w :: tiny_host and t proto rs
  assume "nl_route_list tiny_lib w t proto = Inr rs"
  then have rs: "rs = map (\<lambda>p. \<lparr>nr_dst = Some (case p_addr p of V4 a \<Rightarrow> Some a | _ \<Rightarrow> None, p_bits p),
        nr_link_index = 1, nr_table = t, nr_protocol = proto\<rparr>) (filter net4_code (w t))"
    by (simp add: tiny_lib_def)
  have "\<exists>a b. p = v4_prefix a b \<and> (\<exists>r\<in>set rs. nr_dst r = Some (Some a, b))"
    if "p \<in> set (w t)" "net4_code p" for p
  proof -
    from that(2) obtain a where a: "p_addr p = V4 a"
      by (cases "p_addr p") (simp_all add: net4_code_def)
    with v4_prefix_eta[OF a] that rs show ?thesis
      by (intro exI[of _ a] exI[of _ "p_bits p"]) (auto intro!: bexI[of _ p])
  qed
  moreover have "r \<in> set rs \<Longrightarrow> nr_dst r = Some (Some a, b) \<Longrightarrow> v4_prefix a b \<in> tiny_rib w t proto" for r a b
    using rs by (auto simp: tiny_rib_def v4_prefix_eta split: addr.splits)
  ultimately show "tiny_rib w t proto = {v4_prefix a b |a b. \<exists>r\<in>set rs. nr_dst r = Some (Some a, b)}"
    unfolding tiny_rib_def by fastforce
next
  fix w :: tiny_host and t proto
  show "\<forall>p\<in>tiny_rib w t proto. net4 p" by (auto simp: tiny_rib_def net4_code)
next
  fix w w' :: tiny_host and t proto idx p e
  assume p: "net4 p" "nl_route_replace tiny_lib w (nl_make_route idx t proto p) = (w', e)"
  obtain a where a: "p = v4_prefix a (p_bits p)"
    "nr_dst (nl_make_route idx t proto p) = Some (Some a, p_bits p)" "nr_table (nl_make_route idx t proto p) = t"
    using nl_make_route_net4[OF p(1)] .
  show "if e = None then rib_insert tiny_rib t proto p w w' else rib_same tiny_rib proto w w'"
    using p a(1)[symmetric] a(2,3) by (auto simp: tiny_lib_def rib_insert_def tiny_rib_def net4_code)
next
  fix w w' :: tiny_host and t proto idx p e
  assume p: "net4 p" "nl_route_del tiny_lib w (nl_make_route idx t proto p) = (w', e)"
  obtain a where a: "p = v4_prefix a (p_bits p)"
    "nr_dst (nl_make_route idx t proto p) = Some (Some a, p_bits p)" "nr_table (nl_make_route idx t proto p) = t"
    using nl_make_route_net4[OF p(1)] .
  show "case e of None \<Rightarrow> rib_delete tiny_rib t proto p w w'
    | Some x \<Rightarrow> rib_same tiny_rib proto w w' \<and> (isNotExist x \<longrightarrow> p \<notin> tiny_rib w t proto)"
    using p a(1)[symmetric] a(2,3)
    by (auto simp: tiny_lib_def rib_delete_def rib_same_def tiny_rib_def net4_code split: if_splits)
qed

definition example_publication :: artifacts where
  "example_publication = zero_artifacts\<lparr>a_routes :=
     er_publish (Compute (example_snapshot ModeC [ip_rule ''8.8.8.8/16''] []) no_sources)\<rparr>"

definition tiny_start :: "tiny_host netlink" where
  "tiny_start = \<lparr>nl_lo = None, nl_world = (\<lambda>t. if t = 200 then [v4_prefix 0x01000000 8] else [])\<rparr>"

lemma tiny_run:
  "\<exists>plan d' n'. route_Plan (newDriver (netlink_ops tiny_lib) None) tiny_start example_publication = Inr plan \<and>
     route_Apply 0 (newDriver (netlink_ops tiny_lib) None) tiny_start plan = (d', n', None)"
proof -
  have "case route_Plan (newDriver (netlink_ops tiny_lib) None) tiny_start example_publication of
      Inl _ \<Rightarrow> False
    | Inr plan \<Rightarrow> (case route_Apply 0 (newDriver (netlink_ops tiny_lib) None) tiny_start plan of (d', n', r) \<Rightarrow>
           r = None)"
    by code_simp
  then show ?thesis by (auto split: sum.splits prod.splits)
qed

theorem netlink_installs_published_witness:
  "\<exists>n'. netlink_table tiny_rib n' RouteTable = {v4_prefix 0x08080000 16}"
proof -
  obtain plan d' n' where run:
    "route_Plan (newDriver (netlink_ops tiny_lib) None) tiny_start example_publication = Inr plan"
    "route_Apply 0 (newDriver (netlink_ops tiny_lib) None) tiny_start plan = (d', n', None)"
    using tiny_run by blast
  have d: "rd_kernel (newDriver (netlink_ops tiny_lib) None) = netlink_ops tiny_lib"
    "rd_sleep (newDriver (netlink_ops tiny_lib) None) = Some (sleepCtx None)"
    by (simp_all add: newDriver_def)
  have art: "a_routes example_publication =
      er_publish (Compute (example_snapshot ModeC [ip_rule ''8.8.8.8/16''] []) no_sources)"
    by (simp add: example_publication_def)
  from netlink_installs_published[OF tiny_laws d art run]
  have "netlink_table tiny_rib n' RouteTable = wanted example_publication" by simp
  also have "\<dots> = {v4_prefix 0x08080000 16}"
    by (simp add: art example_publish example_route_def v4_prefix_def)
  finally show ?thesis by blast
qed

end
