(* ===== verification/Trace.thy ===== *)
theory Trace
  imports Artifacts RouteSafety
begin

text \<open>
  \<open>internal/trace/trace.go\<close>: where would traffic to a target go.  Go's regular expressions are
  an argument: \<open>ts_regex\<close> compiles a pattern to its match function, or fails.
\<close>

record trace_sources =
  ts_site :: "site_source option"
  ts_ip :: "ip_source option"
  ts_regex :: "string \<Rightarrow> (string \<Rightarrow> bool) option"

record trace_result =
  tr_target :: string
  tr_kind :: string
  tr_matched :: "rule option"
  tr_rule_set :: string
  tr_action :: string
  tr_outbound :: string
  tr_via :: string
  tr_reason :: string
  tr_considered :: int
  tr_notes :: "string list"

subsection \<open>Matching\<close>

definition entryMatches :: "trace_sources \<Rightarrow> entry \<Rightarrow> string \<Rightarrow> bool" where
  "entryMatches src e host =
     (case e_kind e of
        KindFull \<Rightarrow> host = e_value e
      | KindRoot \<Rightarrow> host = e_value e \<or> has_suffix host (''.'' @ e_value e)
      | KindPlain \<Rightarrow> str_contains host (e_value e)
      | KindRegex \<Rightarrow> (case ts_regex src (e_value e) of Some m \<Rightarrow> m host | None \<Rightarrow> False)
      | kindUnknown \<Rightarrow> False)"

definition match_geosite :: "trace_sources \<Rightarrow> string \<Rightarrow> string \<Rightarrow> bool \<times> string" where
  "match_geosite src value target =
     (case ts_site src of
        None \<Rightarrow> (False, ''geosite:'' @ value @ '' not evaluated (no geodata installed)'')
      | Some g \<Rightarrow>
          (case site_entries g value of
             Inl e \<Rightarrow> (False, ''geosite:'' @ value @ '' not evaluated: '' @ e)
           | Inr es \<Rightarrow> (\<exists>e\<in>set es. entryMatches src e target, [])))"

definition match_geoip :: "trace_sources \<Rightarrow> string \<Rightarrow> addr \<Rightarrow> bool \<times> string" where
  "match_geoip src tag ip =
     (if tag = ''private'' then (is_private ip \<or> is_loopback ip \<or> is_link_local_unicast ip, [])
      else (case ts_ip src of
              None \<Rightarrow> (False, ''geoip:'' @ tag @ '' not evaluated (no geodata installed)'')
            | Some g \<Rightarrow>
                (case ip_cidrs g (trim_prefix tag ''!'') of
                   Inl e \<Rightarrow> (False, ''geoip:'' @ tag @ '' not evaluated: '' @ e)
                 | Inr cidrs \<Rightarrow> ((\<exists>c\<in>set cidrs. p_contains c ip) \<noteq> has_prefix tag ''!'', []))))"

text \<open>\<open>matches\<close>: the address is invalid when the target is a name.\<close>

definition matches :: "trace_sources \<Rightarrow> rule \<Rightarrow> string \<Rightarrow> addr \<Rightarrow> bool \<times> string" where
  "matches src rule target ip =
     (case ru_match_kind rule of
        MatchDomain \<Rightarrow>
          if is_valid ip then (False, [])
          else (case ParseDomain (ru_match_value rule) of
                  Inr p \<Rightarrow> (Matches p target, []) | Inl _ \<Rightarrow> (False, []))
      | MatchGeosite \<Rightarrow> if is_valid ip then (False, []) else match_geosite src (ru_match_value rule) target
      | MatchIP \<Rightarrow>
          if \<not> is_valid ip then (False, [])
          else (case parse_prefix (ru_match_value rule) of
                  Some p \<Rightarrow> (p_contains p ip, []) | None \<Rightarrow> (False, []))
      | MatchGeoIP \<Rightarrow> if \<not> is_valid ip then (False, []) else match_geoip src (ru_match_value rule) ip
      | MatchOther _ \<Rightarrow> (False, []))"

subsection \<open>Outbounds\<close>

definition defaultOutbound :: "snapshot \<Rightarrow> string \<times> string" where
  "defaultOutbound s =
     (case DefaultNode s of
        Some n \<Rightarrow> (NodeTag (n_id n), n_name n)
      | None \<Rightarrow> if EnabledNodes s \<noteq> [] then (TagAutoProxy, ''leastPing over all enabled nodes'')
                else (TagDirect, []))"

definition fallback :: "snapshot \<Rightarrow> string \<Rightarrow> string \<times> string \<times> string" where
  "fallback s why =
     (if nc_node_failover_mode (s_network s) = ''strict''
      then (TagBlock, [], why @ ''; strict failover blocks'')
      else (let (out, via) = defaultOutbound s in
            (out, via, why @ ''; normal failover uses default outbound'')))"

definition live_members :: "snapshot \<Rightarrow> outbound_group \<Rightarrow> node list" where
  "live_members s g = List.map_filter (\<lambda>i. case snap_node s i of
       Some n \<Rightarrow> if n_enabled n then Some n else None | None \<Rightarrow> None) (g_member_ids g)"

definition resolve :: "snapshot \<Rightarrow> rule \<Rightarrow> string \<times> string \<times> string" where
  "resolve s rule =
     (case ru_action_kind rule of
        ActionDirect \<Rightarrow> (TagDirect, [], ''rule action direct'')
      | ActionBlock \<Rightarrow> (TagBlock, [], ''rule action block'')
      | ActionNode \<Rightarrow>
          (case snap_node s (ru_action_ref rule) of
             Some n \<Rightarrow> if n_enabled n then (NodeTag (n_id n), n_name n, ''rule action node'')
                       else fallback s ''node is missing or disabled''
           | None \<Rightarrow> fallback s ''node is missing or disabled'')
      | ActionGroup \<Rightarrow>
          (case snap_group s (ru_action_ref rule) of
             None \<Rightarrow> fallback s ''group is missing''
           | Some g \<Rightarrow>
               (case live_members s g of
                  [] \<Rightarrow> fallback s (''group '' @ quoted (g_name g) @ '' has no enabled member'')
                | [n] \<Rightarrow> (NodeTag (n_id n), n_name n,
                          ''group '' @ quoted (g_name g) @ '' has one enabled member'')
                | _ \<Rightarrow> (GroupTag (g_id g), g_name g,
                        ''rule action group ('' @ group_kind_string (g_kind g) @ '')'')))
      | _ \<Rightarrow> (let (out, via) = defaultOutbound s in (out, via, ''rule action proxy (default outbound)'')))"

subsection \<open>The walk\<close>

definition setName :: "snapshot \<Rightarrow> string \<Rightarrow> string" where
  "setName s i = (case map_of (rev (map (\<lambda>rs. (rs_id rs, rs_name rs)) (s_rule_sets s))) i of
       Some n \<Rightarrow> n | None \<Rightarrow> [])"

text \<open>The loop over the active rules: the first hit, the rules considered and the notes.\<close>

fun run_loop :: "trace_sources \<Rightarrow> string \<Rightarrow> addr \<Rightarrow> rule list \<Rightarrow> int \<Rightarrow> string list
    \<Rightarrow> rule option \<times> int \<times> string list" where
  "run_loop src target ip [] n notes = (None, n, notes)"
| "run_loop src target ip (r # rs) n notes =
     (let (hit, note) = matches src r target ip;
          notes' = (if note \<noteq> [] then notes @ [note] else notes)
      in if hit then (Some r, n + 1, notes') else run_loop src target ip rs (n + 1) notes')"

definition trace_target :: "string \<Rightarrow> string" where
  "trace_target t = to_lower (trim_space (trim_suffix t ''.''))"

definition trace_addr :: "string \<Rightarrow> addr" where
  "trace_addr t = (case parse_addr (trace_target t) of Some a \<Rightarrow> unmap a | None \<Rightarrow> NoAddr)"

definition trace_hit :: "snapshot \<Rightarrow> string \<Rightarrow> string \<Rightarrow> rule \<Rightarrow> int \<Rightarrow> string list \<Rightarrow> trace_result" where
  "trace_hit s target kind rule n notes =
     (let (out, via, reason) = resolve s rule in
      \<lparr>tr_target = target, tr_kind = kind, tr_matched = Some rule,
       tr_rule_set = setName s (ru_set_id rule), tr_action = action_kind_string (ru_action_kind rule),
       tr_outbound = out, tr_via = via, tr_reason = reason, tr_considered = n, tr_notes = notes\<rparr>)"

definition default_path :: "snapshot \<Rightarrow> string \<times> string \<times> string" where
  "default_path s =
     (if nc_lan_default_policy (s_network s) = ''proxy''
      then (let (out, via) = defaultOutbound s in
            (out, via, ''no rule matched; LAN default policy is proxy''))
      else (TagDirect, [], ''no rule matched; LAN default policy is direct''))"

definition trace_default :: "snapshot \<Rightarrow> string \<Rightarrow> string \<Rightarrow> int \<Rightarrow> string list \<Rightarrow> trace_result" where
  "trace_default s target kind n notes =
     (let (out, via, reason) = default_path s in
      \<lparr>tr_target = target, tr_kind = kind, tr_matched = None, tr_rule_set = [],
       tr_action = ''default'', tr_outbound = out, tr_via = via, tr_reason = reason,
       tr_considered = n,
       tr_notes = (if kind = ''domain'' \<and> nc_mode (s_network s) \<noteq> ModeA
         then notes @ [''Mode B/C: whether the main router steers this traffic here depends on the published routes, not only on these rules'']
         else notes)\<rparr>)"

definition Run :: "snapshot \<Rightarrow> trace_sources \<Rightarrow> string \<Rightarrow> trace_result" where
  "Run s src t =
     (let target = trace_target t;
          kind = (if parse_addr target \<noteq> None then ''ip'' else ''domain'')
      in case run_loop src target (trace_addr t) (ActiveRules s) 0 [] of
           (Some rule, n, notes) \<Rightarrow> trace_hit s target kind rule n notes
         | (None, n, notes) \<Rightarrow> trace_default s target kind n notes)"

lemma trace_hit_simps [simp]:
  "tr_matched (trace_hit s target kind r n ns) = Some r"
  "tr_outbound (trace_hit s target kind r n ns) = fst (resolve s r)"
  "tr_considered (trace_hit s target kind r n ns) = n"
  by (simp_all add: trace_hit_def split: prod.splits)

lemma trace_default_simps [simp]:
  "tr_matched (trace_default s target kind n ns) = None"
  "tr_outbound (trace_default s target kind n ns) = fst (default_path s)"
  "tr_considered (trace_default s target kind n ns) = n"
  by (simp_all add: trace_default_def split: prod.splits)

subsection \<open>The walk is first match\<close>

lemma run_loop_spec:
  "run_loop src target ip rs n ns =
     (let pre = takeWhile (\<lambda>r. \<not> fst (matches src r target ip)) rs;
          seen = take (Suc (length pre)) rs
      in (find (\<lambda>r. fst (matches src r target ip)) rs, n + int (length seen),
          ns @ filter (\<lambda>x. x \<noteq> []) (map (\<lambda>r. snd (matches src r target ip)) seen)))"
proof (induction rs arbitrary: n ns)
  case (Cons r rs)
  obtain hit msg where m: "matches src r target ip = (hit, msg)" by fastforce
  show ?case by (cases hit; cases "msg = []") (simp_all add: m Cons Let_def)
qed simp

definition trace_hits :: "trace_sources \<Rightarrow> string \<Rightarrow> rule \<Rightarrow> bool" where
  "trace_hits src t r = fst (matches src r (trace_target t) (trace_addr t))"

lemma Run_matched: "tr_matched (Run s src t) = find (trace_hits src t) (ActiveRules s)"
  unfolding Run_def run_loop_spec Let_def trace_hits_def[abs_def]
  by (cases "find (\<lambda>r. fst (matches src r (trace_target t) (trace_addr t))) (ActiveRules s)") simp_all

lemma Run_considered:
  "tr_considered (Run s src t) = int (length (take (Suc (length
     (takeWhile (\<lambda>r. \<not> trace_hits src t r) (ActiveRules s)))) (ActiveRules s)))"
  unfolding Run_def run_loop_spec Let_def trace_hits_def[abs_def]
  by (cases "find (\<lambda>r. fst (matches src r (trace_target t) (trace_addr t))) (ActiveRules s)") simp_all

lemma Run_outbound:
  "tr_outbound (Run s src t) =
     (case tr_matched (Run s src t) of
        Some r \<Rightarrow> fst (resolve s r) | None \<Rightarrow> fst (default_path s))"
  unfolding Run_def run_loop_spec Let_def
  by (cases "find (\<lambda>r. fst (matches src r (trace_target t) (trace_addr t))) (ActiveRules s)") simp_all

lemma find_split:
  "find P xs = Some x \<longleftrightarrow>
     (\<exists>pre post. xs = pre @ x # post \<and> P x \<and> (\<forall>y\<in>set pre. \<not> P y) \<and> takeWhile (\<lambda>y. \<not> P y) xs = pre)"
proof (induction xs)
  case (Cons a xs)
  show ?case
  proof (cases "P a")
    case False
    then have "find P (a # xs) = Some x \<longleftrightarrow> find P xs = Some x" by simp
    also have "\<dots> \<longleftrightarrow> (\<exists>pre post. xs = pre @ x # post \<and> P x \<and> (\<forall>y\<in>set pre. \<not> P y) \<and>
        takeWhile (\<lambda>y. \<not> P y) xs = pre)" by (rule Cons.IH)
    also have "\<dots> \<longleftrightarrow> (\<exists>pre post. a # xs = pre @ x # post \<and> P x \<and> (\<forall>y\<in>set pre. \<not> P y) \<and>
        takeWhile (\<lambda>y. \<not> P y) (a # xs) = pre)"
      using False by (auto simp: Cons_eq_append_conv)
    finally show ?thesis .
  qed (auto simp: Cons_eq_append_conv)
qed simp

text \<open>
  The trace reports first match: it names a rule exactly when that rule is active, matches
  the target and no active rule before it does; it has then considered that rule and the ones
  before it, and otherwise every active rule.
\<close>

theorem trace_first_match:
  "(\<forall>r. tr_matched (Run s src t) = Some r \<longleftrightarrow>
      (\<exists>pre post. ActiveRules s = pre @ r # post \<and> trace_hits src t r \<and>
         (\<forall>q\<in>set pre. \<not> trace_hits src t q) \<and> tr_considered (Run s src t) = int (length pre) + 1)) \<and>
   (tr_matched (Run s src t) = None \<longleftrightarrow>
      (\<forall>r\<in>set (ActiveRules s). \<not> trace_hits src t r)) \<and>
   (tr_matched (Run s src t) = None \<longrightarrow> tr_considered (Run s src t) = int (length (ActiveRules s)))"
proof (intro conjI allI)
  fix r
  show "tr_matched (Run s src t) = Some r \<longleftrightarrow>
      (\<exists>pre post. ActiveRules s = pre @ r # post \<and> trace_hits src t r \<and>
         (\<forall>q\<in>set pre. \<not> trace_hits src t q) \<and> tr_considered (Run s src t) = int (length pre) + 1)"
  proof -
    have "takeWhile (\<lambda>y. \<not> trace_hits src t y) (pre @ r # post) = pre"
      if "trace_hits src t r" "\<forall>q\<in>set pre. \<not> trace_hits src t q" for pre post
      using that by (simp add: takeWhile_append2)
    then show ?thesis unfolding Run_matched find_split Run_considered
      by (intro ex_cong1 conj_cong refl) simp
  qed
  show "tr_matched (Run s src t) = None \<longleftrightarrow> (\<forall>r\<in>set (ActiveRules s). \<not> trace_hits src t r)"
    unfolding Run_matched find_None_iff by blast
  show "tr_matched (Run s src t) = None \<longrightarrow> tr_considered (Run s src t) = int (length (ActiveRules s))"
    unfolding Run_matched find_None_iff Run_considered
    by (metis (mono_tags, lifting) le_Suc_eq order_refl take_all takeWhile_eq_all_conv)
qed

subsection \<open>Outbounds exist\<close>

text \<open>The outbound tags that carry traffic in this state of the configuration.\<close>

definition usable_tags :: "snapshot \<Rightarrow> string set" where
  "usable_tags s = {TagDirect, TagBlock} \<union> NodeTag ` n_id ` set (EnabledNodes s) \<union>
     (if length (EnabledNodes s) \<ge> 2 then {TagAutoProxy} else {}) \<union>
     GroupTag ` g_id ` {g \<in> set (s_groups s). length (live_members s g) \<ge> 2}"

lemma set_live_members:
  "n \<in> set (live_members s g) \<longleftrightarrow> (\<exists>i\<in>set (g_member_ids g). snap_node s i = Some n \<and> n_enabled n)"
  by (auto simp: live_members_def set_map_filter_iff split: option.splits if_splits)

lemma defaultOutbound_usable: "fst (defaultOutbound s) \<in> usable_tags s"
proof (cases "DefaultNode s")
  case (Some n)
  with DefaultNode_Some[OF Some] show ?thesis by (auto simp: defaultOutbound_def usable_tags_def)
next
  case None
  then have "EnabledNodes s = [] \<or> length (EnabledNodes s) \<ge> 2"
    by (cases "EnabledNodes s" rule: remdups_adj.cases)
      (auto simp: DefaultNode_def split: option.splits if_splits)
  with None show ?thesis by (auto simp: defaultOutbound_def usable_tags_def)
qed

lemma fallback_usable: "fst (fallback s why) \<in> usable_tags s"
  using defaultOutbound_usable[of s] by (auto simp: fallback_def usable_tags_def split: prod.splits)

lemma node_usable: "snap_node s i = Some n \<Longrightarrow> n_enabled n \<Longrightarrow> NodeTag (n_id n) \<in> usable_tags s"
  by (drule snap_node_Some) (auto simp: usable_tags_def)

lemma resolve_group_usable:
  assumes "snap_group s i = Some g"
  shows "fst (case live_members s g of [] \<Rightarrow> fallback s why | [n] \<Rightarrow> (NodeTag (n_id n), x n)
    | _ \<Rightarrow> (GroupTag (g_id g), y)) \<in> usable_tags s"
proof (cases "live_members s g" rule: remdups_adj.cases)
  case 1
  then show ?thesis by (simp add: fallback_usable)
next
  case (2 n)
  then obtain j where "snap_node s j = Some n" "n_enabled n" using set_live_members[of n s g] by auto
  with 2 show ?thesis by (simp add: node_usable)
next
  case (3 n m ms)
  with snap_group_Some[OF assms] show ?thesis by (auto simp: usable_tags_def)
qed

lemma resolve_usable: "fst (resolve s r) \<in> usable_tags s"
proof (cases "ru_action_kind r")
  case ActionNode
  then show ?thesis
    using fallback_usable node_usable by (simp add: resolve_def split: option.split)
next
  case ActionGroup
  then show ?thesis
    using fallback_usable resolve_group_usable by (simp add: resolve_def split: option.split)
qed (use defaultOutbound_usable[of s] in \<open>auto simp: resolve_def usable_tags_def split: prod.split\<close>)

text \<open>
  Whatever the rules name, a trace ends in an outbound that exists: direct, block, the tag
  of an enabled node, the automatic balancer when at least two nodes are enabled, or the
  balancer of a group with at least two enabled members.
\<close>

theorem trace_outbound_usable: "tr_outbound (Run s src t) \<in> usable_tags s"
proof -
  have "fst (default_path s) \<in> usable_tags s"
    using defaultOutbound_usable[of s]
    by (auto simp: default_path_def usable_tags_def split: prod.split)
  then show ?thesis unfolding Run_outbound by (simp add: resolve_usable split: option.split)
qed

text \<open>
  C7. Strict failover never leaks: under it the traffic of a rule with a node or group action
  goes to that node, to that group or one of its enabled members, or is blocked; it is never
  sent direct nor through another node.
\<close>

theorem trace_strict_failover:
  assumes "nc_node_failover_mode (s_network s) = ''strict''"
    and "tr_matched (Run s src t) = Some r" and "ru_action_kind r \<in> {ActionNode, ActionGroup}"
  shows "tr_outbound (Run s src t) \<in> {TagBlock} \<union>
     (if ru_action_kind r = ActionNode then {NodeTag (ru_action_ref r)}
      else {GroupTag (ru_action_ref r)} \<union>
        {NodeTag i |i g. snap_group s (ru_action_ref r) = Some g \<and> i \<in> set (g_member_ids g)})"
proof -
  have fb: "fst (fallback s why) = TagBlock" for why using assms(1) by (simp add: fallback_def)
  show ?thesis
  proof (cases "ru_action_kind r = ActionNode")
    case True
    with fb assms(2) show ?thesis
      by (auto simp: Run_outbound resolve_def dest!: snap_node_Some split: option.split)
  next
    case False
    with assms(3) have g: "ru_action_kind r = ActionGroup" by simp
    show ?thesis
    proof (cases "snap_group s (ru_action_ref r)")
      case None
      with g fb assms(2) show ?thesis by (simp add: Run_outbound resolve_def)
    next
      case (Some gr)
      have members: "n \<in> set (live_members s gr) \<Longrightarrow> n_id n \<in> set (g_member_ids gr)" for n
        using snap_node_Some by (fastforce simp: set_live_members)
      from Some g fb assms(2) members snap_group_Some[OF Some] show ?thesis
        by (cases "live_members s gr" rule: remdups_adj.cases) (auto simp: Run_outbound resolve_def)
    qed
  qed
qed

definition no_trace_sources :: trace_sources where
  "no_trace_sources = \<lparr>ts_site = None, ts_ip = None, ts_regex = (\<lambda>_. None)\<rparr>"

text \<open>Two address rules; the second one matches and names a node that is disabled.\<close>

definition example_node_rule :: "string \<Rightarrow> rule" where
  "example_node_rule v = (ip_rule v)\<lparr>ru_action_kind := ActionNode, ru_action_ref := ''n1''\<rparr>"

definition strict_snapshot :: snapshot where
  "strict_snapshot = (example_snapshot ModeC [ip_rule ''9.9.0.0/16'', example_node_rule ''8.8.0.0/16'']
     [zero_node\<lparr>n_id := ''n1''\<rparr>, zero_node\<lparr>n_id := ''n2'', n_enabled := True\<rparr>])
     \<lparr>s_network := zero_network_config\<lparr>nc_mode := ModeC, nc_node_failover_mode := ''strict''\<rparr>\<rparr>"

lemma strict_run: "tr_matched (Run strict_snapshot no_trace_sources ''8.8.4.4'') = Some (example_node_rule ''8.8.0.0/16'')"
  by code_simp

theorem trace_first_match_witness:
  "\<exists>pre post. ActiveRules strict_snapshot = pre @ example_node_rule ''8.8.0.0/16'' # post \<and>
     tr_considered (Run strict_snapshot no_trace_sources ''8.8.4.4'') = int (length pre) + 1"
  using trace_first_match[of strict_snapshot no_trace_sources "''8.8.4.4''"] strict_run by blast

theorem trace_strict_failover_witness:
  "tr_outbound (Run strict_snapshot no_trace_sources ''8.8.4.4'') \<in> {TagBlock, NodeTag ''n1''}"
  using trace_strict_failover[OF _ strict_run]
  by (simp add: strict_snapshot_def example_node_rule_def insert_commute)

subsection \<open>The trace and the published routes\<close>



end
