(* ===== verification/Table.thy ===== *)
theory Table
  imports GoStrings
begin

text \<open>
  Database tables with a unique key, as the store's SQL uses them: a table is the list of its
  rows in insertion order.  The locale \<open>kv_store\<close> is the contract of an
  \<open>INSERT ... ON CONFLICT DO UPDATE\<close> as its clients use it; they depend on it, not on the list.
\<close>

definition tbl_get :: "('r \<Rightarrow> 'k) \<Rightarrow> 'r list \<Rightarrow> 'k \<Rightarrow> 'r option" where
  "tbl_get key t k = find (\<lambda>r. key r = k) t"

text \<open>Insert a row, or replace the one with its key by a merge of the two.\<close>

fun tbl_upsert :: "('r \<Rightarrow> 'k) \<Rightarrow> ('r \<Rightarrow> 'r \<Rightarrow> 'r) \<Rightarrow> 'r list \<Rightarrow> 'r \<Rightarrow> 'r list" where
  "tbl_upsert key merge [] r = [r]"
| "tbl_upsert key merge (x # t) r =
     (if key x = key r then merge x r # t else x # tbl_upsert key merge t r)"

definition tbl_delete :: "('r \<Rightarrow> bool) \<Rightarrow> 'r list \<Rightarrow> 'r list" where
  "tbl_delete P t = filter (\<lambda>r. \<not> P r) t"

definition tbl_update :: "('r \<Rightarrow> bool) \<Rightarrow> ('r \<Rightarrow> 'r) \<Rightarrow> 'r list \<Rightarrow> 'r list" where
  "tbl_update P f t = map (\<lambda>r. if P r then f r else r) t"

definition rows_affected :: "('r \<Rightarrow> bool) \<Rightarrow> 'r list \<Rightarrow> int" where
  "rows_affected P t = int (length (filter P t))"

abbreviation unique_key :: "('r \<Rightarrow> 'k) \<Rightarrow> 'r list \<Rightarrow> bool" where
  "unique_key key t \<equiv> distinct (map key t)"

lemma tbl_get_Some: "tbl_get key t k = Some r \<Longrightarrow> r \<in> set t \<and> key r = k"
  unfolding tbl_get_def by (drule find_SomeD)

lemma tbl_get_None: "tbl_get key t k = None \<longleftrightarrow> k \<notin> key ` set t"
  by (auto simp: tbl_get_def find_None_iff)

lemma tbl_get_in:
  "unique_key key t \<Longrightarrow> r \<in> set t \<Longrightarrow> tbl_get key t (key r) = Some r"
  by (induction t) (auto simp: tbl_get_def image_iff)

lemma tbl_get_set: "unique_key key t \<Longrightarrow> tbl_get key t k = Some r \<longleftrightarrow> r \<in> set t \<and> key r = k"
  using tbl_get_Some tbl_get_in by metis

lemma tbl_get_upsert:
  assumes "\<And>x. key x = key r \<Longrightarrow> key (merge x r) = key r"
  shows "tbl_get key (tbl_upsert key merge t r) k =
    (if k = key r then Some (case tbl_get key t k of Some x \<Rightarrow> merge x r | None \<Rightarrow> r) else tbl_get key t k)"
  using assms by (induction t) (auto simp: tbl_get_def)

lemma keys_upsert:
  assumes "\<And>x. key x = key r \<Longrightarrow> key (merge x r) = key r"
  shows "key ` set (tbl_upsert key merge t r) = insert (key r) (key ` set t)"
  using assms by (induction t) auto

lemma unique_key_upsert:
  assumes "\<And>x. key x = key r \<Longrightarrow> key (merge x r) = key r" and "unique_key key t"
  shows "unique_key key (tbl_upsert key merge t r)"
  using assms(2)
proof (induction t)
  case (Cons x t)
  then show ?case using keys_upsert[of key r merge t] assms(1) by (auto simp: image_iff)
qed simp

lemma unique_key_delete: "unique_key key t \<Longrightarrow> unique_key key (tbl_delete P t)"
  by (simp add: tbl_delete_def distinct_map_filter)

lemma unique_key_update:
  "(\<And>r. key (f r) = key r) \<Longrightarrow> unique_key key t \<Longrightarrow> unique_key key (tbl_update P f t)"
  by (simp add: tbl_update_def comp_def if_distrib cong: if_cong)

lemma tbl_get_update:
  "(\<And>r. key (f r) = key r) \<Longrightarrow> tbl_get key (tbl_update P f t) k =
     map_option (\<lambda>r. if P r then f r else r) (tbl_get key t k)"
  by (induction t) (auto simp: tbl_get_def tbl_update_def)

lemma tbl_get_delete_key: "tbl_get key (tbl_delete (\<lambda>r. key r = k) t) j = (if j = k then None else tbl_get key t j)"
  by (induction t) (auto simp: tbl_get_def tbl_delete_def)

subsection \<open>The contract of an upsert\<close>

locale kv_store =
  fixes get :: "'s \<Rightarrow> 'k \<Rightarrow> 'v option"
    and put :: "'s \<Rightarrow> 'v \<Rightarrow> 's"
    and key :: "'v \<Rightarrow> 'k"
    and merge :: "'v option \<Rightarrow> 'v \<Rightarrow> 'v"
  assumes get_put: "get (put s v) k = (if k = key v then Some (merge (get s k) v) else get s k)"
begin

lemma get_fold_other: "k \<notin> key ` set vs \<Longrightarrow> get (foldl put s vs) k = get s k"
  by (induction vs arbitrary: s) (auto simp: get_put)

lemma get_fold:
  assumes "distinct (map key vs)"
  shows "get (foldl put s vs) k =
    (case find (\<lambda>v. key v = k) vs of Some v \<Rightarrow> Some (merge (get s k) v) | None \<Rightarrow> get s k)"
  using assms
proof (induction vs arbitrary: s)
  case (Cons v vs)
  show ?case
  proof (cases "key v = k")
    case True
    with Cons.prems have "k \<notin> key ` set vs" by auto
    with True show ?thesis by (simp add: get_fold_other get_put)
  next
    case False
    with Cons show ?thesis by (auto simp: get_put split: option.split)
  qed
qed simp

text \<open>Writes of rows with different keys commute.\<close>

lemma fold_order:
  assumes "mset vs = mset ws" "distinct (map key vs)"
  shows "get (foldl put s vs) k = get (foldl put s ws) k"
proof -
  have d: "distinct (map key ws)" using assms by (metis mset_eq_imp_distinct_iff mset_map)
  have "find (\<lambda>v. key v = k) vs = find (\<lambda>v. key v = k) ws"
  proof (cases "k \<in> key ` set vs")
    case True
    then obtain v where v: "v \<in> set vs" "key v = k" by blast
    then have "tbl_get key vs k = Some v" "tbl_get key ws k = Some v"
      using assms d tbl_get_in mset_eq_setD[OF assms(1)] by metis+
    then show ?thesis by (simp add: tbl_get_def)
  next
    case False
    then have "tbl_get key vs k = None" "tbl_get key ws k = None"
      using mset_eq_setD[OF assms(1)] by (simp_all add: tbl_get_None)
    then show ?thesis by (simp add: tbl_get_def)
  qed
  then show ?thesis using assms(2) d by (simp add: get_fold)
qed

lemma get_fold_written:
  assumes "k \<in> key ` set vs" "get (foldl put s vs) k = Some x"
  shows "\<exists>v old. v \<in> set vs \<and> key v = k \<and> x = merge old v"
  using assms
proof (induction vs arbitrary: s rule: rev_induct)
  case (snoc v vs)
  show ?case
  proof (cases "key v = k")
    case True
    with snoc.prems show ?thesis by (auto simp: get_put)
  next
    case False
    with snoc.prems have "k \<in> key ` set vs" "get (foldl put s vs) k = Some x" by (auto simp: get_put)
    then obtain u old where "u \<in> set vs" "key u = k" "x = merge old u" using snoc.IH by blast
    then show ?thesis by (intro exI[of _ u] exI[of _ old]) simp
  qed
qed simp

lemma fold_preserves:
  assumes "\<And>s v. v \<in> set vs \<Longrightarrow> I s \<Longrightarrow> I (put s v)" "I s"
  shows "I (foldl put s vs)"
  using assms by (induction vs arbitrary: s) auto

end

lemma kv_store_upsert:
  assumes "\<And>x r. key x = key r \<Longrightarrow> key (merge x r) = key r"
  shows "kv_store (tbl_get key) (tbl_upsert key merge) key
    (\<lambda>old r. case old of Some x \<Rightarrow> merge x r | None \<Rightarrow> r)"
  by unfold_locales (use assms in \<open>simp add: tbl_get_upsert\<close>)

end
