(* ===== verification/Resolver.thy ===== *)
theory Resolver
  imports Desired Table
begin

text \<open>
  \<open>internal/resolver\<close> and the resolve cache of \<open>internal/store/resolve.go\<close>: the addresses of the
  names mode C publishes, refreshed when they expire, kept for a grace period when the lookup
  fails.  A lookup, the clock at which a worker handles a name and the failure of a write are
  functions of the name, so that the workers may handle the names in any order.
\<close>

definition MinTTL :: duration where "MinTTL = 300 * second"
definition MaxTTL :: duration where "MaxTTL = hour"
definition StaleGrace :: duration where "StaleGrace = 24 * hour"

lemmas ttl_defs = MinTTL_def MaxTTL_def StaleGrace_def

subsection \<open>The cache table\<close>

definition Expired :: "resolved_entry \<Rightarrow> time \<Rightarrow> bool" where
  "Expired e now \<longleftrightarrow> \<not> re_expires_at e > now"

definition cache_key :: "resolved_entry \<Rightarrow> string \<times> string" where
  "cache_key e = (re_domain e, re_group e)"

text \<open>Times are stored in whole seconds.\<close>

definition whole_seconds :: "time \<Rightarrow> time" where
  "whole_seconds t = t div second * second"

definition stored_entry :: "resolved_entry \<Rightarrow> resolved_entry" where
  "stored_entry e = e\<lparr>re_resolved_at := whole_seconds (re_resolved_at e),
     re_expires_at := whole_seconds (re_expires_at e)\<rparr>"

definition UpsertResolveCache :: "resolved_entry list \<Rightarrow> resolved_entry \<Rightarrow> resolved_entry list" where
  "UpsertResolveCache cache e = tbl_upsert cache_key (\<lambda>_ new. new) cache (stored_entry e)"

definition PruneResolveCache :: "(string \<Rightarrow> bool) \<Rightarrow> resolved_entry list \<Rightarrow> resolved_entry list \<times> int" where
  "PruneResolveCache keep cache =
     (tbl_delete (\<lambda>e. \<not> keep (re_domain e)) cache, rows_affected (\<lambda>e. \<not> keep (re_domain e)) cache)"

definition ClearResolveCache :: "resolved_entry list \<Rightarrow> resolved_entry list" where
  "ClearResolveCache cache = []"

subsection \<open>One name\<close>

type_synonym lookup = "string \<Rightarrow> (addr list \<times> duration) result"

record resolver_env =
  rv_lookup :: lookup
  rv_now :: "string \<Rightarrow> time"
  rv_write_ok :: "string \<Rightarrow> bool"

text \<open>The loop of \<open>FailRetry\<close> from its counter \<open>i\<close> and delay \<open>d\<close>.\<close>

function fail_loop :: "int \<Rightarrow> int \<Rightarrow> duration \<Rightarrow> duration" where
  "fail_loop i fails d = (if i < fails \<and> d < MinTTL then fail_loop (i + 1) fails (d * 2) else d)"
  by pat_completeness auto
termination by (relation "measure (\<lambda>(i, fails, d). nat (fails - i))") auto

declare fail_loop.simps [simp del]

definition FailRetry :: "int \<Rightarrow> duration" where
  "FailRetry fails = (let d = fail_loop 1 fails (10 * second) in if d > MinTTL then MinTTL else d)"

definition failed_entry :: "string \<Rightarrow> string \<Rightarrow> time \<Rightarrow> string \<Rightarrow> resolved_entry \<Rightarrow> resolved_entry" where
  "failed_entry grp domain now err old =
     (let ips = (if re_resolved_at old = zero_time \<or> time_sub now (re_resolved_at old) > StaleGrace
                 then [] else re_ips old);
          fails = re_fail_count old + 1
      in old\<lparr>re_domain := domain, re_group := grp, re_ips := ips, re_fail_count := fails,
             re_last_error := err,
             re_expires_at := (if ips = [] then now + FailRetry fails else now + MinTTL)\<rparr>)"

definition clamp_ttl :: "duration \<Rightarrow> duration" where
  "clamp_ttl ttl = (let t = (if ttl < MinTTL then MinTTL else ttl) in if t > MaxTTL then MaxTTL else t)"

definition answered_entry :: "string \<Rightarrow> string \<Rightarrow> time \<Rightarrow> addr list \<Rightarrow> duration \<Rightarrow> resolved_entry" where
  "answered_entry grp domain now addrs ttl =
     \<lparr>re_domain = domain, re_group = grp, re_ips = sort (map addr_string addrs),
      re_ttl = clamp_ttl ttl div second, re_resolved_at = now, re_expires_at = now + clamp_ttl ttl,
      re_fail_count = 0, re_last_error = []\<rparr>"

text \<open>\<open>refreshOne\<close>: the row to write and whether the answer changed.\<close>

definition refreshOne :: "resolver_env \<Rightarrow> string \<Rightarrow> string \<Rightarrow> resolved_entry \<Rightarrow> resolved_entry \<times> bool" where
  "refreshOne env grp domain old =
     (case rv_lookup env domain of
        Inl err \<Rightarrow>
          (let e = failed_entry grp domain (rv_now env domain) err old
           in (e, length (re_ips e) \<noteq> length (re_ips old)))
      | Inr (addrs, ttl) \<Rightarrow>
          (let e = answered_entry grp domain (rv_now env domain) addrs ttl
           in (e, join_with '','' (re_ips e) \<noteq> join_with '','' (re_ips old))))"

subsection \<open>A refresh\<close>

definition zero_entry :: resolved_entry where
  "zero_entry = \<lparr>re_domain = [], re_group = [], re_ips = [], re_ttl = 0, re_resolved_at = zero_time,
     re_expires_at = zero_time, re_fail_count = 0, re_last_error = []\<rparr>"

text \<open>The map \<open>have\<close>: the cached rows of the group by name, later rows winning.\<close>

definition cached_for :: "string \<Rightarrow> resolved_entry list \<Rightarrow> string \<Rightarrow> resolved_entry option" where
  "cached_for grp cache d = find (\<lambda>e. re_group e = grp \<and> re_domain e = d) (rev cache)"

definition wanted_name :: "string \<Rightarrow> string" where
  "wanted_name d = to_lower (trim_suffix (trim_space d) ''.'')"

fun due_loop :: "(string \<Rightarrow> resolved_entry option) \<Rightarrow> time \<Rightarrow> string list \<Rightarrow> string list \<Rightarrow> string list" where
  "due_loop cached now seen [] = []"
| "due_loop cached now seen (d0 # ds) =
     (let d = wanted_name d0 in
      if d = [] \<or> d \<in> set seen then due_loop cached now seen ds
      else if (case cached d of None \<Rightarrow> True | Some e \<Rightarrow> Expired e now)
        then d # due_loop cached now (d # seen) ds
        else due_loop cached now (d # seen) ds)"

text \<open>A worker takes one name: it writes the row, unless the write fails, and counts a change.\<close>

definition work :: "resolver_env \<Rightarrow> string \<Rightarrow> (string \<Rightarrow> resolved_entry option)
    \<Rightarrow> resolved_entry list \<times> int \<Rightarrow> string \<Rightarrow> resolved_entry list \<times> int" where
  "work env grp cached st d =
     (let (e, changed) = refreshOne env grp d (case cached d of Some e0 \<Rightarrow> e0 | None \<Rightarrow> zero_entry)
      in (if rv_write_ok env d then UpsertResolveCache (fst st) e else fst st,
          if changed then snd st + 1 else snd st))"

text \<open>
  \<open>Refresh\<close> hands the due names to the workers; \<open>finish\<close> is the order in which they finish them.
  A context that ends after \<open>n\<close> names have been handed out stops the rest with its error.
\<close>

definition Refresh :: "resolver_env \<Rightarrow> string \<Rightarrow> (string list \<Rightarrow> string list) \<Rightarrow> (nat \<times> string) option
    \<Rightarrow> time \<Rightarrow> string list \<Rightarrow> resolved_entry list \<Rightarrow> (resolved_entry list \<times> int) \<times> string option" where
  "Refresh env grp finish cancel now want cache =
     (let cached = cached_for grp cache; due = due_loop cached now [] want in
      case cancel of
        Some (n, err) \<Rightarrow>
          if n < length due then (foldl (work env grp cached) (cache, 0) (finish (take n due)), Some err)
          else (foldl (work env grp cached) (cache, 0) (finish due), None)
      | None \<Rightarrow> (foldl (work env grp cached) (cache, 0) (finish due), None))"

subsection \<open>The loop\<close>

text \<open>The loop of \<open>NextDue\<close>; \<open>- 1\<close> means nothing is due.\<close>

fun next_due_loop :: "resolved_entry list \<Rightarrow> string set \<Rightarrow> time \<Rightarrow> duration \<Rightarrow> duration" where
  "next_due_loop [] want now next = next"
| "next_due_loop (e # es) want now next =
     (if re_domain e \<notin> want then next_due_loop es want now next
      else (let d = time_sub (re_expires_at e) now; d = (if d < 0 then 0 else d)
            in next_due_loop es want now (if next < 0 \<or> d < next then d else next)))"

definition NextDue :: "resolved_entry list \<Rightarrow> string set \<Rightarrow> time \<Rightarrow> duration" where
  "NextDue entries want now = next_due_loop entries want now (- 1)"

record resolver_loop =
  lp_min_interval :: duration
  lp_max_interval :: duration

definition NewLoop :: resolver_loop where
  "NewLoop = \<lparr>lp_min_interval = 10 * second, lp_max_interval = 5 * minute\<rparr>"

text \<open>
  One round: the names, the refresh, the list of the cache for the next wait and the clock then.
  The result is the new cache, whether the reconciler is notified, and the wait.
\<close>

definition bound_wait :: "resolver_loop \<Rightarrow> duration \<Rightarrow> duration" where
  "bound_wait l next =
     (let a = (if next < 0 then lp_max_interval l else next);
          b = (if a < lp_min_interval l then lp_min_interval l else a)
      in if b > lp_max_interval l then lp_max_interval l else b)"

definition loop_round :: "resolver_loop \<Rightarrow> string list result
    \<Rightarrow> (string list \<Rightarrow> (resolved_entry list \<times> int) \<times> string option) \<Rightarrow> string option \<Rightarrow> time
    \<Rightarrow> resolved_entry list \<Rightarrow> resolved_entry list \<times> bool \<times> duration" where
  "loop_round l domains refresh list_err now cache =
     (case domains of
        Inl _ \<Rightarrow> (cache, False, lp_min_interval l)
      | Inr ds \<Rightarrow>
          if ds = [] then (cache, False, lp_max_interval l)
          else (case refresh ds of
                  ((cache', changed), Some _) \<Rightarrow> (cache', False, lp_min_interval l)
                | ((cache', changed), None) \<Rightarrow>
                    (cache', changed > 0,
                     case list_err of
                       Some _ \<Rightarrow> lp_min_interval l
                     | None \<Rightarrow> bound_wait l (NextDue cache' (set ds) now))))"

subsection \<open>The DNS client\<close>

text \<open>
  A reply of the third-party DNS library: whether it is truncated, its code (zero is success)
  with its text, and the answer records (the IPv4 address of an A record, when it has one, and
  its TTL in seconds; \<open>None\<close> for any other record).
\<close>

record dns_reply =
  rp_truncated :: bool
  rp_rcode :: int
  rp_rcode_text :: string
  rp_answers :: "(ipv4 option \<times> int) option list"

definition bogon :: "addr \<Rightarrow> bool" where
  "bogon a \<longleftrightarrow> is_private a \<or> is_loopback a \<or> is_unspecified a \<or> is_link_local_unicast a \<or> is_multicast a"

fun answer_loop :: "(ipv4 option \<times> int) option list \<Rightarrow> addr list \<Rightarrow> duration \<Rightarrow> addr list \<times> duration" where
  "answer_loop [] addrs min_ttl = (addrs, min_ttl)"
| "answer_loop (None # rs) addrs min_ttl = answer_loop rs addrs min_ttl"
| "answer_loop (Some (None, _) # rs) addrs min_ttl = answer_loop rs addrs min_ttl"
| "answer_loop (Some (Some a, secs) # rs) addrs min_ttl =
     (if bogon (V4 a) then answer_loop rs addrs min_ttl
      else (let ttl = secs * second in
            answer_loop rs (addrs @ [V4 a]) (if min_ttl = 0 \<or> ttl < min_ttl then ttl else min_ttl)))"

text \<open>\<open>exchange tcp domain\<close> asks the server over UDP or TCP.\<close>

definition DNSLookup :: "(bool \<Rightarrow> string \<Rightarrow> dns_reply result) \<Rightarrow> lookup" where
  "DNSLookup exchange domain =
     bind_result (exchange False domain) (\<lambda>r0.
     bind_result (if rp_truncated r0 then exchange True domain else Inr r0) (\<lambda>r.
       if rp_rcode r \<noteq> 0 then Inl (''rcode '' @ rp_rcode_text r)
       else (let (addrs, min_ttl) = answer_loop (rp_answers r) [] 0 in
             if addrs = [] then Inl ''no A records'' else Inr (addrs, min_ttl))))"

end
