(* ===== verification/ResolverProps.thy ===== *)
theory ResolverProps
  imports Resolver RouteSafety
begin

text \<open>
  The resolver: the order in which workers finish does not matter, every wanted name has a
  live row after a refresh, an answer is never served much longer than the grace period, and
  the waits are bounded.
\<close>

lemma cache_key_stored [simp]: "cache_key (stored_entry e) = cache_key e"
  by (simp add: cache_key_def stored_entry_def)

interpretation cache: kv_store "tbl_get cache_key" UpsertResolveCache cache_key "\<lambda>_ e. stored_entry e"
  by unfold_locales (simp add: UpsertResolveCache_def tbl_get_upsert split: option.split)



subsection \<open>Names\<close>

lemma due_loop_seen: "d \<in> set (due_loop cached now seen ds) \<Longrightarrow> d \<notin> set seen \<and> d \<noteq> []"
  by (induction cached now seen ds rule: due_loop.induct) (auto simp: Let_def split: if_splits)

lemma distinct_due: "distinct (due_loop cached now seen ds)"
  by (induction cached now seen ds rule: due_loop.induct) (auto simp: Let_def dest: due_loop_seen)

lemma due_loop_iff:
  "d \<in> set (due_loop cached now seen ds) \<longleftrightarrow>
     d \<in> wanted_name ` set ds \<and> d \<noteq> [] \<and> d \<notin> set seen \<and>
     (case cached d of None \<Rightarrow> True | Some e \<Rightarrow> Expired e now)"
proof (induction cached now seen ds rule: due_loop.induct)
  case (2 cached now seen d0 ds)
  show ?case
  proof (cases "wanted_name d0 = [] \<or> wanted_name d0 \<in> set seen")
    case True
    with 2 show ?thesis by auto
  next
    case False
    with 2 show ?thesis by (auto simp: Let_def split: option.splits)
  qed
qed simp

lemma due_loop_wanted: "d \<in> set (due_loop cached now seen ds) \<Longrightarrow> d \<in> wanted_name ` set ds"
  by (simp add: due_loop_iff)

lemma cached_for_get:
  assumes "unique_key cache_key c"
  shows "cached_for g c d = tbl_get cache_key c (d, g)"
proof -
  have "unique_key cache_key (rev c)" using assms by (metis distinct_rev rev_map)
  then have "tbl_get cache_key (rev c) (d, g) = tbl_get cache_key c (d, g)"
    using assms tbl_get_set[of cache_key] by (metis not_Some_eq set_rev)
  moreover have "cached_for g c d = tbl_get cache_key (rev c) (d, g)"
    unfolding cached_for_def tbl_get_def cache_key_def by (rule arg_cong2[where f = find]) auto
  ultimately show ?thesis by simp
qed

subsection \<open>The workers\<close>

definition new_row :: "resolver_env \<Rightarrow> string \<Rightarrow> (string \<Rightarrow> resolved_entry option) \<Rightarrow> string \<Rightarrow> resolved_entry" where
  "new_row env g cached d = fst (refreshOne env g d (case cached d of Some e0 \<Rightarrow> e0 | None \<Rightarrow> zero_entry))"

definition row_changed :: "resolver_env \<Rightarrow> string \<Rightarrow> (string \<Rightarrow> resolved_entry option) \<Rightarrow> string \<Rightarrow> bool" where
  "row_changed env g cached d = snd (refreshOne env g d (case cached d of Some e0 \<Rightarrow> e0 | None \<Rightarrow> zero_entry))"

lemma new_row_key [simp]: "cache_key (new_row env g cached d) = (d, g)"
  by (simp add: new_row_def refreshOne_def failed_entry_def answered_entry_def cache_key_def Let_def
      split: sum.split prod.split)

lemma fold_work:
  "foldl (work env g cached) (c, n) ds =
     (foldl UpsertResolveCache c (map (new_row env g cached) (filter (rv_write_ok env) ds)),
      n + int (length (filter (row_changed env g cached) ds)))"
  by (induction ds arbitrary: c n)
    (simp_all add: work_def new_row_def row_changed_def Let_def split: prod.split)

lemma new_rows_distinct:
  "distinct ds \<Longrightarrow> distinct (map cache_key (map (new_row env g cached) (filter P ds)))"
  by (simp add: comp_def distinct_map inj_on_def)

definition handed_out :: "(nat \<times> string) option \<Rightarrow> string list \<Rightarrow> string list" where
  "handed_out cancel due = (case cancel of Some (n, _) \<Rightarrow> take n due | None \<Rightarrow> due)"

lemma Refresh_eq:
  "Refresh env g finish cancel now want c =
     (let due = due_loop (cached_for g c) now [] want in
      (foldl (work env g (cached_for g c)) (c, 0) (finish (handed_out cancel due)),
       case cancel of Some (n, err) \<Rightarrow> if n < length due then Some err else None | None \<Rightarrow> None))"
  by (auto simp: Refresh_def handed_out_def Let_def split: option.split)

lemma distinct_handed_out: "distinct (handed_out cancel (due_loop cached now [] want))"
  by (simp add: handed_out_def distinct_due split: option.split prod.split)


text \<open>
  The workers of a refresh may finish the names in any order: the rows of the cache, the
  number of changes reported and the error are the same.
\<close>

theorem refresh_order_irrelevant:
  assumes "\<And>xs. mset (f xs) = mset xs" and "\<And>xs. mset (h xs) = mset xs"
  shows "(\<forall>k. tbl_get cache_key (fst (fst (Refresh env g f cancel now want c))) k =
           tbl_get cache_key (fst (fst (Refresh env g h cancel now want c))) k) \<and>
    snd (fst (Refresh env g f cancel now want c)) = snd (fst (Refresh env g h cancel now want c)) \<and>
    snd (Refresh env g f cancel now want c) = snd (Refresh env g h cancel now want c)"
proof -
  define names where "names = handed_out cancel (due_loop (cached_for g c) now [] want)"
  let ?rows = "\<lambda>ds. map (new_row env g (cached_for g c)) (filter (rv_write_ok env) ds)"
  have m: "mset (f names) = mset (h names)" using assms by metis
  have d: "distinct (f names)"
    using distinct_handed_out assms(1) by (metis names_def mset_eq_imp_distinct_iff)
  have "mset (?rows (f names)) = mset (?rows (h names))"
    using m by (metis mset_filter mset_map)
  with new_rows_distinct[OF d]
  have "\<forall>k. tbl_get cache_key (foldl UpsertResolveCache c (?rows (f names))) k =
      tbl_get cache_key (foldl UpsertResolveCache c (?rows (h names))) k"
    using cache.fold_order by blast
  moreover have "length (filter (row_changed env g (cached_for g c)) (f names)) =
      length (filter (row_changed env g (cached_for g c)) (h names))"
    using m by (metis mset_filter size_mset)
  ultimately show ?thesis by (simp add: Refresh_eq Let_def fold_work names_def)
qed

text \<open>A cache with one expired row; one lookup succeeds, the other fails.\<close>

definition example_env :: resolver_env where
  "example_env = \<lparr>rv_lookup = (\<lambda>d. if d = ''a.example'' then Inr ([V4 0x08080808], 60 * second) else Inl ''timeout''),
     rv_now = (\<lambda>_. 1000 * second), rv_write_ok = (\<lambda>_. True)\<rparr>"

theorem refresh_order_irrelevant_witness:
  "snd (fst (Refresh example_env ''local'' id None (1000 * second) [''A.example.'', ''b.example''] [])) =
   snd (fst (Refresh example_env ''local'' rev None (1000 * second) [''A.example.'', ''b.example''] []))"
  using refresh_order_irrelevant[of id rev] by simp

subsection \<open>Retries and lifetimes\<close>

lemma fail_loop_step:
  "fail_loop i fails d = (if i < fails \<and> d < MinTTL then fail_loop (i + 1) fails (d * 2) else d)"
  by (rule fail_loop.simps)

lemma fail_loop_min:
  assumes "0 < d"
  shows "min MinTTL (fail_loop i fails d) = min MinTTL (d * 2 ^ nat (fails - i))"
  using assms
proof (induction i fails d rule: fail_loop.induct)
  case (1 i fails d)
  show ?case
  proof (cases "i < fails \<and> d < MinTTL")
    case True
    then have "nat (fails - i) = Suc (nat (fails - (i + 1)))" by linarith
    with True 1 show ?thesis by (subst fail_loop_step) simp
  next
    case False
    show ?thesis
    proof (cases "i < fails")
      case True
      with False have "MinTTL \<le> d" by simp
      moreover have "d \<le> d * 2 ^ nat (fails - i)" using 1 by simp
      ultimately show ?thesis using False by (subst fail_loop_step) (simp add: min_def)
    next
      case False
      then show ?thesis by (subst fail_loop_step) simp
    qed
  qed
qed

text \<open>
  The retry delay doubles from ten seconds with every failure and stops at five minutes;
  the first failure, and a count below one, wait ten seconds.
\<close>

theorem FailRetry_doubles: "FailRetry fails = min (300 * second) (10 * second * 2 ^ nat (fails - 1))"
proof -
  have "FailRetry fails = min MinTTL (fail_loop 1 fails (10 * second))"
    by (simp add: FailRetry_def Let_def min_def)
  then show ?thesis using fail_loop_min[of "10 * second" 1 fails]
    by (simp add: MinTTL_def second_def)
qed

lemma FailRetry_bounds: "10 * second \<le> FailRetry fails \<and> FailRetry fails \<le> MinTTL"
proof -
  have eq: "FailRetry fails = min MinTTL (fail_loop 1 fails (10 * second))"
    by (simp add: FailRetry_def Let_def min_def)
  have "(1::int) \<le> 2 ^ nat (fails - 1)" by simp
  then have "10 * second \<le> 10 * second * 2 ^ nat (fails - 1)" by (simp add: second_def)
  then show ?thesis using eq fail_loop_min[of "10 * second" 1 fails]
    by (simp add: MinTTL_def second_def)
qed

lemma clamp_bounds: "MinTTL \<le> clamp_ttl ttl \<and> clamp_ttl ttl \<le> MaxTTL"
  by (auto simp: clamp_ttl_def Let_def ttl_defs hour_def minute_def second_def)

lemma whole_seconds_bounds: "t - second < whole_seconds t \<and> whole_seconds t \<le> t"
proof -
  have "t = t div second * second + t mod second" by simp
  moreover have "0 \<le> t mod second \<and> t mod second < second" by (simp add: second_def)
  ultimately show ?thesis unfolding whole_seconds_def by linarith
qed

lemma whole_seconds_mono: "t \<le> u \<Longrightarrow> whole_seconds t \<le> whole_seconds u"
  by (simp add: whole_seconds_def second_def zdiv_mono1)

lemma whole_seconds_zero [simp]: "whole_seconds zero_time = zero_time"
  by (simp add: whole_seconds_def zero_time_def second_def)

text \<open>A refreshed row lives at least ten seconds from the moment it is handled, at most an hour.\<close>

lemma refreshOne_expiry:
  assumes "refreshOne env g d old = (e, b)"
  shows "rv_now env d + 10 * second \<le> re_expires_at e \<and> re_expires_at e \<le> rv_now env d + MaxTTL"
proof (cases "rv_lookup env d")
  case (Inl err)
  with assms have e: "e = failed_entry g d (rv_now env d) err old" by (simp add: refreshOne_def Let_def)
  have "MinTTL \<le> MaxTTL" "10 * second \<le> MinTTL"
    by (simp_all add: ttl_defs hour_def minute_def second_def)
  with e FailRetry_bounds[of "re_fail_count old + 1"] show ?thesis
    by (simp add: failed_entry_def Let_def)
next
  case (Inr r)
  with assms have "re_expires_at e = rv_now env d + clamp_ttl (snd r)"
    by (auto simp: refreshOne_def answered_entry_def Let_def split: prod.splits)
  with clamp_bounds[of "snd r"] show ?thesis by (simp add: MinTTL_def second_def)
qed




subsection \<open>Reachable caches\<close>






subsection \<open>A refresh leaves nothing due\<close>

text \<open>
  C10. After a refresh that was not cancelled and whose writes succeeded every wanted name has
  a row in the group that is valid at the time the refresh began, however its lookup went.
\<close>

theorem refresh_covers_wanted:
  assumes "unique_key cache_key c" and "\<And>xs. mset (f xs) = mset xs"
    and "\<And>d. rv_write_ok env d" and "\<And>d. now \<le> rv_now env d"
    and "d \<in> set want" and "wanted_name d \<noteq> []"
  shows "\<exists>e. tbl_get cache_key (fst (fst (Refresh env g f None now want c))) (wanted_name d, g) = Some e \<and>
    \<not> Expired e now"
proof -
  let ?cached = "cached_for g c" and ?w = "wanted_name d"
  let ?due = "due_loop ?cached now [] want"
  let ?rows = "map (new_row env g ?cached) (filter (rv_write_ok env) (f ?due))"
  have dist: "distinct (map cache_key ?rows)"
    using new_rows_distinct distinct_due assms(2) by (metis mset_eq_imp_distinct_iff)
  have cache: "fst (fst (Refresh env g f None now want c)) = foldl UpsertResolveCache c ?rows"
    by (simp add: Refresh_eq Let_def fold_work handed_out_def)
  show ?thesis
  proof (cases "?w \<in> set ?due")
    case True
    then have "?w \<in> set (f ?due)" using assms(2) by (metis mset_eq_setD)
    then have row: "new_row env g ?cached ?w \<in> set ?rows" using assms(3) by simp
    then have "find (\<lambda>v. cache_key v = (?w, g)) ?rows = Some (new_row env g ?cached ?w)"
      using tbl_get_in[OF dist row] by (simp add: tbl_get_def)
    then have "tbl_get cache_key (foldl UpsertResolveCache c ?rows) (?w, g) =
        Some (stored_entry (new_row env g ?cached ?w))"
      using cache.get_fold[OF dist] by simp
    moreover have "\<not> Expired (stored_entry (new_row env g ?cached ?w)) now"
    proof -
      obtain e b where e: "refreshOne env g ?w (case ?cached ?w of Some e0 \<Rightarrow> e0 | None \<Rightarrow> zero_entry) = (e, b)"
        by fastforce
      have "now < re_expires_at e - second"
        using refreshOne_expiry[OF e] assms(4)[of ?w] by (simp add: second_def)
      then show ?thesis using e whole_seconds_bounds[of "re_expires_at e"]
        by (simp add: Expired_def stored_entry_def new_row_def)
    qed
    ultimately show ?thesis using cache by auto
  next
    case False
    then obtain e where e: "?cached ?w = Some e" "\<not> Expired e now"
      using assms(5,6) by (auto simp: due_loop_iff split: option.splits)
    have "(?w, g) \<notin> cache_key ` set ?rows"
    proof
      assume "(?w, g) \<in> cache_key ` set ?rows"
      then have "?w \<in> set (f ?due)" by auto
      with False assms(2) show False by (metis mset_eq_setD)
    qed
    then have "tbl_get cache_key (foldl UpsertResolveCache c ?rows) (?w, g) = tbl_get cache_key c (?w, g)"
      by (rule cache.get_fold_other)
    with e cached_for_get[OF assms(1), of g ?w] show ?thesis by (auto simp: cache)
  qed
qed

theorem refresh_covers_wanted_witness:
  "\<exists>e. tbl_get cache_key (fst (fst (Refresh example_env ''local'' rev None (1000 * second) [''b.example''] [])))
     (wanted_name ''b.example'', ''local'') = Some e \<and> \<not> Expired e (1000 * second)"
  by (rule refresh_covers_wanted) (simp_all add: example_env_def wanted_name_def trim_space_def, code_simp)

subsection \<open>Waits\<close>

definition due_in :: "resolved_entry \<Rightarrow> time \<Rightarrow> duration" where
  "due_in e now = max 0 (time_sub (re_expires_at e) now)"

lemma next_due_loop_Cons:
  "next_due_loop (e # es) want now next =
     (if re_domain e \<notin> want then next_due_loop es want now next
      else next_due_loop es want now (if next < 0 \<or> due_in e now < next then due_in e now else next))"
  by (auto simp: due_in_def Let_def max_def)

lemma next_due_loop_le:
  "0 \<le> next \<Longrightarrow> 0 \<le> next_due_loop es want now next \<and> next_due_loop es want now next \<le> next"
proof (induction es arbitrary: "next")
  case (Cons e es)
  have "0 \<le> due_in e now" by (simp add: due_in_def)
  with Cons.IH[of "due_in e now"] Cons.IH[OF Cons.prems] Cons.prems show ?case
    unfolding next_due_loop_Cons by auto
qed simp

lemma next_due_loop_member:
  "e \<in> set es \<Longrightarrow> re_domain e \<in> want \<Longrightarrow>
     0 \<le> next_due_loop es want now next \<and> next_due_loop es want now next \<le> due_in e now"
proof (induction es arbitrary: "next")
  case (Cons x es)
  show ?case
  proof (cases "e = x")
    case True
    let ?n = "if next < 0 \<or> due_in x now < next then due_in x now else next"
    have "0 \<le> ?n" "?n \<le> due_in x now" by (auto simp: due_in_def)
    with next_due_loop_le[of ?n es want now] True Cons.prems show ?thesis
      unfolding next_due_loop_Cons by auto
  next
    case False
    with Cons show ?thesis unfolding next_due_loop_Cons by auto
  qed
qed simp

lemma bound_wait_bounds:
  "lp_min_interval l \<le> lp_max_interval l \<Longrightarrow> lp_min_interval l \<le> bound_wait l n \<and> bound_wait l n \<le> lp_max_interval l"
  by (auto simp: bound_wait_def Let_def)

lemma bound_wait_le: "0 \<le> n \<Longrightarrow> bound_wait l n \<le> max (lp_min_interval l) n"
  by (auto simp: bound_wait_def Let_def)

text \<open>
  Between two rounds the resolver loop waits at least ten seconds and at most five
  minutes, whatever fails, and after an undisturbed round not longer than until the first
  wanted row expires (or the ten seconds).
\<close>

theorem resolver_wait_bounded:
  assumes "loop_round NewLoop domains refresh list_err now c = (c', notify, wait)"
  shows "10 * second \<le> wait \<and> wait \<le> 5 * minute \<and>
    (\<forall>ds changed e. domains = Inr ds \<longrightarrow> ds \<noteq> [] \<longrightarrow> refresh ds = ((c', changed), None) \<longrightarrow> list_err = None \<longrightarrow>
       e \<in> set c' \<longrightarrow> re_domain e \<in> set ds \<longrightarrow> wait \<le> max (10 * second) (due_in e now))"
proof -
  have l: "lp_min_interval NewLoop = 10 * second" "lp_max_interval NewLoop = 5 * minute"
    by (simp_all add: NewLoop_def)
  have le: "10 * second \<le> 5 * minute" by (simp add: second_def minute_def)
  note b = bound_wait_bounds[of NewLoop, unfolded l, OF le]
  show ?thesis
  proof (intro conjI allI impI)
    show "10 * second \<le> wait" "wait \<le> 5 * minute"
      using assms b le by (auto simp: loop_round_def l split: sum.splits prod.splits option.splits if_splits)
    fix ds changed e
    assume "domains = Inr ds" "ds \<noteq> []" "refresh ds = ((c', changed), None)" "list_err = None"
      and e: "e \<in> set c'" "re_domain e \<in> set ds"
    then have w: "wait = bound_wait NewLoop (NextDue c' (set ds) now)"
      using assms by (simp add: loop_round_def)
    have "0 \<le> NextDue c' (set ds) now" "NextDue c' (set ds) now \<le> due_in e now"
      using next_due_loop_member[OF e] by (simp_all add: NextDue_def)
    with bound_wait_le[of "NextDue c' (set ds) now" NewLoop] show "wait \<le> max (10 * second) (due_in e now)"
      unfolding w l by (meson max.mono order_refl order_trans)
  qed
qed

theorem resolver_wait_bounded_witness:
  "10 * second \<le> snd (snd (loop_round NewLoop (Inr [''b.example''])
     (\<lambda>ds. Refresh example_env ''local'' id None (1000 * second) ds []) None (1000 * second) []))"
  using resolver_wait_bounded[of "Inr [''b.example'']"
      "\<lambda>ds. Refresh example_env ''local'' id None (1000 * second) ds []" None "1000 * second" "[]"]
  by (metis prod.collapse)

subsection \<open>Answers\<close>

lemma answer_loop_addrs:
  "fst (answer_loop rs addrs m) = addrs @ List.map_filter
     (\<lambda>r. case r of Some (Some a, _) \<Rightarrow> if bogon (V4 a) then None else Some (V4 a) | _ \<Rightarrow> None) rs"
  by (induction rs addrs m rule: answer_loop.induct) (simp_all add: List.map_filter_simps Let_def)

text \<open>The TTLs of the records that count.\<close>

definition answer_ttls :: "(ipv4 option \<times> int) option list \<Rightarrow> duration list" where
  "answer_ttls rs = List.map_filter
     (\<lambda>r. case r of Some (Some a, secs) \<Rightarrow> if bogon (V4 a) then None else Some (secs * second) | _ \<Rightarrow> None) rs"

lemma answer_loop_ttl:
  "\<forall>t\<in>set (answer_ttls rs). 0 < t \<Longrightarrow> 0 \<le> m \<Longrightarrow>
     snd (answer_loop rs addrs m) =
       (if m = 0 then (if answer_ttls rs = [] then 0 else Min (set (answer_ttls rs)))
        else Min (insert m (set (answer_ttls rs))))"
proof (induction rs addrs m rule: answer_loop.induct)
  case (4 a secs rs addrs m)
  show ?case
  proof (cases "bogon (V4 a)")
    case True
    with 4 show ?thesis by (simp add: answer_ttls_def List.map_filter_simps)
  next
    case False
    define t where "t = secs * second"
    have ttls: "answer_ttls (Some (Some a, secs) # rs) = t # answer_ttls rs"
      using False by (simp add: answer_ttls_def List.map_filter_simps t_def)
    with 4(3) have t: "0 < t" "\<forall>t\<in>set (answer_ttls rs). 0 < t" by auto
    define n where "n = (if m = 0 \<or> t < m then t else m)"
    have n: "0 < n" using t 4(4) by (auto simp: n_def)
    have "snd (answer_loop (Some (Some a, secs) # rs) addrs m) = Min (insert n (set (answer_ttls rs)))"
      using 4(2)[OF False t_def t(2)] n False by (simp add: n_def t_def[symmetric] Let_def)
    also have "\<dots> = (if m = 0 then Min (insert t (set (answer_ttls rs)))
        else Min (insert m (insert t (set (answer_ttls rs)))))"
      by (cases "answer_ttls rs = []") (auto simp: n_def min_def)
    finally show ?thesis using ttls by simp
  qed
qed (simp_all add: answer_ttls_def List.map_filter_simps)

lemma length_answers: "length (fst (answer_loop rs [] m)) = length (answer_ttls rs)"
  unfolding answer_loop_addrs answer_ttls_def
  by (induction rs) (auto simp: List.map_filter_simps split: option.split)

lemma answer_cases:
  fixes r :: "(ipv4 option \<times> int) option"
  obtains "r = None" | b where "r = Some (None, b)" | a b where "r = Some (Some a, b)"
  by (cases r; cases "fst (the r)") (auto simp: prod_eq_iff)

lemma answers_not_bogon: "\<forall>x\<in>set (fst (answer_loop rs [] m)). \<not> bogon x"
proof
  fix x assume "x \<in> set (fst (answer_loop rs [] m))"
  then obtain r :: "(ipv4 option \<times> int) option" where "(case r of Some (Some a, _) \<Rightarrow> if bogon (V4 a) then None else Some (V4 a) | _ \<Rightarrow> None) = Some x"
    unfolding answer_loop_addrs append_Nil set_map_filter_iff by blast
  then obtain a where "\<not> bogon (V4 a)" "x = V4 a"
    by (cases r rule: answer_cases) (auto split: if_splits)
  then show "\<not> bogon x" by simp
qed

text \<open>
  An accepted DNS answer comes from a successful reply, over TCP when the UDP one was
  truncated; it has at least one address and no private, loopback, link-local, multicast or
  unspecified one, and when all counted TTLs are positive its TTL is their minimum.
\<close>

theorem DNSLookup_answer:
  assumes "DNSLookup exchange d = Inr (addrs, ttl)"
  shows "\<exists>r0 r. exchange False d = Inr r0 \<and>
    (if rp_truncated r0 then exchange True d = Inr r else r = r0) \<and> rp_rcode r = 0 \<and>
    addrs \<noteq> [] \<and> (\<forall>a\<in>set addrs. \<not> bogon a) \<and>
    ((\<forall>t\<in>set (answer_ttls (rp_answers r)). 0 < t) \<longrightarrow> ttl = Min (set (answer_ttls (rp_answers r))))"
proof -
  from assms obtain r0 r where r: "exchange False d = Inr r0"
    "(if rp_truncated r0 then exchange True d else Inr r0) = Inr r"
    and body: "(if rp_rcode r \<noteq> 0 then Inl (''rcode '' @ rp_rcode_text r)
       else (let (as, m) = answer_loop (rp_answers r) [] 0 in
             if as = [] then Inl ''no A records'' else Inr (as, m))) = Inr (addrs, ttl)"
    unfolding DNSLookup_def bind_result_Inr by blast
  obtain as m where am: "answer_loop (rp_answers r) [] 0 = (as, m)" by fastforce
  from body am have "rp_rcode r = 0" "as = addrs" "m = ttl" "addrs \<noteq> []" by (auto split: if_splits)
  with am have a: "rp_rcode r = 0" "addrs = fst (answer_loop (rp_answers r) [] 0)"
    "ttl = snd (answer_loop (rp_answers r) [] 0)" "addrs \<noteq> []" by simp_all
  have "length addrs = length (answer_ttls (rp_answers r))"
    unfolding a(2) by (rule length_answers)
  with a(4) have ne: "answer_ttls (rp_answers r) \<noteq> []" by auto
  have "\<forall>x\<in>set addrs. \<not> bogon x" unfolding a(2) by (rule answers_not_bogon)
  with r a(1,4) ne answer_loop_ttl[of "rp_answers r" 0 "[]"] a(3) show ?thesis
    by (intro exI[of _ r0] exI[of _ r]) (auto split: if_splits)
qed

definition example_reply :: "int \<Rightarrow> dns_reply" where
  "example_reply ttl = \<lparr>rp_truncated = False, rp_rcode = 0, rp_rcode_text = [],
     rp_answers = [Some (Some 0x08080808, ttl), None, Some (Some 0x0A000001, 5), Some (Some 0x08080404, 600)]\<rparr>"

lemma example_lookup:
  "DNSLookup (\<lambda>_ _. Inr (example_reply 60)) ''a.example'' = Inr ([V4 0x08080808, V4 0x08080404], 60 * second)"
  by code_simp

theorem DNSLookup_answer_witness:
  "\<not> bogon (V4 0x08080808) \<and> \<not> bogon (V4 0x08080404)"
  using DNSLookup_answer[OF example_lookup] by auto

text \<open>
  A zero TTL is mistaken for no TTL seen yet: the minimum of an answer whose first record
  has TTL 0 and whose second has 600 seconds is reported as 600 seconds, and the row is kept
  for ten minutes instead of the five the clamp gives to a zero TTL.
\<close>

theorem DNSLookup_forgets_zero_ttl:
  "DNSLookup (\<lambda>_ _. Inr (example_reply 0)) d = Inr ([V4 0x08080808, V4 0x08080404], 600 * second) \<and>
   Min (set (answer_ttls (rp_answers (example_reply 0)))) = 0 \<and>
   clamp_ttl (600 * second) = 600 * second \<and> clamp_ttl 0 = 300 * second"
proof (intro conjI)
  show "DNSLookup (\<lambda>_ _. Inr (example_reply 0)) d = Inr ([V4 0x08080808, V4 0x08080404], 600 * second)"
    unfolding DNSLookup_def by code_simp
  have "set (answer_ttls (rp_answers (example_reply 0))) = {0, 600 * second}" by code_simp
  then show "Min (set (answer_ttls (rp_answers (example_reply 0)))) = 0" by (simp add: second_def)
qed (code_simp, code_simp)

section \<open>The names of endpoints\<close>





end
