(* ===== verification/PublishedStore.thy ===== *)
theory PublishedStore
  imports RouteEngine Table
begin

text \<open>
  The table of published routes (\<open>internal/store/resolve.go\<close>): what the route engine decided
  for each prefix.  A row keeps the time it was first seen over rewrites.
\<close>

record pub_row = published_route +
  pub_first_seen :: time
  pub_last_seen :: time

definition pub_row_of :: "time \<Rightarrow> published_route \<Rightarrow> pub_row" where
  "pub_row_of now r = \<lparr>pub_cidr = pub_cidr r, pub_source = pub_source r, pub_rule_id = pub_rule_id r,
     pub_state = pub_state r, pub_detail = pub_detail r, pub_first_seen = now, pub_last_seen = now\<rparr>"

definition pub_merge :: "pub_row \<Rightarrow> pub_row \<Rightarrow> pub_row" where
  "pub_merge old new = new\<lparr>pub_first_seen := pub_first_seen old\<rparr>"

text \<open>The CHECK constraints of the table.\<close>

definition pub_check :: "published_route \<Rightarrow> bool" where
  "pub_check r \<longleftrightarrow> pub_source r \<in> {''rule'', ''geo'', ''domain'', ''fakeip''} \<and> pub_state r \<noteq> StateNone"

text \<open>The transaction: a row that violates a constraint rolls everything back.\<close>

definition ReplacePublishedRoutes :: "time \<Rightarrow> published_route list \<Rightarrow> pub_row list \<Rightarrow> pub_row list result" where
  "ReplacePublishedRoutes now rows table =
     (if \<exists>r\<in>set rows. \<not> pub_check r then Inl ''CHECK constraint failed''
      else Inr (tbl_delete (\<lambda>x. pub_cidr x \<notin> set (map pub_cidr rows))
             (foldl (tbl_upsert pub_cidr pub_merge) table (map (pub_row_of now) rows))))"

definition ClearPublishedRoutes :: "pub_row list \<Rightarrow> pub_row list" where
  "ClearPublishedRoutes table = []"

definition RouteCounts :: "pub_row list \<Rightarrow> route_state \<Rightarrow> int" where
  "RouteCounts table st = rows_affected (\<lambda>r. pub_state r = st) table"

lemma pub_merge_cidr [simp]: "pub_cidr (pub_merge x r) = pub_cidr r"
  by (simp add: pub_merge_def)

lemma pub_row_of_simps [simp]:
  "pub_cidr (pub_row_of now r) = pub_cidr r" "pub_state (pub_row_of now r) = pub_state r"
  "pub_first_seen (pub_row_of now r) = now" "pub_last_seen (pub_row_of now r) = now"
  by (simp_all add: pub_row_of_def)

interpretation pub: kv_store "tbl_get pub_cidr" "tbl_upsert pub_cidr pub_merge" pub_cidr
  "\<lambda>old r. case old of Some x \<Rightarrow> pub_merge x r | None \<Rightarrow> r"
  by (rule kv_store_upsert) simp

lemma keys_fold_upsert:
  "pub_cidr ` set (foldl (tbl_upsert pub_cidr pub_merge) t rs) = pub_cidr ` set t \<union> pub_cidr ` set rs"
  by (induction rs arbitrary: t) (auto simp: keys_upsert)

lemma tbl_get_tbl_delete:
  "tbl_get key (tbl_delete (\<lambda>r. key r \<notin> K) t) k = (if k \<in> K then tbl_get key t k else None)"
  by (induction t) (auto simp: tbl_get_def tbl_delete_def)

lemma replace_get:
  assumes "ReplacePublishedRoutes now rows t = Inr t'" "distinct (map pub_cidr rows)"
  shows "tbl_get pub_cidr t' k = (case find (\<lambda>r. pub_cidr r = k) rows of
      None \<Rightarrow> None
    | Some r \<Rightarrow> Some (case tbl_get pub_cidr t k of
        Some x \<Rightarrow> pub_merge x (pub_row_of now r) | None \<Rightarrow> pub_row_of now r))"
proof -
  have d: "distinct (map pub_cidr (map (pub_row_of now) rows))" using assms(2) by (simp add: comp_def)
  have t': "t' = tbl_delete (\<lambda>x. pub_cidr x \<notin> set (map pub_cidr rows))
      (foldl (tbl_upsert pub_cidr pub_merge) t (map (pub_row_of now) rows))"
    using assms(1) by (auto simp: ReplacePublishedRoutes_def split: if_splits)
  have f: "find (\<lambda>v. pub_cidr v = k) (map (pub_row_of now) rows) =
      map_option (pub_row_of now) (find (\<lambda>r. pub_cidr r = k) rows)" by (induction rows) auto
  show ?thesis
  proof (cases "find (\<lambda>r. pub_cidr r = k) rows")
    case None
    then have "k \<notin> set (map pub_cidr rows)" by (auto simp: find_None_iff)
    with None show ?thesis by (simp only: t' tbl_get_tbl_delete) simp
  next
    case (Some r)
    then have "k \<in> set (map pub_cidr rows)" using find_SomeD by fastforce
    then show ?thesis by (simp only: t' tbl_get_tbl_delete pub.get_fold[OF d] f Some) simp
  qed
qed

lemma replace_unique:
  assumes "ReplacePublishedRoutes now rows t = Inr t'" "unique_key pub_cidr t"
  shows "unique_key pub_cidr t'"
proof -
  have "unique_key pub_cidr (foldl (tbl_upsert pub_cidr pub_merge) t rs)" for rs
    by (rule pub.fold_preserves) (use assms(2) unique_key_upsert[of pub_cidr _ pub_merge] in auto)
  then show ?thesis using assms(1)
    by (auto simp: ReplacePublishedRoutes_def unique_key_delete split: if_splits)
qed

text \<open>What a rewrite leaves: exactly the given prefixes, each with the state it was given.\<close>

lemma replace_rows:
  assumes "ReplacePublishedRoutes now rows t = Inr t'" "unique_key pub_cidr t"
  shows "pub_cidr ` set t' = pub_cidr ` set rows"
    and "x \<in> set t' \<Longrightarrow> \<exists>r\<in>set rows. pub_cidr r = pub_cidr x \<and> pub_state r = pub_state x"
proof -
  let ?f = "foldl (tbl_upsert pub_cidr pub_merge) t (map (pub_row_of now) rows)"
  have t': "t' = tbl_delete (\<lambda>x. pub_cidr x \<notin> set (map pub_cidr rows)) ?f"
    using assms(1) by (auto simp: ReplacePublishedRoutes_def split: if_splits)
  have keys: "pub_cidr ` set ?f = pub_cidr ` set t \<union> pub_cidr ` set rows"
    by (simp add: keys_fold_upsert image_image)
  have mem: "x \<in> set t' \<longleftrightarrow> x \<in> set ?f \<and> pub_cidr x \<in> pub_cidr ` set rows" for x
    by (simp add: t' tbl_delete_def)
  show "pub_cidr ` set t' = pub_cidr ` set rows"
  proof
    show "pub_cidr ` set rows \<subseteq> pub_cidr ` set t'"
    proof
      fix c assume c: "c \<in> pub_cidr ` set rows"
      with keys have "c \<in> pub_cidr ` set ?f" by blast
      then obtain y where y: "y \<in> set ?f" "pub_cidr y = c" by blast
      with c mem[of y] have "y \<in> set t'" by simp
      then show "c \<in> pub_cidr ` set t'" using y(2) by (rule rev_image_eqI[OF _ sym])
    qed
  qed (use mem in auto)
  assume "x \<in> set t'"
  then have x: "x \<in> set ?f" "pub_cidr x \<in> pub_cidr ` set rows" using mem by auto
  have u: "unique_key pub_cidr ?f"
    by (rule pub.fold_preserves) (use assms(2) unique_key_upsert[of pub_cidr _ pub_merge] in auto)
  from tbl_get_in[OF u x(1)] have g: "tbl_get pub_cidr ?f (pub_cidr x) = Some x" .
  have "pub_cidr x \<in> pub_cidr ` set (map (pub_row_of now) rows)" using x(2) by (simp add: image_image)
  from pub.get_fold_written[OF this g] obtain v old where v: "v \<in> set (map (pub_row_of now) rows)"
    "pub_cidr v = pub_cidr x" "x = (case old of None \<Rightarrow> v | Some y \<Rightarrow> pub_merge y v)"
    by (elim exE conjE, intro that)
  from v(1) obtain r where r: "r \<in> set rows" "v = pub_row_of now r" by auto
  have "pub_state x = pub_state v" using v(3) by (cases old) (simp_all add: pub_merge_def)
  then have "pub_cidr r = pub_cidr x \<and> pub_state r = pub_state x" using v(2) r(2) by simp
  then show "\<exists>r\<in>set rows. pub_cidr r = pub_cidr x \<and> pub_state r = pub_state x" using r(1) by (rule bexI)
qed

end
