(* ===== verification/Reconcile.thy ===== *)
theory Reconcile
  imports PublishedStore Driver
begin

text \<open>
  \<open>internal/reconcile/reconcile.go\<close>: one pass of the apply loop.  The drivers and everything
  outside the process act on a world \<open>'w\<close>; the database tables the pass writes and the bus are
  part of the reconciler's state.  What the pass reads from its surroundings (the context, the
  loaded snapshot, clocks, failing writes) is an environment argument.
\<close>

record ('w, 'p) drv =
  dr_component :: component
  dr_plan :: "'w \<Rightarrow> artifacts option \<Rightarrow> artifacts \<Rightarrow> 'w \<times> 'p plan result"
  dr_apply :: "'w \<Rightarrow> 'p plan \<Rightarrow> artifacts \<Rightarrow> 'w \<times> string option"
  dr_health :: "'w \<Rightarrow> component_health"

text \<open>Events on the bus, with the fields of their payloads.\<close>

datatype 'p bus_event =
    ApplyStarted int
  | ApplyFinished int "'p plan list" "string list" int
  | ApplyFailed int string int
  | ComponentHealth "component_health list"

record 'p status =
  rc_applying :: bool
  rc_applied_gen :: int
  rc_last_attempt :: time
  rc_last_success :: time
  rc_last_error :: string
  rc_components :: "component_health list"
  rc_warnings :: "string list"
  rc_last_plans :: "'p plan list"

record ('w, 'p) reconciler =
  rc_status :: "'p status"
  rc_last_good :: "component \<Rightarrow> artifacts option"
  rc_backoff :: duration
  rc_retry_at :: time
  rc_max_backoff :: duration
  rc_world :: 'w
  rc_db_applied :: int
  rc_apply_log :: "(int \<times> component \<times> string \<times> bool \<times> int \<times> string) list"
  rc_db_events :: "(event_level \<times> string \<times> string \<times> string) list"
  rc_published :: "pub_row list"
  rc_bus :: "'p bus_event list"

text \<open>
  \<open>pe_took\<close> is the duration of the apply of a component in milliseconds; \<open>pe_elapsed\<close> and
  \<open>pe_elapsed_text\<close> are the duration of the pass as the event and the message show it.
\<close>

record pass_env =
  pe_ctx_err :: "string option"
  pe_load :: "snapshot result"
  pe_render :: "snapshot \<Rightarrow> artifacts result"
  pe_start :: time
  pe_end :: time
  pe_took :: "component \<Rightarrow> int"
  pe_elapsed :: int
  pe_elapsed_text :: string
  pe_set_applied_err :: "string option"

definition New :: "('w, 'p) drv list \<Rightarrow> 'w \<Rightarrow> ('w, 'p) reconciler" where
  "New ds w = \<lparr>rc_status = \<lparr>rc_applying = False, rc_applied_gen = 0, rc_last_attempt = zero_time,
       rc_last_success = zero_time, rc_last_error = [],
       rc_components = map (\<lambda>d. \<lparr>h_name = dr_component d, h_status = StatusUnknown, h_version = [],
         h_last_error = [], h_last_apply = None\<rparr>) ds,
       rc_warnings = [], rc_last_plans = []\<rparr>,
     rc_last_good = (\<lambda>_. None), rc_backoff = 0, rc_retry_at = zero_time, rc_max_backoff = 60 * second,
     rc_world = w, rc_db_applied = 0, rc_apply_log = [], rc_db_events = [], rc_published = [], rc_bus = []\<rparr>"

definition setGood :: "component \<Rightarrow> artifacts \<Rightarrow> ('w, 'p) reconciler \<Rightarrow> ('w, 'p) reconciler" where
  "setGood c arts r = r\<lparr>rc_last_good := (rc_last_good r)(c := Some arts)\<rparr>"

definition RecordApply ::
  "int \<times> component \<times> string \<times> bool \<times> int \<times> string \<Rightarrow> ('w, 'p) reconciler \<Rightarrow> ('w, 'p) reconciler" where
  "RecordApply e r = r\<lparr>rc_apply_log := rc_apply_log r @ [e]\<rparr>"

definition publish_event :: "'p bus_event \<Rightarrow> ('w, 'p) reconciler \<Rightarrow> ('w, 'p) reconciler" where
  "publish_event e r = r\<lparr>rc_bus := rc_bus r @ [e]\<rparr>"

definition next_backoff :: "duration \<Rightarrow> duration \<Rightarrow> duration" where
  "next_backoff limit b = (if b = 0 then second else if b * 2 > limit then limit else b * 2)"

text \<open>\<open>fail\<close>: back off, remember the error, record and publish it; returns the error.\<close>

definition fail :: "time \<Rightarrow> int \<Rightarrow> string \<Rightarrow> 'p plan list option \<Rightarrow> ('w, 'p) reconciler
    \<Rightarrow> ('w, 'p) reconciler \<times> string option" where
  "fail now gen err plans r =
     (let b = next_backoff (rc_max_backoff r) (rc_backoff r);
          r1 = r\<lparr>rc_backoff := b, rc_retry_at := now + b,
                rc_status := (rc_status r)\<lparr>rc_last_error := err,
                  rc_last_plans := (case plans of Some ps \<Rightarrow> ps | None \<Rightarrow> rc_last_plans (rc_status r))\<rparr>,
                rc_db_events := rc_db_events r @ [(LevelError, ''apply.failed'',
                  ''generation '' @ int_string gen @ '': '' @ err,
                  ''{\"retry_in_s\":'' @ int_string (b div second) @ ''}'')]\<rparr>
      in (publish_event (ApplyFailed gen err (b div second)) r1, Some err))"

text \<open>One driver of the pass; the accumulator holds the reconciler, the plans and the errors.\<close>

definition noop_plan :: "component \<Rightarrow> string \<Rightarrow> 'p plan" where
  "noop_plan c detail = \<lparr>pl_component = c,
     pl_actions = [\<lparr>da_kind = ActionNoop, da_detail = detail\<rparr>], pl_diff = [], pl_state = None\<rparr>"

definition drive :: "pass_env \<Rightarrow> artifacts \<Rightarrow> int
    \<Rightarrow> ('w, 'p) reconciler \<times> 'p plan list \<times> string list \<Rightarrow> ('w, 'p) drv
    \<Rightarrow> ('w, 'p) reconciler \<times> 'p plan list \<times> string list" where
  "drive env arts gen acc d =
     (let (r, plans, errs) = acc; c = dr_component d in
      case dr_plan d (rc_world r) (rc_last_good r c) arts of
        (w, Inl perr) \<Rightarrow>
          (RecordApply (gen, c, ''plan'', False, 0, perr) (r\<lparr>rc_world := w\<rparr>),
           plans @ [noop_plan c (''plan failed: '' @ perr)],
           errs @ [component_string c @ '': plan: '' @ perr])
      | (w, Inr plan) \<Rightarrow>
          if \<not> Changes plan then (setGood c arts (r\<lparr>rc_world := w\<rparr>), plans @ [plan], errs)
          else (case dr_apply d w plan arts of
                  (w', Some aerr) \<Rightarrow>
                    (RecordApply (gen, c, Summary plan, False, pe_took env c, aerr) (r\<lparr>rc_world := w'\<rparr>),
                     plans @ [plan], errs @ [component_string c @ '': '' @ aerr])
                | (w', None) \<Rightarrow>
                    (RecordApply (gen, c, Summary plan, True, pe_took env c, [])
                       (setGood c arts (r\<lparr>rc_world := w'\<rparr>)), plans @ [plan], errs)))"

definition frr_ok :: "component_health list \<Rightarrow> bool" where
  "frr_ok hs \<longleftrightarrow> \<not> (\<exists>h\<in>set hs. h_name h = ComponentFRR \<and>
     (h_status h = StatusDegraded \<or> h_status h = StatusDown))"

text \<open>\<open>persistRoutes\<close>; a failure is only logged.\<close>

definition claim_row :: "bool \<Rightarrow> published_route \<Rightarrow> published_route" where
  "claim_row claim row =
     (if pub_state row = StatePending \<and> claim then row\<lparr>pub_state := StatePublished\<rparr> else row)"

definition persist_rows :: "artifacts \<Rightarrow> bool \<Rightarrow> published_route list" where
  "persist_rows arts claim = map (claim_row claim) (ToPublished (a_routes arts) (a_route_rejected arts))"

definition persistRoutes :: "time \<Rightarrow> ('w, 'p) drv list \<Rightarrow> artifacts \<Rightarrow> bool
    \<Rightarrow> ('w, 'p) reconciler \<Rightarrow> ('w, 'p) reconciler" where
  "persistRoutes now ds arts frr_fine r =
     (case ReplacePublishedRoutes now (persist_rows arts (frr_fine \<and> ds \<noteq> [])) (rc_published r) of
        Inr t \<Rightarrow> r\<lparr>rc_published := t\<rparr> | Inl _ \<Rightarrow> r)"

text \<open>The part of the pass after the drivers have run.\<close>

definition report :: "pass_env \<Rightarrow> ('w, 'p) drv list \<Rightarrow> artifacts \<Rightarrow> 'p plan list
    \<Rightarrow> ('w, 'p) reconciler \<Rightarrow> ('w, 'p) reconciler" where
  "report env ds arts plans r =
     (let health = map (\<lambda>d. dr_health d (rc_world r)) ds;
          r1 = persistRoutes (pe_end env) ds arts (frr_ok health) r
      in publish_event (ComponentHealth health)
           (r1\<lparr>rc_status := (rc_status r1)\<lparr>rc_components := health, rc_warnings := a_warnings arts,
              rc_last_plans := plans\<rparr>\<rparr>))"

definition succeed :: "pass_env \<Rightarrow> artifacts \<Rightarrow> int \<Rightarrow> 'p plan list
    \<Rightarrow> ('w, 'p) reconciler \<Rightarrow> ('w, 'p) reconciler" where
  "succeed env arts gen plans r =
     (let r1 = r\<lparr>rc_db_applied := gen,
             rc_status := (rc_status r)\<lparr>rc_applied_gen := gen, rc_last_success := pe_end env, rc_last_error := []\<rparr>,
             rc_backoff := 0, rc_retry_at := zero_time\<rparr>;
          changed = int (length (filter Changes plans));
          r2 = (if changed > 0 then r1\<lparr>rc_db_events := rc_db_events r1 @ [(LevelInfo, ''apply.finished'',
                  ''generation '' @ int_string gen @ '' applied to '' @ int_string changed @
                  '' component(s) in '' @ pe_elapsed_text env, ''{}'')]\<rparr> else r1)
      in publish_event (ApplyFinished gen plans (a_warnings arts) (pe_elapsed env)) r2)"

definition set_applying :: "bool \<Rightarrow> ('w, 'p) reconciler \<Rightarrow> ('w, 'p) reconciler" where
  "set_applying b r = r\<lparr>rc_status := (rc_status r)\<lparr>rc_applying := b\<rparr>\<rparr>"

definition pass_body :: "pass_env \<Rightarrow> ('w, 'p) drv list \<Rightarrow> ('w, 'p) reconciler
    \<Rightarrow> ('w, 'p) reconciler \<times> string option" where
  "pass_body env ds r =
     (case pe_load env of
        Inl e \<Rightarrow> fail (pe_end env) 0 (''load desired state: '' @ e) None r
      | Inr snap \<Rightarrow>
          (let gen = s_generation snap in
           case pe_render env snap of
             Inl e \<Rightarrow> fail (pe_end env) gen (''render: '' @ e) None r
           | Inr arts \<Rightarrow>
               (let (r1, plans, errs) = foldl (drive env arts gen) (publish_event (ApplyStarted gen) r, [], []) ds;
                    r2 = report env ds arts plans r1
                in if errs \<noteq> [] then fail (pe_end env) gen (join_with [CHR 0x0A] errs) (Some plans) r2
                   else (case pe_set_applied_err env of
                           Some e \<Rightarrow> fail (pe_end env) gen (''record applied generation: '' @ e) (Some plans) r2
                         | None \<Rightarrow> (succeed env arts gen plans r2, None)))))"

definition pass :: "pass_env \<Rightarrow> ('w, 'p) drv list \<Rightarrow> ('w, 'p) reconciler
    \<Rightarrow> ('w, 'p) reconciler \<times> string option" where
  "pass env ds r =
     (case pe_ctx_err env of
        Some e \<Rightarrow> (r, Some e)
      | None \<Rightarrow>
          (let r1 = set_applying True (r\<lparr>rc_status := (rc_status r)\<lparr>rc_last_attempt := pe_start env\<rparr>\<rparr>);
               (r2, err) = pass_body env ds r1
           in (set_applying False r2, err)))"

text \<open>\<open>PlanOnly\<close>: the plans for the current desired state, nothing applied.\<close>

fun plan_each :: "('w, 'p) drv list \<Rightarrow> (component \<Rightarrow> artifacts option) \<Rightarrow> artifacts \<Rightarrow> 'w \<Rightarrow> 'w \<times> 'p plan list" where
  "plan_each [] good arts w = (w, [])"
| "plan_each (d # ds) good arts w =
     (let (w1, res) = dr_plan d w (good (dr_component d)) arts;
          p = (case res of Inr p \<Rightarrow> p | Inl e \<Rightarrow> noop_plan (dr_component d) (''plan error: '' @ e));
          (w2, ps) = plan_each ds good arts w1
      in (w2, p # ps))"

definition PlanOnly :: "pass_env \<Rightarrow> ('w, 'p) drv list \<Rightarrow> ('w, 'p) reconciler
    \<Rightarrow> 'w \<times> ('p plan list \<times> artifacts) result" where
  "PlanOnly env ds r =
     (case pe_load env of
        Inl e \<Rightarrow> (rc_world r, Inl e)
      | Inr snap \<Rightarrow>
          (case pe_render env snap of
             Inl e \<Rightarrow> (rc_world r, Inl e)
           | Inr arts \<Rightarrow> (let (w, ps) = plan_each ds (rc_last_good r) arts (rc_world r) in (w, Inr (ps, arts)))))"

end
