(* ===== verification/ReconcileProps.thy ===== *)
theory ReconcileProps
  imports Reconcile KernelProps
begin

text \<open>
  The reconciler: what a pass guarantees about the components, the recorded generation, the
  published rows and the retry delay.  The \<open>Driver\<close> interface is the locale
  \<open>component_driver\<close>; the kernel route driver is an instance of it.
\<close>

subsection \<open>One driver\<close>

text \<open>What driving a component leaves alone, and the four ways it can go.\<close>

definition drive_frame :: "('w, 'p) reconciler \<Rightarrow> ('w, 'p) reconciler \<Rightarrow> bool" where
  "drive_frame r r' \<longleftrightarrow> rc_status r' = rc_status r \<and> rc_backoff r' = rc_backoff r \<and>
     rc_retry_at r' = rc_retry_at r \<and> rc_max_backoff r' = rc_max_backoff r \<and>
     rc_db_applied r' = rc_db_applied r \<and> rc_published r' = rc_published r"

lemma drive_frame_refl: "drive_frame r r"
  by (simp add: drive_frame_def)

lemma drive_frame_trans: "drive_frame r r' \<Longrightarrow> drive_frame r' r'' \<Longrightarrow> drive_frame r r''"
  by (simp add: drive_frame_def)

lemma frame_RecordApply [simp]: "drive_frame r (RecordApply e r') \<longleftrightarrow> drive_frame r r'"
  "rc_world (RecordApply e r') = rc_world r'" "rc_last_good (RecordApply e r') = rc_last_good r'"
  by (simp_all add: drive_frame_def RecordApply_def)

lemma frame_setGood [simp]: "drive_frame r (setGood c a r') \<longleftrightarrow> drive_frame r r'"
  "rc_world (setGood c a r') = rc_world r'" "rc_last_good (setGood c a r') = (rc_last_good r')(c := Some a)"
  by (simp_all add: drive_frame_def setGood_def)

lemma frame_world [simp]: "drive_frame r (r\<lparr>rc_world := w\<rparr>)"
  by (simp add: drive_frame_def)

lemma drive_cases:
  assumes "drive env arts gen (r, ps, es) d = (r', ps', es')"
  obtains (plan_error) e msg where "dr_plan d (rc_world r) (rc_last_good r (dr_component d)) arts = (rc_world r', Inl e)"
      "es' = es @ [msg]" "rc_last_good r' = rc_last_good r" "length ps' = Suc (length ps)" "drive_frame r r'"
  | (noop) p where "dr_plan d (rc_world r) (rc_last_good r (dr_component d)) arts = (rc_world r', Inr p)"
      "\<not> Changes p" "es' = es" "rc_last_good r' = (rc_last_good r)(dr_component d := Some arts)"
      "length ps' = Suc (length ps)" "drive_frame r r'"
  | (apply_error) w p e msg where "dr_plan d (rc_world r) (rc_last_good r (dr_component d)) arts = (w, Inr p)"
      "Changes p" "dr_apply d w p arts = (rc_world r', Some e)" "es' = es @ [msg]"
      "rc_last_good r' = rc_last_good r" "length ps' = Suc (length ps)" "drive_frame r r'"
  | (applied) w p where "dr_plan d (rc_world r) (rc_last_good r (dr_component d)) arts = (w, Inr p)"
      "Changes p" "dr_apply d w p arts = (rc_world r', None)" "es' = es"
      "rc_last_good r' = (rc_last_good r)(dr_component d := Some arts)" "length ps' = Suc (length ps)"
      "drive_frame r r'"
proof -
  obtain w res where plan: "dr_plan d (rc_world r) (rc_last_good r (dr_component d)) arts = (w, res)" by fastforce
  show ?thesis
  proof (cases res)
    case (Inl e)
    show ?thesis using assms plan Inl
      by (intro plan_error[of e "component_string (dr_component d) @ '': plan: '' @ e"])
        (auto simp: drive_def Let_def)
  next
    case (Inr p)
    show ?thesis
    proof (cases "Changes p")
      case False
      show ?thesis using assms plan Inr False by (intro noop[of p]) (auto simp: drive_def Let_def)
    next
      case True
      obtain w' err where ap: "dr_apply d w p arts = (w', err)" by fastforce
      show ?thesis
      proof (cases err)
        case (Some e)
        show ?thesis using assms plan Inr True ap Some
          by (intro apply_error[of w p e "component_string (dr_component d) @ '': '' @ e"])
            (auto simp: drive_def Let_def)
      next
        case None
        show ?thesis using assms plan Inr True ap None
          by (intro applied[of w p]) (auto simp: drive_def Let_def)
      qed
    qed
  qed
qed

subsection \<open>The contract of a driver\<close>

text \<open>
  \<open>needs\<close> is what the driver needs of the world; \<open>sync w arts\<close> says that the component holds
  what the artifacts ask for.  Plan changes neither; a plan without changes is only returned
  when the component is in sync; an error-free apply brings it in sync.
\<close>

locale component_driver =
  fixes D :: "('w, 'p) drv"
    and needs :: "'w \<Rightarrow> bool"
    and sync :: "'w \<Rightarrow> artifacts \<Rightarrow> bool"
  assumes plan_needs: "needs w \<Longrightarrow> dr_plan D w prev arts = (w', res) \<Longrightarrow> needs w'"
    and apply_needs: "needs w \<Longrightarrow> dr_plan D w prev arts = (w1, Inr p) \<Longrightarrow>
      dr_apply D w1 p arts = (w2, err) \<Longrightarrow> needs w2"
    and noop_sync: "needs w \<Longrightarrow> dr_plan D w prev arts = (w', Inr p) \<Longrightarrow> \<not> Changes p \<Longrightarrow> sync w' arts"
    and apply_sync: "needs w \<Longrightarrow> dr_plan D w prev arts = (w1, Inr p) \<Longrightarrow> Changes p \<Longrightarrow>
      dr_apply D w1 p arts = (w2, None) \<Longrightarrow> sync w2 arts"
begin

lemma drive_inv:
  assumes "needs (rc_world r)" "drive env arts gen (r, ps, es) D = (r', ps', es')"
  shows "needs (rc_world r')"
  using assms(2) by (cases rule: drive_cases) (use assms(1) plan_needs apply_needs in blast)+

lemma drive_sync:
  assumes "needs (rc_world r)" "drive env arts gen (r, ps, es) D = (r', ps', es')" "es' = es"
  shows "sync (rc_world r') arts \<and> rc_last_good r' (dr_component D) = Some arts"
  using assms(2)
proof (cases rule: drive_cases)
  case (noop p)
  with noop_sync[OF assms(1) noop(1,2)] show ?thesis by simp
next
  case (applied w p)
  with apply_sync[OF assms(1) applied(1-3)] show ?thesis by simp
qed (use assms(3) in simp_all)

end

text \<open>The kernel route driver as a driver of the reconciler, and its contract.\<close>

definition route_drv :: "time \<Rightarrow> ('k route_driver \<times> 'k, plan_state) drv" where
  "route_drv now = \<lparr>dr_component = ComponentFRR,
     dr_plan = (\<lambda>w prev arts. (w, route_Plan (fst w) (snd w) arts)),
     dr_apply = (\<lambda>w plan arts. case route_Apply now (fst w) (snd w) plan of (d, k, e) \<Rightarrow> ((d, k), e)),
     dr_health = (\<lambda>w. route_Health (fst w))\<rparr>"

text \<open>In sync means that the table holds the wanted prefixes, if the kernel can hold them.\<close>

definition route_sync :: "('k \<Rightarrow> int \<Rightarrow> prefix set) \<Rightarrow> (prefix \<Rightarrow> bool) \<Rightarrow> 'k route_driver \<times> 'k \<Rightarrow> artifacts \<Rightarrow> bool" where
  "route_sync table legal w arts \<longleftrightarrow> (\<forall>p\<in>wanted arts. legal p) \<longrightarrow> table (snd w) RouteTable = wanted arts"

context kernel
begin

lemma apply_state_drives:
  assumes "drives d" "apply_state d k st = (d', k', r)"
  shows "drives d'"
  using assms by (auto simp: apply_state_def drives_def Let_def split: prod.splits option.splits sum.splits)

lemma route_Apply_drives:
  assumes d: "drives d" and ap: "route_Apply now d k plan = (d', k', r)"
  shows "drives d'"
proof (cases "pl_state plan")
  case None
  then show ?thesis using assms by (auto simp: route_Apply_None started_def drives_def)
next
  case (Some st)
  obtain d2 k2 r2 where a: "apply_state (started now d) (after_cleanup d k) st = (d2, k2, r2)"
    by (metis prod_cases3)
  have "drives (started now d)" using d by (simp add: started_def drives_def)
  from apply_state_drives[OF this a] ap route_Apply_Some[OF Some a] show ?thesis by (auto simp: drives_def)
qed

lemma route_component: "component_driver (route_drv now) (\<lambda>w. drives (fst w)) (route_sync table legal)"
proof unfold_locales
  fix w :: "'k route_driver \<times> 'k" and prev arts w' res w1 w2 p err
  assume needs: "drives (fst w)"
  show "dr_plan (route_drv now) w prev arts = (w', res) \<Longrightarrow> drives (fst w')"
    using needs by (simp add: route_drv_def)
  show "dr_plan (route_drv now) w prev arts = (w1, Inr p) \<Longrightarrow>
      dr_apply (route_drv now) w1 p arts = (w2, err) \<Longrightarrow> drives (fst w2)"
    using needs route_Apply_drives by (auto simp: route_drv_def split: prod.splits)
  show "dr_plan (route_drv now) w prev arts = (w', Inr p) \<Longrightarrow> \<not> Changes p \<Longrightarrow> route_sync table legal w' arts"
  proof -
    assume a: "dr_plan (route_drv now) w prev arts = (w', Inr p)" "\<not> Changes p"
    then have plan: "route_Plan (fst w) (snd w) arts = Inr p" and w: "w' = w" by (auto simp: route_drv_def)
    from plan show ?thesis
    proof (cases rule: route_Plan_cases)
      case (noop cur)
      with needs list_table w show ?thesis by (auto simp: route_sync_def drives_def)
    qed (use a in simp)
  qed
  show "dr_plan (route_drv now) w prev arts = (w1, Inr p) \<Longrightarrow> Changes p \<Longrightarrow>
      dr_apply (route_drv now) w1 p arts = (w2, None) \<Longrightarrow> route_sync table legal w2 arts"
    using needs converge[of "fst w" "snd w" arts p now "fst w2" "snd w2" None]
    by (auto simp: route_drv_def route_sync_def split: prod.splits)
qed

end

sublocale kernel \<subseteq> route: component_driver "route_drv now" "\<lambda>w. drives (fst w)" "route_sync table legal"
  for now
  by (rule route_component)

text \<open>The route driver on the in-memory kernel meets the contract of a component.\<close>

interpretation fake_route: component_driver "route_drv now"
  "\<lambda>w. kernel.drives fake_ops (sleepCtx ctx) (fst w)" "route_sync fake_table (\<lambda>_. True)"
  for now :: time and ctx :: "string option"
  by (rule fake.route_component)

subsection \<open>A fleet of drivers\<close>





lemma drive_errs:
  assumes "drive env arts gen (r, ps, es) d = (r', ps', es')"
  shows "es' = es \<or> (\<exists>msg. es' = es @ [msg])" "length ps' = Suc (length ps)" "drive_frame r r'"
  using assms by (cases rule: drive_cases; simp)+


subsection \<open>A pass\<close>

lemma set_applying_simps [simp]:
  "rc_world (set_applying b r) = rc_world r" "rc_db_applied (set_applying b r) = rc_db_applied r"
  "rc_backoff (set_applying b r) = rc_backoff r" "rc_retry_at (set_applying b r) = rc_retry_at r"
  "rc_max_backoff (set_applying b r) = rc_max_backoff r" "rc_published (set_applying b r) = rc_published r"
  "rc_last_good (set_applying b r) = rc_last_good r"
  "rc_applied_gen (rc_status (set_applying b r)) = rc_applied_gen (rc_status r)"
  by (simp_all add: set_applying_def)

lemma publish_event_simps [simp]:
  "rc_world (publish_event e r) = rc_world r" "rc_db_applied (publish_event e r) = rc_db_applied r"
  "rc_backoff (publish_event e r) = rc_backoff r" "rc_retry_at (publish_event e r) = rc_retry_at r"
  "rc_max_backoff (publish_event e r) = rc_max_backoff r" "rc_published (publish_event e r) = rc_published r"
  "rc_last_good (publish_event e r) = rc_last_good r" "rc_status (publish_event e r) = rc_status r"
  by (simp_all add: publish_event_def)

lemma persistRoutes_simps [simp]:
  "rc_world (persistRoutes now ds arts b r) = rc_world r"
  "rc_db_applied (persistRoutes now ds arts b r) = rc_db_applied r"
  "rc_backoff (persistRoutes now ds arts b r) = rc_backoff r"
  "rc_retry_at (persistRoutes now ds arts b r) = rc_retry_at r"
  "rc_max_backoff (persistRoutes now ds arts b r) = rc_max_backoff r"
  "rc_last_good (persistRoutes now ds arts b r) = rc_last_good r"
  "rc_status (persistRoutes now ds arts b r) = rc_status r"
  by (simp_all add: persistRoutes_def split: sum.split)

lemma report_simps [simp]:
  "rc_world (report env ds arts ps r) = rc_world r" "rc_db_applied (report env ds arts ps r) = rc_db_applied r"
  "rc_backoff (report env ds arts ps r) = rc_backoff r" "rc_retry_at (report env ds arts ps r) = rc_retry_at r"
  "rc_max_backoff (report env ds arts ps r) = rc_max_backoff r"
  "rc_last_good (report env ds arts ps r) = rc_last_good r"
  "rc_applied_gen (rc_status (report env ds arts ps r)) = rc_applied_gen (rc_status r)"
  by (simp_all add: report_def Let_def)

lemma fail_simps:
  assumes "fail now gen err ps r = (r', e)"
  shows "e = Some err" "rc_world r' = rc_world r" "rc_db_applied r' = rc_db_applied r"
    "rc_backoff r' = next_backoff (rc_max_backoff r) (rc_backoff r)"
    "rc_retry_at r' = now + next_backoff (rc_max_backoff r) (rc_backoff r)"
    "rc_max_backoff r' = rc_max_backoff r" "rc_published r' = rc_published r"
    "rc_last_good r' = rc_last_good r"
    "rc_applied_gen (rc_status r') = rc_applied_gen (rc_status r)"
  using assms by (auto simp: fail_def Let_def)

lemma succeed_simps [simp]:
  "rc_world (succeed env arts gen ps r) = rc_world r" "rc_db_applied (succeed env arts gen ps r) = gen"
  "rc_backoff (succeed env arts gen ps r) = 0" "rc_retry_at (succeed env arts gen ps r) = zero_time"
  "rc_max_backoff (succeed env arts gen ps r) = rc_max_backoff r"
  "rc_published (succeed env arts gen ps r) = rc_published r"
  "rc_last_good (succeed env arts gen ps r) = rc_last_good r"
  "rc_applied_gen (rc_status (succeed env arts gen ps r)) = gen"
  by (simp_all add: succeed_def Let_def publish_event_def)

definition started_pass :: "pass_env \<Rightarrow> ('w, 'p) reconciler \<Rightarrow> ('w, 'p) reconciler" where
  "started_pass env r = set_applying True (r\<lparr>rc_status := (rc_status r)\<lparr>rc_last_attempt := pe_start env\<rparr>\<rparr>)"

lemma started_pass_simps [simp]:
  "rc_world (started_pass env r) = rc_world r" "rc_db_applied (started_pass env r) = rc_db_applied r"
  "rc_backoff (started_pass env r) = rc_backoff r" "rc_retry_at (started_pass env r) = rc_retry_at r"
  "rc_max_backoff (started_pass env r) = rc_max_backoff r" "rc_published (started_pass env r) = rc_published r"
  "rc_last_good (started_pass env r) = rc_last_good r"
  "rc_applied_gen (rc_status (started_pass env r)) = rc_applied_gen (rc_status r)"
  by (simp_all add: started_pass_def)

text \<open>The ways a pass can go, with what each leaves behind.\<close>

definition backed_off :: "time \<Rightarrow> ('w, 'p) reconciler \<Rightarrow> ('w, 'p) reconciler \<Rightarrow> bool" where
  "backed_off now r r' \<longleftrightarrow> rc_backoff r' = next_backoff (rc_max_backoff r) (rc_backoff r) \<and>
     rc_retry_at r' = now + rc_backoff r' \<and> rc_max_backoff r' = rc_max_backoff r \<and>
     rc_db_applied r' = rc_db_applied r \<and> rc_applied_gen (rc_status r') = rc_applied_gen (rc_status r)"

lemma pass_cases:
  assumes "pass env ds r = (r', err)"
  obtains (cancelled) e where "pe_ctx_err env = Some e" "r' = r" "err = Some e"
  | (not_ready) e where "pe_ctx_err env = None" "err = Some e" "backed_off (pe_end env) r r'"
      "rc_world r' = rc_world r" "rc_last_good r' = rc_last_good r" "rc_published r' = rc_published r"
      "\<And>snap arts. pe_load env = Inr snap \<Longrightarrow> pe_render env snap \<noteq> Inr arts"
  | (driven) snap arts r1 ps es where "pe_ctx_err env = None" "pe_load env = Inr snap"
      "pe_render env snap = Inr arts"
      "foldl (drive env arts (s_generation snap))
         (publish_event (ApplyStarted (s_generation snap)) (started_pass env r), [], []) ds = (r1, ps, es)"
      "rc_world r' = rc_world r1" "rc_last_good r' = rc_last_good r1"
      "rc_published r' = rc_published (report env ds arts ps r1)"
      "(err = None \<and> es = [] \<and> rc_db_applied r' = s_generation snap \<and>
          rc_applied_gen (rc_status r') = s_generation snap \<and> rc_backoff r' = 0 \<and> rc_retry_at r' = zero_time \<and>
          rc_max_backoff r' = rc_max_backoff r1)
       \<or> (err \<noteq> None \<and> (es \<noteq> [] \<or> pe_set_applied_err env \<noteq> None) \<and> backed_off (pe_end env) r1 r')"
proof (cases "pe_ctx_err env")
  case (Some e)
  with assms show ?thesis by (intro cancelled[of e]) (auto simp: pass_def)
next
  case None
  obtain r2 where body: "pass_body env ds (started_pass env r) = (r2, err)" and r': "r' = set_applying False r2"
    using assms None by (auto simp: pass_def Let_def started_pass_def split: prod.splits)
  have early: ?thesis if "fail (pe_end env) g m None (started_pass env r) = (r2, err)"
    "\<And>snap arts. pe_load env = Inr snap \<Longrightarrow> pe_render env snap \<noteq> Inr arts" for g m
    using not_ready[OF None, of m] fail_simps[OF that(1)] that(2) r' by (simp add: backed_off_def)
  show ?thesis
  proof (cases "pe_load env")
    case (Inl e)
    with body have f: "fail (pe_end env) 0 (''load desired state: '' @ e) None (started_pass env r) = (r2, err)"
      by (simp add: pass_body_def)
    show ?thesis by (rule early[OF f]) (simp add: Inl)
  next
    case (Inr snap)
    show ?thesis
    proof (cases "pe_render env snap")
      case (Inl e)
      with body Inr have f: "fail (pe_end env) (s_generation snap) (''render: '' @ e) None (started_pass env r) = (r2, err)"
        by (simp add: pass_body_def Let_def)
      show ?thesis by (rule early[OF f]) (use Inl Inr in simp)
    next
      case arts: (Inr arts)
      obtain r1 ps es where fold: "foldl (drive env arts (s_generation snap))
         (publish_event (ApplyStarted (s_generation snap)) (started_pass env r), [], []) ds = (r1, ps, es)"
        by (metis prod_cases3)
      note d = driven[OF None Inr arts fold]
      show ?thesis
      proof (cases "es = [] \<and> pe_set_applied_err env = None")
        case True
        with body Inr arts fold have "r2 = succeed env arts (s_generation snap) ps (report env ds arts ps r1)" "err = None"
          by (simp_all add: pass_body_def Let_def)
        with d True r' show ?thesis by simp
      next
        case False
        with body Inr arts fold obtain m where
          f: "fail (pe_end env) (s_generation snap) m (Some ps) (report env ds arts ps r1) = (r2, err)"
          by (auto simp: pass_body_def Let_def split: if_splits option.splits)
        from d fail_simps[OF f] False r' show ?thesis by (simp add: backed_off_def)
      qed
    qed
  qed
qed



subsection \<open>Backoff\<close>

text \<open>A run of passes that all failed.\<close>

inductive failing :: "('w, 'p) drv list \<Rightarrow> ('w, 'p) reconciler \<Rightarrow> pass_env list \<Rightarrow> ('w, 'p) reconciler \<Rightarrow> bool"
  for ds r where
  failing_none: "failing ds r [] r"
| failing_snoc: "failing ds r envs r1 \<Longrightarrow> pe_ctx_err env = None \<Longrightarrow> pass env ds r1 = (r2, Some e) \<Longrightarrow>
    failing ds r (envs @ [env]) r2"

inductive_cases failing_snocE: "failing ds r (envs @ [env]) r2"

lemma drive_fold_frame:
  "foldl (drive env arts gen) (r, ps, es) ds = (r', ps', es') \<Longrightarrow> drive_frame r r'"
proof (induction ds arbitrary: r ps es)
  case Nil
  then show ?case by (simp add: drive_frame_refl)
next
  case (Cons d ds)
  obtain r1 ps1 es1 where d: "drive env arts gen (r, ps, es) d = (r1, ps1, es1)" by (metis prod_cases3)
  with Cons.prems have "drive_frame r1 r'" by (intro Cons.IH) simp
  with drive_errs(3)[OF d] show ?case by (rule drive_frame_trans)
qed

lemma pass_failed:
  assumes "pass env ds r = (r', Some e)" "pe_ctx_err env = None"
  shows "backed_off (pe_end env) r r'"
  using assms(1)
proof (cases rule: pass_cases)
  case (driven snap arts r1 ps es)
  have "drive_frame (publish_event (ApplyStarted (s_generation snap)) (started_pass env r)) r1"
    by (rule drive_fold_frame[OF driven(4)])
  with driven(8) show ?thesis by (auto simp: drive_frame_def backed_off_def)
qed (use assms(2) in auto)

lemma next_backoff_min:
  assumes "second \<le> L"
  shows "next_backoff L (min L (second * 2 ^ n)) = min L (second * 2 ^ Suc n)"
proof -
  have pos: "0 < second" by (simp add: second_def)
  define x where "x = second * 2 ^ n"
  have x: "0 < x" using pos by (simp add: x_def)
  have "min L x \<noteq> 0" using assms pos x by (simp add: min_def)
  then have "next_backoff L (min L x) = min L (min L x * 2)" by (simp add: next_backoff_def min_def)
  also have "\<dots> = min L (x * 2)" using assms pos by (simp add: min_def)
  finally show ?thesis by (simp add: x_def mult_ac)
qed

text \<open>
  Repeated failure backs off: after n consecutive failing passes the next one is due
  min(limit, 2^(n-1) seconds) after the last one ended, and a pass without an error clears the
  delay.
\<close>

theorem backoff_doubles:
  assumes "failing ds r envs r'" "envs \<noteq> []" "rc_backoff r = 0" "second \<le> rc_max_backoff r"
  shows "rc_backoff r' = min (rc_max_backoff r) (second * 2 ^ (length envs - 1)) \<and>
    rc_retry_at r' = pe_end (last envs) + rc_backoff r' \<and>
    (\<forall>env r''. pass env ds r' = (r'', None) \<longrightarrow> rc_backoff r'' = 0 \<and> rc_retry_at r'' = zero_time)"
proof -
  have "(envs \<noteq> [] \<longrightarrow> rc_backoff r' = min (rc_max_backoff r) (second * 2 ^ (length envs - 1)) \<and>
      rc_retry_at r' = pe_end (last envs) + rc_backoff r') \<and> rc_max_backoff r' = rc_max_backoff r \<and>
      (envs = [] \<longrightarrow> rc_backoff r' = 0)"
    using assms(1)
  proof (induction rule: failing.induct)
    case (failing_snoc envs r1 env r2 e)
    note b = pass_failed[OF failing_snoc(3,2)]
    show ?case
    proof (cases "envs = []")
      case True
      with failing_snoc.IH b assms(4) show ?thesis by (simp add: backed_off_def next_backoff_def)
    next
      case False
      then obtain n where n: "length envs = Suc n" by (cases envs) auto
      have "rc_backoff r1 = min (rc_max_backoff r) (second * 2 ^ n)"
        using failing_snoc.IH False n by simp
      then have "rc_backoff r2 = min (rc_max_backoff r) (second * 2 ^ Suc n)"
        using b failing_snoc.IH next_backoff_min[OF assms(4), of n] by (simp add: backed_off_def)
      with b n failing_snoc.IH show ?thesis by (simp add: backed_off_def)
    qed
  qed (simp add: assms(3))
  moreover have "rc_backoff r'' = 0 \<and> rc_retry_at r'' = zero_time" if "pass env ds r' = (r'', None)" for env r''
    using that by (cases rule: pass_cases) auto
  ultimately show ?thesis using assms(2) by blast
qed

subsection \<open>Published rows\<close>

lemma rejected_cases:
  assumes "r \<in> set (er_rejected (Compute s src))"
  obtains r0 where "r0 \<in> set (c_cands (collect s src))" "policy s r0 = Inl r"
    "r_source r = r_source r0" "r_state r = StateFailed \<or> r_state r = StateProtected"
proof -
  obtain r0 where r0: "r0 \<in> set (c_cands (collect s src))" "policy s r0 = Inl r"
    using assms by (auto simp: Compute_def Let_def empty_result_def set_lefts split: if_splits)
  with policy_Inl[OF r0(2)] show ?thesis by (intro that[OF r0]) auto
qed

lemma Compute_rows_ok:
  assumes "r \<in> set (er_publish (Compute s src)) \<or> r \<in> set (er_rejected (Compute s src))"
  shows "r_source r \<in> route_sources \<and> r_state r \<noteq> StateNone"
proof -
  have cand: "r0 \<in> set (c_cands (collect s src)) \<Longrightarrow> r_source r0 \<in> route_sources" for r0
    using collect_ok unfolding cands_ok_def is_candidate_def by blast
  from assms show ?thesis
  proof
    assume "r \<in> set (er_publish (Compute s src))"
    then obtain r0 where "r0 \<in> set (c_cands (collect s src))" "policy s r0 = Inr r" by (rule publish_cases)
    with cand policy_Inr[of s r0 r] show ?thesis by auto
  next
    assume "r \<in> set (er_rejected (Compute s src))"
    then show ?thesis by (rule rejected_cases) (use cand in auto)
  qed
qed

lemma persist_rows_mem:
  assumes "row \<in> set (persist_rows arts claim)"
  obtains r where "r \<in> set (a_routes arts) \<union> set (a_route_rejected arts)"
    "pub_cidr row = prefix_string (r_prefix r)" "pub_source row = r_source r"
    "pub_state row = (if r_state r = StatePending \<and> claim then StatePublished else r_state r)"
proof -
  have "row \<in> claim_row claim ` published_row ` (set (a_routes arts) \<union> set (a_route_rejected arts))"
    using assms by (simp add: persist_rows_def ToPublished_def image_Un image_image)
  then obtain r where r: "r \<in> set (a_routes arts) \<union> set (a_route_rejected arts)"
    "row = claim_row claim (published_row r)" by blast
  then show ?thesis by (intro that[OF r(1)]) (simp_all add: published_row_def claim_row_def)
qed

lemma persist_rows_cidrs:
  "pub_cidr ` set (persist_rows arts claim) =
     (\<lambda>r. prefix_string (r_prefix r)) ` (set (a_routes arts) \<union> set (a_route_rejected arts))"
proof -
  have "pub_cidr (claim_row claim (published_row r)) = prefix_string (r_prefix r)" for r
    by (simp add: claim_row_def published_row_def)
  then show ?thesis by (simp add: persist_rows_def ToPublished_def image_Un image_image)
qed

lemma pass_published:
  assumes "pe_ctx_err env = None" "pe_load env = Inr snap" "pe_render env snap = Inr arts"
    and "pass env ds r = (r', err)"
  shows "rc_published r' =
    (case ReplacePublishedRoutes (pe_end env)
        (persist_rows arts (frr_ok (map (\<lambda>d. dr_health d (rc_world r')) ds) \<and> ds \<noteq> [])) (rc_published r) of
       Inr t \<Rightarrow> t | Inl _ \<Rightarrow> rc_published r)"
  using assms(4)
proof (cases rule: pass_cases)
  case (driven snap' arts' r1 ps es)
  with assms(2,3) have same: "snap' = snap" "arts' = arts" by auto
  have "drive_frame (publish_event (ApplyStarted (s_generation snap)) (started_pass env r)) r1"
    by (rule drive_fold_frame[OF driven(4)[unfolded same]])
  then have "rc_published r1 = rc_published r" by (simp add: drive_frame_def)
  with driven(5,7) same show ?thesis
    by (simp add: report_def Let_def persistRoutes_def split: sum.split)
qed (use assms in simp_all)

text \<open>
  After a pass that rendered the route engine's result, the table of published routes
  lists exactly the prefixes the engine published or rejected, one row each: no constraint of
  the table ever refuses them.  A row is shown as published only if the engine published its
  prefix, drivers exist, and every FRR component reported itself neither degraded nor down.
\<close>

theorem pass_records_routes:
  assumes "pe_ctx_err env = None" "pe_load env = Inr snap" "pe_render env snap = Inr arts"
    and "a_routes arts = er_publish (Compute snap src)" "a_route_rejected arts = er_rejected (Compute snap src)"
    and "pass env ds r = (r', err)" "unique_key pub_cidr (rc_published r)"
  shows "unique_key pub_cidr (rc_published r') \<and>
    pub_cidr ` set (rc_published r') =
      (\<lambda>r. prefix_string (r_prefix r)) ` (set (a_routes arts) \<union> set (a_route_rejected arts)) \<and>
    (\<forall>row\<in>set (rc_published r'). pub_state row = StatePublished \<longrightarrow>
       frr_ok (map (\<lambda>d. dr_health d (rc_world r')) ds) \<and> ds \<noteq> [] \<and>
       pub_cidr row \<in> (\<lambda>r. prefix_string (r_prefix r)) ` set (a_routes arts))"
proof -
  define claim where "claim \<longleftrightarrow> frr_ok (map (\<lambda>d. dr_health d (rc_world r')) ds) \<and> ds \<noteq> []"
  have ok: "\<forall>row\<in>set (persist_rows arts claim). pub_check row"
  proof
    fix row assume "row \<in> set (persist_rows arts claim)"
    then obtain q where q: "q \<in> set (a_routes arts) \<union> set (a_route_rejected arts)" "pub_source row = r_source q"
      "pub_state row = (if r_state q = StatePending \<and> claim then StatePublished else r_state q)"
      by (rule persist_rows_mem)
    with Compute_rows_ok[of q snap src] assms(4,5) show "pub_check row"
      by (auto simp: pub_check_def route_sources_def)
  qed
  then obtain t where t: "ReplacePublishedRoutes (pe_end env) (persist_rows arts claim) (rc_published r) = Inr t"
    by (auto simp: ReplacePublishedRoutes_def)
  then have pub: "rc_published r' = t" using pass_published[OF assms(1-3,6)] by (simp add: claim_def)
  have states: "claim \<and> pub_cidr row \<in> (\<lambda>r. prefix_string (r_prefix r)) ` set (a_routes arts)"
    if row: "row \<in> set t" "pub_state row = StatePublished" for row
  proof -
    obtain w where w: "w \<in> set (persist_rows arts claim)" "pub_cidr w = pub_cidr row" "pub_state w = StatePublished"
      using replace_rows(2)[OF t assms(7) row(1)] row(2) by auto
    from w(1) obtain q where q: "q \<in> set (a_routes arts) \<union> set (a_route_rejected arts)"
      "pub_cidr w = prefix_string (r_prefix q)"
      "pub_state w = (if r_state q = StatePending \<and> claim then StatePublished else r_state q)"
      by (rule persist_rows_mem)
    have pub: "q' \<in> set (a_routes arts) \<Longrightarrow> r_state q' = StatePending" for q'
      using assms(4) by (auto elim!: publish_cases dest: policy_Inr)
    have rej: "q' \<in> set (a_route_rejected arts) \<Longrightarrow> r_state q' = StateFailed \<or> r_state q' = StateProtected" for q'
      using assms(5) by (auto elim: rejected_cases)
    from q w(3) pub[of q] rej[of q] have "claim" "q \<in> set (a_routes arts)" by (auto split: if_splits)
    with q(2) w(2) show ?thesis by auto
  qed
  show ?thesis
    using replace_unique[OF t assms(7)] replace_rows(1)[OF t assms(7)] states pub
    by (simp add: persist_rows_cidrs claim_def)
qed

subsection \<open>Example passes\<close>

definition example_render :: "snapshot \<Rightarrow> artifacts result" where
  "example_render s = Inr (zero_artifacts\<lparr>a_routes := er_publish (Compute s no_sources),
     a_route_rejected := er_rejected (Compute s no_sources)\<rparr>)"

definition example_rules :: "rule list" where
  "example_rules = [ip_rule ''8.8.8.8/16'', ip_rule ''10.1.0.0/16'']"

definition example_pass_env :: pass_env where
  "example_pass_env = \<lparr>pe_ctx_err = None, pe_load = Inr (example_snapshot ModeC example_rules []),
     pe_render = example_render, pe_start = 0, pe_end = second, pe_took = (\<lambda>_. 3), pe_elapsed = 4,
     pe_elapsed_text = ''4ms'', pe_set_applied_err = None\<rparr>"

abbreviation example_reconciler :: "(fake route_driver \<times> fake, plan_state) reconciler" where
  "example_reconciler \<equiv> New [route_drv 0] (newDriver fake_ops None, NewFake)"




text \<open>Two passes that cannot load the desired state.\<close>

definition broken_env :: "time \<Rightarrow> pass_env" where
  "broken_env t = example_pass_env\<lparr>pe_load := Inl ''disk I/O error'', pe_end := t\<rparr>"

theorem backoff_doubles_witness:
  "\<exists>r. failing [route_drv 0] example_reconciler [broken_env 0, broken_env (5 * second)] r \<and>
     rc_backoff r = 2 * second \<and> rc_retry_at r = 7 * second"
proof -
  define r1 where "r1 = fst (pass (broken_env 0) [route_drv 0] example_reconciler)"
  define r2 where "r2 = fst (pass (broken_env (5 * second)) [route_drv 0] r1)"
  have "pass (broken_env 0) [route_drv 0] example_reconciler = (r1, Some ''load desired state: disk I/O error'')"
    "pass (broken_env (5 * second)) [route_drv 0] r1 = (r2, Some ''load desired state: disk I/O error'')"
    unfolding r1_def r2_def
    by (simp_all add: pass_def broken_env_def example_pass_env_def pass_body_def fail_def Let_def)
  moreover have "pe_ctx_err (broken_env t) = None" for t by (simp add: broken_env_def example_pass_env_def)
  ultimately have "failing [route_drv 0] example_reconciler ([] @ [broken_env 0] @ [broken_env (5 * second)]) r2"
    by (metis failing_none failing_snoc append_assoc)
  then have f: "failing [route_drv 0] example_reconciler [broken_env 0, broken_env (5 * second)] r2" by simp
  have "rc_backoff example_reconciler = 0" "second \<le> rc_max_backoff example_reconciler"
    by (simp_all add: New_def second_def)
  from backoff_doubles[OF f _ this] f show ?thesis
    by (intro exI[of _ r2]) (simp add: New_def second_def broken_env_def)
qed

theorem pass_records_routes_witness:
  "pub_cidr ` set (rc_published (fst (pass example_pass_env [route_drv 0] example_reconciler)))
     = {''8.8.0.0/16'', ''10.1.0.0/16''}"
proof -
  define arts where "arts = zero_artifacts\<lparr>a_routes := er_publish (Compute (example_snapshot ModeC example_rules []) no_sources),
     a_route_rejected := er_rejected (Compute (example_snapshot ModeC example_rules []) no_sources)\<rparr>"
  have "pub_cidr ` set (rc_published (fst (pass example_pass_env [route_drv 0] example_reconciler))) =
      (\<lambda>r. prefix_string (r_prefix r)) ` (set (a_routes arts) \<union> set (a_route_rejected arts))"
  proof -
    have env: "pe_ctx_err example_pass_env = None"
      "pe_load example_pass_env = Inr (example_snapshot ModeC example_rules [])"
      "pe_render example_pass_env (example_snapshot ModeC example_rules []) = Inr arts"
      "a_routes arts = er_publish (Compute (example_snapshot ModeC example_rules []) no_sources)"
      "a_route_rejected arts = er_rejected (Compute (example_snapshot ModeC example_rules []) no_sources)"
      "unique_key pub_cidr (rc_published example_reconciler)"
      by (simp_all add: example_pass_env_def example_render_def arts_def New_def)
    show ?thesis using pass_records_routes[OF env(1-5) prod.collapse[symmetric] env(6)] by blast
  qed
  also have "\<dots> = set (map (\<lambda>r. prefix_string (r_prefix r)) (a_routes arts @ a_route_rejected arts))" by auto
  also have "map (\<lambda>r. prefix_string (r_prefix r)) (a_routes arts @ a_route_rejected arts) = [''8.8.0.0/16'', ''10.1.0.0/16'']"
    unfolding arts_def by code_simp
  finally show ?thesis by simp
qed

end
