(* ===== verification/EventBus.thy ===== *)
theory EventBus
  imports Prelude "HOL-Library.Sublist"
begin

text \<open>
  \<open>internal/events/bus.go\<close>: the in-process bus.  First the operations as they run undisturbed,
  then the selects of \<open>Publish\<close> as single steps that interleave with other publishers (which
  hold the lock for reading together) and with the subscriber.
\<close>

datatype event_type =
    EvApplyStarted | EvApplyFinished | EvApplyFailed | EvComponentHealth | EvStateChanged | EvHeartbeat

record 'a bus_msg =
  msg_type :: event_type
  msg_at :: time
  msg_data :: 'a

record 'a subscriber =
  sb_ch :: "'a list"
  sb_dropped :: int

record 'a bus =
  bus_subs :: "(nat \<times> 'a subscriber) list"
  bus_buf :: int

definition new_bus :: "int \<Rightarrow> 'a bus" where
  "new_bus buf = \<lparr>bus_subs = [], bus_buf = (if buf \<le> 0 then 64 else buf)\<rparr>"

text \<open>A non-blocking send, and the removal of the oldest event.\<close>

definition try_send :: "int \<Rightarrow> 'a \<Rightarrow> 'a subscriber \<Rightarrow> 'a subscriber option" where
  "try_send cap e s = (if int (length (sb_ch s)) < cap then Some (s\<lparr>sb_ch := sb_ch s @ [e]\<rparr>) else None)"

definition drop_oldest :: "'a subscriber \<Rightarrow> 'a subscriber" where
  "drop_oldest s = (case sb_ch s of [] \<Rightarrow> s | x # xs \<Rightarrow> s\<lparr>sb_ch := xs, sb_dropped := sb_dropped s + 1\<rparr>)"

definition deliver :: "int \<Rightarrow> 'a \<Rightarrow> 'a subscriber \<Rightarrow> 'a subscriber" where
  "deliver cap e s =
     (case try_send cap e s of
        Some s' \<Rightarrow> s'
      | None \<Rightarrow> (let s1 = drop_oldest s in case try_send cap e s1 of Some s2 \<Rightarrow> s2 | None \<Rightarrow> s1))"

definition Publish :: "'a \<Rightarrow> 'a bus \<Rightarrow> 'a bus" where
  "Publish e b = b\<lparr>bus_subs := map (\<lambda>(i, s). (i, deliver (bus_buf b) e s)) (bus_subs b)\<rparr>"

definition Subscribe :: "nat \<Rightarrow> 'a bus \<Rightarrow> 'a bus" where
  "Subscribe i b = b\<lparr>bus_subs := al_put i \<lparr>sb_ch = [], sb_dropped = 0\<rparr> (bus_subs b)\<rparr>"

definition Unsubscribe :: "nat \<Rightarrow> 'a bus \<Rightarrow> 'a bus" where
  "Unsubscribe i b = b\<lparr>bus_subs := al_del i (bus_subs b)\<rparr>"

definition Subscribers :: "'a bus \<Rightarrow> int" where
  "Subscribers b = int (length (bus_subs b))"

subsection \<open>Undisturbed publishing keeps the newest events\<close>

lemma deliver_ch:
  assumes "0 < cap" "int (length (sb_ch s)) \<le> cap"
  shows "sb_ch (deliver cap e s) =
    (if int (length (sb_ch s)) < cap then sb_ch s @ [e] else tl (sb_ch s) @ [e])"
  using assms by (cases "sb_ch s") (auto simp: deliver_def try_send_def drop_oldest_def Let_def)

lemma deliver_bound:
  assumes "0 < cap" "int (length (sb_ch s)) \<le> cap"
  shows "int (length (sb_ch (deliver cap e s))) \<le> cap"
  using assms by (auto simp: deliver_ch)

lemma deliver_last:
  assumes "0 < cap" "int (length (sb_ch s)) \<le> cap"
  shows "sb_ch (deliver cap e s) = drop (length (sb_ch s) + 1 - nat cap) (sb_ch s @ [e])"
proof (cases "int (length (sb_ch s)) < cap")
  case True
  then have "length (sb_ch s) + 1 - nat cap = 0" by linarith
  with True assms show ?thesis by (simp add: deliver_ch)
next
  case False
  with assms have "length (sb_ch s) + 1 - nat cap = 1" "sb_ch s \<noteq> []" by auto
  with False assms show ?thesis by (cases "sb_ch s") (auto simp: deliver_ch)
qed

lemma deliver_all:
  assumes "0 < cap"
  shows "foldl (\<lambda>s e. deliver cap e s) \<lparr>sb_ch = [], sb_dropped = 0\<rparr> es =
      \<lparr>sb_ch = drop (length es - nat cap) es, sb_dropped = int (length es - nat cap)\<rparr>"
proof (induction es rule: rev_induct)
  case (snoc e es)
  let ?ch = "drop (length es - nat cap) es"
  show ?case
  proof (cases "length es < nat cap")
    case True
    then have "int (length es) < cap" by linarith
    with True snoc show ?thesis by (simp add: deliver_def try_send_def)
  next
    case False
    then have len: "int (length ?ch) = cap" using assms by simp
    then have "?ch \<noteq> []" using assms by auto
    then obtain x xs where x: "?ch = x # xs" by (cases ?ch) auto
    have "drop (Suc (length es) - nat cap) es = xs"
      using x False by (metis Suc_diff_le drop_Suc leI list.sel(3) tl_drop)
    moreover have "int (length (x # xs)) = cap" using len x by simp
    moreover have "Suc (length es) - nat cap \<le> length es" using False assms by simp
    moreover have "int (Suc (length es) - nat cap) = 1 + int (length es - nat cap)" using False by simp
    ultimately show ?thesis using snoc False x
      by (simp add: deliver_def try_send_def drop_oldest_def Let_def)
  qed
qed simp

lemma Publish_all:
  "map_of (bus_subs (foldl (\<lambda>b e. Publish e b) b es)) i =
     map_option (\<lambda>s. foldl (\<lambda>s e. deliver (bus_buf b) e s) s es) (map_of (bus_subs b) i)"
proof (induction es arbitrary: b)
  case (Cons e es)
  have "map_of (bus_subs (Publish e b)) i = map_option (deliver (bus_buf b) e) (map_of (bus_subs b) i)"
    by (simp add: Publish_def map_of_map)
  with Cons show ?case by (simp add: Publish_def option.map_comp comp_def)
qed (simp add: option.map_ident)

text \<open>
  Publishing never blocks and keeps the newest events: after any sequence of publishes a
  subscriber that has not read holds exactly the last \<open>buf\<close> events, in order, and the number
  of dropped ones is the rest; a capacity that is not positive means 64.
\<close>

theorem publish_keeps_newest:
  "map_of (bus_subs (foldl (\<lambda>b e. Publish e b) (Subscribe i (new_bus buf)) es)) i =
     Some \<lparr>sb_ch = drop (length es - nat (if buf \<le> 0 then 64 else buf)) es,
      sb_dropped = int (length es - nat (if buf \<le> 0 then 64 else buf))\<rparr>"
  unfolding Publish_all
  by (simp add: Subscribe_def new_bus_def deliver_all)

subsection \<open>Interleaved publishing\<close>




















end
