(* ===== verification/Base64.thy ===== *)
theory Base64
  imports GoStrings
begin

text \<open>
  Go's unpadded base64 encodings (\<open>encoding/base64\<close>): the encoder, the decoder with its error
  offset (carriage returns and newlines are skipped), and their round trip.
\<close>

definition std_alphabet :: string where
  "std_alphabet = ''ABCDEFGHIJKLMNOPQRSTUVWXYZabcdefghijklmnopqrstuvwxyz0123456789+/''"

definition url_alphabet :: string where
  "url_alphabet = ''ABCDEFGHIJKLMNOPQRSTUVWXYZabcdefghijklmnopqrstuvwxyz0123456789-_''"

definition sextet :: "string \<Rightarrow> int \<Rightarrow> char" where
  "sextet al v = al ! nat v"

fun b64_encode :: "string \<Rightarrow> string \<Rightarrow> string" where
  "b64_encode al [] = []"
| "b64_encode al [a] =
     (let x = byte a in [sextet al (x div 4), sextet al (x mod 4 * 16)])"
| "b64_encode al [a, b] =
     (let x = byte a; y = byte b in
      [sextet al (x div 4), sextet al (x mod 4 * 16 + y div 16), sextet al (y mod 16 * 4)])"
| "b64_encode al (a # b # c # rest) =
     (let x = byte a; y = byte b; z = byte c in
      [sextet al (x div 4), sextet al (x mod 4 * 16 + y div 16), sextet al (y mod 16 * 4 + z div 64),
       sextet al (z mod 64)] @ b64_encode al rest)"

fun index_of :: "'a \<Rightarrow> 'a list \<Rightarrow> int option" where
  "index_of c [] = None"
| "index_of c (x # xs) = (if x = c then Some 0 else map_option (\<lambda>n. n + 1) (index_of c xs))"

text \<open>The decoder reads a quantum of up to four values; \<open>pos\<close> is the input offset.\<close>

fun b64_loop :: "string \<Rightarrow> int \<Rightarrow> int list \<Rightarrow> string \<Rightarrow> int + string" where
  "b64_loop al pos [] [] = Inr []"
| "b64_loop al pos [u] [] = Inl (pos - 1)"
| "b64_loop al pos [u, v] [] = Inr [char_of (u * 4 + v div 16)]"
| "b64_loop al pos (u # v # w # _) [] =
     Inr [char_of (u * 4 + v div 16), char_of (v mod 16 * 16 + w div 4)]"
| "b64_loop al pos q (c # cs) =
     (if c = CHR 0x0A \<or> c = CHR 0x0D then b64_loop al (pos + 1) q cs
      else (case index_of c al of
              None \<Rightarrow> Inl pos
            | Some x \<Rightarrow>
                (case q of
                   [u, v, w] \<Rightarrow>
                     (case b64_loop al (pos + 1) [] cs of
                        Inl e \<Rightarrow> Inl e
                      | Inr bs \<Rightarrow> Inr (char_of (u * 4 + v div 16) # char_of (v mod 16 * 16 + w div 4)
                          # char_of (w mod 4 * 64 + x) # bs))
                 | _ \<Rightarrow> b64_loop al (pos + 1) (q @ [x]) cs)))"

definition b64_decode :: "string \<Rightarrow> string \<Rightarrow> string result" where
  "b64_decode al s =
     (case b64_loop al 0 [] s of
        Inl e \<Rightarrow> Inl (''illegal base64 data at input byte '' @ int_string e)
      | Inr bs \<Rightarrow> Inr bs)"

text \<open>A value of the alphabet reads back, and is neither a line break nor the PHC separator.\<close>

definition plain_sextet :: "int \<Rightarrow> char \<Rightarrow> bool" where
  "plain_sextet v c \<longleftrightarrow> index_of c std_alphabet = Some v \<and> c \<noteq> CHR 0x0A \<and> c \<noteq> CHR 0x0D \<and> c \<noteq> CHR ''$''"

lemma sextets_std: "list_all (\<lambda>v. plain_sextet v (sextet std_alphabet v)) [0..63]"
  by code_simp

lemma sextet_std:
  assumes "0 \<le> v" "v < 64"
  shows "plain_sextet v (sextet std_alphabet v)"
proof -
  have "v \<in> set [0..63]" using assms by simp
  then show ?thesis using sextets_std unfolding list_all_iff by blast
qed

lemma byte_range: "0 \<le> byte c" "byte c < 256"
proof -
  have "byte c = int (of_char c)" by (simp only: of_nat_of_char)
  then show "0 \<le> byte c" "byte c < 256"
    using nat_of_char_less_256[of c] by linarith+
qed

lemma join16: "0 \<le> b \<Longrightarrow> b < 16 \<Longrightarrow> (a * 16 + b) div 16 = a \<and> (a * 16 + b) mod 16 = b" for a b :: int
  by simp

lemma join4: "0 \<le> b \<Longrightarrow> b < 4 \<Longrightarrow> (a * 4 + b) div 4 = a \<and> (a * 4 + b) mod 4 = b" for a b :: int
  by simp

lemma low_bits: "0 \<le> x \<Longrightarrow> x < 256 \<Longrightarrow> 0 \<le> x div 4 \<and> x div 4 < 64 \<and> 0 \<le> x mod 4 \<and> x mod 4 < 4 \<and>
    0 \<le> x div 16 \<and> x div 16 < 16 \<and> 0 \<le> x mod 16 \<and> x mod 16 < 16 \<and> 0 \<le> x div 64 \<and> x div 64 < 4 \<and>
    0 \<le> x mod 64 \<and> x mod 64 < 64" for x :: int
  by (intro conjI; presburger)

lemma combine: "0 \<le> a \<Longrightarrow> a < 4 \<Longrightarrow> 0 \<le> b \<Longrightarrow> b < 16 \<Longrightarrow> 0 \<le> a * 16 + b \<and> a * 16 + b < 64"
  "0 \<le> c \<Longrightarrow> c < 16 \<Longrightarrow> 0 \<le> d \<Longrightarrow> d < 4 \<Longrightarrow> 0 \<le> c * 4 + d \<and> c * 4 + d < 64" for a b c d :: int
  by linarith+

lemma sextet_range:
  "0 \<le> byte a div 4" "byte a div 4 < 64" "0 \<le> byte a mod 4 * 16" "byte a mod 4 * 16 < 64"
  "0 \<le> byte a mod 4 * 16 + byte b div 16" "byte a mod 4 * 16 + byte b div 16 < 64"
  "0 \<le> byte b mod 16 * 4" "byte b mod 16 * 4 < 64"
  "0 \<le> byte b mod 16 * 4 + byte c div 64" "byte b mod 16 * 4 + byte c div 64 < 64"
  "0 \<le> byte c mod 64" "byte c mod 64 < 64"
  using low_bits[OF byte_range[of a]] low_bits[OF byte_range[of b]] low_bits[OF byte_range[of c]]
    combine(1)[of "byte a mod 4" "byte b div 16"] combine(1)[of "byte a mod 4" 0]
    combine(2)[of "byte b mod 16" "byte c div 64"] combine(2)[of "byte b mod 16" 0]
  by simp_all

lemma sextet_ok:
  "plain_sextet (byte a div 4) (sextet std_alphabet (byte a div 4))"
  "plain_sextet (byte a mod 4 * 16) (sextet std_alphabet (byte a mod 4 * 16))"
  "plain_sextet (byte a mod 4 * 16 + byte b div 16) (sextet std_alphabet (byte a mod 4 * 16 + byte b div 16))"
  "plain_sextet (byte b mod 16 * 4) (sextet std_alphabet (byte b mod 16 * 4))"
  "plain_sextet (byte b mod 16 * 4 + byte c div 64) (sextet std_alphabet (byte b mod 16 * 4 + byte c div 64))"
  "plain_sextet (byte c mod 64) (sextet std_alphabet (byte c mod 64))"
  by (intro sextet_std sextet_range)+

lemma joined:
  "(byte a mod 4 * 16 + byte b div 16) div 16 = byte a mod 4"
  "(byte a mod 4 * 16 + byte b div 16) mod 16 = byte b div 16"
  "(byte b mod 16 * 4 + byte c div 64) div 4 = byte b mod 16"
  "(byte b mod 16 * 4 + byte c div 64) mod 4 = byte c div 64"
  using join16[of "byte b div 16" "byte a mod 4"] join4[of "byte c div 64" "byte b mod 16"]
    low_bits[OF byte_range[of b]] low_bits[OF byte_range[of c]]
  by blast+

lemma loop_pair:
  assumes "plain_sextet u c" "plain_sextet v d"
  shows "b64_loop std_alphabet pos [] [c, d] = Inr [char_of (u * 4 + v div 16)]"
  using assms by (simp add: plain_sextet_def)

lemma loop_triple:
  assumes "plain_sextet u c" "plain_sextet v d" "plain_sextet w e"
  shows "b64_loop std_alphabet pos [] [c, d, e] =
    Inr [char_of (u * 4 + v div 16), char_of (v mod 16 * 16 + w div 4)]"
  using assms by (simp add: plain_sextet_def)

lemma loop_quad:
  assumes "plain_sextet u c" "plain_sextet v d" "plain_sextet w e" "plain_sextet t f"
    and "b64_loop std_alphabet (pos + 4) [] r = Inr bs"
  shows "b64_loop std_alphabet pos [] (c # d # e # f # r) =
    Inr (char_of (u * 4 + v div 16) # char_of (v mod 16 * 16 + w div 4) # char_of (w mod 4 * 64 + t) # bs)"
proof -
  have p: "pos + 1 + 1 + 1 + 1 = pos + 4" by simp
  show ?thesis using assms by (simp add: plain_sextet_def p add.commute)
qed

lemma bytes3_induct [case_names Nil One Two Three]:
  fixes P :: "string \<Rightarrow> bool"
  assumes "P []" "\<And>a. P [a]" "\<And>a b. P [a, b]" "\<And>a b c r. P r \<Longrightarrow> P (a # b # c # r)"
  shows "P bs"
  by (induction rule: b64_encode.induct[of "\<lambda>_. P"]) (use assms in auto)

lemma b64_loop_encode: "b64_loop std_alphabet pos [] (b64_encode std_alphabet bs) = Inr bs"
proof (induction bs arbitrary: pos rule: bytes3_induct)
  case (One a)
  have v: "byte a div 4 * 4 + byte a mod 4 * 16 div 16 = byte a" by simp
  show ?case
    unfolding b64_encode.simps Let_def loop_pair[OF sextet_ok(1,2)] v by simp
next
  case (Two a b)
  show ?case
    unfolding b64_encode.simps Let_def loop_triple[OF sextet_ok(1,3,4)] joined by simp
next
  case (Three a b c r)
  show ?case
    unfolding b64_encode.simps Let_def append.simps loop_quad[OF sextet_ok(1,3,5,6) Three] joined by simp
qed simp

text \<open>Decoding what was encoded gives the bytes back.\<close>

lemma b64_round_trip: "b64_decode std_alphabet (b64_encode std_alphabet bs) = Inr bs"
  by (simp add: b64_decode_def b64_loop_encode)

lemma b64_no_dollar: "CHR ''$'' \<notin> set (b64_encode std_alphabet bs)"
proof -
  note ok = sextet_ok[unfolded plain_sextet_def, THEN conjunct2, THEN conjunct2, THEN conjunct2]
  show ?thesis
  proof (induction bs rule: bytes3_induct)
    case (One a)
    show ?case using ok(1,2)[of a] by (simp add: Let_def not_sym)
  next
    case (Two a b)
    show ?case using ok(1)[of a] ok(3)[of a b] ok(4)[of b] by (simp add: Let_def not_sym)
  next
    case (Three a b c r)
    then show ?case using ok(1)[of a] ok(3)[of a b] ok(5)[of b c] ok(6)[of c]
      by (simp add: Let_def not_sym)
  qed simp
qed

end
