(* ===== verification/Errors.thy ===== *)
theory Errors
  imports GoStrings
begin

text \<open>
  Errors as values.  A sentinel that the code compares with \<open>errors.Is\<close> or \<open>errors.As\<close> is a
  constructor of \<open>go_error\<close>; \<open>Wrapped\<close> is \<open>fmt.Errorf("...: %w", err)\<close>, which such a comparison
  looks through; any other error is \<open>Failure\<close> with its text.  Also the texts of the errors and
  the two functions of \<open>api/v2/v2.go\<close> that classify them.
\<close>

datatype go_error =
    NoAdmin | NotFound | BadCredentials | RateLimited | BuiltinRuleSet
  | HashFormat | HashParams | Policy string | Invalid string string | Failure string
  | Wrapped string go_error

type_synonym 'a outcome = "go_error + 'a"

text \<open>The failure of a statement or system call, if any.\<close>

type_synonym fault = "string option"

text \<open>\<open>err.Error()\<close>; the text that \<open>Sscanf\<close> adds to a parameter error is left out.\<close>

fun error_text :: "go_error \<Rightarrow> string" where
  "error_text NoAdmin = ''admin credential not initialised''"
| "error_text NotFound = ''sql: no rows in result set''"
| "error_text BadCredentials = ''invalid password''"
| "error_text RateLimited = ''too many failed attempts; try again later''"
| "error_text BuiltinRuleSet = ''the built-in default rule set cannot be deleted or moved''"
| "error_text HashFormat = ''unsupported hash format''"
| "error_text HashParams = ''parse hash params: ''"
| "error_text (Policy m) = m"
| "error_text (Invalid f m) = f @ '': '' @ m"
| "error_text (Failure m) = m"
| "error_text (Wrapped m e) = m @ '': '' @ error_text e"

text \<open>What \<open>errors.Is\<close> finds at the end of the chain.\<close>

fun root_error :: "go_error \<Rightarrow> go_error" where
  "root_error (Wrapped m e) = root_error e"
| "root_error e = e"

definition isConstraint :: "string \<Rightarrow> bool" where
  "isConstraint s \<longleftrightarrow> str_contains s ''UNIQUE constraint failed'' \<or>
     str_contains s ''FOREIGN KEY constraint failed'' \<or> str_contains s ''CHECK constraint failed''"

definition conflictMessage :: "string \<Rightarrow> string" where
  "conflictMessage s =
     (if str_contains s ''UNIQUE'' then ''an entry with the same value already exists''
      else if str_contains s ''FOREIGN KEY'' then ''referenced object does not exist''
      else ''constraint violated'')"

definition bind_outcome :: "'a outcome \<Rightarrow> ('a \<Rightarrow> 'b outcome) \<Rightarrow> 'b outcome" where
  "bind_outcome r f = (case r of Inl e \<Rightarrow> Inl e | Inr x \<Rightarrow> f x)"

lemma bind_outcome_simps [simp]: "bind_outcome (Inl e) f = Inl e" "bind_outcome (Inr x) f = f x"
  by (simp_all add: bind_outcome_def)

lemma bind_outcome_Inr [simp]: "bind_outcome r f = Inr y \<longleftrightarrow> (\<exists>x. r = Inr x \<and> f x = Inr y)"
  by (cases r) auto

text \<open>A list of statements, stopped by the first error.\<close>

fun fold_outcome :: "('a \<Rightarrow> 's \<Rightarrow> 's outcome) \<Rightarrow> 'a list \<Rightarrow> 's \<Rightarrow> 's outcome" where
  "fold_outcome f [] s = Inr s"
| "fold_outcome f (x # xs) s = bind_outcome (f x s) (fold_outcome f xs)"

lemma fold_outcome_invariant:
  assumes "fold_outcome f xs s = Inr s'" "I s"
    and "\<And>x s s'. x \<in> set xs \<Longrightarrow> I s \<Longrightarrow> f x s = Inr s' \<Longrightarrow> I s'"
  shows "I s'"
  using assms by (induction xs arbitrary: s) auto

lemma fold_outcome_append:
  "fold_outcome f (xs @ ys) s = bind_outcome (fold_outcome f xs s) (fold_outcome f ys)"
proof (induction xs arbitrary: s)
  case (Cons x xs)
  then show ?case by (cases "f x s") auto
qed simp

end
