(* ===== verification/Password.thy ===== *)
theory Password
  imports Base64 Errors
begin

text \<open>
  \<open>auth/password.go\<close>: the argon2id password hash in its PHC text form, its verification, the
  password policy and the random strings.  \<open>golang.org/x/crypto/argon2\<close> is the parameter
  \<open>kdf\<close> (password, salt, passes, memory, lanes, key length); \<open>crypto/rand\<close> is the answer of
  the read the code makes: the bytes, or an error.
\<close>

type_synonym kdf = "string \<Rightarrow> string \<Rightarrow> int \<Rightarrow> int \<Rightarrow> int \<Rightarrow> int \<Rightarrow> string"

definition argonTime :: int where "argonTime = 3"
definition argonMemory :: int where "argonMemory = 64 * 1024"
definition argonThreads :: int where "argonThreads = 1"
definition argonKeyLen :: int where "argonKeyLen = 32"
definition saltLen :: int where "saltLen = 16"

lemmas argon_defs = argonTime_def argonMemory_def argonThreads_def argonKeyLen_def

definition HashPassword :: "kdf \<Rightarrow> string result \<Rightarrow> string \<Rightarrow> string outcome" where
  "HashPassword kdf rand password =
     (case rand of
        Inl e \<Rightarrow> Inl (Failure e)
      | Inr salt \<Rightarrow>
          (let key = kdf password salt argonTime argonMemory argonThreads argonKeyLen
           in Inr (''$argon2id$v=19$m='' @ int_string argonMemory @ '',t='' @ int_string argonTime
                @ '',p='' @ int_string argonThreads @ ''$'' @ b64_encode std_alphabet salt @ ''$''
                @ b64_encode std_alphabet key)))"

text \<open>
  \<open>fmt.Sscanf\<close> on the parameters: literals match byte by byte, \<open>%d\<close> skips white space other
  than a newline and reads digits that must fit the target; what follows the format is ignored.
\<close>

definition scan_literal :: "string \<Rightarrow> string \<Rightarrow> string option" where
  "scan_literal lit s = (if has_prefix s lit then Some (drop (length lit) s) else None)"

definition scan_uint :: "nat \<Rightarrow> string \<Rightarrow> (int \<times> string) option" where
  "scan_uint bits s =
     (let s1 = dropWhile (\<lambda>c. is_space c \<and> c \<noteq> CHR 0x0A) s; ds = takeWhile is_digit s1;
          v = digits_value 0 ds
      in if ds = [] \<or> 2 ^ bits \<le> v then None else Some (v, drop (length ds) s1))"

definition scan_params :: "string \<Rightarrow> (int \<times> int \<times> int) option" where
  "scan_params s =
     Option.bind (scan_literal ''m='' s) (\<lambda>s. Option.bind (scan_uint 32 s) (\<lambda>(m, s).
     Option.bind (scan_literal '',t='' s) (\<lambda>s. Option.bind (scan_uint 32 s) (\<lambda>(t, s).
     Option.bind (scan_literal '',p='' s) (\<lambda>s. Option.bind (scan_uint 8 s) (\<lambda>(p, s).
     Some (m, t, p)))))))"

definition VerifyPassword :: "kdf \<Rightarrow> string \<Rightarrow> string \<Rightarrow> bool outcome" where
  "VerifyPassword kdf hash password =
     (let parts = split_on CHR ''$'' hash in
      if length parts \<noteq> 6 \<or> parts ! 1 \<noteq> ''argon2id'' then Inl HashFormat
      else (case scan_params (parts ! 3) of
              None \<Rightarrow> Inl HashParams
            | Some (m, t, p) \<Rightarrow>
                (case b64_decode std_alphabet (parts ! 4) of
                   Inl e \<Rightarrow> Inl (Failure e)
                 | Inr salt \<Rightarrow>
                     (case b64_decode std_alphabet (parts ! 5) of
                        Inl e \<Rightarrow> Inl (Failure e)
                      | Inr want \<Rightarrow>
                          (let got = kdf password salt t m p (int (length want) mod 2 ^ 32)
                           in Inr (got = want))))))"

definition MinPasswordLen :: int where "MinPasswordLen = 10"

definition ValidateNewPassword :: "string \<Rightarrow> string option" where
  "ValidateNewPassword p =
     (if int (length p) < MinPasswordLen
      then Some (''password must be at least '' @ int_string MinPasswordLen @ '' characters'')
      else if int (length p) > 256 then Some ''password too long''
      else if trim_space p \<noteq> p then Some ''password must not start or end with whitespace''
      else None)"

definition bootstrapAlphabet :: string where
  "bootstrapAlphabet = ''ABCDEFGHJKLMNPQRSTUVWXYZabcdefghijkmnopqrstuvwxyz23456789''"

definition randomString :: "string \<Rightarrow> string result \<Rightarrow> string result" where
  "randomString alphabet rand =
     (case rand of
        Inl e \<Rightarrow> Inl e
      | Inr buf \<Rightarrow> Inr (map (\<lambda>b. alphabet ! nat (byte b mod int (length alphabet))) buf))"

definition GenerateBootstrapPassword :: "string result \<Rightarrow> string result" where
  "GenerateBootstrapPassword rand = randomString bootstrapAlphabet rand"

definition randomToken :: "string result \<Rightarrow> string result" where
  "randomToken rand = (case rand of Inl e \<Rightarrow> Inl e | Inr b \<Rightarrow> Inr (b64_encode url_alphabet b))"

subsection \<open>The hash verifies exactly the passwords with its key\<close>

lemma hash_params: "scan_params ''m=65536,t=3,p=1'' = Some (argonMemory, argonTime, argonThreads)"
  by code_simp

lemma HashPassword_text:
  "HashPassword kdf (Inr salt) pw =
     Inr (join_with ''$'' [[], ''argon2id'', ''v=19'', ''m=65536,t=3,p=1'', b64_encode std_alphabet salt,
       b64_encode std_alphabet (kdf pw salt argonTime argonMemory argonThreads argonKeyLen)])"
proof -
  have d: "int_string argonMemory = ''65536''" "int_string argonTime = ''3''" "int_string argonThreads = ''1''"
    by code_simp+
  show ?thesis by (simp add: HashPassword_def Let_def d)
qed

lemma hash_parts:
  "split_on CHR ''$'' (join_with ''$'' [[], ''argon2id'', ''v=19'', ''m=65536,t=3,p=1'',
     b64_encode std_alphabet a, b64_encode std_alphabet b]) =
   [[], ''argon2id'', ''v=19'', ''m=65536,t=3,p=1'', b64_encode std_alphabet a, b64_encode std_alphabet b]"
  by (rule split_on_join) (simp_all add: b64_no_dollar)

lemma verify_hashed:
  assumes "HashPassword kdf (Inr salt) pw = Inr h"
    and "length (kdf pw salt argonTime argonMemory argonThreads argonKeyLen) = nat argonKeyLen"
  shows "VerifyPassword kdf h pw' =
    Inr (kdf pw' salt argonTime argonMemory argonThreads argonKeyLen =
         kdf pw salt argonTime argonMemory argonThreads argonKeyLen)"
proof -
  let ?key = "kdf pw salt argonTime argonMemory argonThreads argonKeyLen"
  have h: "h = join_with ''$'' [[], ''argon2id'', ''v=19'', ''m=65536,t=3,p=1'',
      b64_encode std_alphabet salt, b64_encode std_alphabet ?key]"
    using assms(1) unfolding HashPassword_text by (rule sum.inject(2)[THEN iffD1, symmetric])
  have len: "int (length ?key) mod 4294967296 = argonKeyLen"
    using assms(2) by (simp add: argonKeyLen_def)
  show ?thesis
    unfolding VerifyPassword_def h hash_parts
    by (simp add: Let_def hash_params b64_round_trip len)
qed

text \<open>
  Hashing and checking a password: the PHC text that \<open>HashPassword\<close> writes is read back by
  \<open>VerifyPassword\<close>, which recomputes the key with the same salt and parameters and accepts a
  password exactly when its key equals the stored one.  In particular the password that was
  hashed is accepted, and no parsing error can occur on a stored hash.
\<close>

theorem password_hash_round_trip:
  assumes "HashPassword kdf (Inr salt) pw = Inr h"
    and "length (kdf pw salt argonTime argonMemory argonThreads argonKeyLen) = nat argonKeyLen"
  shows "VerifyPassword kdf h pw = Inr True \<and>
    (VerifyPassword kdf h pw' = Inr True \<longleftrightarrow>
       kdf pw' salt argonTime argonMemory argonThreads argonKeyLen =
       kdf pw salt argonTime argonMemory argonThreads argonKeyLen)"
  by (simp add: verify_hashed[OF assms])

definition pad_kdf :: kdf where
  "pad_kdf pw salt t m p n = take (nat n) (pw @ salt @ replicate (nat n) CHR ''.'')"

theorem password_hash_round_trip_witness:
  "\<exists>h. HashPassword pad_kdf (Inr ''0123456789abcdef'') ''correct horse'' = Inr h \<and>
     VerifyPassword pad_kdf h ''correct horse'' = Inr True \<and>
     VerifyPassword pad_kdf h ''battery staple'' \<noteq> Inr True"
proof -
  have l: "length (pad_kdf ''correct horse'' ''0123456789abcdef'' argonTime argonMemory argonThreads argonKeyLen)
      = nat argonKeyLen"
    by code_simp
  have n: "pad_kdf ''battery staple'' ''0123456789abcdef'' argonTime argonMemory argonThreads argonKeyLen \<noteq>
      pad_kdf ''correct horse'' ''0123456789abcdef'' argonTime argonMemory argonThreads argonKeyLen"
    by code_simp
  obtain h where h: "HashPassword pad_kdf (Inr ''0123456789abcdef'') ''correct horse'' = Inr h"
    unfolding HashPassword_text by blast
  show ?thesis
    using password_hash_round_trip[OF h l, of "''battery staple''"] n h by blast
qed

end
