(* ===== verification/AuthStore.thy ===== *)
theory AuthStore
  imports Password Table
begin

text \<open>
  \<open>store/auth.go\<close>: the administrator row, the sessions and the API tokens.  A column holding a
  time has millisecond precision (\<open>isoMillis\<close>); \<open>dbnow\<close> is SQLite's \<open>strftime('now')\<close> of a
  statement and \<open>now\<close> the \<open>time.Now()\<close> of the process.  The first argument of an operation is
  the failure of its statement, if any.
\<close>

definition millisecond :: duration where "millisecond = 1000000"

definition isoMillis :: "time \<Rightarrow> time" where
  "isoMillis t = t div millisecond * millisecond"

record admin_credential =
  ac_password_hash :: string
  ac_bootstrap :: bool
  ac_updated_at :: time

record session =
  se_id :: string
  se_created_at :: time
  se_expires_at :: time
  se_last_seen_at :: time
  se_remote_ip :: string
  se_user_agent :: string

record api_token =
  tk_id :: string
  tk_name :: string
  tk_scope :: string
  tk_created_at :: time
  tk_last_used_at :: "time option"
  tk_expires_at :: "time option"

record auth_db =
  db_admin :: "admin_credential option"
  db_sessions :: "session list"
  db_tokens :: "(string \<times> api_token) list"



definition Admin :: "fault \<Rightarrow> auth_db \<Rightarrow> admin_credential outcome" where
  "Admin flt db =
     (case flt of
        Some e \<Rightarrow> Inl (Failure e)
      | None \<Rightarrow> (case db_admin db of None \<Rightarrow> Inl NoAdmin | Some a \<Rightarrow> Inr a))"

definition SetAdminPassword :: "fault \<Rightarrow> time \<Rightarrow> string \<Rightarrow> bool \<Rightarrow> auth_db \<Rightarrow> auth_db outcome" where
  "SetAdminPassword flt dbnow hash bootstrap db =
     (case flt of
        Some e \<Rightarrow> Inl (Failure e)
      | None \<Rightarrow> Inr (db\<lparr>db_admin :=
          Some \<lparr>ac_password_hash = hash, ac_bootstrap = bootstrap, ac_updated_at = dbnow\<rparr>\<rparr>))"

definition CreateSession :: "fault \<Rightarrow> time \<Rightarrow> session \<Rightarrow> auth_db \<Rightarrow> auth_db outcome" where
  "CreateSession flt dbnow sess db =
     (case flt of
        Some e \<Rightarrow> Inl (Failure e)
      | None \<Rightarrow>
          if tbl_get se_id (db_sessions db) (se_id sess) \<noteq> None
          then Inl (Failure ''UNIQUE constraint failed: sessions.id'')
          else Inr (db\<lparr>db_sessions := db_sessions db @
            [\<lparr>se_id = se_id sess, se_created_at = dbnow, se_expires_at = isoMillis (se_expires_at sess),
              se_last_seen_at = dbnow, se_remote_ip = se_remote_ip sess,
              se_user_agent = se_user_agent sess\<rparr>]\<rparr>))"

definition GetSession :: "fault \<Rightarrow> time \<Rightarrow> string \<Rightarrow> auth_db \<Rightarrow> session outcome" where
  "GetSession flt now i db =
     (case flt of
        Some e \<Rightarrow> Inl (Failure e)
      | None \<Rightarrow>
          (case tbl_get se_id (db_sessions db) i of
             None \<Rightarrow> Inl NotFound
           | Some sess \<Rightarrow> if \<not> now < se_expires_at sess then Inl NotFound else Inr sess))"

definition TouchSession :: "fault \<Rightarrow> time \<Rightarrow> string \<Rightarrow> time \<Rightarrow> auth_db \<Rightarrow> auth_db outcome" where
  "TouchSession flt dbnow i expires db =
     (case flt of
        Some e \<Rightarrow> Inl (Failure e)
      | None \<Rightarrow> Inr (db\<lparr>db_sessions := tbl_update (\<lambda>s. se_id s = i)
          (\<lambda>s. s\<lparr>se_last_seen_at := dbnow, se_expires_at := isoMillis expires\<rparr>) (db_sessions db)\<rparr>))"

definition DeleteSession :: "fault \<Rightarrow> string \<Rightarrow> auth_db \<Rightarrow> auth_db outcome" where
  "DeleteSession flt i db =
     (case flt of
        Some e \<Rightarrow> Inl (Failure e)
      | None \<Rightarrow> Inr (db\<lparr>db_sessions := tbl_delete (\<lambda>s. se_id s = i) (db_sessions db)\<rparr>))"

definition DeleteOtherSessions :: "fault \<Rightarrow> string \<Rightarrow> auth_db \<Rightarrow> (auth_db \<times> int) outcome" where
  "DeleteOtherSessions flt keep db =
     (case flt of
        Some e \<Rightarrow> Inl (Failure e)
      | None \<Rightarrow> Inr (db\<lparr>db_sessions := tbl_delete (\<lambda>s. se_id s \<noteq> keep) (db_sessions db)\<rparr>,
          rows_affected (\<lambda>s. se_id s \<noteq> keep) (db_sessions db)))"

definition ListSessions :: "fault \<Rightarrow> time \<Rightarrow> auth_db \<Rightarrow> session list outcome" where
  "ListSessions flt dbnow db =
     (case flt of
        Some e \<Rightarrow> Inl (Failure e)
      | None \<Rightarrow> Inr (sort_key (\<lambda>s. - se_last_seen_at s)
          (filter (\<lambda>s. dbnow < se_expires_at s) (db_sessions db))))"

definition PruneSessions :: "fault \<Rightarrow> time \<Rightarrow> auth_db \<Rightarrow> auth_db outcome" where
  "PruneSessions flt dbnow db =
     (case flt of
        Some e \<Rightarrow> Inl (Failure e)
      | None \<Rightarrow> Inr (db\<lparr>db_sessions := tbl_delete (\<lambda>s. se_expires_at s \<le> dbnow) (db_sessions db)\<rparr>))"

definition CreateAPIToken :: "fault \<Rightarrow> time \<Rightarrow> api_token \<Rightarrow> string \<Rightarrow> auth_db \<Rightarrow> auth_db outcome" where
  "CreateAPIToken flt dbnow t hash db =
     (case flt of
        Some e \<Rightarrow> Inl (Failure e)
      | None \<Rightarrow>
          if tk_scope t \<notin> {''read'', ''write''}
          then Inl (Failure ''CHECK constraint failed: scope IN ('read','write')'')
          else if tk_id t \<in> tk_id ` snd ` set (db_tokens db)
          then Inl (Failure ''UNIQUE constraint failed: api_tokens.id'')
          else if hash \<in> fst ` set (db_tokens db)
          then Inl (Failure ''UNIQUE constraint failed: api_tokens.token_hash'')
          else Inr (db\<lparr>db_tokens := db_tokens db @
            [(hash, \<lparr>tk_id = tk_id t, tk_name = tk_name t, tk_scope = tk_scope t, tk_created_at = dbnow,
                     tk_last_used_at = None, tk_expires_at = map_option isoMillis (tk_expires_at t)\<rparr>)]\<rparr>))"

definition APITokenByHash :: "fault \<Rightarrow> time \<Rightarrow> string \<Rightarrow> auth_db \<Rightarrow> api_token outcome" where
  "APITokenByHash flt now hash db =
     (case flt of
        Some e \<Rightarrow> Inl (Failure e)
      | None \<Rightarrow>
          (case tbl_get fst (db_tokens db) hash of
             None \<Rightarrow> Inl NotFound
           | Some (_, t) \<Rightarrow>
               (case tk_expires_at t of
                  None \<Rightarrow> Inr t
                | Some v \<Rightarrow> if \<not> now < v then Inl NotFound else Inr t)))"

definition TouchAPIToken :: "fault \<Rightarrow> time \<Rightarrow> string \<Rightarrow> auth_db \<Rightarrow> auth_db outcome" where
  "TouchAPIToken flt dbnow i db =
     (case flt of
        Some e \<Rightarrow> Inl (Failure e)
      | None \<Rightarrow> Inr (db\<lparr>db_tokens := tbl_update (\<lambda>(_, t). tk_id t = i)
          (\<lambda>(h, t). (h, t\<lparr>tk_last_used_at := Some dbnow\<rparr>)) (db_tokens db)\<rparr>))"

definition ListAPITokens :: "fault \<Rightarrow> auth_db \<Rightarrow> api_token list outcome" where
  "ListAPITokens flt db =
     (case flt of
        Some e \<Rightarrow> Inl (Failure e)
      | None \<Rightarrow> Inr (sort_key tk_created_at (map snd (db_tokens db))))"

definition DeleteAllAPITokens :: "fault \<Rightarrow> auth_db \<Rightarrow> (auth_db \<times> int) outcome" where
  "DeleteAllAPITokens flt db =
     (case flt of
        Some e \<Rightarrow> Inl (Failure e)
      | None \<Rightarrow> Inr (db\<lparr>db_tokens := []\<rparr>, int (length (db_tokens db))))"

definition DeleteAPIToken :: "fault \<Rightarrow> string \<Rightarrow> auth_db \<Rightarrow> auth_db outcome" where
  "DeleteAPIToken flt i db =
     (case flt of
        Some e \<Rightarrow> Inl (Failure e)
      | None \<Rightarrow>
          if rows_affected (\<lambda>(_, t). tk_id t = i) (db_tokens db) = 0 then Inl NotFound
          else Inr (db\<lparr>db_tokens := tbl_delete (\<lambda>(_, t). tk_id t = i) (db_tokens db)\<rparr>))"

lemmas auth_store_defs = Admin_def SetAdminPassword_def CreateSession_def GetSession_def
  TouchSession_def DeleteSession_def DeleteOtherSessions_def ListSessions_def PruneSessions_def
  CreateAPIToken_def APITokenByHash_def TouchAPIToken_def ListAPITokens_def DeleteAllAPITokens_def
  DeleteAPIToken_def

text \<open>\<open>_ = s.Store.F(...)\<close>: the error is dropped, a failed statement leaves the tables alone.\<close>

definition ignore_error :: "auth_db \<Rightarrow> auth_db outcome \<Rightarrow> auth_db" where
  "ignore_error db r = (case r of Inl _ \<Rightarrow> db | Inr db' \<Rightarrow> db')"

definition ignore_count :: "auth_db \<Rightarrow> (auth_db \<times> int) outcome \<Rightarrow> auth_db" where
  "ignore_count db r = (case r of Inl _ \<Rightarrow> db | Inr (db', _) \<Rightarrow> db')"

lemma isoMillis_le: "isoMillis t \<le> t"
  by (simp add: isoMillis_def millisecond_def minus_mod_eq_div_mult[symmetric])

lemma isoMillis_mono: "t \<le> u \<Longrightarrow> isoMillis t \<le> isoMillis u"
  by (simp add: isoMillis_def millisecond_def zdiv_mono1)

end
