(* ===== verification/Auth.thy ===== *)
theory Auth
  imports AuthStore
begin

text \<open>
  \<open>auth/service.go\<close>: the brute-force limiter, login, logout, the password change, API tokens,
  the authentication of a request and the HTTP middleware.  What the operations read of the
  outside is the record \<open>auth_env\<close>: the clock when the call starts and after the limiter's
  delay and the password check, SQLite's clock, why the request's context ended (if it did), the
  failure of each statement or file operation by the name of its function, what
  \<open>crypto/rand\<close> answers for a number of bytes, and the random UUID.  The operations return
  the new state also when they fail.
\<close>

record fail_record =
  fr_count :: int
  fr_last :: time

record auth_state =
  as_db :: auth_db
  as_fails :: "string \<rightharpoonup> fail_record"
  as_pwfile :: "string option"

record auth_env =
  ae_now :: time
  ae_later :: time
  ae_dbnow :: time
  ae_ctx :: "string option"
  ae_fail :: "string \<Rightarrow> fault"
  ae_rand :: "int \<Rightarrow> string result"
  ae_uuid :: string
  ae_file_left :: "string option"

definition sessionIdle :: duration where "sessionIdle = 24 * hour"
definition sessionAbsolute :: duration where "sessionAbsolute = 7 * 24 * hour"
definition tokenPrefix :: string where "tokenPrefix = ''ergw_''"

subsection \<open>The limiter\<close>

definition limitDelayAfter :: int where "limitDelayAfter = 5"
definition limitLockAfter :: int where "limitLockAfter = 10"
definition limitDelay :: duration where "limitDelay = 2 * second"
definition limitLock :: duration where "limitLock = 15 * minute"

lemmas limit_defs = limitDelayAfter_def limitLockAfter_def limitDelay_def limitLock_def

text \<open>Negative when locked, positive for a delay to apply, \<open>0\<close> otherwise.\<close>

definition limiter_check ::
  "time \<Rightarrow> string \<Rightarrow> (string \<rightharpoonup> fail_record) \<Rightarrow> duration \<times> (string \<rightharpoonup> fail_record)" where
  "limiter_check now ip fails =
     (case fails ip of
        None \<Rightarrow> (0, fails)
      | Some r \<Rightarrow>
          if time_sub now (fr_last r) > limitLock then (0, fails(ip := None))
          else if fr_count r \<ge> limitLockAfter then (- 1, fails)
          else if fr_count r \<ge> limitDelayAfter then (limitDelay, fails)
          else (0, fails))"

definition limiter_fail ::
  "time \<Rightarrow> string \<Rightarrow> (string \<rightharpoonup> fail_record) \<Rightarrow> (string \<rightharpoonup> fail_record)" where
  "limiter_fail now ip fails =
     (let r = (case fails ip of Some r \<Rightarrow> r | None \<Rightarrow> \<lparr>fr_count = 0, fr_last = zero_time\<rparr>)
      in fails(ip \<mapsto> \<lparr>fr_count = fr_count r + 1, fr_last = now\<rparr>))"

definition limiter_reset :: "string \<Rightarrow> (string \<rightharpoonup> fail_record) \<Rightarrow> (string \<rightharpoonup> fail_record)" where
  "limiter_reset ip fails = fails(ip := None)"

subsection \<open>Bootstrap, login, logout, password change\<close>

definition Bootstrap :: "kdf \<Rightarrow> auth_env \<Rightarrow> auth_state \<Rightarrow> go_error option \<times> auth_state" where
  "Bootstrap kdf E s =
     (case Admin (ae_fail E ''Admin'') (as_db s) of
        Inr _ \<Rightarrow> (None, s)
      | Inl e \<Rightarrow>
          if e \<noteq> NoAdmin then (Some e, s)
          else (case GenerateBootstrapPassword (ae_rand E 20) of
                  Inl m \<Rightarrow> (Some (Failure m), s)
                | Inr pw \<Rightarrow>
          (case HashPassword kdf (ae_rand E saltLen) pw of
             Inl e \<Rightarrow> (Some e, s)
           | Inr hash \<Rightarrow>
          (case ae_fail E ''MkdirAll'' of
             Some m \<Rightarrow> (Some (Failure m), s)
           | None \<Rightarrow>
          (case ae_fail E ''WriteFile'' of
             Some m \<Rightarrow> (Some (Failure (''write bootstrap password: '' @ m)), s\<lparr>as_pwfile := ae_file_left E\<rparr>)
           | None \<Rightarrow>
          (let s1 = s\<lparr>as_pwfile := Some (pw @ [CHR 0x0A])\<rparr> in
           case SetAdminPassword (ae_fail E ''SetAdminPassword'') (ae_dbnow E) hash True (as_db s1) of
             Inl e \<Rightarrow> (Some e, s1)
           | Inr db \<Rightarrow> (None, s1\<lparr>as_db := db\<rparr>)))))))"

record principal =
  pr_kind :: string
  pr_id :: string
  pr_name :: string
  pr_scope :: string
  pr_bootstrap :: bool

definition Actor :: "principal \<Rightarrow> string" where
  "Actor p = (if pr_kind p = ''token'' then ''token:'' @ pr_name p else pr_name p)"

definition CanWrite :: "principal \<Rightarrow> bool" where
  "CanWrite p \<longleftrightarrow> pr_scope p = ''write''"

definition truncate_str :: "string \<Rightarrow> nat \<Rightarrow> string" where
  "truncate_str s n = (if length s > n then take n s else s)"

text \<open>The part of \<open>Login\<close> after the password was accepted.\<close>

definition login_accept ::
  "auth_env \<Rightarrow> string \<Rightarrow> string \<Rightarrow> auth_state \<Rightarrow> (session \<times> string) outcome \<times> auth_state" where
  "login_accept E ip ua s =
     (case randomToken (ae_rand E 32) of
        Inl m \<Rightarrow> (Inl (Failure m), s)
      | Inr i \<Rightarrow>
     (case randomToken (ae_rand E 24) of
        Inl m \<Rightarrow> (Inl (Failure m), s)
      | Inr csrf \<Rightarrow>
     (let now = ae_later E;
          sess = \<lparr>se_id = i, se_created_at = now, se_expires_at = now + sessionIdle,
                  se_last_seen_at = now, se_remote_ip = ip, se_user_agent = truncate_str ua 200\<rparr>
      in case CreateSession (ae_fail E ''CreateSession'') (ae_dbnow E) sess (as_db s) of
           Inl e \<Rightarrow> (Inl e, s)
         | Inr db \<Rightarrow>
             (Inr (sess, csrf),
              s\<lparr>as_db := ignore_error db (PruneSessions (ae_fail E ''PruneSessions'') (ae_dbnow E) db)\<rparr>))))"

definition login_verify ::
  "kdf \<Rightarrow> auth_env \<Rightarrow> string \<Rightarrow> string \<Rightarrow> string \<Rightarrow> auth_state \<Rightarrow>
     (session \<times> string) outcome \<times> auth_state" where
  "login_verify kdf E password ip ua s =
     (case Admin (ae_fail E ''Admin'') (as_db s) of
        Inl e \<Rightarrow> (Inl e, s)
      | Inr admin \<Rightarrow>
     (case VerifyPassword kdf (ac_password_hash admin) password of
        Inl e \<Rightarrow> (Inl e, s)
      | Inr False \<Rightarrow> (Inl BadCredentials, s\<lparr>as_fails := limiter_fail (ae_later E) ip (as_fails s)\<rparr>)
      | Inr True \<Rightarrow> login_accept E ip ua (s\<lparr>as_fails := limiter_reset ip (as_fails s)\<rparr>)))"

definition Login ::
  "kdf \<Rightarrow> auth_env \<Rightarrow> string \<Rightarrow> string \<Rightarrow> string \<Rightarrow> auth_state \<Rightarrow>
     (session \<times> string) outcome \<times> auth_state" where
  "Login kdf E password ip ua s =
     (let (wait, fails) = limiter_check (ae_now E) ip (as_fails s);
          s1 = s\<lparr>as_fails := fails\<rparr>
      in if wait < 0 then (Inl RateLimited, s1)
         else if wait > 0 \<and> ae_ctx E \<noteq> None then (Inl (Failure (the (ae_ctx E))), s1)
         else login_verify kdf E password ip ua s1)"

definition Logout :: "auth_env \<Rightarrow> string \<Rightarrow> auth_state \<Rightarrow> go_error option \<times> auth_state" where
  "Logout E i s =
     (case DeleteSession (ae_fail E ''DeleteSession'') i (as_db s) of
        Inl e \<Rightarrow> (Some e, s)
      | Inr db \<Rightarrow> (None, s\<lparr>as_db := db\<rparr>))"

definition change_accept ::
  "kdf \<Rightarrow> auth_env \<Rightarrow> string \<Rightarrow> string \<Rightarrow> bool \<Rightarrow> auth_state \<Rightarrow> go_error option \<times> auth_state" where
  "change_accept kdf E sid newPw keepTokens s =
     (case HashPassword kdf (ae_rand E saltLen) newPw of
        Inl e \<Rightarrow> (Some e, s)
      | Inr hash \<Rightarrow>
     (case SetAdminPassword (ae_fail E ''SetAdminPassword'') (ae_dbnow E) hash False (as_db s) of
        Inl e \<Rightarrow> (Some e, s)
      | Inr db \<Rightarrow>
          (let file = (case ae_fail E ''Remove'' of None \<Rightarrow> None | Some _ \<Rightarrow> as_pwfile s);
               db1 = ignore_count db (DeleteOtherSessions (ae_fail E ''DeleteOtherSessions'') sid db);
               db2 = (if keepTokens then db1
                      else ignore_count db1 (DeleteAllAPITokens (ae_fail E ''DeleteAllAPITokens'') db1))
           in (None, s\<lparr>as_db := db2, as_pwfile := file\<rparr>))))"

definition ChangePassword ::
  "kdf \<Rightarrow> auth_env \<Rightarrow> string \<Rightarrow> string \<Rightarrow> string \<Rightarrow> bool \<Rightarrow> auth_state \<Rightarrow>
     go_error option \<times> auth_state" where
  "ChangePassword kdf E sid oldPw newPw keepTokens s =
     (case Admin (ae_fail E ''Admin'') (as_db s) of
        Inl e \<Rightarrow> (Some e, s)
      | Inr admin \<Rightarrow>
     (case VerifyPassword kdf (ac_password_hash admin) oldPw of
        Inl e \<Rightarrow> (Some e, s)
      | Inr False \<Rightarrow> (Some BadCredentials, s)
      | Inr True \<Rightarrow>
          (case ValidateNewPassword newPw of
             Some m \<Rightarrow> (Some (Policy m), s)
           | None \<Rightarrow> change_accept kdf E sid newPw keepTokens s)))"

subsection \<open>API tokens\<close>

text \<open>\<open>sha\<close> is the hexadecimal SHA-256 digest of a string.\<close>

definition hashToken :: "(string \<Rightarrow> string) \<Rightarrow> string \<Rightarrow> string" where
  "hashToken sha cleartext = sha cleartext"

definition CreateToken ::
  "(string \<Rightarrow> string) \<Rightarrow> auth_env \<Rightarrow> string \<Rightarrow> string \<Rightarrow> duration \<Rightarrow> auth_state \<Rightarrow>
     (api_token \<times> string) outcome \<times> auth_state" where
  "CreateToken sha E name0 scope ttl s =
     (let name = trim_space name0 in
      if name = [] \<or> length name > 64 then (Inl (Policy ''token name must be 1-64 characters''), s)
      else if scope \<noteq> ''read'' \<and> scope \<noteq> ''write''
      then (Inl (Policy ''scope must be read or write''), s)
      else (case randomToken (ae_rand E 32) of
              Inl m \<Rightarrow> (Inl (Failure m), s)
            | Inr secret \<Rightarrow>
                (let t = \<lparr>tk_id = ae_uuid E, tk_name = name, tk_scope = scope, tk_created_at = ae_now E,
                          tk_last_used_at = None,
                          tk_expires_at = (if ttl > 0 then Some (ae_later E + ttl) else None)\<rparr>;
                     cleartext = tokenPrefix @ secret
                 in case CreateAPIToken (ae_fail E ''CreateAPIToken'') (ae_dbnow E) t
                           (hashToken sha cleartext) (as_db s) of
                      Inl e \<Rightarrow> (Inl e, s)
                    | Inr db \<Rightarrow> (Inr (t, cleartext), s\<lparr>as_db := db\<rparr>))))"

subsection \<open>Authenticating a request\<close>

record http_request =
  rq_method :: string
  rq_path :: string
  rq_authorization :: string
  rq_cookie :: "string \<Rightarrow> string option"
  rq_csrf_header :: string
  rq_remote_addr :: string
  rq_user_agent :: string

definition SessionCookie :: string where "SessionCookie = ''ergw_session''"
definition CSRFCookie :: string where "CSRFCookie = ''ergw_csrf''"

definition auth_bearer ::
  "(string \<Rightarrow> string) \<Rightarrow> auth_env \<Rightarrow> string \<Rightarrow> auth_state \<Rightarrow> principal option \<times> auth_state" where
  "auth_bearer sha E h s =
     (let raw = trim_space (trim_prefix h ''Bearer '') in
      if \<not> has_prefix raw tokenPrefix then (None, s)
      else (case APITokenByHash (ae_fail E ''APITokenByHash'') (ae_now E) (hashToken sha raw) (as_db s) of
              Inl _ \<Rightarrow> (None, s)
            | Inr t \<Rightarrow>
                (Some \<lparr>pr_kind = ''token'', pr_id = tk_id t, pr_name = tk_name t, pr_scope = tk_scope t,
                       pr_bootstrap = False\<rparr>,
                 s\<lparr>as_db := ignore_error (as_db s)
                   (TouchAPIToken (ae_fail E ''TouchAPIToken'') (ae_dbnow E) (tk_id t) (as_db s))\<rparr>)))"

definition touch_session :: "auth_env \<Rightarrow> session \<Rightarrow> auth_db \<Rightarrow> auth_db" where
  "touch_session E sess db =
     (if time_sub (ae_now E) (se_last_seen_at sess) > 5 * minute
      then (let exp = ae_later E + sessionIdle; abs = se_created_at sess + sessionAbsolute;
                exp' = (if exp > abs then abs else exp)
            in ignore_error db (TouchSession (ae_fail E ''TouchSession'') (ae_dbnow E) (se_id sess) exp' db))
      else db)"

definition auth_cookie :: "auth_env \<Rightarrow> string option \<Rightarrow> auth_state \<Rightarrow> principal option \<times> auth_state" where
  "auth_cookie E c s =
     (case c of
        None \<Rightarrow> (None, s)
      | Some v \<Rightarrow>
          if v = [] then (None, s)
          else (case GetSession (ae_fail E ''GetSession'') (ae_now E) v (as_db s) of
                  Inl _ \<Rightarrow> (None, s)
                | Inr sess \<Rightarrow>
                    (let s1 = s\<lparr>as_db := touch_session E sess (as_db s)\<rparr> in
                     case Admin (ae_fail E ''Admin'') (as_db s1) of
                       Inl _ \<Rightarrow> (None, s1)
                     | Inr admin \<Rightarrow>
                         (Some \<lparr>pr_kind = ''session'', pr_id = se_id sess, pr_name = ''admin'',
                                pr_scope = ''write'', pr_bootstrap = ac_bootstrap admin\<rparr>, s1))))"

definition Authenticate ::
  "(string \<Rightarrow> string) \<Rightarrow> auth_env \<Rightarrow> http_request \<Rightarrow> auth_state \<Rightarrow> principal option \<times> auth_state" where
  "Authenticate sha E r s =
     (if has_prefix (rq_authorization r) ''Bearer '' then auth_bearer sha E (rq_authorization r) s
      else auth_cookie E (rq_cookie r SessionCookie) s)"

subsection \<open>The middleware\<close>

datatype gate = Denied int string | Passed "principal option"

definition safeMethod :: "string \<Rightarrow> bool" where
  "safeMethod m \<longleftrightarrow> m = ''GET'' \<or> m = ''HEAD'' \<or> m = ''OPTIONS''"

definition csrf_ok :: "http_request \<Rightarrow> bool" where
  "csrf_ok r \<longleftrightarrow>
     (case rq_cookie r CSRFCookie of None \<Rightarrow> False | Some v \<Rightarrow> v \<noteq> [] \<and> v = rq_csrf_header r)"

definition gate_decision :: "bool \<Rightarrow> http_request \<Rightarrow> principal option \<Rightarrow> gate" where
  "gate_decision exempt r po =
     (if exempt then Passed po
      else (case po of
              None \<Rightarrow> Denied 401 ''UNAUTHENTICATED''
            | Some p \<Rightarrow>
                if pr_kind p = ''session'' \<and> pr_bootstrap p \<and> \<not> has_prefix (rq_path r) ''/api/v2/auth/''
                then Denied 403 ''PASSWORD_CHANGE_REQUIRED''
                else if \<not> safeMethod (rq_method r) \<and> pr_kind p = ''session'' \<and> \<not> csrf_ok r
                then Denied 403 ''CSRF''
                else if \<not> safeMethod (rq_method r) \<and> \<not> CanWrite p then Denied 403 ''READ_ONLY''
                else Passed (Some p)))"

definition Middleware ::
  "(string \<Rightarrow> string) \<Rightarrow> (http_request \<Rightarrow> bool) \<Rightarrow> auth_env \<Rightarrow> http_request \<Rightarrow> auth_state \<Rightarrow>
     gate \<times> auth_state" where
  "Middleware sha exempt E r s =
     (case Authenticate sha E r s of (po, s1) \<Rightarrow> (gate_decision (exempt r) r po, s1))"

text \<open>\<open>net.SplitHostPort\<close>, as far as the host goes; \<open>None\<close> is any of its errors.\<close>

definition remote_host :: "string \<Rightarrow> string option" where
  "remote_host hp =
     (case last_index_byte hp CHR '':'' of
        None \<Rightarrow> None
      | Some i \<Rightarrow>
          if hp \<noteq> [] \<and> hd hp = CHR ''[''
          then (case str_index hp '']'' of
                  None \<Rightarrow> None
                | Some e \<Rightarrow>
                    if Suc e \<noteq> i then None
                    else if CHR ''['' \<in> set (drop 1 hp) \<or> CHR '']'' \<in> set (drop (Suc e) hp) then None
                    else Some (take (e - 1) (drop 1 hp)))
          else if CHR '':'' \<in> set (take i hp) \<or> CHR ''['' \<in> set hp \<or> CHR '']'' \<in> set hp then None
          else Some (take i hp))"

definition RemoteIP :: "http_request \<Rightarrow> string" where
  "RemoteIP r = (case remote_host (rq_remote_addr r) of None \<Rightarrow> rq_remote_addr r | Some h \<Rightarrow> h)"

end
