(* ===== verification/ApiCore.thy ===== *)
theory ApiCore
  imports Errors
begin

text \<open>
  Responses of the HTTP API and the error mapping of \<open>api/v2/v2.go\<close>: a response is its status,
  error code and message, its JSON payload (of any type), extra headers and cookies.
\<close>

record cookie =
  ck_name :: string
  ck_value :: string
  ck_http_only :: bool
  ck_secure :: bool
  ck_expires :: "time option"
  ck_max_age :: int

record 'p reply =
  rp_status :: int
  rp_code :: string
  rp_message :: string
  rp_payload :: "'p option"
  rp_headers :: "(string \<times> string) list"
  rp_cookies :: "cookie list"

definition writeJSON :: "int \<Rightarrow> 'p \<Rightarrow> 'p reply" where
  "writeJSON status v = \<lparr>rp_status = status, rp_code = [], rp_message = [], rp_payload = Some v,
     rp_headers = [], rp_cookies = []\<rparr>"

definition writeErr :: "int \<Rightarrow> string \<Rightarrow> string \<Rightarrow> 'p reply" where
  "writeErr status code msg = \<lparr>rp_status = status, rp_code = code, rp_message = msg,
     rp_payload = None, rp_headers = [], rp_cookies = []\<rparr>"

definition api_fail :: "go_error \<Rightarrow> 'p reply" where
  "api_fail err =
     (case root_error err of
        Invalid f m \<Rightarrow> writeErr 422 ''VALIDATION_FAILED'' (error_text (Invalid f m))
      | NotFound \<Rightarrow> writeErr 404 ''NOT_FOUND'' ''not found''
      | _ \<Rightarrow> if isConstraint (error_text err)
             then writeErr 409 ''CONFLICT'' (conflictMessage (error_text err))
             else writeErr 500 ''INTERNAL_ERROR'' ''internal error'')"

definition method_not_allowed :: "string \<Rightarrow> 'p reply" where
  "method_not_allowed allow =
     (writeErr 405 ''METHOD_NOT_ALLOWED'' ''method not allowed; see Allow header'')\<lparr>rp_headers := [(''Allow'', allow)]\<rparr>"

end
