(* ===== verification/AuthApi.thy ===== *)
theory AuthApi
  imports Auth ApiCore
begin

text \<open>
  The HTTP side of authentication: \<open>api/v2/auth.go\<close>, the error mapping of \<open>api/v2/v2.go\<close>
  (\<open>fail\<close>, \<open>sessionOnly\<close>, \<open>actorOf\<close>) and the exempt paths of
  \<open>api/router.go\<close>.  A response is its status, error code and message, JSON payload, extra
  headers and cookies.  What \<open>decode\<close> makes of the body for a handler's input type, and what
  \<open>time.ParseDuration\<close> makes of a text, are arguments.
\<close>

record me_response =
  me_authenticated :: bool
  me_kind :: string
  me_name :: string
  me_scope :: string
  me_must_change :: bool
  me_csrf :: string

definition no_me :: me_response where
  "no_me = \<lparr>me_authenticated = False, me_kind = [], me_name = [], me_scope = [],
            me_must_change = False, me_csrf = []\<rparr>"

record session_view =
  sv_id :: string
  sv_current :: bool
  sv_created_at :: time
  sv_last_seen_at :: time
  sv_expires_at :: time
  sv_remote_ip :: string
  sv_user_agent :: string

datatype auth_payload =
    PMe me_response | PSessions "session_view list" | PTokens "api_token list"
  | PToken api_token string | PChanged | PDeleted int | POther

definition sessionOnly :: "principal option \<Rightarrow> 'p reply option" where
  "sessionOnly po =
     (case po of
        Some p \<Rightarrow> if pr_kind p = ''session'' then None else
          Some (writeErr 403 ''SESSION_REQUIRED''
            ''this resource contains credentials and is only available to a browser session'')
      | None \<Rightarrow>
          Some (writeErr 403 ''SESSION_REQUIRED''
            ''this resource contains credentials and is only available to a browser session''))"

definition trim_cut :: "char set \<Rightarrow> string \<Rightarrow> string" where
  "trim_cut cs s = rev (dropWhile (\<lambda>c. c \<in> cs) (rev (dropWhile (\<lambda>c. c \<in> cs) s)))"

definition actorOf :: "principal option \<Rightarrow> http_request \<Rightarrow> string" where
  "actorOf po r =
     (case po of
        Some p \<Rightarrow> Actor p
      | None \<Rightarrow>
          (let host = rq_remote_addr r;
               host' = (case last_index_byte host CHR '':'' of
                          Some i \<Rightarrow> if i > 0 then take i host else host
                        | None \<Rightarrow> host)
           in trim_cut {CHR ''['', CHR '']''} host'))"

subsection \<open>Cookies\<close>

definition SetSessionCookies :: "bool \<Rightarrow> session \<Rightarrow> string \<Rightarrow> cookie list" where
  "SetSessionCookies secure sess csrf =
     [\<lparr>ck_name = SessionCookie, ck_value = se_id sess, ck_http_only = True, ck_secure = secure,
       ck_expires = Some (se_created_at sess + sessionAbsolute), ck_max_age = 0\<rparr>,
      \<lparr>ck_name = CSRFCookie, ck_value = csrf, ck_http_only = False, ck_secure = secure,
       ck_expires = Some (se_created_at sess + sessionAbsolute), ck_max_age = 0\<rparr>]"

definition ClearSessionCookies :: "cookie list" where
  "ClearSessionCookies =
     map (\<lambda>name. \<lparr>ck_name = name, ck_value = [], ck_http_only = (name = SessionCookie), ck_secure = False,
       ck_expires = None, ck_max_age = - 1\<rparr>) [SessionCookie, CSRFCookie]"

subsection \<open>The handlers\<close>

definition me :: "principal option \<Rightarrow> http_request \<Rightarrow> auth_payload reply" where
  "me po r =
     (case po of
        None \<Rightarrow> writeJSON 200 (PMe no_me)
      | Some p \<Rightarrow> writeJSON 200 (PMe \<lparr>me_authenticated = True, me_kind = pr_kind p, me_name = pr_name p,
          me_scope = pr_scope p, me_must_change = pr_bootstrap p,
          me_csrf = (case rq_cookie r CSRFCookie of None \<Rightarrow> [] | Some v \<Rightarrow> v)\<rparr>))"

definition login ::
  "kdf \<Rightarrow> auth_env \<Rightarrow> bool \<Rightarrow> string outcome \<Rightarrow> http_request \<Rightarrow> auth_state \<Rightarrow> auth_payload reply \<times> auth_state" where
  "login kdf E secure body r s =
     (case body of
        Inl e \<Rightarrow> (api_fail e, s)
      | Inr password \<Rightarrow>
          (case Login kdf E password (RemoteIP r) (rq_user_agent r) s of
             (Inl err, s') \<Rightarrow>
               ((if err = BadCredentials then writeErr 401 ''BAD_CREDENTIALS'' ''wrong password''
                 else if err = RateLimited
                 then (writeErr 429 ''RATE_LIMITED'' (error_text err))\<lparr>rp_headers := [(''Retry-After'', ''900'')]\<rparr>
                 else api_fail err), s')
           | (Inr (sess, csrf), s') \<Rightarrow>
               ((writeJSON 200 (PMe \<lparr>me_authenticated = True, me_kind = ''session'', me_name = ''admin'',
                   me_scope = ''write'',
                   me_must_change = (case Admin (ae_fail E ''Admin again'') (as_db s') of
                                       Inl _ \<Rightarrow> False | Inr a \<Rightarrow> ac_bootstrap a),
                   me_csrf = csrf\<rparr>))\<lparr>rp_cookies := SetSessionCookies secure sess csrf\<rparr>, s')))"

definition logout :: "auth_env \<Rightarrow> principal option \<Rightarrow> auth_state \<Rightarrow> auth_payload reply \<times> auth_state" where
  "logout E po s =
     ((writeJSON 200 (PMe no_me))\<lparr>rp_cookies := ClearSessionCookies\<rparr>,
      (case po of
         None \<Rightarrow> s
       | Some p \<Rightarrow> if pr_kind p = ''session'' then snd (Logout E (pr_id p) s) else s))"

definition changePassword ::
  "kdf \<Rightarrow> auth_env \<Rightarrow> principal option \<Rightarrow> (string \<times> string \<times> bool) outcome \<Rightarrow> auth_state \<Rightarrow>
     auth_payload reply \<times> auth_state" where
  "changePassword kdf E po body s =
     (case po of
        None \<Rightarrow> (writeErr 403 ''SESSION_REQUIRED'' ''password changes require a browser session'', s)
      | Some p \<Rightarrow>
          if pr_kind p \<noteq> ''session''
          then (writeErr 403 ''SESSION_REQUIRED'' ''password changes require a browser session'', s)
          else (case body of
                  Inl e \<Rightarrow> (api_fail e, s)
                | Inr (oldPw, newPw, keep) \<Rightarrow>
                    (case ChangePassword kdf E (pr_id p) oldPw newPw keep s of
                       (None, s') \<Rightarrow> (writeJSON 200 PChanged, s')
                     | (Some BadCredentials, s') \<Rightarrow>
                         (writeErr 401 ''BAD_CREDENTIALS'' ''current password is wrong'', s')
                     | (Some (Policy m), s') \<Rightarrow> (writeErr 422 ''VALIDATION_FAILED'' m, s')
                     | (Some e, s') \<Rightarrow> (api_fail e, s'))))"

definition shortID :: "string \<Rightarrow> string" where
  "shortID i = (if length i > 12 then take 12 i else i)"

definition listSessions :: "auth_env \<Rightarrow> principal option \<Rightarrow> auth_state \<Rightarrow> auth_payload reply" where
  "listSessions E po s =
     (case ListSessions (ae_fail E ''ListSessions'') (ae_dbnow E) (as_db s) of
        Inl e \<Rightarrow> api_fail e
      | Inr sessions \<Rightarrow>
          (let me_id = (case po of None \<Rightarrow> [] | Some p \<Rightarrow> pr_id p) in
           writeJSON 200 (PSessions (map (\<lambda>x. \<lparr>sv_id = shortID (se_id x), sv_current = (se_id x = me_id),
             sv_created_at = se_created_at x, sv_last_seen_at = se_last_seen_at x,
             sv_expires_at = se_expires_at x, sv_remote_ip = se_remote_ip x,
             sv_user_agent = se_user_agent x\<rparr>) sessions))))"

definition deleteSession :: "auth_env \<Rightarrow> string \<Rightarrow> auth_state \<Rightarrow> auth_payload reply \<times> auth_state" where
  "deleteSession E pre s =
     (case ListSessions (ae_fail E ''ListSessions'') (ae_dbnow E) (as_db s) of
        Inl e \<Rightarrow> (api_fail e, s)
      | Inr sessions \<Rightarrow>
          (case find (\<lambda>x. has_prefix (se_id x) pre) sessions of
             None \<Rightarrow> (api_fail NotFound, s)
           | Some x \<Rightarrow>
               (case DeleteSession (ae_fail E ''DeleteSession'') (se_id x) (as_db s) of
                  Inl e \<Rightarrow> (api_fail e, s)
                | Inr db \<Rightarrow> (writeJSON 200 (PDeleted 1), s\<lparr>as_db := db\<rparr>))))"

definition listTokens :: "auth_env \<Rightarrow> auth_state \<Rightarrow> auth_payload reply" where
  "listTokens E s =
     (case ListAPITokens (ae_fail E ''ListAPITokens'') (as_db s) of
        Inl e \<Rightarrow> api_fail e
      | Inr items \<Rightarrow> writeJSON 200 (PTokens items))"

text \<open>\<open>parse\<close> is \<open>time.ParseDuration\<close>, \<open>None\<close> its error.\<close>

definition createToken ::
  "(string \<Rightarrow> string) \<Rightarrow> (string \<Rightarrow> duration option) \<Rightarrow> auth_env \<Rightarrow> principal option \<Rightarrow>
     (string \<times> string \<times> string) outcome \<Rightarrow> auth_state \<Rightarrow> auth_payload reply \<times> auth_state" where
  "createToken sha parse E po body s =
     (if (case po of None \<Rightarrow> True | Some p \<Rightarrow> pr_kind p \<noteq> ''session'')
      then (writeErr 403 ''SESSION_REQUIRED'' ''tokens can only be created from a browser session'', s)
      else (case body of
              Inl e \<Rightarrow> (api_fail e, s)
            | Inr (name, scope, expires_in) \<Rightarrow>
                (case (if expires_in = [] then Some 0
                       else (case parse expires_in of
                               None \<Rightarrow> None
                             | Some v \<Rightarrow> if v \<le> 0 then None else Some v)) of
                   None \<Rightarrow> (api_fail (Invalid ''expires_in'' ''must be a positive duration like 720h''), s)
                 | Some ttl \<Rightarrow>
                     (case CreateToken sha E name (to_lower scope) ttl s of
                        (Inl (Policy m), s') \<Rightarrow> (api_fail (Invalid ''name'' m), s')
                      | (Inl e, s') \<Rightarrow> (api_fail e, s')
                      | (Inr (t, cleartext), s') \<Rightarrow> (writeJSON 201 (PToken t cleartext), s')))))"

definition deleteToken :: "auth_env \<Rightarrow> string \<Rightarrow> auth_state \<Rightarrow> auth_payload reply \<times> auth_state" where
  "deleteToken E i s =
     (case DeleteAPIToken (ae_fail E ''DeleteAPIToken'') i (as_db s) of
        Inl e \<Rightarrow> (api_fail e, s)
      | Inr db \<Rightarrow> (writeJSON 200 (PDeleted 1), s\<lparr>as_db := db\<rparr>))"

subsection \<open>Routing behind the middleware\<close>

record http_body =
  hb_login :: "string outcome"
  hb_password :: "(string \<times> string \<times> bool) outcome"
  hb_token :: "(string \<times> string \<times> string) outcome"

definition exempt_path :: "http_request \<Rightarrow> bool" where
  "exempt_path r \<longleftrightarrow> rq_path r = ''/api/v2/auth/login'' \<or> rq_path r = ''/api/v2/auth/me''"

text \<open>The \<open>{id}\<close> of a pattern: one non-empty path segment.\<close>

definition path_id :: "string \<Rightarrow> string \<Rightarrow> string option" where
  "path_id pre path =
     (let i = drop (length pre) path in
      if has_prefix path pre \<and> i \<noteq> [] \<and> CHR ''/'' \<notin> set i then Some i else None)"

text \<open>
  \<open>registerAuth\<close>; any other path is served by \<open>other\<close> (the rest of the API).  A \<open>GET\<close> pattern
  also serves \<open>HEAD\<close>.
\<close>

definition auth_routes ::
  "kdf \<Rightarrow> (string \<Rightarrow> string) \<Rightarrow> (string \<Rightarrow> duration option) \<Rightarrow> bool \<Rightarrow> auth_env \<Rightarrow>
     (principal option \<Rightarrow> http_request \<Rightarrow> auth_payload reply) \<Rightarrow> http_body \<Rightarrow> principal option \<Rightarrow> http_request \<Rightarrow>
     auth_state \<Rightarrow> auth_payload reply \<times> auth_state" where
  "auth_routes kdf sha parse secure E other b po r s =
     (let m = rq_method r; p = rq_path r; get = (m = ''GET'' \<or> m = ''HEAD'') in
      if p = ''/api/v2/auth/login''
      then (if m = ''POST'' then login kdf E secure (hb_login b) r s else (method_not_allowed ''POST'', s))
      else if p = ''/api/v2/auth/logout''
      then (if m = ''POST'' then logout E po s else (method_not_allowed ''POST'', s))
      else if p = ''/api/v2/auth/me'' then ((if get then me po r else method_not_allowed ''GET''), s)
      else if p = ''/api/v2/auth/password''
      then (if m = ''POST'' then changePassword kdf E po (hb_password b) s else (method_not_allowed ''POST'', s))
      else if p = ''/api/v2/auth/sessions''
      then ((if get then listSessions E po s else method_not_allowed ''GET''), s)
      else if p = ''/api/v2/auth/tokens''
      then (if get then (listTokens E s, s)
            else if m = ''POST'' then createToken sha parse E po (hb_token b) s
            else (method_not_allowed ''GET, POST'', s))
      else (case path_id ''/api/v2/auth/sessions/'' p of
              Some i \<Rightarrow> (if m = ''DELETE'' then deleteSession E i s else (method_not_allowed ''DELETE'', s))
            | None \<Rightarrow>
                (case path_id ''/api/v2/auth/tokens/'' p of
                   Some i \<Rightarrow> (if m = ''DELETE'' then deleteToken E i s else (method_not_allowed ''DELETE'', s))
                 | None \<Rightarrow> (other po r, s))))"

definition denied :: "int \<Rightarrow> string \<Rightarrow> auth_payload reply" where
  "denied status code =
     (if code = ''UNAUTHENTICATED''
      then (writeErr status code ''login required'')\<lparr>rp_headers := [(''Cache-Control'', ''no-store'')]\<rparr>
      else writeErr status code
        (if code = ''PASSWORD_CHANGE_REQUIRED'' then ''change the bootstrap password first''
         else if code = ''CSRF'' then ''missing or mismatched CSRF token''
         else ''token scope is read-only''))"

text \<open>The root handler on an \<open>/api/\<close> path: the middleware, then the routes.\<close>

definition serve_api ::
  "kdf \<Rightarrow> (string \<Rightarrow> string) \<Rightarrow> (string \<Rightarrow> duration option) \<Rightarrow> bool \<Rightarrow> auth_env \<Rightarrow>
     (principal option \<Rightarrow> http_request \<Rightarrow> auth_payload reply) \<Rightarrow> http_body \<Rightarrow> http_request \<Rightarrow> auth_state \<Rightarrow>
     auth_payload reply \<times> auth_state" where
  "serve_api kdf sha parse secure E other b r s =
     (case Middleware sha exempt_path E r s of
        (Denied st c, s1) \<Rightarrow> (denied st c, s1)
      | (Passed po, s1) \<Rightarrow> auth_routes kdf sha parse secure E other b po r s1)"

end
