(* ===== verification/AuthInv.thy ===== *)
theory AuthInv
  imports AuthApi
begin

text \<open>
  The two kinds of principal a request can have, and the invariant of the authentication
  service: session rows are unique and bounded, and no source has more than ten failures on
  record.  The service's runs are the inductive relation \<open>auth_step\<close>: any request through the
  root handler, or the bootstrap.
\<close>

subsection \<open>Principals\<close>

text \<open>The two ways to be somebody.\<close>

definition token_principal :: "(string \<Rightarrow> string) \<Rightarrow> auth_env \<Rightarrow> http_request \<Rightarrow> auth_state \<Rightarrow> principal \<Rightarrow> bool" where
  "token_principal sha E r s p \<longleftrightarrow>
     (\<exists>raw h t. rq_authorization r = ''Bearer '' @ h \<and> raw = trim_space h \<and> has_prefix raw tokenPrefix \<and>
        (sha raw, t) \<in> set (db_tokens (as_db s)) \<and> (tk_expires_at t = None \<or> ae_now E < the (tk_expires_at t)) \<and>
        p = \<lparr>pr_kind = ''token'', pr_id = tk_id t, pr_name = tk_name t, pr_scope = tk_scope t,
             pr_bootstrap = False\<rparr>)"

definition session_principal :: "auth_env \<Rightarrow> http_request \<Rightarrow> auth_state \<Rightarrow> principal \<Rightarrow> bool" where
  "session_principal E r s p \<longleftrightarrow>
     (\<exists>sess adm. rq_cookie r SessionCookie = Some (se_id sess) \<and> sess \<in> set (db_sessions (as_db s)) \<and>
        ae_now E < se_expires_at sess \<and> db_admin (as_db s) = Some adm \<and>
        p = \<lparr>pr_kind = ''session'', pr_id = se_id sess, pr_name = ''admin'', pr_scope = ''write'',
             pr_bootstrap = ac_bootstrap adm\<rparr>)"

lemma APITokenByHash_Inr:
  assumes "APITokenByHash flt now hash db = Inr t"
  shows "(hash, t) \<in> set (db_tokens db) \<and> (tk_expires_at t = None \<or> now < the (tk_expires_at t))"
  using assms tbl_get_Some[of fst "db_tokens db" hash]
  by (auto simp: APITokenByHash_def split: option.splits prod.splits if_splits)

lemma GetSession_Inr:
  assumes "GetSession flt now i db = Inr sess"
  shows "sess \<in> set (db_sessions db) \<and> se_id sess = i \<and> now < se_expires_at sess"
  using assms tbl_get_Some[of se_id "db_sessions db" i]
  by (auto simp: GetSession_def split: option.splits if_splits)

lemma Admin_Inr: "Admin flt db = Inr a \<Longrightarrow> db_admin db = Some a"
  by (auto simp: Admin_def split: option.splits)

lemma ignore_error_cases: "ignore_error db r = db \<or> r = Inr (ignore_error db r)"
  by (cases r) (auto simp: ignore_error_def)

lemma touch_session_cases:
  "touch_session E sess db = db \<or>
   (\<exists>e. e \<le> se_created_at sess + sessionAbsolute \<and> e \<le> ae_later E + sessionIdle \<and>
      touch_session E sess db = db\<lparr>db_sessions := tbl_update (\<lambda>s. se_id s = se_id sess)
        (\<lambda>s. s\<lparr>se_last_seen_at := ae_dbnow E, se_expires_at := isoMillis e\<rparr>) (db_sessions db)\<rparr>)"
proof (cases "time_sub (ae_now E) (se_last_seen_at sess) > 5 * minute")
  case True
  define e where "e = (if ae_later E + sessionIdle > se_created_at sess + sessionAbsolute
    then se_created_at sess + sessionAbsolute else ae_later E + sessionIdle)"
  have "touch_session E sess db =
      ignore_error db (TouchSession (ae_fail E ''TouchSession'') (ae_dbnow E) (se_id sess) e db)"
    using True by (simp add: touch_session_def e_def Let_def)
  moreover have "e \<le> se_created_at sess + sessionAbsolute" "e \<le> ae_later E + sessionIdle"
    by (auto simp: e_def)
  ultimately show ?thesis
    by (cases "ae_fail E ''TouchSession''") (auto simp: ignore_error_def TouchSession_def)
qed (simp add: touch_session_def)

lemma touch_session_admin [simp]: "db_admin (touch_session E sess db) = db_admin db"
  using touch_session_cases[of E sess db] by auto

lemma Authenticate_Some:
  assumes "Authenticate sha E r s = (Some p, s')"
  shows "token_principal sha E r s p \<or> session_principal E r s p"
proof (cases "has_prefix (rq_authorization r) ''Bearer ''")
  case True
  then obtain h where h: "rq_authorization r = ''Bearer '' @ h" unfolding has_prefix_iff by blast
  have tp: "trim_prefix (rq_authorization r) ''Bearer '' = h" unfolding h by (rule trim_prefix_append)
  have "auth_bearer sha E (rq_authorization r) s = (Some p, s')"
    using assms True by (simp add: Authenticate_def)
  then obtain t where t: "has_prefix (trim_space h) tokenPrefix"
      "APITokenByHash (ae_fail E ''APITokenByHash'') (ae_now E) (sha (trim_space h)) (as_db s) = Inr t"
      "p = \<lparr>pr_kind = ''token'', pr_id = tk_id t, pr_name = tk_name t, pr_scope = tk_scope t, pr_bootstrap = False\<rparr>"
    by (auto simp: auth_bearer_def Let_def tp hashToken_def split: if_splits sum.splits)
  show ?thesis
    unfolding token_principal_def using h t(1,3) APITokenByHash_Inr[OF t(2)] by blast
next
  case False
  then have a: "auth_cookie E (rq_cookie r SessionCookie) s = (Some p, s')"
    using assms by (simp add: Authenticate_def)
  then obtain v where v: "rq_cookie r SessionCookie = Some v" "v \<noteq> []"
    by (auto simp: auth_cookie_def split: option.splits if_splits)
  then obtain sess adm where g: "GetSession (ae_fail E ''GetSession'') (ae_now E) v (as_db s) = Inr sess"
      "Admin (ae_fail E ''Admin'') (touch_session E sess (as_db s)) = Inr adm"
      "p = \<lparr>pr_kind = ''session'', pr_id = se_id sess, pr_name = ''admin'', pr_scope = ''write'',
             pr_bootstrap = ac_bootstrap adm\<rparr>"
    using a by (auto simp: auth_cookie_def Let_def split: sum.splits)
  have "db_admin (as_db s) = Some adm" using Admin_Inr[OF g(2)] by simp
  then show ?thesis
    unfolding session_principal_def using v g(3) GetSession_Inr[OF g(1)] by blast
qed

lemma gate_Passed:
  assumes "gate_decision False r po = Passed q"
  obtains p where "po = Some p" "q = Some p"
    "pr_kind p = ''session'' \<and> pr_bootstrap p \<Longrightarrow> has_prefix (rq_path r) ''/api/v2/auth/''"
    "\<not> safeMethod (rq_method r) \<Longrightarrow> CanWrite p"
    "\<not> safeMethod (rq_method r) \<Longrightarrow> pr_kind p = ''session'' \<Longrightarrow> csrf_ok r"
  using assms that by (cases po) (auto simp: gate_decision_def split: if_splits)

lemma csrf_ok_iff:
  "csrf_ok r \<longleftrightarrow> rq_csrf_header r \<noteq> [] \<and> rq_cookie r CSRFCookie = Some (rq_csrf_header r)"
  by (auto simp: csrf_ok_def split: option.splits)

subsection \<open>Runs of the service\<close>

text \<open>The process's clock moves forward, and SQLite's, read after it, is not behind it.\<close>

definition env_ok :: "auth_env \<Rightarrow> bool" where
  "env_ok E \<longleftrightarrow> ae_now E \<le> ae_later E \<and> isoMillis (ae_later E) \<le> ae_dbnow E"

inductive auth_step ::
  "kdf \<Rightarrow> (string \<Rightarrow> string) \<Rightarrow> (string \<Rightarrow> duration option) \<Rightarrow> auth_state \<Rightarrow> auth_state \<Rightarrow> bool"
  for kdf sha parse where
  boot: "env_ok E \<Longrightarrow> auth_step kdf sha parse s (snd (Bootstrap kdf E s))"
| serve: "env_ok E \<Longrightarrow> auth_step kdf sha parse s (snd (serve_api kdf sha parse secure E other b r s))"

abbreviation auth_runs where "auth_runs kdf sha parse \<equiv> (auth_step kdf sha parse)\<^sup>*\<^sup>*"

definition fresh_auth :: auth_state where
  "fresh_auth = \<lparr>as_db = \<lparr>db_admin = None, db_sessions = [], db_tokens = []\<rparr>,
     as_fails = Map.empty, as_pwfile = None\<rparr>"

text \<open>What holds of the tables and of the limiter at all times.\<close>

definition session_bounded :: "session \<Rightarrow> bool" where
  "session_bounded s \<longleftrightarrow> se_expires_at s \<le> se_created_at s + sessionAbsolute \<and>
     se_expires_at s \<le> se_last_seen_at s + sessionIdle"

definition sessions_ok :: "auth_db \<Rightarrow> bool" where
  "sessions_ok db \<longleftrightarrow> unique_key se_id (db_sessions db) \<and> list_all session_bounded (db_sessions db)"

definition limiter_ok :: "(string \<rightharpoonup> fail_record) \<Rightarrow> bool" where
  "limiter_ok fails \<longleftrightarrow> (\<forall>ip r. fails ip = Some r \<longrightarrow> 1 \<le> fr_count r \<and> fr_count r \<le> limitLockAfter)"

definition auth_ok :: "auth_state \<Rightarrow> bool" where
  "auth_ok s \<longleftrightarrow> sessions_ok (as_db s) \<and> limiter_ok (as_fails s)"

text \<open>A change of the database that leaves the sessions alone, or only removes some.\<close>

lemma sessions_ok_delete:
  "sessions_ok db \<Longrightarrow> db_sessions db' = tbl_delete P (db_sessions db) \<Longrightarrow> sessions_ok db'"
  using unique_key_delete[of se_id "db_sessions db" P]
  by (auto simp: sessions_ok_def tbl_delete_def list_all_iff)

lemma sessions_ok_same: "sessions_ok db \<Longrightarrow> db_sessions db' = db_sessions db \<Longrightarrow> sessions_ok db'"
  by (simp add: sessions_ok_def)

lemma sessions_ok_ignore:
  "sessions_ok db \<Longrightarrow> (\<And>db'. r = Inr db' \<Longrightarrow> sessions_ok db') \<Longrightarrow> sessions_ok (ignore_error db r)"
  by (cases r) (auto simp: ignore_error_def)

lemma SetAdminPassword_sessions:
  "SetAdminPassword f n h b db = Inr db' \<Longrightarrow> db_sessions db' = db_sessions db"
  by (auto simp: SetAdminPassword_def split: option.splits)

lemma DeleteSession_ok: "sessions_ok db \<Longrightarrow> DeleteSession f i db = Inr db' \<Longrightarrow> sessions_ok db'"
  by (rule sessions_ok_delete[of db]) (auto simp: DeleteSession_def split: option.splits)

lemma PruneSessions_ok: "sessions_ok db \<Longrightarrow> PruneSessions f n db = Inr db' \<Longrightarrow> sessions_ok db'"
  by (rule sessions_ok_delete[of db]) (auto simp: PruneSessions_def split: option.splits)

lemma DeleteOther_ok: "sessions_ok db \<Longrightarrow> sessions_ok (ignore_count db (DeleteOtherSessions f i db))"
  by (cases f) (auto simp: ignore_count_def DeleteOtherSessions_def elim: sessions_ok_delete)

lemma DeleteAllTokens_ok: "sessions_ok db \<Longrightarrow> sessions_ok (ignore_count db (DeleteAllAPITokens f db))"
  by (cases f) (auto simp: ignore_count_def DeleteAllAPITokens_def elim: sessions_ok_same)

lemma CreateAPIToken_sessions:
  "CreateAPIToken f n t h db = Inr db' \<Longrightarrow> db_sessions db' = db_sessions db"
  by (auto simp: CreateAPIToken_def split: option.splits if_splits)

lemma TouchAPIToken_sessions:
  "TouchAPIToken f n i db = Inr db' \<Longrightarrow> db_sessions db' = db_sessions db"
  by (auto simp: TouchAPIToken_def split: option.splits)

lemma DeleteAPIToken_sessions:
  "DeleteAPIToken f i db = Inr db' \<Longrightarrow> db_sessions db' = db_sessions db"
  by (auto simp: DeleteAPIToken_def split: option.splits if_splits)

lemma session_lengths: "sessionIdle \<le> sessionAbsolute" "0 \<le> sessionIdle"
  by (simp_all add: sessionIdle_def sessionAbsolute_def hour_def minute_def second_def)

lemma isoMillis_shift: "isoMillis (t + sessionIdle) = isoMillis t + sessionIdle"
proof -
  have "(t + 86400000 * 1000000) div 1000000 = 86400000 + t div 1000000" by (rule div_mult_self1) simp
  then show ?thesis
    by (simp add: isoMillis_def millisecond_def sessionIdle_def hour_def minute_def second_def)
qed

lemma touched_bounded:
  assumes "isoMillis (ae_later E) \<le> ae_dbnow E" "e \<le> se_created_at x + sessionAbsolute"
    "e \<le> ae_later E + sessionIdle"
  shows "session_bounded (x\<lparr>se_last_seen_at := ae_dbnow E, se_expires_at := isoMillis e\<rparr>)"
  using assms isoMillis_le[of e] isoMillis_mono[OF assms(3)] isoMillis_shift[of "ae_later E"]
  by (simp add: session_bounded_def)

lemma touch_session_ok:
  assumes "env_ok E" "sessions_ok db" "sess \<in> set (db_sessions db)"
  shows "sessions_ok (touch_session E sess db)"
  using touch_session_cases[of E sess db]
proof
  assume "touch_session E sess db = db"
  then show ?thesis using assms(2) by simp
next
  assume "\<exists>e. e \<le> se_created_at sess + sessionAbsolute \<and> e \<le> ae_later E + sessionIdle \<and>
      touch_session E sess db = db\<lparr>db_sessions := tbl_update (\<lambda>s. se_id s = se_id sess)
        (\<lambda>s. s\<lparr>se_last_seen_at := ae_dbnow E, se_expires_at := isoMillis e\<rparr>) (db_sessions db)\<rparr>"
  then obtain e where e: "e \<le> se_created_at sess + sessionAbsolute" "e \<le> ae_later E + sessionIdle"
    and t: "touch_session E sess db = db\<lparr>db_sessions := tbl_update (\<lambda>s. se_id s = se_id sess)
        (\<lambda>s. s\<lparr>se_last_seen_at := ae_dbnow E, se_expires_at := isoMillis e\<rparr>) (db_sessions db)\<rparr>"
    by blast
  have u: "unique_key se_id (db_sessions db)" and b: "\<forall>x\<in>set (db_sessions db). session_bounded x"
    using assms(2) by (simp_all add: sessions_ok_def list_all_iff)
  have same: "x = sess" if "x \<in> set (db_sessions db)" "se_id x = se_id sess" for x
    using u that assms(3) by (metis tbl_get_in option.inject)
  have "session_bounded y" if "y \<in> set (db_sessions (touch_session E sess db))" for y
    using that b same touched_bounded[of E e sess] e assms(1) unfolding t
    by (auto simp: tbl_update_def env_ok_def)
  moreover have "unique_key se_id (db_sessions (touch_session E sess db))"
    unfolding t using u unique_key_update[of se_id "\<lambda>s. s\<lparr>se_last_seen_at := ae_dbnow E, se_expires_at := isoMillis e\<rparr>"]
    by simp
  ultimately show ?thesis by (simp add: sessions_ok_def list_all_iff)
qed

text \<open>Each operation keeps the invariant.\<close>

lemma auth_okI: "sessions_ok (as_db s) \<Longrightarrow> limiter_ok (as_fails s) \<Longrightarrow> auth_ok s"
  by (simp add: auth_ok_def)

lemma limiter_ok_del: "limiter_ok f \<Longrightarrow> limiter_ok (f(ip := None))"
  by (simp add: limiter_ok_def)

lemma limiter_check_ok: "limiter_ok f \<Longrightarrow> limiter_ok (snd (limiter_check now ip f))"
  by (auto simp: limiter_check_def limiter_ok_del split: option.split)

text \<open>A source that is let through has fewer than ten failures on record.\<close>

lemma limiter_check_count:
  "0 \<le> fst (limiter_check now ip f) \<Longrightarrow> snd (limiter_check now ip f) ip = Some r \<Longrightarrow> fr_count r < limitLockAfter"
  by (auto simp: limiter_check_def split: option.splits if_splits)

lemma limiter_fail_ok:
  "limiter_ok f \<Longrightarrow> (\<And>r. f ip = Some r \<Longrightarrow> fr_count r < limitLockAfter) \<Longrightarrow> limiter_ok (limiter_fail now ip f)"
  by (fastforce simp: limiter_ok_def limiter_fail_def Let_def limitLockAfter_def split: option.split)

lemma CreateSession_ok:
  assumes "sessions_ok db" "isoMillis (ae_later E) \<le> dbnow"
    "se_expires_at x = ae_later E + sessionIdle" "CreateSession f dbnow x db = Inr db'"
  shows "sessions_ok db'"
proof -
  define y where "y = \<lparr>se_id = se_id x, se_created_at = dbnow, se_expires_at = isoMillis (se_expires_at x),
    se_last_seen_at = dbnow, se_remote_ip = se_remote_ip x, se_user_agent = se_user_agent x\<rparr>"
  have d: "db_sessions db' = db_sessions db @ [y]" and n: "tbl_get se_id (db_sessions db) (se_id x) = None"
    using assms(4) by (auto simp: CreateSession_def y_def split: option.splits if_splits)
  have "session_bounded y"
    using assms(2,3) isoMillis_shift[of "ae_later E"] session_lengths
    by (simp add: session_bounded_def y_def)
  moreover have "se_id y \<notin> se_id ` set (db_sessions db)"
    using n by (simp add: tbl_get_None y_def)
  ultimately show ?thesis using assms(1) by (simp add: sessions_ok_def d)
qed

lemma login_accept_ok:
  assumes "env_ok E" "auth_ok s"
  shows "auth_ok (snd (login_accept E ip ua s))"
proof -
  have "sessions_ok (ignore_error db (PruneSessions f (ae_dbnow E) db))"
    if "CreateSession g (ae_dbnow E) x (as_db s) = Inr db" "se_expires_at x = ae_later E + sessionIdle" for f g x db
    using assms CreateSession_ok[OF _ _ that(2,1)]
    by (intro sessions_ok_ignore) (auto simp: auth_ok_def env_ok_def intro: PruneSessions_ok)
  then show ?thesis
    using assms(2)
    by (auto simp: login_accept_def Let_def auth_ok_def split: sum.split)
qed

lemma Login_ok:
  assumes "env_ok E" "auth_ok s"
  shows "auth_ok (snd (Login kdf E pw ip ua s))"
proof -
  obtain wait f where w: "limiter_check (ae_now E) ip (as_fails s) = (wait, f)" by (cases "limiter_check (ae_now E) ip (as_fails s)")
  have f: "limiter_ok f" using assms(2) limiter_check_ok[of "as_fails s" "ae_now E" ip] w by (simp add: auth_ok_def)
  let ?s1 = "s\<lparr>as_fails := f\<rparr>"
  have ok1: "auth_ok ?s1" using f assms(2) by (simp add: auth_ok_def)
  have v: "auth_ok (snd (login_verify kdf E pw ip ua ?s1))" if "0 \<le> wait"
  proof -
    have "limiter_ok (limiter_fail (ae_later E) ip f)"
      using limiter_check_count[of "ae_now E" ip "as_fails s"] that w by (intro limiter_fail_ok[OF f]) simp
    moreover have "auth_ok (snd (login_accept E ip ua (s\<lparr>as_fails := limiter_reset ip f\<rparr>)))"
      using assms f by (intro login_accept_ok) (auto simp: auth_ok_def limiter_reset_def limiter_ok_del)
    ultimately show ?thesis
      using ok1 assms(2) by (auto simp: login_verify_def auth_ok_def split: sum.split bool.split)
  qed
  show ?thesis using v ok1 by (simp add: Login_def Let_def w)
qed

lemma Logout_ok: "auth_ok s \<Longrightarrow> auth_ok (snd (Logout E i s))"
  by (auto simp: Logout_def auth_ok_def intro: DeleteSession_ok split: sum.split)

lemma change_accept_ok: "auth_ok s \<Longrightarrow> auth_ok (snd (change_accept kdf E sid pw keep s))"
  by (auto simp: change_accept_def auth_ok_def Let_def split: sum.split
      intro!: DeleteAllTokens_ok DeleteOther_ok elim: sessions_ok_same dest: SetAdminPassword_sessions)

lemma ChangePassword_ok: "auth_ok s \<Longrightarrow> auth_ok (snd (ChangePassword kdf E sid old new keep s))"
  by (auto simp: ChangePassword_def change_accept_ok split: sum.split bool.split option.split)

lemma CreateToken_ok: "auth_ok s \<Longrightarrow> auth_ok (snd (CreateToken sha E name scope ttl s))"
  by (auto simp: CreateToken_def Let_def auth_ok_def split: sum.split
      elim: sessions_ok_same dest: CreateAPIToken_sessions)

lemma Bootstrap_ok: "auth_ok s \<Longrightarrow> auth_ok (snd (Bootstrap kdf E s))"
  by (auto simp: Bootstrap_def Let_def auth_ok_def split: sum.split option.split
      elim: sessions_ok_same dest: SetAdminPassword_sessions)

lemma Authenticate_ok:
  assumes "env_ok E" "auth_ok s"
  shows "auth_ok (snd (Authenticate sha E r s))"
proof -
  have "auth_ok (snd (auth_bearer sha E h s))" for h
  proof -
    have "sessions_ok (ignore_error (as_db s) (TouchAPIToken f n i (as_db s)))" for f n i
      using assms(2) by (intro sessions_ok_ignore) (auto simp: auth_ok_def elim: sessions_ok_same dest: TouchAPIToken_sessions)
    then show ?thesis using assms(2) by (auto simp: auth_bearer_def Let_def auth_ok_def split: sum.split)
  qed
  moreover have "auth_ok (snd (auth_cookie E c s))" for c
  proof -
    have "sessions_ok (touch_session E x (as_db s))" if "GetSession f n i (as_db s) = Inr x" for f n i x
      using assms GetSession_Inr[OF that] by (intro touch_session_ok) (auto simp: auth_ok_def)
    then show ?thesis
      using assms(2) by (auto simp: auth_cookie_def Let_def auth_ok_def split: option.split sum.split)
  qed
  ultimately show ?thesis by (simp add: Authenticate_def)
qed

lemma login_ok: "env_ok E \<Longrightarrow> auth_ok s \<Longrightarrow> auth_ok (snd (login kdf E secure b r s))"
  using Login_ok[of E s kdf _ "RemoteIP r" "rq_user_agent r"]
  by (auto simp: login_def split: sum.split prod.split) (metis snd_conv)+

lemma logout_ok: "auth_ok s \<Longrightarrow> auth_ok (snd (logout E po s))"
  by (simp add: logout_def Logout_ok split: option.split)

lemma changePassword_state:
  "snd (changePassword kdf E po b s) = s \<or>
     (\<exists>i old new keep. snd (changePassword kdf E po b s) = snd (ChangePassword kdf E i old new keep s))"
proof (cases "po = None \<or> pr_kind (the po) \<noteq> ''session'' \<or> (\<exists>e. b = Inl e)")
  case True
  then show ?thesis by (cases po; cases b) (auto simp: changePassword_def)
next
  case False
  then obtain p old new keep where pb: "po = Some p" "pr_kind p = ''session''" "b = Inr (old, new, keep)"
    by (cases po; cases b) auto
  obtain r s' where c: "ChangePassword kdf E (pr_id p) old new keep s = (r, s')" by (cases "ChangePassword kdf E (pr_id p) old new keep s")
  have "snd (changePassword kdf E po b s) = s'"
  proof (cases r)
    case (Some e)
    then show ?thesis by (cases e) (simp_all add: changePassword_def pb c)
  qed (simp add: changePassword_def pb c)
  then show ?thesis using c by (metis snd_conv)
qed

lemma changePassword_ok: "auth_ok s \<Longrightarrow> auth_ok (snd (changePassword kdf E po b s))"
  using changePassword_state[of kdf E po b s] ChangePassword_ok by metis

lemma deleteSession_ok: "auth_ok s \<Longrightarrow> auth_ok (snd (deleteSession E i s))"
  by (auto simp: deleteSession_def auth_ok_def intro: DeleteSession_ok split: sum.split option.split)

lemma createToken_state:
  "snd (createToken sha parse E po b s) = s \<or>
     (\<exists>name scope ttl. snd (createToken sha parse E po b s) = snd (CreateToken sha E name scope ttl s))"
proof -
  have reply: "snd (case CreateToken sha E name scope ttl s of
        (Inl (Policy m), s') \<Rightarrow> (api_fail (Invalid ''name'' m), s')
      | (Inl e, s') \<Rightarrow> (api_fail e, s')
      | (Inr (t, cleartext), s') \<Rightarrow> (writeJSON 201 (PToken t cleartext), s')) = snd (CreateToken sha E name scope ttl s)"
    for name scope ttl
  proof (cases "CreateToken sha E name scope ttl s")
    case (Pair r s')
    then show ?thesis
    proof (cases r)
      case (Inl e)
      then show ?thesis using Pair by (cases e) simp_all
    qed (simp add: case_prod_beta)
  qed
  show ?thesis
    unfolding createToken_def
    by (cases "case po of None \<Rightarrow> True | Some p \<Rightarrow> pr_kind p \<noteq> ''session''"; cases b)
      (simp_all add: reply split: prod.split option.split, blast)
qed

lemma createToken_ok: "auth_ok s \<Longrightarrow> auth_ok (snd (createToken sha parse E po b s))"
  using createToken_state[of sha parse E po b s] CreateToken_ok by metis

lemma deleteToken_ok: "auth_ok s \<Longrightarrow> auth_ok (snd (deleteToken E i s))"
  by (auto simp: deleteToken_def auth_ok_def split: sum.split elim: sessions_ok_same dest: DeleteAPIToken_sessions)

lemmas handler_ok = login_ok logout_ok changePassword_ok deleteSession_ok createToken_ok deleteToken_ok

lemma auth_routes_ok:
  assumes "env_ok E" "auth_ok s"
  shows "auth_ok (snd (auth_routes kdf sha parse secure E other b po r s))"
  unfolding auth_routes_def Let_def
  using assms by (simp add: handler_ok split: option.split)

lemma serve_api_ok:
  assumes "env_ok E" "auth_ok s"
  shows "auth_ok (snd (serve_api kdf sha parse secure E other b r s))"
proof -
  have "auth_ok (snd (Authenticate sha E r s))" by (rule Authenticate_ok[OF assms])
  then show ?thesis
    using assms(1)
    by (cases "Authenticate sha E r s")
      (auto simp: serve_api_def Middleware_def auth_routes_ok split: gate.split)
qed

lemma auth_step_ok: "auth_step kdf sha parse s t \<Longrightarrow> auth_ok s \<Longrightarrow> auth_ok t"
  by (induction rule: auth_step.induct) (simp_all add: Bootstrap_ok serve_api_ok)

lemma auth_runs_ok: "auth_runs kdf sha parse s t \<Longrightarrow> auth_ok s \<Longrightarrow> auth_ok t"
  by (induction rule: rtranclp_induct) (auto intro: auth_step_ok)

lemma fresh_auth_ok: "auth_ok fresh_auth"
  by (simp add: auth_ok_def sessions_ok_def limiter_ok_def fresh_auth_def)

end
