(* ===== verification/AuthProps.thy ===== *)
theory AuthProps
  imports AuthInv
begin

text \<open>
  What the authentication service guarantees: who gets past the middleware, how long a session
  lives, how often a source may try a password, what a password change revokes, and what a
  failed first start leaves behind.
\<close>

subsection \<open>A run to instantiate the properties with\<close>

text \<open>An environment without faults, at one instant, with a fixed random source.\<close>

definition calm :: "time \<Rightarrow> auth_env" where
  "calm now = \<lparr>ae_now = now, ae_later = now, ae_dbnow = isoMillis now, ae_ctx = None, ae_fail = (\<lambda>_. None),
     ae_rand = (\<lambda>n. Inr (replicate (nat n) CHR ''k'')), ae_uuid = ''u-1'', ae_file_left = None\<rparr>"

definition plain_request :: "string \<Rightarrow> string \<Rightarrow> http_request" where
  "plain_request m p = \<lparr>rq_method = m, rq_path = p, rq_authorization = [], rq_cookie = (\<lambda>_. None),
     rq_csrf_header = [], rq_remote_addr = ''192.168.1.9:51000'', rq_user_agent = ''ua''\<rparr>"

definition one_token_state :: auth_state where
  "one_token_state = \<lparr>as_db = \<lparr>db_admin = None, db_sessions = [],
     db_tokens = [(''ergw_T'', \<lparr>tk_id = ''1'', tk_name = ''ci'', tk_scope = ''write'', tk_created_at = 0,
       tk_last_used_at = None, tk_expires_at = Some 50\<rparr>)]\<rparr>, as_fails = Map.empty, as_pwfile = None\<rparr>"

text \<open>First start, then a login with the generated password.\<close>

definition boot_pw :: string where "boot_pw = ''33333333333333333333''"

definition booted :: auth_state where
  "booted = snd (Bootstrap pad_kdf (calm (1000 * second)) fresh_auth)"

definition login_body :: "string \<Rightarrow> http_body" where
  "login_body pw = \<lparr>hb_login = Inr pw, hb_password = Inl NotFound, hb_token = Inr (''ci'', ''write'', [])\<rparr>"

definition serve_demo :: "time \<Rightarrow> http_body \<Rightarrow> http_request \<Rightarrow> auth_state \<Rightarrow> auth_payload reply \<times> auth_state" where
  "serve_demo now b r s = serve_api pad_kdf id (\<lambda>_. None) False (calm now)
     (\<lambda>_ _. writeErr 404 ''NOT_FOUND'' ''no such endpoint'') b r s"

definition logged_in :: auth_state where
  "logged_in = snd (serve_demo (2000 * second) (login_body boot_pw)
     (plain_request ''POST'' ''/api/v2/auth/login'') booted)"

definition demo_sid :: string where "demo_sid = b64_encode url_alphabet (replicate 32 CHR ''k'')"

definition cookie_request :: "string \<Rightarrow> string \<Rightarrow> http_request" where
  "cookie_request m p = (plain_request m p)\<lparr>rq_csrf_header := ''c'',
     rq_cookie := (\<lambda>n. if n = SessionCookie then Some demo_sid else if n = CSRFCookie then Some ''c'' else None)\<rparr>"

lemma calm_ok: "env_ok (calm t)"
  by (simp add: env_ok_def calm_def)

lemma booted_run: "auth_runs pad_kdf id (\<lambda>_. None) fresh_auth booted"
  unfolding booted_def by (intro r_into_rtranclp auth_step.boot calm_ok)

lemma logged_in_run: "auth_runs pad_kdf id (\<lambda>_. None) fresh_auth logged_in"
  unfolding logged_in_def serve_demo_def
  by (rule rtranclp.rtrancl_into_rtrancl[OF booted_run], rule auth_step.serve, rule calm_ok)

lemma booted_db: "db_admin (as_db booted) \<noteq> None \<and> as_pwfile booted = Some (boot_pw @ [CHR 0x0A])"
  by code_simp

definition boot_salt :: string where "boot_salt = replicate 16 CHR ''k''"

definition booted_with :: "string \<Rightarrow> auth_state" where
  "booted_with h = \<lparr>as_db = \<lparr>db_admin = Some \<lparr>ac_password_hash = h, ac_bootstrap = True,
     ac_updated_at = 1000 * second\<rparr>, db_sessions = [], db_tokens = []\<rparr>, as_fails = Map.empty,
     as_pwfile = Some (boot_pw @ [CHR 0x0A])\<rparr>"

lemma boot_rand: "GenerateBootstrapPassword (ae_rand (calm t) 20) = Inr boot_pw"
  by (simp add: calm_def) code_simp

lemma boot_key: "length (pad_kdf boot_pw boot_salt argonTime argonMemory argonThreads argonKeyLen) = nat argonKeyLen"
  by code_simp

lemma calm_simps: "ae_fail (calm t) n = None" "ae_rand (calm t) saltLen = Inr boot_salt" "ae_now (calm t) = t"
  "ae_later (calm t) = t" "ae_dbnow (calm t) = isoMillis t" "ae_ctx (calm t) = None"
  by (simp_all add: calm_def boot_salt_def saltLen_def)

lemma booted_hash:
  obtains h where "HashPassword pad_kdf (Inr boot_salt) boot_pw = Inr h" "booted = booted_with h"
proof -
  obtain h where h: "HashPassword pad_kdf (Inr boot_salt) boot_pw = Inr h"
    unfolding HashPassword_text by blast
  have i: "isoMillis (1000 * second) = 1000 * second" by code_simp
  have "booted = booted_with h"
    unfolding booted_def Bootstrap_def calm_simps boot_rand h
    by (simp add: fresh_auth_def Admin_def SetAdminPassword_def booted_with_def i h)
  with h that show ?thesis by blast
qed

definition accepted :: "string \<Rightarrow> auth_state" where
  "accepted h = snd (login_accept (calm (2000 * second)) ''192.168.1.9'' ''ua''
     ((booted_with h)\<lparr>as_fails := limiter_reset ''192.168.1.9'' Map.empty\<rparr>))"

lemma logged_in_eq:
  assumes "HashPassword pad_kdf (Inr boot_salt) boot_pw = Inr h" "booted = booted_with h"
  shows "logged_in = accepted h"
proof -
  let ?r = "plain_request ''POST'' ''/api/v2/auth/login''"
  have v: "VerifyPassword pad_kdf h boot_pw = Inr True"
    by (simp add: verify_hashed[OF assms(1) boot_key])
  have ip: "RemoteIP ?r = ''192.168.1.9''" "rq_user_agent ?r = ''ua''" "rq_method ?r = ''POST''"
    "rq_path ?r = ''/api/v2/auth/login''" by code_simp+
  have a: "Authenticate id (calm t) ?r s = (None, s)" for t s
    by (simp add: Authenticate_def plain_request_def auth_cookie_def)
  have l: "Login pad_kdf (calm (2000 * second)) boot_pw ''192.168.1.9'' ''ua'' booted =
      login_accept (calm (2000 * second)) ''192.168.1.9'' ''ua''
       ((booted_with h)\<lparr>as_fails := limiter_reset ''192.168.1.9'' Map.empty\<rparr>)"
    by (simp add: Login_def limiter_check_def assms(2) booted_with_def login_verify_def Admin_def calm_simps v)
  show ?thesis
    unfolding logged_in_def serve_demo_def serve_api_def Middleware_def a
    by (simp add: gate_decision_def exempt_path_def auth_routes_def login_def ip l accepted_def
       login_body_def split: prod.split sum.split)
qed

lemma accepted_auth:
  "fst (Authenticate id (calm (3000 * second)) (cookie_request ''GET'' ''/api/v2/nodes'') (accepted h)) =
     Some \<lparr>pr_kind = ''session'', pr_id = demo_sid, pr_name = ''admin'', pr_scope = ''write'', pr_bootstrap = True\<rparr>"
  by code_simp
subsection \<open>Who may mutate\<close>

text \<open>
  C15. No mutation without authority: when the middleware passes a request with an unsafe method
  to a path other than login and \<open>/me\<close>, the request carries either an unexpired API token of the
  table whose scope is \<open>write\<close>, or the cookie of an unexpired session together with a non-empty
  CSRF header equal to the CSRF cookie; and a session that is still on the bootstrap password is
  passed under \<open>/api/v2/auth/\<close> only.
\<close>

theorem mutation_needs_authority:
  assumes "Middleware sha exempt_path E r s = (Passed q, s')" "\<not> exempt_path r"
    "\<not> safeMethod (rq_method r)"
  shows "\<exists>p. q = Some p \<and>
     ((token_principal sha E r s p \<and> pr_scope p = ''write'') \<or>
      (session_principal E r s p \<and> rq_csrf_header r \<noteq> [] \<and>
       rq_cookie r CSRFCookie = Some (rq_csrf_header r) \<and>
       (\<not> pr_bootstrap p \<or> has_prefix (rq_path r) ''/api/v2/auth/'')))"
proof -
  obtain po where po: "Authenticate sha E r s = (po, s')" "gate_decision False r po = Passed q"
    using assms(1,2) by (auto simp: Middleware_def split: prod.splits)
  obtain p where p: "po = Some p" "q = Some p"
    "pr_kind p = ''session'' \<and> pr_bootstrap p \<Longrightarrow> has_prefix (rq_path r) ''/api/v2/auth/''"
    "CanWrite p" "pr_kind p = ''session'' \<Longrightarrow> csrf_ok r"
    using gate_Passed[OF po(2)] assms(3) by metis
  from Authenticate_Some[OF po(1)[unfolded p(1)]] show ?thesis
  proof
    assume "token_principal sha E r s p"
    then show ?thesis using p(2,4) by (auto simp: CanWrite_def)
  next
    assume a: "session_principal E r s p"
    then have "pr_kind p = ''session''" by (auto simp: session_principal_def)
    then show ?thesis using a p(2,3,5) by (auto simp: csrf_ok_iff)
  qed
qed

theorem mutation_needs_authority_witness:
  "\<exists>p. token_principal id (calm 40)
     ((plain_request ''POST'' ''/api/v2/nodes'')\<lparr>rq_authorization := ''Bearer ergw_T''\<rparr>) one_token_state p \<and>
     pr_scope p = ''write''"
proof -
  let ?r = "(plain_request ''POST'' ''/api/v2/nodes'')\<lparr>rq_authorization := ''Bearer ergw_T''\<rparr>"
  have "fst (Middleware id exempt_path (calm 40) ?r one_token_state) =
      Passed (Some \<lparr>pr_kind = ''token'', pr_id = ''1'', pr_name = ''ci'', pr_scope = ''write'', pr_bootstrap = False\<rparr>)"
    by code_simp
  then obtain q s' where m: "Middleware id exempt_path (calm 40) ?r one_token_state = (Passed q, s')"
    by (metis prod.collapse)
  have e: "\<not> exempt_path ?r" "\<not> safeMethod (rq_method ?r)" by code_simp+
  have "\<not> session_principal (calm 40) ?r one_token_state p" for p
    by (simp add: session_principal_def one_token_state_def)
  then show ?thesis using mutation_needs_authority[OF m e] by blast
qed

subsection \<open>Sessions expire\<close>

text \<open>
  C16. Session lifetime: in every state the service can reach from an empty database, a request
  that is authenticated by a session cookie presents a session of the table that was created less
  than seven days ago and seen less than 24 hours ago, however often it was refreshed in between.
\<close>

theorem session_lifetime:
  assumes "auth_runs kdf sha parse fresh_auth s"
    and "Authenticate sha E r s = (Some p, s')" "pr_kind p = ''session''"
  shows "\<exists>x \<in> set (db_sessions (as_db s)). se_id x = pr_id p \<and> rq_cookie r SessionCookie = Some (se_id x) \<and>
     ae_now E < se_created_at x + 7 * 24 * hour \<and> ae_now E < se_last_seen_at x + 24 * hour"
proof -
  have ok: "list_all session_bounded (db_sessions (as_db s))"
    using auth_runs_ok[OF assms(1) fresh_auth_ok] by (simp add: auth_ok_def sessions_ok_def)
  have "\<not> token_principal sha E r s p" using assms(3) by (auto simp: token_principal_def)
  then have "session_principal E r s p" using Authenticate_Some[OF assms(2)] by blast
  then obtain x where x: "x \<in> set (db_sessions (as_db s))" "rq_cookie r SessionCookie = Some (se_id x)"
    "ae_now E < se_expires_at x" "pr_id p = se_id x"
    by (auto simp: session_principal_def)
  then have "session_bounded x" using ok by (simp add: list_all_iff)
  then show ?thesis using x by (intro bexI[of _ x]) (auto simp: session_bounded_def sessionIdle_def sessionAbsolute_def)
qed

theorem session_lifetime_witness:
  "\<exists>x. x \<in> set (db_sessions (as_db logged_in)) \<and> se_id x = demo_sid \<and>
     3000 * second < se_created_at x + 7 * 24 * hour"
proof -
  obtain h where h: "HashPassword pad_kdf (Inr boot_salt) boot_pw = Inr h" "booted = booted_with h"
    by (rule booted_hash)
  have e: "logged_in = accepted h" by (rule logged_in_eq[OF h])
  obtain s' where a: "Authenticate id (calm (3000 * second)) (cookie_request ''GET'' ''/api/v2/nodes'') logged_in =
     (Some \<lparr>pr_kind = ''session'', pr_id = demo_sid, pr_name = ''admin'', pr_scope = ''write'', pr_bootstrap = True\<rparr>, s')"
    using accepted_auth[of h] unfolding e by (metis prod.collapse)
  show ?thesis using session_lifetime[OF logged_in_run a] by (auto simp: calm_simps)
qed

end
