(* ===== verification/AuthPolicy.thy ===== *)
theory AuthPolicy
  imports AuthProps
begin

text \<open>
  The policies of the authentication service: the lock of a source after ten failures, what a
  password change revokes, the first start, and the API token that a bootstrap session can mint.
\<close>

subsection \<open>The lock\<close>





subsection \<open>Changing the password\<close>


subsection \<open>The first start\<close>

lemma Bootstrap_error_db:
  assumes "Bootstrap kdf E s = (Some e, s1)"
  shows "as_db s1 = as_db s"
  using assms by (auto simp: Bootstrap_def Let_def split: sum.splits option.splits if_splits)

text \<open>
  A first start that fails can be repeated: whatever step of the bootstrap fails, no
  administrator row is written; and the next start without faults writes a row, still marked as
  bootstrap, whose hash accepts exactly the line the password file then holds.
\<close>

theorem bootstrap_retry:
  assumes "Bootstrap kdf E s = (Some e, s1)" "db_admin (as_db s) = None"
    and "ae_fail E' = (\<lambda>_. None)" "ae_rand E' 20 = Inr buf" "ae_rand E' saltLen = Inr salt"
    and "\<And>pw. length (kdf pw salt argonTime argonMemory argonThreads argonKeyLen) = nat argonKeyLen"
  shows "as_db s1 = as_db s \<and>
    (\<exists>pw a s2. Bootstrap kdf E' s1 = (None, s2) \<and> as_pwfile s2 = Some (pw @ [CHR 0x0A]) \<and>
       length pw = length buf \<and> db_admin (as_db s2) = Some a \<and> ac_bootstrap a \<and>
       VerifyPassword kdf (ac_password_hash a) pw = Inr True)"
proof
  show db: "as_db s1 = as_db s" by (rule Bootstrap_error_db[OF assms(1)])
  obtain pw where pw: "GenerateBootstrapPassword (Inr buf) = Inr pw" "length pw = length buf"
    by (simp add: GenerateBootstrapPassword_def randomString_def)
  obtain h where h: "HashPassword kdf (Inr salt) pw = Inr h" unfolding HashPassword_text by blast
  define a where "a = \<lparr>ac_password_hash = h, ac_bootstrap = True, ac_updated_at = ae_dbnow E'\<rparr>"
  have "Bootstrap kdf E' s1 = (None, s1\<lparr>as_pwfile := Some (pw @ [CHR 0x0A]),
      as_db := (as_db s1)\<lparr>db_admin := Some a\<rparr>\<rparr>)"
    by (simp add: Bootstrap_def Admin_def db assms(2,3,4,5) pw(1) h SetAdminPassword_def a_def)
  moreover have "VerifyPassword kdf (ac_password_hash a) pw = Inr True"
    by (simp add: a_def verify_hashed[OF h assms(6)])
  ultimately show "\<exists>pw a s2. Bootstrap kdf E' s1 = (None, s2) \<and> as_pwfile s2 = Some (pw @ [CHR 0x0A]) \<and>
       length pw = length buf \<and> db_admin (as_db s2) = Some a \<and> ac_bootstrap a \<and>
       VerifyPassword kdf (ac_password_hash a) pw = Inr True"
    using pw(2) by (intro exI[of _ pw] exI[of _ a] exI) (auto simp: a_def)
qed

theorem bootstrap_retry_witness:
  "\<exists>e s1 s2 pw a. Bootstrap pad_kdf ((calm 0)\<lparr>ae_fail := (\<lambda>n. if n = ''WriteFile'' then Some ''disk full'' else None)\<rparr>)
       fresh_auth = (Some e, s1) \<and> Bootstrap pad_kdf (calm 5) s1 = (None, s2) \<and>
     as_pwfile s2 = Some (pw @ [CHR 0x0A]) \<and> length pw = 20 \<and> db_admin (as_db s2) = Some a \<and>
     VerifyPassword pad_kdf (ac_password_hash a) pw = Inr True"
proof -
  let ?E = "(calm 0)\<lparr>ae_fail := (\<lambda>n. if n = ''WriteFile'' then Some ''disk full'' else None)\<rparr>"
  have r: "ae_rand ?E n = ae_rand (calm 0) n" for n by simp
  obtain h where h: "HashPassword pad_kdf (Inr boot_salt) boot_pw = Inr h" unfolding HashPassword_text by blast
  obtain e s1 where b: "Bootstrap pad_kdf ?E fresh_auth = (Some e, s1)"
    unfolding Bootstrap_def r boot_rand calm_simps by (simp add: fresh_auth_def Admin_def h)
  have n: "db_admin (as_db fresh_auth) = None" by (simp add: fresh_auth_def)
  have c: "ae_fail (calm 5) = (\<lambda>_. None)" "ae_rand (calm 5) 20 = Inr (replicate 20 CHR ''k'')"
    by (simp_all add: calm_def)
  have l: "length (pad_kdf pw boot_salt argonTime argonMemory argonThreads argonKeyLen) = nat argonKeyLen" for pw
    by (simp add: pad_kdf_def argonKeyLen_def)
  show ?thesis
    using bootstrap_retry[OF b n c calm_simps(2) l] b by (simp only: length_replicate) blast
qed

subsection \<open>Witnesses for the lock and the change\<close>







subsection \<open>What a bootstrap session can do\<close>

lemma url_no_space: "list_all (\<lambda>v. \<not> is_space (sextet url_alphabet v)) [0..63]"
  by code_simp

lemma url_sextet: "0 \<le> v \<Longrightarrow> v < 64 \<Longrightarrow> \<not> is_space (sextet url_alphabet v)"
  using url_no_space by (simp add: list_all_iff)

lemmas url_sextets = url_sextet[OF sextet_range(1,2)] url_sextet[OF sextet_range(3,4)]
  url_sextet[OF sextet_range(5,6)] url_sextet[OF sextet_range(7,8)] url_sextet[OF sextet_range(9,10)]
  url_sextet[OF sextet_range(11,12)]

lemma url_encode_no_space: "\<forall>c\<in>set (b64_encode url_alphabet bs). \<not> is_space c"
  by (induction bs rule: bytes3_induct) (simp_all add: Let_def url_sextets)

lemma token_trim: "trim_space (tokenPrefix @ b64_encode url_alphabet bs) = tokenPrefix @ b64_encode url_alphabet bs"
proof (rule trim_space_id)
  have "\<forall>c\<in>set tokenPrefix. \<not> is_space c" by code_simp
  then show "\<forall>c\<in>set (tokenPrefix @ b64_encode url_alphabet bs). \<not> is_space c"
    using url_encode_no_space[of bs] by auto
qed

lemma tbl_get_append_new: "k \<notin> key ` set xs \<Longrightarrow> key r = k \<Longrightarrow> tbl_get key (xs @ [r]) k = Some r"
  by (induction xs) (auto simp: tbl_get_def)

lemma session_auth_tokens:
  assumes "Authenticate sha E r s = (Some p, s1)" "pr_kind p = ''session''"
  shows "db_tokens (as_db s1) = db_tokens (as_db s)" "db_admin (as_db s1) = db_admin (as_db s)"
proof -
  have t: "db_tokens (touch_session E x db) = db_tokens db" for x db
    using touch_session_cases[of E x db] by auto
  have "auth_cookie E (rq_cookie r SessionCookie) s = (Some p, s1)"
    using assms by (auto simp: Authenticate_def auth_bearer_def Let_def split: if_splits sum.splits)
  then show "db_tokens (as_db s1) = db_tokens (as_db s)" "db_admin (as_db s1) = db_admin (as_db s)"
    by (auto simp: auth_cookie_def Let_def t split: option.splits if_splits sum.splits)
qed

lemma bearer_passes:
  assumes "rq_authorization r = ''Bearer '' @ tok" "trim_space tok = tok" "has_prefix tok tokenPrefix"
    "tbl_get fst (db_tokens (as_db s)) (sha tok) = Some (hsh, t)" "tk_expires_at t = None" "tk_scope t = ''write''"
    "ae_fail E = (\<lambda>_. None)"
  shows "\<exists>p. fst (Middleware sha exempt_path E r s) = Passed (Some p) \<and> CanWrite p \<and> \<not> pr_bootstrap p"
proof -
  have tp: "trim_prefix (''Bearer '' @ tok) ''Bearer '' = tok" by (rule trim_prefix_append)
  have hp: "has_prefix (''Bearer '' @ tok) ''Bearer ''" by (rule has_prefix_append)
  obtain s' where a: "Authenticate sha E r s = (Some \<lparr>pr_kind = ''token'', pr_id = tk_id t, pr_name = tk_name t,
      pr_scope = tk_scope t, pr_bootstrap = False\<rparr>, s')"
    unfolding Authenticate_def auth_bearer_def assms(1) tp
    by (simp only: hp assms(2,3) Let_def APITokenByHash_def assms(4,5,7) hashToken_def) (simp add: assms(5))
  show ?thesis
    by (simp add: Middleware_def a gate_decision_def CanWrite_def assms(6))
qed

text \<open>
  C17. The forced password change can be side-stepped: a session that is still on the generated
  password may post to the token endpoint, since every path under \<open>/api/v2/auth/\<close> is let
  through, and gets a write-scope API token without an expiry.  With that token every request
  passes the middleware as a writer, although the administrator row is still marked as bootstrap;
  the code's comment says the password only unlocks the password change.
\<close>

theorem bootstrap_session_mints_token:
  assumes "Authenticate sha E r s = (Some p, s1)" "pr_kind p = ''session''" "pr_bootstrap p"
    and "rq_method r = ''POST''" "rq_path r = ''/api/v2/auth/tokens''" "csrf_ok r"
    and "hb_token b = Inr (name, ''write'', [])" "trim_space name \<noteq> []" "length (trim_space name) \<le> 64"
    and "ae_fail E = (\<lambda>_. None)" "ae_rand E 32 = Inr buf"
    and "ae_uuid E \<notin> tk_id ` snd ` set (db_tokens (as_db s))"
    and "sha (tokenPrefix @ b64_encode url_alphabet buf) \<notin> fst ` set (db_tokens (as_db s))"
    and "ae_fail E' = (\<lambda>_. None)"
  shows "\<exists>t tok s2 q. serve_api kdf sha parse secure E other b r s = (writeJSON 201 (PToken t tok), s2) \<and>
    db_admin (as_db s2) = db_admin (as_db s) \<and>
    fst (Middleware sha exempt_path E' (r'\<lparr>rq_authorization := ''Bearer '' @ tok\<rparr>) s2) = Passed (Some q) \<and>
    CanWrite q \<and> \<not> pr_bootstrap q"
proof -
  let ?tok = "tokenPrefix @ b64_encode url_alphabet buf"
  have tok: "db_tokens (as_db s1) = db_tokens (as_db s)" "db_admin (as_db s1) = db_admin (as_db s)"
    by (rule session_auth_tokens[OF assms(1,2)])+
  define t where "t = \<lparr>tk_id = ae_uuid E, tk_name = trim_space name, tk_scope = ''write'', tk_created_at = ae_now E,
    tk_last_used_at = None, tk_expires_at = None\<rparr>"
  define row where "row = t\<lparr>tk_created_at := ae_dbnow E\<rparr>"
  define s2 where "s2 = s1\<lparr>as_db := (as_db s1)\<lparr>db_tokens := db_tokens (as_db s1) @ [(sha ?tok, row)]\<rparr>\<rparr>"
  have scope: "to_lower ''write'' = ''write''" by code_simp
  have ex: "\<not> exempt_path r" by (simp add: exempt_path_def assms(5))
  have w: "CanWrite p" using Authenticate_Some[OF assms(1)] assms(2)
    by (auto simp: token_principal_def session_principal_def CanWrite_def)
  have pre: "has_prefix ''/api/v2/auth/tokens'' ''/api/v2/auth/''" by code_simp
  have mw: "Middleware sha exempt_path E r s = (Passed (Some p), s1)"
    using assms(2,3) by (simp add: Middleware_def assms(1,5,6) ex gate_decision_def w pre)
  have "CreateToken sha E name ''write'' 0 s1 = (Inr (t, ?tok), s2)"
    using assms(8,9,12,13)
    by (simp add: CreateToken_def Let_def randomToken_def assms(10,11) hashToken_def CreateAPIToken_def tok(1)
        t_def s2_def row_def)
  then have ct: "createToken sha parse E (Some p) (hb_token b) s1 = (writeJSON 201 (PToken t ?tok), s2)"
    by (simp add: createToken_def assms(2,7) scope)
  have srv: "serve_api kdf sha parse secure E other b r s = (writeJSON 201 (PToken t ?tok), s2)"
    by (simp add: serve_api_def mw auth_routes_def Let_def assms(4,5) ct)
  have get: "tbl_get fst (db_tokens (as_db s2)) (sha ?tok) = Some (sha ?tok, row)"
    using assms(13) tok(1) by (simp add: s2_def tbl_get_append_new)
  have "\<exists>q. fst (Middleware sha exempt_path E' (r'\<lparr>rq_authorization := ''Bearer '' @ ?tok\<rparr>) s2) = Passed (Some q) \<and>
      CanWrite q \<and> \<not> pr_bootstrap q"
    by (rule bearer_passes[where sha = sha and tok = "?tok", OF _ token_trim _ get _ _ assms(14)]) (simp_all add: row_def t_def)
  then show ?thesis using srv tok(2) by (auto simp: s2_def)
qed

theorem bootstrap_session_mints_token_witness:
  "\<exists>t tok s2 q. serve_demo (3000 * second) (login_body boot_pw) (cookie_request ''POST'' ''/api/v2/auth/tokens'') logged_in
       = (writeJSON 201 (PToken t tok), s2) \<and> db_admin (as_db s2) = db_admin (as_db logged_in) \<and>
     fst (Middleware id exempt_path (calm (4000 * second))
       ((plain_request ''PUT'' ''/api/v2/network'')\<lparr>rq_authorization := ''Bearer '' @ tok\<rparr>) s2) = Passed (Some q) \<and>
     CanWrite q \<and> \<not> pr_bootstrap q"
proof -
  obtain h where h: "HashPassword pad_kdf (Inr boot_salt) boot_pw = Inr h" "booted = booted_with h"
    by (rule booted_hash)
  have e: "logged_in = accepted h" by (rule logged_in_eq[OF h])
  let ?r = "cookie_request ''POST'' ''/api/v2/auth/tokens''"
  have "Authenticate id (calm (3000 * second)) ?r logged_in =
      Authenticate id (calm (3000 * second)) (cookie_request ''GET'' ''/api/v2/nodes'') logged_in"
    by (simp add: Authenticate_def cookie_request_def plain_request_def)
  then obtain s' where a: "Authenticate id (calm (3000 * second)) ?r logged_in =
     (Some \<lparr>pr_kind = ''session'', pr_id = demo_sid, pr_name = ''admin'', pr_scope = ''write'', pr_bootstrap = True\<rparr>, s')"
    using accepted_auth[of h] unfolding e
    by (cases "Authenticate id (calm (3000 * second)) (cookie_request ''GET'' ''/api/v2/nodes'') (accepted h)") auto
  have none: "db_tokens (as_db logged_in) = []" unfolding e by code_simp
  have q: "rq_method ?r = ''POST''" "rq_path ?r = ''/api/v2/auth/tokens''" "csrf_ok ?r" by code_simp+
  have n: "trim_space ''ci'' \<noteq> []" "length (trim_space ''ci'') \<le> 64" by code_simp+
  have b: "hb_token (login_body boot_pw) = Inr (''ci'', ''write'', [])" by (simp add: login_body_def)
  have f: "ae_fail (calm t) = (\<lambda>_. None)" "ae_rand (calm t) 32 = Inr (replicate 32 CHR ''k'')" for t
    by (simp_all add: calm_def)
  show ?thesis
    unfolding serve_demo_def
    by (rule bootstrap_session_mints_token[OF a _ _ q b n f(1) f(2) _ _ f(1)]) (simp_all add: none)
qed

end
