(* ===== verification/StoreDb.thy ===== *)
theory StoreDb
  imports Table Errors Model
begin

text \<open>
  The tables of the desired state and the statements of \<open>store/nodes.go\<close>,
  \<open>store/devices.go\<close> and \<open>store/config.go\<close> on them.  A table is the list of its rows in insertion
  order; a statement either gives the new tables or the error of the constraint it breaks
  (\<open>migrations/*.sql\<close>: unique keys, foreign keys, checks, cascades).  \<open>now\<close> is SQLite's clock
  in the statement.  A \<open>NULL\<close> \<open>action_ref\<close> is the empty string, as the queries read it.
\<close>

record node_row = node +
  nr_cred :: "string option"

record group_row =
  gr_id :: string
  gr_name :: string
  gr_kind :: group_kind
  gr_strategy :: string
  gr_created_at :: time
  gr_updated_at :: time

record member_row =
  mr_group :: string
  mr_node :: string
  mr_position :: int

text \<open>The two columns of a deployment row that a node deletion touches.\<close>

record deploy_ref =
  dr_id :: string
  dr_node :: "string option"

record tables =
  t_nodes :: "node_row list"
  t_groups :: "group_row list"
  t_members :: "member_row list"
  t_rule_sets :: "rule_set list"
  t_rules :: "rule list"
  t_devices :: "device_policy list"
  t_bypass :: "bypass_destination list"
  t_network :: network_config
  t_dns :: dns_config
  t_deploys :: "deploy_ref list"

definition affectedOne :: "int \<Rightarrow> 's \<Rightarrow> 's outcome" where
  "affectedOne n s = (if n = 0 then Inl NotFound else Inr s)"

definition unique_failed :: "string \<Rightarrow> go_error" where
  "unique_failed col = Failure (''UNIQUE constraint failed: '' @ col)"

definition check_failed :: "string \<Rightarrow> go_error" where
  "check_failed tab = Failure (''CHECK constraint failed: '' @ tab)"

definition fk_failed :: go_error where
  "fk_failed = Failure ''FOREIGN KEY constraint failed''"

subsection \<open>Nodes\<close>

definition protocol_known :: "protocol \<Rightarrow> bool" where
  "protocol_known p \<longleftrightarrow> (case p of ProtocolOther _ \<Rightarrow> False | _ \<Rightarrow> True)"

definition node_check :: "node_row \<Rightarrow> bool" where
  "node_check n \<longleftrightarrow> protocol_known (n_protocol n) \<and> 1 \<le> n_port n \<and> n_port n \<le> 65535"

definition ListNodes :: "tables \<Rightarrow> node_row list" where
  "ListNodes db = sort_key (\<lambda>n. (n_created_at n, n_id n)) (t_nodes db)"

definition GetNode :: "string \<Rightarrow> tables \<Rightarrow> node_row outcome" where
  "GetNode i db = (case tbl_get n_id (t_nodes db) i of None \<Rightarrow> Inl NotFound | Some n \<Rightarrow> Inr n)"

definition InsertNode :: "time \<Rightarrow> node_row \<Rightarrow> tables \<Rightarrow> tables outcome" where
  "InsertNode now n db =
     (if \<not> node_check n then Inl (check_failed ''nodes'')
      else if tbl_get n_id (t_nodes db) (n_id n) \<noteq> None then Inl (unique_failed ''nodes.id'')
      else if n_is_default n \<and> (\<exists>m\<in>set (t_nodes db). n_is_default m)
      then Inl (unique_failed ''nodes.is_default'')
      else Inr (db\<lparr>t_nodes := t_nodes db @ [n\<lparr>n_credential := [], n_created_at := now, n_updated_at := now\<rparr>]\<rparr>))"

text \<open>A \<open>nil\<close> credential keeps the stored one, an empty one clears it.\<close>

definition new_cred :: "string option \<Rightarrow> string option \<Rightarrow> string option" where
  "new_cred old new = (case new of None \<Rightarrow> old | Some c \<Rightarrow> if c = [] then None else Some c)"

definition UpdateNode :: "time \<Rightarrow> node_row \<Rightarrow> tables \<Rightarrow> tables outcome" where
  "UpdateNode now n db =
     (if rows_affected (\<lambda>m. n_id m = n_id n) (t_nodes db) \<noteq> 0 \<and> \<not> node_check n
      then Inl (check_failed ''nodes'')
      else affectedOne (rows_affected (\<lambda>m. n_id m = n_id n) (t_nodes db))
        (db\<lparr>t_nodes := tbl_update (\<lambda>m. n_id m = n_id n)
          (\<lambda>m. m\<lparr>n_name := n_name n, n_protocol := n_protocol n, n_address := n_address n, n_port := n_port n,
                n_params := n_params n, n_enabled := n_enabled n, n_updated_at := now,
                nr_cred := new_cred (nr_cred m) (nr_cred n)\<rparr>) (t_nodes db)\<rparr>))"

definition SetNodeEnabled :: "time \<Rightarrow> string \<Rightarrow> bool \<Rightarrow> tables \<Rightarrow> tables outcome" where
  "SetNodeEnabled now i enabled db =
     affectedOne (rows_affected (\<lambda>m. n_id m = i) (t_nodes db))
       (db\<lparr>t_nodes := tbl_update (\<lambda>m. n_id m = i)
         (\<lambda>m. m\<lparr>n_enabled := enabled, n_updated_at := now\<rparr>) (t_nodes db)\<rparr>)"

definition SetDefaultNode :: "time \<Rightarrow> string \<Rightarrow> tables \<Rightarrow> tables outcome" where
  "SetDefaultNode now i db =
     (if rows_affected (\<lambda>m. n_id m = i) (t_nodes db) = 0 then Inl NotFound
      else (let cleared = tbl_update n_is_default (\<lambda>m. m\<lparr>n_is_default := False\<rparr>) (t_nodes db)
            in Inr (db\<lparr>t_nodes := tbl_update (\<lambda>m. n_id m = i)
                 (\<lambda>m. m\<lparr>n_is_default := True, n_updated_at := now\<rparr>) cleared\<rparr>)))"

text \<open>The \<open>UPDATE\<close> that sends rules with a vanished target back to the default outbound.\<close>

definition retarget :: "time \<Rightarrow> action_kind \<Rightarrow> string \<Rightarrow> rule list \<Rightarrow> rule list" where
  "retarget now k i rules =
     tbl_update (\<lambda>r. ru_action_kind r = k \<and> ru_action_ref r = i)
       (\<lambda>r. r\<lparr>ru_action_kind := ActionProxy, ru_action_ref := [], ru_updated_at := now\<rparr>) rules"

definition retargeted :: "action_kind \<Rightarrow> string \<Rightarrow> rule list \<Rightarrow> int" where
  "retargeted k i rules = rows_affected (\<lambda>r. ru_action_kind r = k \<and> ru_action_ref r = i) rules"

text \<open>Deleting a node row cascades to memberships and clears deployments.\<close>

definition drop_nodes :: "(node_row \<Rightarrow> bool) \<Rightarrow> tables \<Rightarrow> tables" where
  "drop_nodes P db =
     (let gone = n_id ` set (filter P (t_nodes db)) in
      db\<lparr>t_nodes := tbl_delete P (t_nodes db),
         t_members := tbl_delete (\<lambda>m. mr_node m \<in> gone) (t_members db),
         t_deploys := map (\<lambda>d. case dr_node d of
             Some i \<Rightarrow> if i \<in> gone then d\<lparr>dr_node := None\<rparr> else d | None \<Rightarrow> d) (t_deploys db)\<rparr>)"

definition DeleteNode :: "time \<Rightarrow> string \<Rightarrow> tables \<Rightarrow> (tables \<times> int) outcome" where
  "DeleteNode now i db =
     (let n = retargeted ActionNode i (t_rules db);
          db1 = db\<lparr>t_rules := retarget now ActionNode i (t_rules db)\<rparr>
      in bind_outcome (affectedOne (rows_affected (\<lambda>m. n_id m = i) (t_nodes db1))
           (drop_nodes (\<lambda>m. n_id m = i) db1)) (\<lambda>db2. Inr (db2, n)))"

definition UpdateNodeLatency :: "string \<Rightarrow> int option \<Rightarrow> tables \<Rightarrow> tables" where
  "UpdateNodeLatency i ms db =
     db\<lparr>t_nodes := tbl_update (\<lambda>m. n_id m = i) (\<lambda>m. m\<lparr>n_latency_ms := ms\<rparr>) (t_nodes db)\<rparr>"

subsection \<open>Groups\<close>

definition members_of :: "member_row list \<Rightarrow> string \<Rightarrow> string list" where
  "members_of ms i = map mr_node (sort_key mr_position (filter (\<lambda>m. mr_group m = i) ms))"

definition group_of :: "tables \<Rightarrow> group_row \<Rightarrow> outbound_group" where
  "group_of db g =
     \<lparr>g_id = gr_id g, g_name = gr_name g, g_kind = gr_kind g, g_member_ids = members_of (t_members db) (gr_id g),
      g_strategy = gr_strategy g, g_created_at = gr_created_at g, g_updated_at = gr_updated_at g\<rparr>"

definition ListGroups :: "tables \<Rightarrow> outbound_group list" where
  "ListGroups db = map (group_of db) (sort_key (\<lambda>g. (gr_created_at g, gr_id g)) (t_groups db))"

definition GetGroup :: "string \<Rightarrow> tables \<Rightarrow> outbound_group outcome" where
  "GetGroup i db =
     (case find (\<lambda>g. g_id g = i) (ListGroups db) of None \<Rightarrow> Inl NotFound | Some g \<Rightarrow> Inr g)"

definition insert_member :: "string \<Rightarrow> int \<times> string \<Rightarrow> tables \<Rightarrow> tables outcome" where
  "insert_member g p db =
     (if \<exists>m\<in>set (t_members db). mr_group m = g \<and> mr_node m = snd p
      then Inl (unique_failed ''outbound_group_members.group_id, outbound_group_members.node_id'')
      else if tbl_get gr_id (t_groups db) g = None \<or> tbl_get n_id (t_nodes db) (snd p) = None
      then Inl fk_failed
      else Inr (db\<lparr>t_members := t_members db @ [\<lparr>mr_group = g, mr_node = snd p, mr_position = fst p\<rparr>]\<rparr>))"

definition group_kind_known :: "group_kind \<Rightarrow> bool" where
  "group_kind_known k \<longleftrightarrow> k = GroupFailover \<or> k = GroupLoadBalance"

text \<open>The \<open>INSERT ... ON CONFLICT(id)\<close> of a group row.\<close>

definition put_group :: "time \<Rightarrow> outbound_group \<Rightarrow> string \<Rightarrow> tables \<Rightarrow> tables outcome" where
  "put_group now g strategy db =
     (if \<not> group_kind_known (g_kind g) then Inl (check_failed ''outbound_groups'')
      else if \<exists>x\<in>set (t_groups db). gr_id x \<noteq> g_id g \<and> gr_name x = g_name g
      then Inl (unique_failed ''outbound_groups.name'')
      else Inr (db\<lparr>t_groups := tbl_upsert gr_id
        (\<lambda>old new. old\<lparr>gr_name := gr_name new, gr_kind := gr_kind new, gr_strategy := gr_strategy new,
                      gr_updated_at := now\<rparr>) (t_groups db)
        \<lparr>gr_id = g_id g, gr_name = g_name g, gr_kind = g_kind g, gr_strategy = strategy,
         gr_created_at = now, gr_updated_at = now\<rparr>\<rparr>))"

definition UpsertGroup :: "time \<Rightarrow> outbound_group \<Rightarrow> tables \<Rightarrow> tables outcome" where
  "UpsertGroup now g db =
     bind_outcome (put_group now g (if g_strategy g = [] then ''{}'' else g_strategy g) db) (\<lambda>db1.
       fold_outcome (\<lambda>p db. case insert_member (g_id g) p db of
           Inl e \<Rightarrow> Inl (Wrapped (''member '' @ snd p) e) | Inr db \<Rightarrow> Inr db)
         (zip [0..int (length (g_member_ids g)) - 1] (g_member_ids g))
         (db1\<lparr>t_members := tbl_delete (\<lambda>m. mr_group m = g_id g) (t_members db1)\<rparr>))"

definition drop_groups :: "(group_row \<Rightarrow> bool) \<Rightarrow> tables \<Rightarrow> tables" where
  "drop_groups P db =
     (let gone = gr_id ` set (filter P (t_groups db)) in
      db\<lparr>t_groups := tbl_delete P (t_groups db),
         t_members := tbl_delete (\<lambda>m. mr_group m \<in> gone) (t_members db)\<rparr>)"

definition DeleteGroup :: "time \<Rightarrow> string \<Rightarrow> tables \<Rightarrow> (tables \<times> int) outcome" where
  "DeleteGroup now i db =
     (let n = retargeted ActionGroup i (t_rules db);
          db1 = db\<lparr>t_rules := retarget now ActionGroup i (t_rules db)\<rparr>
      in bind_outcome (affectedOne (rows_affected (\<lambda>g. gr_id g = i) (t_groups db1))
           (drop_groups (\<lambda>g. gr_id g = i) db1)) (\<lambda>db2. Inr (db2, n)))"

subsection \<open>Device policies and bypass destinations\<close>

definition device_check :: "device_policy \<Rightarrow> bool" where
  "device_check d \<longleftrightarrow> (case dp_kind d of DeviceKindOther _ \<Rightarrow> False | _ \<Rightarrow> True) \<and>
     (case dp_action d of DeviceActionOther _ \<Rightarrow> False | _ \<Rightarrow> True)"

definition ListDevicePolicies :: "tables \<Rightarrow> device_policy list" where
  "ListDevicePolicies db = sort_key dp_created_at (t_devices db)"

definition InsertDevicePolicy :: "time \<Rightarrow> device_policy \<Rightarrow> tables \<Rightarrow> tables outcome" where
  "InsertDevicePolicy now d db =
     (if \<not> device_check d then Inl (check_failed ''device_policies'')
      else if tbl_get dp_id (t_devices db) (dp_id d) \<noteq> None then Inl (unique_failed ''device_policies.id'')
      else if \<exists>x\<in>set (t_devices db). dp_kind x = dp_kind d \<and> dp_value x = dp_value d
      then Inl (unique_failed ''device_policies.kind, device_policies.value'')
      else Inr (db\<lparr>t_devices := t_devices db @ [d\<lparr>dp_created_at := now, dp_updated_at := now\<rparr>]\<rparr>))"

definition UpdateDevicePolicy :: "time \<Rightarrow> device_policy \<Rightarrow> tables \<Rightarrow> tables outcome" where
  "UpdateDevicePolicy now d db =
     (let n = rows_affected (\<lambda>x. dp_id x = dp_id d) (t_devices db) in
      if n \<noteq> 0 \<and> \<not> device_check d then Inl (check_failed ''device_policies'')
      else if n \<noteq> 0 \<and> (\<exists>x\<in>set (t_devices db). dp_id x \<noteq> dp_id d \<and> dp_kind x = dp_kind d \<and> dp_value x = dp_value d)
      then Inl (unique_failed ''device_policies.kind, device_policies.value'')
      else affectedOne n (db\<lparr>t_devices := tbl_update (\<lambda>x. dp_id x = dp_id d)
        (\<lambda>x. x\<lparr>dp_kind := dp_kind d, dp_value := dp_value d, dp_action := dp_action d,
              dp_remark := dp_remark d, dp_updated_at := now\<rparr>) (t_devices db)\<rparr>))"

definition DeleteDevicePolicy :: "string \<Rightarrow> tables \<Rightarrow> tables outcome" where
  "DeleteDevicePolicy i db =
     affectedOne (rows_affected (\<lambda>x. dp_id x = i) (t_devices db))
       (db\<lparr>t_devices := tbl_delete (\<lambda>x. dp_id x = i) (t_devices db)\<rparr>)"

definition ListBypassDestinations :: "tables \<Rightarrow> bypass_destination list" where
  "ListBypassDestinations db = sort_key (\<lambda>b. (bd_created_at b, bd_id b)) (t_bypass db)"

definition InsertBypassDestination :: "time \<Rightarrow> bypass_destination \<Rightarrow> tables \<Rightarrow> tables outcome" where
  "InsertBypassDestination now b db =
     (if tbl_get bd_id (t_bypass db) (bd_id b) \<noteq> None then Inl (unique_failed ''bypass_destinations.id'')
      else if tbl_get bd_cidr (t_bypass db) (bd_cidr b) \<noteq> None
      then Inl (unique_failed ''bypass_destinations.cidr'')
      else Inr (db\<lparr>t_bypass := t_bypass db @ [b\<lparr>bd_created_at := now\<rparr>]\<rparr>))"

definition UpdateBypassRemark :: "string \<Rightarrow> string \<Rightarrow> tables \<Rightarrow> tables outcome" where
  "UpdateBypassRemark i remark db =
     affectedOne (rows_affected (\<lambda>b. bd_id b = i) (t_bypass db))
       (db\<lparr>t_bypass := tbl_update (\<lambda>b. bd_id b = i) (\<lambda>b. b\<lparr>bd_remark := remark\<rparr>) (t_bypass db)\<rparr>)"

definition DeleteBypassDestination :: "string \<Rightarrow> tables \<Rightarrow> tables outcome" where
  "DeleteBypassDestination i db =
     affectedOne (rows_affected (\<lambda>b. bd_id b = i) (t_bypass db))
       (db\<lparr>t_bypass := tbl_delete (\<lambda>b. bd_id b = i) (t_bypass db)\<rparr>)"

subsection \<open>The configuration rows\<close>

definition network_check :: "network_config \<Rightarrow> bool" where
  "network_check c \<longleftrightarrow> mode_valid (nc_mode c) \<and> nc_lan_default_policy c \<in> {''proxy'', ''direct''} \<and>
     nc_node_failover_mode c \<in> {''normal'', ''strict''}"

definition UpdateNetworkConfig :: "time \<Rightarrow> network_config \<Rightarrow> tables \<Rightarrow> tables outcome" where
  "UpdateNetworkConfig now c db =
     (if \<not> network_check c then Inl (check_failed ''network_config'')
      else Inr (db\<lparr>t_network := c\<lparr>nc_updated_at := now\<rparr>\<rparr>))"

definition UpdateDNSConfig :: "time \<Rightarrow> dns_config \<Rightarrow> tables \<Rightarrow> tables outcome" where
  "UpdateDNSConfig now c db =
     (if dc_log_level c \<notin> {''debug'', ''info'', ''warn'', ''error''} then Inl (check_failed ''dns_config'')
      else Inr (db\<lparr>t_dns := c\<lparr>dc_updated_at := now\<rparr>\<rparr>))"

lemmas store_db_defs = InsertNode_def UpdateNode_def SetNodeEnabled_def SetDefaultNode_def DeleteNode_def
  UpdateNodeLatency_def UpsertGroup_def DeleteGroup_def InsertDevicePolicy_def UpdateDevicePolicy_def
  DeleteDevicePolicy_def InsertBypassDestination_def UpdateBypassRemark_def DeleteBypassDestination_def
  UpdateNetworkConfig_def UpdateDNSConfig_def

lemma affectedOne_Inr [simp]: "affectedOne n s = Inr s' \<longleftrightarrow> n \<noteq> 0 \<and> s' = s"
  by (auto simp: affectedOne_def)

lemma affectedOne_Inl [simp]: "affectedOne n s = Inl e \<longleftrightarrow> n = 0 \<and> e = NotFound"
  by (auto simp: affectedOne_def)

end
