(* ===== verification/StoreRules.thy ===== *)
theory StoreRules
  imports StoreDb
begin

text \<open>
  \<open>store/rules.go\<close> and \<open>store/builtin.go\<close>: rule sets, rules, their order, and the built-in set
  that the first start creates or adopts.
\<close>

subsection \<open>Queries\<close>

definition ListRuleSets :: "tables \<Rightarrow> rule_set list" where
  "ListRuleSets db = sort_key (\<lambda>s. (\<not> rs_builtin s, rs_position s, rs_created_at s)) (t_rule_sets db)"

text \<open>\<open>setID = ""\<close> means all sets; the join drops rules of a set that does not exist.\<close>

definition rule_order :: "tables \<Rightarrow> rule \<Rightarrow> int \<times> time \<times> int \<times> time" where
  "rule_order db r =
     (case tbl_get rs_id (t_rule_sets db) (ru_set_id r) of
        Some s \<Rightarrow> (rs_position s, rs_created_at s, ru_position r, ru_created_at r)
      | None \<Rightarrow> (0, 0, ru_position r, ru_created_at r))"

definition ListRules :: "string \<Rightarrow> tables \<Rightarrow> rule list" where
  "ListRules setID db =
     sort_key (rule_order db)
       (filter (\<lambda>r. tbl_get rs_id (t_rule_sets db) (ru_set_id r) \<noteq> None \<and> (setID = [] \<or> ru_set_id r = setID))
         (t_rules db))"

subsection \<open>Rule sets\<close>

text \<open>\<open>COALESCE((SELECT MAX(position)+1 FROM ...), 0)\<close>\<close>

definition next_position :: "int list \<Rightarrow> int" where
  "next_position ps = (case ps of [] \<Rightarrow> 0 | p # qs \<Rightarrow> foldl max p qs + 1)"

definition InsertRuleSet :: "time \<Rightarrow> string \<Rightarrow> string \<Rightarrow> tables \<Rightarrow> tables outcome" where
  "InsertRuleSet now i name db =
     (if tbl_get rs_id (t_rule_sets db) i \<noteq> None then Inl (unique_failed ''rule_sets.id'')
      else Inr (db\<lparr>t_rule_sets := t_rule_sets db @
        [\<lparr>rs_id = i, rs_name = name, rs_position = next_position (map rs_position (t_rule_sets db)),
          rs_enabled = True, rs_builtin = False, rs_created_at = now, rs_updated_at = now\<rparr>]\<rparr>))"

definition UpdateRuleSet :: "time \<Rightarrow> string \<Rightarrow> string \<Rightarrow> bool \<Rightarrow> tables \<Rightarrow> tables outcome" where
  "UpdateRuleSet now i name enabled db =
     affectedOne (rows_affected (\<lambda>s. rs_id s = i) (t_rule_sets db))
       (db\<lparr>t_rule_sets := tbl_update (\<lambda>s. rs_id s = i)
         (\<lambda>s. s\<lparr>rs_name := name, rs_enabled := enabled, rs_updated_at := now\<rparr>) (t_rule_sets db)\<rparr>)"

definition DeleteRuleSet :: "string \<Rightarrow> tables \<Rightarrow> tables outcome" where
  "DeleteRuleSet i db =
     (if (case tbl_get rs_id (t_rule_sets db) i of None \<Rightarrow> False | Some s \<Rightarrow> rs_builtin s)
      then Inl BuiltinRuleSet
      else affectedOne (rows_affected (\<lambda>s. rs_id s = i) (t_rule_sets db))
        (db\<lparr>t_rule_sets := tbl_delete (\<lambda>s. rs_id s = i) (t_rule_sets db),
            t_rules := tbl_delete (\<lambda>r. ru_set_id r = i) (t_rules db)\<rparr>))"

text \<open>One statement of the reorder loop.\<close>

definition set_set_position :: "int \<times> string \<Rightarrow> tables \<Rightarrow> tables outcome" where
  "set_set_position p db =
     (case affectedOne (rows_affected (\<lambda>s. rs_id s = snd p) (t_rule_sets db))
        (db\<lparr>t_rule_sets := tbl_update (\<lambda>s. rs_id s = snd p) (\<lambda>s. s\<lparr>rs_position := fst p\<rparr>) (t_rule_sets db)\<rparr>) of
        Inl e \<Rightarrow> Inl (Wrapped (''rule set '' @ snd p) e)
      | Inr db \<Rightarrow> Inr db)"

definition numbered :: "'a list \<Rightarrow> (int \<times> 'a) list" where
  "numbered xs = zip [0..int (length xs) - 1] xs"

definition ReorderRuleSets :: "string list \<Rightarrow> tables \<Rightarrow> tables outcome" where
  "ReorderRuleSets ids db =
     (let n = int (length (t_rule_sets db)) in
      if n \<noteq> int (length ids)
      then Inl (Failure (''reorder must list all '' @ int_string n @ '' rule sets, got '' @ int_string (int (length ids))))
      else if (case find rs_builtin (t_rule_sets db) of
                 Some s \<Rightarrow> ids \<noteq> [] \<and> hd ids \<noteq> rs_id s | None \<Rightarrow> False)
      then Inl BuiltinRuleSet
      else fold_outcome set_set_position (numbered ids) db)"

subsection \<open>Rules\<close>

text \<open>The checks of the table: known kinds, and a reference exactly for nodes and groups.\<close>

definition rule_check :: "rule \<Rightarrow> bool" where
  "rule_check r \<longleftrightarrow> (case ru_match_kind r of MatchOther _ \<Rightarrow> False | _ \<Rightarrow> True) \<and>
     (case ru_action_kind r of ActionOther _ \<Rightarrow> False
      | ActionNode \<Rightarrow> ru_action_ref r \<noteq> [] | ActionGroup \<Rightarrow> ru_action_ref r \<noteq> [] | _ \<Rightarrow> ru_action_ref r = [])"

definition InsertRule :: "time \<Rightarrow> rule \<Rightarrow> tables \<Rightarrow> tables outcome" where
  "InsertRule now r db =
     (if \<not> rule_check r then Inl (check_failed ''rules'')
      else if tbl_get ru_id (t_rules db) (ru_id r) \<noteq> None then Inl (unique_failed ''rules.id'')
      else if tbl_get rs_id (t_rule_sets db) (ru_set_id r) = None then Inl fk_failed
      else Inr (db\<lparr>t_rules := t_rules db @
        [r\<lparr>ru_position := next_position (map ru_position (filter (\<lambda>x. ru_set_id x = ru_set_id r) (t_rules db))),
           ru_created_at := now, ru_updated_at := now\<rparr>]\<rparr>))"

definition UpdateRule :: "time \<Rightarrow> rule \<Rightarrow> tables \<Rightarrow> tables outcome" where
  "UpdateRule now r db =
     (let n = rows_affected (\<lambda>x. ru_id x = ru_id r) (t_rules db) in
      if n \<noteq> 0 \<and> \<not> rule_check r then Inl (check_failed ''rules'')
      else affectedOne n (db\<lparr>t_rules := tbl_update (\<lambda>x. ru_id x = ru_id r)
        (\<lambda>x. x\<lparr>ru_match_kind := ru_match_kind r, ru_match_value := ru_match_value r,
              ru_action_kind := ru_action_kind r, ru_action_ref := ru_action_ref r,
              ru_enabled := ru_enabled r, ru_remark := ru_remark r, ru_updated_at := now\<rparr>) (t_rules db)\<rparr>))"

definition DeleteRule :: "string \<Rightarrow> tables \<Rightarrow> tables outcome" where
  "DeleteRule i db =
     affectedOne (rows_affected (\<lambda>r. ru_id r = i) (t_rules db))
       (db\<lparr>t_rules := tbl_delete (\<lambda>r. ru_id r = i) (t_rules db)\<rparr>)"

definition set_rule_position :: "string \<Rightarrow> int \<times> string \<Rightarrow> tables \<Rightarrow> tables outcome" where
  "set_rule_position setID p db =
     (case affectedOne (rows_affected (\<lambda>r. ru_id r = snd p \<and> ru_set_id r = setID) (t_rules db))
        (db\<lparr>t_rules := tbl_update (\<lambda>r. ru_id r = snd p \<and> ru_set_id r = setID)
          (\<lambda>r. r\<lparr>ru_position := fst p\<rparr>) (t_rules db)\<rparr>) of
        Inl e \<Rightarrow> Inl (Wrapped (''rule '' @ snd p) e)
      | Inr db \<Rightarrow> Inr db)"

definition ReorderRules :: "string \<Rightarrow> string list \<Rightarrow> tables \<Rightarrow> tables outcome" where
  "ReorderRules setID ids db =
     (let n = rows_affected (\<lambda>r. ru_set_id r = setID) (t_rules db) in
      if n \<noteq> int (length ids)
      then Inl (Failure (''reorder must list all '' @ int_string n @ '' rules of the set, got ''
        @ int_string (int (length ids))))
      else fold_outcome (set_rule_position setID) (numbered ids) db)"

definition MoveRule :: "time \<Rightarrow> string \<Rightarrow> string \<Rightarrow> tables \<Rightarrow> tables outcome" where
  "MoveRule now i toSet db =
     (let n = rows_affected (\<lambda>r. ru_id r = i) (t_rules db) in
      if n \<noteq> 0 \<and> tbl_get rs_id (t_rule_sets db) toSet = None then Inl fk_failed
      else affectedOne n (db\<lparr>t_rules := tbl_update (\<lambda>r. ru_id r = i)
        (\<lambda>r. r\<lparr>ru_set_id := toSet,
              ru_position := next_position (map ru_position (filter (\<lambda>x. ru_set_id x = toSet) (t_rules db))),
              ru_updated_at := now\<rparr>) (t_rules db)\<rparr>))"

subsection \<open>The built-in set\<close>

definition BuiltinRuleSetName :: string where
  "BuiltinRuleSetName = [CHR 0xE9, CHR 0xBB, CHR 0x98, CHR 0xE8, CHR 0xAE, CHR 0xA4]"

text \<open>The three default rules; the remarks are Chinese text in UTF-8.\<close>

definition builtin_rule :: "match_kind \<Rightarrow> string \<Rightarrow> string \<Rightarrow> rule" where
  "builtin_rule k v remark = zero_rule\<lparr>ru_match_kind := k, ru_match_value := v, ru_action_kind := ActionDirect,
     ru_remark := remark\<rparr>"

definition BuiltinRules :: "rule list" where
  "BuiltinRules =
     [builtin_rule MatchGeoIP ''private''
        [CHR 0xE7, CHR 0xA7, CHR 0x81, CHR 0xE6, CHR 0x9C, CHR 0x89, CHR 0xE7, CHR 0xBD,
         CHR 0x91, CHR 0xE7, CHR 0xBB, CHR 0x9C, CHR 0xE7, CHR 0x9B, CHR 0xB4, CHR 0xE8,
         CHR 0xBF, CHR 0x9E],
      builtin_rule MatchGeosite ''cn''
        [CHR 0xE5, CHR 0x9B, CHR 0xBD, CHR 0xE5, CHR 0x86, CHR 0x85, CHR 0xE5, CHR 0x9F,
         CHR 0x9F, CHR 0xE5, CHR 0x90, CHR 0x8D, CHR 0xE7, CHR 0x9B, CHR 0xB4, CHR 0xE8,
         CHR 0xBF, CHR 0x9E],
      builtin_rule MatchGeoIP ''cn''
        [CHR 0xE5, CHR 0x9B, CHR 0xBD, CHR 0xE5, CHR 0x86, CHR 0x85, CHR 0x20, CHR 0x49,
         CHR 0x50, CHR 0x20, CHR 0xE7, CHR 0x9B, CHR 0xB4, CHR 0xE8, CHR 0xBF, CHR 0x9E]]"

definition BuiltinRuleSet_of :: "tables \<Rightarrow> string" where
  "BuiltinRuleSet_of db =
     (case sort_key rs_position (filter rs_builtin (t_rule_sets db)) of [] \<Rightarrow> [] | s # _ \<Rightarrow> rs_id s)"

definition InsertBuiltinRuleSet :: "time \<Rightarrow> string \<Rightarrow> tables \<Rightarrow> tables outcome" where
  "InsertBuiltinRuleSet now i db =
     (if tbl_get rs_id (t_rule_sets db) i \<noteq> None then Inl (unique_failed ''rule_sets.id'')
      else Inr (db\<lparr>t_rule_sets := t_rule_sets db @
        [\<lparr>rs_id = i, rs_name = BuiltinRuleSetName, rs_position = - 1, rs_enabled = True, rs_builtin = True,
          rs_created_at = now, rs_updated_at = now\<rparr>]\<rparr>))"

definition seed_rule :: "time \<Rightarrow> string \<Rightarrow> string \<times> rule \<Rightarrow> tables \<Rightarrow> tables outcome" where
  "seed_rule now setID p db =
     (let r = snd p in
      if rows_affected (\<lambda>x. ru_set_id x = setID \<and> ru_match_kind x = ru_match_kind r \<and>
           ru_match_value x = ru_match_value r) (t_rules db) > 0
      then Inr db
      else (case InsertRule now (r\<lparr>ru_id := fst p, ru_set_id := setID, ru_enabled := True\<rparr>) db of
              Inl e \<Rightarrow> Inl (Wrapped (''seed rule '' @ match_kind_string (ru_match_kind r) @ '':'' @ ru_match_value r) e)
            | Inr db \<Rightarrow> Inr db))"

text \<open>\<open>uuids\<close> are the random identifiers of the three rows.\<close>

definition SeedBuiltinRules :: "time \<Rightarrow> string list \<Rightarrow> string \<Rightarrow> tables \<Rightarrow> tables outcome" where
  "SeedBuiltinRules now uuids setID db = fold_outcome (seed_rule now setID) (zip uuids BuiltinRules) db"

definition renumberRuleSets :: "tables \<Rightarrow> tables" where
  "renumberRuleSets db =
     fold (\<lambda>(p, i) db. db\<lparr>t_rule_sets := tbl_update (\<lambda>s. rs_id s = i) (\<lambda>s. s\<lparr>rs_position := p\<rparr>) (t_rule_sets db)\<rparr>)
       (numbered (map rs_id (ListRuleSets db))) db"

definition pinBuiltinFirst :: "tables \<Rightarrow> tables outcome" where
  "pinBuiltinFirst db =
     (case find rs_builtin (t_rule_sets db) of
        None \<Rightarrow> Inl NotFound
      | Some s \<Rightarrow>
          if rs_position s = foldl min (rs_position s) (map rs_position (t_rule_sets db)) then Inr db
          else Inr (renumberRuleSets db))"

text \<open>The transaction of \<open>EnsureBuiltinRuleSet\<close>: adopt, create, seed, renumber.\<close>

definition adopt_builtin :: "time \<Rightarrow> string \<Rightarrow> string \<Rightarrow> tables \<Rightarrow> (string \<times> tables) outcome" where
  "adopt_builtin now uuid i db =
     (if i \<noteq> [] then Inr (i, db)
      else (case sort_key (\<lambda>s. (rs_position s, rs_created_at s))
                   (filter (\<lambda>s. rs_name s = BuiltinRuleSetName) (t_rule_sets db)) of
              [] \<Rightarrow> bind_outcome (InsertBuiltinRuleSet now uuid db) (\<lambda>db. Inr (uuid, db))
            | s # _ \<Rightarrow> Inr (rs_id s, db\<lparr>t_rule_sets := tbl_update (\<lambda>x. rs_id x = rs_id s)
                 (\<lambda>x. x\<lparr>rs_builtin := True\<rparr>) (t_rule_sets db)\<rparr>)))"

text \<open>\<open>seeded\<close> is the setting \<open>builtin_rules.seeded\<close>, returned as it is afterwards.\<close>

definition EnsureBuiltinRuleSet ::
  "time \<Rightarrow> string \<Rightarrow> string list \<Rightarrow> string \<Rightarrow> tables \<Rightarrow> (tables \<times> string) outcome" where
  "EnsureBuiltinRuleSet now uuid uuids seeded db =
     (let i = BuiltinRuleSet_of db in
      if i \<noteq> [] \<and> seeded = ''1'' then bind_outcome (pinBuiltinFirst db) (\<lambda>db. Inr (db, seeded))
      else bind_outcome (adopt_builtin now uuid i db) (\<lambda>(i, db1).
           bind_outcome (if seeded \<noteq> ''1'' then SeedBuiltinRules now uuids i db1 else Inr db1) (\<lambda>db2.
           Inr (renumberRuleSets db2, ''1''))))"

definition HasUserData :: "tables \<Rightarrow> bool" where
  "HasUserData db \<longleftrightarrow> t_nodes db \<noteq> [] \<or>
     (\<exists>r\<in>set (t_rules db). \<exists>s\<in>set (t_rule_sets db). rs_id s = ru_set_id r \<and>
        \<not> (rs_builtin s \<and> (\<exists>b\<in>set BuiltinRules. ru_match_kind b = ru_match_kind r \<and>
             ru_match_value b = ru_match_value r)))"

lemmas store_rules_defs = InsertRuleSet_def UpdateRuleSet_def DeleteRuleSet_def ReorderRuleSets_def
  InsertRule_def UpdateRule_def DeleteRule_def ReorderRules_def MoveRule_def

end
