(* ===== verification/StoreMutate.thy ===== *)
theory StoreMutate
  imports StoreRules
begin

text \<open>
  \<open>store/mutate.go\<close>, \<open>store/snapshot.go\<close> and the counters of \<open>store/meta.go\<close>: every
  desired-state write runs in a transaction that bumps the generation and records a changeset
  with the full state, and \<open>RevertTo\<close> writes such a state back.  The JSON text of a changeset is
  the value it encodes.
\<close>

subsection \<open>State\<close>

record saved_node =
  sn_id :: string
  sn_name :: string
  sn_protocol :: protocol
  sn_address :: string
  sn_params :: string
  sn_port :: int
  sn_cred :: "string option"
  sn_enabled :: bool
  sn_is_default :: bool
  sn_latency_ms :: "int option"

record saved_group =
  sg_id :: string
  sg_name :: string
  sg_kind :: group_kind
  sg_strategy :: string
  sg_members :: "string list"

record saved_rule_set =
  sr_id :: string
  sr_name :: string
  sr_position :: int
  sr_enabled :: bool

record saved_rule =
  sl_id :: string
  sl_set_id :: string
  sl_match_kind :: match_kind
  sl_match_value :: string
  sl_action_kind :: action_kind
  sl_action_ref :: string
  sl_remark :: string
  sl_position :: int
  sl_enabled :: bool

record saved_device =
  sd_id :: string
  sd_kind :: device_kind
  sd_value :: string
  sd_action :: device_action
  sd_remark :: string

record saved_bypass =
  sb_id :: string
  sb_cidr :: string
  sb_remark :: string

text \<open>
  The two configuration rows are maps from column to value; \<open>None\<close> is a nil map, and the two DNS
  columns that old snapshots lack are optional.
\<close>

record desired_snapshot =
  ds_nodes :: "saved_node list"
  ds_groups :: "saved_group list"
  ds_rule_sets :: "saved_rule_set list"
  ds_rules :: "saved_rule list"
  ds_devices :: "saved_device list"
  ds_bypass :: "saved_bypass list"
  ds_network :: "network_config option"
  ds_dns :: dns_config
  ds_hijack :: "bool option"
  ds_block_dot :: "bool option"

datatype change_diff = NoDiff | SnapshotDiff desired_snapshot | OtherDiff string

record changeset_row =
  cr_id :: string
  cr_generation :: int
  cr_actor :: string
  cr_summary :: string
  cr_diff :: change_diff
  cr_reverted_by :: "string option"
  cr_created_at :: time

record store =
  ss_tables :: tables
  ss_generation :: int
  ss_last_applied :: int
  ss_updated_at :: time
  ss_changesets :: "changeset_row list"
  ss_apply_log :: "apply_log_entry list"
  ss_apply_seq :: int
  ss_events :: "log_event list"
  ss_events_seq :: int

subsection \<open>Counters and logs\<close>

definition Meta :: "store \<Rightarrow> meta" where
  "Meta s = \<lparr>m_generation = ss_generation s, m_last_applied = ss_last_applied s, m_updated_at = ss_updated_at s\<rparr>"

definition BumpGeneration :: "time \<Rightarrow> store \<Rightarrow> store \<times> int" where
  "BumpGeneration now s =
     (s\<lparr>ss_generation := ss_generation s + 1, ss_updated_at := now\<rparr>, ss_generation s + 1)"

definition SetLastApplied :: "time \<Rightarrow> int \<Rightarrow> store \<Rightarrow> store" where
  "SetLastApplied now gen s = s\<lparr>ss_last_applied := gen, ss_updated_at := now\<rparr>"

definition RecordApply :: "time \<Rightarrow> apply_log_entry \<Rightarrow> store \<Rightarrow> store" where
  "RecordApply now e s =
     s\<lparr>ss_apply_log := ss_apply_log s @ [e\<lparr>al_id := ss_apply_seq s + 1, al_at := now\<rparr>],
       ss_apply_seq := ss_apply_seq s + 1\<rparr>"

definition ListApplyLog :: "int \<Rightarrow> int \<Rightarrow> store \<Rightarrow> apply_log_entry list" where
  "ListApplyLog generation limit s =
     (let n = (if limit \<le> 0 \<or> limit > 1000 then 200 else limit)
      in take (nat n) (sort_key (\<lambda>e. - al_id e)
           (filter (\<lambda>e. generation > 0 \<longrightarrow> al_generation e = generation) (ss_apply_log s))))"

definition AddEvent :: "time \<Rightarrow> log_event \<Rightarrow> store \<Rightarrow> store" where
  "AddEvent now e s =
     s\<lparr>ss_events := ss_events s @ [e\<lparr>ev_id := ss_events_seq s + 1, ev_at := now,
         ev_details := (if ev_details e = [] then ''{}'' else ev_details e)\<rparr>],
       ss_events_seq := ss_events_seq s + 1\<rparr>"

record event_filter =
  ef_module :: string
  ef_level :: "event_level option"
  ef_before_id :: int
  ef_limit :: int

definition ListEvents :: "event_filter \<Rightarrow> store \<Rightarrow> log_event list" where
  "ListEvents f s =
     (let n = (if ef_limit f \<le> 0 \<or> ef_limit f > 1000 then 200 else ef_limit f)
      in take (nat n) (sort_key (\<lambda>e. - ev_id e)
           (filter (\<lambda>e. (ef_module f \<noteq> [] \<longrightarrow> ev_module e = ef_module f) \<and>
                        (ef_level f \<noteq> None \<longrightarrow> Some (ev_level e) = ef_level f) \<and>
                        (ef_before_id f > 0 \<longrightarrow> ev_id e < ef_before_id f)) (ss_events s))))"

subsection \<open>Capturing the state\<close>

definition capture_node :: "node_row \<Rightarrow> saved_node" where
  "capture_node n = \<lparr>sn_id = n_id n, sn_name = n_name n, sn_protocol = n_protocol n, sn_address = n_address n,
     sn_params = n_params n, sn_port = n_port n, sn_cred = nr_cred n, sn_enabled = n_enabled n,
     sn_is_default = n_is_default n, sn_latency_ms = n_latency_ms n\<rparr>"

definition capture_group :: "tables \<Rightarrow> group_row \<Rightarrow> saved_group" where
  "capture_group db g = \<lparr>sg_id = gr_id g, sg_name = gr_name g, sg_kind = gr_kind g, sg_strategy = gr_strategy g,
     sg_members = members_of (t_members db) (gr_id g)\<rparr>"

definition capture_rule_set :: "rule_set \<Rightarrow> saved_rule_set" where
  "capture_rule_set s = \<lparr>sr_id = rs_id s, sr_name = rs_name s, sr_position = rs_position s, sr_enabled = rs_enabled s\<rparr>"

definition capture_rule :: "rule \<Rightarrow> saved_rule" where
  "capture_rule r = \<lparr>sl_id = ru_id r, sl_set_id = ru_set_id r, sl_match_kind = ru_match_kind r,
     sl_match_value = ru_match_value r, sl_action_kind = ru_action_kind r, sl_action_ref = ru_action_ref r,
     sl_remark = ru_remark r, sl_position = ru_position r, sl_enabled = ru_enabled r\<rparr>"

definition capture_device :: "device_policy \<Rightarrow> saved_device" where
  "capture_device d = \<lparr>sd_id = dp_id d, sd_kind = dp_kind d, sd_value = dp_value d, sd_action = dp_action d,
     sd_remark = dp_remark d\<rparr>"

definition capture_bypass :: "bypass_destination \<Rightarrow> saved_bypass" where
  "capture_bypass b = \<lparr>sb_id = bd_id b, sb_cidr = bd_cidr b, sb_remark = bd_remark b\<rparr>"

definition captureDesired :: "tables \<Rightarrow> desired_snapshot" where
  "captureDesired db =
     \<lparr>ds_nodes = map capture_node (sort_key (\<lambda>n. (n_created_at n, n_id n)) (t_nodes db)),
      ds_groups = map (capture_group db) (sort_key (\<lambda>g. (gr_created_at g, gr_id g)) (t_groups db)),
      ds_rule_sets = map capture_rule_set (sort_key (\<lambda>s. (rs_position s, rs_created_at s)) (t_rule_sets db)),
      ds_rules = map capture_rule (sort_key (\<lambda>r. (ru_set_id r, ru_position r)) (t_rules db)),
      ds_devices = map capture_device (sort_key (\<lambda>d. (dp_created_at d, dp_id d)) (t_devices db)),
      ds_bypass = map capture_bypass (sort_key (\<lambda>b. (bd_created_at b, bd_id b)) (t_bypass db)),
      ds_network = Some (t_network db), ds_dns = t_dns db,
      ds_hijack = Some (dc_hijack (t_dns db)), ds_block_dot = Some (dc_block_dot (t_dns db))\<rparr>"

subsection \<open>Mutations\<close>

definition SnapshotRetention :: int where "SnapshotRetention = 200"

definition pruneSnapshots :: "store \<Rightarrow> store" where
  "pruneSnapshots s =
     (case map cr_generation (ss_changesets s) of
        [] \<Rightarrow> s
      | g # gs \<Rightarrow> s\<lparr>ss_changesets := tbl_update
          (\<lambda>c. cr_diff c \<noteq> NoDiff \<and> cr_generation c \<le> foldl max g gs - SnapshotRetention)
          (\<lambda>c. c\<lparr>cr_diff := NoDiff\<rparr>) (ss_changesets s)\<rparr>)"

record mutation =
  mu_actor :: string
  mu_summary :: string
  mu_diff :: "string option"

definition insert_changeset :: "changeset_row \<Rightarrow> store \<Rightarrow> store outcome" where
  "insert_changeset c s =
     (if cr_id c \<in> cr_id ` set (ss_changesets s) then Inl (unique_failed ''changesets.id'')
      else if cr_generation c \<in> cr_generation ` set (ss_changesets s)
      then Inl (unique_failed ''changesets.generation'')
      else Inr (s\<lparr>ss_changesets := ss_changesets s @ [c]\<rparr>))"

text \<open>\<open>commit\<close> is the failure of the commit, if any; \<open>fn\<close> may be any write.\<close>

definition Mutate ::
  "time \<Rightarrow> string \<Rightarrow> fault \<Rightarrow> mutation \<Rightarrow> (tables \<Rightarrow> tables outcome) \<Rightarrow> store \<Rightarrow> int outcome \<times> store" where
  "Mutate now uuid commit m fn s =
     (case bind_outcome (fn (ss_tables s)) (\<lambda>db.
        let (s1, g) = BumpGeneration now (s\<lparr>ss_tables := db\<rparr>);
            diff = (case mu_diff m of Some d \<Rightarrow> OtherDiff d | None \<Rightarrow> SnapshotDiff (captureDesired db))
        in bind_outcome (insert_changeset \<lparr>cr_id = uuid, cr_generation = g, cr_actor = mu_actor m,
             cr_summary = mu_summary m, cr_diff = diff, cr_reverted_by = None, cr_created_at = now\<rparr> s1)
           (\<lambda>s2. Inr (g, pruneSnapshots s2))) of
        Inl e \<Rightarrow> (Inl e, s)
      | Inr (g, s') \<Rightarrow> (case commit of Some e \<Rightarrow> (Inl (Failure e), s) | None \<Rightarrow> (Inr g, s')))"

definition ListChangesets :: "int \<Rightarrow> store \<Rightarrow> (changeset_row \<times> string) list" where
  "ListChangesets limit s =
     (let n = (if limit \<le> 0 \<or> limit > 1000 then 100 else limit)
      in map (\<lambda>c. (c, if cr_diff c \<noteq> NoDiff then ''snapshot'' else []))
           (take (nat n) (sort_key (\<lambda>c. - cr_generation c) (ss_changesets s))))"

subsection \<open>Restoring\<close>

definition wipe :: "tables \<Rightarrow> tables" where
  "wipe db =
     (let db1 = db\<lparr>t_rules := [], t_rule_sets := [], t_members := [], t_groups := []\<rparr>
      in (drop_nodes (\<lambda>_. True) db1)\<lparr>t_devices := [], t_bypass := []\<rparr>)"

definition restore_node :: "time \<Rightarrow> saved_node \<Rightarrow> tables \<Rightarrow> tables outcome" where
  "restore_node now n db =
     (case InsertNode now \<lparr>n_id = sn_id n, n_name = sn_name n, n_protocol = sn_protocol n,
         n_address = sn_address n, n_port = sn_port n, n_params = sn_params n, n_credential = [],
         n_enabled = sn_enabled n, n_is_default = sn_is_default n, n_latency_ms = sn_latency_ms n,
         n_created_at = now, n_updated_at = now, nr_cred = sn_cred n\<rparr> db of
        Inl e \<Rightarrow> Inl (Wrapped (''node '' @ sn_name n) e)
      | Inr db \<Rightarrow> Inr db)"

definition restore_group_row :: "time \<Rightarrow> saved_group \<Rightarrow> tables \<Rightarrow> tables outcome" where
  "restore_group_row now g db =
     (if \<not> group_kind_known (sg_kind g) then Inl (check_failed ''outbound_groups'')
      else if tbl_get gr_id (t_groups db) (sg_id g) \<noteq> None then Inl (unique_failed ''outbound_groups.id'')
      else if tbl_get gr_name (t_groups db) (sg_name g) \<noteq> None then Inl (unique_failed ''outbound_groups.name'')
      else Inr (db\<lparr>t_groups := t_groups db @ [\<lparr>gr_id = sg_id g, gr_name = sg_name g, gr_kind = sg_kind g,
        gr_strategy = sg_strategy g, gr_created_at = now, gr_updated_at = now\<rparr>]\<rparr>))"

definition restore_group :: "time \<Rightarrow> saved_group \<Rightarrow> tables \<Rightarrow> tables outcome" where
  "restore_group now g db =
     bind_outcome (restore_group_row now g db)
       (fold_outcome (insert_member (sg_id g)) (numbered (sg_members g)))"

definition restore_rule_set :: "time \<Rightarrow> saved_rule_set \<Rightarrow> tables \<Rightarrow> tables outcome" where
  "restore_rule_set now r db =
     (if tbl_get rs_id (t_rule_sets db) (sr_id r) \<noteq> None then Inl (unique_failed ''rule_sets.id'')
      else Inr (db\<lparr>t_rule_sets := t_rule_sets db @ [\<lparr>rs_id = sr_id r, rs_name = sr_name r,
        rs_position = sr_position r, rs_enabled = sr_enabled r, rs_builtin = False,
        rs_created_at = now, rs_updated_at = now\<rparr>]\<rparr>))"

definition rule_of_snap :: "time \<Rightarrow> saved_rule \<Rightarrow> rule" where
  "rule_of_snap now r =
     \<lparr>ru_id = sl_id r, ru_set_id = sl_set_id r, ru_position = sl_position r, ru_match_kind = sl_match_kind r,
      ru_match_value = sl_match_value r, ru_action_kind = sl_action_kind r, ru_action_ref = sl_action_ref r,
      ru_enabled = sl_enabled r, ru_remark = sl_remark r, ru_created_at = now, ru_updated_at = now\<rparr>"

definition restore_rule :: "time \<Rightarrow> saved_rule \<Rightarrow> tables \<Rightarrow> tables outcome" where
  "restore_rule now r db =
     (if \<not> rule_check (rule_of_snap now r) then Inl (check_failed ''rules'')
      else if tbl_get ru_id (t_rules db) (sl_id r) \<noteq> None then Inl (unique_failed ''rules.id'')
      else if tbl_get rs_id (t_rule_sets db) (sl_set_id r) = None then Inl fk_failed
      else Inr (db\<lparr>t_rules := t_rules db @ [rule_of_snap now r]\<rparr>))"

definition restore_device :: "time \<Rightarrow> saved_device \<Rightarrow> tables \<Rightarrow> tables outcome" where
  "restore_device now d =
     InsertDevicePolicy now \<lparr>dp_id = sd_id d, dp_kind = sd_kind d, dp_value = sd_value d, dp_action = sd_action d,
       dp_remark = sd_remark d, dp_created_at = now, dp_updated_at = now\<rparr>"

definition restore_bypass :: "time \<Rightarrow> saved_bypass \<Rightarrow> tables \<Rightarrow> tables outcome" where
  "restore_bypass now b =
     InsertBypassDestination now \<lparr>bd_id = sb_id b, bd_cidr = sb_cidr b, bd_remark = sb_remark b, bd_created_at = now\<rparr>"

text \<open>The two \<open>UPDATE\<close>s name their columns; the others keep their value.\<close>

definition restore_network :: "time \<Rightarrow> network_config \<Rightarrow> network_config \<Rightarrow> network_config" where
  "restore_network now n cur =
     cur\<lparr>nc_mode := nc_mode n, nc_management_iface := nc_management_iface n, nc_service_iface := nc_service_iface n,
        nc_fakeip_pool := nc_fakeip_pool n, nc_tproxy_port := nc_tproxy_port n,
        nc_lan_default_policy := nc_lan_default_policy n, nc_ospf_push_batch := nc_ospf_push_batch n,
        nc_ospf_push_interval := nc_ospf_push_interval n, nc_ospf_resolve_workers := nc_ospf_resolve_workers n,
        nc_ospf_publish_allow := nc_ospf_publish_allow n, nc_node_failover_mode := nc_node_failover_mode n,
        nc_updated_at := now\<rparr>"

definition restore_dns :: "time \<Rightarrow> desired_snapshot \<Rightarrow> dns_config \<Rightarrow> dns_config" where
  "restore_dns now s cur =
     (let d = ds_dns s in
      cur\<lparr>dc_local_upstreams := dc_local_upstreams d, dc_remote_upstreams := dc_remote_upstreams d,
         dc_cache_size := dc_cache_size d, dc_lazy_cache := dc_lazy_cache d, dc_lazy_cache_ttl := dc_lazy_cache_ttl d,
         dc_log_level := dc_log_level d,
         dc_hijack := (case ds_hijack s of None \<Rightarrow> True | Some b \<Rightarrow> b),
         dc_block_dot := (case ds_block_dot s of None \<Rightarrow> True | Some b \<Rightarrow> b), dc_updated_at := now\<rparr>)"

definition restore_config :: "time \<Rightarrow> desired_snapshot \<Rightarrow> network_config \<Rightarrow> tables \<Rightarrow> tables outcome" where
  "restore_config now s net db =
     (let c = restore_network now net (t_network db); d = restore_dns now s (t_dns db) in
      if \<not> network_check c then Inl (check_failed ''network_config'')
      else if dc_log_level d \<notin> {''debug'', ''info'', ''warn'', ''error''} then Inl (check_failed ''dns_config'')
      else Inr (db\<lparr>t_network := c, t_dns := d\<rparr>))"

definition restoreDesired :: "time \<Rightarrow> desired_snapshot \<Rightarrow> network_config \<Rightarrow> tables \<Rightarrow> tables outcome" where
  "restoreDesired now s net db =
     bind_outcome (fold_outcome (restore_node now) (ds_nodes s) (wipe db)) (\<lambda>db.
     bind_outcome (fold_outcome (restore_group now) (ds_groups s) db) (\<lambda>db.
     bind_outcome (fold_outcome (restore_rule_set now) (ds_rule_sets s) db) (\<lambda>db.
     bind_outcome (fold_outcome (restore_rule now) (ds_rules s) db) (\<lambda>db.
     bind_outcome (fold_outcome (restore_device now) (ds_devices s) db) (\<lambda>db.
     bind_outcome (fold_outcome (restore_bypass now) (ds_bypass s) db)
       (restore_config now s net))))))"

text \<open>The new generation, the generation restored (\<open>0\<close> if the changeset is not there).\<close>

definition RevertTo ::
  "time \<Rightarrow> string \<Rightarrow> fault \<Rightarrow> string \<Rightarrow> string \<Rightarrow> store \<Rightarrow> (int outcome \<times> int) \<times> store" where
  "RevertTo now uuid commit changesetID actor s =
     (case tbl_get cr_id (ss_changesets s) changesetID of
        None \<Rightarrow> ((Inl NotFound, 0), s)
      | Some c \<Rightarrow>
          (let restored = cr_generation c;
               none = ((Inl (Failure (''changeset '' @ int_string restored @ '' has no restorable snapshot'')), restored), s)
           in case cr_diff c of
                SnapshotDiff snap \<Rightarrow>
                  (case ds_network snap of
                     None \<Rightarrow> none
                   | Some net \<Rightarrow>
                       (case Mutate now uuid commit \<lparr>mu_actor = actor,
                            mu_summary = ''revert to generation '' @ int_string restored, mu_diff = None\<rparr>
                            (restoreDesired now snap net) s of
                          (Inl e, s') \<Rightarrow> ((Inl e, restored), s')
                        | (Inr g, s') \<Rightarrow>
                            ((Inr g, restored), s'\<lparr>ss_changesets := tbl_update
                               (\<lambda>c. restored < cr_generation c \<and> cr_generation c < g)
                               (\<lambda>c. c\<lparr>cr_reverted_by := Some changesetID\<rparr>) (ss_changesets s')\<rparr>)))
              | _ \<Rightarrow> none))"

end
