(* ===== verification/ApiState.thy ===== *)
theory ApiState
  imports AuthApi StoreMutate RouteEngine Resolver
begin

text \<open>
  The state behind the handlers of the desired state, \<open>mutate\<close> of \<open>api/v2/v2.go\<close>, and the
  handlers of \<open>api/v2/config.go\<close> (network and DNS settings) and of reverting a changeset.  A
  handler gets the decoded body and returns the response and the new state.  Identifiers come
  from \<open>av_uuid\<close>; \<open>av_read\<close> is the failure of a read by the name of its function.
\<close>

record api_env =
  av_now :: time
  av_uuid :: "nat \<Rightarrow> string"
  av_commit :: fault
  av_actor :: string
  av_read :: "string \<Rightarrow> fault"
  av_sources :: sources

text \<open>
  The database, the resolver's cache table, what was published on the bus (generation and
  summary), and how often the reconciler was notified and the resolver kicked.
\<close>

record api_state =
  ap_store :: store
  ap_cache :: "resolved_entry list"
  ap_published :: "(int \<times> string) list"
  ap_notified :: int
  ap_kicked :: int

abbreviation ap_tables :: "api_state \<Rightarrow> tables" where
  "ap_tables s \<equiv> ss_tables (ap_store s)"

definition api_read :: "api_env \<Rightarrow> string \<Rightarrow> 'a \<Rightarrow> 'a outcome" where
  "api_read E name v = (case av_read E name of Some e \<Rightarrow> Inl (Failure e) | None \<Rightarrow> Inr v)"

text \<open>A write, then the wake-ups; \<open>ResolverKick\<close> is set in production.\<close>

definition api_mutate ::
  "api_env \<Rightarrow> string \<Rightarrow> (tables \<Rightarrow> tables outcome) \<Rightarrow> api_state \<Rightarrow> int outcome \<times> api_state" where
  "api_mutate E summary fn s =
     (case Mutate (av_now E) (av_uuid E 0) (av_commit E)
             \<lparr>mu_actor = av_actor E, mu_summary = summary, mu_diff = None\<rparr> fn (ap_store s) of
        (Inl e, st) \<Rightarrow> (Inl e, s\<lparr>ap_store := st\<rparr>)
      | (Inr g, st) \<Rightarrow>
          (Inr g, s\<lparr>ap_store := st, ap_published := ap_published s @ [(g, summary)],
                   ap_notified := ap_notified s + 1, ap_kicked := ap_kicked s + 1\<rparr>))"

record node_view =
  nv_node :: node
  nv_has_credential :: bool

record import_result =
  ir_link :: string
  ir_node :: "node_view option"
  ir_error :: string

record gen_resp =
  ge_generation :: int
  ge_deleted :: int
  ge_retargeted :: int

datatype state_payload =
    PRuleSets "rule_set list" | PRuleSet rule_set int | PGen gen_resp
  | PRules "rule list" | PCreated "rule list" int | PRule rule int
  | PDevices "device_policy list" | PDevice device_policy int
  | PBypasses "bypass_destination list" | PBypass bypass_destination int
  | PNodes "node_view list" | PNode node_view int | PImported "import_result list" int int bool
  | PGroups "outbound_group list" | PGroup outbound_group int
  | PNetwork network_config int | PDNS dns_config int | PCleared | PReverted int int

definition gen_only :: "int \<Rightarrow> int \<Rightarrow> int \<Rightarrow> state_payload" where
  "gen_only g d r = PGen \<lparr>ge_generation = g, ge_deleted = d, ge_retargeted = r\<rparr>"

text \<open>Mutate, then the response made of the generation and the new state.\<close>

definition mutate_reply ::
  "api_env \<Rightarrow> string \<Rightarrow> (tables \<Rightarrow> tables outcome) \<Rightarrow> (int \<Rightarrow> api_state \<Rightarrow> state_payload reply) \<Rightarrow>
     api_state \<Rightarrow> state_payload reply \<times> api_state" where
  "mutate_reply E summary fn k s =
     (case api_mutate E summary fn s of
        (Inl e, s') \<Rightarrow> (api_fail e, s')
      | (Inr g, s') \<Rightarrow> (k g s', s'))"

definition wake :: "api_state \<Rightarrow> api_state" where
  "wake s = s\<lparr>ap_notified := ap_notified s + 1, ap_kicked := ap_kicked s + 1\<rparr>"

subsection \<open>Network settings\<close>

definition clamp :: "int \<Rightarrow> int \<Rightarrow> int \<Rightarrow> int \<Rightarrow> int" where
  "clamp v lo hi def = (if v = 0 then def else if v < lo then lo else if v > hi then hi else v)"

definition to_upper :: "string \<Rightarrow> string" where
  "to_upper s = map (\<lambda>c. if is_lower c then char_of (byte c - 32) else c) s"

definition mode_of :: "string \<Rightarrow> mode" where
  "mode_of s = (if s = ''A'' then ModeA else if s = ''B'' then ModeB else if s = ''C'' then ModeC else ModeOther s)"

record network_input =
  ni_mode :: string
  ni_management_iface :: string
  ni_service_iface :: string
  ni_fakeip_pool :: string
  ni_tproxy_port :: int
  ni_lan_default_policy :: string
  ni_ospf_push_batch :: int
  ni_ospf_push_interval :: int
  ni_ospf_resolve_workers :: int
  ni_ospf_publish_allow :: "string list"
  ni_node_failover_mode :: string
  ni_sniff_override :: bool

definition iface_char :: "char \<Rightarrow> bool" where
  "iface_char c \<longleftrightarrow> is_digit c \<or> is_lower c \<or> is_upper c \<or> c \<in> {CHR ''_'', CHR ''.'', CHR ''-''}"

text \<open>\<open>^[A-Za-z0-9_.-]{1,15}$\<close>\<close>

definition ifaceNameRe :: "string \<Rightarrow> bool" where
  "ifaceNameRe s \<longleftrightarrow> 1 \<le> length s \<and> length s \<le> 15 \<and> list_all iface_char s"

definition iface_ok :: "string \<Rightarrow> bool" where
  "iface_ok v \<longleftrightarrow> v = [] \<or> (ifaceNameRe v \<and> \<not> str_contains v ''..'')"

fun normalize_all :: "(string \<Rightarrow> string result) \<Rightarrow> (string \<Rightarrow> go_error) \<Rightarrow> string list \<Rightarrow> string list outcome" where
  "normalize_all f err [] = Inr []"
| "normalize_all f err (a # as) =
     (case f a of
        Inl m \<Rightarrow> Inl (err m)
      | Inr v \<Rightarrow> bind_outcome (normalize_all f err as) (\<lambda>vs. Inr (v # vs)))"

definition fakeip_pool :: "string \<Rightarrow> string outcome" where
  "fakeip_pool s =
     (let p = (if s = [] then ''198.18.0.0/16'' else s);
          bad = Invalid ''fakeip_pool'' ''must be an IPv4 prefix of /24 or larger (default 198.18.0.0/16)''
      in case parse_prefix p of
           None \<Rightarrow> Inl bad
         | Some pool \<Rightarrow> if \<not> is4 (p_addr pool) \<or> p_bits pool > 24 then Inl bad
                        else Inr (prefix_string (masked pool)))"

definition one_of :: "string \<Rightarrow> string list \<Rightarrow> string \<Rightarrow> go_error \<Rightarrow> string outcome" where
  "one_of v ok def err = (if v \<in> set ok then Inr v else if v = [] then Inr def else Inl err)"

definition network_validate :: "network_input \<Rightarrow> network_config outcome" where
  "network_validate i =
     (let mode = mode_of (to_upper (trim_space (ni_mode i)));
          mgmt = trim_space (ni_management_iface i); svc = trim_space (ni_service_iface i);
          port = (if ni_tproxy_port i = 0 then 12345 else ni_tproxy_port i)
      in if \<not> mode_valid mode then Inl (Invalid ''mode'' ''must be A, B or C'')
         else if \<not> iface_ok mgmt then Inl (Invalid ''management_iface'' ''invalid interface name'')
         else if \<not> iface_ok svc then Inl (Invalid ''service_iface'' ''invalid interface name'')
         else
      bind_outcome (fakeip_pool (trim_space (ni_fakeip_pool i))) (\<lambda>pool.
      if port < 1024 \<or> port > 65535 then Inl (Invalid ''tproxy_port'' ''must be 1024-65535'') else
      bind_outcome (one_of (to_lower (trim_space (ni_lan_default_policy i))) [''proxy'', ''direct''] ''proxy''
        (Invalid ''lan_default_policy'' ''must be proxy or direct'')) (\<lambda>policy.
      bind_outcome (one_of (to_lower (trim_space (ni_node_failover_mode i))) [''normal'', ''strict''] ''normal''
        (Invalid ''node_failover_mode'' ''must be normal or strict'')) (\<lambda>failover.
      bind_outcome (normalize_all NormalizeIPOrCIDR (Invalid ''ospf_publish_allowlist'') (ni_ospf_publish_allow i))
        (\<lambda>allow.
      Inr \<lparr>nc_mode = mode, nc_management_iface = mgmt, nc_service_iface = svc, nc_fakeip_pool = pool,
           nc_tproxy_port = port, nc_lan_default_policy = policy,
           nc_ospf_push_batch = clamp (ni_ospf_push_batch i) 50 5000 500,
           nc_ospf_push_interval = clamp (ni_ospf_push_interval i) 1 60 2,
           nc_ospf_resolve_workers = clamp (ni_ospf_resolve_workers i) 1 64 8,
           nc_ospf_publish_allow = allow, nc_node_failover_mode = failover,
           nc_sniff_override = ni_sniff_override i, nc_updated_at = zero_time\<rparr>)))))"

definition getNetwork :: "api_env \<Rightarrow> api_state \<Rightarrow> state_payload reply" where
  "getNetwork E s =
     (case api_read E ''NetworkConfig'' (t_network (ap_tables s)) of
        Inl e \<Rightarrow> api_fail e | Inr c \<Rightarrow> writeJSON 200 (PNetwork c 0))"

text \<open>
  \<open>desired.Load\<close> without a keyring, on a database nobody writes meanwhile: the snapshot that the
  preflight sees.
\<close>

definition load_tables :: "api_state \<Rightarrow> snapshot" where
  "load_tables s =
     (let db = ap_tables s in
      \<lparr>s_generation = ss_generation (ap_store s), s_network = t_network db, s_dns = t_dns db,
       s_nodes = map (\<lambda>n. node.truncate n) (ListNodes db), s_groups = ListGroups db, s_rule_sets = ListRuleSets db,
       s_rules = ListRules [] db, s_device_policies = ListDevicePolicies db,
       s_bypass = ListBypassDestinations db, s_resolved = ap_cache s, s_protected_hosts = []\<rparr>)"

definition putNetwork :: "api_env \<Rightarrow> string list \<Rightarrow> network_input outcome \<Rightarrow> api_state \<Rightarrow> state_payload reply \<times> api_state" where
  "putNetwork E hosts body s =
     (case bind_outcome body network_validate of
        Inl e \<Rightarrow> (api_fail e, s)
      | Inr c \<Rightarrow>
     (case api_read E ''NetworkConfig'' (t_network (ap_tables s)) of
        Inl e \<Rightarrow> (api_fail e, s)
      | Inr cur \<Rightarrow>
          (let switch = nc_mode c \<noteq> ModeA \<and> nc_mode c \<noteq> nc_mode cur;
               save = mutate_reply E
                 (if nc_mode cur \<noteq> nc_mode c
                  then ''switch mode '' @ mode_string (nc_mode cur) @ '' -> '' @ mode_string (nc_mode c)
                  else ''update network settings'')
                 (UpdateNetworkConfig (av_now E) c)
                 (\<lambda>g s'. writeJSON 200 (PNetwork (t_network (ap_tables s')) g)) s
           in if \<not> switch then save
              else (case api_read E ''Load'' (load_tables s\<lparr>s_protected_hosts := hosts\<rparr>) of
                      Inl e \<Rightarrow> (api_fail e, s)
                    | Inr snap \<Rightarrow>
                        (let pr = Preflight (snap\<lparr>s_network := c\<rparr>) (av_sources E) (nc_mode c) in
                         if \<not> pr_ok pr
                         then (writeErr 422 ''VALIDATION_FAILED''
                                 (''mode switch blocked: '' @ join_with ''; '' (pr_problems pr)), s)
                         else save)))))"

subsection \<open>DNS settings\<close>

record dns_input =
  di_local_upstreams :: "string list"
  di_remote_upstreams :: "string list"
  di_cache_size :: int
  di_lazy_cache :: bool
  di_lazy_cache_ttl :: int
  di_log_level :: string
  di_hijack :: "bool option"
  di_block_dot :: "bool option"
  di_tap :: "bool option"
  di_ecs_subnet :: string
  di_forward_rules :: "dns_forward_rule list"
  di_ipv6_mode :: string

definition norm_upstreams :: "string \<Rightarrow> string list \<Rightarrow> string list outcome" where
  "norm_upstreams field us =
     (if us = [] then Inl (Invalid field ''at least one upstream'')
      else if length us > 8 then Inl (Invalid field ''at most 8 upstreams'')
      else normalize_all NormalizeUpstream (Invalid field) us)"

definition ecs_subnet :: "string \<Rightarrow> string outcome" where
  "ecs_subnet s =
     (let ecs = trim_space s; bad = Invalid ''ecs_subnet'' ''must be an IPv4 network like 120.197.0.0/16'' in
      if ecs = [] then Inr []
      else (case parse_prefix ecs of
              None \<Rightarrow> Inl bad
            | Some p \<Rightarrow> if \<not> is4 (p_addr p) \<or> p_bits p < 8 \<or> p_bits p > 32 then Inl bad
                        else Inr (prefix_string (masked p))))"

definition forward_rule :: "int \<Rightarrow> dns_forward_rule \<Rightarrow> dns_forward_rule outcome" where
  "forward_rule i fr =
     (let pos = ''rule '' @ int_string i @ '': '' in
      case ParseDomain (trim_prefix (trim_space (fw_suffix fr)) ''**.'') of
        Inl _ \<Rightarrow> Inl (Invalid ''forward_rules'' (pos @ ''suffix must be a domain like corp.local''))
      | Inr p \<Rightarrow>
          if dp_wildcard p then Inl (Invalid ''forward_rules'' (pos @ ''suffix must be a domain like corp.local''))
          else (case NormalizeUpstream (fw_upstream fr) of
                  Inl m \<Rightarrow> Inl (Invalid ''forward_rules'' (pos @ m))
                | Inr up \<Rightarrow> Inr \<lparr>fw_suffix = dp_base p, fw_upstream = up\<rparr>))"

fun forward_rules_from :: "int \<Rightarrow> dns_forward_rule list \<Rightarrow> dns_forward_rule list outcome" where
  "forward_rules_from i [] = Inr []"
| "forward_rules_from i (fr # frs) =
     bind_outcome (forward_rule i fr) (\<lambda>r. bind_outcome (forward_rules_from (i + 1) frs) (\<lambda>rs. Inr (r # rs)))"

definition default_on :: "bool option \<Rightarrow> bool" where
  "default_on b = (case b of None \<Rightarrow> True | Some v \<Rightarrow> v)"

definition dns_validate :: "dns_input \<Rightarrow> dns_config outcome" where
  "dns_validate i =
     bind_outcome (norm_upstreams ''local_upstreams'' (di_local_upstreams i)) (\<lambda>local.
     bind_outcome (norm_upstreams ''remote_upstreams'' (di_remote_upstreams i)) (\<lambda>remote.
     bind_outcome (ecs_subnet (di_ecs_subnet i)) (\<lambda>ecs.
     (let v6 = to_lower (trim_space (di_ipv6_mode i)); lvl = to_lower (trim_space (di_log_level i)) in
      if v6 \<notin> {[], ''all'', ''proxy''} then Inl (Invalid ''ipv6_mode'' ''must be empty, all or proxy'')
      else if length (di_forward_rules i) > 32 then Inl (Invalid ''forward_rules'' ''at most 32 rules'')
      else bind_outcome (forward_rules_from 1 (di_forward_rules i)) (\<lambda>fwd.
      if di_cache_size i < 0 \<or> di_cache_size i > 1000000 then Inl (Invalid ''cache_size'' ''must be 0-1000000'')
      else if di_lazy_cache_ttl i < 0 \<or> di_lazy_cache_ttl i > 7 * 86400
      then Inl (Invalid ''lazy_cache_ttl'' ''must be 0-604800 seconds'')
      else bind_outcome (one_of lvl [''debug'', ''info'', ''warn'', ''error''] ''info''
        (Invalid ''log_level'' ''must be debug, info, warn or error'')) (\<lambda>level.
      Inr \<lparr>dc_local_upstreams = local, dc_remote_upstreams = remote, dc_cache_size = di_cache_size i,
           dc_lazy_cache = di_lazy_cache i, dc_lazy_cache_ttl = di_lazy_cache_ttl i, dc_log_level = level,
           dc_hijack = default_on (di_hijack i), dc_block_dot = default_on (di_block_dot i),
           dc_tap = default_on (di_tap i), dc_ecs_subnet = ecs, dc_forward_rules = fwd, dc_ipv6_mode = v6,
           dc_updated_at = zero_time\<rparr>))))))"

definition getDNS :: "api_env \<Rightarrow> api_state \<Rightarrow> state_payload reply" where
  "getDNS E s =
     (case api_read E ''DNSConfig'' (t_dns (ap_tables s)) of
        Inl e \<Rightarrow> api_fail e | Inr c \<Rightarrow> writeJSON 200 (PDNS c 0))"

text \<open>A change of the upstreams empties the cache and kicks the resolver once more.\<close>

definition upstream_changed :: "dns_config \<Rightarrow> dns_config \<Rightarrow> bool" where
  "upstream_changed cur c \<longleftrightarrow>
     join_with '','' (dc_local_upstreams cur) \<noteq> join_with '','' (dc_local_upstreams c) \<or>
     join_with '','' (dc_remote_upstreams cur) \<noteq> join_with '','' (dc_remote_upstreams c)"

definition putDNS :: "api_env \<Rightarrow> dns_input outcome \<Rightarrow> api_state \<Rightarrow> state_payload reply \<times> api_state" where
  "putDNS E body s =
     (case bind_outcome body dns_validate of
        Inl e \<Rightarrow> (api_fail e, s)
      | Inr c \<Rightarrow>
     (case api_read E ''DNSConfig'' (t_dns (ap_tables s)) of
        Inl e \<Rightarrow> (api_fail e, s)
      | Inr cur \<Rightarrow>
     (case api_mutate E ''update DNS settings'' (UpdateDNSConfig (av_now E) c) s of
        (Inl e, s') \<Rightarrow> (api_fail e, s')
      | (Inr g, s') \<Rightarrow>
          (writeJSON 200 (PDNS (t_dns (ap_tables s')) g),
           if upstream_changed cur c
           then s'\<lparr>ap_cache := (case av_read E ''ClearResolveCache'' of None \<Rightarrow> ClearResolveCache (ap_cache s')
                                | Some _ \<Rightarrow> ap_cache s'),
                   ap_kicked := ap_kicked s' + 1\<rparr>
           else s'))))"

subsection \<open>Reverting a changeset\<close>

definition revertChangeset :: "api_env \<Rightarrow> string \<Rightarrow> api_state \<Rightarrow> state_payload reply \<times> api_state" where
  "revertChangeset E i s =
     (case RevertTo (av_now E) (av_uuid E 0) (av_commit E) i (av_actor E) (ap_store s) of
        ((Inl e, restored), st) \<Rightarrow>
          ((if restored > 0 then api_fail (Invalid ''id'' (error_text e)) else api_fail e), s\<lparr>ap_store := st\<rparr>)
      | ((Inr g, restored), st) \<Rightarrow>
          (writeJSON 200 (PReverted g restored),
           wake (s\<lparr>ap_store := st, ap_published := ap_published s @ [(g, ''revert'')]\<rparr>)))"

end
