(* ===== verification/ApiRouting.thy ===== *)
theory ApiRouting
  imports ApiState
begin

text \<open>
  \<open>api/v2/routing.go\<close>: the handlers of rule sets, rules, device policies and bypass
  destinations.  The validation reads the database before the transaction of the write.
\<close>

subsection \<open>Rule sets\<close>

record rule_set_input =
  rsi_name :: string
  rsi_enabled :: "bool option"

definition listRuleSets :: "api_env \<Rightarrow> api_state \<Rightarrow> state_payload reply" where
  "listRuleSets E s =
     (case api_read E ''ListRuleSets'' (ListRuleSets (ap_tables s)) of
        Inl e \<Rightarrow> api_fail e | Inr items \<Rightarrow> writeJSON 200 (PRuleSets items))"

definition createRuleSet :: "api_env \<Rightarrow> rule_set_input outcome \<Rightarrow> api_state \<Rightarrow> state_payload reply \<times> api_state" where
  "createRuleSet E body s =
     (case body of
        Inl e \<Rightarrow> (api_fail e, s)
      | Inr i \<Rightarrow>
          (let name = trim_space (rsi_name i); new = av_uuid E 1 in
           if name = [] \<or> length name > 64
           then (api_fail (Invalid ''name'' ''must be 1-64 characters''), s)
           else mutate_reply E (''add rule set '' @ quoted name)
             (\<lambda>db. bind_outcome (InsertRuleSet (av_now E) new name db) (\<lambda>db.
                if rsi_enabled i = Some False then UpdateRuleSet (av_now E) new name False db else Inr db))
             (\<lambda>g s'. case (case av_read E ''ListRuleSets'' of None \<Rightarrow> find (\<lambda>x. rs_id x = new) (ListRuleSets (ap_tables s'))
                            | Some _ \<Rightarrow> None) of
                Some x \<Rightarrow> writeJSON 201 (PRuleSet x g)
              | None \<Rightarrow> writeJSON 201 (gen_only g 0 0)) s))"

text \<open>The last row with the id, as the loop leaves it.\<close>

definition find_last :: "('a \<Rightarrow> bool) \<Rightarrow> 'a list \<Rightarrow> 'a option" where
  "find_last P xs = find P (rev xs)"

definition updateRuleSet :: "api_env \<Rightarrow> string \<Rightarrow> rule_set_input outcome \<Rightarrow> api_state \<Rightarrow> state_payload reply \<times> api_state" where
  "updateRuleSet E i body s =
     (case body of
        Inl e \<Rightarrow> (api_fail e, s)
      | Inr inp \<Rightarrow>
     (case api_read E ''ListRuleSets'' (ListRuleSets (ap_tables s)) of
        Inl e \<Rightarrow> (api_fail e, s)
      | Inr sets \<Rightarrow>
     (case find_last (\<lambda>x. rs_id x = i) sets of
        None \<Rightarrow> (api_fail NotFound, s)
      | Some cur \<Rightarrow>
          (let t = trim_space (rsi_name inp); name = (if t \<noteq> [] then t else rs_name cur);
               enabled = (case rsi_enabled inp of Some b \<Rightarrow> b | None \<Rightarrow> rs_enabled cur) in
           if t \<noteq> [] \<and> rs_builtin cur \<and> t \<noteq> rs_name cur
           then (api_fail (Invalid ''name'' ''the built-in default rule set keeps its name''), s)
           else if length name > 64 then (api_fail (Invalid ''name'' ''must be 1-64 characters''), s)
           else mutate_reply E (''update rule set '' @ quoted name) (UpdateRuleSet (av_now E) i name enabled)
             (\<lambda>g _. writeJSON 200 (PRuleSet (cur\<lparr>rs_name := name, rs_enabled := enabled\<rparr>) g)) s))))"

definition deleteRuleSet :: "api_env \<Rightarrow> string \<Rightarrow> api_state \<Rightarrow> state_payload reply \<times> api_state" where
  "deleteRuleSet E i s =
     mutate_reply E (''delete rule set '' @ i)
       (\<lambda>db. case DeleteRuleSet i db of
           Inl BuiltinRuleSet \<Rightarrow> Inl (Invalid ''id'' (error_text BuiltinRuleSet))
         | r \<Rightarrow> r)
       (\<lambda>g _. writeJSON 200 (gen_only g 1 0)) s"

definition as_invalid :: "string \<Rightarrow> 'a outcome \<Rightarrow> 'a outcome" where
  "as_invalid field r = (case r of Inl e \<Rightarrow> Inl (Invalid field (error_text e)) | Inr x \<Rightarrow> Inr x)"

definition reorderRuleSets :: "api_env \<Rightarrow> string list outcome \<Rightarrow> api_state \<Rightarrow> state_payload reply \<times> api_state" where
  "reorderRuleSets E body s =
     (case body of
        Inl e \<Rightarrow> (api_fail e, s)
      | Inr ids \<Rightarrow> mutate_reply E ''reorder rule sets'' (\<lambda>db. as_invalid ''ids'' (ReorderRuleSets ids db))
          (\<lambda>g _. writeJSON 200 (gen_only g 0 0)) s)"

definition reorderRules :: "api_env \<Rightarrow> string \<Rightarrow> string list outcome \<Rightarrow> api_state \<Rightarrow> state_payload reply \<times> api_state" where
  "reorderRules E setID body s =
     (case body of
        Inl e \<Rightarrow> (api_fail e, s)
      | Inr ids \<Rightarrow> mutate_reply E (''reorder rules in set '' @ setID)
          (\<lambda>db. as_invalid ''ids'' (ReorderRules setID ids db)) (\<lambda>g _. writeJSON 200 (gen_only g 0 0)) s)"

subsection \<open>Rules\<close>

record rule_input =
  rui_set_id :: string
  rui_match_kind :: string
  rui_match_value :: string
  rui_action_kind :: string
  rui_action_ref :: string
  rui_enabled :: "bool option"
  rui_remark :: string

definition match_kind_of :: "string \<Rightarrow> match_kind" where
  "match_kind_of s =
     (if s = ''domain'' then MatchDomain else if s = ''ip'' then MatchIP
      else if s = ''geosite'' then MatchGeosite else if s = ''geoip'' then MatchGeoIP else MatchOther s)"

definition action_kind_of :: "string \<Rightarrow> action_kind" where
  "action_kind_of s =
     (if s = ''direct'' then ActionDirect else if s = ''proxy'' then ActionProxy
      else if s = ''block'' then ActionBlock else if s = ''node'' then ActionNode
      else if s = ''group'' then ActionGroup else ActionOther s)"

text \<open>The match value, normalised for its kind.\<close>

definition rule_value :: "match_kind \<Rightarrow> mode \<Rightarrow> string \<Rightarrow> string outcome" where
  "rule_value k m v =
     (case k of
        MatchDomain \<Rightarrow>
          (case ParseDomain v of
             Inl e \<Rightarrow> Inl (Invalid ''match_value'' e)
           | Inr p \<Rightarrow>
               if dp_wildcard p \<and> m \<noteq> ModeA
               then Inl (Invalid ''match_value'' (''wildcard domains (*.x, **.x) are only supported in Mode A; Mode ''
                 @ mode_string m @ '' publishes routes per resolved domain''))
               else Inr (dp_raw p))
      | MatchIP \<Rightarrow> (case NormalizeIPOrCIDR v of Inl e \<Rightarrow> Inl (Invalid ''match_value'' e) | Inr x \<Rightarrow> Inr x)
      | MatchOther _ \<Rightarrow> Inl (Invalid ''match_kind'' ''must be domain, ip, geosite or geoip'')
      | _ \<Rightarrow> (case NormalizeGeoTag v of Inl e \<Rightarrow> Inl (Invalid ''match_value'' e) | Inr x \<Rightarrow> Inr x))"

definition ref_check :: "api_env \<Rightarrow> tables \<Rightarrow> action_kind \<Rightarrow> string \<Rightarrow> unit outcome" where
  "ref_check E db k ref =
     (case k of
        ActionNode \<Rightarrow>
          (case bind_outcome (api_read E ''GetNode'' ()) (\<lambda>_. GetNode ref db) of
             Inl _ \<Rightarrow> Inl (Invalid ''action_ref'' (''node '' @ quoted ref @ '' does not exist'')) | Inr _ \<Rightarrow> Inr ())
      | ActionGroup \<Rightarrow>
          (case bind_outcome (api_read E ''GetGroup'' ()) (\<lambda>_. GetGroup ref db) of
             Inl _ \<Rightarrow> Inl (Invalid ''action_ref'' (''group '' @ quoted ref @ '' does not exist'')) | Inr _ \<Rightarrow> Inr ())
      | ActionOther _ \<Rightarrow> Inl (Invalid ''action_kind'' ''must be direct, proxy, block, node or group'')
      | _ \<Rightarrow> if ref \<noteq> [] then Inl (Invalid ''action_ref'' (''must be empty for '' @ action_kind_string k)) else Inr ())"

definition validateRule :: "api_env \<Rightarrow> tables \<Rightarrow> rule_input \<Rightarrow> string \<Rightarrow> rule outcome" where
  "validateRule E db i v =
     (let r = zero_rule\<lparr>ru_set_id := trim_space (rui_set_id i),
            ru_match_kind := match_kind_of (to_lower (trim_space (rui_match_kind i))),
            ru_action_kind := action_kind_of (to_lower (trim_space (rui_action_kind i))),
            ru_action_ref := trim_space (rui_action_ref i),
            ru_enabled := default_on (rui_enabled i), ru_remark := trim_space (rui_remark i)\<rparr> in
      if length (ru_remark r) > 200 then Inl (Invalid ''remark'' ''at most 200 characters'')
      else bind_outcome (api_read E ''NetworkConfig'' (t_network db)) (\<lambda>net.
           bind_outcome (rule_value (ru_match_kind r) (nc_mode net) v) (\<lambda>value.
           bind_outcome (ref_check E db (ru_action_kind r) (ru_action_ref r)) (\<lambda>_.
           Inr (r\<lparr>ru_match_value := value\<rparr>)))))"

text \<open>\<open>strings.FieldsFunc\<close> on the separators, trimmed, without the empty parts.\<close>

fun fields_func :: "(char \<Rightarrow> bool) \<Rightarrow> string \<Rightarrow> string \<Rightarrow> string list" where
  "fields_func sep acc [] = (if acc = [] then [] else [acc])"
| "fields_func sep acc (c # cs) =
     (if sep c then (if acc = [] then fields_func sep [] cs else acc # fields_func sep [] cs)
      else fields_func sep (acc @ [c]) cs)"

definition splitValues :: "string \<Rightarrow> string list" where
  "splitValues s =
     filter (\<lambda>p. p \<noteq> []) (map trim_space
       (fields_func (\<lambda>c. c \<in> {CHR '','', CHR 0x0A, CHR '';'', CHR '' ''}) [] s))"

definition listRules :: "api_env \<Rightarrow> string \<Rightarrow> api_state \<Rightarrow> state_payload reply" where
  "listRules E setID s =
     (case api_read E ''ListRules'' (ListRules setID (ap_tables s)) of
        Inl e \<Rightarrow> api_fail e | Inr items \<Rightarrow> writeJSON 200 (PRules items))"

text \<open>The rules of a create request, one per value, with the identifiers the code draws.\<close>

fun validate_values :: "api_env \<Rightarrow> tables \<Rightarrow> rule_input \<Rightarrow> nat \<Rightarrow> string list \<Rightarrow> rule list outcome" where
  "validate_values E db i n [] = Inr []"
| "validate_values E db i n (v # vs) =
     bind_outcome (validateRule E db i v) (\<lambda>r.
     bind_outcome (validate_values E db i (Suc n) vs) (\<lambda>rs. Inr (r\<lparr>ru_id := av_uuid E n\<rparr> # rs)))"

definition parse_rules :: "api_env \<Rightarrow> tables \<Rightarrow> rule_input \<Rightarrow> rule list outcome" where
  "parse_rules E db i =
     (let values = splitValues (rui_match_value i) in
      if values = [] then Inl (Invalid ''match_value'' ''required'')
      else if length values > 500 then Inl (Invalid ''match_value'' ''at most 500 values per request'')
      else if trim_space (rui_set_id i) = [] then Inl (Invalid ''set_id'' ''required'')
      else validate_values E db i 1 values)"

text \<open>The write of the validated rules, and the response, which lists them by the raw set id.\<close>

definition insert_rules :: "api_env \<Rightarrow> rule_input \<Rightarrow> rule list \<Rightarrow> api_state \<Rightarrow> state_payload reply \<times> api_state" where
  "insert_rules E i rules s =
     mutate_reply E (''add '' @ int_string (int (length rules)) @ '' rule(s) to set '' @ rui_set_id i)
       (fold_outcome (InsertRule (av_now E)) rules)
       (\<lambda>g s'. writeJSON 201 (PCreated
          (filter (\<lambda>x. ru_id x \<in> set (map ru_id rules))
             (case av_read E ''ListRules'' of None \<Rightarrow> ListRules (rui_set_id i) (ap_tables s') | Some _ \<Rightarrow> [])) g)) s"

definition createRules :: "api_env \<Rightarrow> rule_input outcome \<Rightarrow> api_state \<Rightarrow> state_payload reply \<times> api_state" where
  "createRules E body s =
     (case bind_outcome body (\<lambda>i. bind_outcome (parse_rules E (ap_tables s) i) (\<lambda>rs. Inr (i, rs))) of
        Inl e \<Rightarrow> (api_fail e, s)
      | Inr (i, rules) \<Rightarrow> insert_rules E i rules s)"

definition updateRule :: "api_env \<Rightarrow> string \<Rightarrow> rule_input outcome \<Rightarrow> api_state \<Rightarrow> state_payload reply \<times> api_state" where
  "updateRule E i body s =
     (case bind_outcome body (\<lambda>inp. validateRule E (ap_tables s) inp (rui_match_value inp)) of
        Inl e \<Rightarrow> (api_fail e, s)
      | Inr r \<Rightarrow> mutate_reply E (''update rule '' @ i) (UpdateRule (av_now E) (r\<lparr>ru_id := i\<rparr>))
          (\<lambda>g _. writeJSON 200 (PRule (r\<lparr>ru_id := i\<rparr>) g)) s)"

definition deleteRule :: "api_env \<Rightarrow> string \<Rightarrow> api_state \<Rightarrow> state_payload reply \<times> api_state" where
  "deleteRule E i s = mutate_reply E (''delete rule '' @ i) (DeleteRule i) (\<lambda>g _. writeJSON 200 (gen_only g 1 0)) s"

definition moveRule :: "api_env \<Rightarrow> string \<Rightarrow> string outcome \<Rightarrow> api_state \<Rightarrow> state_payload reply \<times> api_state" where
  "moveRule E i body s =
     (case body of
        Inl e \<Rightarrow> (api_fail e, s)
      | Inr setID \<Rightarrow> mutate_reply E (''move rule '' @ i @ '' to set '' @ setID)
          (MoveRule (av_now E) i (trim_space setID)) (\<lambda>g _. writeJSON 200 (gen_only g 0 0)) s)"

subsection \<open>Device policies\<close>

record device_input =
  dvi_kind :: string
  dvi_value :: string
  dvi_action :: string
  dvi_remark :: string

definition device_kind_of :: "string \<Rightarrow> device_kind" where
  "device_kind_of s = (if s = ''mac'' then DeviceMAC else if s = ''ip'' then DeviceIP
     else if s = ''cidr'' then DeviceCIDR else DeviceKindOther s)"

definition device_action_of :: "string \<Rightarrow> device_action" where
  "device_action_of s = (if s = ''proxy'' then DeviceProxy else if s = ''direct'' then DeviceDirect
     else if s = ''reject'' then DeviceReject else DeviceActionOther s)"

definition device_value :: "device_kind \<Rightarrow> string \<Rightarrow> (device_kind \<times> string) outcome" where
  "device_value k v =
     (case k of
        DeviceMAC \<Rightarrow> (case NormalizeMAC v of Inl e \<Rightarrow> Inl (Invalid ''value'' e) | Inr x \<Rightarrow> Inr (DeviceMAC, x))
      | DeviceKindOther _ \<Rightarrow> Inl (Invalid ''kind'' ''must be mac, ip or cidr'')
      | _ \<Rightarrow> (case NormalizeIPOrCIDR v of
               Inl e \<Rightarrow> Inl (Invalid ''value'' e)
             | Inr x \<Rightarrow> Inr (if has_suffix x ''/32'' \<or> has_suffix x ''/128'' then DeviceIP else DeviceCIDR, x)))"

definition device_validate :: "device_input \<Rightarrow> device_policy outcome" where
  "device_validate i =
     bind_outcome (device_value (device_kind_of (to_lower (trim_space (dvi_kind i)))) (dvi_value i)) (\<lambda>(k, v).
     (let a = device_action_of (to_lower (trim_space (dvi_action i))); remark = trim_space (dvi_remark i) in
      if a \<notin> {DeviceProxy, DeviceDirect, DeviceReject}
      then Inl (Invalid ''action'' ''must be proxy, direct or reject'')
      else if length remark > 200 then Inl (Invalid ''remark'' ''at most 200 characters'')
      else Inr \<lparr>dp_id = [], dp_kind = k, dp_value = v, dp_action = a, dp_remark = remark,
                dp_created_at = zero_time, dp_updated_at = zero_time\<rparr>))"

definition listDevicePolicies :: "api_env \<Rightarrow> api_state \<Rightarrow> state_payload reply" where
  "listDevicePolicies E s =
     (case api_read E ''ListDevicePolicies'' (ListDevicePolicies (ap_tables s)) of
        Inl e \<Rightarrow> api_fail e | Inr items \<Rightarrow> writeJSON 200 (PDevices items))"

definition createDevicePolicy :: "api_env \<Rightarrow> device_input outcome \<Rightarrow> api_state \<Rightarrow> state_payload reply \<times> api_state" where
  "createDevicePolicy E body s =
     (case bind_outcome body device_validate of
        Inl e \<Rightarrow> (api_fail e, s)
      | Inr p0 \<Rightarrow>
          (let p = p0\<lparr>dp_id := av_uuid E 1\<rparr> in
           mutate_reply E (''add device policy '' @ dp_value p @ '' '' @ device_action_string (dp_action p))
             (InsertDevicePolicy (av_now E) p) (\<lambda>g _. writeJSON 201 (PDevice p g)) s))"

definition updateDevicePolicy :: "api_env \<Rightarrow> string \<Rightarrow> device_input outcome \<Rightarrow> api_state \<Rightarrow> state_payload reply \<times> api_state" where
  "updateDevicePolicy E i body s =
     (case bind_outcome body device_validate of
        Inl e \<Rightarrow> (api_fail e, s)
      | Inr p0 \<Rightarrow>
          (let p = p0\<lparr>dp_id := i\<rparr> in
           mutate_reply E (''update device policy '' @ i) (UpdateDevicePolicy (av_now E) p)
             (\<lambda>g _. writeJSON 200 (PDevice p g)) s))"

definition deleteDevicePolicy :: "api_env \<Rightarrow> string \<Rightarrow> api_state \<Rightarrow> state_payload reply \<times> api_state" where
  "deleteDevicePolicy E i s =
     mutate_reply E (''delete device policy '' @ i) (DeleteDevicePolicy i) (\<lambda>g _. writeJSON 200 (gen_only g 1 0)) s"

subsection \<open>Bypass destinations\<close>

record bypass_input =
  byi_cidr :: string
  byi_remark :: string

definition listBypass :: "api_env \<Rightarrow> api_state \<Rightarrow> state_payload reply" where
  "listBypass E s =
     (case api_read E ''ListBypassDestinations'' (ListBypassDestinations (ap_tables s)) of
        Inl e \<Rightarrow> api_fail e | Inr items \<Rightarrow> writeJSON 200 (PBypasses items))"

definition createBypass :: "api_env \<Rightarrow> bypass_input outcome \<Rightarrow> api_state \<Rightarrow> state_payload reply \<times> api_state" where
  "createBypass E body s =
     (case body of
        Inl e \<Rightarrow> (api_fail e, s)
      | Inr i \<Rightarrow>
     (case NormalizeIPOrCIDR (byi_cidr i) of
        Inl e \<Rightarrow> (api_fail (Invalid ''cidr'' e), s)
      | Inr v \<Rightarrow>
          if IsIPv6Prefix v then (api_fail (Invalid ''cidr'' ''bypass destinations are IPv4 only''), s)
          else (let b = \<lparr>bd_id = av_uuid E 1, bd_cidr = v, bd_remark = trim_space (byi_remark i),
                         bd_created_at = zero_time\<rparr> in
                mutate_reply E (''add bypass destination '' @ v) (InsertBypassDestination (av_now E) b)
                  (\<lambda>g _. writeJSON 201 (PBypass b g)) s)))"

text \<open>Editing the remark is a plain statement: no generation, no wake-up.\<close>

definition updateBypass :: "api_env \<Rightarrow> string \<Rightarrow> string outcome \<Rightarrow> api_state \<Rightarrow> state_payload reply \<times> api_state" where
  "updateBypass E i body s =
     (case body of
        Inl e \<Rightarrow> (api_fail e, s)
      | Inr remark0 \<Rightarrow>
          (let remark = trim_space remark0 in
           if length remark > 200 then (api_fail (Invalid ''remark'' ''at most 200 characters''), s)
           else (case bind_outcome (api_read E ''UpdateBypassRemark'' ()) (\<lambda>_. UpdateBypassRemark i remark (ap_tables s)) of
                   Inl e \<Rightarrow> (api_fail e, s)
                 | Inr db \<Rightarrow>
                     (let s' = s\<lparr>ap_store := (ap_store s)\<lparr>ss_tables := db\<rparr>\<rparr> in
                      ((case api_read E ''ListBypassDestinations'' (ListBypassDestinations db) of
                          Inl e \<Rightarrow> api_fail e
                        | Inr items \<Rightarrow>
                            (case find (\<lambda>b. bd_id b = i) items of
                               Some b \<Rightarrow> writeJSON 200 (PBypass b 0)
                             | None \<Rightarrow> writeErr 404 ''NOT_FOUND'' ''bypass destination not found'')), s')))))"

definition deleteBypass :: "api_env \<Rightarrow> string \<Rightarrow> api_state \<Rightarrow> state_payload reply \<times> api_state" where
  "deleteBypass E i s =
     mutate_reply E (''delete bypass destination '' @ i) (DeleteBypassDestination i)
       (\<lambda>g _. writeJSON 200 (gen_only g 1 0)) s"

end
