(* ===== verification/ApiNodes.thy ===== *)
theory ApiNodes
  imports ApiRouting
begin

text \<open>
  \<open>api/v2/nodes.go\<close>: the handlers of nodes and groups.  Arguments: \<open>js\<close> tells what
  \<open>json.Unmarshal\<close> into a map makes of a text (\<open>None\<close> an error or null, else whether the key
  \<open>settings\<close> holds an object), \<open>enc\<close> is the keyring's \<open>Encrypt\<close> (\<open>None\<close> without a keyring) and
  \<open>parse\<close> is \<open>sharelink.Parse\<close>.  The probe results shown beside the nodes are left out.
\<close>

definition viewNode :: "node_row \<Rightarrow> node_view" where
  "viewNode n = \<lparr>nv_node = node.truncate n,
     nv_has_credential = (case nr_cred n of None \<Rightarrow> False | Some c \<Rightarrow> c \<noteq> [])\<rparr>"

record node_input =
  noi_name :: string
  noi_protocol :: string
  noi_address :: string
  noi_port :: int
  noi_params :: string
  noi_enabled :: "bool option"
  noi_credential :: "string option"

definition protocol_of :: "string \<Rightarrow> protocol" where
  "protocol_of s =
     (if s = ''vmess'' then ProtocolVMess else if s = ''vless'' then ProtocolVLESS
      else if s = ''trojan'' then ProtocolTrojan else if s = ''shadowsocks'' then ProtocolShadowsocks
      else if s = ''socks'' then ProtocolSocks else if s = ''http'' then ProtocolHTTP
      else if s = ''wireguard'' then ProtocolWireGuard else if s = ''hysteria'' then ProtocolHysteria
      else if s = ''custom'' then ProtocolCustom else ProtocolOther s)"

definition protocols :: "protocol \<Rightarrow> bool" where
  "protocols p \<longleftrightarrow> p \<in> {ProtocolVMess, ProtocolVLESS, ProtocolTrojan, ProtocolShadowsocks, ProtocolSocks,
     ProtocolHTTP, ProtocolWireGuard, ProtocolCustom, ProtocolHysteria}"

definition credentialRequired :: "protocol \<Rightarrow> bool" where
  "credentialRequired p \<longleftrightarrow> p \<in> {ProtocolVMess, ProtocolVLESS, ProtocolTrojan, ProtocolShadowsocks,
     ProtocolWireGuard, ProtocolHysteria}"

definition node_validate :: "(string \<Rightarrow> bool option) \<Rightarrow> node_input \<Rightarrow> bool \<Rightarrow> node outcome" where
  "node_validate js i hasCredential =
     (let name = trim_space (noi_name i); p = protocol_of (to_lower (trim_space (noi_protocol i)));
          addr = trim_space (noi_address i); ps = trim_space (noi_params i);
          params = (if ps = [] then ''{}'' else ps) in
      if name = [] \<or> length name > 64 then Inl (Invalid ''name'' ''must be 1-64 characters'')
      else if \<not> protocols p then Inl (Invalid ''protocol'' (''unsupported protocol '' @ quoted (noi_protocol i)))
      else if addr = [] \<or> (\<exists>c\<in>set addr. c \<in> {CHR '' '', CHR ''/'', CHR 0x5C})
      then Inl (Invalid ''address'' ''must be a hostname or IP'')
      else if noi_port i < 1 \<or> noi_port i > 65535 then Inl (Invalid ''port'' ''must be 1-65535'')
      else (case js params of
              None \<Rightarrow> Inl (Invalid ''params'' ''must be a JSON object'')
            | Some settings \<Rightarrow>
                if p \<in> {ProtocolCustom, ProtocolWireGuard} \<and> \<not> settings
                then Inl (Invalid ''params'' (protocol_string p @ '' nodes need params.settings''))
                else if credentialRequired p \<and> \<not> hasCredential
                then Inl (Invalid ''credential'' (protocol_string p @ '' nodes need a credential''))
                else Inr (zero_node\<lparr>n_name := name, n_protocol := p, n_address := addr, n_port := noi_port i,
                  n_params := params, n_enabled := default_on (noi_enabled i)\<rparr>)))"

text \<open>Without a keyring the bytes of the credential, which are never nil.\<close>

definition encrypt :: "(string \<Rightarrow> string option outcome) option \<Rightarrow> string \<Rightarrow> string option outcome" where
  "encrypt enc cred = (case enc of None \<Rightarrow> Inr (Some cred) | Some f \<Rightarrow> f cred)"

definition row_of_node :: "node \<Rightarrow> string option \<Rightarrow> node_row" where
  "row_of_node n c = node.extend n \<lparr>nr_cred = c\<rparr>"

definition listNodes :: "api_env \<Rightarrow> api_state \<Rightarrow> state_payload reply" where
  "listNodes E s =
     (case api_read E ''ListNodes'' (ListNodes (ap_tables s)) of
        Inl e \<Rightarrow> api_fail e | Inr rows \<Rightarrow> writeJSON 200 (PNodes (map viewNode rows)))"

definition getNode :: "api_env \<Rightarrow> string \<Rightarrow> api_state \<Rightarrow> state_payload reply" where
  "getNode E i s =
     (case bind_outcome (api_read E ''GetNode'' ()) (\<lambda>_. GetNode i (ap_tables s)) of
        Inl e \<Rightarrow> api_fail e | Inr n \<Rightarrow> writeJSON 200 (PNode (viewNode n) 0))"

text \<open>A row that cannot be read back is shown as an empty one.\<close>

definition read_back :: "api_env \<Rightarrow> string \<Rightarrow> api_state \<Rightarrow> node_row" where
  "read_back E i s =
     (case bind_outcome (api_read E ''GetNode again'' ()) (\<lambda>_. GetNode i (ap_tables s)) of
        Inl e \<Rightarrow> row_of_node zero_node None | Inr n \<Rightarrow> n)"

definition createNode ::
  "(string \<Rightarrow> bool option) \<Rightarrow> (string \<Rightarrow> string option outcome) option \<Rightarrow> api_env \<Rightarrow> node_input outcome \<Rightarrow>
     api_state \<Rightarrow> state_payload reply \<times> api_state" where
  "createNode js enc E body s =
     (case bind_outcome body (\<lambda>i.
        (let cred = (case noi_credential i of None \<Rightarrow> [] | Some c \<Rightarrow> trim_space c) in
         bind_outcome (node_validate js i (cred \<noteq> [])) (\<lambda>n.
         bind_outcome (encrypt enc cred) (\<lambda>c. Inr (n, c))))) of
        Inl e \<Rightarrow> (api_fail e, s)
      | Inr (n0, c) \<Rightarrow>
          (let n = n0\<lparr>n_id := av_uuid E 1\<rparr> in
           mutate_reply E (''add node '' @ quoted (n_name n)) (InsertNode (av_now E) (row_of_node n c))
             (\<lambda>g s'. writeJSON 201 (PNode (viewNode (read_back E (n_id n) s')) g)) s))"

text \<open>
  The credential of an update: absent keeps the stored one, and an encryption that gives nil is
  made an explicit clear.
\<close>

definition update_credential ::
  "(string \<Rightarrow> string option outcome) option \<Rightarrow> node_row \<Rightarrow> node_input \<Rightarrow> (string option \<times> bool) outcome" where
  "update_credential enc existing i =
     (case noi_credential i of
        None \<Rightarrow> Inr (None, (case nr_cred existing of None \<Rightarrow> False | Some c \<Rightarrow> c \<noteq> []))
      | Some c0 \<Rightarrow>
          (let c = trim_space c0 in
           bind_outcome (encrypt enc c) (\<lambda>e. Inr (Some (case e of None \<Rightarrow> [] | Some x \<Rightarrow> x), c \<noteq> []))))"

definition updateNode ::
  "(string \<Rightarrow> bool option) \<Rightarrow> (string \<Rightarrow> string option outcome) option \<Rightarrow> api_env \<Rightarrow> string \<Rightarrow> node_input outcome \<Rightarrow>
     api_state \<Rightarrow> state_payload reply \<times> api_state" where
  "updateNode js enc E i body s =
     (case bind_outcome (bind_outcome (api_read E ''GetNode'' ()) (\<lambda>_. GetNode i (ap_tables s))) (\<lambda>existing.
           bind_outcome body (\<lambda>inp.
           bind_outcome (update_credential enc existing inp) (\<lambda>(c, hasCred).
           bind_outcome (node_validate js inp hasCred) (\<lambda>n. Inr (n\<lparr>n_id := n_id existing\<rparr>, c))))) of
        Inl e \<Rightarrow> (api_fail e, s)
      | Inr (n, c) \<Rightarrow>
          mutate_reply E (''update node '' @ quoted (n_name n)) (UpdateNode (av_now E) (row_of_node n c))
            (\<lambda>g s'. writeJSON 200 (PNode (viewNode (read_back E (n_id n) s')) g)) s)"

text \<open>Deletions report how many rules were sent back to the default outbound.\<close>

definition delete_reply ::
  "api_env \<Rightarrow> string \<Rightarrow> (tables \<Rightarrow> (tables \<times> int) outcome) \<Rightarrow> api_state \<Rightarrow> state_payload reply \<times> api_state" where
  "delete_reply E summary del s =
     mutate_reply E summary (\<lambda>db. bind_outcome (del db) (\<lambda>(db', _). Inr db'))
       (\<lambda>g _. writeJSON 200 (gen_only g 1 (case del (ap_tables s) of Inr (_, n) \<Rightarrow> n | Inl _ \<Rightarrow> 0))) s"

definition deleteNode :: "api_env \<Rightarrow> string \<Rightarrow> api_state \<Rightarrow> state_payload reply \<times> api_state" where
  "deleteNode E i s = delete_reply E (''delete node '' @ i) (DeleteNode (av_now E) i) s"

definition setDefaultNode :: "api_env \<Rightarrow> string \<Rightarrow> api_state \<Rightarrow> state_payload reply \<times> api_state" where
  "setDefaultNode E i s =
     mutate_reply E (''set default node '' @ i) (SetDefaultNode (av_now E) i) (\<lambda>g _. writeJSON 200 (gen_only g 0 0)) s"

definition setNodeEnabled :: "api_env \<Rightarrow> string \<Rightarrow> bool outcome \<Rightarrow> api_state \<Rightarrow> state_payload reply \<times> api_state" where
  "setNodeEnabled E i body s =
     (case body of
        Inl e \<Rightarrow> (api_fail e, s)
      | Inr b \<Rightarrow> mutate_reply E (''node '' @ i @ '' enabled='' @ (if b then ''true'' else ''false''))
          (SetNodeEnabled (av_now E) i b) (\<lambda>g _. writeJSON 200 (gen_only g 0 0)) s)"

subsection \<open>Importing share links\<close>

text \<open>\<open>strings.Cut(link, "://")\<close>\<close>

definition cut_scheme :: "string \<Rightarrow> (string \<times> string) option" where
  "cut_scheme link = map_option (\<lambda>k. (take k link, drop (k + 3) link)) (str_index link ''://'')"

definition ellipsis :: string where "ellipsis = [CHR 0xE2, CHR 0x80, CHR 0xA6]"

definition redactLink :: "string \<Rightarrow> string" where
  "redactLink link =
     (case cut_scheme link of
        None \<Rightarrow> link
      | Some (scheme, rest) \<Rightarrow>
          (case last_index_byte rest CHR ''@'' of
             Some at \<Rightarrow>
               if at > 0 then scheme @ ''://***@'' @ drop (at + 1) rest
               else if length rest > 12 then scheme @ ''://'' @ take 8 rest @ ellipsis else scheme @ ''://'' @ ellipsis
           | None \<Rightarrow> if length rest > 12 then scheme @ ''://'' @ take 8 rest @ ellipsis else scheme @ ''://'' @ ellipsis))"

text \<open>One link after the other; an encryption error stops the request.\<close>

fun parse_links ::
  "(string \<Rightarrow> (node \<times> string) result) \<Rightarrow> (string \<Rightarrow> string option outcome) option \<Rightarrow> api_env \<Rightarrow> nat \<Rightarrow>
     string list \<Rightarrow> (import_result list \<times> node_row list) outcome" where
  "parse_links parse enc E n [] = Inr ([], [])"
| "parse_links parse enc E n (link # links) =
     (case parse link of
        Inl e \<Rightarrow>
          bind_outcome (parse_links parse enc E n links) (\<lambda>(rs, rows).
            Inr (\<lparr>ir_link = redactLink link, ir_node = None, ir_error = e\<rparr> # rs, rows))
      | Inr (nd, cred) \<Rightarrow>
          bind_outcome (encrypt enc cred) (\<lambda>c.
          (let row = row_of_node (nd\<lparr>n_id := av_uuid E n\<rparr>) c in
           bind_outcome (parse_links parse enc E (Suc n) links) (\<lambda>(rs, rows).
             Inr (\<lparr>ir_link = redactLink link, ir_node = Some (viewNode row), ir_error = []\<rparr> # rs, row # rows)))))"

definition importNodes ::
  "(string \<Rightarrow> (node \<times> string) result) \<Rightarrow> (string \<Rightarrow> string option outcome) option \<Rightarrow> api_env \<Rightarrow>
     (string list \<times> bool) outcome \<Rightarrow> api_state \<Rightarrow> state_payload reply \<times> api_state" where
  "importNodes parse enc E body s =
     (case bind_outcome body (\<lambda>(links, dry).
        if links = [] \<or> length links > 200 then Inl (Invalid ''links'' ''provide 1-200 links'')
        else bind_outcome (parse_links parse enc E 1 links) (\<lambda>(rs, rows). Inr (rs, rows, dry))) of
        Inl e \<Rightarrow> (api_fail e, s)
      | Inr (rs, rows, dry) \<Rightarrow>
          if dry \<or> rows = [] then (writeJSON 200 (PImported rs 0 0 dry), s)
          else mutate_reply E (''import '' @ int_string (int (length rows)) @ '' node(s)'')
            (fold_outcome (InsertNode (av_now E)) rows)
            (\<lambda>g _. writeJSON 201 (PImported rs (int (length rows)) g False)) s)"

subsection \<open>Groups\<close>

record group_input =
  gri_name :: string
  gri_kind :: string
  gri_member_ids :: "string list"
  gri_strategy :: string

definition group_kind_of :: "string \<Rightarrow> group_kind" where
  "group_kind_of s = (if s = ''failover'' then GroupFailover else if s = ''loadbalance'' then GroupLoadBalance
     else GroupKindOther s)"

definition group_validate :: "(string \<Rightarrow> bool option) \<Rightarrow> group_input \<Rightarrow> outbound_group outcome" where
  "group_validate js i =
     (let name = trim_space (gri_name i); k = group_kind_of (to_lower (trim_space (gri_kind i)));
          st = trim_space (gri_strategy i); strategy = (if st = [] then ''{}'' else st) in
      if name = [] \<or> length name > 64 then Inl (Invalid ''name'' ''must be 1-64 characters'')
      else if k \<noteq> GroupFailover \<and> k \<noteq> GroupLoadBalance then Inl (Invalid ''kind'' ''must be failover or loadbalance'')
      else if gri_member_ids i = [] then Inl (Invalid ''member_ids'' ''at least one member'')
      else if [] \<in> set (gri_member_ids i) \<or> \<not> distinct (gri_member_ids i)
      then Inl (Invalid ''member_ids'' ''ids must be non-empty and unique'')
      else if js strategy = None then Inl (Invalid ''strategy'' ''must be a JSON object'')
      else Inr \<lparr>g_id = [], g_name = name, g_kind = k, g_member_ids = gri_member_ids i, g_strategy = strategy,
                g_created_at = zero_time, g_updated_at = zero_time\<rparr>)"

definition listGroups :: "api_env \<Rightarrow> api_state \<Rightarrow> state_payload reply" where
  "listGroups E s =
     (case api_read E ''ListGroups'' (ListGroups (ap_tables s)) of
        Inl e \<Rightarrow> api_fail e | Inr items \<Rightarrow> writeJSON 200 (PGroups items))"

definition getGroup :: "api_env \<Rightarrow> string \<Rightarrow> api_state \<Rightarrow> state_payload reply" where
  "getGroup E i s =
     (case bind_outcome (api_read E ''GetGroup'' ()) (\<lambda>_. GetGroup i (ap_tables s)) of
        Inl e \<Rightarrow> api_fail e | Inr g \<Rightarrow> writeJSON 200 (PGroup g 0))"

definition group_back :: "api_env \<Rightarrow> string \<Rightarrow> api_state \<Rightarrow> outbound_group" where
  "group_back E i s =
     (case bind_outcome (api_read E ''GetGroup again'' ()) (\<lambda>_. GetGroup i (ap_tables s)) of
        Inl e \<Rightarrow> zero_group | Inr g \<Rightarrow> g)"

definition save_group :: "api_env \<Rightarrow> int \<Rightarrow> string \<Rightarrow> outbound_group \<Rightarrow> api_state \<Rightarrow> state_payload reply \<times> api_state" where
  "save_group E status verb g s =
     mutate_reply E (verb @ '' group '' @ quoted (g_name g)) (UpsertGroup (av_now E) g)
       (\<lambda>gen s'. writeJSON status (PGroup (group_back E (g_id g) s') gen)) s"

definition createGroup ::
  "(string \<Rightarrow> bool option) \<Rightarrow> api_env \<Rightarrow> group_input outcome \<Rightarrow> api_state \<Rightarrow> state_payload reply \<times> api_state" where
  "createGroup js E body s =
     (case bind_outcome body (group_validate js) of
        Inl e \<Rightarrow> (api_fail e, s)
      | Inr g \<Rightarrow> save_group E 201 ''add'' (g\<lparr>g_id := av_uuid E 1\<rparr>) s)"

definition updateGroup ::
  "(string \<Rightarrow> bool option) \<Rightarrow> api_env \<Rightarrow> string \<Rightarrow> group_input outcome \<Rightarrow> api_state \<Rightarrow> state_payload reply \<times> api_state" where
  "updateGroup js E i body s =
     (case bind_outcome (bind_outcome (api_read E ''GetGroup'' ()) (\<lambda>_. GetGroup i (ap_tables s)))
        (\<lambda>_. bind_outcome body (group_validate js)) of
        Inl e \<Rightarrow> (api_fail e, s)
      | Inr g \<Rightarrow> save_group E 200 ''update'' (g\<lparr>g_id := i\<rparr>) s)"

definition deleteGroup :: "api_env \<Rightarrow> string \<Rightarrow> api_state \<Rightarrow> state_payload reply \<times> api_state" where
  "deleteGroup E i s = delete_reply E (''delete group '' @ i) (DeleteGroup (av_now E) i) s"

end
