(* ===== verification/StoreInv.thy ===== *)
theory StoreInv
  imports StoreMutate
begin

text \<open>
  What the schema promises of the tables (keys, checks, foreign keys) and what the code adds to
  it, that a rule only names an existing node or group; every statement of the store keeps both.
  The predicates are on the rows of a table and the keys it refers to, so that a statement only
  has to show the part of the table it writes.
\<close>

definition nodes_ok :: "node_row list \<Rightarrow> bool" where
  "nodes_ok ns \<longleftrightarrow> unique_key n_id ns \<and> list_all node_check ns \<and> length (filter n_is_default ns) \<le> 1"

definition groups_ok :: "group_row list \<Rightarrow> bool" where
  "groups_ok gs \<longleftrightarrow> unique_key gr_id gs \<and> unique_key gr_name gs \<and> list_all (\<lambda>g. group_kind_known (gr_kind g)) gs"

definition members_ok :: "string set \<Rightarrow> string set \<Rightarrow> member_row list \<Rightarrow> bool" where
  "members_ok gs ns ms \<longleftrightarrow> unique_key (\<lambda>m. (mr_group m, mr_node m)) ms \<and>
     list_all (\<lambda>m. mr_group m \<in> gs \<and> mr_node m \<in> ns) ms"

definition rules_ok :: "string set \<Rightarrow> rule list \<Rightarrow> bool" where
  "rules_ok sets rs \<longleftrightarrow> unique_key ru_id rs \<and> list_all (\<lambda>r. rule_check r \<and> ru_set_id r \<in> sets) rs"

definition devices_ok :: "device_policy list \<Rightarrow> bool" where
  "devices_ok ds \<longleftrightarrow> unique_key dp_id ds \<and> unique_key (\<lambda>d. (dp_kind d, dp_value d)) ds \<and> list_all device_check ds"

definition bypass_ok :: "bypass_destination list \<Rightarrow> bool" where
  "bypass_ok bs \<longleftrightarrow> unique_key bd_id bs \<and> unique_key bd_cidr bs"

definition log_level_ok :: "string \<Rightarrow> bool" where
  "log_level_ok l \<longleftrightarrow> l \<in> {''debug'', ''info'', ''warn'', ''error''}"

definition deploys_ok :: "string set \<Rightarrow> deploy_ref list \<Rightarrow> bool" where
  "deploys_ok ns ds \<longleftrightarrow> list_all (\<lambda>d. case dr_node d of None \<Rightarrow> True | Some i \<Rightarrow> i \<in> ns) ds"

abbreviation node_ids :: "tables \<Rightarrow> string set" where "node_ids db \<equiv> n_id ` set (t_nodes db)"
abbreviation group_ids :: "tables \<Rightarrow> string set" where "group_ids db \<equiv> gr_id ` set (t_groups db)"
abbreviation rule_set_ids :: "tables \<Rightarrow> string set" where "rule_set_ids db \<equiv> rs_id ` set (t_rule_sets db)"

definition schema_ok :: "tables \<Rightarrow> bool" where
  "schema_ok db \<longleftrightarrow> nodes_ok (t_nodes db) \<and> groups_ok (t_groups db) \<and>
     members_ok (group_ids db) (node_ids db) (t_members db) \<and> unique_key rs_id (t_rule_sets db) \<and>
     rules_ok (rule_set_ids db) (t_rules db) \<and> devices_ok (t_devices db) \<and> bypass_ok (t_bypass db) \<and>
     network_check (t_network db) \<and> log_level_ok (dc_log_level (t_dns db)) \<and>
     deploys_ok (node_ids db) (t_deploys db)"

text \<open>A rule names a target that exists.\<close>

definition target_ok :: "string set \<Rightarrow> string set \<Rightarrow> rule \<Rightarrow> bool" where
  "target_ok ns gs r \<longleftrightarrow> (ru_action_kind r = ActionNode \<longrightarrow> ru_action_ref r \<in> ns) \<and>
     (ru_action_kind r = ActionGroup \<longrightarrow> ru_action_ref r \<in> gs)"

definition targets_ok :: "tables \<Rightarrow> bool" where
  "targets_ok db \<longleftrightarrow> list_all (target_ok (node_ids db) (group_ids db)) (t_rules db)"

definition db_ok :: "tables \<Rightarrow> bool" where
  "db_ok db \<longleftrightarrow> schema_ok db \<and> targets_ok db"

lemmas ok_defs = nodes_ok_def groups_ok_def members_ok_def rules_ok_def devices_ok_def bypass_ok_def deploys_ok_def

text \<open>The columns the checks do not read.\<close>

lemma check_frame [simp]:
  "rule_check (r\<lparr>ru_position := x\<rparr>) = rule_check r" "rule_check (r\<lparr>ru_set_id := s\<rparr>) = rule_check r"
  "rule_check (r\<lparr>ru_updated_at := t\<rparr>) = rule_check r" "rule_check (r\<lparr>ru_created_at := t\<rparr>) = rule_check r"
  "target_ok ns gs (r\<lparr>ru_position := x\<rparr>) = target_ok ns gs r" "target_ok ns gs (r\<lparr>ru_set_id := s\<rparr>) = target_ok ns gs r"
  "target_ok ns gs (r\<lparr>ru_updated_at := t\<rparr>) = target_ok ns gs r" "target_ok ns gs (r\<lparr>ru_created_at := t\<rparr>) = target_ok ns gs r"
  "network_check (c\<lparr>nc_updated_at := t\<rparr>) = network_check c"
  "device_check (d\<lparr>dp_created_at := t\<rparr>) = device_check d" "device_check (d\<lparr>dp_updated_at := t\<rparr>) = device_check d"
  by (simp_all add: rule_check_def target_ok_def network_check_def device_check_def
      cong: match_kind.case_cong action_kind.case_cong device_kind.case_cong device_action.case_cong)

subsection \<open>Rows\<close>

lemma keys_update: "(\<And>r. P r \<Longrightarrow> key (f r) = key r) \<Longrightarrow> map key (tbl_update P f t) = map key t"
  by (simp add: tbl_update_def)

lemma keyset_update: "(\<And>r. P r \<Longrightarrow> key (f r) = key r) \<Longrightarrow> key ` set (tbl_update P f t) = key ` set t"
  by (metis keys_update set_map)

lemma list_all_update: "list_all Q t \<Longrightarrow> (\<And>r. r \<in> set t \<Longrightarrow> P r \<Longrightarrow> Q r \<Longrightarrow> Q (f r)) \<Longrightarrow> list_all Q (tbl_update P f t)"
  by (auto simp: tbl_update_def list_all_iff)

lemma list_all_delete: "list_all Q t \<Longrightarrow> list_all Q (tbl_delete P t)"
  by (auto simp: tbl_delete_def list_all_iff)

lemma keyset_delete: "unique_key key t \<Longrightarrow> key ` set (tbl_delete P t) = key ` set t - key ` set (filter P t)"
  by (fastforce simp: tbl_delete_def distinct_map inj_on_def)

lemma rows_affected_0: "rows_affected P t = 0 \<longleftrightarrow> (\<forall>r\<in>set t. \<not> P r)"
  by (simp add: rows_affected_def filter_empty_conv)

lemma tbl_get_None': "tbl_get key t k = None \<longleftrightarrow> (\<forall>r\<in>set t. key r \<noteq> k)"
  by (auto simp: tbl_get_None)

lemma unique_key_sort: "unique_key k (sort_key f xs) \<longleftrightarrow> unique_key k xs"
  by (simp add: distinct_map)

lemma list_all_append1: "list_all Q (t @ [r]) \<longleftrightarrow> list_all Q t \<and> Q r"
  by simp

lemma unique_key_append1: "unique_key key (t @ [r]) \<longleftrightarrow> unique_key key t \<and> (\<forall>x\<in>set t. key x \<noteq> key r)"
  by (simp add: image_iff) metis

subsection \<open>Nodes\<close>

lemma no_default: "length (filter P ns) = 0 \<longleftrightarrow> (\<forall>n\<in>set ns. \<not> P n)"
  by (simp add: filter_empty_conv)

lemma InsertNode_ok: "db_ok db \<Longrightarrow> InsertNode now n db = Inr db' \<Longrightarrow> db_ok db'"
proof -
  assume ok: "db_ok db" and ins: "InsertNode now n db = Inr db'"
  define row where "row = n\<lparr>n_credential := [], n_created_at := now, n_updated_at := now\<rparr>"
  from ins have c: "node_check n" "\<forall>x\<in>set (t_nodes db). n_id x \<noteq> n_id n"
      "n_is_default n \<Longrightarrow> \<forall>x\<in>set (t_nodes db). \<not> n_is_default x"
    and db': "db' = db\<lparr>t_nodes := t_nodes db @ [row]\<rparr>"
    by (auto simp: InsertNode_def row_def tbl_get_None' split: if_splits)
  have r: "n_id row = n_id n" "n_is_default row = n_is_default n" "node_check row"
    using c(1) by (simp_all add: row_def node_check_def)
  have nodes: "nodes_ok (t_nodes db @ [row])"
    using ok c r by (auto simp: db_ok_def schema_ok_def nodes_ok_def filter_empty_conv)
  have mono: "members_ok gs ns ms \<Longrightarrow> members_ok gs (insert x ns) ms"
      "deploys_ok ns ds \<Longrightarrow> deploys_ok (insert x ns) ds" for gs ns ms ds and x :: string
    by (auto simp: members_ok_def deploys_ok_def list_all_iff split: option.splits)
  show ?thesis using ok nodes mono
    by (auto simp: db_ok_def schema_ok_def db' targets_ok_def list_all_iff target_ok_def)
qed

text \<open>A statement that keeps the keys of the nodes.\<close>

lemma nodes_update_ok:
  assumes ok: "db_ok db" and keys: "map n_id ns = map n_id (t_nodes db)" and "nodes_ok ns"
  shows "db_ok (db\<lparr>t_nodes := ns\<rparr>)"
proof -
  have "n_id ` set ns = node_ids db" by (metis keys set_map)
  then show ?thesis using assms by (simp add: db_ok_def schema_ok_def targets_ok_def)
qed

lemma nodes_ok_update:
  assumes ok: "nodes_ok ns"
    and f: "\<And>m. m \<in> set ns \<Longrightarrow> P m \<Longrightarrow> n_id (f m) = n_id m \<and> (n_is_default (f m) \<longrightarrow> n_is_default m) \<and>
      (node_check m \<longrightarrow> node_check (f m))"
  shows "nodes_ok (tbl_update P f ns)" "map n_id (tbl_update P f ns) = map n_id ns"
proof -
  show keys: "map n_id (tbl_update P f ns) = map n_id ns" using f by (simp add: tbl_update_def)
  have "length (filter n_is_default (tbl_update P f ns)) \<le> length (filter n_is_default ns)"
    using f by (induction ns) (auto simp: tbl_update_def)
  then show "nodes_ok (tbl_update P f ns)"
    using ok keys f by (auto simp: nodes_ok_def intro: list_all_update)
qed

lemma nodes_row_update_ok:
  assumes "db_ok db"
    and "\<And>m. m \<in> set (t_nodes db) \<Longrightarrow> P m \<Longrightarrow> n_id (f m) = n_id m \<and>
      (n_is_default (f m) \<longrightarrow> n_is_default m) \<and> (node_check m \<longrightarrow> node_check (f m))"
  shows "db_ok (db\<lparr>t_nodes := tbl_update P f (t_nodes db)\<rparr>)"
  using assms by (intro nodes_update_ok nodes_ok_update) (auto simp: db_ok_def schema_ok_def)

lemma UpdateNode_ok: "db_ok db \<Longrightarrow> UpdateNode now n db = Inr db' \<Longrightarrow> db_ok db'"
  by (auto simp: UpdateNode_def node_check_def split: if_splits intro!: nodes_row_update_ok)

lemma SetNodeEnabled_ok: "db_ok db \<Longrightarrow> SetNodeEnabled now i e db = Inr db' \<Longrightarrow> db_ok db'"
  by (auto simp: SetNodeEnabled_def node_check_def intro!: nodes_row_update_ok)

lemma UpdateNodeLatency_ok: "db_ok db \<Longrightarrow> db_ok (UpdateNodeLatency i ms db)"
  by (auto simp: UpdateNodeLatency_def node_check_def intro!: nodes_row_update_ok)

lemma length_filter_imp: "(\<And>x. P x \<Longrightarrow> Q x) \<Longrightarrow> length (filter P xs) \<le> length (filter Q xs)"
  by (induction xs) auto

lemma length_filter_key: "unique_key key t \<Longrightarrow> length (filter (\<lambda>r. key r = k) t) \<le> 1"
  by (induction t) (auto simp: filter_empty_conv image_iff)

lemma SetDefaultNode_ok: "db_ok db \<Longrightarrow> SetDefaultNode now i db = Inr db' \<Longrightarrow> db_ok db'"
proof -
  assume ok: "db_ok db" and d: "SetDefaultNode now i db = Inr db'"
  define g where "g = (\<lambda>m::node_row. if n_id m = i then m\<lparr>n_is_default := True, n_updated_at := now\<rparr>
    else m\<lparr>n_is_default := False\<rparr>)"
  have db': "db' = db\<lparr>t_nodes := map g (t_nodes db)\<rparr>"
    using d by (auto simp: SetDefaultNode_def Let_def tbl_update_def g_def split: if_splits)
  have g: "n_id (g m) = n_id m" "n_is_default (g m) \<longleftrightarrow> n_id m = i" "node_check (g m) = node_check m" for m
    by (auto simp: g_def node_check_def)
  have nodes: "unique_key n_id (t_nodes db)" "list_all node_check (t_nodes db)"
    using ok by (auto simp: db_ok_def schema_ok_def nodes_ok_def)
  have "length (filter n_is_default (map g (t_nodes db))) \<le> 1"
    using length_filter_key[OF nodes(1), of i] g by (simp add: filter_map comp_def)
  then have "nodes_ok (map g (t_nodes db))" "map n_id (map g (t_nodes db)) = map n_id (t_nodes db)"
    using nodes g by (simp_all add: nodes_ok_def comp_def list_all_iff)
  then show ?thesis using ok by (simp add: db' nodes_update_ok)
qed

text \<open>Sending rules back to the default outbound.\<close>

lemma retarget_rules_ok: "rules_ok sets rs \<Longrightarrow> rules_ok sets (retarget now k i rs)"
  unfolding rules_ok_def retarget_def
  by (auto simp: keys_update rule_check_def intro!: list_all_update)

lemma retarget_targets:
  assumes "list_all (target_ok ns gs) rs"
  shows "list_all (target_ok (ns - {i}) gs) (retarget now ActionNode i rs)"
    "list_all (target_ok ns (gs - {i})) (retarget now ActionGroup i rs)"
  using assms by (auto simp: retarget_def tbl_update_def list_all_iff target_ok_def)

lemma drop_nodes_ok:
  assumes ok: "schema_ok db" and t: "list_all (target_ok (node_ids db - n_id ` set (filter P (t_nodes db))) (group_ids db)) (t_rules db)"
  shows "db_ok (drop_nodes P db)"
proof -
  let ?gone = "n_id ` set (filter P (t_nodes db))"
  have ns: "nodes_ok (t_nodes db)" using ok by (simp add: schema_ok_def)
  then have ids: "n_id ` set (tbl_delete P (t_nodes db)) = node_ids db - ?gone"
    by (intro keyset_delete) (simp add: nodes_ok_def)
  have "length (filter n_is_default (tbl_delete P (t_nodes db))) \<le> length (filter n_is_default (t_nodes db))"
    unfolding tbl_delete_def filter_filter by (rule length_filter_imp) blast
  then have nodes: "nodes_ok (tbl_delete P (t_nodes db))"
    using ns by (auto simp: nodes_ok_def intro: unique_key_delete list_all_delete)
  have "members_ok (group_ids db) (node_ids db) (t_members db)" using ok by (simp add: schema_ok_def)
  then have members: "members_ok (group_ids db) (node_ids db - ?gone) (tbl_delete (\<lambda>m. mr_node m \<in> ?gone) (t_members db))"
    by (auto simp: members_ok_def intro: unique_key_delete) (auto simp: tbl_delete_def list_all_iff)
  have deploys: "deploys_ok (node_ids db - ?gone) (map (\<lambda>d. case dr_node d of
      Some i \<Rightarrow> if i \<in> ?gone then d\<lparr>dr_node := None\<rparr> else d | None \<Rightarrow> d) (t_deploys db))"
    using ok by (auto simp: schema_ok_def deploys_ok_def list_all_iff split: option.splits)
  show ?thesis using ok nodes members deploys t
    by (simp add: db_ok_def schema_ok_def targets_ok_def drop_nodes_def ids Let_def del: set_filter)
qed

lemma DeleteNode_ok: "db_ok db \<Longrightarrow> DeleteNode now i db = Inr (db', n) \<Longrightarrow> db_ok db'"
proof -
  assume ok: "db_ok db" and d: "DeleteNode now i db = Inr (db', n)"
  let ?db = "db\<lparr>t_rules := retarget now ActionNode i (t_rules db)\<rparr>"
  have db': "db' = drop_nodes (\<lambda>m. n_id m = i) ?db" using d by (auto simp: DeleteNode_def)
  have gone: "n_id ` set (filter (\<lambda>m. n_id m = i) (t_nodes db)) \<subseteq> {i}" by auto
  have "list_all (target_ok (node_ids db - {i}) (group_ids db)) (retarget now ActionNode i (t_rules db))"
    using ok by (auto simp: db_ok_def targets_ok_def retarget_targets)
  then have "list_all (target_ok (node_ids db - n_id ` set (filter (\<lambda>m. n_id m = i) (t_nodes db))) (group_ids db))
      (retarget now ActionNode i (t_rules db))"
    using gone by (auto simp: list_all_iff target_ok_def)
  moreover have "schema_ok ?db" using ok by (simp add: db_ok_def schema_ok_def retarget_rules_ok)
  ultimately show ?thesis unfolding db' by (intro drop_nodes_ok) auto
qed

subsection \<open>Groups\<close>

lemma put_group_ok:
  assumes ok: "db_ok db" and p: "put_group now g st db = Inr db'"
  shows "db_ok db'" "group_ids db' = insert (g_id g) (group_ids db)" "db' = db\<lparr>t_groups := t_groups db'\<rparr>"
proof -
  define merge where "merge = (\<lambda>(old::group_row) (new::group_row). old\<lparr>gr_name := gr_name new, gr_kind := gr_kind new,
    gr_strategy := gr_strategy new, gr_updated_at := now\<rparr>)"
  define row where "row = \<lparr>gr_id = g_id g, gr_name = g_name g, gr_kind = g_kind g, gr_strategy = st,
    gr_created_at = now, gr_updated_at = now\<rparr>"
  have k: "group_kind_known (g_kind g)" and other: "\<forall>x\<in>set (t_groups db). gr_id x \<noteq> g_id g \<longrightarrow> gr_name x \<noteq> g_name g"
    and db': "db' = db\<lparr>t_groups := tbl_upsert gr_id merge (t_groups db) row\<rparr>"
    using p by (auto simp: put_group_def merge_def row_def split: if_splits)
  have key: "gr_id (merge x row) = gr_id x" for x by (simp add: merge_def)
  then show ids: "group_ids db' = insert (g_id g) (group_ids db)"
    by (subst db') (simp add: keys_upsert row_def)
  show "db' = db\<lparr>t_groups := t_groups db'\<rparr>" by (simp add: db')
  have gs: "groups_ok (t_groups db)" using ok by (simp add: db_ok_def schema_ok_def)
  have names: "unique_key gr_name (tbl_upsert gr_id merge t row) \<and>
      gr_name ` set (tbl_upsert gr_id merge t row) \<subseteq> insert (g_name g) (gr_name ` set t)"
    if "unique_key gr_name t" "\<forall>x\<in>set t. gr_id x \<noteq> g_id g \<longrightarrow> gr_name x \<noteq> g_name g" "unique_key gr_id t" for t
    using that
  proof (induction t)
    case (Cons x t)
    show ?case
    proof (cases "gr_id x = g_id g")
      case True
      then have "\<forall>y\<in>set t. gr_id y \<noteq> g_id g" using Cons.prems(3) by force
      then have "g_name g \<notin> gr_name ` set t" using Cons.prems(2) by auto
      then show ?thesis using True Cons.prems by (auto simp: merge_def row_def)
    next
      case False
      then have "gr_name x \<noteq> g_name g" using Cons.prems by simp
      then show ?thesis using False Cons by (auto simp: row_def)
    qed
  qed (simp add: row_def)
  have "groups_ok (tbl_upsert gr_id merge (t_groups db) row)"
  proof -
    have "list_all (\<lambda>g. group_kind_known (gr_kind g)) (tbl_upsert gr_id merge t row)"
      if "list_all (\<lambda>g. group_kind_known (gr_kind g)) t" for t
      using that k by (induction t) (auto simp: merge_def row_def)
    then show ?thesis using gs names[of "t_groups db"] other unique_key_upsert[of gr_id row merge] key
      by (simp add: groups_ok_def)
  qed
  moreover have "group_ids db \<subseteq> insert (g_id g) (group_ids db)" by blast
  ultimately show "db_ok db'"
    using ok ids unfolding db_ok_def schema_ok_def targets_ok_def
    by (subst db', subst (asm) db')
      (auto simp: db' members_ok_def target_ok_def list_all_iff)
qed

lemma insert_member_ok: "db_ok db \<Longrightarrow> insert_member g p db = Inr db' \<Longrightarrow> db_ok db'"
  unfolding db_ok_def schema_ok_def targets_ok_def
  by (auto simp: insert_member_def members_ok_def tbl_get_None split: if_splits) blast

lemma members_delete_ok: "db_ok db \<Longrightarrow> db_ok (db\<lparr>t_members := tbl_delete P (t_members db)\<rparr>)"
  unfolding db_ok_def schema_ok_def targets_ok_def
  by (auto simp: members_ok_def intro: unique_key_delete list_all_delete)

lemma UpsertGroup_ok: "db_ok db \<Longrightarrow> UpsertGroup now g db = Inr db' \<Longrightarrow> db_ok db'"
proof -
  assume ok: "db_ok db" and u: "UpsertGroup now g db = Inr db'"
  then obtain db1 where p: "put_group now g (if g_strategy g = [] then ''{}'' else g_strategy g) db = Inr db1"
    and f: "fold_outcome (\<lambda>p db. case insert_member (g_id g) p db of
           Inl e \<Rightarrow> Inl (Wrapped (''member '' @ snd p) e) | Inr db \<Rightarrow> Inr db)
         (zip [0..int (length (g_member_ids g)) - 1] (g_member_ids g))
         (db1\<lparr>t_members := tbl_delete (\<lambda>m. mr_group m = g_id g) (t_members db1)\<rparr>) = Inr db'"
    by (auto simp: UpsertGroup_def)
  have "db_ok (db1\<lparr>t_members := tbl_delete (\<lambda>m. mr_group m = g_id g) (t_members db1)\<rparr>)"
    using ok p by (intro members_delete_ok) (rule put_group_ok)
  with f show ?thesis
    by (rule fold_outcome_invariant) (auto split: sum.splits intro: insert_member_ok)
qed

lemma drop_groups_ok:
  assumes ok: "schema_ok db" and t: "list_all (target_ok (node_ids db) (group_ids db - gr_id ` set (filter P (t_groups db)))) (t_rules db)"
  shows "db_ok (drop_groups P db)"
proof -
  let ?gone = "gr_id ` set (filter P (t_groups db))"
  have gs: "groups_ok (t_groups db)" using ok by (simp add: schema_ok_def)
  then have ids: "gr_id ` set (tbl_delete P (t_groups db)) = group_ids db - ?gone"
    by (intro keyset_delete) (simp add: groups_ok_def)
  have groups: "groups_ok (tbl_delete P (t_groups db))"
    using gs by (auto simp: groups_ok_def intro: unique_key_delete list_all_delete)
  have "members_ok (group_ids db) (node_ids db) (t_members db)" using ok by (simp add: schema_ok_def)
  then have members: "members_ok (group_ids db - ?gone) (node_ids db) (tbl_delete (\<lambda>m. mr_group m \<in> ?gone) (t_members db))"
    by (auto simp: members_ok_def intro: unique_key_delete) (auto simp: tbl_delete_def list_all_iff)
  show ?thesis using ok groups members t
    by (simp add: db_ok_def schema_ok_def targets_ok_def drop_groups_def ids Let_def del: set_filter)
qed

lemma DeleteGroup_ok: "db_ok db \<Longrightarrow> DeleteGroup now i db = Inr (db', n) \<Longrightarrow> db_ok db'"
proof -
  assume ok: "db_ok db" and d: "DeleteGroup now i db = Inr (db', n)"
  let ?db = "db\<lparr>t_rules := retarget now ActionGroup i (t_rules db)\<rparr>"
  have db': "db' = drop_groups (\<lambda>g. gr_id g = i) ?db" using d by (auto simp: DeleteGroup_def)
  have gone: "gr_id ` set (filter (\<lambda>g. gr_id g = i) (t_groups db)) \<subseteq> {i}" by auto
  have "list_all (target_ok (node_ids db) (group_ids db - {i})) (retarget now ActionGroup i (t_rules db))"
    using ok by (auto simp: db_ok_def targets_ok_def retarget_targets)
  then have "list_all (target_ok (node_ids db) (group_ids db - gr_id ` set (filter (\<lambda>g. gr_id g = i) (t_groups db))))
      (retarget now ActionGroup i (t_rules db))"
    using gone by (auto simp: list_all_iff target_ok_def)
  moreover have "schema_ok ?db" using ok by (simp add: db_ok_def schema_ok_def retarget_rules_ok)
  ultimately show ?thesis unfolding db' by (intro drop_groups_ok) auto
qed

subsection \<open>Rule sets and rules\<close>

text \<open>A statement on the rule sets that keeps their keys, and one on the rules.\<close>

lemma sets_update_ok:
  assumes "db_ok db" "map rs_id ss = map rs_id (t_rule_sets db)"
  shows "db_ok (db\<lparr>t_rule_sets := ss\<rparr>)"
proof -
  have "rs_id ` set ss = rule_set_ids db" by (metis assms(2) set_map)
  then show ?thesis using assms by (simp add: db_ok_def schema_ok_def targets_ok_def)
qed

lemma sets_row_update_ok:
  "db_ok db \<Longrightarrow> (\<And>s. rs_id (f s) = rs_id s) \<Longrightarrow> db_ok (db\<lparr>t_rule_sets := tbl_update P f (t_rule_sets db)\<rparr>)"
  by (rule sets_update_ok) (auto simp: keys_update)

lemma rules_row_update_ok:
  assumes "db_ok db" "\<And>r. ru_id (f r) = ru_id r"
    and "\<And>r. r \<in> set (t_rules db) \<Longrightarrow> P r \<Longrightarrow> rule_check r \<Longrightarrow> ru_set_id r \<in> rule_set_ids db \<Longrightarrow>
      rule_check (f r) \<and> ru_set_id (f r) \<in> rule_set_ids db"
    and "\<And>r. r \<in> set (t_rules db) \<Longrightarrow> P r \<Longrightarrow> target_ok (node_ids db) (group_ids db) r \<Longrightarrow>
      target_ok (node_ids db) (group_ids db) (f r)"
  shows "db_ok (db\<lparr>t_rules := tbl_update P f (t_rules db)\<rparr>)"
proof -
  have "rules_ok (rule_set_ids db) (tbl_update P f (t_rules db))"
    using assms by (auto simp: db_ok_def schema_ok_def rules_ok_def keys_update intro!: list_all_update)
  moreover have "list_all (target_ok (node_ids db) (group_ids db)) (tbl_update P f (t_rules db))"
    using assms by (auto simp: db_ok_def targets_ok_def intro!: list_all_update)
  ultimately show ?thesis using assms(1) by (simp add: db_ok_def schema_ok_def targets_ok_def)
qed

lemma InsertRuleSet_ok: "db_ok db \<Longrightarrow> InsertRuleSet now i name db = Inr db' \<Longrightarrow> db_ok db'"
  unfolding db_ok_def schema_ok_def targets_ok_def
  by (auto simp: InsertRuleSet_def rules_ok_def tbl_get_None list_all_iff split: if_splits)

lemma UpdateRuleSet_ok: "db_ok db \<Longrightarrow> UpdateRuleSet now i name e db = Inr db' \<Longrightarrow> db_ok db'"
  by (auto simp: UpdateRuleSet_def intro: sets_row_update_ok)

lemma DeleteRuleSet_ok: "db_ok db \<Longrightarrow> DeleteRuleSet i db = Inr db' \<Longrightarrow> db_ok db'"
  unfolding db_ok_def schema_ok_def targets_ok_def
  by (auto simp: DeleteRuleSet_def rules_ok_def tbl_delete_def list_all_iff distinct_map_filter split: if_splits)

lemma set_set_position_ok: "db_ok db \<Longrightarrow> set_set_position p db = Inr db' \<Longrightarrow> db_ok db'"
  by (auto simp: set_set_position_def split: sum.splits intro: sets_row_update_ok)

lemma ReorderRuleSets_ok: "db_ok db \<Longrightarrow> ReorderRuleSets ids db = Inr db' \<Longrightarrow> db_ok db'"
  by (auto simp: ReorderRuleSets_def Let_def split: if_splits intro: fold_outcome_invariant[where I = db_ok] set_set_position_ok)

text \<open>The caller checks the target of the rule; the statement checks the rest.\<close>

lemma InsertRule_ok:
  "db_ok db \<Longrightarrow> target_ok (node_ids db) (group_ids db) r \<Longrightarrow> InsertRule now r db = Inr db' \<Longrightarrow> db_ok db'"
  unfolding db_ok_def schema_ok_def targets_ok_def
  by (auto simp: InsertRule_def rules_ok_def tbl_get_None split: if_splits)

lemma InsertRule_frame: "InsertRule now r db = Inr db' \<Longrightarrow> node_ids db' = node_ids db \<and> group_ids db' = group_ids db"
  by (auto simp: InsertRule_def split: if_splits)

lemma UpdateRule_ok:
  "db_ok db \<Longrightarrow> target_ok (node_ids db) (group_ids db) r \<Longrightarrow> UpdateRule now r db = Inr db' \<Longrightarrow> db_ok db'"
proof -
  assume ok: "db_ok db" and t: "target_ok (node_ids db) (group_ids db) r" and u: "UpdateRule now r db = Inr db'"
  define f where "f = (\<lambda>x::rule. x\<lparr>ru_match_kind := ru_match_kind r, ru_match_value := ru_match_value r,
    ru_action_kind := ru_action_kind r, ru_action_ref := ru_action_ref r, ru_enabled := ru_enabled r,
    ru_remark := ru_remark r, ru_updated_at := now :: time\<rparr>)"
  have f: "rule_check (f x) = rule_check r" "target_ok ns gs (f x) = target_ok ns gs r" "ru_id (f x) = ru_id x"
      "ru_set_id (f x) = ru_set_id x" for x :: rule and ns gs
    by (simp_all add: f_def rule_check_def target_ok_def cong: match_kind.case_cong action_kind.case_cong)
  have "rule_check r" "db' = db\<lparr>t_rules := tbl_update (\<lambda>x. ru_id x = ru_id r) f (t_rules db)\<rparr>"
    using u by (auto simp: UpdateRule_def Let_def f_def split: if_splits)
  then show ?thesis using ok t f by (auto intro!: rules_row_update_ok)
qed

lemma DeleteRule_ok: "db_ok db \<Longrightarrow> DeleteRule i db = Inr db' \<Longrightarrow> db_ok db'"
  unfolding db_ok_def schema_ok_def targets_ok_def
  by (auto simp: DeleteRule_def rules_ok_def intro: unique_key_delete list_all_delete)

lemma set_rule_position_ok: "db_ok db \<Longrightarrow> set_rule_position setID p db = Inr db' \<Longrightarrow> db_ok db'"
  by (auto simp: set_rule_position_def split: sum.splits intro!: rules_row_update_ok)

lemma ReorderRules_ok: "db_ok db \<Longrightarrow> ReorderRules setID ids db = Inr db' \<Longrightarrow> db_ok db'"
  by (auto simp: ReorderRules_def Let_def split: if_splits intro: fold_outcome_invariant[where I = db_ok] set_rule_position_ok)

lemma MoveRule_ok: "db_ok db \<Longrightarrow> MoveRule now i toSet db = Inr db' \<Longrightarrow> db_ok db'"
  by (auto simp: MoveRule_def Let_def rows_affected_0 tbl_get_None
    split: if_splits intro!: rules_row_update_ok)

subsection \<open>Devices, bypass destinations, configuration\<close>

lemma InsertDevicePolicy_ok: "db_ok db \<Longrightarrow> InsertDevicePolicy now d db = Inr db' \<Longrightarrow> db_ok db'"
  unfolding db_ok_def schema_ok_def targets_ok_def
  by (auto simp: InsertDevicePolicy_def devices_ok_def tbl_get_None split: if_splits) blast

lemma DeleteDevicePolicy_ok: "db_ok db \<Longrightarrow> DeleteDevicePolicy i db = Inr db' \<Longrightarrow> db_ok db'"
  unfolding db_ok_def schema_ok_def targets_ok_def
  by (auto simp: DeleteDevicePolicy_def devices_ok_def intro: unique_key_delete list_all_delete)

lemma bypass_statements_ok:
  "db_ok db \<Longrightarrow> InsertBypassDestination now b db = Inr db' \<Longrightarrow> db_ok db'"
  "db_ok db \<Longrightarrow> UpdateBypassRemark i remark db = Inr db' \<Longrightarrow> db_ok db'"
  "db_ok db \<Longrightarrow> DeleteBypassDestination i db = Inr db' \<Longrightarrow> db_ok db'"
  unfolding db_ok_def schema_ok_def targets_ok_def
  by (auto simp: InsertBypassDestination_def UpdateBypassRemark_def DeleteBypassDestination_def bypass_ok_def
      tbl_get_None keys_update intro: unique_key_delete split: if_splits)

lemma config_statements_ok:
  "db_ok db \<Longrightarrow> UpdateNetworkConfig now c db = Inr db' \<Longrightarrow> db_ok db'"
  "db_ok db \<Longrightarrow> UpdateDNSConfig now d db = Inr db' \<Longrightarrow> db_ok db'"
  unfolding db_ok_def schema_ok_def targets_ok_def
  by (auto simp: UpdateNetworkConfig_def UpdateDNSConfig_def log_level_ok_def split: if_splits)

lemma UpdateDevicePolicy_ok: "db_ok db \<Longrightarrow> UpdateDevicePolicy now d db = Inr db' \<Longrightarrow> db_ok db'"
proof -
  assume ok: "db_ok db" and u: "UpdateDevicePolicy now d db = Inr db'"
  define f where "f = (\<lambda>x::device_policy. x\<lparr>dp_kind := dp_kind d, dp_value := dp_value d, dp_action := dp_action d,
    dp_remark := dp_remark d, dp_updated_at := now\<rparr>)"
  let ?P = "\<lambda>x. dp_id x = dp_id d"
  have c: "device_check d" and other: "\<forall>x\<in>set (t_devices db). dp_id x \<noteq> dp_id d \<longrightarrow>
        (dp_kind x, dp_value x) \<noteq> (dp_kind d, dp_value d)"
    and db': "db' = db\<lparr>t_devices := tbl_update ?P f (t_devices db)\<rparr>"
    using u by (auto simp: UpdateDevicePolicy_def Let_def f_def split: if_splits)
  have f: "dp_id (f x) = dp_id x" "device_check (f x)" "(dp_kind (f x), dp_value (f x)) = (dp_kind d, dp_value d)" for x
    using c by (simp_all add: f_def device_check_def cong: device_kind.case_cong device_action.case_cong)
  have ds: "devices_ok (t_devices db)" using ok by (simp add: db_ok_def schema_ok_def)
  have pairs: "unique_key (\<lambda>x. (dp_kind x, dp_value x)) (tbl_update ?P f t)"
    if "unique_key dp_id t" "unique_key (\<lambda>x. (dp_kind x, dp_value x)) t"
      "\<forall>x\<in>set t. dp_id x \<noteq> dp_id d \<longrightarrow> (dp_kind x, dp_value x) \<noteq> (dp_kind d, dp_value d)" for t
    using that
  proof (induction t)
    case (Cons x t)
    show ?case
    proof (cases "dp_id x = dp_id d")
      case True
      then have "\<forall>y\<in>set t. dp_id y \<noteq> dp_id d" using Cons.prems(1) by (auto simp: image_iff)
      then have "tbl_update ?P f t = t" "(dp_kind d, dp_value d) \<notin> (\<lambda>x. (dp_kind x, dp_value x)) ` set t"
        using Cons.prems(3) by (auto simp: tbl_update_def map_idI)
      then show ?thesis using True Cons.prems(2) f(3) by (simp add: tbl_update_def)
    next
      case False
      then have "(dp_kind x, dp_value x) \<noteq> (dp_kind d, dp_value d)" using Cons.prems(3) by simp
      then show ?thesis using False Cons f(3) by (auto simp: tbl_update_def image_iff)
    qed
  qed (simp add: tbl_update_def)
  have "devices_ok (tbl_update ?P f (t_devices db))"
    using ds f pairs[of "t_devices db"] other by (auto simp: devices_ok_def keys_update intro: list_all_update)
  then show ?thesis using ok by (simp add: db_ok_def schema_ok_def targets_ok_def db')
qed

subsection \<open>The built-in set\<close>

lemma renumberRuleSets_ok: "db_ok db \<Longrightarrow> db_ok (renumberRuleSets db)"
proof -
  have "db_ok db \<Longrightarrow> db_ok (fold (\<lambda>(p, i) db. db\<lparr>t_rule_sets := tbl_update (\<lambda>s. rs_id s = i)
      (\<lambda>s. s\<lparr>rs_position := p\<rparr>) (t_rule_sets db)\<rparr>) ps db)" for ps
  proof (induction ps arbitrary: db)
    case (Cons p ps)
    have "db_ok (db\<lparr>t_rule_sets := tbl_update (\<lambda>s. rs_id s = snd p) (\<lambda>s. s\<lparr>rs_position := fst p\<rparr>) (t_rule_sets db)\<rparr>)"
      using Cons.prems by (rule sets_row_update_ok) simp
    then show ?case using Cons.IH by (simp add: case_prod_beta)
  qed simp
  then show "db_ok db \<Longrightarrow> db_ok (renumberRuleSets db)" by (simp add: renumberRuleSets_def)
qed

lemma InsertBuiltinRuleSet_ok: "db_ok db \<Longrightarrow> InsertBuiltinRuleSet now i db = Inr db' \<Longrightarrow> db_ok db'"
  unfolding db_ok_def schema_ok_def targets_ok_def
  by (auto simp: InsertBuiltinRuleSet_def rules_ok_def tbl_get_None list_all_iff split: if_splits)

lemma BuiltinRules_direct: "r \<in> set BuiltinRules \<Longrightarrow> ru_action_kind r = ActionDirect"
  by (auto simp: BuiltinRules_def builtin_rule_def)

lemma seed_rule_ok:
  "db_ok db \<Longrightarrow> snd p \<in> set BuiltinRules \<Longrightarrow> seed_rule now setID p db = Inr db' \<Longrightarrow> db_ok db'"
proof -
  assume ok: "db_ok db" and p: "snd p \<in> set BuiltinRules" and s: "seed_rule now setID p db = Inr db'"
  have "target_ok (node_ids db) (group_ids db) (snd p\<lparr>ru_id := fst p, ru_set_id := setID, ru_enabled := True\<rparr>)"
    using BuiltinRules_direct[OF p] by (simp add: target_ok_def)
  then show ?thesis using s ok InsertRule_ok[OF ok]
    by (auto simp: seed_rule_def Let_def split: if_splits sum.splits)
qed

lemma EnsureBuiltinRuleSet_ok:
  "db_ok db \<Longrightarrow> EnsureBuiltinRuleSet now uuid uuids seeded db = Inr (db', seeded') \<Longrightarrow> db_ok db'"
proof -
  assume ok: "db_ok db" and e: "EnsureBuiltinRuleSet now uuid uuids seeded db = Inr (db', seeded')"
  have adopt: "db_ok db1" if "adopt_builtin now uuid i db = Inr (j, db1)" for i j db1
    using that ok by (auto simp: adopt_builtin_def split: if_splits list.splits
        intro: InsertBuiltinRuleSet_ok sets_row_update_ok)
  have seed: "db_ok db2" if "SeedBuiltinRules now uuids i db1 = Inr db2" "db_ok db1" for i db1 db2
    using that unfolding SeedBuiltinRules_def
    by (rule fold_outcome_invariant) (auto dest!: set_zip_rightD elim!: seed_rule_ok[rotated 2])
  have "db_ok db'" if "pinBuiltinFirst db = Inr db'"
    using that ok by (auto simp: pinBuiltinFirst_def renumberRuleSets_ok split: option.splits if_splits)
  then show ?thesis using e adopt seed
    by (auto simp: EnsureBuiltinRuleSet_def Let_def renumberRuleSets_ok split: if_splits)
qed

subsection \<open>The state the migrations leave\<close>

definition initial_network :: network_config where
  "initial_network = \<lparr>nc_mode = ModeA, nc_management_iface = [], nc_service_iface = [],
     nc_fakeip_pool = ''198.18.0.0/16'', nc_tproxy_port = 12345, nc_lan_default_policy = ''direct'',
     nc_ospf_push_batch = 500, nc_ospf_push_interval = 2, nc_ospf_resolve_workers = 8, nc_ospf_publish_allow = [],
     nc_node_failover_mode = ''normal'', nc_sniff_override = False, nc_updated_at = zero_time\<rparr>"

definition initial_dns :: dns_config where
  "initial_dns = \<lparr>dc_local_upstreams = [''https://223.5.5.5/dns-query'', ''tls://1.12.12.12''],
     dc_remote_upstreams = [''https://1.1.1.1/dns-query'', ''tls://8.8.8.8''], dc_cache_size = 10240,
     dc_lazy_cache = True, dc_lazy_cache_ttl = 86400, dc_log_level = ''info'', dc_hijack = True, dc_block_dot = True,
     dc_tap = True, dc_ecs_subnet = [], dc_forward_rules = [], dc_ipv6_mode = [], dc_updated_at = zero_time\<rparr>"

definition initial_tables :: tables where
  "initial_tables = \<lparr>t_nodes = [], t_groups = [], t_members = [], t_rule_sets = [], t_rules = [], t_devices = [],
     t_bypass = [], t_network = initial_network, t_dns = initial_dns, t_deploys = []\<rparr>"

definition initial_store :: store where
  "initial_store = \<lparr>ss_tables = initial_tables, ss_generation = 0, ss_last_applied = 0, ss_updated_at = zero_time,
     ss_changesets = [], ss_apply_log = [], ss_apply_seq = 0, ss_events = [], ss_events_seq = 0\<rparr>"

lemma initial_tables_ok: "db_ok initial_tables"
  by (simp add: db_ok_def schema_ok_def targets_ok_def ok_defs initial_tables_def initial_network_def initial_dns_def
      network_check_def mode_valid_def log_level_ok_def)

end
