(* ===== verification/StoreLedger.thy ===== *)
theory StoreLedger
  imports StoreInv
begin

text \<open>
  The changeset ledger: what \<open>Mutate\<close> does on success and on failure, and the invariant that the
  generations are numbered without a gap, that exactly the newest ones keep their snapshot, and
  that a kept snapshot is the state of tables that satisfied the schema.
\<close>

definition row_ok :: "int \<Rightarrow> changeset_row \<Rightarrow> bool" where
  "row_ok g c \<longleftrightarrow> (case cr_diff c of
       SnapshotDiff snap \<Rightarrow> cr_generation c > g - SnapshotRetention \<and> (\<exists>db. db_ok db \<and> snap = captureDesired db)
     | NoDiff \<Rightarrow> cr_generation c \<le> g - SnapshotRetention
     | OtherDiff d \<Rightarrow> False)"

definition ledger_ok :: "store \<Rightarrow> bool" where
  "ledger_ok s \<longleftrightarrow> 0 \<le> ss_generation s \<and> map cr_generation (ss_changesets s) = [1..ss_generation s] \<and>
     unique_key cr_id (ss_changesets s) \<and> list_all (row_ok (ss_generation s)) (ss_changesets s)"

definition store_ok :: "store \<Rightarrow> bool" where
  "store_ok s \<longleftrightarrow> db_ok (ss_tables s) \<and> ledger_ok s"

subsection \<open>What a mutation does\<close>

lemma foldl_max: "foldl max (a::int) xs = Max (set (a # xs))"
proof (induction xs rule: rev_induct)
  case (snoc x xs)
  have "set (a # xs @ [x]) = insert x (set (a # xs))" by auto
  then show ?case using snoc by (simp only: Max_insert[of "set (a # xs)"] foldl_append) (simp add: max.commute)
qed simp

lemma Max_upto: "1 \<le> (g::int) \<Longrightarrow> Max {1..g} = g"
  by (intro Max_eqI) auto

text \<open>The row that a successful mutation leaves in the ledger.\<close>

definition ledger_row :: "time \<Rightarrow> string \<Rightarrow> mutation \<Rightarrow> tables \<Rightarrow> int \<Rightarrow> changeset_row" where
  "ledger_row now uuid m db g = \<lparr>cr_id = uuid, cr_generation = g, cr_actor = mu_actor m, cr_summary = mu_summary m,
     cr_diff = (case mu_diff m of Some d \<Rightarrow> OtherDiff d | None \<Rightarrow> SnapshotDiff (captureDesired db)),
     cr_reverted_by = None, cr_created_at = now\<rparr>"

definition forget :: "int \<Rightarrow> changeset_row list \<Rightarrow> changeset_row list" where
  "forget g cs = tbl_update (\<lambda>c. cr_diff c \<noteq> NoDiff \<and> cr_generation c \<le> g - SnapshotRetention)
     (\<lambda>c. c\<lparr>cr_diff := NoDiff\<rparr>) cs"

lemma pruneSnapshots_ledger:
  assumes "map cr_generation (ss_changesets s) = [1..g]" "1 \<le> g"
  shows "pruneSnapshots s = s\<lparr>ss_changesets := forget g (ss_changesets s)\<rparr>"
proof -
  obtain x xs where xs: "[1..g] = x # xs" using assms(2) by (cases "[1..g]") auto
  then have "foldl max x xs = Max (set [1..g])" by (simp add: foldl_max)
  also have "\<dots> = g" using assms(2) by (simp add: Max_upto)
  finally show ?thesis using assms(1) xs by (simp add: pruneSnapshots_def forget_def)
qed

text \<open>A mutation on a ledger in order: it fails without a trace, or appends one row.\<close>

lemma Mutate_cases:
  assumes "0 \<le> ss_generation s" "map cr_generation (ss_changesets s) = [1..ss_generation s]"
  shows "Mutate now uuid commit m fn s =
    (case fn (ss_tables s) of
       Inl e \<Rightarrow> (Inl e, s)
     | Inr db \<Rightarrow>
         if uuid \<in> cr_id ` set (ss_changesets s) then (Inl (unique_failed ''changesets.id''), s)
         else case commit of
             Some e \<Rightarrow> (Inl (Failure e), s)
           | None \<Rightarrow> (Inr (ss_generation s + 1),
               s\<lparr>ss_tables := db, ss_generation := ss_generation s + 1, ss_updated_at := now,
                 ss_changesets := forget (ss_generation s + 1)
                   (ss_changesets s @ [ledger_row now uuid m db (ss_generation s + 1)])\<rparr>))"
proof (cases "fn (ss_tables s)")
  case (Inr db)
  let ?g = "ss_generation s + 1"
  let ?s1 = "s\<lparr>ss_tables := db, ss_generation := ?g, ss_updated_at := now,
    ss_changesets := ss_changesets s @ [ledger_row now uuid m db ?g]\<rparr>"
  have fresh: "?g \<notin> cr_generation ` set (ss_changesets s)"
    using assms(2) by (metis atLeastAtMost_iff list.set_map set_upto less_add_one not_le)
  have "map cr_generation (ss_changesets ?s1) = [1..?g]"
    using assms upto_rec2[of 1 ?g] by (simp add: ledger_row_def)
  then have "pruneSnapshots ?s1 = ?s1\<lparr>ss_changesets := forget ?g (ss_changesets ?s1)\<rparr>"
    using assms(1) by (intro pruneSnapshots_ledger) simp_all
  then show ?thesis using Inr fresh
    by (simp add: Mutate_def BumpGeneration_def insert_changeset_def ledger_row_def[symmetric] split: option.split)
qed (simp add: Mutate_def)

lemma ledger_okD:
  "ledger_ok s \<Longrightarrow> 0 \<le> ss_generation s" "ledger_ok s \<Longrightarrow> map cr_generation (ss_changesets s) = [1..ss_generation s]"
  "ledger_ok s \<Longrightarrow> unique_key cr_id (ss_changesets s)"
  by (simp_all add: ledger_ok_def)

lemma forget_ok:
  assumes "list_all (row_ok (g - 1)) cs"
  shows "list_all (row_ok g) (forget g cs)"
proof -
  have "row_ok g (if cr_diff c \<noteq> NoDiff \<and> cr_generation c \<le> g - SnapshotRetention then c\<lparr>cr_diff := NoDiff\<rparr> else c)"
    if "row_ok (g - 1) c" for c
    using that by (cases "cr_diff c") (auto simp: row_ok_def)
  then show ?thesis using assms by (auto simp: forget_def tbl_update_def list_all_iff simp del: if_image_distrib)
qed

lemma forget_keys: "(\<And>c. k (c\<lparr>cr_diff := NoDiff\<rparr>) = k c) \<Longrightarrow> map k (forget g cs) = map k cs"
  by (simp add: forget_def keys_update)

lemma ledger_append:
  assumes ok: "ledger_ok s" and db: "db_ok db" and m: "mu_diff m = None" and u: "uuid \<notin> cr_id ` set (ss_changesets s)"
  shows "ledger_ok (s\<lparr>ss_tables := db, ss_generation := ss_generation s + 1, ss_updated_at := now,
    ss_changesets := forget (ss_generation s + 1) (ss_changesets s @ [ledger_row now uuid m db (ss_generation s + 1)])\<rparr>)"
proof -
  let ?g = "ss_generation s + 1" and ?row = "ledger_row now uuid m db (ss_generation s + 1)"
  have "map cr_generation (ss_changesets s @ [?row]) = [1..?g]"
    using ledger_okD(1,2)[OF ok] upto_rec2[of 1 ?g] by (simp add: ledger_row_def)
  moreover have "unique_key cr_id (ss_changesets s @ [?row])" using ledger_okD(3)[OF ok] u by (simp add: ledger_row_def)
  moreover have "row_ok (?g - 1) ?row"
    using db m by (auto simp: row_ok_def ledger_row_def SnapshotRetention_def)
  then have "list_all (row_ok (?g - 1)) (ss_changesets s @ [?row])" using ok by (simp add: ledger_ok_def)
  then have "list_all (row_ok ?g) (forget ?g (ss_changesets s @ [?row]))" by (rule forget_ok)
  ultimately show ?thesis using ledger_okD(1)[OF ok] by (simp add: ledger_ok_def forget_keys del: map_append)
qed

lemma Mutate_ok:
  assumes ok: "store_ok s" and m: "mu_diff m = None" and fn: "\<And>db. fn (ss_tables s) = Inr db \<Longrightarrow> db_ok db"
  shows "store_ok (snd (Mutate now uuid commit m fn s))"
proof -
  have "0 \<le> ss_generation s" "map cr_generation (ss_changesets s) = [1..ss_generation s]"
    using ok by (simp_all add: store_ok_def ledger_ok_def)
  note M = Mutate_cases[OF this]
  show ?thesis
  proof (cases "fn (ss_tables s)")
    case (Inr db)
    then show ?thesis using ok fn[OF Inr] m
      by (auto simp: M store_ok_def ledger_append split: option.split)
  qed (simp add: M ok)
qed

lemma Mutate_Inr:
  assumes "ledger_ok s" "Mutate now uuid commit m fn s = (Inr g, s')"
  shows "g = ss_generation s + 1" "ss_generation s' = g" "fn (ss_tables s) = Inr (ss_tables s')"
  using assms(2) Mutate_cases[OF ledger_okD(1,2)[OF assms(1)], of now uuid commit m fn]
  by (auto split: sum.splits if_splits option.splits)

lemma initial_store_ok: "store_ok initial_store"
  using initial_tables_ok by (simp add: store_ok_def ledger_ok_def initial_store_def)

end
