(* ===== verification/StoreRevert.thy ===== *)
theory StoreRevert
  imports StoreLedger
begin

text \<open>
  Restoring a captured state.  The locale \<open>appender\<close> is the contract of an insert statement as
  \<open>restoreDesired\<close> uses it: one row after the other goes in when it clashes with no row that is
  there.  Every statement of the restore is an instance, so the whole restore of a captured
  state of well-formed tables succeeds, and its result is written down as \<open>restored\<close>.
\<close>

locale appender =
  fixes ins :: "'a \<Rightarrow> 's \<Rightarrow> 's outcome"
    and app :: "'a list \<Rightarrow> 's \<Rightarrow> 's"
    and ok :: "'a \<Rightarrow> 's \<Rightarrow> bool"
    and clash :: "'a \<Rightarrow> 'a \<Rightarrow> bool"
  assumes app_nil: "app [] s = s"
    and app_app: "app ys (app xs s) = app (xs @ ys) s"
    and ok_app: "ok x s \<Longrightarrow> \<not> clash y x \<Longrightarrow> ok x (app [y] s)"
    and ins_ok: "ok x s \<Longrightarrow> ins x s = Inr (app [x] s)"
begin

lemma fold_app:
  "sorted_wrt (\<lambda>x y. \<not> clash x y) xs \<Longrightarrow> list_all (\<lambda>x. ok x s) xs \<Longrightarrow> fold_outcome ins xs s = Inr (app xs s)"
proof (induction xs arbitrary: s)
  case (Cons x xs)
  have "list_all (\<lambda>y. ok y (app [x] s)) xs" using Cons.prems by (auto simp: list_all_iff ok_app)
  then show ?case using Cons by (simp add: ins_ok app_app)
qed (simp add: app_nil)

end

lemma sorted_wrt_distinct: "distinct (map k xs) \<Longrightarrow> sorted_wrt (\<lambda>x y. k x \<noteq> k y) xs"
  by (induction xs) auto

lemma sorted_wrt_both: "sorted_wrt P xs \<Longrightarrow> sorted_wrt Q xs \<Longrightarrow> sorted_wrt (\<lambda>x y. P x y \<and> Q x y) xs"
  by (induction xs) auto

lemma sorted_wrt_one: "length (filter d xs) \<le> 1 \<Longrightarrow> sorted_wrt (\<lambda>x y. \<not> (d x \<and> d y)) xs"
  by (induction xs) (auto simp: filter_empty_conv split: if_splits)

subsection \<open>The statements of the restore\<close>

definition restored_node :: "time \<Rightarrow> saved_node \<Rightarrow> node_row" where
  "restored_node now n = \<lparr>n_id = sn_id n, n_name = sn_name n, n_protocol = sn_protocol n, n_address = sn_address n,
     n_port = sn_port n, n_params = sn_params n, n_credential = [], n_enabled = sn_enabled n,
     n_is_default = sn_is_default n, n_latency_ms = sn_latency_ms n, n_created_at = now, n_updated_at = now,
     nr_cred = sn_cred n\<rparr>"

interpretation nodes: appender "restore_node now"
    "\<lambda>ns db. db\<lparr>t_nodes := t_nodes db @ map (restored_node now) ns\<rparr>"
    "\<lambda>n db. node_check (restored_node now n) \<and>
       (\<forall>m\<in>set (t_nodes db). n_id m \<noteq> sn_id n \<and> \<not> (n_is_default m \<and> sn_is_default n))"
    "\<lambda>m n. sn_id m = sn_id n \<or> sn_is_default m \<and> sn_is_default n" for now
  by unfold_locales
    (auto simp: restore_node_def InsertNode_def restored_node_def node_check_def tbl_get_None')

interpretation members: appender "insert_member g"
    "\<lambda>ps db. db\<lparr>t_members := t_members db @ map (\<lambda>p. \<lparr>mr_group = g, mr_node = snd p, mr_position = fst p\<rparr>) ps\<rparr>"
    "\<lambda>p db. g \<in> group_ids db \<and> snd p \<in> node_ids db \<and> (\<forall>m\<in>set (t_members db). \<not> (mr_group m = g \<and> mr_node m = snd p))"
    "\<lambda>p q. snd p = snd q" for g
  by unfold_locales (auto simp: insert_member_def tbl_get_None)

definition restored_group :: "time \<Rightarrow> saved_group \<Rightarrow> group_row" where
  "restored_group now g = \<lparr>gr_id = sg_id g, gr_name = sg_name g, gr_kind = sg_kind g, gr_strategy = sg_strategy g,
     gr_created_at = now, gr_updated_at = now\<rparr>"

definition restored_members :: "saved_group \<Rightarrow> member_row list" where
  "restored_members g = map (\<lambda>p. \<lparr>mr_group = sg_id g, mr_node = snd p, mr_position = fst p\<rparr>) (numbered (sg_members g))"

definition group_fits :: "saved_group \<Rightarrow> tables \<Rightarrow> bool" where
  "group_fits g db \<longleftrightarrow> group_kind_known (sg_kind g) \<and> distinct (sg_members g) \<and> set (sg_members g) \<subseteq> node_ids db \<and>
     (\<forall>x\<in>set (t_groups db). gr_id x \<noteq> sg_id g \<and> gr_name x \<noteq> sg_name g) \<and>
     (\<forall>m\<in>set (t_members db). mr_group m \<noteq> sg_id g)"

lemma numbered_snd: "map snd (numbered xs) = xs"
  by (simp add: numbered_def)

lemma restore_group_fits:
  assumes "group_fits g db"
  shows "restore_group now g db = Inr (db\<lparr>t_groups := t_groups db @ [restored_group now g],
    t_members := t_members db @ restored_members g\<rparr>)"
proof -
  let ?db = "db\<lparr>t_groups := t_groups db @ [restored_group now g]\<rparr>"
  have "restore_group_row now g db = Inr ?db"
    using assms by (auto simp: restore_group_row_def group_fits_def restored_group_def tbl_get_None')
  moreover have "fold_outcome (insert_member (sg_id g)) (numbered (sg_members g)) ?db =
      Inr (?db\<lparr>t_members := t_members ?db @ restored_members g\<rparr>)"
    unfolding restored_members_def
  proof (rule members.fold_app)
    show "sorted_wrt (\<lambda>p q. \<not> snd p = snd q) (numbered (sg_members g))"
      using assms by (intro sorted_wrt_distinct) (simp add: numbered_snd group_fits_def)
    have "snd p \<in> set (sg_members g)" if "p \<in> set (numbered (sg_members g))" for p
      using that numbered_snd[of "sg_members g"] by (metis in_set_conv_nth length_map nth_map nth_mem)
    then show "list_all (\<lambda>p. sg_id g \<in> group_ids ?db \<and> snd p \<in> node_ids ?db \<and>
        (\<forall>m\<in>set (t_members ?db). \<not> (mr_group m = sg_id g \<and> mr_node m = snd p))) (numbered (sg_members g))"
      using assms by (auto simp: list_all_iff group_fits_def restored_group_def)
  qed
  ultimately show ?thesis by (simp add: restore_group_def)
qed

interpretation groups: appender "restore_group now"
    "\<lambda>gs db. db\<lparr>t_groups := t_groups db @ map (restored_group now) gs,
       t_members := t_members db @ concat (map restored_members gs)\<rparr>"
    group_fits "\<lambda>g h. sg_id g = sg_id h \<or> sg_name g = sg_name h" for now
  by unfold_locales
    (simp_all add: restore_group_fits, auto simp: group_fits_def restored_group_def restored_members_def)

definition restored_rule_set :: "time \<Rightarrow> saved_rule_set \<Rightarrow> rule_set" where
  "restored_rule_set now r = \<lparr>rs_id = sr_id r, rs_name = sr_name r, rs_position = sr_position r,
     rs_enabled = sr_enabled r, rs_builtin = False, rs_created_at = now, rs_updated_at = now\<rparr>"

interpretation rule_sets: appender "restore_rule_set now"
    "\<lambda>rs db. db\<lparr>t_rule_sets := t_rule_sets db @ map (restored_rule_set now) rs\<rparr>"
    "\<lambda>r db. \<forall>s\<in>set (t_rule_sets db). rs_id s \<noteq> sr_id r" "\<lambda>q r. sr_id q = sr_id r" for now
  by unfold_locales (auto simp: restore_rule_set_def restored_rule_set_def tbl_get_None')

interpretation rules: appender "restore_rule now"
    "\<lambda>rs db. db\<lparr>t_rules := t_rules db @ map (rule_of_snap now) rs\<rparr>"
    "\<lambda>r db. rule_check (rule_of_snap now r) \<and> sl_set_id r \<in> rule_set_ids db \<and> (\<forall>s\<in>set (t_rules db). ru_id s \<noteq> sl_id r)"
    "\<lambda>q r. sl_id q = sl_id r" for now
  by unfold_locales (auto simp: restore_rule_def tbl_get_None', auto simp: rule_of_snap_def)

definition restored_device :: "time \<Rightarrow> saved_device \<Rightarrow> device_policy" where
  "restored_device now d = \<lparr>dp_id = sd_id d, dp_kind = sd_kind d, dp_value = sd_value d, dp_action = sd_action d,
     dp_remark = sd_remark d, dp_created_at = now, dp_updated_at = now\<rparr>"

interpretation devices: appender "restore_device now"
    "\<lambda>ds db. db\<lparr>t_devices := t_devices db @ map (restored_device now) ds\<rparr>"
    "\<lambda>d db. device_check (restored_device now d) \<and>
       (\<forall>x\<in>set (t_devices db). dp_id x \<noteq> sd_id d \<and> \<not> (dp_kind x = sd_kind d \<and> dp_value x = sd_value d))"
    "\<lambda>c d. sd_id c = sd_id d \<or> sd_kind c = sd_kind d \<and> sd_value c = sd_value d" for now
  by unfold_locales
    (auto simp: restore_device_def InsertDevicePolicy_def restored_device_def device_check_def tbl_get_None')

definition restored_bypass :: "time \<Rightarrow> saved_bypass \<Rightarrow> bypass_destination" where
  "restored_bypass now b = \<lparr>bd_id = sb_id b, bd_cidr = sb_cidr b, bd_remark = sb_remark b, bd_created_at = now\<rparr>"

interpretation bypasses: appender "restore_bypass now"
    "\<lambda>bs db. db\<lparr>t_bypass := t_bypass db @ map (restored_bypass now) bs\<rparr>"
    "\<lambda>b db. \<forall>x\<in>set (t_bypass db). bd_id x \<noteq> sb_id b \<and> bd_cidr x \<noteq> sb_cidr b"
    "\<lambda>c b. sb_id c = sb_id b \<or> sb_cidr c = sb_cidr b" for now
  by unfold_locales
    (auto simp: restore_bypass_def InsertBypassDestination_def restored_bypass_def tbl_get_None')

subsection \<open>Restoring a captured state\<close>

definition restored :: "time \<Rightarrow> desired_snapshot \<Rightarrow> network_config \<Rightarrow> tables \<Rightarrow> tables" where
  "restored now s net db =
     db\<lparr>t_nodes := map (restored_node now) (ds_nodes s),
        t_groups := map (restored_group now) (ds_groups s), t_members := concat (map restored_members (ds_groups s)),
        t_rule_sets := map (restored_rule_set now) (ds_rule_sets s), t_rules := map (rule_of_snap now) (ds_rules s),
        t_devices := map (restored_device now) (ds_devices s), t_bypass := map (restored_bypass now) (ds_bypass s),
        t_network := restore_network now net (t_network db), t_dns := restore_dns now s (t_dns db),
        t_deploys := map (\<lambda>d. d\<lparr>dr_node := None\<rparr>) (t_deploys db)\<rparr>"

lemma wipe_eq:
  assumes "schema_ok db"
  shows "wipe db = db\<lparr>t_nodes := [], t_groups := [], t_members := [], t_rule_sets := [], t_rules := [],
    t_devices := [], t_bypass := [], t_deploys := map (\<lambda>d. d\<lparr>dr_node := None\<rparr>) (t_deploys db)\<rparr>"
proof -
  have "(case dr_node d of Some i \<Rightarrow> if i \<in> node_ids db then d\<lparr>dr_node := None\<rparr> else d | None \<Rightarrow> d) = d\<lparr>dr_node := None\<rparr>"
    if "d \<in> set (t_deploys db)" for d
    using that assms by (cases "dr_node d") (auto simp: schema_ok_def deploys_ok_def list_all_iff)
  then show ?thesis
    by (intro tables.equality) (simp_all add: wipe_def drop_nodes_def tbl_delete_def Let_def cong: option.case_cong)
qed

lemma captured_fields:
  "sn_id (capture_node n) = n_id n" "sn_is_default (capture_node n) = n_is_default n"
  "node_check (restored_node now (capture_node n)) = node_check n" "n_id (restored_node now m) = sn_id m"
  "sg_id (capture_group db g) = gr_id g" "sg_name (capture_group db g) = gr_name g" "sg_kind (capture_group db g) = gr_kind g"
  "gr_id (restored_group now h) = sg_id h" "gr_name (restored_group now h) = sg_name h"
  "sr_id (capture_rule_set s) = rs_id s" "rs_id (restored_rule_set now t) = sr_id t"
  "sl_id (capture_rule r) = ru_id r" "sl_set_id (capture_rule r) = ru_set_id r"
  "rule_check (rule_of_snap now (capture_rule r)) = rule_check r"
  "target_ok ns gs (rule_of_snap now (capture_rule r)) = target_ok ns gs r"
  "sd_id (capture_device d) = dp_id d" "(sd_kind (capture_device d), sd_value (capture_device d)) = (dp_kind d, dp_value d)"
  "device_check (restored_device now (capture_device d)) = device_check d"
  "sb_id (capture_bypass b) = bd_id b" "sb_cidr (capture_bypass b) = bd_cidr b"
  by (simp_all add: capture_node_def restored_node_def node_check_def capture_group_def restored_group_def
      capture_rule_set_def restored_rule_set_def capture_rule_def rule_of_snap_def rule_check_def target_ok_def
      capture_device_def restored_device_def device_check_def capture_bypass_def
      cong: match_kind.case_cong action_kind.case_cong device_kind.case_cong device_action.case_cong)

lemma map_capture_key: "(\<And>x. k (c x) = h x) \<Longrightarrow> map k (map c xs) = map h xs"
  by simp

text \<open>The captured lists have the keys of the tables.\<close>

lemma captured_ids:
  "sn_id ` set (ds_nodes (captureDesired db)) = node_ids db" "sg_id ` set (ds_groups (captureDesired db)) = group_ids db"
  "sr_id ` set (ds_rule_sets (captureDesired db)) = rule_set_ids db"
  by (simp_all add: captureDesired_def image_image captured_fields)

lemma captured_unique:
  assumes "schema_ok db"
  shows "unique_key sn_id (ds_nodes (captureDesired db))"
    "length (filter sn_is_default (ds_nodes (captureDesired db))) \<le> 1"
    "unique_key sg_id (ds_groups (captureDesired db))" "unique_key sg_name (ds_groups (captureDesired db))"
    "unique_key sr_id (ds_rule_sets (captureDesired db))" "unique_key sl_id (ds_rules (captureDesired db))"
    "unique_key sd_id (ds_devices (captureDesired db))"
    "unique_key (\<lambda>d. (sd_kind d, sd_value d)) (ds_devices (captureDesired db))"
    "unique_key sb_id (ds_bypass (captureDesired db))" "unique_key sb_cidr (ds_bypass (captureDesired db))"
  using assms
  by (simp_all add: schema_ok_def ok_defs captureDesired_def comp_def captured_fields unique_key_sort
      filter_map filter_sort)

lemma captured_members:
  assumes "schema_ok db" "g \<in> set (ds_groups (captureDesired db))"
  shows "group_kind_known (sg_kind g)" "distinct (sg_members g)" "set (sg_members g) \<subseteq> node_ids db"
proof -
  obtain r where r: "r \<in> set (t_groups db)" "g = capture_group db r" using assms(2) by (auto simp: captureDesired_def)
  then show "group_kind_known (sg_kind g)" using assms(1) by (auto simp: schema_ok_def groups_ok_def list_all_iff captured_fields)
  have ms: "unique_key (\<lambda>m. (mr_group m, mr_node m)) (t_members db)" "\<forall>m\<in>set (t_members db). mr_node m \<in> node_ids db"
    using assms(1) by (auto simp: schema_ok_def members_ok_def list_all_iff)
  have "unique_key mr_node (filter (\<lambda>m. mr_group m = gr_id r) (t_members db))"
    using ms(1) by (auto simp: distinct_map inj_on_def)
  then show "distinct (sg_members g)" by (simp add: r capture_group_def members_of_def unique_key_sort)
  show "set (sg_members g) \<subseteq> node_ids db" using ms(2) by (auto simp: r capture_group_def members_of_def)
qed

lemma captured_checks:
  assumes "schema_ok db"
  shows "list_all (\<lambda>n. node_check (restored_node now n)) (ds_nodes (captureDesired db))"
    "list_all (\<lambda>r. rule_check (rule_of_snap now r) \<and> sl_set_id r \<in> rule_set_ids db) (ds_rules (captureDesired db))"
    "list_all (\<lambda>d. device_check (restored_device now d)) (ds_devices (captureDesired db))"
  using assms
  by (auto simp: schema_ok_def ok_defs captureDesired_def list_all_iff captured_fields)

text \<open>One table after the other, each into an empty one.\<close>

lemma restore_nodes_captured:
  assumes src: "schema_ok db0" and w: "t_nodes w = []"
  shows "fold_outcome (restore_node now) (ds_nodes (captureDesired db0)) w =
    Inr (w\<lparr>t_nodes := map (restored_node now) (ds_nodes (captureDesired db0))\<rparr>)"
proof -
  note u = captured_unique[OF src]
  have "sorted_wrt (\<lambda>x y. \<not> (sn_id x = sn_id y \<or> sn_is_default x \<and> sn_is_default y)) (ds_nodes (captureDesired db0))"
    using sorted_wrt_both[OF sorted_wrt_distinct[OF u(1)] sorted_wrt_one[OF u(2)]] by simp
  from nodes.fold_app[OF this, of now w] show ?thesis
    using captured_checks(1)[OF src, of now] w by (simp add: list_all_iff)
qed

lemma restore_groups_captured:
  assumes src: "schema_ok db0" and w: "t_groups w = []" "t_members w = []" "node_ids w = node_ids db0"
  shows "fold_outcome (restore_group now) (ds_groups (captureDesired db0)) w =
    Inr (w\<lparr>t_groups := map (restored_group now) (ds_groups (captureDesired db0)),
      t_members := concat (map restored_members (ds_groups (captureDesired db0)))\<rparr>)"
proof -
  note u = captured_unique[OF src]
  have "sorted_wrt (\<lambda>x y. \<not> (sg_id x = sg_id y \<or> sg_name x = sg_name y)) (ds_groups (captureDesired db0))"
    using sorted_wrt_both[OF sorted_wrt_distinct[OF u(3)] sorted_wrt_distinct[OF u(4)]] by simp
  from groups.fold_app[OF this, of w now] show ?thesis
    using captured_members[OF src] w by (auto simp: list_all_iff group_fits_def)
qed

lemma restore_rule_sets_captured:
  assumes "schema_ok db0" "t_rule_sets w = []"
  shows "fold_outcome (restore_rule_set now) (ds_rule_sets (captureDesired db0)) w =
    Inr (w\<lparr>t_rule_sets := map (restored_rule_set now) (ds_rule_sets (captureDesired db0))\<rparr>)"
  using rule_sets.fold_app[OF sorted_wrt_distinct[OF captured_unique(5)[OF assms(1)]], of w now] assms(2)
  by (simp add: list_all_iff)

lemma restore_rules_captured:
  assumes "schema_ok db0" "t_rules w = []" "rule_set_ids w = rule_set_ids db0"
  shows "fold_outcome (restore_rule now) (ds_rules (captureDesired db0)) w =
    Inr (w\<lparr>t_rules := map (rule_of_snap now) (ds_rules (captureDesired db0))\<rparr>)"
  using rules.fold_app[OF sorted_wrt_distinct[OF captured_unique(6)[OF assms(1)]], of now w]
    captured_checks(2)[OF assms(1), of now] assms(2,3)
  by (simp add: list_all_iff)

lemma restore_devices_captured:
  assumes src: "schema_ok db0" and w: "t_devices w = []"
  shows "fold_outcome (restore_device now) (ds_devices (captureDesired db0)) w =
    Inr (w\<lparr>t_devices := map (restored_device now) (ds_devices (captureDesired db0))\<rparr>)"
proof -
  note u = captured_unique[OF src]
  have "sorted_wrt (\<lambda>x y. \<not> (sd_id x = sd_id y \<or> sd_kind x = sd_kind y \<and> sd_value x = sd_value y))
      (ds_devices (captureDesired db0))"
    using sorted_wrt_both[OF sorted_wrt_distinct[OF u(7)] sorted_wrt_distinct[OF u(8)]] by simp
  from devices.fold_app[OF this, of now w] show ?thesis
    using captured_checks(3)[OF src, of now] w by (simp add: list_all_iff)
qed

lemma restore_bypass_captured:
  assumes src: "schema_ok db0" and w: "t_bypass w = []"
  shows "fold_outcome (restore_bypass now) (ds_bypass (captureDesired db0)) w =
    Inr (w\<lparr>t_bypass := map (restored_bypass now) (ds_bypass (captureDesired db0))\<rparr>)"
proof -
  note u = captured_unique[OF src]
  have "sorted_wrt (\<lambda>x y. \<not> (sb_id x = sb_id y \<or> sb_cidr x = sb_cidr y)) (ds_bypass (captureDesired db0))"
    using sorted_wrt_both[OF sorted_wrt_distinct[OF u(9)] sorted_wrt_distinct[OF u(10)]] by simp
  from bypasses.fold_app[OF this, of w now] show ?thesis using w by (simp add: list_all_iff)
qed

lemma restore_config_captured:
  assumes "schema_ok db0"
  shows "restore_config now (captureDesired db0) (t_network db0) w =
    Inr (w\<lparr>t_network := restore_network now (t_network db0) (t_network w),
      t_dns := restore_dns now (captureDesired db0) (t_dns w)\<rparr>)"
  using assms
  by (simp add: restore_config_def schema_ok_def network_check_def log_level_ok_def restore_network_def
      restore_dns_def captureDesired_def Let_def)

lemma restoreDesired_captured:
  assumes src: "schema_ok db0" and ok: "schema_ok db"
  shows "restoreDesired now (captureDesired db0) (t_network db0) db =
    Inr (restored now (captureDesired db0) (t_network db0) db)"
proof -
  have ids: "n_id ` restored_node now ` set (ds_nodes (captureDesired db0)) = node_ids db0"
      "rs_id ` restored_rule_set now ` set (ds_rule_sets (captureDesired db0)) = rule_set_ids db0"
    using captured_ids[of db0] by (simp_all add: image_image captured_fields)
  show ?thesis unfolding restoreDesired_def wipe_eq[OF ok] restored_def
    by (simp add: restore_nodes_captured[OF src] restore_groups_captured[OF src] restore_rule_sets_captured[OF src]
        restore_rules_captured[OF src] restore_devices_captured[OF src] restore_bypass_captured[OF src]
        restore_config_captured[OF src] ids)
qed

lemma unique_key_pair: "unique_key k xs \<Longrightarrow> unique_key (\<lambda>x. (h x, k x)) xs"
  by (induction xs) auto

subsection \<open>What a restored state has\<close>

lemma sorted_numbered: "sort_key mr_position (restored_members g) = restored_members g"
proof -
  have pos: "map mr_position (restored_members g) = [0..int (length (sg_members g)) - 1]"
    by (simp add: restored_members_def numbered_def comp_def)
  show ?thesis by (rule sort_key_id_if_sorted) (simp add: pos)
qed

lemma restored_members_group: "m \<in> set (restored_members g) \<Longrightarrow> mr_group m = sg_id g"
  by (auto simp: restored_members_def)

lemma nodes_of_members: "map mr_node (restored_members g) = sg_members g"
  by (simp add: restored_members_def comp_def numbered_snd)

lemma members_of_restored:
  assumes "unique_key sg_id gs" "g \<in> set gs"
  shows "members_of (concat (map restored_members gs)) (sg_id g) = sg_members g"
proof -
  have own: "filter (\<lambda>m. mr_group m = i) (restored_members h) = (if i = sg_id h then restored_members h else [])" for h i
    by (simp add: restored_members_def filter_map comp_def)
  have "filter (\<lambda>m. mr_group m = sg_id g) (concat (map restored_members gs)) = restored_members g"
    using assms
  proof (induction gs)
    case (Cons h gs)
    have none: "filter (\<lambda>m. mr_group m = sg_id h) (concat (map restored_members gs)) = []"
      unfolding filter_empty_conv
    proof
      fix m assume "m \<in> set (concat (map restored_members gs))"
      then obtain f where "f \<in> set gs" "mr_group m = sg_id f" by (auto simp: restored_members_def)
      then show "mr_group m \<noteq> sg_id h" using Cons.prems(1) by (auto simp: image_iff)
    qed
    show ?case
    proof (cases "g = h")
      case True
      then show ?thesis using none by (simp add: own)
    next
      case False
      with Cons.prems(2) have "g \<in> set gs" by simp
      moreover from this have "sg_id g \<noteq> sg_id h" using Cons.prems(1) by (auto simp: image_iff)
      ultimately show ?thesis using Cons by (simp add: own)
    qed
  qed simp
  then show ?thesis by (simp add: members_of_def sorted_numbered nodes_of_members)
qed

text \<open>Capturing the restored rows gives the snapshot's rows back, in their order.\<close>

lemma recapture:
  assumes "unique_key sg_id (ds_groups s)"
  shows "map capture_node (t_nodes (restored now s net db)) = ds_nodes s"
    "map (capture_group (restored now s net db)) (t_groups (restored now s net db)) = ds_groups s"
    "map capture_rule_set (t_rule_sets (restored now s net db)) = ds_rule_sets s"
    "map capture_rule (t_rules (restored now s net db)) = ds_rules s"
    "map capture_device (t_devices (restored now s net db)) = ds_devices s"
    "map capture_bypass (t_bypass (restored now s net db)) = ds_bypass s"
proof -
  have "capture_group (restored now s net db) (restored_group now g) = g" if "g \<in> set (ds_groups s)" for g
    using members_of_restored[OF assms that] by (simp add: capture_group_def restored_group_def restored_def)
  then show "map (capture_group (restored now s net db)) (t_groups (restored now s net db)) = ds_groups s"
    by (simp add: restored_def map_idI)
qed (simp_all add: restored_def comp_def map_idI capture_node_def restored_node_def capture_rule_set_def restored_rule_set_def
    capture_rule_def rule_of_snap_def capture_device_def restored_device_def capture_bypass_def restored_bypass_def)

lemma restored_ids:
  "node_ids (restored now (captureDesired db0) net db) = node_ids db0"
  "group_ids (restored now (captureDesired db0) net db) = group_ids db0"
  "rule_set_ids (restored now (captureDesired db0) net db) = rule_set_ids db0"
  using captured_ids[of db0] by (simp_all add: restored_def image_image captured_fields)

lemma restored_members_row: "m \<in> set (restored_members g) \<Longrightarrow> mr_group m = sg_id g \<and> mr_node m \<in> set (sg_members g)"
  by (metis (no_types) image_eqI list.set_map nodes_of_members restored_members_group)

lemma restored_members_unique:
  assumes "unique_key sg_id gs" "\<forall>g\<in>set gs. distinct (sg_members g)"
  shows "unique_key (\<lambda>m. (mr_group m, mr_node m)) (concat (map restored_members gs))"
  using assms
proof (induction gs)
  case (Cons g gs)
  have own: "unique_key (\<lambda>m. (mr_group m, mr_node m)) (restored_members g)"
    using Cons.prems(2) nodes_of_members[of g] by (simp add: unique_key_pair)
  have "(mr_group m, mr_node m) \<noteq> (mr_group n, mr_node n)"
    if m: "m \<in> set (restored_members g)" and n: "n \<in> set (concat (map restored_members gs))" for m n
  proof -
    from n obtain h where "h \<in> set gs" "mr_group n = sg_id h" by (auto dest: restored_members_row)
    then show ?thesis using m Cons.prems(1) by (auto simp: image_iff dest: restored_members_row)
  qed
  then have "(\<lambda>m. (mr_group m, mr_node m)) ` set (restored_members g) \<inter>
      (\<lambda>m. (mr_group m, mr_node m)) ` set (concat (map restored_members gs)) = {}" by blast
  moreover have "unique_key (\<lambda>m. (mr_group m, mr_node m)) (concat (map restored_members gs))" using Cons by simp
  ultimately show ?case using own by (simp only: map_append distinct_append list.map concat.simps set_map)
qed simp

lemma restored_members_ok:
  assumes "schema_ok db0"
  shows "members_ok (group_ids db0) (node_ids db0) (concat (map restored_members (ds_groups (captureDesired db0))))"
proof -
  have "mr_group m \<in> group_ids db0 \<and> mr_node m \<in> node_ids db0"
    if m: "m \<in> set (concat (map restored_members (ds_groups (captureDesired db0))))" for m
  proof -
    from m obtain g where g: "g \<in> set (ds_groups (captureDesired db0))" "m \<in> set (restored_members g)" by auto
    then show ?thesis using captured_members(3)[OF assms g(1)] captured_ids(2)[of db0] restored_members_row[OF g(2)] by blast
  qed
  then show ?thesis
    using restored_members_unique captured_unique(3)[OF assms] captured_members(2)[OF assms]
    by (simp add: members_ok_def list_all_iff)
qed

lemma restored_ok:
  assumes src: "db_ok db0"
  shows "db_ok (restored now (captureDesired db0) (t_network db0) db)"
proof -
  let ?s = "captureDesired db0"
  have sc: "schema_ok db0" using src by (simp add: db_ok_def)
  note u = captured_unique[OF sc] and c = captured_checks[OF sc, of now]
  have "length (filter n_is_default (map (restored_node now) (ds_nodes ?s))) \<le> 1"
    using u(2) by (simp add: filter_map comp_def restored_node_def)
  moreover have "list_all (target_ok (node_ids db0) (group_ids db0)) (map (rule_of_snap now) (ds_rules ?s))"
    using src by (auto simp: db_ok_def targets_ok_def list_all_iff captureDesired_def captured_fields)
  moreover have "unique_key ru_id (map (rule_of_snap now) (ds_rules ?s))" "\<forall>r\<in>set (ds_rules ?s). ru_set_id (rule_of_snap now r) = sl_set_id r"
    using u(6) by (simp_all add: comp_def rule_of_snap_def)
  moreover have "devices_ok (map (restored_device now) (ds_devices ?s))"
    using u(7,8) c(3) by (simp add: devices_ok_def comp_def list_all_iff restored_device_def)
  moreover have "bypass_ok (map (restored_bypass now) (ds_bypass ?s))"
    using u(9,10) by (simp add: bypass_ok_def comp_def restored_bypass_def)
  moreover have "groups_ok (map (restored_group now) (ds_groups ?s))"
    using u(3,4) captured_members(1)[OF sc] by (simp add: groups_ok_def comp_def list_all_iff restored_group_def)
  moreover have "network_check (restore_network now (t_network db0) (t_network db))"
      "log_level_ok (dc_log_level (restore_dns now ?s (t_dns db)))"
    using sc by (simp_all add: schema_ok_def network_check_def restore_network_def restore_dns_def captureDesired_def Let_def)
  ultimately show ?thesis using u(1,5) c restored_members_ok[OF sc] restored_ids[of now db0 "t_network db0" db]
    by (simp add: db_ok_def schema_ok_def targets_ok_def restored_def nodes_ok_def rules_ok_def deploys_ok_def
        list_all_iff comp_def captured_fields)
qed

subsection \<open>RevertTo\<close>

definition mark_reverted :: "string \<Rightarrow> int \<Rightarrow> int \<Rightarrow> store \<Rightarrow> store" where
  "mark_reverted i lo hi s = s\<lparr>ss_changesets := tbl_update (\<lambda>c. lo < cr_generation c \<and> cr_generation c < hi)
     (\<lambda>c. c\<lparr>cr_reverted_by := Some i\<rparr>) (ss_changesets s)\<rparr>"

lemma mark_reverted_ok: "store_ok s \<Longrightarrow> store_ok (mark_reverted i lo hi s)"
  unfolding store_ok_def ledger_ok_def mark_reverted_def
  by (simp add: keys_update) (auto intro!: list_all_update simp: row_ok_def cong: change_diff.case_cong)

text \<open>Every snapshot in the ledger of a consistent store is the state of consistent tables.\<close>

lemma ledger_snapshot:
  assumes "ledger_ok s" "c \<in> set (ss_changesets s)" "cr_diff c = SnapshotDiff snap"
  obtains db0 where "db_ok db0" "snap = captureDesired db0"
  using assms by (auto simp: ledger_ok_def list_all_iff row_ok_def dest!: bspec[of _ _ c])

lemma restore_from_ledger:
  assumes ok: "store_ok s" and c: "c \<in> set (ss_changesets s)" "cr_diff c = SnapshotDiff snap" "ds_network snap = Some net"
    and r: "restoreDesired now snap net (ss_tables s) = Inr db"
  shows "db_ok db"
proof -
  obtain db0 where db0: "db_ok db0" "snap = captureDesired db0"
    using ledger_snapshot[OF _ c(1,2)] ok by (auto simp: store_ok_def)
  have "schema_ok db0" "schema_ok (ss_tables s)" using ok db0 by (simp_all add: store_ok_def db_ok_def)
  moreover have "net = t_network db0" using c(3) db0(2) by (simp add: captureDesired_def)
  ultimately have "db = restored now (captureDesired db0) (t_network db0) (ss_tables s)"
    using r db0(2) by (simp add: restoreDesired_captured)
  then show ?thesis using restored_ok[OF db0(1)] by simp
qed

lemma RevertTo_ok:
  assumes ok: "store_ok s"
  shows "store_ok (snd (RevertTo now uuid commit i actor s))"
proof (cases "tbl_get cr_id (ss_changesets s) i")
  case (Some c)
  then have c: "c \<in> set (ss_changesets s)" by (auto dest: tbl_get_Some)
  show ?thesis
  proof (cases "\<exists>snap net. cr_diff c = SnapshotDiff snap \<and> ds_network snap = Some net")
    case True
    then obtain snap net where snap: "cr_diff c = SnapshotDiff snap" "ds_network snap = Some net" by blast
    let ?m = "\<lparr>mu_actor = actor, mu_summary = ''revert to generation '' @ int_string (cr_generation c), mu_diff = None\<rparr>"
    obtain r s' where M: "Mutate now uuid commit ?m (restoreDesired now snap net) s = (r, s')" by fastforce
    have "store_ok s'"
      using Mutate_ok[OF ok, of ?m "restoreDesired now snap net" now uuid commit] restore_from_ledger[OF ok c snap] M by simp
    then show ?thesis using Some snap M mark_reverted_ok[of s']
      by (cases r) (simp_all add: RevertTo_def mark_reverted_def Let_def)
  next
    case False
    then have "snd (RevertTo now uuid commit i actor s) = s"
      using Some by (cases "cr_diff c") (auto simp: RevertTo_def Let_def split: option.split)
    then show ?thesis using ok by simp
  qed
qed (simp add: RevertTo_def ok)

text \<open>A changeset of the newest generations can be restored.\<close>

lemma RevertTo_restores:
  assumes ok: "store_ok s" and c: "c \<in> set (ss_changesets s)" "cr_generation c > ss_generation s - SnapshotRetention"
    and u: "uuid \<notin> cr_id ` set (ss_changesets s)"
  obtains db0 s' where "db_ok db0" "cr_diff c = SnapshotDiff (captureDesired db0)"
    "RevertTo now uuid None (cr_id c) actor s = ((Inr (ss_generation s + 1), cr_generation c), s')"
    "ss_generation s' = ss_generation s + 1"
    "ss_tables s' = restored now (captureDesired db0) (t_network db0) (ss_tables s)"
proof -
  have l: "ledger_ok s" using ok by (simp add: store_ok_def)
  have "row_ok (ss_generation s) c" using l c(1) by (simp add: ledger_ok_def list_all_iff)
  then obtain db0 where db0: "db_ok db0" "cr_diff c = SnapshotDiff (captureDesired db0)"
    using c(2) by (auto simp: row_ok_def split: change_diff.splits)
  have get: "tbl_get cr_id (ss_changesets s) (cr_id c) = Some c"
    using ledger_okD(3)[OF l] c(1) by (rule tbl_get_in)
  have net: "ds_network (captureDesired db0) = Some (t_network db0)" by (simp add: captureDesired_def)
  have r: "restoreDesired now (captureDesired db0) (t_network db0) (ss_tables s) =
      Inr (restored now (captureDesired db0) (t_network db0) (ss_tables s))"
    using ok db0(1) by (intro restoreDesired_captured) (simp_all add: store_ok_def db_ok_def)
  let ?m = "\<lparr>mu_actor = actor, mu_summary = ''revert to generation '' @ int_string (cr_generation c), mu_diff = None\<rparr>"
  obtain s1 where M: "Mutate now uuid None ?m (restoreDesired now (captureDesired db0) (t_network db0)) s =
      (Inr (ss_generation s + 1), s1)" and s1: "ss_generation s1 = ss_generation s + 1"
      "ss_tables s1 = restored now (captureDesired db0) (t_network db0) (ss_tables s)"
    using Mutate_cases[OF ledger_okD(1,2)[OF l], of now uuid None ?m "restoreDesired now (captureDesired db0) (t_network db0)"]
      r u by simp
  show ?thesis
    by (rule that[OF db0, of "mark_reverted (cr_id c) (cr_generation c) (ss_generation s + 1) s1"])
      (use get net M s1 db0(2) in \<open>simp_all add: RevertTo_def mark_reverted_def Let_def\<close>)
qed

text \<open>A revert that succeeds has restored the snapshot of some consistent tables.\<close>

lemma RevertTo_success:
  assumes ok: "store_ok s" and R: "RevertTo now uuid commit i actor s = ((Inr g, n), s')"
  shows "\<exists>db0. db_ok db0 \<and> ss_tables s' = restored now (captureDesired db0) (t_network db0) (ss_tables s)"
proof -
  obtain c where c: "tbl_get cr_id (ss_changesets s) i = Some c" using R by (cases "tbl_get cr_id (ss_changesets s) i") (auto simp: RevertTo_def)
  obtain snap net where snap: "cr_diff c = SnapshotDiff snap" "ds_network snap = Some net"
    using R c by (cases "cr_diff c") (auto simp: RevertTo_def Let_def split: option.splits)
  let ?m = "\<lparr>mu_actor = actor, mu_summary = ''revert to generation '' @ int_string (cr_generation c), mu_diff = None\<rparr>"
  obtain s1 where M: "Mutate now uuid commit ?m (restoreDesired now snap net) s = (Inr g, s1)" "ss_tables s' = ss_tables s1"
    using R c snap by (auto simp: RevertTo_def Let_def split: prod.splits sum.splits)
  have l: "ledger_ok s" using ok by (simp add: store_ok_def)
  obtain db0 where db0: "db_ok db0" "snap = captureDesired db0"
    using ledger_snapshot[OF l _ snap(1)] tbl_get_Some[OF c] by blast
  have "net = t_network db0" using snap(2) db0(2) by (simp add: captureDesired_def)
  moreover have "schema_ok db0" "schema_ok (ss_tables s)" using ok db0 by (simp_all add: store_ok_def db_ok_def)
  ultimately have "restoreDesired now snap net (ss_tables s) = Inr (restored now (captureDesired db0) (t_network db0) (ss_tables s))"
    by (simp add: db0(2) restoreDesired_captured)
  then show ?thesis using Mutate_Inr(3)[OF l M(1)] M(2) db0(1) by auto
qed

end
