(* ===== verification/ApiInv.thy ===== *)
theory ApiInv
  imports ApiNodes StoreRevert
begin

text \<open>
  The handlers of the desired state as steps of one server that handles one request after the
  other, with the background writes of the reconciler and the probes in between; every step
  keeps the tables and the ledger consistent.
\<close>

inductive api_step :: "api_state \<Rightarrow> api_state \<Rightarrow> bool" where
  create_node: "api_step s (snd (createNode js enc E b s))"
| update_node: "api_step s (snd (updateNode js enc E i b s))"
| delete_node: "api_step s (snd (deleteNode E i s))"
| set_default_node: "api_step s (snd (setDefaultNode E i s))"
| set_node_enabled: "api_step s (snd (setNodeEnabled E i flag s))"
| import_nodes: "api_step s (snd (importNodes parse enc E links s))"
| create_group: "api_step s (snd (createGroup js E gb s))"
| update_group: "api_step s (snd (updateGroup js E i gb s))"
| delete_group: "api_step s (snd (deleteGroup E i s))"
| create_rule_set: "api_step s (snd (createRuleSet E sb s))"
| update_rule_set: "api_step s (snd (updateRuleSet E i sb s))"
| delete_rule_set: "api_step s (snd (deleteRuleSet E i s))"
| reorder_rule_sets: "api_step s (snd (reorderRuleSets E ids s))"
| reorder_rules: "api_step s (snd (reorderRules E i ids s))"
| create_rules: "api_step s (snd (createRules E rb s))"
| update_rule: "api_step s (snd (updateRule E i rb s))"
| delete_rule: "api_step s (snd (deleteRule E i s))"
| move_rule: "api_step s (snd (moveRule E i target s))"
| create_device: "api_step s (snd (createDevicePolicy E db s))"
| update_device: "api_step s (snd (updateDevicePolicy E i db s))"
| delete_device: "api_step s (snd (deleteDevicePolicy E i s))"
| create_bypass: "api_step s (snd (createBypass E yb s))"
| update_bypass: "api_step s (snd (updateBypass E i remark s))"
| delete_bypass: "api_step s (snd (deleteBypass E i s))"
| put_network: "api_step s (snd (putNetwork E hosts nb s))"
| put_dns: "api_step s (snd (putDNS E dns s))"
| revert: "api_step s (snd (revertChangeset E i s))"
| node_latency: "api_step s (s\<lparr>ap_store := (ap_store s)\<lparr>ss_tables := UpdateNodeLatency i ms (ap_tables s)\<rparr>\<rparr>)"
| applied: "api_step s (s\<lparr>ap_store := SetLastApplied now g (ap_store s)\<rparr>)"
| apply_log: "api_step s (s\<lparr>ap_store := StoreMutate.RecordApply now entry (ap_store s)\<rparr>)"
| event: "api_step s (s\<lparr>ap_store := AddEvent now ev (ap_store s)\<rparr>)"
| ensure_builtin: "EnsureBuiltinRuleSet now uuid uuids seeded (ap_tables s) = Inr (tables, seeded') \<Longrightarrow>
    api_step s (s\<lparr>ap_store := (ap_store s)\<lparr>ss_tables := tables\<rparr>\<rparr>)"
| resolver: "api_step s (s\<lparr>ap_cache := cache\<rparr>)"

abbreviation consistent :: "api_state \<Rightarrow> bool" where
  "consistent s \<equiv> store_ok (ap_store s)"

subsection \<open>Writes\<close>

lemma tables_ok: "consistent s \<Longrightarrow> db_ok (ap_tables s)"
  by (simp add: store_ok_def)

lemma set_tables_ok: "consistent s \<Longrightarrow> db_ok db \<Longrightarrow> store_ok ((ap_store s)\<lparr>ss_tables := db\<rparr>)"
  by (simp add: store_ok_def ledger_ok_def)

lemma api_mutate_ok:
  assumes "consistent s" "\<And>db. fn (ap_tables s) = Inr db \<Longrightarrow> db_ok db"
  shows "consistent (snd (api_mutate E summary fn s))"
proof -
  let ?m = "\<lparr>mu_actor = av_actor E, mu_summary = summary, mu_diff = None\<rparr>"
  obtain r st where M: "Mutate (av_now E) (av_uuid E 0) (av_commit E) ?m fn (ap_store s) = (r, st)" by fastforce
  then have "store_ok st" using Mutate_ok[of "ap_store s" ?m fn "av_now E" "av_uuid E 0" "av_commit E"] assms by simp
  then show ?thesis using M by (cases r) (simp_all add: api_mutate_def)
qed

lemma mutate_reply_state: "snd (mutate_reply E summary fn k s) = snd (api_mutate E summary fn s)"
  by (simp add: mutate_reply_def split: prod.split sum.split)

lemma mutate_reply_ok:
  "consistent s \<Longrightarrow> (\<And>db. fn (ap_tables s) = Inr db \<Longrightarrow> db_ok db) \<Longrightarrow> consistent (snd (mutate_reply E summary fn k s))"
  by (simp add: mutate_reply_state api_mutate_ok)

text \<open>A reply without an error status comes from a write that succeeded.\<close>

lemma api_fail_status: "rp_status (api_fail e) \<ge> 400"
  by (cases "root_error e") (auto simp: api_fail_def writeErr_def)

lemma mutate_reply_success:
  assumes "ledger_ok (ap_store s)" "mutate_reply E summary fn k s = (rep, s')" "rp_status rep < 400"
  shows "fn (ap_tables s) = Inr (ap_tables s')"
proof -
  let ?m = "\<lparr>mu_actor = av_actor E, mu_summary = summary, mu_diff = None\<rparr>"
  obtain r st where M: "Mutate (av_now E) (av_uuid E 0) (av_commit E) ?m fn (ap_store s) = (r, st)" by fastforce
  show ?thesis
  proof (cases r)
    case (Inl e)
    then have "rep = api_fail e" using assms(2) M by (simp add: mutate_reply_def api_mutate_def)
    then show ?thesis using assms(3) by (metis api_fail_status not_le)
  next
    case (Inr g)
    then have "ap_store s' = st" using assms(2) M by (auto simp: mutate_reply_def api_mutate_def)
    then show ?thesis using Mutate_Inr(3)[OF assms(1)] M Inr by simp
  qed
qed

lemma mutate_reply_outcome:
  assumes "ledger_ok (ap_store s)" "mutate_reply E summary fn k s = (rep, s')"
  shows "ap_tables s' = ap_tables s \<or> (\<exists>g. fn (ap_tables s) = Inr (ap_tables s') \<and> rep = k g s')"
proof -
  let ?m = "\<lparr>mu_actor = av_actor E, mu_summary = summary, mu_diff = None\<rparr>"
  obtain r st where M: "Mutate (av_now E) (av_uuid E 0) (av_commit E) ?m fn (ap_store s) = (r, st)" by fastforce
  show ?thesis
  proof (cases r)
    case (Inl e)
    then have "st = ap_store s"
      using M Mutate_cases[OF ledger_okD(1,2)[OF assms(1)], of "av_now E" "av_uuid E 0" "av_commit E" ?m fn]
      by (auto split: sum.splits if_splits option.splits)
    then show ?thesis using assms(2) M Inl by (auto simp: mutate_reply_def api_mutate_def)
  next
    case (Inr g)
    then show ?thesis using assms(2) M Mutate_Inr(3)[OF assms(1)] by (auto simp: mutate_reply_def api_mutate_def)
  qed
qed

text \<open>A request that fails before its write leaves the state alone.\<close>

lemma guarded_ok:
  assumes "consistent s" "\<And>x. r = Inr x \<Longrightarrow> consistent (snd (f x))"
  shows "consistent (snd (case r of Inl e \<Rightarrow> (g e, s) | Inr x \<Rightarrow> f x))"
  using assms by (cases r) auto

subsection \<open>Targets of validated rules\<close>

lemma GetNode_target: "GetNode i db = Inr n \<Longrightarrow> i \<in> node_ids db"
  by (auto simp: GetNode_def dest: tbl_get_Some split: option.splits)

lemma GetGroup_target: "GetGroup i db = Inr g \<Longrightarrow> i \<in> group_ids db"
  by (auto simp: GetGroup_def ListGroups_def group_of_def dest!: find_SomeD split: option.splits)

lemma ref_check_target:
  assumes "ref_check E db k ref = Inr u" "ru_action_kind r = k" "ru_action_ref r = ref"
  shows "target_ok (node_ids db) (group_ids db) r"
  using assms by (cases k) (auto simp: ref_check_def target_ok_def split: sum.splits dest: GetNode_target GetGroup_target)

lemma validateRule_target: "validateRule E db i v = Inr r \<Longrightarrow> target_ok (node_ids db) (group_ids db) r"
  by (auto simp: validateRule_def Let_def split: if_splits dest!: ref_check_target)

lemma validate_values_targets:
  "validate_values E db i n vs = Inr rs \<Longrightarrow> list_all (target_ok (node_ids db) (group_ids db)) rs"
proof (induction vs arbitrary: n rs)
  case (Cons v vs)
  then obtain r rs' where "validateRule E db i v = Inr r" "validate_values E db i (Suc n) vs = Inr rs'"
      "rs = r\<lparr>ru_id := av_uuid E n\<rparr> # rs'"
    by auto
  then show ?case using Cons.IH validateRule_target by (auto simp: target_ok_def)
qed simp

lemma insert_rules_ok:
  assumes "db_ok db" "list_all (target_ok (node_ids db) (group_ids db)) rs" "fold_outcome (InsertRule now) rs db = Inr db'"
  shows "db_ok db'"
  using assms
proof (induction rs arbitrary: db)
  case (Cons r rs)
  then obtain db1 where 1: "InsertRule now r db = Inr db1" "fold_outcome (InsertRule now) rs db1 = Inr db'" by auto
  then have "db_ok db1" using Cons.prems by (auto intro: InsertRule_ok)
  moreover have "list_all (target_ok (node_ids db1) (group_ids db1)) rs"
    using Cons.prems(2) InsertRule_frame[OF 1(1)] by simp
  ultimately show ?case using Cons.IH 1(2) by blast
qed simp

subsection \<open>The handlers\<close>

lemma node_handlers_ok:
  assumes "consistent s"
  shows "consistent (snd (createNode js enc E b s))" "consistent (snd (updateNode js enc E i b s))"
    "consistent (snd (setDefaultNode E i s))" "consistent (snd (setNodeEnabled E i flag s))"
  using assms tables_ok[OF assms]
  by (auto simp: createNode_def updateNode_def setDefaultNode_def setNodeEnabled_def Let_def split: sum.split
      intro!: mutate_reply_ok intro: InsertNode_ok UpdateNode_ok SetDefaultNode_ok SetNodeEnabled_ok)

lemma importNodes_ok:
  assumes "consistent s"
  shows "consistent (snd (importNodes parse enc E links s))"
proof -
  have "db_ok db" if "fold_outcome (InsertNode (av_now E)) rows (ap_tables s) = Inr db" for rows db
    using that tables_ok[OF assms] by (rule fold_outcome_invariant) (rule InsertNode_ok)
  then show ?thesis using assms
    by (auto simp: importNodes_def split: sum.split prod.split intro!: mutate_reply_ok)
qed

lemma delete_handlers_ok:
  assumes "consistent s"
  shows "consistent (snd (deleteNode E i s))" "consistent (snd (deleteGroup E i s))"
  using assms tables_ok[OF assms]
  by (auto simp: deleteNode_def deleteGroup_def delete_reply_def intro!: mutate_reply_ok intro: DeleteNode_ok DeleteGroup_ok)

lemma group_handlers_ok:
  assumes "consistent s"
  shows "consistent (snd (createGroup js E gb s))" "consistent (snd (updateGroup js E i gb s))"
  using assms tables_ok[OF assms]
  by (auto simp: createGroup_def updateGroup_def save_group_def Let_def split: sum.split
      intro!: mutate_reply_ok intro: UpsertGroup_ok)

lemma rule_set_handlers_ok:
  assumes "consistent s"
  shows "consistent (snd (createRuleSet E sb s))" "consistent (snd (updateRuleSet E i sb s))"
    "consistent (snd (deleteRuleSet E i s))" "consistent (snd (reorderRuleSets E ids s))"
proof -
  have ok: "db_ok (ap_tables s)" using assms by (rule tables_ok)
  have "db_ok db" if "bind_outcome (InsertRuleSet (av_now E) new name (ap_tables s)) (\<lambda>db.
      if off then UpdateRuleSet (av_now E) new name False db else Inr db) = Inr db" for new name off db
    using that by (auto split: if_splits dest!: InsertRuleSet_ok[OF ok] UpdateRuleSet_ok[rotated])
  then show "consistent (snd (createRuleSet E sb s))"
    using assms unfolding createRuleSet_def Let_def
    by (cases sb) (auto intro!: mutate_reply_ok simp del: bind_outcome_Inr One_nat_def)
  show "consistent (snd (updateRuleSet E i sb s))"
    using assms ok by (auto simp: updateRuleSet_def Let_def split: sum.split option.split
        intro!: mutate_reply_ok dest: UpdateRuleSet_ok)
  have "db_ok db" if "(case DeleteRuleSet i (ap_tables s) of Inl BuiltinRuleSet \<Rightarrow> Inl (Invalid ''id'' (error_text BuiltinRuleSet))
      | r \<Rightarrow> r) = Inr db" for db
    using that DeleteRuleSet_ok[OF ok] by (auto split: sum.splits go_error.splits)
  then show "consistent (snd (deleteRuleSet E i s))" using assms by (simp add: deleteRuleSet_def mutate_reply_ok)
  show "consistent (snd (reorderRuleSets E ids s))"
    using assms ok by (auto simp: reorderRuleSets_def as_invalid_def split: sum.splits
        intro!: mutate_reply_ok dest: ReorderRuleSets_ok)
qed

lemma rule_handlers_ok:
  assumes "consistent s"
  shows "consistent (snd (reorderRules E i ids s))" "consistent (snd (createRules E rb s))"
    "consistent (snd (updateRule E i rb s))" "consistent (snd (deleteRule E i s))" "consistent (snd (moveRule E i target s))"
proof -
  have ok: "db_ok (ap_tables s)" using assms by (rule tables_ok)
  show "consistent (snd (reorderRules E i ids s))"
    using assms ok by (auto simp: reorderRules_def as_invalid_def split: sum.splits
        intro!: mutate_reply_ok dest: ReorderRules_ok)
  have "list_all (target_ok (node_ids (ap_tables s)) (group_ids (ap_tables s))) rs"
    if "parse_rules E (ap_tables s) inp = Inr rs" for inp rs
    using that by (auto simp: parse_rules_def Let_def split: if_splits dest: validate_values_targets)
  then show "consistent (snd (createRules E rb s))"
    using assms ok by (auto simp: createRules_def insert_rules_def split: sum.split
        intro!: mutate_reply_ok dest: insert_rules_ok)
  have "target_ok (node_ids (ap_tables s)) (group_ids (ap_tables s)) (r\<lparr>ru_id := i\<rparr>)"
    if "validateRule E (ap_tables s) inp v = Inr r" for inp v r
    using validateRule_target[OF that] by (simp add: target_ok_def)
  then show "consistent (snd (updateRule E i rb s))"
    using assms ok by (auto simp: updateRule_def split: sum.split intro!: mutate_reply_ok dest: UpdateRule_ok)
  show "consistent (snd (deleteRule E i s))" "consistent (snd (moveRule E i target s))"
    using assms ok by (auto simp: deleteRule_def moveRule_def split: sum.split intro!: mutate_reply_ok
        dest: DeleteRule_ok MoveRule_ok)
qed

lemma device_handlers_ok:
  assumes "consistent s"
  shows "consistent (snd (createDevicePolicy E b s))" "consistent (snd (updateDevicePolicy E i b s))"
    "consistent (snd (deleteDevicePolicy E i s))"
  using assms tables_ok[OF assms]
  by (auto simp: createDevicePolicy_def updateDevicePolicy_def deleteDevicePolicy_def Let_def split: sum.split
      intro!: mutate_reply_ok dest: InsertDevicePolicy_ok UpdateDevicePolicy_ok DeleteDevicePolicy_ok)

lemma bypass_handlers_ok:
  assumes "consistent s"
  shows "consistent (snd (createBypass E b s))" "consistent (snd (updateBypass E i remark s))"
    "consistent (snd (deleteBypass E i s))"
  using assms tables_ok[OF assms]
  by (auto simp: createBypass_def updateBypass_def deleteBypass_def Let_def split: sum.split
      intro!: mutate_reply_ok set_tables_ok dest: bypass_statements_ok)

lemma config_handlers_ok:
  assumes "consistent s"
  shows "consistent (snd (putNetwork E hosts nb s))" "consistent (snd (putDNS E dns s))"
proof -
  have ok: "db_ok (ap_tables s)" using assms by (rule tables_ok)
  show "consistent (snd (putNetwork E hosts nb s))"
    using assms ok by (auto simp: putNetwork_def Let_def split: sum.split
        intro!: mutate_reply_ok dest: config_statements_ok)
  have "consistent s'" if "api_mutate E m (UpdateDNSConfig (av_now E) c) s = (r, s')" for m c r s'
    using api_mutate_ok[OF assms, of "UpdateDNSConfig (av_now E) c" E m] config_statements_ok(2)[OF ok] that by simp
  then show "consistent (snd (putDNS E dns s))" using assms
    by (auto simp: putDNS_def split: sum.split prod.split)
qed

lemma revertChangeset_ok: "consistent s \<Longrightarrow> consistent (snd (revertChangeset E i s))"
proof -
  assume ok: "consistent s"
  obtain r st where R: "RevertTo (av_now E) (av_uuid E 0) (av_commit E) i (av_actor E) (ap_store s) = (r, st)" by fastforce
  then have "store_ok st" using RevertTo_ok[OF ok, of "av_now E" "av_uuid E 0" "av_commit E" i "av_actor E"] by simp
  then show ?thesis using R by (cases r, cases "fst r") (auto simp: revertChangeset_def wake_def)
qed

lemma api_step_consistent: "api_step s s' \<Longrightarrow> consistent s \<Longrightarrow> consistent s'"
proof (induction rule: api_step.induct)
  case (ensure_builtin now uuid uuids seeded s tables seeded')
  then have "db_ok tables" by (blast intro: EnsureBuiltinRuleSet_ok tables_ok)
  with ensure_builtin show ?case by (simp add: set_tables_ok)
qed (simp_all add: node_handlers_ok importNodes_ok delete_handlers_ok group_handlers_ok rule_set_handlers_ok
    rule_handlers_ok device_handlers_ok bypass_handlers_ok config_handlers_ok revertChangeset_ok
    set_tables_ok tables_ok UpdateNodeLatency_ok,
    simp_all add: store_ok_def ledger_ok_def SetLastApplied_def StoreMutate.RecordApply_def AddEvent_def)

end
