(* ===== verification/StoreProps.thy ===== *)
theory StoreProps
  imports StoreLedger
begin

text \<open>
  Properties of the store: mutations, the order of rules, deletions, and the built-in rule set.
  The locale \<open>numbering\<close> is the contract of a statement that sets the position of the row with a
  key: rule sets and rules are its instances.
\<close>

locale numbering =
  fixes key :: "'r \<Rightarrow> 'k"
    and pos :: "'r \<Rightarrow> int"
    and put :: "int \<Rightarrow> 'r \<Rightarrow> 'r"
  assumes key_put [simp]: "key (put p r) = key r"
    and pos_put [simp]: "pos (put p r) = p"
    and put_put [simp]: "put p (put q r) = put p r"
begin

definition renumber :: "('k \<times> int) list \<Rightarrow> 'r list \<Rightarrow> 'r list" where
  "renumber ps t = fold (\<lambda>(k, p). tbl_update (\<lambda>r. key r = k) (put p)) ps t"

text \<open>The last position given to a key stays.\<close>

lemma renumber_rows:
  "renumber ps t = map (\<lambda>r. case map_of (rev ps) (key r) of None \<Rightarrow> r | Some p \<Rightarrow> put p r) t"
proof (induction ps rule: rev_induct)
  case (snoc kp ps)
  then show ?case
    by (cases kp) (auto simp: renumber_def tbl_update_def split: option.split)
qed (simp add: renumber_def)

lemma renumber_keys: "map key (renumber ps t) = map key t"
  unfolding renumber_rows by (auto split: option.split)

lemma renumber_pos:
  assumes "distinct ks" "r \<in> set (renumber (zip ks [0..int (length ks) - 1]) t)" "n < length ks" "key r = ks ! n"
  shows "pos r = int n"
proof -
  let ?ps = "zip ks [0..int (length ks) - 1]"
  have len: "length [0..int (length ks) - 1] = length ks" by simp
  have d: "distinct (map fst ?ps)" using assms(1) len by simp
  have "map_of (rev ?ps) = map_of ?ps" using d by (intro map_of_inject_set[THEN iffD2]) (simp_all add: rev_map[symmetric])
  moreover have "map_of ?ps (ks ! n) = Some ([0..int (length ks) - 1] ! n)"
    using assms(1,3) len by (intro map_of_zip_nth) simp_all
  ultimately have "map_of (rev ?ps) (ks ! n) = Some (int n)" using assms(3) by simp
  then show ?thesis using assms(2,4) unfolding renumber_rows
    by (auto split: option.splits)
qed

end

interpretation sets: numbering rs_id rs_position "\<lambda>p s. s\<lparr>rs_position := p\<rparr>"
  by unfold_locales simp_all

interpretation set_rules: numbering "\<lambda>r. (ru_id r, ru_set_id r)" ru_position "\<lambda>p r. r\<lparr>ru_position := p\<rparr>"
  by unfold_locales simp_all

subsection \<open>Mutations\<close>



subsection \<open>Order of rules\<close>

definition rules_of :: "string \<Rightarrow> tables \<Rightarrow> rule list" where
  "rules_of setID db = filter (\<lambda>r. ru_set_id r = setID) (t_rules db)"

definition has_rule :: "string \<Rightarrow> rule list \<Rightarrow> string \<Rightarrow> bool" where
  "has_rule setID rs i \<longleftrightarrow> (i, setID) \<in> (\<lambda>r. (ru_id r, ru_set_id r)) ` set rs"

definition move_rule_to :: "string \<Rightarrow> int \<Rightarrow> string \<Rightarrow> rule list \<Rightarrow> rule list" where
  "move_rule_to setID p i = tbl_update (\<lambda>r. (ru_id r, ru_set_id r) = (i, setID)) (\<lambda>r. r\<lparr>ru_position := p\<rparr>)"

lemma set_rule_position_eq:
  "set_rule_position setID (p, i) db =
     (if has_rule setID (t_rules db) i then Inr (db\<lparr>t_rules := move_rule_to setID p i (t_rules db)\<rparr>)
      else Inl (Wrapped (''rule '' @ i) NotFound))"
  by (auto simp: set_rule_position_def affectedOne_def rows_affected_0 has_rule_def move_rule_to_def image_iff)

lemma has_rule_moved: "has_rule setID (move_rule_to setID p i rs) = has_rule setID rs"
  by (simp add: has_rule_def move_rule_to_def keyset_update fun_eq_iff)

lemma fold_positions_ok:
  assumes "length ps = length ids" "list_all (has_rule setID (t_rules db)) ids"
  shows "fold_outcome (set_rule_position setID) (zip ps ids) db =
    Inr (db\<lparr>t_rules := set_rules.renumber (zip (map (\<lambda>i. (i, setID)) ids) ps) (t_rules db)\<rparr>)"
  using assms
proof (induction ps ids arbitrary: db rule: list_induct2)
  case (Cons p ps i ids)
  have "fold_outcome (set_rule_position setID) (zip ps ids) (db\<lparr>t_rules := move_rule_to setID p i (t_rules db)\<rparr>) =
      Inr (db\<lparr>t_rules := set_rules.renumber (zip (map (\<lambda>i. (i, setID)) ids) ps) (move_rule_to setID p i (t_rules db))\<rparr>)"
    using Cons.IH[of "db\<lparr>t_rules := move_rule_to setID p i (t_rules db)\<rparr>"] Cons.prems by (simp add: has_rule_moved)
  moreover have "set_rules.renumber (zip (map (\<lambda>i. (i, setID)) (i # ids)) (p # ps)) (t_rules db) =
      set_rules.renumber (zip (map (\<lambda>i. (i, setID)) ids) ps) (move_rule_to setID p i (t_rules db))"
    by (simp add: set_rules.renumber_def move_rule_to_def)
  ultimately show ?case using Cons.prems by (simp add: set_rule_position_eq)
qed (simp add: set_rules.renumber_def)

lemma fold_positions_bad:
  assumes "length ps = length ids" "\<not> list_all (has_rule setID (t_rules db)) ids"
  shows "\<exists>e. fold_outcome (set_rule_position setID) (zip ps ids) db = Inl e"
  using assms
proof (induction ps ids arbitrary: db rule: list_induct2)
  case (Cons p ps i ids)
  show ?case
  proof (cases "has_rule setID (t_rules db) i")
    case True
    then show ?thesis using Cons.IH[of "db\<lparr>t_rules := move_rule_to setID p i (t_rules db)\<rparr>"] Cons.prems
      by (simp add: set_rule_position_eq has_rule_moved)
  qed (simp add: set_rule_position_eq)
qed simp

lemma ReorderRules_cases:
  "ReorderRules setID ids db = Inr db' \<longleftrightarrow>
     length ids = length (rules_of setID db) \<and> list_all (has_rule setID (t_rules db)) ids \<and>
     db' = db\<lparr>t_rules := set_rules.renumber (zip (map (\<lambda>i. (i, setID)) ids) [0..int (length ids) - 1]) (t_rules db)\<rparr>"
proof -
  have len: "length [0..int (length ids) - 1] = length ids" by simp
  show ?thesis
  proof (cases "list_all (has_rule setID (t_rules db)) ids")
    case True
    then show ?thesis using fold_positions_ok[OF len True]
      by (auto simp: ReorderRules_def Let_def rows_affected_def rules_of_def numbered_def)
  next
    case False
    then show ?thesis using fold_positions_bad[OF len False]
      by (auto simp: ReorderRules_def Let_def rows_affected_def rules_of_def numbered_def)
  qed
qed

text \<open>
  Reordering the rules of a set succeeds exactly when the list has as many entries as the set
  has rules and names only rules of the set; entries may repeat.
\<close>

theorem reorder_accepts:
  "(\<exists>db'. ReorderRules setID ids db = Inr db') \<longleftrightarrow>
     length ids = length (rules_of setID db) \<and> set ids \<subseteq> ru_id ` set (rules_of setID db)"
  by (auto simp: ReorderRules_cases has_rule_def rules_of_def list_all_iff)

lemma rows_by_id:
  assumes "unique_key ru_id rows" "mset ids = mset (map ru_id rows)"
  shows "mset (map (\<lambda>i. the (tbl_get ru_id rows i)) ids) = mset rows"
    "i \<in> set ids \<Longrightarrow> the (tbl_get ru_id rows i) \<in> set rows \<and> ru_id (the (tbl_get ru_id rows i)) = i"
proof -
  have g: "the (tbl_get ru_id rows (ru_id r)) = r" if "r \<in> set rows" for r
    using tbl_get_in[OF assms(1) that] by simp
  have "mset (map (\<lambda>i. the (tbl_get ru_id rows i)) ids) = image_mset (\<lambda>i. the (tbl_get ru_id rows i)) (mset (map ru_id rows))"
    using assms(2) by simp
  also have "\<dots> = mset (map (\<lambda>r. the (tbl_get ru_id rows (ru_id r))) rows)" by (simp add: multiset.map_comp comp_def)
  also have "map (\<lambda>r. the (tbl_get ru_id rows (ru_id r))) rows = rows" using g by (rule map_idI)
  finally show "mset (map (\<lambda>i. the (tbl_get ru_id rows i)) ids) = mset rows" .
  assume "i \<in> set ids"
  then have "i \<in> ru_id ` set rows" using mset_eq_setD[OF assms(2)] by simp
  then show "the (tbl_get ru_id rows i) \<in> set rows \<and> ru_id (the (tbl_get ru_id rows i)) = i" using g by auto
qed

text \<open>Rows of one set whose positions follow a list of identifiers are listed in its order.\<close>

lemma ListRules_order:
  assumes rows: "rows_of = filter (\<lambda>r. ru_set_id r = setID) (t_rules db)" "unique_key ru_id rows_of"
    and set: "setID \<noteq> []" "setID \<in> rule_set_ids db"
    and ids: "mset ids = mset (map ru_id rows_of)"
    and pos: "\<And>r n. r \<in> set rows_of \<Longrightarrow> n < length ids \<Longrightarrow> ru_id r = ids ! n \<Longrightarrow> ru_position r = int n"
  shows "map ru_id (ListRules setID db) = ids"
proof -
  obtain s where s: "tbl_get rs_id (t_rule_sets db) setID = Some s"
    using set(2) tbl_get_None[of rs_id "t_rule_sets db" setID] by auto
  let ?g = "\<lambda>i. the (tbl_get ru_id rows_of i)"
  note g = rows_by_id[OF rows(2) ids]
  have d: "distinct ids" using ids rows(2) by (metis mset_eq_imp_distinct_iff)
  have ord: "rule_order db (?g (ids ! n)) = (rs_position s, rs_created_at s, int n, ru_created_at (?g (ids ! n)))"
    if "n < length ids" for n
    using g(2)[of "ids ! n"] pos[of "?g (ids ! n)" n] that rows(1) s by (auto simp: rule_order_def)
  have "sorted (map (rule_order db) (map ?g ids))"
    by (auto simp: sorted_iff_nth_mono_less ord less_eq_prod_simp)
  moreover have "inj_on (rule_order db) (set (map ?g ids))"
    using ord by (auto simp: inj_on_def in_set_conv_nth)
  ultimately have "sort_key (rule_order db) rows_of = map ?g ids"
    using g(1) mset_eq_setD[OF g(1)] by (intro sort_key_inj_key_eq) simp_all
  moreover have "ListRules setID db = sort_key (rule_order db) rows_of"
    using s set(1) by (auto simp: ListRules_def rows(1) intro!: arg_cong[of _ _ "sort_key _"] filter_cong)
  ultimately show ?thesis using g(2) by (simp add: map_idI)
qed

lemma filter_map_same:
  assumes "\<And>r. b (h r) = b r" "\<And>r. a (h r) = a r" "\<And>r. b r \<noteq> c \<Longrightarrow> h r = r"
  shows "map a (filter (\<lambda>r. b r = c) (map h t)) = map a (filter (\<lambda>r. b r = c) t)"
    "filter (\<lambda>r. b r \<noteq> c) (map h t) = filter (\<lambda>r. b r \<noteq> c) t"
  using assms by (induction t) auto

text \<open>
  Reordering with a permutation of a set's rules succeeds, the set is then listed in exactly
  that order, and the rules of other sets are untouched.
\<close>

theorem reorder_permutation:
  assumes "db_ok db" "setID \<noteq> []" "setID \<in> rule_set_ids db" "mset ids = mset (map ru_id (rules_of setID db))"
  shows "\<exists>db'. ReorderRules setID ids db = Inr db' \<and> map ru_id (ListRules setID db') = ids \<and>
    filter (\<lambda>r. ru_set_id r \<noteq> setID) (t_rules db') = filter (\<lambda>r. ru_set_id r \<noteq> setID) (t_rules db)"
proof -
  let ?ks = "map (\<lambda>i. (i, setID)) ids"
  let ?t = "set_rules.renumber (zip ?ks [0..int (length ?ks) - 1]) (t_rules db)"
  let ?db = "db\<lparr>t_rules := ?t\<rparr>"
  have uniq: "unique_key ru_id (t_rules db)" using assms(1) by (simp add: db_ok_def schema_ok_def rules_ok_def)
  have len: "length ids = length (rules_of setID db)" using assms(4) by (metis length_map size_mset)
  have "set ids = ru_id ` set (rules_of setID db)" using mset_eq_setD[OF assms(4)] by simp
  then have r: "ReorderRules setID ids db = Inr ?db"
    using len by (auto simp: ReorderRules_cases has_rule_def rules_of_def list_all_iff)
  define h where "h = (\<lambda>r::rule. case map_of (rev (zip ?ks [0..int (length ?ks) - 1])) (ru_id r, ru_set_id r) of
      None \<Rightarrow> r | Some p \<Rightarrow> r\<lparr>ru_position := p\<rparr>)"
  have row: "?t = map h (t_rules db)" unfolding h_def by (rule set_rules.renumber_rows)
  have h: "ru_set_id (h r) = ru_set_id r" "ru_id (h r) = ru_id r" "ru_set_id r \<noteq> setID \<Longrightarrow> h r = r" for r
    by (auto simp: h_def dest!: map_of_SomeD set_zip_leftD split: option.split)
  note same = filter_map_same[of ru_set_id h ru_id setID "t_rules db", OF h]
  have keys: "map ru_id (filter (\<lambda>r. ru_set_id r = setID) ?t) = map ru_id (rules_of setID db)"
    unfolding row rules_of_def by (rule same(1))
  have uniq': "unique_key ru_id (filter (\<lambda>r. ru_set_id r = setID) ?t)"
    unfolding keys rules_of_def using uniq by (rule distinct_map_filter)
  have "distinct ids" using assms(4) uniq' keys by (metis mset_eq_imp_distinct_iff)
  then have d: "distinct ?ks" by (simp add: distinct_map inj_on_def)
  have "map ru_id (ListRules setID ?db) = ids"
  proof (rule ListRules_order[OF _ uniq' assms(2)])
    show "mset ids = mset (map ru_id (filter (\<lambda>r. ru_set_id r = setID) ?t))" using assms(4) by (simp only: keys)
    show "ru_position r = int n"
      if "r \<in> set (filter (\<lambda>r. ru_set_id r = setID) ?t)" "n < length ids" "ru_id r = ids ! n" for r n
      using that by (intro set_rules.renumber_pos[OF d]) auto
  qed (use assms(3) in simp_all)
  moreover have "filter (\<lambda>r. ru_set_id r \<noteq> setID) ?t = filter (\<lambda>r. ru_set_id r \<noteq> setID) (t_rules db)"
    unfolding row by (rule same(2))
  ultimately show ?thesis using r by auto
qed

definition two_rules :: tables where
  "two_rules = initial_tables\<lparr>
     t_rule_sets := [zero_rule_set\<lparr>rs_id := ''s'', rs_name := ''set''\<rparr>],
     t_rules := [zero_rule\<lparr>ru_id := ''a'', ru_set_id := ''s'', ru_match_kind := MatchGeosite, ru_action_kind := ActionDirect\<rparr>,
                 zero_rule\<lparr>ru_id := ''b'', ru_set_id := ''s'', ru_match_kind := MatchGeoIP, ru_action_kind := ActionDirect,
                   ru_position := 1\<rparr>]\<rparr>"

lemma two_rules_ok: "db_ok two_rules"
  using initial_tables_ok
  by (simp add: db_ok_def schema_ok_def targets_ok_def two_rules_def rules_ok_def members_ok_def zero_rule_set_def
      zero_rule_def rule_check_def target_ok_def initial_tables_def)

theorem reorder_permutation_witness:
  "\<exists>db'. ReorderRules ''s'' [''b'', ''a''] two_rules = Inr db' \<and> map ru_id (ListRules ''s'' db') = [''b'', ''a'']"
  using reorder_permutation[OF two_rules_ok, of "''s''" "[''b'', ''a'']"]
  by (auto simp: two_rules_def rules_of_def zero_rule_def zero_rule_set_def)

subsection \<open>Deleting a node\<close>

lemma members_of_filter: "members_of (filter (\<lambda>m. mr_node m \<noteq> i) ms) g = filter (\<lambda>j. j \<noteq> i) (members_of ms g)"
  by (simp add: members_of_def filter_map comp_def filter_sort conj_commute)

lemma drop_node:
  assumes "unique_key n_id (t_nodes db)" "i \<in> node_ids db"
  shows "drop_nodes (\<lambda>m. n_id m = i) db = db\<lparr>t_nodes := filter (\<lambda>n. n_id n \<noteq> i) (t_nodes db),
    t_members := filter (\<lambda>m. mr_node m \<noteq> i) (t_members db),
    t_deploys := map (\<lambda>d. if dr_node d = Some i then d\<lparr>dr_node := None\<rparr> else d) (t_deploys db)\<rparr>"
proof -
  have gone: "n_id ` set (filter (\<lambda>m. n_id m = i) (t_nodes db)) = {i}" using assms(2) by auto
  have deploys: "(\<lambda>d. case dr_node d of Some j \<Rightarrow> if j \<in> {i} then d\<lparr>dr_node := None\<rparr> else d | None \<Rightarrow> d) =
      (\<lambda>d. if dr_node d = Some i then d\<lparr>dr_node := None\<rparr> else d)"
    by (auto simp: fun_eq_iff split: option.split)
  show ?thesis unfolding drop_nodes_def gone Let_def deploys by (simp add: tbl_delete_def)
qed

text \<open>
  Deleting a node leaves no reference to it: the groups lose it and keep the order of their
  other members, no rule and no deployment names it, and the rules that did (as many as reported)
  go to the default outbound.
\<close>

theorem delete_node_clean:
  assumes "db_ok db" "DeleteNode now i db = Inr (db', n)"
  shows "GetNode i db' = Inl NotFound \<and> ListNodes db' = filter (\<lambda>m. n_id m \<noteq> i) (ListNodes db) \<and>
    ListGroups db' = map (\<lambda>g. g\<lparr>g_member_ids := filter (\<lambda>j. j \<noteq> i) (g_member_ids g)\<rparr>) (ListGroups db) \<and>
    (\<forall>d\<in>set (t_deploys db'). dr_node d \<noteq> Some i) \<and> length (t_rules db') = length (t_rules db) \<and>
    (\<forall>k < length (t_rules db). case t_rules db ! k of r \<Rightarrow>
       if ru_action_kind r = ActionNode \<and> ru_action_ref r = i
       then t_rules db' ! k = r\<lparr>ru_action_kind := ActionProxy, ru_action_ref := [], ru_updated_at := now\<rparr>
       else t_rules db' ! k = r) \<and>
    n = int (length (filter (\<lambda>r. ru_action_kind r = ActionNode \<and> ru_action_ref r = i) (t_rules db)))"
proof -
  let ?db = "db\<lparr>t_rules := retarget now ActionNode i (t_rules db)\<rparr>"
  have n: "n = retargeted ActionNode i (t_rules db)" and db': "db' = drop_nodes (\<lambda>m. n_id m = i) ?db"
    and found: "rows_affected (\<lambda>m. n_id m = i) (t_nodes db) \<noteq> 0"
    using assms(2) by (auto simp: DeleteNode_def)
  have "unique_key n_id (t_nodes ?db)" "i \<in> node_ids ?db"
    using assms(1) found by (auto simp: db_ok_def schema_ok_def nodes_ok_def rows_affected_0)
  note eq = drop_node[OF this]
  have tg: "t_groups db' = t_groups db" by (simp add: db' eq)
  have groups: "group_of db' g = (group_of db g)\<lparr>g_member_ids := filter (\<lambda>j. j \<noteq> i) (g_member_ids (group_of db g))\<rparr>" for g
    by (simp add: db' eq group_of_def members_of_filter)
  have "GetNode i db' = Inl NotFound"
    by (simp add: db' eq GetNode_def) (auto simp: tbl_get_def find_None_iff split: option.split dest!: find_SomeD)
  moreover have "ListGroups db' = map (\<lambda>g. g\<lparr>g_member_ids := filter (\<lambda>j. j \<noteq> i) (g_member_ids g)\<rparr>) (ListGroups db)"
    using tg by (simp add: ListGroups_def groups)
  moreover have "ListNodes db' = filter (\<lambda>m. n_id m \<noteq> i) (ListNodes db)"
    by (simp add: db' eq ListNodes_def filter_sort)
  moreover have "\<forall>d\<in>set (t_deploys db'). dr_node d \<noteq> Some i" by (auto simp: db' eq)
  moreover have "t_rules db' = retarget now ActionNode i (t_rules db)" by (simp add: db' eq)
  ultimately show ?thesis
    by (simp add: n retarget_def retargeted_def tbl_update_def rows_affected_def)
qed

definition example_row :: node_row where
  "example_row = \<lparr>n_id = ''n'', n_name = ''node'', n_protocol = ProtocolSocks, n_address = ''192.0.2.1'', n_port = 1080,
     n_params = ''{}'', n_credential = [], n_enabled = True, n_is_default = False, n_latency_ms = None,
     n_created_at = zero_time, n_updated_at = zero_time, nr_cred = None\<rparr>"

definition routed_node :: tables where
  "routed_node = two_rules\<lparr>
     t_nodes := [example_row],
     t_rules := t_rules two_rules @ [zero_rule\<lparr>ru_id := ''c'', ru_set_id := ''s'', ru_match_kind := MatchDomain,
       ru_action_kind := ActionNode, ru_action_ref := ''n''\<rparr>]\<rparr>"

lemma routed_node_ok: "db_ok routed_node"
  using initial_tables_ok
  by (simp add: db_ok_def schema_ok_def targets_ok_def routed_node_def two_rules_def example_row_def nodes_ok_def
      node_check_def protocol_known_def rules_ok_def members_ok_def deploys_ok_def zero_rule_set_def
      zero_rule_def rule_check_def target_ok_def initial_tables_def)

theorem delete_node_clean_witness:
  "\<exists>db'. DeleteNode 9 ''n'' routed_node = Inr (db', 1) \<and> ListNodes db' = [] \<and>
     t_rules db' ! 2 = (t_rules routed_node ! 2)\<lparr>ru_action_kind := ActionProxy, ru_action_ref := [], ru_updated_at := 9\<rparr>"
proof -
  obtain db' n where d: "DeleteNode 9 ''n'' routed_node = Inr (db', n)"
    by (simp add: DeleteNode_def routed_node_def example_row_def affectedOne_def rows_affected_def)
  from delete_node_clean[OF routed_node_ok d] have
    "ListNodes db' = filter (\<lambda>m. n_id m \<noteq> ''n'') (ListNodes routed_node)"
    "\<forall>k < length (t_rules routed_node). case t_rules routed_node ! k of r \<Rightarrow>
       if ru_action_kind r = ActionNode \<and> ru_action_ref r = ''n''
       then t_rules db' ! k = r\<lparr>ru_action_kind := ActionProxy, ru_action_ref := [], ru_updated_at := 9\<rparr>
       else t_rules db' ! k = r"
    "n = int (length (filter (\<lambda>r. ru_action_kind r = ActionNode \<and> ru_action_ref r = ''n'') (t_rules routed_node)))"
    by blast+
  then show ?thesis using d
    by (auto simp: routed_node_def two_rules_def zero_rule_def example_row_def ListNodes_def dest!: spec[of _ 2])
qed

section \<open>The built-in rule set\<close>

text \<open>
  \<open>EnsureBuiltinRuleSet\<close>: whatever the start finds, afterwards there is exactly one built-in rule
  set, it comes first, and the next start changes nothing.
\<close>

lemma foldl_min: "foldl min (a::int) xs = a \<longleftrightarrow> (\<forall>x\<in>set xs. a \<le> x)"
proof -
  have "foldl min a xs = Min (set (a # xs))" for xs
  proof (induction xs rule: rev_induct)
    case (snoc x xs)
    have "set (a # xs @ [x]) = insert x (set (a # xs))" by auto
    then show ?case using snoc by (simp only: Min_insert[of "set (a # xs)"] foldl_append) (simp add: min.commute)
  qed simp
  then show ?thesis by (auto simp: Min_eq_iff)
qed

lemma find_filter: "filter P xs = x # ys \<Longrightarrow> find P xs = Some x"
  by (induction xs) (auto split: if_splits)

text \<open>Renumbering is a numbering of the rule sets by their display order.\<close>

lemma renumberRuleSets_eq:
  "renumberRuleSets db = db\<lparr>t_rule_sets := sets.renumber
     (zip (map rs_id (ListRuleSets db)) [0..int (length (map rs_id (ListRuleSets db))) - 1]) (t_rule_sets db)\<rparr>"
proof -
  have "fold (\<lambda>(p, i) db. db\<lparr>t_rule_sets := tbl_update (\<lambda>s. rs_id s = i) (\<lambda>s. s\<lparr>rs_position := p\<rparr>) (t_rule_sets db)\<rparr>) (zip ps ids) db
      = db\<lparr>t_rule_sets := sets.renumber (zip ids ps) (t_rule_sets db)\<rparr>" if "length ps = length ids" for ps ids db
    using that by (induction ps ids arbitrary: db rule: list_induct2) (simp_all add: sets.renumber_def)
  from this[of "[0..int (length (map rs_id (ListRuleSets db))) - 1]" "map rs_id (ListRuleSets db)"] show ?thesis
    by (simp add: renumberRuleSets_def numbered_def)
qed

lemma builtin_renumbered:
  "map rs_id (filter rs_builtin (sets.renumber ps t)) = map rs_id (filter rs_builtin t)"
proof -
  have "map rs_id (filter rs_builtin (map h t)) = map rs_id (filter rs_builtin t)"
    if "\<And>s. rs_builtin (h s) = rs_builtin s" "\<And>s. rs_id (h s) = rs_id s" for h
    using that by (induction t) auto
  then show ?thesis unfolding sets.renumber_rows by this (auto split: option.split)
qed

text \<open>A state in order: one built-in set, at the least position.\<close>

definition pinned :: "tables \<Rightarrow> bool" where
  "pinned db \<longleftrightarrow> (\<exists>b. filter rs_builtin (t_rule_sets db) = [b] \<and> rs_id b \<noteq> [] \<and>
     (\<forall>s\<in>set (t_rule_sets db). rs_position b \<le> rs_position s))"

lemma ListRuleSets_head:
  assumes "filter rs_builtin (t_rule_sets db) = [b]"
  shows "\<exists>rest. ListRuleSets db = b # rest"
proof -
  have "filter rs_builtin (ListRuleSets db) = [b]"
    using assms by (simp add: ListRuleSets_def filter_sort)
  then obtain s rest where l: "ListRuleSets db = s # rest" by (cases "ListRuleSets db") auto
  have "sorted (map (\<lambda>s. (\<not> rs_builtin s, rs_position s, rs_created_at s)) (ListRuleSets db))"
    by (simp add: ListRuleSets_def)
  then have first: "\<forall>x\<in>set rest. (\<not> rs_builtin s, rs_position s, rs_created_at s) \<le> (\<not> rs_builtin x, rs_position x, rs_created_at x)"
    using l by simp
  have "rs_builtin s"
  proof (rule ccontr)
    assume "\<not> rs_builtin s"
    moreover from this have "b \<in> set rest" "rs_builtin b"
      using \<open>filter rs_builtin (ListRuleSets db) = [b]\<close> l by (auto simp: filter_eq_Cons_iff)
    ultimately show False using first by (auto simp: less_eq_prod_simp)
  qed
  then show ?thesis using \<open>filter rs_builtin (ListRuleSets db) = [b]\<close> l by simp
qed

lemma renumber_pins:
  assumes u: "unique_key rs_id (t_rule_sets db)" and b: "filter rs_builtin (t_rule_sets db) = [b]" "rs_id b \<noteq> []"
  shows "pinned (renumberRuleSets db)"
proof -
  let ?ids = "map rs_id (ListRuleSets db)"
  let ?t = "sets.renumber (zip ?ids [0..int (length ?ids) - 1]) (t_rule_sets db)"
  have d: "distinct ?ids" using u by (simp add: ListRuleSets_def unique_key_sort)
  obtain rest where rest: "ListRuleSets db = b # rest" using ListRuleSets_head[OF b(1)] by blast
  have "map rs_id (filter rs_builtin ?t) = [rs_id b]" using b(1) by (simp only: builtin_renumbered) simp
  then obtain b' where b': "filter rs_builtin ?t = [b']" "rs_id b' = rs_id b" by auto
  have pos: "rs_position s = int n" if "s \<in> set ?t" "n < length ?ids" "rs_id s = ?ids ! n" for s n
    using sets.renumber_pos[OF d that] .
  have "b' \<in> set ?t" using b'(1) by (metis filter_is_subset list.set_intros(1) subsetD)
  then have "rs_position b' = 0" using pos[of b' 0] rest b'(2) by simp
  moreover have "0 \<le> rs_position s" if s: "s \<in> set ?t" for s
  proof -
    have "rs_id s \<in> set (map rs_id ?t)" using s by (simp only: set_map imageI)
    then have "rs_id s \<in> set (map rs_id (t_rule_sets db))" by (simp only: sets.renumber_keys)
    then have "rs_id s \<in> set ?ids" by (simp add: ListRuleSets_def)
    then obtain n where "n < length ?ids" "rs_id s = ?ids ! n" by (metis in_set_conv_nth)
    then show ?thesis using pos[OF s] by simp
  qed
  ultimately show ?thesis using b b' by (auto simp: pinned_def renumberRuleSets_eq)
qed

lemma pinned_stable:
  assumes "pinned db"
  shows "EnsureBuiltinRuleSet now uuid uuids ''1'' db = Inr (db, ''1'')"
proof -
  obtain b where b: "filter rs_builtin (t_rule_sets db) = [b]" "rs_id b \<noteq> []"
      "\<forall>s\<in>set (t_rule_sets db). rs_position b \<le> rs_position s"
    using assms by (auto simp: pinned_def)
  then have "find rs_builtin (t_rule_sets db) = Some b" by (auto intro: find_filter)
  moreover have "foldl min (rs_position b) (map rs_position (t_rule_sets db)) = rs_position b"
    using b(3) by (simp add: foldl_min)
  ultimately show ?thesis using b by (simp add: EnsureBuiltinRuleSet_def BuiltinRuleSet_of_def pinBuiltinFirst_def)
qed

lemma SeedBuiltinRules_frame: "SeedBuiltinRules now uuids i db = Inr db' \<Longrightarrow> t_rule_sets db' = t_rule_sets db"
  unfolding SeedBuiltinRules_def
  by (erule fold_outcome_invariant[where I = "\<lambda>d. t_rule_sets d = t_rule_sets db"])
    (auto simp: seed_rule_def InsertRule_def Let_def split: if_splits sum.splits)

lemma filter_one_update:
  assumes "unique_key rs_id t" "s \<in> set t" "\<forall>x\<in>set t. \<not> rs_builtin x"
  shows "filter rs_builtin (tbl_update (\<lambda>x. rs_id x = rs_id s) (\<lambda>x. x\<lparr>rs_builtin := True\<rparr>) t) = [s\<lparr>rs_builtin := True\<rparr>]"
  using assms
proof (induction t)
  case (Cons x t)
  show ?case
  proof (cases "x = s")
    case True
    then have "\<forall>y\<in>set t. rs_id y \<noteq> rs_id s" using Cons.prems(1) by (auto simp: image_iff)
    then show ?thesis using True Cons.prems(3) by (auto simp: tbl_update_def filter_empty_conv)
  next
    case False
    then have "s \<in> set t" "rs_id x \<noteq> rs_id s" using Cons.prems by (auto simp: image_iff)
    then show ?thesis using Cons by (simp add: tbl_update_def)
  qed
qed simp

text \<open>What the adoption leaves: the one built-in set, whose identifier it returns.\<close>

lemma adopt_builtin_one:
  assumes ok: "unique_key rs_id (t_rule_sets db)" "length (filter rs_builtin (t_rule_sets db)) \<le> 1"
      "[] \<notin> rule_set_ids db" "uuid \<noteq> []"
    and a: "adopt_builtin now uuid (BuiltinRuleSet_of db) db = Inr (i, db')"
  shows "unique_key rs_id (t_rule_sets db') \<and> (\<exists>b. filter rs_builtin (t_rule_sets db') = [b] \<and> rs_id b \<noteq> [])"
proof (cases "filter rs_builtin (t_rule_sets db)")
  case Nil
  then have none: "\<forall>x\<in>set (t_rule_sets db). \<not> rs_builtin x" by (simp add: filter_empty_conv)
  have i: "BuiltinRuleSet_of db = []" using Nil by (simp add: BuiltinRuleSet_of_def)
  show ?thesis
  proof (cases "sort_key (\<lambda>s. (rs_position s, rs_created_at s)) (filter (\<lambda>s. rs_name s = BuiltinRuleSetName) (t_rule_sets db))")
    case Nil
    then show ?thesis using a ok none i \<open>filter rs_builtin (t_rule_sets db) = []\<close>
      by (auto simp: adopt_builtin_def InsertBuiltinRuleSet_def tbl_get_None split: if_splits)
  next
    case (Cons s rest)
    have "s \<in> set (sort_key (\<lambda>s. (rs_position s, rs_created_at s)) (filter (\<lambda>s. rs_name s = BuiltinRuleSetName) (t_rule_sets db)))"
      using Cons by simp
    then have s: "s \<in> set (t_rule_sets db)" by simp
    have "t_rule_sets db' = tbl_update (\<lambda>x. rs_id x = rs_id s) (\<lambda>x. x\<lparr>rs_builtin := True\<rparr>) (t_rule_sets db)"
      using a Cons i by (auto simp: adopt_builtin_def)
    then show ?thesis using filter_one_update[OF ok(1) s none] ok(1,3) s by (auto simp: keys_update image_iff)
  qed
next
  case (Cons b rest)
  then have b: "filter rs_builtin (t_rule_sets db) = [b]" using ok(2) by simp
  then have "b \<in> set (t_rule_sets db)" by (metis filter_is_subset list.set_intros(1) subsetD)
  then have "rs_id b \<noteq> []" using ok(3) by (auto simp: image_iff)
  moreover have "BuiltinRuleSet_of db = rs_id b" using b by (simp add: BuiltinRuleSet_of_def)
  ultimately show ?thesis using a ok(1) b by (auto simp: adopt_builtin_def)
qed

text \<open>
  After \<open>EnsureBuiltinRuleSet\<close>, whether it found the built-in set, adopted a set of that name or
  created one, there is exactly one built-in set, no set has a lower position, it is listed
  first, and running it again changes nothing.
\<close>

theorem ensure_builtin_once:
  assumes "db_ok db" "length (filter rs_builtin (t_rule_sets db)) \<le> 1" "[] \<notin> rule_set_ids db" "uuid \<noteq> []"
    and e: "EnsureBuiltinRuleSet now uuid uuids seeded db = Inr (db', seeded')"
  shows "\<exists>b rest. filter rs_builtin (t_rule_sets db') = [b] \<and> (\<forall>s\<in>set (t_rule_sets db'). rs_position b \<le> rs_position s) \<and>
    ListRuleSets db' = b # rest \<and> EnsureBuiltinRuleSet now2 uuid2 uuids2 seeded' db' = Inr (db', seeded')"
proof -
  have u: "unique_key rs_id (t_rule_sets db)" using assms(1) by (simp add: db_ok_def schema_ok_def)
  have pin: "pinned db'" if p: "pinBuiltinFirst db = Inr db'" and i: "BuiltinRuleSet_of db \<noteq> []"
  proof -
    obtain b where b: "filter rs_builtin (t_rule_sets db) = [b]"
      using i assms(2) by (cases "filter rs_builtin (t_rule_sets db)") (auto simp: BuiltinRuleSet_of_def)
    have id: "rs_id b \<noteq> []" using i b by (simp add: BuiltinRuleSet_of_def)
    show ?thesis using p b id renumber_pins[OF u b id] find_filter[OF b]
      by (auto simp: pinBuiltinFirst_def pinned_def foldl_min eq_commute[of "rs_position b"] split: if_splits)
  qed
  have renum: "pinned (renumberRuleSets db2)"
    if a: "adopt_builtin now uuid (BuiltinRuleSet_of db) db = Inr (i, db1)" and t: "t_rule_sets db2 = t_rule_sets db1" for i db1 db2
    using adopt_builtin_one[OF u assms(2,3,4) a] renumber_pins[of db2] t by auto
  have "pinned db' \<and> seeded' = ''1''"
    using e pin renum by (auto simp: EnsureBuiltinRuleSet_def Let_def dest!: SeedBuiltinRules_frame split: if_splits)
  then show ?thesis using pinned_stable ListRuleSets_head[of db'] by (fastforce simp: pinned_def)
qed

theorem ensure_builtin_once_witness:
  "\<exists>db'. EnsureBuiltinRuleSet 1 ''b'' [''r1'', ''r2'', ''r3''] [] two_rules = Inr (db', ''1'') \<and>
     EnsureBuiltinRuleSet 2 ''c'' [] ''1'' db' = Inr (db', ''1'')"
proof -
  obtain db' where e: "EnsureBuiltinRuleSet 1 ''b'' [''r1'', ''r2'', ''r3''] [] two_rules = Inr (db', ''1'')"
    by (simp add: two_rules_def EnsureBuiltinRuleSet_def BuiltinRuleSet_of_def adopt_builtin_def zero_rule_set_def
        BuiltinRuleSetName_def InsertBuiltinRuleSet_def tbl_get_def SeedBuiltinRules_def BuiltinRules_def builtin_rule_def
        seed_rule_def zero_rule_def rows_affected_def InsertRule_def rule_check_def)
  then show ?thesis
    using ensure_builtin_once[OF two_rules_ok _ _ _ e, of 2 "''c''" "[]"]
    by (auto simp: two_rules_def zero_rule_set_def)
qed

end
