(* ===== verification/ApiProps.thy ===== *)
theory ApiProps
  imports ApiInv StoreProps RouteProps
begin

text \<open>
  Properties of the desired-state API: what every serial history of requests keeps, what a revert
  restores and what it does not, the race between a rule and the deletion of its target, and the
  guards of the inputs.
\<close>

definition fresh_api :: api_state where
  "fresh_api = \<lparr>ap_store = initial_store, ap_cache = [], ap_published = [], ap_notified = 0, ap_kicked = 0\<rparr>"

lemma reachable_consistent: "api_step\<^sup>*\<^sup>* fresh_api s \<Longrightarrow> consistent s"
  by (induction rule: rtranclp_induct) (simp_all add: fresh_api_def initial_store_ok api_step_consistent)




definition demo_env :: "char \<Rightarrow> api_env" where
  "demo_env c = \<lparr>av_now = 1, av_uuid = (\<lambda>n. [c, char_of (48 + n)]), av_commit = None, av_actor = ''admin'',
     av_read = (\<lambda>_. None), av_sources = no_sources\<rparr>"

definition one_rule_set :: api_state where
  "one_rule_set = snd (createRuleSet (demo_env CHR ''a'') (Inr \<lparr>rsi_name = ''mine'', rsi_enabled = None\<rparr>) fresh_api)"

lemma one_rule_set_reachable: "api_step\<^sup>*\<^sup>* fresh_api one_rule_set"
  unfolding one_rule_set_def by (rule r_into_rtranclp) (rule api_step.intros)



subsection \<open>Reverts\<close>



text \<open>
  C25. A revert loses state: afterwards no rule set is built in, so that the built-in set can be
  deleted; no deployment knows its node; and sniff override, DNS tap, ECS subnet, forward rules
  and IPv6 mode stay as they were before the revert, whatever the snapshot holds.
\<close>

theorem revert_incomplete:
  assumes "api_step\<^sup>*\<^sup>* fresh_api s" "RevertTo now uuid commit i actor (ap_store s) = ((Inr g, source), s')"
  shows "filter rs_builtin (t_rule_sets (ss_tables s')) = [] \<and>
    (\<forall>j\<in>rule_set_ids (ss_tables s'). \<exists>db. DeleteRuleSet j (ss_tables s') = Inr db) \<and>
    (\<forall>d\<in>set (t_deploys (ss_tables s')). dr_node d = None) \<and>
    nc_sniff_override (t_network (ss_tables s')) = nc_sniff_override (t_network (ap_tables s)) \<and>
    (case t_dns (ss_tables s') of d \<Rightarrow> case t_dns (ap_tables s) of b \<Rightarrow>
       dc_tap d = dc_tap b \<and> dc_ecs_subnet d = dc_ecs_subnet b \<and> dc_forward_rules d = dc_forward_rules b \<and>
       dc_ipv6_mode d = dc_ipv6_mode b)"
proof -
  have ok: "store_ok (ap_store s)" using assms(1) by (rule reachable_consistent)
  obtain now0 db0 where t: "ss_tables s' = StoreRevert.restored now0 (captureDesired db0) (t_network db0) (ap_tables s)"
    using RevertTo_success[OF ok assms(2)] by blast
  have none: "filter rs_builtin (t_rule_sets (ss_tables s')) = []"
    by (simp add: t restored_def filter_empty_conv restored_rule_set_def)
  have "\<exists>db. DeleteRuleSet j (ss_tables s') = Inr db" if "j \<in> rule_set_ids (ss_tables s')" for j
    using that none by (auto simp: DeleteRuleSet_def affectedOne_def rows_affected_0 filter_empty_conv
        split: option.split dest: tbl_get_Some)
  then show ?thesis using none
    by (simp add: t restored_def restore_network_def restore_dns_def Let_def)
qed

theorem revert_incomplete_witness:
  "\<exists>s'. snd (RevertTo 7 ''z'' None ''a0'' ''admin'' (ap_store one_rule_set)) = s' \<and>
     filter rs_builtin (t_rule_sets (ss_tables s')) = []"
proof -
  have "fst (RevertTo 7 ''z'' None ''a0'' ''admin'' (ap_store one_rule_set)) = (Inr 2, 1)" by code_simp
  then obtain s' where "RevertTo 7 ''z'' None ''a0'' ''admin'' (ap_store one_rule_set) = ((Inr 2, 1), s')"
    by (cases "RevertTo 7 ''z'' None ''a0'' ''admin'' (ap_store one_rule_set)") auto
  from revert_incomplete[OF one_rule_set_reachable this] this show ?thesis by simp
qed

subsection \<open>The race between a rule and its target\<close>

lemma DeleteNode_gone: "DeleteNode now i db = Inr (db', n) \<Longrightarrow> i \<notin> node_ids db'"
  by (auto simp: DeleteNode_def drop_nodes_def tbl_delete_def Let_def)

lemma insert_rules_keeps:
  "fold_outcome (InsertRule now) rs db = Inr db' \<Longrightarrow> node_ids db' = node_ids db \<and>
     (\<forall>r\<in>set rs. \<exists>r'\<in>set (t_rules db'). ru_id r' = ru_id r \<and> ru_action_kind r' = ru_action_kind r \<and> ru_action_ref r' = ru_action_ref r) \<and>
     set (t_rules db) \<subseteq> set (t_rules db')"
proof (induction rs arbitrary: db)
  case (Cons r rs)
  then obtain db1 where 1: "InsertRule now r db = Inr db1" "fold_outcome (InsertRule now) rs db1 = Inr db'" by auto
  then have "\<exists>r'\<in>set (t_rules db1). ru_id r' = ru_id r \<and> ru_action_kind r' = ru_action_kind r \<and> ru_action_ref r' = ru_action_ref r"
      "set (t_rules db) \<subseteq> set (t_rules db1)"
    by (auto simp: InsertRule_def split: if_splits)
  then show ?case using Cons.IH[OF 1(2)] InsertRule_frame[OF 1(1)] by (auto; blast)
qed simp

text \<open>
  C24. \<open>createRules\<close> checks the target of a rule before its transaction.  When another request
  deletes the node in between, the write still succeeds and the stored rule names a node that
  does not exist.
\<close>

theorem dangling_rule_race:
  assumes "consistent s" "parse_rules E (ap_tables s) i = Inr rs" "r \<in> set rs" "ru_action_kind r = ActionNode"
    and del: "deleteNode E' (ru_action_ref r) s = (rep1, s1)" "rp_status rep1 = 200"
    and ins: "insert_rules E i rs s1 = (rep2, s2)" "rp_status rep2 = 201"
  shows "\<exists>r'\<in>set (t_rules (ap_tables s2)). ru_id r' = ru_id r \<and> ru_action_kind r' = ActionNode \<and>
    ru_action_ref r' \<notin> n_id ` set (ListNodes (ap_tables s2))"
proof -
  let ?del = "\<lambda>db. bind_outcome (DeleteNode (av_now E') (ru_action_ref r) db) (\<lambda>(db', _). Inr db')"
  have ok: "db_ok (ap_tables s)" "ledger_ok (ap_store s)" using assms(1) by (simp_all add: store_ok_def)
  have "consistent s1" using delete_handlers_ok(1)[OF assms(1), of E' "ru_action_ref r"] del(1) by simp
  then have ok1: "ledger_ok (ap_store s1)" by (simp add: store_ok_def)
  have "\<exists>n. DeleteNode (av_now E') (ru_action_ref r) (ap_tables s) = Inr (ap_tables s1, n)"
    using mutate_reply_success[OF ok(2), of E' _ ?del _ rep1 s1] del by (auto simp: deleteNode_def delete_reply_def)
  then have gone: "ru_action_ref r \<notin> node_ids (ap_tables s1)"
    by (auto dest: DeleteNode_gone)
  have "fold_outcome (InsertRule (av_now E)) rs (ap_tables s1) = Inr (ap_tables s2)"
    using mutate_reply_success[OF ok1, of E _ "fold_outcome (InsertRule (av_now E)) rs" _ rep2 s2] ins
    by (auto simp: insert_rules_def)
  note kept = insert_rules_keeps[OF this]
  obtain r' where r': "r' \<in> set (t_rules (ap_tables s2))" "ru_id r' = ru_id r"
      "ru_action_kind r' = ru_action_kind r" "ru_action_ref r' = ru_action_ref r"
    using bspec[OF kept[THEN conjunct2, THEN conjunct1] assms(3)] by blast
  have "n_id ` set (ListNodes (ap_tables s2)) = node_ids (ap_tables s1)"
    using kept by (auto simp: ListNodes_def)
  then show ?thesis using r' gone assms(4) by (intro bexI[of _ r']) auto
qed


definition one_node :: api_state where
  "one_node = snd (createNode (\<lambda>_. Some True) None (demo_env CHR ''b'')
     (Inr \<lparr>noi_name = ''hk'', noi_protocol = ''http'', noi_address = ''10.0.0.9'', noi_port = 80, noi_params = [],
           noi_enabled = None, noi_credential = None\<rparr>) one_rule_set)"

definition race_input :: rule_input where
  "race_input = \<lparr>rui_set_id = ''a1'', rui_match_kind = ''geosite'', rui_match_value = ''cn'',
     rui_action_kind = ''node'', rui_action_ref = ''b1'', rui_enabled = None, rui_remark = []\<rparr>"

definition race_rule :: rule where
  "race_rule = hd (case parse_rules (demo_env CHR ''d'') (ap_tables one_node) race_input of Inr rs \<Rightarrow> rs)"

lemma one_node_consistent: "consistent one_node"
  unfolding one_node_def
  by (rule api_step_consistent[OF _ reachable_consistent[OF one_rule_set_reachable]]) (rule api_step.intros)

lemma race_runs:
  "parse_rules (demo_env CHR ''d'') (ap_tables one_node) race_input = Inr [race_rule]"
  "ru_action_kind race_rule = ActionNode \<and> ru_action_ref race_rule = ''b1'' \<and> ru_id race_rule = ''d1''"
  "rp_status (fst (deleteNode (demo_env CHR ''c'') ''b1'' one_node)) = 200"
  "rp_status (fst (insert_rules (demo_env CHR ''d'') race_input [race_rule]
     (snd (deleteNode (demo_env CHR ''c'') ''b1'' one_node)))) = 201"
  by code_simp+

theorem dangling_rule_race_witness:
  "\<exists>s2. s2 = snd (insert_rules (demo_env CHR ''d'') race_input [race_rule]
       (snd (deleteNode (demo_env CHR ''c'') ''b1'' one_node))) \<and>
     (\<exists>r\<in>set (t_rules (ap_tables s2)). ru_id r = ''d1'' \<and> ru_action_kind r = ActionNode \<and>
        ru_action_ref r \<notin> n_id ` set (ListNodes (ap_tables s2)))"
  using dangling_rule_race[OF one_node_consistent race_runs(1), of race_rule "demo_env CHR ''c''"] race_runs(2-4)
  by (metis list.set_intros(1) prod.collapse)

end
