(* ===== verification/ValidProps.thy ===== *)
theory ValidProps
  imports ApiProps
begin

text \<open>
  The inputs of the desired-state API: every row a handler has validated is one the schema accepts,
  and a switch to a mode that publishes routes passes the preflight.
\<close>

subsection \<open>Validated rows\<close>

lemma bind_Inr: "bind_outcome r f = Inr y \<longleftrightarrow> (\<exists>x. r = Inr x \<and> f x = Inr y)"
  by (cases r) auto

















definition sample_network :: network_input where
  "sample_network = \<lparr>ni_mode = ''b'', ni_management_iface = ''eth0'', ni_service_iface = ''eth1'', ni_fakeip_pool = [],
     ni_tproxy_port = 0, ni_lan_default_policy = [], ni_ospf_push_batch = 7, ni_ospf_push_interval = 0,
     ni_ospf_resolve_workers = 99, ni_ospf_publish_allow = [], ni_node_failover_mode = [], ni_sniff_override = False\<rparr>"



subsection \<open>Switching the mode\<close>

text \<open>
  The settings handler only reaches a mode that publishes routes, from another mode, when the
  preflight of that mode passes on the state it found; otherwise nothing changes.
\<close>

theorem mode_switch_preflight:
  assumes "consistent s" "putNetwork E hosts body s = (rep, s')"
    "nc_mode (t_network (ap_tables s')) \<noteq> nc_mode (t_network (ap_tables s))"
    "nc_mode (t_network (ap_tables s')) \<noteq> ModeA"
  shows "\<exists>i c. body = Inr i \<and> network_validate i = Inr c \<and> rp_status rep = 200 \<and>
    t_network (ap_tables s') = c\<lparr>nc_updated_at := av_now E\<rparr> \<and>
    pr_ok (Preflight (load_tables s\<lparr>s_protected_hosts := hosts, s_network := c\<rparr>) (av_sources E) (nc_mode c))"
proof -
  have ok: "ledger_ok (ap_store s)" using assms(1) by (simp add: store_ok_def)
  obtain i c where c: "body = Inr i" "network_validate i = Inr c"
    using assms(2,3) by (auto simp: putNetwork_def bind_Inr split: sum.splits)
  obtain cur where cur: "cur = t_network (ap_tables s)" by simp
  let ?fn = "UpdateNetworkConfig (av_now E) c" and ?k = "\<lambda>g s'. writeJSON 200 (PNetwork (t_network (ap_tables s')) g)"
  let ?snap = "load_tables s\<lparr>s_protected_hosts := hosts\<rparr>"
  let ?pre = "pr_ok (Preflight (?snap\<lparr>s_network := c\<rparr>) (av_sources E) (nc_mode c))"
  have saved: "(\<exists>sm. mutate_reply E sm ?fn ?k s = (rep, s')) \<and> (nc_mode c = ModeA \<or> nc_mode c = nc_mode cur \<or> ?pre)"
    using assms(2,3) c cur by (auto simp: putNetwork_def api_read_def Let_def split: if_splits option.splits)
  then obtain sm where sm: "mutate_reply E sm ?fn ?k s = (rep, s')" by blast
  obtain g where "?fn (ap_tables s) = Inr (ap_tables s')" "rep = ?k g s'"
    using mutate_reply_outcome[OF ok sm] assms(3) by auto
  then have "ap_tables s' = ap_tables s\<lparr>t_network := c\<lparr>nc_updated_at := av_now E\<rparr>\<rparr>" "rp_status rep = 200"
    by (auto simp: UpdateNetworkConfig_def writeJSON_def split: if_splits)
  then show ?thesis using saved c cur assms(3,4) by auto
qed



lemma mode_switch_runs:
  "(case putNetwork (demo_env CHR ''e'') [] (Inr sample_network) one_node of
     (rep, s') \<Rightarrow> rp_status rep = 200 \<and> nc_mode (t_network (ap_tables s')) = ModeB) \<and>
   nc_mode (t_network (ap_tables one_node)) = ModeA"
  by code_simp

theorem mode_switch_preflight_witness:
  "\<exists>rep s'. putNetwork (demo_env CHR ''e'') [] (Inr sample_network) one_node = (rep, s') \<and> rp_status rep = 200"
proof -
  obtain rep s' where r: "putNetwork (demo_env CHR ''e'') [] (Inr sample_network) one_node = (rep, s')" by fastforce
  then have "nc_mode (t_network (ap_tables s')) \<noteq> nc_mode (t_network (ap_tables one_node))"
    "nc_mode (t_network (ap_tables s')) \<noteq> ModeA" using mode_switch_runs by auto
  from mode_switch_preflight[OF one_node_consistent r this] show ?thesis using r by blast
qed

end
