(* ===== verification/GeoWire.thy ===== *)
theory GeoWire
  imports GeoData Errors
begin

text \<open>
  \<open>internal/geo/geo.go\<close>, decoding: the walk over the protobuf messages of \<open>geosite.dat\<close> and
  \<open>geoip.dat\<close>.  The functions of \<open>protowire\<close> are an argument.  A loop of the code is a partial
  function whose value \<open>None\<close> means that the call does not come back, because the loop does not
  end or a slice expression is out of range.
\<close>

text \<open>
  \<open>protowire\<close>: the consumers give the number of bytes read, negative for an error; the appenders
  give the bytes they add.
\<close>

record wire =
  w_tag :: "string \<Rightarrow> int \<times> int \<times> int"
  w_field :: "int \<Rightarrow> int \<Rightarrow> string \<Rightarrow> int"
  w_bytes :: "string \<Rightarrow> string \<times> int"
  w_varint :: "string \<Rightarrow> 64 word \<times> int"
  w_error :: "int \<Rightarrow> string"
  w_put_tag :: "int \<Rightarrow> int \<Rightarrow> string"
  w_put_varint :: "64 word \<Rightarrow> string"
  w_put_bytes :: "string \<Rightarrow> string"

text \<open>The wire types the code tests for.\<close>

definition VarintType :: int where "VarintType = 0"
definition BytesType :: int where "BytesType = 2"

text \<open>The documented range of the byte counts: never past the input, and a tag has a byte.\<close>

definition wire_bounded :: "wire \<Rightarrow> bool" where
  "wire_bounded W \<longleftrightarrow>
     (\<forall>s. case w_tag W s of (_, _, n) \<Rightarrow> n \<noteq> 0 \<and> n \<le> int (length s)) \<and>
     (\<forall>num typ s. w_field W num typ s \<le> int (length s)) \<and>
     (\<forall>s. snd (w_bytes W s) \<le> int (length s)) \<and> (\<forall>s. snd (w_varint W s) \<le> int (length s))"

text \<open>What is read back is what was written, whatever follows.\<close>

definition wire_round_trip :: "wire \<Rightarrow> bool" where
  "wire_round_trip W \<longleftrightarrow>
     (\<forall>num typ s. 1 \<le> num \<and> num \<le> 3 \<and> typ \<in> {VarintType, BytesType} \<longrightarrow>
        w_put_tag W num typ \<noteq> [] \<and> w_tag W (w_put_tag W num typ @ s) = (num, typ, int (length (w_put_tag W num typ)))) \<and>
     (\<forall>v s. w_bytes W (w_put_bytes W v @ s) = (v, int (length (w_put_bytes W v)))) \<and>
     (\<forall>v s. w_varint W (w_put_varint W v @ s) = (v, int (length (w_put_varint W v)))) \<and>
     (\<forall>num v s. w_field W num BytesType (w_put_bytes W v @ s) = int (length (w_put_bytes W v)))"

text \<open>\<open>data[n:]\<close>, and the step every branch of the loops ends with.\<close>

definition slice_from :: "int \<Rightarrow> string \<Rightarrow> string option" where
  "slice_from n s = (if 0 \<le> n \<and> n \<le> int (length s) then Some (drop (nat n) s) else None)"

definition advance :: "wire \<Rightarrow> int \<Rightarrow> string \<Rightarrow> (string \<Rightarrow> 'a outcome option) \<Rightarrow> 'a outcome option" where
  "advance W n msg k =
     (if n < 0 then Some (Inl (Failure (w_error W n))) else Option.bind (slice_from n msg) k)"

lemma advance_mono [partial_function_mono]:
  assumes "\<And>m. mono_option (\<lambda>f. k f m)"
  shows "mono_option (\<lambda>f. advance W n msg (k f))"
  unfolding advance_def using assms by (intro partial_function_mono)

text \<open>\<open>readStringField\<close>: the first occurrence of the field.\<close>

partial_function (option) readStringField :: "wire \<Rightarrow> int \<Rightarrow> string \<Rightarrow> string outcome option" where
  "readStringField W want msg =
     (if msg = [] then Some (Inr [])
      else (case w_tag W msg of (num, typ, n) \<Rightarrow>
        advance W n msg (\<lambda>msg.
          if num = want \<and> typ = BytesType
          then (case w_bytes W msg of (v, n) \<Rightarrow>
                  if n < 0 then Some (Inl (Failure (w_error W n))) else Some (Inr v))
          else advance W (w_field W num typ msg) msg (readStringField W want))))"

text \<open>
  \<open>splitList\<close>: the messages of field 1 by their lower-cased tag; a later message replaces an
  earlier one of the same tag.
\<close>

partial_function (option) splitList ::
  "wire \<Rightarrow> (string \<times> string) list \<Rightarrow> string \<Rightarrow> (string \<times> string) list outcome option" where
  "splitList W out data =
     (if data = [] then Some (Inr out)
      else (case w_tag W data of (num, typ, n) \<Rightarrow>
        advance W n data (\<lambda>data.
          if num \<noteq> 1 \<or> typ \<noteq> BytesType
          then advance W (w_field W num typ data) data (splitList W out)
          else (case w_bytes W data of (msg, n) \<Rightarrow>
            advance W n data (\<lambda>data.
              Option.bind (readStringField W 1 msg) (\<lambda>r. case r of
                  Inl e \<Rightarrow> Some (Inl e)
                | Inr tag \<Rightarrow>
                    if tag = [] then splitList W out data
                    else splitList W (al_put (to_lower tag) msg out) data))))))"

text \<open>\<open>DomainKind(v)\<close> reinterprets the bits of the varint.\<close>

definition kind_of :: "int \<Rightarrow> entry_kind" where
  "kind_of k = (if k = 0 then KindPlain else if k = 1 then KindRegex else if k = 2 then KindRoot
     else if k = 3 then KindFull else kindUnknown)"

record raw_entry =
  re_kind :: int
  re_value :: string
  re_attrs :: "string list"

partial_function (option) domain_loop :: "wire \<Rightarrow> raw_entry \<Rightarrow> string \<Rightarrow> raw_entry outcome option" where
  "domain_loop W e msg =
     (if msg = [] then Some (Inr e)
      else (case w_tag W msg of (num, typ, n) \<Rightarrow>
        advance W n msg (\<lambda>msg.
          if num = 1 \<and> typ = VarintType
          then (case w_varint W msg of (v, n) \<Rightarrow>
                  advance W n msg (domain_loop W (e\<lparr>re_kind := go_int v\<rparr>)))
          else if num = 2 \<and> typ = BytesType
          then (case w_bytes W msg of (v, n) \<Rightarrow>
                  advance W n msg (domain_loop W (e\<lparr>re_value := to_lower v\<rparr>)))
          else if num = 3 \<and> typ = BytesType
          then (case w_bytes W msg of (v, n) \<Rightarrow>
                  advance W n msg (\<lambda>msg. Option.bind (readStringField W 1 v) (\<lambda>r. case r of
                      Inl _ \<Rightarrow> domain_loop W e msg
                    | Inr key \<Rightarrow>
                        if key = [] then domain_loop W e msg
                        else domain_loop W (e\<lparr>re_attrs := re_attrs e @ [key]\<rparr>) msg)))
          else advance W (w_field W num typ msg) msg (domain_loop W e))))"

definition finish_entry :: "raw_entry \<Rightarrow> entry" where
  "finish_entry e = \<lparr>e_kind = kind_of (re_kind e), e_value = re_value e, e_attrs = re_attrs e\<rparr>"

definition decodeDomain :: "wire \<Rightarrow> string \<Rightarrow> entry outcome option" where
  "decodeDomain W msg =
     map_option (\<lambda>r. bind_outcome r (\<lambda>e. Inr (finish_entry e)))
       (domain_loop W \<lparr>re_kind = 0, re_value = [], re_attrs = []\<rparr> msg)"

partial_function (option) decodeGeoSite :: "wire \<Rightarrow> entry list \<Rightarrow> string \<Rightarrow> entry list outcome option" where
  "decodeGeoSite W out msg =
     (if msg = [] then Some (Inr out)
      else (case w_tag W msg of (num, typ, n) \<Rightarrow>
        advance W n msg (\<lambda>msg.
          if num \<noteq> 2 \<or> typ \<noteq> BytesType
          then advance W (w_field W num typ msg) msg (decodeGeoSite W out)
          else (case w_bytes W msg of (dm, n) \<Rightarrow>
            advance W n msg (\<lambda>msg.
              Option.bind (decodeDomain W dm) (\<lambda>r. case r of
                  Inl e \<Rightarrow> Some (Inl e)
                | Inr e \<Rightarrow>
                    if e_value e = [] then decodeGeoSite W out msg
                    else decodeGeoSite W (out @ [e]) msg))))))"

text \<open>One CIDR message: the address bytes and the length, the last occurrence of each.\<close>

partial_function (option) cidr_loop ::
  "wire \<Rightarrow> string \<Rightarrow> 64 word \<Rightarrow> string \<Rightarrow> (string \<times> 64 word) outcome option" where
  "cidr_loop W ip bits cm =
     (if cm = [] then Some (Inr (ip, bits))
      else (case w_tag W cm of (fn, ft, k) \<Rightarrow>
        advance W k cm (\<lambda>cm.
          if fn = 1 \<and> ft = BytesType
          then (case w_bytes W cm of (v, k) \<Rightarrow> advance W k cm (cidr_loop W v bits))
          else if fn = 2 \<and> ft = VarintType
          then (case w_varint W cm of (v, k) \<Rightarrow> advance W k cm (cidr_loop W ip v))
          else advance W (w_field W fn ft cm) cm (cidr_loop W ip bits))))"

text \<open>\<open>netip.AddrFromSlice\<close>: four or sixteen bytes, most significant first.\<close>

definition bytes_value :: "string \<Rightarrow> int" where
  "bytes_value s = foldl (\<lambda>n c. n * 256 + byte c) 0 s"

definition addr_from_slice :: "string \<Rightarrow> addr option" where
  "addr_from_slice s =
     (if length s = 4 then Some (V4 (word_of_int (bytes_value s)))
      else if length s = 16 then Some (V6 (word_of_int (bytes_value s)) [])
      else None)"

text \<open>The prefix of a CIDR message, if the length fits the address.\<close>

definition cidr_prefix :: "string \<Rightarrow> 64 word \<Rightarrow> prefix option" where
  "cidr_prefix ip bits =
     (case addr_from_slice ip of
        None \<Rightarrow> None
      | Some a \<Rightarrow> if go_int bits > bit_len a then None else Some (masked (prefix_from a (go_int bits))))"

partial_function (option) geoip_loop :: "wire \<Rightarrow> prefix list \<Rightarrow> string \<Rightarrow> prefix list outcome option" where
  "geoip_loop W out msg =
     (if msg = [] then Some (Inr out)
      else (case w_tag W msg of (num, typ, n) \<Rightarrow>
        advance W n msg (\<lambda>msg.
          if num \<noteq> 2 \<or> typ \<noteq> BytesType
          then advance W (w_field W num typ msg) msg (geoip_loop W out)
          else (case w_bytes W msg of (cm, n) \<Rightarrow>
            advance W n msg (\<lambda>msg.
              Option.bind (cidr_loop W [] 0 cm) (\<lambda>r. case r of
                  Inl e \<Rightarrow> Some (Inl e)
                | Inr (ip, bits) \<Rightarrow>
                    (case cidr_prefix ip bits of
                       None \<Rightarrow> geoip_loop W out msg
                     | Some p \<Rightarrow> geoip_loop W (out @ [p]) msg)))))))"

definition decodeGeoIP :: "wire \<Rightarrow> string \<Rightarrow> prefix list outcome option" where
  "decodeGeoIP W msg =
     map_option (\<lambda>r. bind_outcome r (\<lambda>ps. Inr (sort_key (\<lambda>p. (p_addr p, p_bits p)) ps)))
       (geoip_loop W [] msg)"


declare readStringField.simps [code] splitList.simps [code] domain_loop.simps [code] decodeGeoSite.simps [code]
  cidr_loop.simps [code] geoip_loop.simps [code]

subsection \<open>The encoders\<close>

definition kind_code :: "entry_kind \<Rightarrow> int" where
  "kind_code k = (case k of KindPlain \<Rightarrow> 0 | KindRegex \<Rightarrow> 1 | KindRoot \<Rightarrow> 2 | KindFull \<Rightarrow> 3 | kindUnknown \<Rightarrow> - 1)"

definition encode_attr :: "wire \<Rightarrow> string \<Rightarrow> string" where
  "encode_attr W a =
     (let attr = w_put_tag W 1 BytesType @ w_put_bytes W a in w_put_tag W 3 BytesType @ w_put_bytes W attr)"

definition encode_domain :: "wire \<Rightarrow> entry \<Rightarrow> string" where
  "encode_domain W e =
     w_put_tag W 1 VarintType @ w_put_varint W (word_of_int (kind_code (e_kind e))) @
     w_put_tag W 2 BytesType @ w_put_bytes W (e_value e) @ concat (map (encode_attr W) (e_attrs e))"

definition encode_site :: "wire \<Rightarrow> string \<Rightarrow> entry list \<Rightarrow> string" where
  "encode_site W tag es =
     w_put_tag W 1 BytesType @ w_put_bytes W tag @
     concat (map (\<lambda>e. w_put_tag W 2 BytesType @ w_put_bytes W (encode_domain W e)) es)"

text \<open>The map as the list of its pairs in the order of the range.\<close>

definition EncodeSiteList :: "wire \<Rightarrow> (string \<times> entry list) list \<Rightarrow> string" where
  "EncodeSiteList W sites =
     concat (map (\<lambda>(tag, es). w_put_tag W 1 BytesType @ w_put_bytes W (encode_site W tag es)) sites)"

record ip_entry =
  ie_ip :: string
  ie_bits :: int

definition encode_cidr :: "wire \<Rightarrow> ip_entry \<Rightarrow> string" where
  "encode_cidr W e =
     w_put_tag W 1 BytesType @ w_put_bytes W (ie_ip e) @
     w_put_tag W 2 VarintType @ w_put_varint W (word_of_int (ie_bits e))"

definition encode_set :: "wire \<Rightarrow> string \<Rightarrow> ip_entry list \<Rightarrow> string" where
  "encode_set W tag es =
     w_put_tag W 1 BytesType @ w_put_bytes W tag @
     concat (map (\<lambda>e. w_put_tag W 2 BytesType @ w_put_bytes W (encode_cidr W e)) es)"

definition EncodeIPList :: "wire \<Rightarrow> (string \<times> ip_entry list) list \<Rightarrow> string" where
  "EncodeIPList W sets =
     concat (map (\<lambda>(tag, es). w_put_tag W 1 BytesType @ w_put_bytes W (encode_set W tag es)) sets)"

end
