(* ===== verification/GeoWireFacts.thy ===== *)
theory GeoWireFacts
  imports GeoWire
begin

text \<open>
  The decoders of \<open>internal/geo\<close> come back on every input, and read back what the encoders of
  \<open>encode_test_helpers.go\<close> write.
\<close>

subsection \<open>Every call comes back\<close>

definition returns :: "'a option \<Rightarrow> bool" where
  "returns x \<longleftrightarrow> x \<noteq> None"

lemma returns_simps [simp]: "returns (Some x)" "\<not> returns None" "returns (map_option f y) = returns y"
  by (simp_all add: returns_def)

lemma returns_bind: "returns x \<Longrightarrow> (\<And>y. x = Some y \<Longrightarrow> returns (f y)) \<Longrightarrow> returns (Option.bind x f)"
  by (auto simp: returns_def)

lemma returns_if: "(b \<Longrightarrow> returns x) \<Longrightarrow> (\<not> b \<Longrightarrow> returns y) \<Longrightarrow> returns (if b then x else y)"
  by simp

lemma returns_pair: "(\<And>x y. p = (x, y) \<Longrightarrow> returns (f x y)) \<Longrightarrow> returns (case p of (x, y) \<Rightarrow> f x y)"
  by (cases p) simp

lemma returns_sum:
  "(\<And>e. r = Inl e \<Longrightarrow> returns (f e)) \<Longrightarrow> (\<And>x. r = Inr x \<Longrightarrow> returns (g x)) \<Longrightarrow>
     returns (case r of Inl e \<Rightarrow> f e | Inr x \<Rightarrow> g x)"
  by (cases r) simp_all

lemma returns_option:
  "(x = None \<Longrightarrow> returns a) \<Longrightarrow> (\<And>y. x = Some y \<Longrightarrow> returns (g y)) \<Longrightarrow>
     returns (case x of None \<Rightarrow> a | Some y \<Rightarrow> g y)"
  by (cases x) simp_all

lemma returns_advance:
  assumes "n \<le> int (length msg)"
    and "\<And>m. length m \<le> length msg \<Longrightarrow> (n > 0 \<Longrightarrow> length m < length msg) \<Longrightarrow> returns (k m)"
  shows "returns (advance W n msg k)"
  using assms(1) assms(2)[of "drop (nat n) msg"] by (auto simp: advance_def slice_from_def)

lemma returns_tag:
  assumes "wire_bounded W" "w_tag W msg = (num, ty, n)" "\<And>m. length m < length msg \<Longrightarrow> returns (k m)"
  shows "returns (advance W n msg k)"
proof (cases "n < 0")
  case False
  moreover have "n \<noteq> 0" "n \<le> int (length msg)" using assms(1,2) by (auto simp: wire_bounded_def dest: spec[of _ msg])
  ultimately show ?thesis using assms(3) by (intro returns_advance) auto
qed (simp add: advance_def)

lemma returns_rest:
  assumes "length m < N" "n \<le> int (length m)" "\<And>m'. length m' < N \<Longrightarrow> returns (k m')"
  shows "returns (advance W n m k)"
  using assms by (intro returns_advance) auto

lemma bounded_parts:
  assumes "wire_bounded W"
  shows "w_field W num ty m \<le> int (length m)"
    "w_bytes W m = (v, n) \<Longrightarrow> n \<le> int (length m)" "w_varint W m = (x, n) \<Longrightarrow> n \<le> int (length m)"
  using assms unfolding wire_bounded_def by (metis, metis snd_conv, metis snd_conv)

lemmas returns_intros = returns_if returns_pair returns_sum returns_option returns_bind returns_simps(1)

lemma readStringField_returns: "wire_bounded W \<Longrightarrow> returns (readStringField W want msg)"
proof (induction msg rule: measure_induct_rule[of length])
  case (less msg)
  note W = less.prems and again = less.IH[OF _ less.prems]
  obtain num ty n where t: "w_tag W msg = (num, ty, n)" by (cases "w_tag W msg") auto
  show ?case
    unfolding readStringField.simps[of W want msg] t prod.case
    by (intro returns_intros returns_tag[OF W t] returns_rest[where N = "length msg"] bounded_parts[OF W] again)
qed

lemma splitList_returns: "wire_bounded W \<Longrightarrow> returns (splitList W out data)"
proof (induction data arbitrary: out rule: measure_induct_rule[of length])
  case (less data)
  note W = less.prems and again = less.IH[OF _ less.prems]
  obtain num ty n where t: "w_tag W data = (num, ty, n)" by (cases "w_tag W data") auto
  show ?case
    unfolding splitList.simps[of W out data] t prod.case
    by (intro returns_intros returns_tag[OF W t] returns_rest[where N = "length data"] bounded_parts[OF W] again readStringField_returns[OF W])
qed

lemma domain_loop_returns: "wire_bounded W \<Longrightarrow> returns (domain_loop W e msg)"
proof (induction msg arbitrary: e rule: measure_induct_rule[of length])
  case (less msg)
  note W = less.prems and again = less.IH[OF _ less.prems]
  obtain num ty n where t: "w_tag W msg = (num, ty, n)" by (cases "w_tag W msg") auto
  show ?case
    unfolding domain_loop.simps[of W e msg] t prod.case
    by (intro returns_intros returns_tag[OF W t] returns_rest[where N = "length msg"] bounded_parts[OF W] again readStringField_returns[OF W])
qed

lemma decodeDomain_returns: "wire_bounded W \<Longrightarrow> returns (decodeDomain W msg)"
  by (simp add: decodeDomain_def domain_loop_returns)

lemma decodeGeoSite_returns: "wire_bounded W \<Longrightarrow> returns (decodeGeoSite W out msg)"
proof (induction msg arbitrary: out rule: measure_induct_rule[of length])
  case (less msg)
  note W = less.prems and again = less.IH[OF _ less.prems]
  obtain num ty n where t: "w_tag W msg = (num, ty, n)" by (cases "w_tag W msg") auto
  show ?case
    unfolding decodeGeoSite.simps[of W out msg] t prod.case
    by (intro returns_intros returns_tag[OF W t] returns_rest[where N = "length msg"] bounded_parts[OF W] again decodeDomain_returns[OF W])
qed

lemma cidr_loop_returns: "wire_bounded W \<Longrightarrow> returns (cidr_loop W ip bits cm)"
proof (induction cm arbitrary: ip bits rule: measure_induct_rule[of length])
  case (less cm)
  note W = less.prems and again = less.IH[OF _ less.prems]
  obtain num ty n where t: "w_tag W cm = (num, ty, n)" by (cases "w_tag W cm") auto
  show ?case
    unfolding cidr_loop.simps[of W ip bits cm] t prod.case
    by (intro returns_intros returns_tag[OF W t] returns_rest[where N = "length cm"] bounded_parts[OF W] again)
qed

lemma geoip_loop_returns: "wire_bounded W \<Longrightarrow> returns (geoip_loop W out msg)"
proof (induction msg arbitrary: out rule: measure_induct_rule[of length])
  case (less msg)
  note W = less.prems and again = less.IH[OF _ less.prems]
  obtain num ty n where t: "w_tag W msg = (num, ty, n)" by (cases "w_tag W msg") auto
  show ?case
    unfolding geoip_loop.simps[of W out msg] t prod.case
    by (intro returns_intros returns_tag[OF W t] returns_rest[where N = "length msg"] bounded_parts[OF W] again cidr_loop_returns[OF W])
qed

lemma decodeGeoIP_returns: "wire_bounded W \<Longrightarrow> returns (decodeGeoIP W msg)"
  by (simp add: decodeGeoIP_def geoip_loop_returns)


subsection \<open>What is written is read back\<close>

lemma advance_put [simp]: "advance W (int (length p)) (p @ s) k = k s"
  by (simp add: advance_def slice_from_def)

lemma put_parts:
  assumes "wire_round_trip W"
  shows "1 \<le> num \<Longrightarrow> num \<le> 3 \<Longrightarrow> w_put_tag W num BytesType \<noteq> []"
    "1 \<le> num \<Longrightarrow> num \<le> 3 \<Longrightarrow> w_put_tag W num VarintType \<noteq> []"
    "1 \<le> num \<Longrightarrow> num \<le> 3 \<Longrightarrow>
       w_tag W (w_put_tag W num BytesType @ s) = (num, BytesType, int (length (w_put_tag W num BytesType)))"
    "1 \<le> num \<Longrightarrow> num \<le> 3 \<Longrightarrow>
       w_tag W (w_put_tag W num VarintType @ s) = (num, VarintType, int (length (w_put_tag W num VarintType)))"
    "w_bytes W (w_put_bytes W v @ s) = (v, int (length (w_put_bytes W v)))"
    "w_varint W (w_put_varint W x @ s) = (x, int (length (w_put_varint W x)))"
    "w_field W num BytesType (w_put_bytes W v @ s) = int (length (w_put_bytes W v))"
  using assms unfolding wire_round_trip_def by blast+

lemma wire_types_differ [simp]: "BytesType \<noteq> VarintType" "VarintType \<noteq> BytesType"
  by (simp_all add: BytesType_def VarintType_def)

lemma readStringField_put:
  "wire_round_trip W \<Longrightarrow> readStringField W 1 (w_put_tag W 1 BytesType @ w_put_bytes W v @ s) = Some (Inr v)"
  by (subst readStringField.simps) (simp add: put_parts)

lemma splitList_put:
  assumes "wire_round_trip W" "tag \<noteq> []" "msg = w_put_tag W 1 BytesType @ w_put_bytes W tag @ body"
  shows "splitList W out ((w_put_tag W 1 BytesType @ w_put_bytes W msg) @ s) =
    splitList W (al_put (to_lower tag) msg out) s"
  by (subst splitList.simps) (simp add: assms put_parts readStringField_put)

lemma al_put_new: "k \<notin> fst ` set m \<Longrightarrow> al_put k v m = m @ [(k, v)]"
  by (induction k v m rule: al_put.induct) auto

lemma splitList_concat:
  assumes W: "wire_round_trip W"
  defines "msg \<equiv> \<lambda>t b. w_put_tag W 1 BytesType @ w_put_bytes W t @ b"
  shows "\<forall>(t, b)\<in>set items. t \<noteq> [] \<Longrightarrow> distinct (map (to_lower \<circ> fst) items) \<Longrightarrow>
    fst ` set out \<inter> (to_lower \<circ> fst) ` set items = {} \<Longrightarrow>
    splitList W out (concat (map (\<lambda>(t, b). w_put_tag W 1 BytesType @ w_put_bytes W (msg t b)) items)) =
     Some (Inr (out @ map (\<lambda>(t, b). (to_lower t, msg t b)) items))"
proof (induction items arbitrary: out)
  case Nil
  show ?case by (simp add: splitList.simps)
next
  case (Cons p items)
  obtain t b where p: "p = (t, b)" by fastforce
  have "al_put (to_lower t) (msg t b) out = out @ [(to_lower t, msg t b)]"
    using Cons.prems(3) p by (intro al_put_new) auto
  then have "splitList W out (concat (map (\<lambda>(t, b). w_put_tag W 1 BytesType @ w_put_bytes W (msg t b)) (p # items))) =
      splitList W (out @ [(to_lower t, msg t b)])
        (concat (map (\<lambda>(t, b). w_put_tag W 1 BytesType @ w_put_bytes W (msg t b)) items))"
    using Cons.prems splitList_put[OF W, of t _ b out] by (simp add: p msg_def)
  then show ?case using Cons by (auto simp: p)
qed

text \<open>What is kept of an entry: the value in lower case, the attributes without the empty ones.\<close>

definition norm_entry :: "entry \<Rightarrow> entry" where
  "norm_entry e = \<lparr>e_kind = e_kind e, e_value = to_lower (e_value e), e_attrs = filter (\<lambda>a. a \<noteq> []) (e_attrs e)\<rparr>"

lemma domain_loop_attrs:
  assumes "wire_round_trip W"
  shows "domain_loop W e (concat (map (encode_attr W) attrs)) =
    Some (Inr (e\<lparr>re_attrs := re_attrs e @ filter (\<lambda>a. a \<noteq> []) attrs\<rparr>))"
proof (induction attrs arbitrary: e)
  case (Cons a attrs)
  have "domain_loop W e (encode_attr W a @ s) =
      domain_loop W (if a = [] then e else e\<lparr>re_attrs := re_attrs e @ [a]\<rparr>) s" for s
    using readStringField_put[OF assms(1), of a "[]"]
    by (subst domain_loop.simps) (simp add: put_parts[OF assms(1)] encode_attr_def Let_def)
  then show ?case using Cons by simp
qed (simp add: domain_loop.simps)

lemma kind_of_code: "kind_of (go_int (word_of_int (kind_code k))) = k"
  by (cases k) (simp_all add: kind_of_def kind_code_def go_int_def)

lemma decodeDomain_encode:
  assumes W: "wire_round_trip W"
  shows "decodeDomain W (encode_domain W e) = Some (Inr (norm_entry e))"
proof -
  have 1: "domain_loop W r (w_put_tag W 1 VarintType @ w_put_varint W k @ s) = domain_loop W (r\<lparr>re_kind := go_int k\<rparr>) s" for r k s
    by (subst domain_loop.simps) (simp add: put_parts[OF W])
  have 2: "domain_loop W r (w_put_tag W 2 BytesType @ w_put_bytes W v @ s) = domain_loop W (r\<lparr>re_value := to_lower v\<rparr>) s" for r v s
    by (subst domain_loop.simps) (simp add: put_parts[OF W])
  show ?thesis
    by (simp add: decodeDomain_def encode_domain_def 1 2 domain_loop_attrs[OF W] finish_entry_def kind_of_code norm_entry_def)
qed

lemma decodeGeoSite_encode:
  assumes W: "wire_round_trip W"
  shows "decodeGeoSite W [] (encode_site W tag es) = Some (Inr (map norm_entry (filter (\<lambda>e. e_value e \<noteq> []) es)))"
proof -
  have tag: "decodeGeoSite W out (w_put_tag W 1 BytesType @ w_put_bytes W tag @ s) = decodeGeoSite W out s" for out s
    by (subst decodeGeoSite.simps) (simp add: put_parts[OF W])
  have "decodeGeoSite W out (concat (map (\<lambda>e. w_put_tag W 2 BytesType @ w_put_bytes W (encode_domain W e)) es)) =
      Some (Inr (out @ map norm_entry (filter (\<lambda>e. e_value e \<noteq> []) es)))" for out
  proof (induction es arbitrary: out)
    case (Cons e es)
    have "e_value (norm_entry e) = [] \<longleftrightarrow> e_value e = []" by (simp add: norm_entry_def to_lower_def)
    then have "decodeGeoSite W out (w_put_tag W 2 BytesType @ w_put_bytes W (encode_domain W e) @ s) =
        decodeGeoSite W (if e_value e = [] then out else out @ [norm_entry e]) s" for s
      by (subst decodeGeoSite.simps) (simp add: put_parts[OF W] decodeDomain_encode[OF W])
    then show ?case using Cons by simp
  qed (simp add: decodeGeoSite.simps)
  then show ?thesis by (simp add: encode_site_def tag)
qed

lemma decodeGeoIP_encode:
  assumes W: "wire_round_trip W"
  shows "decodeGeoIP W (encode_set W tag es) =
    Some (Inr (sort_key (\<lambda>p. (p_addr p, p_bits p))
      (List.map_filter (\<lambda>e. cidr_prefix (ie_ip e) (word_of_int (ie_bits e))) es)))"
proof -
  have tag: "geoip_loop W out (w_put_tag W 1 BytesType @ w_put_bytes W tag @ s) = geoip_loop W out s" for out s
    by (subst geoip_loop.simps) (simp add: put_parts[OF W])
  have cidr: "cidr_loop W i b (encode_cidr W e) = Some (Inr (ie_ip e, word_of_int (ie_bits e)))" for i b e
  proof -
    have 1: "cidr_loop W i b (w_put_tag W 1 BytesType @ w_put_bytes W v @ s) = cidr_loop W v b s" for i b v s
      by (subst cidr_loop.simps) (simp add: put_parts[OF W])
    have 2: "cidr_loop W i b (w_put_tag W 2 VarintType @ w_put_varint W k @ s) = cidr_loop W i k s" for i b k s
      by (subst cidr_loop.simps) (simp add: put_parts[OF W])
    have 3: "cidr_loop W i b [] = Some (Inr (i, b))" for i b by (simp add: cidr_loop.simps)
    show ?thesis using 2[of _ _ _ "[]"] by (simp add: encode_cidr_def 1 3)
  qed
  have "geoip_loop W out (concat (map (\<lambda>e. w_put_tag W 2 BytesType @ w_put_bytes W (encode_cidr W e)) es)) =
      Some (Inr (out @ List.map_filter (\<lambda>e. cidr_prefix (ie_ip e) (word_of_int (ie_bits e))) es))" for out
  proof (induction es arbitrary: out)
    case (Cons e es)
    have "geoip_loop W out (w_put_tag W 2 BytesType @ w_put_bytes W (encode_cidr W e) @ s) =
        geoip_loop W (case cidr_prefix (ie_ip e) (word_of_int (ie_bits e)) of None \<Rightarrow> out | Some p \<Rightarrow> out @ [p]) s" for s
      by (subst geoip_loop.simps) (simp add: put_parts[OF W] cidr split: option.split)
    then show ?case using Cons by (simp add: List.map_filter_simps split: option.split)
  qed (simp add: geoip_loop.simps List.map_filter_simps)
  then show ?thesis by (simp add: decodeGeoIP_def encode_set_def tag)
qed

end
