(* ===== verification/GeoReader.thy ===== *)
theory GeoReader
  imports GeoWireFacts
begin

text \<open>
  \<open>internal/geo/geo.go\<close>, the lazily loaded readers \<open>Site\<close> and \<open>IP\<close>.  They differ only in the
  decoder, so both are a \<open>geo_reader\<close>.  What a call sees of the file system is an argument: the
  answer of \<open>os.Stat\<close> (size and modification time) and the answer of \<open>os.ReadFile\<close>.  A call of a
  method is atomic, as the mutex makes it.
\<close>

record file_view =
  fv_stat :: "(int \<times> time) outcome"
  fv_data :: "string outcome"

text \<open>\<open>rd_raw = None\<close> is the nil map of a reader that has not loaded the file yet.\<close>

record 'a geo_reader =
  rd_path :: string
  rd_id :: "int \<times> time"
  rd_raw :: "(string \<times> string) list option"
  rd_decoded :: "string \<rightharpoonup> 'a list"

type_synonym site = "entry geo_reader"
type_synonym ip_reader = "prefix geo_reader"

definition open_reader :: "string \<Rightarrow> 'a geo_reader" where
  "open_reader path = \<lparr>rd_path = path, rd_id = (0, zero_time), rd_raw = None, rd_decoded = Map.empty\<rparr>"

definition OpenSite :: "string \<Rightarrow> site" where "OpenSite path = open_reader path"
definition OpenIP :: "string \<Rightarrow> ip_reader" where "OpenIP path = open_reader path"

text \<open>\<open>ensure\<close>: the file is read again when its size or time changed.\<close>

definition load_file :: "wire \<Rightarrow> file_view \<Rightarrow> 'a geo_reader \<Rightarrow> (unit outcome \<times> 'a geo_reader) option" where
  "load_file W fv r =
     (case fv_stat fv of
        Inl e \<Rightarrow> Some (Inl e, r)
      | Inr i \<Rightarrow>
          if rd_raw r \<noteq> None \<and> i = rd_id r then Some (Inr (), r)
          else (case fv_data fv of
                  Inl e \<Rightarrow> Some (Inl e, r)
                | Inr data \<Rightarrow> Option.bind (splitList W [] data) (\<lambda>res. case res of
                      Inl e \<Rightarrow> Some (Inl (Wrapped (''parse '' @ rd_path r) e), r)
                    | Inr raw \<Rightarrow> Some (Inr (), r\<lparr>rd_raw := Some raw, rd_decoded := Map.empty, rd_id := i\<rparr>))))"

definition site_ensure :: "wire \<Rightarrow> file_view \<Rightarrow> site \<Rightarrow> (unit outcome \<times> site) option" where
  "site_ensure W fv r = load_file W fv r"

definition ip_ensure :: "wire \<Rightarrow> file_view \<Rightarrow> ip_reader \<Rightarrow> (unit outcome \<times> ip_reader) option" where
  "ip_ensure W fv r = load_file W fv r"

definition with_ready ::
  "(unit outcome \<times> 'a geo_reader) option \<Rightarrow> ('a geo_reader \<Rightarrow> ('b outcome \<times> 'a geo_reader) option) \<Rightarrow>
     ('b outcome \<times> 'a geo_reader) option" where
  "with_ready ready k =
     Option.bind ready (\<lambda>(res, r). case res of Inl e \<Rightarrow> Some (Inl e, r) | Inr _ \<Rightarrow> k r)"

definition raw_get :: "'a geo_reader \<Rightarrow> string \<Rightarrow> string option" where
  "raw_get r tag = Option.bind (rd_raw r) (\<lambda>m. map_of m tag)"

lemma raw_get_decoded [simp]: "raw_get (r\<lparr>rd_decoded := d\<rparr>) t = raw_get r t"
  by (simp add: raw_get_def)

definition raw_tags :: "'a geo_reader \<Rightarrow> string list" where
  "raw_tags r = (case rd_raw r of None \<Rightarrow> [] | Some m \<Rightarrow> map fst m)"

definition tag_not_found :: "string \<Rightarrow> go_error" where
  "tag_not_found tag = Failure (''geo tag not found: '' @ quoted tag)"

definition Tags :: "wire \<Rightarrow> file_view \<Rightarrow> site \<Rightarrow> (string list outcome \<times> site) option" where
  "Tags W fv r = with_ready (site_ensure W fv r) (\<lambda>r. Some (Inr (sort (raw_tags r)), r))"

definition HasTag :: "wire \<Rightarrow> file_view \<Rightarrow> string \<Rightarrow> site \<Rightarrow> (bool outcome \<times> site) option" where
  "HasTag W fv tag r = with_ready (site_ensure W fv r) (\<lambda>r. Some (Inr (raw_get r (to_lower tag) \<noteq> None), r))"

text \<open>
  A tag of a loaded reader, decoded on the first demand: the answer, and the reader with the
  answer kept.
\<close>

definition decode_tag ::
  "string \<Rightarrow> (string \<Rightarrow> 'a list outcome option) \<Rightarrow> string \<Rightarrow> 'a geo_reader \<Rightarrow> ('a list outcome \<times> 'a geo_reader) option" where
  "decode_tag what decode tag r =
     (case rd_decoded r tag of
        Some es \<Rightarrow> Some (Inr es, r)
      | None \<Rightarrow>
          (case raw_get r tag of
             None \<Rightarrow> Some (Inl (tag_not_found tag), r)
           | Some raw \<Rightarrow> Option.bind (decode raw) (\<lambda>res. case res of
                 Inl e \<Rightarrow> Some (Inl (Wrapped (''decode '' @ what @ '' '' @ quoted tag) e), r)
               | Inr es \<Rightarrow> Some (Inr es, r\<lparr>rd_decoded := (rd_decoded r)(tag \<mapsto> es)\<rparr>))))"

definition Entries :: "wire \<Rightarrow> file_view \<Rightarrow> string \<Rightarrow> site \<Rightarrow> (entry list outcome \<times> site) option" where
  "Entries W fv tag r =
     with_ready (site_ensure W fv r) (decode_tag ''geosite'' (decodeGeoSite W []) (to_lower tag))"

definition EntriesUncached :: "wire \<Rightarrow> file_view \<Rightarrow> string \<Rightarrow> site \<Rightarrow> (entry list outcome \<times> site) option" where
  "EntriesUncached W fv tag0 r =
     (let tag = to_lower tag0 in
      with_ready (site_ensure W fv r) (\<lambda>r.
        case rd_decoded r tag of
          Some es \<Rightarrow> Some (Inr es, r)
        | None \<Rightarrow>
            (case raw_get r tag of
               None \<Rightarrow> Some (Inl (tag_not_found tag), r)
             | Some raw \<Rightarrow> map_option (\<lambda>res. (res, r)) (decodeGeoSite W [] raw))))"

definition IPTags :: "wire \<Rightarrow> file_view \<Rightarrow> ip_reader \<Rightarrow> (string list outcome \<times> ip_reader) option" where
  "IPTags W fv r = with_ready (ip_ensure W fv r) (\<lambda>r. Some (Inr (sort (raw_tags r)), r))"

definition IPHasTag :: "wire \<Rightarrow> file_view \<Rightarrow> string \<Rightarrow> ip_reader \<Rightarrow> (bool outcome \<times> ip_reader) option" where
  "IPHasTag W fv tag r = with_ready (ip_ensure W fv r) (\<lambda>r. Some (Inr (raw_get r (to_lower tag) \<noteq> None), r))"

definition CIDRs :: "wire \<Rightarrow> file_view \<Rightarrow> string \<Rightarrow> ip_reader \<Rightarrow> (prefix list outcome \<times> ip_reader) option" where
  "CIDRs W fv tag r = with_ready (ip_ensure W fv r) (decode_tag ''geoip'' (decodeGeoIP W) (to_lower tag))"

text \<open>\<open>Version\<close>, the same for both readers.\<close>

definition Version :: "file_view \<Rightarrow> string outcome" where
  "Version fv = bind_outcome (fv_stat fv) (\<lambda>(size, mtime). Inr (int_string size @ ''-'' @ int_string mtime))"

definition IPVersion :: "file_view \<Rightarrow> string outcome" where
  "IPVersion fv = bind_outcome (fv_stat fv) (\<lambda>(size, mtime). Inr (int_string size @ ''-'' @ int_string mtime))"

subsection \<open>The cache\<close>

text \<open>
  A file whose content is determined by its size and time, and the readers that calls on such a
  file lead to.
\<close>

definition coherent :: "(int \<times> time \<Rightarrow> string) \<Rightarrow> file_view \<Rightarrow> bool" where
  "coherent content fv \<longleftrightarrow>
     (\<forall>i d. fv_stat fv = Inr i \<longrightarrow> fv_data fv = Inr d \<longrightarrow> d = content i)"

definition cache_ok ::
  "wire \<Rightarrow> (string \<Rightarrow> 'a list outcome option) \<Rightarrow> (int \<times> time \<Rightarrow> string) \<Rightarrow> 'a geo_reader \<Rightarrow> bool" where
  "cache_ok W decode content r \<longleftrightarrow>
     (\<forall>m. rd_raw r = Some m \<longrightarrow> splitList W [] (content (rd_id r)) = Some (Inr m)) \<and>
     (\<forall>t es. rd_decoded r t = Some es \<longrightarrow> (\<exists>b. raw_get r t = Some b \<and> decode b = Some (Inr es)))"

lemma with_ready_Some:
  "with_ready ready k = Some (res, r') \<longleftrightarrow>
     (\<exists>e. ready = Some (Inl e, r') \<and> res = Inl e) \<or> (\<exists>r. ready = Some (Inr (), r) \<and> k r = Some (res, r'))"
  by (auto simp: with_ready_def split: Option.bind_splits sum.splits)

locale geo_cache =
  fixes decode :: "wire \<Rightarrow> string \<Rightarrow> 'a list outcome option"
  assumes decode_returns: "wire_bounded W \<Longrightarrow> returns (decode W msg)"
begin

lemma cache_ok_open: "cache_ok W (decode W) content (open_reader path)"
  by (simp add: cache_ok_def open_reader_def raw_get_def)

lemma load_file_ok:
  assumes "cache_ok W (decode W) content r" "coherent content fv" "load_file W fv r = Some (res, r')"
  shows "cache_ok W (decode W) content r'" "rd_path r' = rd_path r"
    "res = Inr u \<Longrightarrow> \<exists>i. fv_stat fv = Inr i \<and> rd_id r' = i \<and> rd_raw r' \<noteq> None"
  using assms unfolding load_file_def
  by (auto simp: cache_ok_def coherent_def split: sum.split_asm if_split_asm Option.bind_split_asm)

lemma decode_tag_ok:
  assumes "cache_ok W (decode W) content r" "decode_tag what (decode W) t r = Some (res, r')"
  shows "cache_ok W (decode W) content r'" "rd_path r' = rd_path r"
  using assms unfolding decode_tag_def
  by (auto simp: cache_ok_def split: sum.split_asm if_split_asm option.split_asm Option.bind_split_asm)

lemma use_ok:
  assumes "cache_ok W (decode W) content r" "coherent content fv"
    and "with_ready (load_file W fv r) k = Some (res, r')"
    and "\<And>r1. cache_ok W (decode W) content r1 \<Longrightarrow> k r1 = Some (res, r') \<Longrightarrow>
           cache_ok W (decode W) content r' \<and> rd_path r' = rd_path r1"
  shows "cache_ok W (decode W) content r' \<and> rd_path r' = rd_path r"
  using assms(3) load_file_ok(1,2)[OF assms(1,2)] assms(4) unfolding with_ready_Some by metis

lemma load_file_returns: "wire_bounded W \<Longrightarrow> returns (load_file W fv r)"
  unfolding load_file_def by (intro returns_intros splitList_returns)

lemma get_returns: "wire_bounded W \<Longrightarrow> returns (with_ready (load_file W fv r) (decode_tag what (decode W) t))"
  unfolding with_ready_def decode_tag_def by (intro returns_intros load_file_returns decode_returns)

text \<open>A loaded reader answers like one that has just read the file.\<close>

definition decoded_now :: "wire \<Rightarrow> string \<Rightarrow> string \<Rightarrow> (string \<times> string) list \<Rightarrow> 'a list outcome option" where
  "decoded_now W what t m =
     (case map_of m t of
        None \<Rightarrow> Some (Inl (tag_not_found t))
      | Some raw \<Rightarrow> map_option (\<lambda>res. case res of
            Inl e \<Rightarrow> Inl (Wrapped (''decode '' @ what @ '' '' @ quoted t) e) | Inr es \<Rightarrow> Inr es) (decode W raw))"

lemma decode_tag_now:
  assumes "cache_ok W (decode W) content r" "rd_raw r = Some m"
  shows "map_option fst (decode_tag what (decode W) t r) = decoded_now W what t m"
proof (cases "rd_decoded r t")
  case (Some es)
  then obtain b where "map_of m t = Some b" "decode W b = Some (Inr es)"
    using assms by (auto simp: cache_ok_def raw_get_def)
  then show ?thesis using Some by (simp add: decode_tag_def decoded_now_def)
next
  case None
  have raw: "raw_get r t = map_of m t" using assms(2) by (simp add: raw_get_def)
  show ?thesis
  proof (cases "map_of m t")
    case (Some b)
    then show ?thesis using None raw
      by (cases "decode W b") (auto simp: decode_tag_def decoded_now_def split: sum.split)
  qed (simp add: decode_tag_def decoded_now_def None raw)
qed

lemma decoded_now_Some:
  assumes "decoded_now W what t m = Some res"
  shows "res = Inr es \<longleftrightarrow> (\<exists>b. map_of m t = Some b \<and> decode W b = Some (Inr es))"
proof (cases "map_of m t")
  case (Some b)
  then obtain r where "decode W b = Some r" using assms by (cases "decode W b") (simp_all add: decoded_now_def)
  then show ?thesis using assms Some by (cases r) (auto simp: decoded_now_def)
qed (use assms in \<open>auto simp: decoded_now_def\<close>)

lemma loaded_get:
  assumes "wire_bounded W" "cache_ok W (decode W) content r" "rd_raw r = Some m" "fv_stat fv = Inr (rd_id r)"
  shows "\<exists>res r'. with_ready (load_file W fv r) (decode_tag what (decode W) t) = Some (res, r') \<and>
    cache_ok W (decode W) content r' \<and> rd_raw r' = Some m \<and> rd_id r' = rd_id r \<and>
    (\<forall>es. res = Inr es \<longleftrightarrow> (\<exists>b. map_of m t = Some b \<and> decode W b = Some (Inr es)))"
proof -
  have ready: "load_file W fv r = Some (Inr (), r)" using assms(3,4) by (simp add: load_file_def)
  obtain res r' where get: "decode_tag what (decode W) t r = Some (res, r')"
    using get_returns[OF assms(1), of fv r what t] ready by (auto simp: with_ready_def returns_def)
  have "decoded_now W what t m = Some res" using decode_tag_now[OF assms(2,3), of what t] get by simp
  then have "res = Inr es \<longleftrightarrow> (\<exists>b. map_of m t = Some b \<and> decode W b = Some (Inr es))" for es
    by (rule decoded_now_Some)
  moreover have "rd_raw r' = Some m \<and> rd_id r' = rd_id r" using get assms(3)
    by (auto simp: decode_tag_def split: option.split_asm sum.split_asm Option.bind_split_asm)
  ultimately show ?thesis
    using get ready decode_tag_ok(1)[OF assms(2) get] by (intro exI[of _ res] exI[of _ r']) (simp add: with_ready_def)
qed

lemma transparent:
  assumes ok: "cache_ok W (decode W) content r" "rd_path r = path" and fv: "coherent content fv" "fv_data fv = Inr d"
  shows "map_option fst (with_ready (load_file W fv r) (decode_tag what (decode W) t)) =
    map_option fst (with_ready (load_file W fv (open_reader path)) (decode_tag what (decode W) t))"
proof (cases "fv_stat fv")
  case (Inl e)
  then show ?thesis by (simp add: load_file_def with_ready_def)
next
  case (Inr i)
  then have d: "d = content i" using fv by (simp add: coherent_def)
  have path: "rd_path (open_reader path) = path" for path by (simp add: open_reader_def)
  show ?thesis
  proof (cases "rd_raw r \<noteq> None \<and> i = rd_id r")
    case True
    then obtain m where m: "rd_raw r = Some m" "splitList W [] d = Some (Inr m)" using ok(1) d by (auto simp: cache_ok_def)
    let ?r = "(open_reader path)\<lparr>rd_raw := Some m, rd_decoded := Map.empty, rd_id := i\<rparr>"
    have "cache_ok W (decode W) content ?r" using m(2) d by (simp add: cache_ok_def)
    from decode_tag_now[OF this, of m what t] decode_tag_now[OF ok(1) m(1), of what t]
    show ?thesis using True m Inr fv(2) by (simp add: load_file_def with_ready_def open_reader_def)
  next
    case False
    have same: "r\<lparr>rd_raw := Some m, rd_decoded := \<lambda>x. None, rd_id := i\<rparr> =
        \<lparr>rd_path = rd_path r, rd_id = i, rd_raw = Some m, rd_decoded = \<lambda>x. None\<rparr>" for m
      by simp
    show ?thesis using False Inr fv(2) ok(2) path
      by (cases "splitList W [] d") (auto simp: load_file_def with_ready_def open_reader_def same split: sum.split)
  qed
qed

end

interpretation sites: geo_cache "\<lambda>W. decodeGeoSite W []"
  by unfold_locales (rule decodeGeoSite_returns)

interpretation ips: geo_cache decodeGeoIP
  by unfold_locales (rule decodeGeoIP_returns)

text \<open>The readers that calls with coherent views of one file lead to.\<close>

inductive site_use :: "wire \<Rightarrow> (int \<times> time \<Rightarrow> string) \<Rightarrow> site \<Rightarrow> site \<Rightarrow> bool" for W content where
  "coherent content fv \<Longrightarrow> Tags W fv r = Some (ts, r') \<Longrightarrow> site_use W content r r'"
| "coherent content fv \<Longrightarrow> HasTag W fv t r = Some (b, r') \<Longrightarrow> site_use W content r r'"
| "coherent content fv \<Longrightarrow> Entries W fv t r = Some (es, r') \<Longrightarrow> site_use W content r r'"
| "coherent content fv \<Longrightarrow> EntriesUncached W fv t r = Some (es, r') \<Longrightarrow> site_use W content r r'"

inductive ip_use :: "wire \<Rightarrow> (int \<times> time \<Rightarrow> string) \<Rightarrow> ip_reader \<Rightarrow> ip_reader \<Rightarrow> bool" for W content where
  "coherent content fv \<Longrightarrow> IPTags W fv r = Some (ts, r') \<Longrightarrow> ip_use W content r r'"
| "coherent content fv \<Longrightarrow> IPHasTag W fv t r = Some (b, r') \<Longrightarrow> ip_use W content r r'"
| "coherent content fv \<Longrightarrow> CIDRs W fv t r = Some (ps, r') \<Longrightarrow> ip_use W content r r'"

lemma site_use_ok:
  assumes "site_use W content r r'" "cache_ok W (decodeGeoSite W []) content r"
  shows "cache_ok W (decodeGeoSite W []) content r' \<and> rd_path r' = rd_path r"
  using assms(1)
proof (cases rule: site_use.cases)
  case (3 fv t es)
  from 3(2)[unfolded Entries_def site_ensure_def] show ?thesis
    by (rule sites.use_ok[OF assms(2) 3(1)]) (blast dest: sites.decode_tag_ok)
next
  case (4 fv t es)
  from 4(2)[unfolded EntriesUncached_def site_ensure_def Let_def] show ?thesis
    by (rule sites.use_ok[OF assms(2) 4(1)]) (auto split: option.split_asm)
next
  case (1 fv ts)
  from 1(2)[unfolded Tags_def site_ensure_def] show ?thesis by (rule sites.use_ok[OF assms(2) 1(1)]) simp
next
  case (2 fv t b)
  from 2(2)[unfolded HasTag_def site_ensure_def] show ?thesis by (rule sites.use_ok[OF assms(2) 2(1)]) simp
qed

lemma ip_use_ok:
  assumes "ip_use W content r r'" "cache_ok W (decodeGeoIP W) content r"
  shows "cache_ok W (decodeGeoIP W) content r' \<and> rd_path r' = rd_path r"
  using assms(1)
proof (cases rule: ip_use.cases)
  case (1 fv ts)
  from 1(2)[unfolded IPTags_def ip_ensure_def] show ?thesis by (rule ips.use_ok[OF assms(2) 1(1)]) simp
next
  case (2 fv t b)
  from 2(2)[unfolded IPHasTag_def ip_ensure_def] show ?thesis by (rule ips.use_ok[OF assms(2) 2(1)]) simp
next
  case (3 fv t ps)
  from 3(2)[unfolded CIDRs_def ip_ensure_def] show ?thesis
    by (rule ips.use_ok[OF assms(2) 3(1)]) (blast dest: ips.decode_tag_ok)
qed

lemma site_reach_ok:
  "(site_use W content)\<^sup>*\<^sup>* (OpenSite path) r \<Longrightarrow> cache_ok W (decodeGeoSite W []) content r \<and> rd_path r = path"
  by (induction rule: rtranclp_induct)
    (auto simp: OpenSite_def sites.cache_ok_open dest: site_use_ok, simp add: open_reader_def)

lemma ip_reach_ok:
  "(ip_use W content)\<^sup>*\<^sup>* (OpenIP path) r \<Longrightarrow> cache_ok W (decodeGeoIP W) content r \<and> rd_path r = path"
  by (induction rule: rtranclp_induct)
    (auto simp: OpenIP_def ips.cache_ok_open dest: ip_use_ok, simp add: open_reader_def)

end
