(* ===== verification/GeoIndex.thy ===== *)
theory GeoIndex
  imports GeoReader Trace
begin

text \<open>
  \<open>internal/geo/index.go\<close>: the reverse indexes from an address or a domain to the tags whose lists
  contain it.  The reader an index wraps is passed along; during one call the file stands still,
  so one view serves every access of the call.  \<open>sort.Slice\<close> is a stable sort.
\<close>

text \<open>\<open>sort.Search\<close>: the binary search of the standard library.\<close>

function search_loop :: "(nat \<Rightarrow> bool) \<Rightarrow> nat \<Rightarrow> nat \<Rightarrow> nat" where
  "search_loop f i j =
     (if i < j then (let h = (i + j) div 2 in if \<not> f h then search_loop f (Suc h) j else search_loop f i h) else i)"
  by pat_completeness auto
termination
  by (relation "measure (\<lambda>(f, i, j). j - i)") auto

declare search_loop.simps [simp del]

definition sort_search :: "nat \<Rightarrow> (nat \<Rightarrow> bool) \<Rightarrow> nat" where
  "sort_search n f = search_loop f 0 n"

subsection \<open>Addresses\<close>

record ip_index =
  ii_ver :: string
  ii_tags :: "(string \<times> prefix list) list option"

definition NewIPIndex :: ip_index where
  "NewIPIndex = \<lparr>ii_ver = [], ii_tags = None\<rparr>"

text \<open>A tag that cannot be decoded is left out.\<close>

fun ip_index_loop ::
  "wire \<Rightarrow> file_view \<Rightarrow> string list \<Rightarrow> (string \<times> prefix list) list \<Rightarrow> ip_reader \<Rightarrow>
     ((string \<times> prefix list) list \<times> ip_reader) option" where
  "ip_index_loop W fv [] idx src = Some (idx, src)"
| "ip_index_loop W fv (t # ts) idx src =
     Option.bind (CIDRs W fv t src) (\<lambda>(res, src). case res of
         Inl _ \<Rightarrow> ip_index_loop W fv ts idx src
       | Inr ps \<Rightarrow> ip_index_loop W fv ts (al_put t (sort_key p_addr ps) idx) src)"

definition ip_index_ensure ::
  "wire \<Rightarrow> file_view \<Rightarrow> ip_reader \<times> ip_index \<Rightarrow> (unit outcome \<times> ip_reader \<times> ip_index) option" where
  "ip_index_ensure W fv s =
     (case s of (src, x) \<Rightarrow>
        (case IPVersion fv of
           Inl e \<Rightarrow> Some (Inl e, src, x)
         | Inr ver \<Rightarrow>
             if ii_tags x \<noteq> None \<and> ver = ii_ver x then Some (Inr (), src, x)
             else Option.bind (IPTags W fv src) (\<lambda>(res, src). case res of
                 Inl e \<Rightarrow> Some (Inl e, src, x)
               | Inr tags \<Rightarrow> map_option (\<lambda>(idx, src). (Inr (), src, \<lparr>ii_ver = ver, ii_tags = Some idx\<rparr>))
                   (ip_index_loop W fv tags [] src))))"

text \<open>The backward scan from the last prefix that starts at or below the address: at most 16 steps.\<close>

fun scan_back :: "prefix list \<Rightarrow> addr \<Rightarrow> nat \<Rightarrow> nat \<Rightarrow> bool" where
  "scan_back ps a 0 k = False"
| "scan_back ps a (Suc j) 0 = False"
| "scan_back ps a (Suc j) (Suc k) = (p_contains (ps ! j) a \<or> scan_back ps a j k)"

definition ip_tag_hit :: "addr \<Rightarrow> prefix list \<Rightarrow> bool" where
  "ip_tag_hit a ps = scan_back ps a (sort_search (length ps) (\<lambda>i. a < p_addr (ps ! i))) 16"

definition IPLookup ::
  "wire \<Rightarrow> file_view \<Rightarrow> addr \<Rightarrow> ip_reader \<times> ip_index \<Rightarrow> (string list outcome \<times> ip_reader \<times> ip_index) option" where
  "IPLookup W fv a0 s =
     Option.bind (ip_index_ensure W fv s) (\<lambda>(res, src, x). case res of
         Inl e \<Rightarrow> Some (Inl e, src, x)
       | Inr _ \<Rightarrow>
           (let a = unmap a0; tags = (case ii_tags x of None \<Rightarrow> [] | Some m \<Rightarrow> m) in
            Some (Inr (sort (map fst (filter (\<lambda>(_, ps). ip_tag_hit a ps) tags))), src, x)))"

subsection \<open>Domains\<close>

type_synonym tag_index = "16 word"

record site_index =
  si_ver :: string
  si_tags :: "string list option"
  si_full :: "(string \<times> tag_index) list"
  si_root :: "(string \<times> tag_index) list"
  si_keyword :: "(tag_index \<times> string) list"
  si_regex :: "(tag_index \<times> (string \<Rightarrow> bool)) list"

definition NewSiteIndex :: site_index where
  "NewSiteIndex = \<lparr>si_ver = [], si_tags = None, si_full = [], si_root = [], si_keyword = [], si_regex = []\<rparr>"

text \<open>One entry of the tag with index \<open>ti\<close>; \<open>rx\<close> is \<open>regexp.Compile\<close>.\<close>

definition index_entry ::
  "(string \<Rightarrow> (string \<Rightarrow> bool) option) \<Rightarrow> tag_index \<Rightarrow> entry \<Rightarrow> site_index \<Rightarrow> site_index" where
  "index_entry rx ti e x =
     (let v = to_lower (e_value e) in
      case e_kind e of
        KindFull \<Rightarrow> x\<lparr>si_full := si_full x @ [(v, ti)]\<rparr>
      | KindRoot \<Rightarrow> x\<lparr>si_root := si_root x @ [(v, ti)]\<rparr>
      | KindPlain \<Rightarrow> x\<lparr>si_keyword := si_keyword x @ [(ti, v)]\<rparr>
      | KindRegex \<Rightarrow> (case rx (e_value e) of None \<Rightarrow> x | Some m \<Rightarrow> x\<lparr>si_regex := si_regex x @ [(ti, m)]\<rparr>)
      | kindUnknown \<Rightarrow> x)"

fun site_index_loop ::
  "wire \<Rightarrow> (string \<Rightarrow> (string \<Rightarrow> bool) option) \<Rightarrow> file_view \<Rightarrow> nat \<Rightarrow> string list \<Rightarrow> site_index \<Rightarrow> site \<Rightarrow>
     (site_index \<times> site) option" where
  "site_index_loop W rx fv i [] x src = Some (x, src)"
| "site_index_loop W rx fv i (t # ts) x src =
     Option.bind (EntriesUncached W fv t src) (\<lambda>(res, src). case res of
         Inl _ \<Rightarrow> site_index_loop W rx fv (Suc i) ts x src
       | Inr es \<Rightarrow> site_index_loop W rx fv (Suc i) ts (fold (index_entry rx (of_nat i)) es x) src)"

definition site_index_ensure ::
  "wire \<Rightarrow> (string \<Rightarrow> (string \<Rightarrow> bool) option) \<Rightarrow> file_view \<Rightarrow> site \<times> site_index \<Rightarrow>
     (unit outcome \<times> site \<times> site_index) option" where
  "site_index_ensure W rx fv s =
     (case s of (src, x) \<Rightarrow>
        (case Version fv of
           Inl e \<Rightarrow> Some (Inl e, src, x)
         | Inr ver \<Rightarrow>
             if si_tags x \<noteq> None \<and> ver = si_ver x then Some (Inr (), src, x)
             else Option.bind (Tags W fv src) (\<lambda>(res, src). case res of
                 Inl e \<Rightarrow> Some (Inl e, src, x)
               | Inr all_tags \<Rightarrow>
                   (let tags = take 65535 all_tags in
                    map_option (\<lambda>(y, src).
                      (Inr (), src, y\<lparr>si_ver := ver, si_tags := Some tags,
                         si_full := sort_key fst (si_full y), si_root := sort_key fst (si_root y)\<rparr>))
                      (site_index_loop W rx fv 0 tags NewSiteIndex src)))))"

definition refsFor :: "(string \<times> tag_index) list \<Rightarrow> string \<Rightarrow> tag_index list" where
  "refsFor xs k =
     map snd (takeWhile (\<lambda>(key, _). key = k) (drop (sort_search (length xs) (\<lambda>i. k \<le> fst (xs ! i))) xs))"

text \<open>The root entries of the domain and of what follows each of its dots.\<close>

function root_refs :: "(string \<times> tag_index) list \<Rightarrow> string \<Rightarrow> tag_index list" where
  "root_refs root d =
     (if d = [] then []
      else refsFor root d @
        (case str_index d ''.'' of None \<Rightarrow> [] | Some i \<Rightarrow> root_refs root (drop (Suc i) d)))"
  by pat_completeness auto
termination
  by (relation "measure (\<lambda>(root, d). length d)") auto

declare root_refs.simps [simp del]

definition lookup_name :: "string \<Rightarrow> string" where
  "lookup_name domain = to_lower (trim_suffix (trim_space domain) ''.'')"

definition site_refs :: "site_index \<Rightarrow> string \<Rightarrow> tag_index list" where
  "site_refs x d =
     refsFor (si_full x) d @ root_refs (si_root x) d @
     map fst (filter (\<lambda>(_, v). str_contains d v) (si_keyword x)) @
     map fst (filter (\<lambda>(_, m). m d) (si_regex x))"

definition SiteLookup ::
  "wire \<Rightarrow> (string \<Rightarrow> (string \<Rightarrow> bool) option) \<Rightarrow> file_view \<Rightarrow> string \<Rightarrow> site \<times> site_index \<Rightarrow>
     (string list outcome \<times> site \<times> site_index) option" where
  "SiteLookup W rx fv domain s =
     Option.bind (site_index_ensure W rx fv s) (\<lambda>(res, src, x). case res of
         Inl e \<Rightarrow> Some (Inl e, src, x)
       | Inr _ \<Rightarrow>
           (let tags = (case si_tags x of None \<Rightarrow> [] | Some ts \<Rightarrow> ts) in
            Some (Inr (sort (map (\<lambda>ti. tags ! unat ti) (remdups (site_refs x (lookup_name domain))))), src, x)))"

subsection \<open>Labels\<close>

definition SplitHostPort :: "string \<Rightarrow> (string \<times> string) option" where
  "SplitHostPort s =
     (case last_index_byte s CHR '':'' of
        None \<Rightarrow> None
      | Some i \<Rightarrow>
          if length (filter (\<lambda>c. c = CHR '':'') s) > 1 \<and> \<not> has_prefix s ''['' then None
          else Some (take i s, drop (Suc i) s))"

text \<open>\<open>strings.Trim(host, "[]")\<close>\<close>

definition trim_brackets :: "string \<Rightarrow> string" where
  "trim_brackets s =
     rev (dropWhile (\<lambda>c. c \<in> {CHR ''['', CHR '']''}) (rev (dropWhile (\<lambda>c. c \<in> {CHR ''['', CHR '']''}) s)))"

text \<open>\<open>Labels\<close> on the answers of the two indexes; \<open>None\<close> is a nil index.\<close>

definition Labels ::
  "(string \<Rightarrow> string list outcome) option \<Rightarrow> (addr \<Rightarrow> string list outcome) option \<Rightarrow> string \<Rightarrow> string list" where
  "Labels site ip target =
     (let host = trim_brackets (case SplitHostPort target of None \<Rightarrow> target | Some (h, _) \<Rightarrow> h) in
      case parse_addr host of
        Some a \<Rightarrow>
          (case ip of
             None \<Rightarrow> []
           | Some f \<Rightarrow> (case f a of Inl _ \<Rightarrow> [] | Inr ts \<Rightarrow> map (\<lambda>t. ''geoip:'' @ t) ts))
      | None \<Rightarrow>
          (case site of
             None \<Rightarrow> []
           | Some f \<Rightarrow>
               if str_contains host ''.''
               then (case f host of Inl _ \<Rightarrow> [] | Inr ts \<Rightarrow> map (\<lambda>t. ''geosite:'' @ t) ts) else []))"

end
