(* ===== verification/GeoIndexFacts.thy ===== *)
theory GeoIndexFacts
  imports GeoIndex
begin

text \<open>What the searches of the reverse indexes find, and what an index holds of the file.\<close>

subsection \<open>Binary search\<close>

lemma search_loop_correct:
  assumes "i \<le> j" "\<And>k l. k \<le> l \<Longrightarrow> l < j \<Longrightarrow> f k \<Longrightarrow> f l"
  shows "i \<le> search_loop f i j \<and> search_loop f i j \<le> j \<and>
    (\<forall>k. i \<le> k \<and> k < search_loop f i j \<longrightarrow> \<not> f k) \<and> (\<forall>k. search_loop f i j \<le> k \<and> k < j \<longrightarrow> f k)"
  using assms
proof (induction f i j rule: search_loop.induct)
  case (1 f i j)
  let ?ok = "\<lambda>i r. i \<le> r \<and> r \<le> j \<and> (\<forall>k. i \<le> k \<and> k < r \<longrightarrow> \<not> f k) \<and> (\<forall>k. r \<le> k \<and> k < j \<longrightarrow> f k)"
  show ?case
  proof (cases "i < j")
    case True
    define h where "h = (i + j) div 2"
    have h: "i \<le> h" "h < j" using True by (auto simp: h_def)
    show ?thesis
    proof (cases "f h")
      case False
      have r: "?ok (Suc h) (search_loop f (Suc h) j)" using 1(1)[OF True h_def False] 1(4) h by simp
      have "\<not> f k" if "i \<le> k" "k < search_loop f (Suc h) j" for k
        using False 1(4)[of k h] h r that by (cases "k \<le> h") auto
      moreover have "search_loop f i j = search_loop f (Suc h) j"
        using True False by (simp add: search_loop.simps[of f i j] h_def Let_def)
      ultimately show ?thesis using r h by auto
    next
      case up: True
      then have up': "\<not> \<not> f h" by simp
      have r: "i \<le> search_loop f i h \<and> search_loop f i h \<le> h \<and> (\<forall>k. i \<le> k \<and> k < search_loop f i h \<longrightarrow> \<not> f k) \<and>
          (\<forall>k. search_loop f i h \<le> k \<and> k < h \<longrightarrow> f k)"
        using 1(2)[OF True h_def up'] 1(4) h by simp
      have "f k" if "search_loop f i h \<le> k" "k < j" for k
        using up 1(4)[of h k] r that by (cases "k < h") auto
      moreover have "search_loop f i j = search_loop f i h"
        using True up by (simp add: search_loop.simps[of f i j] h_def Let_def)
      ultimately show ?thesis using r h by auto
    qed
  next
    case False
    then show ?thesis using 1(3) by (auto simp: search_loop.simps)
  qed
qed

lemma sort_search_correct:
  assumes "\<forall>k l. k \<le> l \<and> l < n \<and> f k \<longrightarrow> f l"
  shows "sort_search n f \<le> n" "\<forall>m. m < sort_search n f \<longrightarrow> \<not> f m" "\<forall>m. sort_search n f \<le> m \<and> m < n \<longrightarrow> f m"
  using search_loop_correct[of 0 n f] assms by (auto simp: sort_search_def)

subsection \<open>Addresses\<close>

lemma scan_back_iff: "scan_back ps a n k \<longleftrightarrow> (\<exists>j<n. n - j \<le> k \<and> p_contains (ps ! j) a)"
proof (induction ps a n k rule: scan_back.induct)
  case (3 ps a j k)
  show ?case
  proof
    assume "scan_back ps a (Suc j) (Suc k)"
    then consider "p_contains (ps ! j) a" | i where "i < j" "j - i \<le> k" "p_contains (ps ! i) a" using 3 by auto
    then show "\<exists>i<Suc j. Suc j - i \<le> Suc k \<and> p_contains (ps ! i) a"
    proof cases
      case 1
      then show ?thesis by (intro exI[of _ j]) simp
    next
      case 2
      then show ?thesis by (intro exI[of _ i]) (auto simp: Suc_diff_le)
    qed
  next
    assume "\<exists>i<Suc j. Suc j - i \<le> Suc k \<and> p_contains (ps ! i) a"
    then obtain i where i: "i < Suc j" "Suc j - i \<le> Suc k" "p_contains (ps ! i) a" by blast
    show "scan_back ps a (Suc j) (Suc k)"
    proof (cases "i = j")
      case False
      then have "i < j" "j - i \<le> k" using i by auto
      then show ?thesis using 3 i by auto
    qed (use i in simp)
  qed
qed auto

lemma starts_mono:
  assumes "sorted (map p_addr ps)"
  shows "\<forall>k l. k \<le> l \<and> l < length ps \<and> a < p_addr (ps ! k) \<longrightarrow> a < p_addr (ps ! l)"
proof (intro allI impI, elim conjE)
  fix k l
  assume *: "k \<le> l" "l < length ps" "a < p_addr (ps ! k)"
  have "p_addr (ps ! k) \<le> p_addr (ps ! l)" using sorted_nth_mono[OF assms, of k l] *(1,2) by simp
  then show "a < p_addr (ps ! l)" using *(3) by (rule order_less_le_trans[rotated])
qed

lemmas starts = sort_search_correct[OF starts_mono]

lemma ip_tag_hit_sound:
  assumes "sorted (map p_addr ps)" "ip_tag_hit a ps"
  shows "\<exists>p\<in>set ps. p_contains p a"
proof -
  obtain j where "j < sort_search (length ps) (\<lambda>i. a < p_addr (ps ! i))" "p_contains (ps ! j) a"
    using assms(2) by (auto simp only: ip_tag_hit_def scan_back_iff)
  moreover from this(1) starts(1)[OF assms(1), of a] have "j < length ps" by (rule order_less_le_trans)
  ultimately show ?thesis by auto
qed

text \<open>The scan is exact unless more than 16 prefixes of the list start between a match and the address.\<close>

definition crowded :: "prefix list \<Rightarrow> addr \<Rightarrow> prefix \<Rightarrow> bool" where
  "crowded ps a p \<longleftrightarrow> length (filter (\<lambda>q. p_addr p \<le> p_addr q \<and> p_addr q \<le> a) ps) > 16"

lemma filter_middle: "length (filter P (drop j (take n xs))) \<le> length (filter P xs)"
proof -
  have "length (filter P (drop j ys)) \<le> length (filter P ys)" for ys
    by (metis append_take_drop_id filter_append length_append le_add2)
  moreover have "length (filter P (take n xs)) \<le> length (filter P xs)"
    by (metis append_take_drop_id filter_append length_append le_add1)
  ultimately show ?thesis by (rule le_trans)
qed

lemma ip_tag_hit_complete:
  assumes sorted: "sorted (map p_addr ps)" and p: "p \<in> set ps" "p_contains p a" "p_addr p \<le> a" "\<not> crowded ps a p"
  shows "ip_tag_hit a ps"
proof -
  let ?f = "\<lambda>i. a < p_addr (ps ! i)" and ?s = "sort_search (length ps) (\<lambda>i. a < p_addr (ps ! i))"
  let ?P = "\<lambda>q. p_addr p \<le> p_addr q \<and> p_addr q \<le> a"
  note s = starts[OF sorted, of a]
  obtain j where j: "j < length ps" "ps ! j = p" using p(1) by (metis in_set_conv_nth)
  have "j < ?s" using s(3) j p(3) by (metis not_le)
  have "?P q" if q: "q \<in> set (drop j (take ?s ps))" for q
  proof -
    obtain i where i: "i < length (drop j (take ?s ps))" "q = drop j (take ?s ps) ! i"
      using q unfolding in_set_conv_nth by blast
    then have n: "j + i < ?s" "j + i < length ps" "q = ps ! (j + i)" using \<open>j < ?s\<close> by (simp_all add: nth_drop nth_take)
    have "p_addr p \<le> p_addr q" using sorted_nth_mono[OF sorted, of j "j + i"] n j
      by (simp del: less_eq_addr_code)
    moreover have "\<not> a < p_addr q" using s(2) n by blast
    ultimately show ?thesis by (simp only: not_less simp_thms)
  qed
  then have "filter ?P (drop j (take ?s ps)) = drop j (take ?s ps)" by (simp add: filter_id_conv)
  moreover have "length (filter ?P (drop j (take ?s ps))) \<le> length (filter ?P ps)" by (rule filter_middle)
  moreover have "length (drop j (take ?s ps)) = ?s - j" using s(1) by simp
  ultimately have "?s - j \<le> 16" using p(4) by (simp add: crowded_def)
  then show ?thesis using \<open>j < ?s\<close> j p(2) unfolding ip_tag_hit_def scan_back_iff by blast
qed

lemma mask_to_le: "mask_to b w \<le> w" for w :: "'a::len word"
proof -
  have "mask_to b w = w AND mask_to b w"
    unfolding mask_to_def by (rule bit_word_eqI) (auto simp: bit_push_bit_iff bit_drop_bit_eq bit_and_iff)
  then show ?thesis by (metis word_and_le2 word_and_le1)
qed

lemma uint_mask_to_le: "uint (mask_to b w) \<le> uint w" for w :: "'a::len word"
  using mask_to_le by (simp add: word_le_def)

lemma same_net_start:
  "b \<le> LENGTH('a) \<Longrightarrow> same_net b x (mask_to b y) \<Longrightarrow> uint (mask_to b y) \<le> uint x" for x y :: "'a::len word"
  using uint_mask_to_le[of b x] mask_to_eq_iff[of b x y] same_net_mask_to[of b x y] by simp

lemma contains_start:
  assumes "p_contains (masked q) a"
  shows "p_addr (masked q) \<le> a"
proof (cases a)
  case (V4 x)
  then show ?thesis using assms
    by (cases "p_addr q") (auto simp: masked_def prefix_from_def zero_prefix_def prefix_valid_def
      intro!: same_net_start split: if_splits)
next
  case (V6 x z)
  then show ?thesis using assms
    by (cases "p_addr q") (auto simp: masked_def prefix_from_def zero_prefix_def prefix_valid_def
      intro!: same_net_start split: if_splits)
qed (use assms in simp)


subsection \<open>What the decoders produce\<close>

lemma slice_shorter: "slice_from n msg = Some m \<Longrightarrow> length m \<le> length msg \<and> (n \<noteq> 0 \<longrightarrow> msg \<noteq> [] \<longrightarrow> length m < length msg)"
  by (auto simp: slice_from_def split: if_splits)

lemma advance_Some:
  assumes "advance W n msg k = Some (Inr y)"
  obtains m where "length m \<le> length msg" "n \<noteq> 0 \<Longrightarrow> msg \<noteq> [] \<Longrightarrow> length m < length msg" "k m = Some (Inr y)"
  using assms slice_shorter by (auto simp: advance_def split: if_splits Option.bind_split_asm)

lemma tag_Some:
  assumes "wire_bounded W" "msg \<noteq> []" "w_tag W msg = (num, ty, n)" "advance W n msg k = Some (Inr y)"
  obtains m where "length m < length msg" "k m = Some (Inr y)"
proof -
  have "n \<noteq> 0" using assms(1,3) by (auto simp: wire_bounded_def dest: spec[of _ msg])
  then show thesis using advance_Some[OF assms(4)] assms(2) that by blast
qed

lemma splitList_step:
  assumes "wire_bounded W" "splitList W out data = Some (Inr m)" "data \<noteq> []"
  obtains out' data' where "length data' < length data" "splitList W out' data' = Some (Inr m)"
    "out' = out \<or> (\<exists>tag msg. out' = al_put (to_lower tag) msg out)"
proof -
  obtain num ty n where t: "w_tag W data = (num, ty, n)" by (cases "w_tag W data") auto
  obtain rest where rest: "length rest < length data"
    "(if num \<noteq> 1 \<or> ty \<noteq> BytesType then advance W (w_field W num ty rest) rest (splitList W out)
      else (case w_bytes W rest of (msg, n) \<Rightarrow> advance W n rest (\<lambda>data.
        Option.bind (readStringField W 1 msg) (\<lambda>r. case r of Inl e \<Rightarrow> Some (Inl e)
          | Inr tag \<Rightarrow> if tag = [] then splitList W out data
                     else splitList W (al_put (to_lower tag) msg out) data)))) = Some (Inr m)"
    using assms(2,3) unfolding splitList.simps[of W out data] t prod.case
    by (auto elim: tag_Some[OF assms(1,3) t])
  show thesis
  proof (cases "num \<noteq> 1 \<or> ty \<noteq> BytesType")
    case True
    then obtain r where "length r \<le> length rest" "splitList W out r = Some (Inr m)"
      using rest(2) by (auto elim: advance_Some)
    then show thesis using rest(1) that[of r out] by simp
  next
    case False
    obtain msg k where b: "w_bytes W rest = (msg, k)" by fastforce
    then obtain r where r: "length r \<le> length rest"
      "Option.bind (readStringField W 1 msg) (\<lambda>x. case x of Inl e \<Rightarrow> Some (Inl e)
          | Inr tag \<Rightarrow> if tag = [] then splitList W out r else splitList W (al_put (to_lower tag) msg out) r) = Some (Inr m)"
      using rest(2) False by (auto elim: advance_Some)
    then obtain tag where "(if tag = [] then splitList W out r else splitList W (al_put (to_lower tag) msg out) r) = Some (Inr m)"
      by (auto split: Option.bind_split_asm sum.split_asm)
    then show thesis using r(1) rest(1) that[of r out] that[of r "al_put (to_lower tag) msg out"] by (auto split: if_splits)
  qed
qed

lemma splitList_keys:
  assumes "wire_bounded W"
  shows "splitList W out data = Some (Inr m) \<Longrightarrow> distinct (map fst out) \<Longrightarrow> \<forall>t\<in>fst ` set out. to_lower t = t \<Longrightarrow>
    distinct (map fst m) \<and> (\<forall>t\<in>fst ` set m. to_lower t = t)"
proof (induction data arbitrary: out rule: measure_induct_rule[of length])
  case (less data)
  show ?case
  proof (cases "data = []")
    case True
    then show ?thesis using less.prems by (simp add: splitList.simps)
  next
    case False
    from splitList_step[OF assms less.prems(1) this] obtain out' data' where
      1: "length data' < length data" "splitList W out' data' = Some (Inr m)"
        "out' = out \<or> (\<exists>tag msg. out' = al_put (to_lower tag) msg out)" .
    have "distinct (map fst out')" using 1(3) less.prems(2) by auto
    moreover have "\<forall>t\<in>fst ` set out'. to_lower t = t"
      using 1(3) less.prems(3) by (elim disjE exE) (simp_all only: keys_al_put ball_simps to_lower_idem simp_thms)
    ultimately show ?thesis by (rule less.IH[OF 1(1,2)])
  qed
qed


text \<open>The values of decoded entries are in lower case and not empty, decoded prefixes are masked.\<close>

lemma domain_loop_lower:
  assumes "wire_bounded W"
  shows "domain_loop W e msg = Some (Inr e') \<Longrightarrow> to_lower (re_value e) = re_value e \<Longrightarrow> to_lower (re_value e') = re_value e'"
proof (induction msg arbitrary: e rule: measure_induct_rule[of length])
  case (less msg)
  show ?case
  proof (cases "msg = []")
    case True
    then show ?thesis using less.prems by (simp add: domain_loop.simps)
  next
    case False
    obtain num ty n where t: "w_tag W msg = (num, ty, n)" by (cases "w_tag W msg") auto
    let ?low = "\<lambda>e. to_lower (re_value e) = re_value e"
    have next_step: "?low e'" if m: "length m < length msg" "advance W k m (domain_loop W e1) = Some (Inr e')" "?low e1" for m k e1
    proof -
      from m(2) obtain m' where "length m' \<le> length m" "domain_loop W e1 m' = Some (Inr e')" by (rule advance_Some)
      then show ?thesis using less.IH[of m' e1] m(1,3) by simp
    qed
    obtain m where m: "length m < length msg"
      "(if num = 1 \<and> ty = VarintType
        then (case w_varint W m of (v, n) \<Rightarrow> advance W n m (domain_loop W (e\<lparr>re_kind := go_int v\<rparr>)))
        else if num = 2 \<and> ty = BytesType
        then (case w_bytes W m of (v, n) \<Rightarrow> advance W n m (domain_loop W (e\<lparr>re_value := to_lower v\<rparr>)))
        else if num = 3 \<and> ty = BytesType
        then (case w_bytes W m of (v, n) \<Rightarrow>
                advance W n m (\<lambda>msg. Option.bind (readStringField W 1 v) (\<lambda>r. case r of
                    Inl _ \<Rightarrow> domain_loop W e msg
                  | Inr key \<Rightarrow> if key = [] then domain_loop W e msg
                             else domain_loop W (e\<lparr>re_attrs := re_attrs e @ [key]\<rparr>) msg)))
        else advance W (w_field W num ty m) m (domain_loop W e)) = Some (Inr e')"
      using less.prems(1) False unfolding domain_loop.simps[of W e msg] t prod.case
      by (auto elim: tag_Some[OF assms False t])
    consider (kind) v k where "advance W k m (domain_loop W (e\<lparr>re_kind := go_int v\<rparr>)) = Some (Inr e')"
      | (val) v k where "advance W k m (domain_loop W (e\<lparr>re_value := to_lower v\<rparr>)) = Some (Inr e')"
      | (attr) v k where "advance W k m (\<lambda>msg. Option.bind (readStringField W 1 v) (\<lambda>r. case r of
                    Inl _ \<Rightarrow> domain_loop W e msg
                  | Inr key \<Rightarrow> if key = [] then domain_loop W e msg
                             else domain_loop W (e\<lparr>re_attrs := re_attrs e @ [key]\<rparr>) msg)) = Some (Inr e')"
      | (skip) k where "advance W k m (domain_loop W e) = Some (Inr e')"
      using m(2) by (auto split: if_split_asm prod.split_asm)
    then show ?thesis
    proof cases
      case kind
      then show ?thesis using next_step[OF m(1)] less.prems(2) by simp
    next
      case val
      then show ?thesis using next_step[OF m(1)] by simp
    next
      case attr
      then obtain m' where "length m' \<le> length m" "Option.bind (readStringField W 1 v) (\<lambda>r. case r of
                    Inl _ \<Rightarrow> domain_loop W e m'
                  | Inr key \<Rightarrow> if key = [] then domain_loop W e m'
                             else domain_loop W (e\<lparr>re_attrs := re_attrs e @ [key]\<rparr>) m') = Some (Inr e')"
        by (auto elim: advance_Some)
      then obtain e1 where "domain_loop W e1 m' = Some (Inr e')" "?low e1"
        using less.prems(2) by (auto split: Option.bind_split_asm sum.split_asm if_split_asm)
      then show ?thesis using less.IH[of m' e1] \<open>length m' \<le> length m\<close> m(1) by simp
    next
      case skip
      then show ?thesis using next_step[OF m(1)] less.prems(2) by simp
    qed
  qed
qed

lemma decodeDomain_lower: "wire_bounded W \<Longrightarrow> decodeDomain W msg = Some (Inr e) \<Longrightarrow> to_lower (e_value e) = e_value e"
  by (auto simp: decodeDomain_def finish_entry_def to_lower_def dest!: domain_loop_lower)


lemma decodeGeoSite_values:
  assumes "wire_bounded W"
  shows "decodeGeoSite W out msg = Some (Inr es) \<Longrightarrow>
    \<forall>e\<in>set out. to_lower (e_value e) = e_value e \<and> e_value e \<noteq> [] \<Longrightarrow>
    \<forall>e\<in>set es. to_lower (e_value e) = e_value e \<and> e_value e \<noteq> []"
proof (induction msg arbitrary: out rule: measure_induct_rule[of length])
  case (less msg)
  show ?case
  proof (cases "msg = []")
    case True
    then show ?thesis using less.prems by (simp add: decodeGeoSite.simps)
  next
    case False
    obtain num ty n where t: "w_tag W msg = (num, ty, n)" by (cases "w_tag W msg") auto
    let ?domain = "\<lambda>dm msg. Option.bind (decodeDomain W dm) (\<lambda>r. case r of Inl e \<Rightarrow> Some (Inl e)
      | Inr e \<Rightarrow> if e_value e = [] then decodeGeoSite W out msg else decodeGeoSite W (out @ [e]) msg)"
    obtain m where m: "length m < length msg"
      "(if num \<noteq> 2 \<or> ty \<noteq> BytesType then advance W (w_field W num ty m) m (decodeGeoSite W out)
        else (case w_bytes W m of (dm, n) \<Rightarrow> advance W n m (?domain dm))) = Some (Inr es)"
      using less.prems(1) False unfolding decodeGeoSite.simps[of W out msg] t prod.case
      by (auto elim: tag_Some[OF assms False t])
    consider (skip) k where "advance W k m (decodeGeoSite W out) = Some (Inr es)"
      | (entry) dm k where "advance W k m (?domain dm) = Some (Inr es)"
      using m(2) by (auto split: if_split_asm prod.split_asm)
    then show ?thesis
    proof cases
      case skip
      then obtain m' where "length m' \<le> length m" "decodeGeoSite W out m' = Some (Inr es)" by (rule advance_Some)
      then show ?thesis using less.IH[of m' out] m(1) less.prems(2) by simp
    next
      case entry
      then obtain m' where m': "length m' \<le> length m" "?domain dm m' = Some (Inr es)" by (rule advance_Some)
      then obtain e where e: "decodeDomain W dm = Some (Inr e)"
        "(if e_value e = [] then decodeGeoSite W out m' else decodeGeoSite W (out @ [e]) m') = Some (Inr es)"
        by (auto split: Option.bind_split_asm sum.split_asm)
      show ?thesis
      proof (cases "e_value e = []")
        case True
        then show ?thesis using less.IH[of m' out] m(1) m'(1) e(2) less.prems(2) by simp
      next
        case False
        then show ?thesis
          using less.IH[of m' "out @ [e]"] m(1) m'(1) e(2) less.prems(2) decodeDomain_lower[OF assms e(1)] by simp
      qed
    qed
  qed
qed

lemma geoip_loop_masked:
  assumes "wire_bounded W"
  shows "geoip_loop W out msg = Some (Inr ps) \<Longrightarrow> \<forall>p\<in>set out. \<exists>q. p = masked q \<Longrightarrow> \<forall>p\<in>set ps. \<exists>q. p = masked q"
proof (induction msg arbitrary: out rule: measure_induct_rule[of length])
  case (less msg)
  show ?case
  proof (cases "msg = []")
    case True
    then show ?thesis using less.prems by (simp add: geoip_loop.simps)
  next
    case False
    obtain num ty n where t: "w_tag W msg = (num, ty, n)" by (cases "w_tag W msg") auto
    let ?cidr = "\<lambda>cm msg. Option.bind (cidr_loop W [] 0 cm) (\<lambda>r. case r of Inl e \<Rightarrow> Some (Inl e)
      | Inr (ip, bits) \<Rightarrow> (case cidr_prefix ip bits of None \<Rightarrow> geoip_loop W out msg | Some p \<Rightarrow> geoip_loop W (out @ [p]) msg))"
    obtain m where m: "length m < length msg"
      "(if num \<noteq> 2 \<or> ty \<noteq> BytesType then advance W (w_field W num ty m) m (geoip_loop W out)
        else (case w_bytes W m of (cm, n) \<Rightarrow> advance W n m (?cidr cm))) = Some (Inr ps)"
      using less.prems(1) False unfolding geoip_loop.simps[of W out msg] t prod.case
      by (auto elim: tag_Some[OF assms False t])
    consider (skip) k where "advance W k m (geoip_loop W out) = Some (Inr ps)"
      | (entry) cm k where "advance W k m (?cidr cm) = Some (Inr ps)"
      using m(2) by (auto split: if_split_asm prod.split_asm)
    then show ?thesis
    proof cases
      case skip
      then obtain m' where "length m' \<le> length m" "geoip_loop W out m' = Some (Inr ps)" by (rule advance_Some)
      then show ?thesis using less.IH[of m' out] m(1) less.prems(2) by simp
    next
      case entry
      then obtain m' where m': "length m' \<le> length m" "?cidr cm m' = Some (Inr ps)" by (rule advance_Some)
      then obtain ip bits where e:
        "(case cidr_prefix ip bits of None \<Rightarrow> geoip_loop W out m' | Some p \<Rightarrow> geoip_loop W (out @ [p]) m') = Some (Inr ps)"
        by (auto split: Option.bind_split_asm sum.split_asm)
      show ?thesis
      proof (cases "cidr_prefix ip bits")
        case None
        then show ?thesis using less.IH[of m' out] m(1) m'(1) e less.prems(2) by simp
      next
        case (Some p)
        then have "\<exists>q. p = masked q" by (auto simp: cidr_prefix_def split: option.splits if_splits)
        then show ?thesis using Some less.IH[of m' "out @ [p]"] m(1) m'(1) e less.prems(2) by simp
      qed
    qed
  qed
qed

lemma decodeGeoIP_masked:
  "wire_bounded W \<Longrightarrow> decodeGeoIP W msg = Some (Inr ps) \<Longrightarrow> p \<in> set ps \<Longrightarrow> \<exists>q. p = masked q"
  by (auto simp: decodeGeoIP_def dest!: geoip_loop_masked)


subsection \<open>The address index\<close>

definition loaded ::
  "wire \<Rightarrow> (string \<Rightarrow> 'a list outcome option) \<Rightarrow> (string \<times> string) list \<Rightarrow> int \<times> time \<Rightarrow> 'a geo_reader \<Rightarrow> bool" where
  "loaded W decode m i src \<longleftrightarrow> rd_raw src = Some m \<and> rd_id src = i \<and> (\<exists>content. cache_ok W decode content src)"

text \<open>The row of a tag, if the tag can be decoded.\<close>

definition ip_row :: "wire \<Rightarrow> (string \<times> string) list \<Rightarrow> string \<Rightarrow> (string \<times> prefix list) option" where
  "ip_row W m t = (case Option.bind (map_of m t) (decodeGeoIP W) of
     Some (Inr ps) \<Rightarrow> Some (t, sort_key p_addr ps) | _ \<Rightarrow> None)"

lemma ip_row_Some:
  "ip_row W m t = Some (t', ps) \<longleftrightarrow>
     t' = t \<and> (\<exists>b qs. map_of m t = Some b \<and> decodeGeoIP W b = Some (Inr qs) \<and> ps = sort_key p_addr qs)"
proof (cases "map_of m t")
  case (Some b)
  then show ?thesis
  proof (cases "decodeGeoIP W b")
    case r: (Some r)
    then show ?thesis using Some by (cases r) (auto simp: ip_row_def)
  qed (auto simp: ip_row_def)
qed (auto simp: ip_row_def)

lemma ip_row_fst: "ip_row W m t = Some p \<Longrightarrow> fst p = t"
  by (cases p) (simp add: ip_row_Some)

lemma ip_index_loop_rows:
  assumes W: "wire_bounded W" and fv: "fv_stat fv = Inr i"
  shows "loaded W (decodeGeoIP W) m i src \<Longrightarrow> distinct ts \<Longrightarrow> \<forall>t\<in>set ts. to_lower t = t \<Longrightarrow>
    fst ` set idx \<inter> set ts = {} \<Longrightarrow>
    \<exists>src'. ip_index_loop W fv ts idx src = Some (idx @ List.map_filter (ip_row W m) ts, src') \<and> loaded W (decodeGeoIP W) m i src'"
proof (induction ts arbitrary: idx src)
  case Nil
  then show ?case by (simp add: List.map_filter_simps)
next
  case (Cons t ts)
  obtain content where ok: "cache_ok W (decodeGeoIP W) content src" "rd_raw src = Some m" "rd_id src = i"
    using Cons.prems(1) by (auto simp: loaded_def)
  have fv': "fv_stat fv = Inr (rd_id src)" using fv ok(3) by simp
  obtain res src1 where g: "with_ready (load_file W fv src) (decode_tag ''geoip'' (decodeGeoIP W) t) = Some (res, src1)"
      "cache_ok W (decodeGeoIP W) content src1" "rd_raw src1 = Some m" "rd_id src1 = rd_id src"
    and res: "\<And>es. res = Inr es \<longleftrightarrow> (\<exists>b. map_of m t = Some b \<and> decodeGeoIP W b = Some (Inr es))"
    using ips.loaded_get[OF W ok(1,2) fv', of "''geoip''" t] by blast
  have get: "CIDRs W fv t src = Some (res, src1)" using g(1) Cons.prems(3) by (simp add: CIDRs_def ip_ensure_def)
  have ld: "loaded W (decodeGeoIP W) m i src1" using g ok(3) by (auto simp: loaded_def)
  show ?case
  proof (cases res)
    case (Inl e)
    then have none: "ip_row W m t = None" using res by (cases "ip_row W m t") (auto dest!: ip_row_Some[THEN iffD1])
    show ?thesis using Cons.IH[OF ld, of idx] Cons.prems(2-4) get Inl none
      by (simp add: List.map_filter_simps)
  next
    case (Inr ps)
    then have row: "ip_row W m t = Some (t, sort_key p_addr ps)" using res[of ps] by (auto simp: ip_row_def)
    have new: "al_put t (sort_key p_addr ps) idx = idx @ [(t, sort_key p_addr ps)]"
      using Cons.prems(4) by (intro al_put_new) auto
    show ?thesis
      using Cons.IH[OF ld, of "idx @ [(t, sort_key p_addr ps)]"] Cons.prems(2-4) get Inr row
      by (simp add: List.map_filter_simps new)
  qed
qed

lemma ip_rows_keys: "(t, ps) \<in> set (List.map_filter (ip_row W m) ts) \<longleftrightarrow>
    t \<in> set ts \<and> (\<exists>b qs. map_of m t = Some b \<and> decodeGeoIP W b = Some (Inr qs) \<and> ps = sort_key p_addr qs)"
  by (auto simp: set_map_filter_iff ip_row_Some)

lemma map_fst_rows: "map fst (List.map_filter (ip_row W m) ts) = filter (\<lambda>t. ip_row W m t \<noteq> None) ts"
proof (induction ts)
  case (Cons t ts)
  then show ?case by (cases "ip_row W m t") (auto simp: List.map_filter_simps dest: ip_row_fst)
qed (simp add: List.map_filter_simps)

lemma distinct_map_fst_filter: "distinct (map fst xs) \<Longrightarrow> distinct (map fst (filter P xs))"
  by (induction xs) (auto)

lemma IPLookup_new:
  assumes W: "wire_bounded W" and fv: "fv_stat fv = Inr i" "fv_data fv = Inr d" and m: "splitList W [] d = Some (Inr m)"
  shows "\<exists>out s'. IPLookup W fv a (OpenIP path, NewIPIndex) = Some (Inr out, s') \<and> sorted out \<and> distinct out \<and>
    set out = {t. \<exists>b ps. map_of m t = Some b \<and> decodeGeoIP W b = Some (Inr ps) \<and> ip_tag_hit (unmap a) (sort_key p_addr ps)}"
proof -
  let ?src = "(OpenIP path)\<lparr>rd_raw := Some m, rd_decoded := Map.empty, rd_id := i\<rparr>"
  obtain ver where ver: "IPVersion fv = Inr ver" using fv(1) by (cases i) (simp add: IPVersion_def)
  have tags: "IPTags W fv (OpenIP path) = Some (Inr (sort (map fst m)), ?src)"
    using fv m by (simp add: IPTags_def ip_ensure_def load_file_def OpenIP_def open_reader_def with_ready_def raw_tags_def)
  have keys: "distinct (map fst m)" "\<forall>t\<in>fst ` set m. to_lower t = t" using splitList_keys[OF W m] by simp_all
  have "cache_ok W (decodeGeoIP W) (\<lambda>_. d) ?src" using m by (simp add: cache_ok_def)
  then have "loaded W (decodeGeoIP W) m i ?src" by (auto simp: loaded_def)
  then obtain src' where loop: "ip_index_loop W fv (sort (map fst m)) [] ?src =
      Some (List.map_filter (ip_row W m) (sort (map fst m)), src')"
    using ip_index_loop_rows[OF W fv(1), of m ?src "sort (map fst m)" "[]"] keys by auto
  let ?rows = "List.map_filter (ip_row W m) (sort (map fst m))"
  let ?out = "sort (map fst (filter (\<lambda>(_, ps). ip_tag_hit (unmap a) ps) ?rows))"
  have "IPLookup W fv a (OpenIP path, NewIPIndex) = Some (Inr ?out, src', \<lparr>ii_ver = ver, ii_tags = Some ?rows\<rparr>)"
    by (simp add: IPLookup_def ip_index_ensure_def NewIPIndex_def ver tags loop)
  moreover have "distinct ?out" using keys(1) by (simp add: distinct_map_fst_filter map_fst_rows)
  moreover have "t \<in> set ?out \<longleftrightarrow> (\<exists>b ps. map_of m t = Some b \<and> decodeGeoIP W b = Some (Inr ps) \<and>
      ip_tag_hit (unmap a) (sort_key p_addr ps))" for t
  proof -
    have "t \<in> set ?out \<longleftrightarrow> (\<exists>ps. (t, ps) \<in> set ?rows \<and> ip_tag_hit (unmap a) ps)" by (auto simp: image_iff)
    also have "\<dots> \<longleftrightarrow> (\<exists>b ps. map_of m t = Some b \<and> decodeGeoIP W b = Some (Inr ps) \<and> ip_tag_hit (unmap a) (sort_key p_addr ps))"
      unfolding ip_rows_keys by (auto dest: map_of_SomeD intro!: image_eqI[of _ fst])
    finally show ?thesis .
  qed
  ultimately show ?thesis by (intro exI[of _ ?out] exI) (simp add: set_eq_iff)
qed

end
