(* ===== verification/GeoSiteFacts.thy ===== *)
theory GeoSiteFacts
  imports GeoIndexFacts
begin

text \<open>The domain index finds exactly the tags with an entry that matches the way the trace matches.\<close>

subsection \<open>Sorted references\<close>

lemma takeWhile_sorted:
  fixes xs :: "('k::linorder \<times> 'b) list"
  shows "sorted (map fst xs) \<Longrightarrow> \<forall>x\<in>set xs. k \<le> fst x \<Longrightarrow>
    set (takeWhile (\<lambda>(key, _). key = k) xs) = {x \<in> set xs. fst x = k}"
proof (induction xs)
  case (Cons x xs)
  show ?case
  proof (cases "fst x = k")
    case True
    then show ?thesis using Cons by (auto simp: case_prod_beta)
  next
    case False
    then have "k < fst x" using Cons.prems(2) by auto
    then have "\<forall>y\<in>set xs. fst y \<noteq> k" using Cons.prems(1) by auto
    then show ?thesis using False by (auto simp: case_prod_beta)
  qed
qed simp

lemma set_refsFor:
  assumes "sorted (map fst xs)"
  shows "set (refsFor xs k) = {ti. (k, ti) \<in> set xs}"
proof -
  let ?n = "sort_search (length xs) (\<lambda>i. k \<le> fst (xs ! i))"
  have "\<forall>i l. i \<le> l \<and> l < length xs \<and> k \<le> fst (xs ! i) \<longrightarrow> k \<le> fst (xs ! l)"
  proof (intro allI impI, elim conjE)
    fix i l
    assume "i \<le> l" "l < length xs" "k \<le> fst (xs ! i)"
    moreover from this have "fst (xs ! i) \<le> fst (xs ! l)" using sorted_nth_mono[OF assms, of i l] by simp
    ultimately show "k \<le> fst (xs ! l)" by (meson order_trans)
  qed
  note n = sort_search_correct[OF this]
  have before: "x \<in> set (take ?n xs) \<Longrightarrow> fst x \<noteq> k" for x
    using n(1,2) by (auto simp: in_set_conv_nth)
  have after: "\<forall>x\<in>set (drop ?n xs). k \<le> fst x"
  proof
    fix x
    assume "x \<in> set (drop ?n xs)"
    then obtain i where "i < length xs - ?n" "x = xs ! (?n + i)" using n(1) by (auto simp: in_set_conv_nth)
    then show "k \<le> fst x" using n(3) by simp
  qed
  have "sorted (map fst (drop ?n xs))" using assms by (simp add: drop_map[symmetric] sorted_wrt_drop)
  from takeWhile_sorted[OF this after]
  have "set (refsFor xs k) = snd ` {x \<in> set (drop ?n xs). fst x = k}" by (simp add: refsFor_def)
  also have "{x \<in> set (drop ?n xs). fst x = k} = {x \<in> set xs. fst x = k}"
    using before by (metis (no_types, lifting) Collect_cong Un_iff append_take_drop_id set_append)
  finally show ?thesis by (auto simp: image_iff)
qed

lemma str_index_dot:
  "str_index d ''.'' = None \<longleftrightarrow> CHR ''.'' \<notin> set d"
  "str_index d ''.'' = Some i \<Longrightarrow> d = take i d @ CHR ''.'' # drop (Suc i) d \<and> CHR ''.'' \<notin> set (take i d)"
proof (induction d arbitrary: i)
  case (Cons c d)
  {
    case 1
    show ?case using Cons.IH(1) by simp
  next
    case 2
    then show ?case using Cons.IH(2) by (cases i) (auto split: if_splits)
  }
qed simp_all

lemma has_suffix_dot_append:
  assumes "CHR ''.'' \<notin> set p"
  shows "has_suffix (p @ CHR ''.'' # r) (CHR ''.'' # v) \<longleftrightarrow> r = v \<or> has_suffix r (CHR ''.'' # v)"
proof
  assume "has_suffix (p @ CHR ''.'' # r) (CHR ''.'' # v)"
  then obtain q where q: "p @ CHR ''.'' # r = q @ CHR ''.'' # v" by (auto simp: has_suffix_iff)
  then consider us where "p = q @ us" "us @ CHR ''.'' # r = CHR ''.'' # v"
    | us where "p @ us = q" "CHR ''.'' # r = us @ CHR ''.'' # v" by (auto simp: append_eq_append_conv2)
  then show "r = v \<or> has_suffix r (CHR ''.'' # v)"
  proof cases
    case 1
    then show ?thesis using assms by (cases us) auto
  next
    case 2
    then show ?thesis by (cases us) (auto simp: has_suffix_iff)
  qed
next
  assume "r = v \<or> has_suffix r (CHR ''.'' # v)"
  then show "has_suffix (p @ CHR ''.'' # r) (CHR ''.'' # v)"
    by (auto simp: has_suffix_iff)
qed

lemma set_root_refs:
  assumes "sorted (map fst root)"
  shows "set (root_refs root d) = {ti. \<exists>v. (v, ti) \<in> set root \<and> v \<noteq> [] \<and> (d = v \<or> has_suffix d (CHR ''.'' # v))}"
proof (induction d rule: measure_induct_rule[of length])
  case (less d)
  show ?case
  proof (cases "d = []")
    case True
    then show ?thesis by (auto simp: root_refs.simps has_suffix_iff)
  next
    case False
    show ?thesis
    proof (cases "str_index d ''.''")
      case None
      then have "\<not> has_suffix d (CHR ''.'' # v)" for v using str_index_dot(1)[of d] by (auto simp: has_suffix_iff)
      then show ?thesis using False None by (auto simp: root_refs.simps[of root d] set_refsFor[OF assms])
    next
      case (Some i)
      note d = str_index_dot(2)[OF Some]
      have "has_suffix d (CHR ''.'' # v) \<longleftrightarrow> drop (Suc i) d = v \<or> has_suffix (drop (Suc i) d) (CHR ''.'' # v)" for v
        using has_suffix_dot_append[of "take i d" "drop (Suc i) d" v] d by metis
      moreover have "length (drop (Suc i) d) < length d" using False by (cases d) auto
      ultimately show ?thesis using less[of "drop (Suc i) d"] False Some
        by (auto simp: root_refs.simps[of root d] set_refsFor[OF assms])
    qed
  qed
qed


subsection \<open>What the index holds\<close>

text \<open>The tag indexes a domain hits, whatever the order of the entries.\<close>

definition hits :: "site_index \<Rightarrow> string \<Rightarrow> tag_index set" where
  "hits x d = {ti. (d, ti) \<in> set (si_full x)} \<union>
     {ti. \<exists>v. (v, ti) \<in> set (si_root x) \<and> v \<noteq> [] \<and> (d = v \<or> has_suffix d (CHR ''.'' # v))} \<union>
     {ti. \<exists>v. (ti, v) \<in> set (si_keyword x) \<and> str_contains d v} \<union>
     {ti. \<exists>f. (ti, f) \<in> set (si_regex x) \<and> f d}"

lemma set_site_refs:
  "sorted (map fst (si_full x)) \<Longrightarrow> sorted (map fst (si_root x)) \<Longrightarrow> set (site_refs x d) = hits x d"
  by (auto simp: site_refs_def hits_def set_refsFor set_root_refs image_iff)

definition entry_low :: "entry \<Rightarrow> bool" where
  "entry_low e \<longleftrightarrow> to_lower (e_value e) = e_value e \<and> e_value e \<noteq> []"

lemma hits_index_entry:
  assumes "entry_low e"
  shows "hits (index_entry (ts_regex S) ti e x) d = hits x d \<union> (if entryMatches S e d then {ti} else {})"
  using assms by (cases "e_kind e")
    (auto simp: index_entry_def hits_def entryMatches_def entry_low_def Let_def split: option.split)

lemma hits_fold:
  "\<forall>e\<in>set es. entry_low e \<Longrightarrow>
     hits (fold (index_entry (ts_regex S) ti) es x) d = hits x d \<union> (if \<exists>e\<in>set es. entryMatches S e d then {ti} else {})"
  by (induction es arbitrary: x) (auto simp: hits_index_entry)

text \<open>The entries of a tag of the file, if it can be decoded.\<close>

definition tag_matches :: "wire \<Rightarrow> trace_sources \<Rightarrow> (string \<times> string) list \<Rightarrow> string \<Rightarrow> string \<Rightarrow> bool" where
  "tag_matches W S m d t \<longleftrightarrow>
     (\<exists>b es. map_of m t = Some b \<and> decodeGeoSite W [] b = Some (Inr es) \<and> (\<exists>e\<in>set es. entryMatches S e d))"

lemma loaded_uncached:
  assumes W: "wire_bounded W" and ld: "loaded W (decodeGeoSite W []) m i src" and fv: "fv_stat fv = Inr i" and t: "to_lower t = t"
  shows "\<exists>res. EntriesUncached W fv t src = Some (res, src) \<and>
    (\<forall>es. res = Inr es \<longleftrightarrow> (\<exists>b. map_of m t = Some b \<and> decodeGeoSite W [] b = Some (Inr es)))"
proof -
  obtain content where ok: "cache_ok W (decodeGeoSite W []) content src" "rd_raw src = Some m" "rd_id src = i"
    using ld by (auto simp: loaded_def)
  have ready: "site_ensure W fv src = Some (Inr (), src)" using ok fv by (simp add: site_ensure_def load_file_def)
  have raw: "raw_get src t = map_of m t" using ok(2) by (simp add: raw_get_def)
  show ?thesis
  proof (cases "rd_decoded src t")
    case (Some es)
    then obtain b where "map_of m t = Some b" "decodeGeoSite W [] b = Some (Inr es)"
      using ok(1) raw Some unfolding cache_ok_def by metis
    then show ?thesis using Some ready t by (auto simp: EntriesUncached_def with_ready_def)
  next
    case None
    show ?thesis
    proof (cases "map_of m t")
      case (Some b)
      then obtain r where "decodeGeoSite W [] b = Some r"
        using decodeGeoSite_returns[OF W, of "[]" b] by (auto simp: returns_def)
      then show ?thesis using None ready raw t Some by (auto simp: EntriesUncached_def with_ready_def)
    qed (use None ready raw t in \<open>auto simp: EntriesUncached_def with_ready_def\<close>)
  qed
qed

lemma site_index_loop_hits:
  assumes W: "wire_bounded W" and ld: "loaded W (decodeGeoSite W []) m i src" and fv: "fv_stat fv = Inr i"
  shows "\<forall>t\<in>set ts. to_lower t = t \<Longrightarrow> \<exists>y. site_index_loop W (ts_regex S) fv n ts x src = Some (y, src) \<and>
    (\<forall>d. hits y d = hits x d \<union> (\<lambda>k. of_nat (n + k)) ` {k. k < length ts \<and> tag_matches W S m d (ts ! k)})"
proof (induction ts arbitrary: n x)
  case (Cons t ts)
  obtain res where res: "EntriesUncached W fv t src = Some (res, src)"
    "\<And>es. res = Inr es \<longleftrightarrow> (\<exists>b. map_of m t = Some b \<and> decodeGeoSite W [] b = Some (Inr es))"
    using loaded_uncached[OF W ld fv, of t] Cons.prems by auto
  define x1 where "x1 = (case res of Inl _ \<Rightarrow> x | Inr es \<Rightarrow> fold (index_entry (ts_regex S) (of_nat n)) es x)"
  have x1: "hits x1 d = hits x d \<union> (if tag_matches W S m d t then {of_nat n} else {})" for d
  proof (cases res)
    case (Inl e)
    then show ?thesis using res(2) by (auto simp: x1_def tag_matches_def)
  next
    case (Inr es)
    then obtain b where b: "map_of m t = Some b" "decodeGeoSite W [] b = Some (Inr es)" using res(2) by blast
    have "\<forall>e\<in>set es. entry_low e" using decodeGeoSite_values[OF W b(2)] by (simp add: entry_low_def)
    then show ?thesis using hits_fold[of es S "of_nat n" x d] b Inr by (auto simp: x1_def tag_matches_def)
  qed
  obtain y where y: "site_index_loop W (ts_regex S) fv (Suc n) ts x1 src = Some (y, src)"
    "\<And>d. hits y d = hits x1 d \<union> (\<lambda>k. of_nat (Suc n + k)) ` {k. k < length ts \<and> tag_matches W S m d (ts ! k)}"
    using Cons.IH[of "Suc n" x1] Cons.prems by auto
  have "site_index_loop W (ts_regex S) fv n (t # ts) x src = Some (y, src)"
    using y(1) res(1) by (cases res) (simp_all add: x1_def)
  moreover have "{k. k < length (t # ts) \<and> tag_matches W S m d ((t # ts) ! k)} =
      (if tag_matches W S m d t then {0} else {}) \<union> Suc ` {k. k < length ts \<and> tag_matches W S m d (ts ! k)}" for d
    by (auto simp: less_Suc_eq_0_disj)
  ultimately show ?case using y(2) x1 by (intro exI[of _ y]) (simp add: image_Un image_image Un_assoc ac_simps)
qed simp


lemma nth_image_filter: "(\<lambda>k. xs ! k) ` {k. k < length xs \<and> P (xs ! k)} = {x \<in> set xs. P x}"
  by (auto simp: in_set_conv_nth)

lemma SiteLookup_new:
  assumes W: "wire_bounded W" and fv: "fv_stat fv = Inr i" "fv_data fv = Inr d" and m: "splitList W [] d = Some (Inr m)"
    and small: "length m \<le> 65535"
  shows "\<exists>out s'. SiteLookup W (ts_regex S) fv domain (OpenSite path, NewSiteIndex) = Some (Inr out, s') \<and>
    sorted out \<and> distinct out \<and> set out = {t. tag_matches W S m (lookup_name domain) t}"
proof -
  let ?src = "(OpenSite path)\<lparr>rd_raw := Some m, rd_decoded := Map.empty, rd_id := i\<rparr>"
  let ?tags = "sort (map fst m)" and ?d = "lookup_name domain"
  obtain ver where ver: "Version fv = Inr ver" using fv(1) by (cases i) (simp add: Version_def)
  have tags: "Tags W fv (OpenSite path) = Some (Inr ?tags, ?src)"
    using fv m by (simp add: Tags_def site_ensure_def load_file_def OpenSite_def open_reader_def with_ready_def raw_tags_def)
  have keys: "distinct (map fst m)" "\<forall>t\<in>fst ` set m. to_lower t = t" using splitList_keys[OF W m] by simp_all
  have "cache_ok W (decodeGeoSite W []) (\<lambda>_. d) ?src" using m by (simp add: cache_ok_def)
  then have ld: "loaded W (decodeGeoSite W []) m i ?src" by (auto simp: loaded_def)
  have take: "take 65535 ?tags = ?tags" using small by simp
  have "hits NewSiteIndex x = {}" for x by (simp add: hits_def NewSiteIndex_def)
  then obtain y where y: "site_index_loop W (ts_regex S) fv 0 ?tags NewSiteIndex ?src = Some (y, ?src)"
    "hits y ?d = of_nat ` {k. k < length ?tags \<and> tag_matches W S m ?d (?tags ! k)}"
    using site_index_loop_hits[OF W ld fv(1), of ?tags S 0 NewSiteIndex] keys(2) by auto
  let ?y = "y\<lparr>si_ver := ver, si_tags := Some ?tags, si_full := sort_key fst (si_full y), si_root := sort_key fst (si_root y)\<rparr>"
  have refs: "set (site_refs ?y ?d) = of_nat ` {k. k < length ?tags \<and> tag_matches W S m ?d (?tags ! k)}"
    using y(2) set_site_refs[of ?y ?d] by (simp add: hits_def)
  let ?out = "sort (map (\<lambda>ti. ?tags ! unat ti) (remdups (site_refs ?y ?d)))"
  have "SiteLookup W (ts_regex S) fv domain (OpenSite path, NewSiteIndex) = Some (Inr ?out, ?src, ?y)"
    unfolding SiteLookup_def site_index_ensure_def using ver tags y(1)
    by (simp add: NewSiteIndex_def take)
  moreover have idx: "unat (of_nat k :: tag_index) = k" if "k < length ?tags" for k
    using that small by (simp add: unat_of_nat)
  have "set ?out = {t. tag_matches W S m ?d t}"
  proof -
    have "set ?out = (\<lambda>ti. ?tags ! unat ti) ` set (site_refs ?y ?d)" by simp
    also have "\<dots> = (\<lambda>k. ?tags ! k) ` {k. k < length ?tags \<and> tag_matches W S m ?d (?tags ! k)}"
      unfolding refs image_image by (rule image_cong) (use idx in auto)
    also have "\<dots> = {t \<in> set ?tags. tag_matches W S m ?d t}" by (rule nth_image_filter)
    also have "\<dots> = {t. tag_matches W S m ?d t}" by (force simp: tag_matches_def dest: map_of_SomeD)
    finally show ?thesis .
  qed
  moreover have "distinct ?out"
  proof -
    have "distinct ?tags" using keys(1) by simp
    then have "inj_on (\<lambda>ti. ?tags ! unat ti) (set (site_refs ?y ?d))"
      unfolding refs by (intro inj_onI) (auto simp: idx nth_eq_iff_index_eq)
    then show ?thesis by (simp add: distinct_map)
  qed
  ultimately show ?thesis by (intro exI[of _ ?out] exI) simp
qed

end
