(* ===== verification/GeoProps.thy ===== *)
theory GeoProps
  imports GeoSiteFacts
begin

text \<open>
  Properties of \<open>internal/geo\<close>: every decoder comes back, what the encoders write is read back, the
  readers' caches cannot be observed, and what the reverse indexes answer.
\<close>

subsection \<open>A concrete wire format\<close>

text \<open>Base-128 varints with the tags and lengths of the protobuf encoding.\<close>

fun put_varint :: "nat \<Rightarrow> string" where
  "put_varint n = (if n < 128 then [char_of n] else char_of (n mod 128 + 128) # put_varint (n div 128))"

declare put_varint.simps [simp del]

fun get_varint :: "string \<Rightarrow> (nat \<times> nat) option" where
  "get_varint [] = None"
| "get_varint (c # s) =
     (if (of_char c :: nat) < 128 then Some (of_char c, 1)
      else map_option (\<lambda>(v, k). (of_char c - 128 + 128 * v, Suc k)) (get_varint s))"

lemma get_put_varint: "get_varint (put_varint n @ s) = Some (n, length (put_varint n))"
proof (induction n rule: put_varint.induct)
  case (1 n)
  show ?case
  proof (cases "n < 128")
    case True
    then show ?thesis by (simp add: put_varint.simps)
  next
    case False
    have "(of_char (char_of (n mod 128 + 128)) :: nat) = n mod 128 + 128" by (simp add: of_char_of)
    then show ?thesis using 1 False by (simp add: put_varint.simps[of n])
  qed
qed

lemma get_varint_bounds: "get_varint s = Some (v, k) \<Longrightarrow> 0 < k \<and> k \<le> length s"
  by (induction s arbitrary: v k) (auto split: if_splits)

definition get_bytes :: "string \<Rightarrow> string \<times> int" where
  "get_bytes s =
     (case get_varint s of
        None \<Rightarrow> ([], - 1)
      | Some (n, k) \<Rightarrow> if n \<le> length s - k then (take n (drop k s), int (k + n)) else ([], - 1))"

definition example_wire :: wire where
  "example_wire = \<lparr>
     w_tag = (\<lambda>s. case get_varint s of None \<Rightarrow> (0, 0, - 1) | Some (v, k) \<Rightarrow> (int (v div 8), int (v mod 8), int k)),
     w_field = (\<lambda>num typ s. if typ = VarintType then (case get_varint s of None \<Rightarrow> - 1 | Some (_, k) \<Rightarrow> int k)
       else if typ = BytesType then snd (get_bytes s) else - 1),
     w_bytes = get_bytes,
     w_varint = (\<lambda>s. case get_varint s of None \<Rightarrow> (0, - 1) | Some (v, k) \<Rightarrow> (of_nat v, int k)),
     w_error = (\<lambda>_. ''unexpected EOF''),
     w_put_tag = (\<lambda>num typ. put_varint (nat (num * 8 + typ))),
     w_put_varint = (\<lambda>x. put_varint (unat x)),
     w_put_bytes = (\<lambda>v. put_varint (length v) @ v)\<rparr>"

lemma get_bytes_bound: "snd (get_bytes s) \<le> int (length s)"
  by (auto simp: get_bytes_def split: option.split dest: get_varint_bounds)

lemma example_wire_bounded: "wire_bounded example_wire"
  unfolding wire_bounded_def example_wire_def wire.simps
  using get_bytes_bound by (auto split: option.split dest: get_varint_bounds)

lemma get_put_bytes: "get_bytes ((put_varint (length v) @ v) @ s) = (v, int (length (put_varint (length v) @ v)))"
  using get_put_varint[of "length v" "v @ s"] by (simp add: get_bytes_def)

lemma put_varint_not_Nil: "put_varint n \<noteq> []"
  by (simp add: put_varint.simps)

lemma example_wire_tag:
  assumes "1 \<le> num" "num \<le> 3" "typ \<in> {VarintType, BytesType}"
  shows "w_tag example_wire (w_put_tag example_wire num typ @ s) =
    (num, typ, int (length (w_put_tag example_wire num typ)))"
proof -
  have "num \<in> {1, 2, 3}" using assms(1,2) by auto
  then show ?thesis using assms(3)
    by (auto simp: example_wire_def get_put_varint VarintType_def BytesType_def)
qed

lemma example_wire_round_trip: "wire_round_trip example_wire"
proof -
  have "w_put_tag example_wire num ty \<noteq> []" for num ty by (simp add: example_wire_def put_varint_not_Nil)
  then show ?thesis
    unfolding wire_round_trip_def using example_wire_tag
    by (auto simp: example_wire_def get_put_bytes get_put_varint)
      (simp_all add: get_put_bytes[simplified] BytesType_def VarintType_def)
qed


subsection \<open>Decoding comes back\<close>

text \<open>
  C26. With byte counts in their documented range every decoding loop ends without a panic, whatever
  the bytes of the file: \<open>splitList\<close>, \<open>decodeGeoSite\<close> and \<open>decodeGeoIP\<close> return a value or an error, and
  so do the readers built on them.
\<close>

theorem geo_decoding_returns:
  assumes "wire_bounded W"
  shows "(\<exists>r. splitList W [] data = Some r) \<and> (\<exists>r. decodeGeoSite W [] data = Some r) \<and>
    (\<exists>r. decodeGeoIP W data = Some r) \<and> (\<exists>r. Entries W fv tag site = Some r) \<and> (\<exists>r. CIDRs W fv tag ip = Some r)"
  using splitList_returns[OF assms] decodeGeoSite_returns[OF assms] decodeGeoIP_returns[OF assms]
    sites.get_returns[OF assms] ips.get_returns[OF assms]
  by (simp add: returns_def Entries_def CIDRs_def site_ensure_def ip_ensure_def)

theorem geo_decoding_returns_witness: "\<exists>r. splitList example_wire [] ''garbage'' = Some r"
  using geo_decoding_returns[OF example_wire_bounded] by blast

subsection \<open>Round trip\<close>

text \<open>
  What \<open>EncodeSiteList\<close> and \<open>EncodeIPList\<close> write is read back under the lower-cased tags: the
  entries in order with their kinds, their values in lower case (those of regular expressions
  too) and their non-empty attributes, without the entries whose value is empty; and the masked
  prefixes of the well-formed addresses, sorted.
\<close>

theorem geo_round_trip:
  assumes "wire_round_trip W" "\<forall>t\<in>fst ` set sites \<union> fst ` set sets. t \<noteq> []"
    "distinct (map (to_lower \<circ> fst) sites)" "distinct (map (to_lower \<circ> fst) sets)"
  shows "(\<exists>m. splitList W [] (EncodeSiteList W sites) = Some (Inr m) \<and> map fst m = map (to_lower \<circ> fst) sites \<and>
      (\<forall>(t, es)\<in>set sites. \<exists>b. map_of m (to_lower t) = Some b \<and>
         decodeGeoSite W [] b = Some (Inr (map norm_entry (filter (\<lambda>e. e_value e \<noteq> []) es))))) \<and>
    (\<exists>m. splitList W [] (EncodeIPList W sets) = Some (Inr m) \<and> map fst m = map (to_lower \<circ> fst) sets \<and>
      (\<forall>(t, es)\<in>set sets. \<exists>b. map_of m (to_lower t) = Some b \<and>
         decodeGeoIP W b = Some (Inr (sort_key (\<lambda>p. (p_addr p, p_bits p))
           (List.map_filter (\<lambda>e. cidr_prefix (ie_ip e) (word_of_int (ie_bits e))) es)))))"
proof -
  define sbody where "sbody = (\<lambda>es. concat (map (\<lambda>e. w_put_tag W 2 BytesType @ w_put_bytes W (encode_domain W e)) es))"
  define ibody where "ibody = (\<lambda>es. concat (map (\<lambda>e. w_put_tag W 2 BytesType @ w_put_bytes W (encode_cidr W e)) es))"
  have site: "encode_site W t es = w_put_tag W 1 BytesType @ w_put_bytes W t @ sbody es" for t es
    by (simp add: encode_site_def sbody_def)
  have ipset: "encode_set W t es = w_put_tag W 1 BytesType @ w_put_bytes W t @ ibody es" for t es
    by (simp add: encode_set_def ibody_def)
  have s: "splitList W [] (EncodeSiteList W sites) = Some (Inr (map (\<lambda>(t, es). (to_lower t, encode_site W t es)) sites))"
    using splitList_concat[OF assms(1), of "map (\<lambda>(t, es). (t, sbody es)) sites" "[]"] assms(2,3)
    by (simp add: EncodeSiteList_def site comp_def case_prod_unfold)
  have i: "splitList W [] (EncodeIPList W sets) = Some (Inr (map (\<lambda>(t, es). (to_lower t, encode_set W t es)) sets))"
    using splitList_concat[OF assms(1), of "map (\<lambda>(t, es). (t, ibody es)) sets" "[]"] assms(2,4)
    by (simp add: EncodeIPList_def ipset comp_def case_prod_unfold)
  have get: "map_of (map (\<lambda>(t, es). (to_lower t, f t es)) xs) (to_lower t) = Some (f t es)"
    if "(t, es) \<in> set xs" "distinct (map (to_lower \<circ> fst) xs)" for t es xs and f :: "string \<Rightarrow> 'x \<Rightarrow> string"
    using that by (intro map_of_is_SomeI) (auto simp: comp_def case_prod_unfold image_iff intro!: bexI[of _ "(t, es)"])
  show ?thesis
    unfolding s i using get[OF _ assms(3)] get[OF _ assms(4)] decodeGeoSite_encode[OF assms(1)] decodeGeoIP_encode[OF assms(1)]
    by (auto simp: case_prod_unfold comp_def)
qed

definition sample_sites :: "(string \<times> entry list) list" where
  "sample_sites = [(''CN'', [\<lparr>e_kind = KindRoot, e_value = ''QQ.com'', e_attrs = []\<rparr>,
     \<lparr>e_kind = KindRegex, e_value = ''^GOV'', e_attrs = []\<rparr>])]"

theorem geo_round_trip_witness:
  "\<exists>m. splitList example_wire [] (EncodeSiteList example_wire sample_sites) = Some (Inr m) \<and> map fst m = [''cn'']"
proof -
  have "to_lower ''CN'' = ''cn''" by code_simp
  then show ?thesis using geo_round_trip[OF example_wire_round_trip, of sample_sites "[]"] by (auto simp: sample_sites_def)
qed

text \<open>
  Lower-casing the value changes regular expressions: a record with the pattern that excludes
  white space is decoded as one that demands it.
\<close>

theorem geosite_regex_lowered:
  "decodeDomain example_wire (encode_domain example_wire \<lparr>e_kind = KindRegex, e_value = [CHR 0x5C, CHR ''S''], e_attrs = []\<rparr>) =
    Some (Inr \<lparr>e_kind = KindRegex, e_value = [CHR 0x5C, CHR ''s''], e_attrs = []\<rparr>)"
proof -
  have "to_lower [CHR 0x5C, CHR ''S''] = [CHR 0x5C, CHR ''s'']" by code_simp
  then show ?thesis by (simp add: decodeDomain_encode[OF example_wire_round_trip] norm_entry_def)
qed

subsection \<open>The caches of the readers\<close>

text \<open>
  If the size and time of the file determine its content, no history of calls can be told from
  the answers: \<open>Entries\<close> and \<open>CIDRs\<close> of a used reader give what a new reader gives on the file as it is now.
\<close>

theorem geo_cache_transparent:
  assumes "coherent content fv" "fv_data fv = Inr d"
    "(site_use W content)\<^sup>*\<^sup>* (OpenSite path) site" "(ip_use W content)\<^sup>*\<^sup>* (OpenIP path) ip"
  shows "map_option fst (Entries W fv tag site) = map_option fst (Entries W fv tag (OpenSite path)) \<and>
    map_option fst (CIDRs W fv tag ip) = map_option fst (CIDRs W fv tag (OpenIP path))"
proof -
  have s: "cache_ok W (decodeGeoSite W []) content site" "rd_path site = path" using site_reach_ok[OF assms(3)] by auto
  have i: "cache_ok W (decodeGeoIP W) content ip" "rd_path ip = path" using ip_reach_ok[OF assms(4)] by auto
  show ?thesis
    using sites.transparent[OF s assms(1,2)] ips.transparent[OF i assms(1,2)]
    by (simp add: Entries_def CIDRs_def site_ensure_def ip_ensure_def OpenSite_def OpenIP_def)
qed

definition view_at :: "int \<Rightarrow> string \<Rightarrow> file_view" where
  "view_at t d = \<lparr>fv_stat = Inr (int (length d), t), fv_data = Inr d\<rparr>"

theorem geo_cache_transparent_witness:
  "\<exists>r es. Entries example_wire (view_at 1 []) ''cn'' (OpenSite ''f'') = Some (es, r) \<and>
     map_option fst (Entries example_wire (view_at 2 (EncodeSiteList example_wire sample_sites)) ''cn'' r) =
     map_option fst (Entries example_wire (view_at 2 (EncodeSiteList example_wire sample_sites)) ''cn'' (OpenSite ''f''))"
proof -
  let ?d = "EncodeSiteList example_wire sample_sites"
  define content where "content = (\<lambda>(n :: int, t). if t = (1 :: time) then [] else ?d)"
  have c: "coherent content (view_at 1 [])" "coherent content (view_at 2 ?d)" by (auto simp: coherent_def view_at_def content_def)
  obtain es r where e: "Entries example_wire (view_at 1 []) ''cn'' (OpenSite ''f'') = Some (es, r)"
    using geo_decoding_returns[OF example_wire_bounded] by (metis surj_pair)
  have "(site_use example_wire content)\<^sup>*\<^sup>* (OpenSite ''f'') r" using site_use.intros(3)[OF c(1) e] by (rule r_into_rtranclp)
  from geo_cache_transparent[OF c(2) _ this, where ip = "OpenIP ''f''"] e show ?thesis by (auto simp: view_at_def)
qed


subsection \<open>The reverse indexes\<close>

text \<open>
  A lookup of an address on a new index gives, sorted and once each, exactly the tags with a
  prefix that contains it, provided that at most 16 prefixes of a tag start between such a prefix
  and the address.
\<close>

theorem ip_lookup_exact:
  assumes "wire_bounded W" "fv_stat fv = Inr i" "fv_data fv = Inr d" "splitList W [] d = Some (Inr m)"
    and sparse: "\<forall>t b ps. map_of m t = Some b \<longrightarrow> decodeGeoIP W b = Some (Inr ps) \<longrightarrow>
      (\<forall>p\<in>set ps. p_contains p (unmap a) \<longrightarrow> \<not> crowded ps (unmap a) p)"
  shows "\<exists>out s'. IPLookup W fv a (OpenIP path, NewIPIndex) = Some (Inr out, s') \<and> sorted out \<and> distinct out \<and>
    set out = {t. \<exists>b ps. map_of m t = Some b \<and> decodeGeoIP W b = Some (Inr ps) \<and> (\<exists>p\<in>set ps. p_contains p (unmap a))}"
proof -
  have "ip_tag_hit (unmap a) (sort_key p_addr ps) \<longleftrightarrow> (\<exists>p\<in>set ps. p_contains p (unmap a))"
    if "map_of m t = Some b" "decodeGeoIP W b = Some (Inr ps)" for t b ps
  proof
    assume "ip_tag_hit (unmap a) (sort_key p_addr ps)"
    then show "\<exists>p\<in>set ps. p_contains p (unmap a)" using ip_tag_hit_sound[of "sort_key p_addr ps"] by simp
  next
    assume "\<exists>p\<in>set ps. p_contains p (unmap a)"
    then obtain p where p: "p \<in> set ps" "p_contains p (unmap a)" by blast
    then have "p_addr p \<le> unmap a" using decodeGeoIP_masked[OF assms(1) that(2)] contains_start by blast
    moreover have "\<not> crowded (sort_key p_addr ps) (unmap a) p"
      using sparse that p by (simp only: crowded_def filter_sort length_sort) blast
    ultimately show "ip_tag_hit (unmap a) (sort_key p_addr ps)" using p by (intro ip_tag_hit_complete) simp_all
  qed
  then show ?thesis using IPLookup_new[OF assms(1-4), of a path] by (simp cong: conj_cong)
qed

definition nested_ips :: "nat \<Rightarrow> (string \<times> ip_entry list) list" where
  "nested_ips n = [(''x'', \<lparr>ie_ip = map char_of [10 :: nat, 0, 0, 0], ie_bits = 8\<rparr> #
     map (\<lambda>k. \<lparr>ie_ip = map char_of [10, 0, 0, k], ie_bits = 32\<rparr>) [1..<Suc n])]"

definition nested_file :: "nat \<Rightarrow> string" where
  "nested_file n = EncodeIPList example_wire (nested_ips n)"

definition looked_up :: "nat \<Rightarrow> string list option" where
  "looked_up n = (case IPLookup example_wire (view_at 1 (nested_file n)) (V4 0x0A010000) (OpenIP ''f'', NewIPIndex) of
     Some (Inr out, _) \<Rightarrow> Some out | _ \<Rightarrow> None)"

definition nested_prefixes :: "nat \<Rightarrow> prefix list" where
  "nested_prefixes n = sort_key (\<lambda>p. (p_addr p, p_bits p))
     (List.map_filter (\<lambda>e. cidr_prefix (ie_ip e) (word_of_int (ie_bits e))) (snd (hd (nested_ips n))))"

lemma nested_split:
  "\<exists>b. splitList example_wire [] (nested_file n) = Some (Inr [(''x'', b)]) \<and>
     decodeGeoIP example_wire b = Some (Inr (nested_prefixes n))"
proof -
  have x: "to_lower ''x'' = ''x''" by code_simp
  show ?thesis
    using splitList_concat[OF example_wire_round_trip,
        of "[(''x'', concat (map (\<lambda>e. w_put_tag example_wire 2 BytesType @
          w_put_bytes example_wire (encode_cidr example_wire e)) (snd (hd (nested_ips n)))))]" "[]"]
      decodeGeoIP_encode[OF example_wire_round_trip, of "''x''" "snd (hd (nested_ips n))"] x
    by (simp add: nested_file_def nested_prefixes_def EncodeIPList_def encode_set_def nested_ips_def)
qed

lemma nested_looked_up:
  "looked_up n = Some (if ip_tag_hit (V4 0x0A010000) (sort_key p_addr (nested_prefixes n)) then [''x''] else [])"
proof -
  obtain b where b: "splitList example_wire [] (nested_file n) = Some (Inr [(''x'', b)])"
    "decodeGeoIP example_wire b = Some (Inr (nested_prefixes n))" using nested_split by blast
  have v: "fv_stat (view_at 1 (nested_file n)) = Inr (int (length (nested_file n)), 1)"
    "fv_data (view_at 1 (nested_file n)) = Inr (nested_file n)" by (simp_all add: view_at_def)
  obtain out s' where out: "IPLookup example_wire (view_at 1 (nested_file n)) (V4 0x0A010000) (OpenIP ''f'', NewIPIndex) = Some (Inr out, s')"
    "sorted out" "distinct out" "set out = {t. t = ''x'' \<and> ip_tag_hit (V4 0x0A010000) (sort_key p_addr (nested_prefixes n))}"
    using IPLookup_new[OF example_wire_bounded v b(1), of "V4 0x0A010000" "''f''"] b(2)
    by (auto split: if_splits)
  have "out = (if ip_tag_hit (V4 0x0A010000) (sort_key p_addr (nested_prefixes n)) then [''x''] else [])"
    by (rule sorted_distinct_set_unique) (use out in auto)
  then show ?thesis using out(1) by (simp add: looked_up_def)
qed

lemma nested_cidrs: "\<exists>r. CIDRs example_wire (view_at 1 (nested_file n)) ''x'' (OpenIP ''f'') = Some (Inr (nested_prefixes n), r)"
proof -
  obtain b where b: "splitList example_wire [] (nested_file n) = Some (Inr [(''x'', b)])"
    "decodeGeoIP example_wire b = Some (Inr (nested_prefixes n))" using nested_split by blast
  have x: "to_lower ''x'' = ''x''" by code_simp
  show ?thesis using b x
    by (simp add: CIDRs_def ip_ensure_def load_file_def with_ready_def decode_tag_def raw_get_def view_at_def OpenIP_def open_reader_def)
qed

text \<open>
  The bound is needed: when 16 host routes of the tag lie between the start of a prefix and the
  address, the lookup misses the tag, although the list contains the prefix; with 15 it does not.
\<close>

theorem ip_lookup_misses_nested:
  "looked_up 15 = Some [''x''] \<and> looked_up 16 = Some [] \<and>
   (case CIDRs example_wire (view_at 1 (nested_file 16)) ''x'' (OpenIP ''f'') of
      Some (Inr ps, _) \<Rightarrow> (\<exists>p\<in>set ps. p_contains p (V4 0x0A010000)) | _ \<Rightarrow> False)"
proof -
  have "ip_tag_hit (V4 0x0A010000) (sort_key p_addr (nested_prefixes 15))"
    "\<not> ip_tag_hit (V4 0x0A010000) (sort_key p_addr (nested_prefixes 16))"
    "\<exists>p\<in>set (nested_prefixes 16). p_contains p (V4 0x0A010000)" by code_simp+
  then show ?thesis using nested_looked_up[of 15] nested_looked_up[of 16] nested_cidrs[of 16] by auto
qed

theorem ip_lookup_exact_witness:
  "\<exists>out s'. IPLookup example_wire (view_at 1 (nested_file 3)) (V4 0x0A010000) (OpenIP ''f'', NewIPIndex) =
     Some (Inr out, s') \<and> set out = {''x''}"
proof -
  obtain b where b: "splitList example_wire [] (nested_file 3) = Some (Inr [(''x'', b)])"
    "decodeGeoIP example_wire b = Some (Inr (nested_prefixes 3))" using nested_split by blast
  have v: "fv_stat (view_at 1 (nested_file 3)) = Inr (int (length (nested_file 3)), 1)"
    "fv_data (view_at 1 (nested_file 3)) = Inr (nested_file 3)" by (simp_all add: view_at_def)
  have "length (nested_prefixes 3) = 4" by code_simp
  then have sparse: "\<not> crowded (nested_prefixes 3) a p" for a p
    using length_filter_le[of "\<lambda>q. p_addr p \<le> p_addr q \<and> p_addr q \<le> a" "nested_prefixes 3"]
    by (simp add: crowded_def del: less_eq_addr_code)
  have hit: "\<exists>p\<in>set (nested_prefixes 3). p_contains p (V4 0x0A010000)" by code_simp
  have prem: "\<forall>t b' ps. map_of [(''x'', b)] t = Some b' \<longrightarrow> decodeGeoIP example_wire b' = Some (Inr ps) \<longrightarrow>
      (\<forall>p\<in>set ps. p_contains p (unmap (V4 0x0A010000)) \<longrightarrow> \<not> crowded ps (unmap (V4 0x0A010000)) p)"
    using b(2) sparse by (auto split: if_splits)
  have "{t. \<exists>b' ps. map_of [(''x'', b)] t = Some b' \<and> decodeGeoIP example_wire b' = Some (Inr ps) \<and>
      (\<exists>p\<in>set ps. p_contains p (unmap (V4 0x0A010000)))} = {''x''}"
    using b(2) hit by (auto split: if_splits)
  then show ?thesis
    using ip_lookup_exact[OF example_wire_bounded v b(1) prem, of "''f''"] by metis
qed

text \<open>The entries of the reader as the trace asks for them.\<close>

definition reader_source :: "wire \<Rightarrow> file_view \<Rightarrow> string \<Rightarrow> site_source" where
  "reader_source W fv path = \<lparr>site_entries = (\<lambda>t. case Entries W fv t (OpenSite path) of
     Some (Inr es, _) \<Rightarrow> Inr es | Some (Inl e, _) \<Rightarrow> Inl (error_text e) | None \<Rightarrow> Inl [])\<rparr>"

text \<open>
  C27. The lookup of a domain agrees with the trace: on a new index over a file of at most 65535
  tags it gives, sorted and once each, the tags for which a geosite rule would match the domain.
\<close>

theorem site_lookup_agrees:
  assumes W: "wire_bounded W" and fv: "fv_stat fv = Inr i" "fv_data fv = Inr d"
    and m: "splitList W [] d = Some (Inr m)" and small: "length m \<le> 65535"
    and S: "ts_site S = Some (reader_source W fv path)"
  shows "\<exists>out s'. SiteLookup W (ts_regex S) fv domain (OpenSite path, NewSiteIndex) = Some (Inr out, s') \<and>
    sorted out \<and> distinct out \<and>
    set out = {t \<in> fst ` set m. fst (match_geosite S t (lookup_name domain))}"
proof -
  let ?src = "(OpenSite path)\<lparr>rd_raw := Some m, rd_decoded := Map.empty, rd_id := i\<rparr>"
  have keys: "\<forall>t\<in>fst ` set m. to_lower t = t" using splitList_keys[OF W m] by simp
  have "load_file W fv (OpenSite path) = Some (Inr (), ?src)"
    using fv m by (simp add: load_file_def OpenSite_def open_reader_def)
  moreover have "cache_ok W (decodeGeoSite W []) (\<lambda>_. d) ?src" "rd_raw ?src = Some m" using m by (simp_all add: cache_ok_def)
  note now = sites.decode_tag_now[OF this]
  ultimately have entries: "map_option fst (Entries W fv t (OpenSite path)) = sites.decoded_now W ''geosite'' t m"
    if "t \<in> fst ` set m" for t
    using now[of "''geosite''" t] bspec[OF keys that] by (simp add: Entries_def site_ensure_def with_ready_def)
  have "fst (match_geosite S t (lookup_name domain)) \<longleftrightarrow> tag_matches W S m (lookup_name domain) t"
    if t: "t \<in> fst ` set m" for t
  proof -
    obtain res r where e: "Entries W fv t (OpenSite path) = Some (res, r)"
      using geo_decoding_returns[OF W] by (metis surj_pair)
    then have now: "res = Inr es \<longleftrightarrow> (\<exists>b. map_of m t = Some b \<and> decodeGeoSite W [] b = Some (Inr es))" for es
      using entries[OF t] sites.decoded_now_Some[of W "''geosite''" t m res es] by simp
    show ?thesis
    proof (cases res)
      case (Inr es)
      then obtain b where "map_of m t = Some b" "decodeGeoSite W [] b = Some (Inr es)"
        using now by blast
      then show ?thesis using e Inr by (simp add: match_geosite_def S reader_source_def tag_matches_def)
    qed (use e now in \<open>auto simp: match_geosite_def S reader_source_def tag_matches_def\<close>)
  qed
  moreover have "tag_matches W S m x t \<Longrightarrow> t \<in> fst ` set m" for x t
    by (force simp: tag_matches_def dest: map_of_SomeD)
  ultimately have "{t. tag_matches W S m (lookup_name domain) t} =
      {t \<in> fst ` set m. fst (match_geosite S t (lookup_name domain))}" by blast
  then show ?thesis using SiteLookup_new[OF W fv m small, of S domain path] by simp
qed


theorem site_lookup_agrees_witness:
  "\<exists>S out s'. SiteLookup example_wire (ts_regex S) (view_at 1 (EncodeSiteList example_wire sample_sites)) ''www.qq.com.''
     (OpenSite ''f'', NewSiteIndex) = Some (Inr out, s') \<and>
     set out = {t \<in> {''cn''}. fst (match_geosite S t ''www.qq.com'')}"
proof -
  let ?d = "EncodeSiteList example_wire sample_sites"
  let ?S = "no_trace_sources\<lparr>ts_site := Some (reader_source example_wire (view_at 1 ?d) ''f'')\<rparr>"
  have v: "fv_stat (view_at 1 ?d) = Inr (int (length ?d), 1)" "fv_data (view_at 1 ?d) = Inr ?d" by (simp_all add: view_at_def)
  obtain m where m: "splitList example_wire [] ?d = Some (Inr m)" "map fst m = [''cn'']"
  proof -
    have "to_lower ''CN'' = ''cn''" by code_simp
    then show thesis
      using that geo_round_trip[OF example_wire_round_trip, of sample_sites "[]"] by (auto simp: sample_sites_def)
  qed
  have small: "length m \<le> 65535" using arg_cong[OF m(2), of length] by simp
  have "fst ` set m = {''cn''}" using arg_cong[OF m(2), of set] by simp
  moreover have "lookup_name ''www.qq.com.'' = ''www.qq.com''" by code_simp
  ultimately show ?thesis
    using site_lookup_agrees[OF example_wire_bounded v m(1) small, of ?S "''f''" "''www.qq.com.''"]
    by (intro exI[of _ ?S]) auto
qed

end
