(* ===== verification/Json.thy ===== *)
theory Json
  imports GoStrings
begin

text \<open>
  JSON values as the renderer builds them (\<open>map[string]any\<close>), and the two printers of
  \<open>encoding/json\<close>, which write the keys of an object in sorted order.  A number is kept as the text
  the encoder prints for it.  Strings are escaped the way \<open>Marshal\<close> does it for ASCII.
\<close>

datatype json = JNull | JBool bool | JNum string | JStr string | JArr "json list" | JObj "(string \<times> json) list"

type_synonym obj = "(string \<times> json) list"

definition JInt :: "int \<Rightarrow> json" where "JInt n = JNum (int_string n)"

definition JStrs :: "string list \<Rightarrow> json" where "JStrs xs = JArr (map JStr xs)"

text \<open>\<open>v, _ := o[k].(string)\<close> and \<open>v, _ := o[k].(map[string]any)\<close>\<close>

definition jstr :: "obj \<Rightarrow> string \<Rightarrow> string" where
  "jstr ob k = (case map_of ob k of Some (JStr s) \<Rightarrow> s | _ \<Rightarrow> [])"

definition jobj :: "obj \<Rightarrow> string \<Rightarrow> obj option" where
  "jobj ob k = (case map_of ob k of Some (JObj x) \<Rightarrow> Some x | _ \<Rightarrow> None)"

definition escape_char :: "char \<Rightarrow> string" where
  "escape_char c =
     (let n = (of_char c :: int); hex = (\<lambda>k. if k < 10 then char_of (48 + k) else char_of (87 + k)) in
      if c = CHR ''\"'' \<or> c = CHR 0x5C then [CHR 0x5C, c]
      else if n = 8 then [CHR 0x5C, CHR ''b''] else if n = 9 then [CHR 0x5C, CHR ''t'']
      else if n = 10 then [CHR 0x5C, CHR ''n''] else if n = 12 then [CHR 0x5C, CHR ''f'']
      else if n = 13 then [CHR 0x5C, CHR ''r'']
      else if n < 32 \<or> c \<in> {CHR ''<'', CHR ''>'', CHR ''&''}
      then [CHR 0x5C] @ ''u00'' @ [hex (n div 16), hex (n mod 16)]
      else [c])"

definition json_string :: "string \<Rightarrow> string" where
  "json_string s = ''\"'' @ concat (map escape_char s) @ ''\"''"

text \<open>\<open>json.Marshal\<close>\<close>

fun json_text :: "json \<Rightarrow> string" and item_texts :: "json list \<Rightarrow> string list"
  and field_texts :: "obj \<Rightarrow> (string \<times> string) list" where
  "json_text JNull = ''null''"
| "json_text (JBool b) = (if b then ''true'' else ''false'')"
| "json_text (JNum s) = s"
| "json_text (JStr s) = json_string s"
| "json_text (JArr xs) = ''['' @ join_with '','' (item_texts xs) @ '']''"
| "json_text (JObj kvs) = ''{'' @ join_with '',''
     (map (\<lambda>(k, t). json_string k @ '':'' @ t) (sort_key fst (field_texts kvs))) @ ''}''"
| "item_texts [] = []"
| "item_texts (x # xs) = json_text x # item_texts xs"
| "field_texts [] = []"
| "field_texts ((k, v) # kvs) = (k, json_text v) # field_texts kvs"

text \<open>\<open>json.MarshalIndent(v, "", "  ")\<close>; empty objects and arrays stay on one line.\<close>

definition newline :: "nat \<Rightarrow> string" where
  "newline n = CHR 0x0A # replicate (2 * n) CHR '' ''"

fun indent_text :: "nat \<Rightarrow> json \<Rightarrow> string" and indent_items :: "nat \<Rightarrow> json list \<Rightarrow> string list"
  and indent_fields :: "nat \<Rightarrow> obj \<Rightarrow> (string \<times> string) list" where
  "indent_text n (JArr xs) =
     (if xs = [] then ''[]''
      else ''['' @ join_with '','' (map (\<lambda>t. newline (Suc n) @ t) (indent_items (Suc n) xs)) @ newline n @ '']'')"
| "indent_text n (JObj kvs) =
     (if kvs = [] then ''{}''
      else ''{'' @ join_with '','' (map (\<lambda>(k, t). newline (Suc n) @ json_string k @ '': '' @ t)
        (sort_key fst (indent_fields (Suc n) kvs))) @ newline n @ ''}'')"
| "indent_text n v = json_text v"
| "indent_items n [] = []"
| "indent_items n (x # xs) = indent_text n x # indent_items n xs"
| "indent_fields n [] = []"
| "indent_fields n ((k, v) # kvs) = (k, indent_text n v) # indent_fields n kvs"

lemma map_of_al_put_other [simp]: "k \<noteq> k' \<Longrightarrow> map_of (al_put k v m) k' = map_of m k'"
  by simp

lemma keys_al_del [simp]: "fst ` set (al_del k m) = fst ` set m - {k}"
  by (auto simp: al_del_def image_iff)

end
