(* ===== verification/RenderOutbound.thy ===== *)
theory RenderOutbound
  imports Artifacts Json Errors
begin

text \<open>
  \<open>internal/render/xray.go\<close>, \<open>buildOutbound\<close> and its helpers: the Xray outbound of one node.  The
  argument \<open>unmarshal\<close> is \<open>json.Unmarshal\<close> into a map; the text \<open>null\<close>, which would leave the map nil,
  is refused by the API.  Maps that the code updates in place are replaced in their parent.
\<close>

definition OutboundMark :: int where "OutboundMark = 2"

definition put_text :: "string \<Rightarrow> string \<Rightarrow> obj \<Rightarrow> obj" where
  "put_text k v ob = (if v = [] then ob else al_put k (JStr v) ob)"

text \<open>\<open>v\<close>, or a default when it is empty.\<close>

definition or_text :: "string \<Rightarrow> string \<Rightarrow> string" where
  "or_text v d = (if v = [] then d else v)"

definition isVmessCipher :: "string \<Rightarrow> bool" where
  "isVmessCipher s \<longleftrightarrow> s \<in> {''auto'', ''aes-128-gcm'', ''chacha20-poly1305'', ''none'', ''zero''}"

definition endpoint_fields :: "node \<Rightarrow> obj" where
  "endpoint_fields n = [(''address'', JStr (n_address n)), (''port'', JInt (n_port n))]"

definition vnext_settings :: "node \<Rightarrow> obj \<Rightarrow> json" where
  "vnext_settings n user =
     JObj [(''vnext'', JArr [JObj (endpoint_fields n @ [(''users'', JArr [JObj user])])])]"

definition servers_settings :: "node \<Rightarrow> obj \<Rightarrow> json" where
  "servers_settings n extra = JObj [(''servers'', JArr [JObj (endpoint_fields n @ extra)])]"

text \<open>The credential of socks and http nodes, \<open>user:pass\<close>.\<close>

definition basic_user :: "string \<Rightarrow> obj" where
  "basic_user cred =
     (case str_index cred '':'' of
        None \<Rightarrow> []
      | Some i \<Rightarrow>
          if i = 0 then []
          else [(''users'', JArr [JObj [(''user'', JStr (take i cred)), (''pass'', JStr (drop (Suc i) cred))]])])"

text \<open>The settings of a node whose parameters have none.\<close>

definition default_settings :: "node \<Rightarrow> string \<Rightarrow> obj \<Rightarrow> json outcome" where
  "default_settings n proto ob =
     (if proto = ''vmess''
      then (let user = [(''id'', JStr (n_credential n)), (''alterId'', JInt 0)]; s = jstr ob ''security'' in
            Inr (vnext_settings n (if s \<noteq> [] \<and> isVmessCipher s then al_put ''security'' (JStr s) user else user)))
      else if proto = ''vless''
      then Inr (vnext_settings n (put_text ''flow'' (jstr ob ''flow'') (put_text ''encryption'' (jstr ob ''encryption'')
             [(''id'', JStr (n_credential n)), (''encryption'', JStr ''none'')])))
      else if proto = ''trojan'' then Inr (servers_settings n [(''password'', JStr (n_credential n))])
      else if proto = ''shadowsocks''
      then Inr (servers_settings n [(''password'', JStr (n_credential n)),
             (''method'', JStr (or_text (jstr ob ''method'') ''aes-256-gcm''))])
      else if proto = ''socks'' \<or> proto = ''http'' then Inr (servers_settings n (basic_user (n_credential n)))
      else if proto = ''hysteria'' then Inr (JObj ((''version'', JInt 2) # endpoint_fields n))
      else if proto = ''wireguard''
      then Inl (Failure ''wireguard node needs params.settings (secretKey is taken from the credential)'')
      else if proto = ''custom'' then Inl (Failure ''custom node needs params.settings'')
      else Inl (Failure (''unsupported protocol '' @ quoted proto)))"

text \<open>The first object of \<open>vnext\<close> and of \<open>servers\<close> gets the address and port of the node.\<close>

definition inject_key :: "node \<Rightarrow> string \<Rightarrow> obj \<Rightarrow> obj" where
  "inject_key n key settings =
     (case map_of settings key of
        Some (JArr (JObj first # rest)) \<Rightarrow>
          al_put key (JArr (JObj (al_put ''port'' (JInt (n_port n)) (al_put ''address'' (JStr (n_address n)) first)) # rest))
            settings
      | _ \<Rightarrow> settings)"

definition injectEndpoint :: "obj \<Rightarrow> node \<Rightarrow> obj" where
  "injectEndpoint settings n = inject_key n ''servers'' (inject_key n ''vnext'' settings)"

definition given_settings :: "node \<Rightarrow> string \<Rightarrow> json \<Rightarrow> json outcome" where
  "given_settings n proto v =
     (case v of
        JObj settings \<Rightarrow>
          (let s1 = injectEndpoint settings n;
               s2 = (if proto = ''wireguard'' \<and> n_credential n \<noteq> [] then al_put ''secretKey'' (JStr (n_credential n)) s1 else s1);
               s3 = (if proto = ''hysteria''
                     then al_put ''port'' (JInt (n_port n)) (al_put ''address'' (JStr (n_address n)) (al_put ''version'' (JInt 2) s2))
                     else s2)
           in Inr (JObj s3))
      | _ \<Rightarrow> Inl (Failure ''params.settings must be an object''))"

text \<open>The transport of the shorthand form.\<close>

definition shorthand_stream :: "obj \<Rightarrow> obj" where
  "shorthand_stream ob =
     (let ss = [(''network'', JStr (jstr ob ''type''))]; sec = jstr ob ''security'' in
      if sec = [] \<or> sec = ''none'' then ss
      else (let ss = al_put ''security'' (JStr sec) ss in
            if sec = ''reality''
            then al_put ''realitySettings'' (JObj (put_text ''spiderX'' (jstr ob ''spx'') (put_text ''fingerprint'' (jstr ob ''fp'')
                   [(''serverName'', JStr (jstr ob ''sni'')), (''publicKey'', JStr (jstr ob ''pbk'')),
                    (''shortId'', JStr (jstr ob ''sid'')), (''spiderX'', JStr ''/'')]))) ss
            else if sec = ''tls''
            then al_put ''tlsSettings'' (JObj (put_text ''fingerprint'' (jstr ob ''fp'') [(''serverName'', JStr (jstr ob ''sni''))])) ss
            else ss))"

definition hysteriaStream :: "node \<Rightarrow> obj \<Rightarrow> obj" where
  "hysteriaStream n ob =
     (let tls = put_text ''pinnedPeerCertSha256'' (jstr ob ''pin'')
            [(''serverName'', JStr (or_text (jstr ob ''sni'') (n_address n))), (''alpn'', JStrs [''h3''])];
          ss = [(''network'', JStr ''hysteria''),
                (''hysteriaSettings'', JObj [(''version'', JInt 2), (''auth'', JStr (n_credential n))]),
                (''security'', JStr ''tls''), (''tlsSettings'', JObj tls)];
          fm = (if jstr ob ''obfs'' = ''salamander''
                then [(''udp'', JArr [JObj [(''type'', JStr ''salamander''),
                        (''settings'', JObj [(''password'', JStr (jstr ob ''obfs_password''))])]])]
                else []);
          qp = put_text ''brutalDown'' (jstr ob ''down'') (put_text ''brutalUp'' (jstr ob ''up'') []);
          qp = (if jstr ob ''hop'' = [] then qp
                else al_put ''udpHop'' (JObj [(''ports'', JStr (jstr ob ''hop'')), (''interval'', JInt 30)]) qp);
          fm = (if qp = [] then fm else al_put ''quicParams'' (JObj qp) fm)
      in if fm = [] then ss else al_put ''finalmask'' (JObj fm) ss)"

definition shorthandKeys :: "string list" where
  "shorthandKeys = [''flow'', ''type'', ''security'', ''sni'', ''fp'', ''pbk'', ''sid'', ''method'', ''encryption'', ''alterId'',
     ''headerType'', ''spx'', ''pin'', ''obfs'', ''obfs_password'', ''up'', ''down'', ''hop'']"

definition add_stream :: "node \<Rightarrow> string \<Rightarrow> obj \<Rightarrow> obj" where
  "add_stream n proto ob =
     (let ob1 = (if map_of ob ''streamSettings'' = None \<and> jstr ob ''type'' \<noteq> []
                 then al_put ''streamSettings'' (JObj (shorthand_stream ob)) ob else ob) in
      if map_of ob1 ''streamSettings'' = None \<and> proto = ''hysteria''
      then al_put ''streamSettings'' (JObj (hysteriaStream n ob1)) ob1 else ob1)"

text \<open>The mark that keeps the gateway's own traffic out of TPROXY, and the password of hysteria.\<close>

definition mark_stream :: "node \<Rightarrow> string \<Rightarrow> obj \<Rightarrow> obj" where
  "mark_stream n proto ob =
     (let ss = (case jobj ob ''streamSettings'' of None \<Rightarrow> [] | Some x \<Rightarrow> x);
          ss = al_put ''sockopt'' (JObj [(''mark'', JInt OutboundMark)]) ss;
          ss = (if proto = ''hysteria'' \<and> n_credential n \<noteq> []
                then (let hs = (case jobj ss ''hysteriaSettings'' of None \<Rightarrow> [(''version'', JInt 2)] | Some x \<Rightarrow> x) in
                      al_put ''hysteriaSettings''
                        (JObj (if jstr hs ''auth'' = [] then al_put ''auth'' (JStr (n_credential n)) hs else hs)) ss)
                else ss)
      in al_put ''streamSettings'' (JObj ss) ob)"

definition buildOutbound :: "(string \<Rightarrow> obj outcome) \<Rightarrow> node \<Rightarrow> obj outcome" where
  "buildOutbound unmarshal n =
     (let proto = to_lower (protocol_string (n_protocol n)) in
      bind_outcome (if trim_space (n_params n) = [] then Inr []
                    else (case unmarshal (n_params n) of
                            Inl e \<Rightarrow> Inl (Wrapped ''params is not a JSON object'' e) | Inr ob \<Rightarrow> Inr ob)) (\<lambda>ob.
      bind_outcome (case map_of ob ''settings'' of
                      None \<Rightarrow> default_settings n proto ob | Some v \<Rightarrow> given_settings n proto v) (\<lambda>settings.
      (let ob = al_put ''settings'' settings ob;
           ob = add_stream n proto ob;
           ob = fold al_del shorthandKeys ob;
           ob = mark_stream n proto ob
       in Inr (al_put ''tag'' (JStr (NodeTag (n_id n))) (al_put ''protocol'' (JStr proto) ob))))))"

subsection \<open>Lemmas\<close>

lemma map_of_fold_al_del: "map_of (fold al_del ks ob) k = (if k \<in> set ks then None else map_of ob k)"
  by (induction ks arbitrary: ob) auto

lemma buildOutbound_shape:
  assumes "buildOutbound unmarshal n = Inr ob"
  obtains ob0 where
    "ob = al_put ''tag'' (JStr (NodeTag (n_id n))) (al_put ''protocol'' (JStr (to_lower (protocol_string (n_protocol n))))
       (mark_stream n (to_lower (protocol_string (n_protocol n))) (fold al_del shorthandKeys ob0)))"
  using assms by (auto simp: buildOutbound_def Let_def split: if_splits sum.splits option.splits)

lemma mark_stream_mark:
  "\<exists>ss. map_of (mark_stream n proto ob) ''streamSettings'' = Some (JObj ss) \<and>
     map_of ss ''sockopt'' = Some (JObj [(''mark'', JInt OutboundMark)])"
  by (simp add: mark_stream_def Let_def)

lemma buildOutbound_tag:
  "buildOutbound unmarshal n = Inr ob \<Longrightarrow> jstr ob ''tag'' = NodeTag (n_id n)"
  by (erule buildOutbound_shape) (simp add: jstr_def)

end
