(* ===== verification/RenderXray.thy ===== *)
theory RenderXray
  imports RenderOutbound
begin

text \<open>
  \<open>internal/render/xray.go\<close>: the Xray configuration of a snapshot.  The renderer's changing fields
  (balancers and warnings) are passed along.  Arguments beside the snapshot: the decoders of JSON
  texts, the access log path and \<open>sha256\<close>.
\<close>

definition TagTProxyIn :: string where "TagTProxyIn = ''tproxy_in''"
definition TagAPIIn :: string where "TagAPIIn = ''api_inbound''"
definition TagSocksIn :: string where "TagSocksIn = ''socks_in''"
definition TagProbeIn :: string where "TagProbeIn = ''probe_in''"
definition TagHTTPIn :: string where "TagHTTPIn = ''http_in''"
definition TagDNSIn :: string where "TagDNSIn = ''dns-in''"
definition TagDNSOut :: string where "TagDNSOut = ''dns-out''"
definition TagAPI :: string where "TagAPI = ''api''"
definition RuleTagAPI :: string where "RuleTagAPI = ''sys-api''"
definition RuleTagDNS :: string where "RuleTagDNS = ''sys-dns''"
definition RuleTagCatch :: string where "RuleTagCatch = ''default''"
definition SocksPort :: int where "SocksPort = 10808"
definition ProbePort :: int where "ProbePort = 10810"
definition ProbeSlotCount :: nat where "ProbeSlotCount = 64"
definition ProbePassword :: string where "ProbePassword = ''probe''"
definition HTTPPort :: int where "HTTPPort = 10809"
definition FakeDNSPort :: int where "FakeDNSPort = 5353"

subsection \<open>Targets\<close>

record target =
  tg_outbound :: string
  tg_balancer :: string

abbreviation to_outbound :: "string \<Rightarrow> target" where "to_outbound t \<equiv> \<lparr>tg_outbound = t, tg_balancer = []\<rparr>"
abbreviation to_balancer :: "string \<Rightarrow> target" where "to_balancer t \<equiv> \<lparr>tg_outbound = [], tg_balancer = t\<rparr>"

definition apply_target :: "target \<Rightarrow> obj \<Rightarrow> obj" where
  "apply_target t r =
     (if tg_balancer t \<noteq> [] then al_put ''balancerTag'' (JStr (tg_balancer t)) r
      else al_put ''outboundTag'' (JStr (tg_outbound t)) r)"

text \<open>The fixed part of \<open>xrayRenderer\<close>, and the part its methods change.\<close>

record xray_renderer =
  xr_snap :: snapshot
  xr_live :: "string list"
  xr_strict :: bool
  xr_strategy :: "string \<Rightarrow> string option"

record xray_state =
  xs_balancers :: obj
  xs_warnings :: "string list"

definition xwarn :: "string \<Rightarrow> xray_state \<Rightarrow> xray_state" where
  "xwarn w st = st\<lparr>xs_warnings := xs_warnings st @ [w]\<rparr>"

definition defaultTarget :: "xray_renderer \<Rightarrow> xray_state \<Rightarrow> target \<times> xray_state" where
  "defaultTarget R st =
     (case DefaultNode (xr_snap R) of
        Some n \<Rightarrow> (to_outbound (NodeTag (n_id n)), st)
      | None \<Rightarrow>
          if xr_live R = [] then (to_outbound TagDirect, st)
          else (to_balancer TagAutoProxy,
                st\<lparr>xs_balancers := al_put TagAutoProxy (JObj [(''tag'', JStr TagAutoProxy),
                     (''selector'', JStrs [''node-'']), (''strategy'', JObj [(''type'', JStr ''leastPing'')])])
                   (xs_balancers st)\<rparr>))"

definition missingTarget :: "xray_renderer \<Rightarrow> string \<Rightarrow> xray_state \<Rightarrow> target \<times> xray_state" where
  "missingTarget R what st =
     (if xr_strict R
      then (to_outbound TagBlock, xwarn (what @ '' has no enabled node; strict failover routes it to block'') st)
      else defaultTarget R (xwarn (what @ '' has no enabled node; routing via default outbound'') st))"

definition catchAll :: "xray_renderer \<Rightarrow> xray_state \<Rightarrow> target \<times> xray_state" where
  "catchAll R st =
     (if nc_lan_default_policy (s_network (xr_snap R)) = ''proxy'' then defaultTarget R st
      else (to_outbound TagDirect, st))"

definition live_tags :: "xray_renderer \<Rightarrow> outbound_group \<Rightarrow> string list" where
  "live_tags R g = filter (\<lambda>t. t \<in> set (xr_live R)) (map NodeTag (g_member_ids g))"

text \<open>The balancer of a group with two or more live members.\<close>

definition group_balancer :: "xray_renderer \<Rightarrow> outbound_group \<Rightarrow> string list \<Rightarrow> obj \<times> string list" where
  "group_balancer R g live =
     (if g_kind g = GroupFailover
      then ([(''tag'', JStr (GroupTag (g_id g))), (''selector'', JStrs [hd live]), (''fallbackTag'', JStr (live ! 1))],
            if length live > 2
            then [''group '' @ quoted (g_name g) @ '': failover uses the first two enabled members; ''
                  @ int_string (int (length live) - 2) @ '' more ignored'']
            else [])
      else (let strategy = (case xr_strategy R (g_strategy g) of Some s \<Rightarrow> or_text s ''leastPing'' | None \<Rightarrow> ''leastPing'');
                fb = (if xr_strict R then TagBlock
                      else (case DefaultNode (xr_snap R) of
                              Some n \<Rightarrow> if NodeTag (n_id n) \<in> set (xr_live R) \<and> NodeTag (n_id n) \<notin> set live
                                        then NodeTag (n_id n) else TagDirect
                            | None \<Rightarrow> TagDirect))
            in ([(''tag'', JStr (GroupTag (g_id g))), (''selector'', JStrs live),
                 (''strategy'', JObj [(''type'', JStr strategy)]), (''fallbackTag'', JStr fb)], [])))"

definition groupTarget :: "xray_renderer \<Rightarrow> rule \<Rightarrow> xray_state \<Rightarrow> target \<times> xray_state" where
  "groupTarget R r st =
     (case snap_group (xr_snap R) (ru_action_ref r) of
        None \<Rightarrow> missingTarget R (''rule '' @ ru_match_value r @ '' (group '' @ ru_action_ref r @ '' missing)'') st
      | Some g \<Rightarrow>
          (case live_tags R g of
             [] \<Rightarrow> missingTarget R (''group '' @ quoted (g_name g)) st
           | [t] \<Rightarrow> (to_outbound t,
               if length (g_member_ids g) > 1
               then xwarn (''group '' @ quoted (g_name g) @ '' has one enabled member; routing directly to it'') st else st)
           | live \<Rightarrow>
               (to_balancer (GroupTag (g_id g)),
                if map_of (xs_balancers st) (GroupTag (g_id g)) \<noteq> None then st
                else (let (b, ws) = group_balancer R g live in
                      st\<lparr>xs_balancers := al_put (GroupTag (g_id g)) (JObj b) (xs_balancers st),
                         xs_warnings := xs_warnings st @ ws\<rparr>))))"

definition resolveAction :: "xray_renderer \<Rightarrow> rule \<Rightarrow> xray_state \<Rightarrow> target \<times> xray_state" where
  "resolveAction R r st =
     (case ru_action_kind r of
        ActionDirect \<Rightarrow> (to_outbound TagDirect, st)
      | ActionBlock \<Rightarrow> (to_outbound TagBlock, st)
      | ActionNode \<Rightarrow>
          if NodeTag (ru_action_ref r) \<in> set (xr_live R) then (to_outbound (NodeTag (ru_action_ref r)), st)
          else missingTarget R (''rule '' @ ru_match_value r @ '' (node '' @ ru_action_ref r @ '')'') st
      | ActionGroup \<Rightarrow> groupTarget R r st
      | _ \<Rightarrow> defaultTarget R st)"

subsection \<open>Rules\<close>

definition private_blocks :: "string list" where
  "private_blocks = [''10.0.0.0/8'', ''172.16.0.0/12'', ''192.168.0.0/16'', ''127.0.0.0/8'', ''169.254.0.0/16'', ''100.64.0.0/10'']"

text \<open>The match of a rule: the key and the values Xray compares with.\<close>

definition rule_match :: "rule \<Rightarrow> (string \<times> string list) result" where
  "rule_match r =
     (case ru_match_kind r of
        MatchDomain \<Rightarrow> (case ParseDomain (ru_match_value r) of Inl e \<Rightarrow> Inl e | Inr p \<Rightarrow> Inr (''domain'', [XrayValue p]))
      | MatchGeosite \<Rightarrow>
          (case NormalizeGeoTag (ru_match_value r) of Inl e \<Rightarrow> Inl e | Inr t \<Rightarrow> Inr (''domain'', [''geosite:'' @ t]))
      | MatchIP \<Rightarrow> (case NormalizeIPOrCIDR (ru_match_value r) of Inl e \<Rightarrow> Inl e | Inr c \<Rightarrow> Inr (''ip'', [c]))
      | MatchGeoIP \<Rightarrow>
          (case NormalizeGeoTag (ru_match_value r) of
             Inl e \<Rightarrow> Inl e
           | Inr t \<Rightarrow> Inr (''ip'', if t = ''private'' then private_blocks else [''geoip:'' @ t]))
      | MatchOther k \<Rightarrow> Inl (''unknown match kind '' @ quoted k))"

definition xray_rule :: "xray_renderer \<Rightarrow> rule \<Rightarrow> xray_state \<Rightarrow> obj option \<times> xray_state" where
  "xray_rule R r st =
     (case rule_match r of
        Inl e \<Rightarrow> (None, xwarn (''rule '' @ ru_id r @ '' skipped: '' @ e) st)
      | Inr (key, vals) \<Rightarrow>
          (let (t, st') = resolveAction R r st in
           (Some (apply_target t [(''type'', JStr ''field''), (''ruleTag'', JStr (RuleTag (ru_id r))), (key, JStrs vals)]), st')))"

fun user_rules :: "xray_renderer \<Rightarrow> rule list \<Rightarrow> xray_state \<Rightarrow> obj list \<times> xray_state" where
  "user_rules R [] st = ([], st)"
| "user_rules R (r # rs) st =
     (let (x, st1) = xray_rule R r st; (xs, st2) = user_rules R rs st1 in
      ((case x of None \<Rightarrow> xs | Some o' \<Rightarrow> o' # xs), st2))"

text \<open>\<open>net.ParseIP(host) != nil\<close>\<close>

definition is_ip_literal :: "string \<Rightarrow> bool" where
  "is_ip_literal host = (case parse_addr host of Some (V4 _) \<Rightarrow> True | Some (V6 _ z) \<Rightarrow> z = [] | _ \<Rightarrow> False)"

text \<open>The rules that pin the public upstreams of Mosdns to the proxy.\<close>

fun upstream_rules :: "xray_renderer \<Rightarrow> nat \<Rightarrow> string list \<Rightarrow> xray_state \<Rightarrow> obj list \<times> xray_state" where
  "upstream_rules R i [] st = ([], st)"
| "upstream_rules R i (up # ups) st =
     (let host = (case NormalizeUpstream up of Inl _ \<Rightarrow> [] | Inr norm \<Rightarrow> UpstreamHost norm) in
      if host = [] \<or> \<not> IsPublicAddr host then upstream_rules R (Suc i) ups st
      else (let (t, st1) = defaultTarget R st; (xs, st2) = upstream_rules R (Suc i) ups st1 in
            (apply_target t [(''type'', JStr ''field''), (''inboundTag'', JStrs [TagSocksIn]),
               (''ruleTag'', JStr (''sys-dns-upstream-'' @ int_string (int i))),
               (if is_ip_literal host then (''ip'', JStrs [host]) else (''domain'', JStrs [''full:'' @ host]))] # xs, st2)))"

subsection \<open>Probe slots\<close>

definition ProbeUser :: "nat \<Rightarrow> string" where "ProbeUser slot = ''probe-'' @ int_string (int slot)"

definition ProbeSlots :: "node list \<Rightarrow> (string \<times> nat) list" where
  "ProbeSlots nodes =
     fold (\<lambda>(i, slot) m. al_put i slot m)
       (zip (take ProbeSlotCount (sort (map n_id (filter n_enabled nodes)))) [0..<ProbeSlotCount]) []"

definition by_slot :: "(string \<times> nat) list \<Rightarrow> string list" where
  "by_slot slots = fold (\<lambda>(i, slot) xs. xs[slot := i]) slots (replicate ProbeSlotCount [])"

definition probe_rules :: "node list \<Rightarrow> obj list" where
  "probe_rules nodes =
     map (\<lambda>(slot, i). [(''type'', JStr ''field''), (''inboundTag'', JStrs [TagProbeIn]), (''user'', JStrs [ProbeUser slot]),
         (''outboundTag'', JStr (''node-'' @ i)), (''ruleTag'', JStr (''probe-'' @ i))])
       (filter (\<lambda>(slot, i). i \<noteq> []) (zip [0..<ProbeSlotCount] (by_slot (ProbeSlots nodes)))) @
     [[(''type'', JStr ''field''), (''inboundTag'', JStrs [TagProbeIn]), (''outboundTag'', JStr TagBlock),
       (''ruleTag'', JStr ''probe-none'')]]"

definition probeAccounts :: "json list" where
  "probeAccounts = map (\<lambda>i. JObj [(''user'', JStr (ProbeUser i)), (''pass'', JStr ProbePassword)]) [0..<ProbeSlotCount]"

end
