(* ===== verification/RenderConfig.thy ===== *)
theory RenderConfig
  imports RenderXray
begin

text \<open>
  \<open>internal/render/xray.go\<close>: \<open>base\<close> and \<open>renderXray\<close>, the whole configuration of Xray and the parts the
  driver compares.
\<close>

definition sniff :: "string list \<Rightarrow> bool \<Rightarrow> json" where
  "sniff extra route_only =
     JObj [(''enabled'', JBool True), (''destOverride'', JStrs ([''http'', ''tls'', ''quic''] @ extra)),
           (''routeOnly'', JBool route_only)]"

definition mark_sockopt :: "string \<times> json" where
  "mark_sockopt = (''streamSettings'', JObj [(''sockopt'', JObj [(''mark'', JInt OutboundMark)])])"

definition xray_override :: "snapshot \<Rightarrow> bool" where
  "xray_override s \<longleftrightarrow> nc_sniff_override (s_network s) \<and> nc_mode (s_network s) \<noteq> ModeB"

definition inbounds :: "snapshot \<Rightarrow> json list" where
  "inbounds s =
     (let m = nc_mode (s_network s); p = nc_tproxy_port (s_network s) in
      [JObj [(''tag'', JStr TagTProxyIn), (''port'', JInt (if p \<le> 0 then 12345 else p)), (''listen'', JStr ''::''),
             (''protocol'', JStr ''dokodemo-door''),
             (''settings'', JObj [(''network'', JStr ''tcp,udp''), (''followRedirect'', JBool True)]),
             (''streamSettings'', JObj [(''sockopt'', JObj [(''tproxy'', JStr ''tproxy'')])]),
             (''sniffing'', sniff (if m = ModeB then [''fakedns''] else []) (\<not> xray_override s))],
       JObj [(''tag'', JStr TagAPIIn), (''listen'', JStr ''127.0.0.1''), (''port'', JInt 10085),
             (''protocol'', JStr ''dokodemo-door''), (''settings'', JObj [(''address'', JStr ''127.0.0.1'')])],
       JObj [(''tag'', JStr TagSocksIn), (''listen'', JStr ''127.0.0.1''), (''port'', JInt SocksPort),
             (''protocol'', JStr ''socks''), (''settings'', JObj [(''udp'', JBool True), (''auth'', JStr ''noauth'')]),
             (''sniffing'', sniff [] True)],
       JObj [(''tag'', JStr TagHTTPIn), (''listen'', JStr ''127.0.0.1''), (''port'', JInt HTTPPort),
             (''protocol'', JStr ''http''), (''settings'', JObj [(''allowTransparent'', JBool False)]),
             (''sniffing'', sniff [] True)],
       JObj [(''tag'', JStr TagProbeIn), (''listen'', JStr ''127.0.0.1''), (''port'', JInt ProbePort),
             (''protocol'', JStr ''socks''),
             (''settings'', JObj [(''udp'', JBool False), (''auth'', JStr ''password''), (''accounts'', JArr probeAccounts)])]] @
      (if m = ModeB then
         [JObj [(''tag'', JStr TagDNSIn), (''listen'', JStr ''127.0.0.1''), (''port'', JInt FakeDNSPort),
                (''protocol'', JStr ''dokodemo-door''),
                (''settings'', JObj [(''address'', JStr ''8.8.8.8''), (''port'', JInt 53), (''network'', JStr ''udp'')])]]
       else []))"

definition fixed_outbounds :: "snapshot \<Rightarrow> obj list" where
  "fixed_outbounds s =
     (let direct = [(''tag'', JStr TagDirect), (''protocol'', JStr ''freedom''), mark_sockopt] in
      [if xray_override s then direct @ [(''settings'', JObj [(''domainStrategy'', JStr ''UseIP'')])] else direct,
       [(''tag'', JStr TagBlock), (''protocol'', JStr ''blackhole'')]] @
      (if nc_mode (s_network s) = ModeB then [[(''tag'', JStr TagDNSOut), (''protocol'', JStr ''dns''), mark_sockopt]] else []))"

text \<open>The configuration without outbounds and routing.\<close>

definition base_config :: "string \<Rightarrow> snapshot \<Rightarrow> obj" where
  "base_config access_log s =
     (let override = xray_override s; m = nc_mode (s_network s); pool = nc_fakeip_pool (s_network s) in
      [(''log'', JObj [(''loglevel'', JStr (if override then ''error'' else ''warning'')), (''access'', JStr access_log)]),
       (''api'', JObj [(''tag'', JStr TagAPI), (''services'', JStrs [''StatsService'', ''RoutingService'', ''HandlerService''])]),
       (''stats'', JObj []),
       (''policy'', JObj [(''system'', JObj [(''statsInboundDownlink'', JBool True), (''statsInboundUplink'', JBool True),
          (''statsOutboundDownlink'', JBool True), (''statsOutboundUplink'', JBool True)])])] @
      (if override
       then [(''dns'', JObj [(''servers'', JStrs [''127.0.0.1'']), (''queryStrategy'', JStr ''UseIPv4''),
               (''disableFallback'', JBool True)])]
       else []) @
      (if m = ModeB
       then [(''fakedns'', JArr [JObj [(''id'', JStr ''fakedns''), (''ipPool'', JStr (or_text pool ''198.18.0.0/16'')),
               (''poolSize'', JInt 65535)]]),
             (''dns'', JObj [(''servers'', JStrs [''fakedns''])])]
       else []) @
      [(''inbounds'', JArr (inbounds s))])"

definition wgOutbound :: "string \<Rightarrow> wg_iface \<Rightarrow> obj" where
  "wgOutbound nodeID w =
     [(''tag'', JStr (''node-'' @ nodeID)), (''protocol'', JStr ''freedom''),
      (''settings'', JObj [(''domainStrategy'', JStr ''AsIs'')]),
      (''streamSettings'', JObj [(''sockopt'', JObj [(''mark'', JInt (wi_mark w))])])]"

text \<open>The last kernel interface with the node's id, as the map of the code holds it.\<close>

definition kernel_iface :: "wg_iface list \<Rightarrow> string \<Rightarrow> wg_iface option" where
  "kernel_iface wgs i = find (\<lambda>w. wi_node_id w = i) (rev wgs)"

definition node_outbound :: "(string \<Rightarrow> obj outcome) \<Rightarrow> wg_iface list \<Rightarrow> node \<Rightarrow> obj outcome" where
  "node_outbound unmarshal wgs n =
     (case kernel_iface wgs (n_id n) of Some w \<Rightarrow> Inr (wgOutbound (n_id n) w) | None \<Rightarrow> buildOutbound unmarshal n)"

text \<open>The outbounds of the nodes that can be rendered, with their tags, and the warnings of the others.\<close>

fun node_outbounds ::
  "(string \<Rightarrow> obj outcome) \<Rightarrow> wg_iface list \<Rightarrow> node list \<Rightarrow> (string \<times> obj) list \<times> string list" where
  "node_outbounds unmarshal wgs [] = ([], [])"
| "node_outbounds unmarshal wgs (n # ns) =
     (let (obs, ws) = node_outbounds unmarshal wgs ns in
      case node_outbound unmarshal wgs n of
        Inl e \<Rightarrow> (obs, (''node '' @ quoted (n_name n) @ '' skipped: '' @ error_text e) # ws)
      | Inr ob \<Rightarrow> ((NodeTag (n_id n), ob) # obs, ws))"

definition system_rules :: "snapshot \<Rightarrow> obj list" where
  "system_rules s =
     [[(''type'', JStr ''field''), (''inboundTag'', JStrs [TagAPIIn]), (''outboundTag'', JStr TagAPI), (''ruleTag'', JStr RuleTagAPI)]] @
     (if nc_mode (s_network s) = ModeB
      then [[(''type'', JStr ''field''), (''inboundTag'', JStrs [TagDNSIn]), (''outboundTag'', JStr TagDNSOut),
             (''ruleTag'', JStr RuleTagDNS)]]
      else []) @
     probe_rules (s_nodes s)"

definition renderer_of :: "snapshot \<Rightarrow> (string \<Rightarrow> string option) \<Rightarrow> string list \<Rightarrow> xray_renderer" where
  "renderer_of s strategy live =
     \<lparr>xr_snap = s, xr_live = live, xr_strict = (nc_node_failover_mode (s_network s) = ''strict''), xr_strategy = strategy\<rparr>"

text \<open>All rules in order, and the state the renderer is left in.\<close>

definition all_rules :: "xray_renderer \<Rightarrow> xray_state \<Rightarrow> obj list \<times> xray_state" where
  "all_rules R st =
     (let s = xr_snap R;
          (ups, st1) = upstream_rules R 0 (dc_remote_upstreams (s_dns s)) st;
          (us, st2) = user_rules R (ActiveRules s) st1;
          (t, st3) = catchAll R st2;
          catch = apply_target t [(''type'', JStr ''field''), (''network'', JStr ''tcp,udp''), (''ruleTag'', JStr RuleTagCatch)]
      in (system_rules s @ ups @ us @ [catch], st3))"

definition sorted_balancers :: "xray_state \<Rightarrow> json list" where
  "sorted_balancers st = map snd (sort_key fst (xs_balancers st))"

definition observatory :: obj where
  "observatory = [(''subjectSelector'', JStrs [''node-'']), (''probeURL'', JStr ''http://cp.cloudflare.com/''), (''probeInterval'', JStr ''30s'')]"

record xray_config =
  xc_base :: obj
  xc_outbounds :: "obj list"
  xc_rules :: "obj list"
  xc_balancers :: "json list"
  xc_nodes :: "(string \<times> obj) list"
  xc_warnings :: "string list"

definition xray_config_of ::
  "(string \<Rightarrow> obj outcome) \<Rightarrow> (string \<Rightarrow> string option) \<Rightarrow> string \<Rightarrow> wg_iface list \<Rightarrow> snapshot \<Rightarrow> xray_config" where
  "xray_config_of unmarshal strategy access_log wgs s =
     (let (nodes, ws) = node_outbounds unmarshal wgs (EnabledNodes s);
          R = renderer_of s strategy (map fst nodes);
          (rules, st) = all_rules R \<lparr>xs_balancers = [], xs_warnings = ws\<rparr>
      in \<lparr>xc_base = base_config access_log s @ (if xs_balancers st = [] then [] else [(''observatory'', JObj observatory)]),
          xc_outbounds = fixed_outbounds s @ map snd nodes, xc_rules = rules, xc_balancers = sorted_balancers st,
          xc_nodes = nodes, xc_warnings = xs_warnings st\<rparr>)"

definition config_json :: "xray_config \<Rightarrow> json" where
  "config_json c =
     JObj (xc_base c @ [(''outbounds'', JArr (map JObj (xc_outbounds c))),
       (''routing'', JObj ((''domainStrategy'', JStr ''IPIfNonMatch'') # (''rules'', JArr (map JObj (xc_rules c))) #
          (if xc_balancers c = [] then [] else [(''balancers'', JArr (xc_balancers c))])))])"

text \<open>Everything but the node outbounds and the rules, which can be replaced without a restart.\<close>

definition structural_json :: "xray_config \<Rightarrow> json" where
  "structural_json c =
     JObj (xc_base c @ [(''routing'', JObj [(''domainStrategy'', JStr ''IPIfNonMatch''),
         (''balancers'', if xc_balancers c = [] then JNull else JArr (xc_balancers c))]),
       (''outbounds'', JArr (map JObj (filter (\<lambda>ob. \<not> has_prefix (jstr ob ''tag'') ''node-'') (xc_outbounds c))))])"

text \<open>The map of the node outbounds: the last one of a tag stays.\<close>

definition outbound_texts :: "(string \<times> obj) list \<Rightarrow> (string \<times> string) list" where
  "outbound_texts nodes = fold (\<lambda>(t, ob) m. al_put t (json_text (JObj ob)) m) nodes []"

definition renderXray ::
  "(string \<Rightarrow> obj outcome) \<Rightarrow> (string \<Rightarrow> string option) \<Rightarrow> (string \<Rightarrow> string) \<Rightarrow> string \<Rightarrow> snapshot \<Rightarrow> artifacts \<Rightarrow> artifacts" where
  "renderXray unmarshal strategy hash access_log s a =
     (let c = xray_config_of unmarshal strategy access_log (a_wg a) s in
      a\<lparr>a_xray := indent_text 0 (config_json c) @ [CHR 0x0A],
        a_xray_outbounds := outbound_texts (xc_nodes c),
        a_xray_rules := json_text (JArr (map JObj (xc_rules c))),
        a_xray_structural_hash := hash (json_text (structural_json c)),
        a_warnings := a_warnings a @ xc_warnings c\<rparr>)"

end
