(* ===== verification/RenderProps.thy ===== *)
theory RenderProps
  imports RenderConfig Trace
begin

text \<open>
  Properties of the Xray configuration: its rules send traffic where the trace says, to outbounds
  and balancers that exist; its outbounds carry a mark; and what forces a restart.
\<close>

subsection \<open>Targets of the rules\<close>

definition rule_target :: "obj \<Rightarrow> string" where
  "rule_target ob = (if jstr ob ''balancerTag'' \<noteq> [] then jstr ob ''balancerTag'' else jstr ob ''outboundTag'')"

definition target_tag :: "target \<Rightarrow> string" where
  "target_tag t = (if tg_balancer t \<noteq> [] then tg_balancer t else tg_outbound t)"

lemma rule_target_apply:
  "map_of ob ''balancerTag'' = None \<Longrightarrow> map_of ob ''outboundTag'' = None \<Longrightarrow> rule_target (apply_target t ob) = target_tag t"
  by (simp add: rule_target_def apply_target_def target_tag_def jstr_def)


text \<open>Nodes whose outbound is rendered.\<close>

definition rendered :: "(string \<Rightarrow> obj outcome) \<Rightarrow> wg_iface list \<Rightarrow> node \<Rightarrow> bool" where
  "rendered unmarshal wgs n \<longleftrightarrow> \<not> isl (node_outbound unmarshal wgs n)"

lemma node_outbounds_tags:
  "map fst (fst (node_outbounds unmarshal wgs ns)) = map (\<lambda>n. NodeTag (n_id n)) (filter (rendered unmarshal wgs) ns)"
proof (induction ns)
  case (Cons n ns)
  then show ?case
    by (cases "node_outbound unmarshal wgs n") (auto simp: rendered_def split: prod.split)
qed simp

lemma NodeTag_inj [simp]: "NodeTag i = NodeTag j \<longleftrightarrow> i = j"
  by (simp add: NodeTag_def)




lemma target_tag_outbound [simp]: "target_tag (to_outbound t) = t"
  by (simp add: target_tag_def)






text \<open>The tag and the target of the rendered rules.\<close>

lemma rule_match_key: "rule_match r = Inr (key, vals) \<Longrightarrow> key = ''domain'' \<or> key = ''ip''"
  by (auto simp: rule_match_def split: match_kind.splits sum.splits)



lemma config_parts:
  "\<exists>R st. R = renderer_of s strategy (map fst (fst (node_outbounds unmarshal wgs (EnabledNodes s)))) \<and>
     xs_balancers st = [] \<and> xc_rules (xray_config_of unmarshal strategy log wgs s) = fst (all_rules R st) \<and>
     xc_balancers (xray_config_of unmarshal strategy log wgs s) = sorted_balancers (snd (all_rules R st)) \<and>
     xc_outbounds (xray_config_of unmarshal strategy log wgs s) =
       fixed_outbounds s @ map snd (fst (node_outbounds unmarshal wgs (EnabledNodes s)))"
proof -
  obtain nodes ws where n: "node_outbounds unmarshal wgs (EnabledNodes s) = (nodes, ws)" by fastforce
  show ?thesis unfolding xray_config_of_def n
    by (intro exI[of _ "renderer_of s strategy (map fst nodes)"] exI[of _ "\<lparr>xs_balancers = [], xs_warnings = ws\<rparr>"])
       (simp split: prod.split)
qed


lemma all_rules_parts:
  "\<exists>ups st1 us st2 t st3. upstream_rules R 0 (dc_remote_upstreams (s_dns (xr_snap R))) st = (ups, st1) \<and>
     user_rules R (ActiveRules (xr_snap R)) st1 = (us, st2) \<and> catchAll R st2 = (t, st3) \<and>
     all_rules R st = (system_rules (xr_snap R) @ ups @ us @ [apply_target t [(''type'', JStr ''field''),
       (''network'', JStr ''tcp,udp''), (''ruleTag'', JStr RuleTagCatch)]], st3)"
  by (simp add: all_rules_def Let_def split: prod.split)



subsection \<open>The targets exist\<close>

definition config_tags :: "xray_config \<Rightarrow> string set" where
  "config_tags c = (\<lambda>ob. jstr ob ''tag'') ` set (xc_outbounds c) \<union>
     (\<lambda>b. case b of JObj ob \<Rightarrow> jstr ob ''tag'' | _ \<Rightarrow> []) ` set (xc_balancers c)"

text \<open>The tags that the rules of a renderer may name; a balancer is stored under its tag.\<close>

definition offered :: "xray_renderer \<Rightarrow> xray_state \<Rightarrow> string set" where
  "offered R st = {TagDirect, TagBlock} \<union> set (xr_live R) \<union> fst ` set (xs_balancers st)"

definition balancers_ok :: "xray_state \<Rightarrow> bool" where
  "balancers_ok st \<longleftrightarrow> (\<forall>(k, v)\<in>set (xs_balancers st). \<exists>b. v = JObj b \<and> jstr b ''tag'' = k)"

definition default_live :: "xray_renderer \<Rightarrow> bool" where
  "default_live R \<longleftrightarrow> (\<forall>n. DefaultNode (xr_snap R) = Some n \<longrightarrow> NodeTag (n_id n) \<in> set (xr_live R))"

definition extends :: "xray_state \<Rightarrow> xray_state \<Rightarrow> bool" where
  "extends st st' \<longleftrightarrow> (balancers_ok st \<longrightarrow> balancers_ok st') \<and> fst ` set (xs_balancers st) \<subseteq> fst ` set (xs_balancers st')"

lemma extends_refl [simp]: "extends st st"
  by (simp add: extends_def)

lemma extends_trans: "extends st st1 \<Longrightarrow> extends st1 st2 \<Longrightarrow> extends st st2"
  by (auto simp: extends_def)

lemma extends_warn [simp]: "extends st (xwarn w st)" "offered R (xwarn w st) = offered R st"
  by (simp_all add: extends_def xwarn_def balancers_ok_def offered_def)

lemma extends_offered: "extends st st' \<Longrightarrow> t \<in> offered R st \<Longrightarrow> t \<in> offered R st'"
  by (auto simp: extends_def offered_def)

lemma set_al_put_subset: "set (al_put k v m) \<subseteq> insert (k, v) (set m)"
  by (induction m) (auto split: if_splits)

lemma balancers_ok_put:
  assumes "balancers_ok st" "jstr b ''tag'' = k" "xs_balancers st' = al_put k (JObj b) (xs_balancers st)"
  shows "balancers_ok st'"
  unfolding balancers_ok_def assms(3)
proof safe
  fix k' v assume "(k', v) \<in> set (al_put k (JObj b) (xs_balancers st))"
  then have "(k', v) = (k, JObj b) \<or> (k', v) \<in> set (xs_balancers st)" using set_al_put_subset by fast
  then show "\<exists>b. v = JObj b \<and> jstr b ''tag'' = k'" using assms(1,2) by (auto simp: balancers_ok_def)
qed

lemma extends_put:
  "jstr b ''tag'' = k \<Longrightarrow> xs_balancers st' = al_put k (JObj b) (xs_balancers st) \<Longrightarrow> extends st st'"
  using balancers_ok_put by (auto simp: extends_def)

lemma offered_put [simp]:
  "k \<in> offered R (st\<lparr>xs_balancers := al_put k v (xs_balancers st), xs_warnings := ws\<rparr>)"
  "k \<in> offered R (st\<lparr>xs_balancers := al_put k v (xs_balancers st)\<rparr>)"
  by (simp_all add: offered_def)

text \<open>A step of the renderer that returns a target keeps the balancers and offers the target.\<close>

definition offers :: "xray_renderer \<Rightarrow> xray_state \<Rightarrow> target \<times> xray_state \<Rightarrow> bool" where
  "offers R st x \<longleftrightarrow> extends st (snd x) \<and> target_tag (fst x) \<in> offered R (snd x)"

lemma extends_put_tag [simp]:
  "extends st (st\<lparr>xs_balancers := al_put k (JObj ((''tag'', JStr k) # b)) (xs_balancers st)\<rparr>)"
  by (rule extends_put[of "(''tag'', JStr k) # b" k]) (simp_all add: jstr_def)

lemma offers_defaultTarget: "default_live R \<Longrightarrow> offers R st (defaultTarget R st)"
  by (auto simp: offers_def defaultTarget_def default_live_def target_tag_def TagAutoProxy_def offered_def split: option.split)

lemma offers_missingTarget: "default_live R \<Longrightarrow> offers R st (missingTarget R what st)"
  using offers_defaultTarget[of R "xwarn (what @ '' has no enabled node; routing via default outbound'') st"]
  by (auto simp: missingTarget_def offers_def intro: extends_trans[OF extends_warn(1)]) (auto simp: offered_def xwarn_def)

lemma group_balancer_tag: "jstr (fst (group_balancer R g live)) ''tag'' = GroupTag (g_id g)"
  by (simp add: group_balancer_def jstr_def Let_def)

lemma live_tags_subset: "set (live_tags R g) \<subseteq> set (xr_live R)"
  by (auto simp: live_tags_def)

lemma offers_groupTarget:
  assumes "default_live R"
  shows "offers R st (groupTarget R r st)"
proof (cases "snap_group (xr_snap R) (ru_action_ref r)")
  case None
  then show ?thesis using offers_missingTarget[OF assms] by (simp add: groupTarget_def)
next
  case (Some g)
  consider "live_tags R g = []" | t where "live_tags R g = [t]" | t u ts where "live_tags R g = t # u # ts"
    by (cases "live_tags R g" rule: remdups_adj.cases) auto
  then show ?thesis
  proof cases
    case 1
    then show ?thesis using Some offers_missingTarget[OF assms] by (simp add: groupTarget_def)
  next
    case 2
    then have "t \<in> set (xr_live R)" using live_tags_subset[of R g] by simp
    then show ?thesis using Some 2 by (auto simp: groupTarget_def offers_def) (simp_all add: offered_def)
  next
    case 3
    have tag: "target_tag (to_balancer (GroupTag (g_id g))) = GroupTag (g_id g)"
      by (simp add: target_tag_def GroupTag_def)
    have known: "map_of m k = Some v \<Longrightarrow> k \<in> fst ` set m" for m :: obj and k v
      by (metis map_of_eq_None_iff option.distinct(1))
    have put: "extends st st'" if "xs_balancers st' =
        al_put (GroupTag (g_id g)) (JObj (fst (group_balancer R g (t # u # ts)))) (xs_balancers st)" for st'
      by (rule extends_put[OF group_balancer_tag that])
    show ?thesis using Some 3 tag known put
      by (auto simp: groupTarget_def offers_def offered_def case_prod_beta)
  qed
qed

lemma offers_resolveAction: "default_live R \<Longrightarrow> offers R st (resolveAction R r st)"
  using offers_defaultTarget[of R st] offers_missingTarget[of R st] offers_groupTarget[of R st r]
  by (auto simp: resolveAction_def offers_def offered_def split: action_kind.split)

lemma offers_catchAll: "default_live R \<Longrightarrow> offers R st (catchAll R st)"
  using offers_defaultTarget[of R st] by (auto simp: catchAll_def offers_def offered_def)

lemma xray_rule_offers:
  assumes "default_live R" "xray_rule R r st = (x, st')"
  shows "extends st st' \<and> rule_target ` set_option x \<subseteq> offered R st'"
proof (cases "rule_match r")
  case (Inr kv)
  then obtain key vals where kv: "rule_match r = Inr (key, vals)" by (cases kv) auto
  obtain t st1 where t: "resolveAction R r st = (t, st1)" by fastforce
  have "rule_target (apply_target t [(''type'', JStr ''field''), (''ruleTag'', JStr (RuleTag (ru_id r))), (key, JStrs vals)]) = target_tag t"
    using rule_match_key[OF kv] by (intro rule_target_apply) auto
  then show ?thesis using assms offers_resolveAction[OF assms(1), of st r] kv t by (auto simp: xray_rule_def offers_def)
qed (use assms in \<open>auto simp: xray_rule_def\<close>)

lemma user_rules_offers:
  assumes "default_live R"
  shows "user_rules R rs st = (xs, st') \<Longrightarrow> extends st st' \<and> rule_target ` set xs \<subseteq> offered R st'"
proof (induction rs arbitrary: st xs)
  case (Cons r rs)
  obtain x st1 where x: "xray_rule R r st = (x, st1)" by fastforce
  obtain ys st2 where ys: "user_rules R rs st1 = (ys, st2)" by fastforce
  have "st' = st2" "set xs = set_option x \<union> set ys" using Cons.prems x ys by (auto split: option.splits)
  then show ?case using xray_rule_offers[OF assms x] Cons.IH[of st1 ys] ys extends_offered
    by (auto intro: extends_trans)
qed simp

lemma upstream_rules_offers:
  assumes "default_live R"
  shows "upstream_rules R i ups st = (xs, st') \<Longrightarrow> extends st st' \<and> rule_target ` set xs \<subseteq> offered R st'"
proof (induction ups arbitrary: i st xs)
  case (Cons up ups)
  let ?host = "case NormalizeUpstream up of Inl _ \<Rightarrow> [] | Inr norm \<Rightarrow> UpstreamHost norm"
  show ?case
  proof (cases "?host = [] \<or> \<not> IsPublicAddr ?host")
    case True
    then show ?thesis using Cons by (simp add: Let_def)
  next
    case False
    obtain t st1 where t: "defaultTarget R st = (t, st1)" by fastforce
    obtain ys st2 where ys: "upstream_rules R (Suc i) ups st1 = (ys, st2)" by fastforce
    let ?match = "if is_ip_literal ?host then (''ip'', JStrs [?host]) else (''domain'', JStrs [''full:'' @ ?host])"
    let ?ob = "apply_target t [(''type'', JStr ''field''), (''inboundTag'', JStrs [TagSocksIn]),
               (''ruleTag'', JStr (''sys-dns-upstream-'' @ int_string (int i))), ?match]"
    have "xs = ?ob # ys" "st' = st2" using Cons.prems False t ys by (simp_all add: Let_def)
    moreover have "rule_target ?ob = target_tag t" by (rule rule_target_apply) auto
    ultimately show ?thesis
      using offers_defaultTarget[OF assms, of st] Cons.IH[of "Suc i" st1 ys] t ys extends_offered
      by (auto simp: offers_def intro: extends_trans)
  qed
qed simp

lemma fixed_tags: "{TagDirect, TagBlock} \<subseteq> (\<lambda>ob. jstr ob ''tag'') ` set (fixed_outbounds s)"
  by (auto simp: fixed_outbounds_def jstr_def Let_def)

lemma node_outbound_tag: "node_outbound unmarshal wgs n = Inr ob \<Longrightarrow> jstr ob ''tag'' = NodeTag (n_id n)"
  by (auto simp: node_outbound_def wgOutbound_def NodeTag_def jstr_def dest: buildOutbound_tag split: option.splits)

lemma node_outbounds_sound:
  "(t, ob) \<in> set (fst (node_outbounds unmarshal wgs ns)) \<Longrightarrow>
     \<exists>n\<in>set ns. node_outbound unmarshal wgs n = Inr ob \<and> t = NodeTag (n_id n) \<and> jstr ob ''tag'' = t"
proof (induction ns)
  case (Cons n ns)
  then show ?case using node_outbound_tag[of unmarshal wgs n]
    by (cases "node_outbound unmarshal wgs n") (auto split: prod.splits)
qed simp

lemma node_outbounds_jstr:
  "(\<lambda>ob. jstr ob ''tag'') ` set (map snd (fst (node_outbounds unmarshal wgs ns))) = set (map fst (fst (node_outbounds unmarshal wgs ns)))"
  using node_outbounds_sound[of _ _ unmarshal wgs ns] by (force simp: image_iff)

lemma sorted_balancers_tags:
  assumes "balancers_ok st"
  shows "fst ` set (xs_balancers st) \<subseteq> (\<lambda>b. case b of JObj ob \<Rightarrow> jstr ob ''tag'' | _ \<Rightarrow> []) ` set (sorted_balancers st)"
proof
  fix k assume "k \<in> fst ` set (xs_balancers st)"
  then obtain v where v: "(k, v) \<in> set (xs_balancers st)" by auto
  then obtain b where b: "v = JObj b" "jstr b ''tag'' = k" using assms unfolding balancers_ok_def by blast
  have "v \<in> set (sorted_balancers st)" using v by (force simp: sorted_balancers_def)
  then show "k \<in> (\<lambda>b. case b of JObj ob \<Rightarrow> jstr ob ''tag'' | _ \<Rightarrow> []) ` set (sorted_balancers st)"
    using b by force
qed

text \<open>The default node, when there is one, has an outbound.\<close>

definition default_rendered :: "(string \<Rightarrow> obj outcome) \<Rightarrow> wg_iface list \<Rightarrow> snapshot \<Rightarrow> bool" where
  "default_rendered unmarshal wgs s =
     (case DefaultNode s of None \<Rightarrow> True | Some n \<Rightarrow> rendered unmarshal wgs n)"

text \<open>
  C29. Every rule made of an upstream, of a user rule or of the LAN policy points to an outbound or a
  balancer of the same configuration, provided the default node (if there is one) could be rendered.
\<close>

theorem rule_targets_exist:
  assumes "default_rendered unmarshal wgs s"
  shows "rule_target ` set (drop (length (system_rules s)) (xc_rules (xray_config_of unmarshal strategy log wgs s)))
    \<subseteq> config_tags (xray_config_of unmarshal strategy log wgs s)"
proof -
  let ?nodes = "fst (node_outbounds unmarshal wgs (EnabledNodes s))"
  let ?c = "xray_config_of unmarshal strategy log wgs s"
  obtain R st where R: "R = renderer_of s strategy (map fst ?nodes)" and start: "xs_balancers st = []"
    and parts: "xc_rules ?c = fst (all_rules R st)" "xc_balancers ?c = sorted_balancers (snd (all_rules R st))"
      "xc_outbounds ?c = fixed_outbounds s @ map snd ?nodes"
    using config_parts[of s strategy unmarshal wgs log] by (elim exE conjE) (rule that; assumption)
  have s: "xr_snap R = s" and live: "xr_live R = map fst ?nodes" using R by (simp_all add: renderer_of_def)
  have "default_live R"
    using assms DefaultNode_Some[of s]
    by (auto simp: default_live_def s live node_outbounds_tags default_rendered_def simp del: map_map)
  obtain ups st1 us st2 t st3 where rules: "upstream_rules R 0 (dc_remote_upstreams (s_dns s)) st = (ups, st1)"
    "user_rules R (ActiveRules s) st1 = (us, st2)" "catchAll R st2 = (t, st3)"
    "all_rules R st = (system_rules s @ ups @ us @ [apply_target t [(''type'', JStr ''field''),
       (''network'', JStr ''tcp,udp''), (''ruleTag'', JStr RuleTagCatch)]], st3)"
    using all_rules_parts[of R st, unfolded s] by (elim exE conjE) (rule that; assumption)
  note steps = upstream_rules_offers[OF \<open>default_live R\<close> rules(1)] user_rules_offers[OF \<open>default_live R\<close> rules(2)]
    offers_catchAll[OF \<open>default_live R\<close>, of st2, unfolded rules(3) offers_def fst_conv snd_conv]
  have ext: "extends st1 st3" "extends st2 st3" using steps extends_trans[of st1 st2 st3] by simp_all
  then have "extends st st3" using steps(1) extends_trans[of st st1 st3] by simp
  have ok: "balancers_ok st3" using \<open>extends st st3\<close> start by (simp add: extends_def balancers_ok_def)
  have catch: "rule_target (apply_target t [(''type'', JStr ''field''), (''network'', JStr ''tcp,udp''),
      (''ruleTag'', JStr RuleTagCatch)]) = target_tag t" by (rule rule_target_apply) auto
  have "rule_target ` set (drop (length (system_rules s)) (xc_rules ?c)) \<subseteq> offered R st3"
    using steps extends_offered[OF ext(1)] extends_offered[OF ext(2)] by (auto simp: parts(1) rules(4) catch)
  also have "\<dots> \<subseteq> config_tags ?c"
    using fixed_tags[of s] sorted_balancers_tags[OF ok] node_outbounds_jstr[of unmarshal wgs "EnabledNodes s"]
    by (auto simp: offered_def config_tags_def parts rules(4) live image_Un)
  finally show ?thesis .
qed

text \<open>A default node whose parameters cannot be used, and a rule that names it.\<close>

definition bad_params :: "string \<Rightarrow> obj outcome" where
  "bad_params t = (if t = ''{}'' then Inr [] else Inr [(''settings'', JNum ''5'')])"

definition edge_node :: "string \<Rightarrow> string \<Rightarrow> node" where
  "edge_node i params = zero_node\<lparr>n_id := i, n_name := i, n_protocol := ProtocolVMess, n_params := params, n_enabled := True\<rparr>"

definition edge_snapshot :: "string \<Rightarrow> snapshot" where
  "edge_snapshot params = example_snapshot ModeC
     [ip_rule ''9.9.0.0/16'', (ip_rule ''8.8.0.0/16'')\<lparr>ru_action_kind := ActionNode, ru_action_ref := ''n2''\<rparr>]
     [(edge_node ''n1'' params)\<lparr>n_is_default := True\<rparr>, edge_node ''n2'' ''{}'']"

definition edge_config :: "string \<Rightarrow> xray_config" where
  "edge_config params = xray_config_of bad_params (\<lambda>_. None) ''/log'' [] (edge_snapshot params)"


theorem rule_targets_exist_witness:
  "rule_target ` set (drop (length (system_rules (edge_snapshot ''{}''))) (xc_rules (edge_config ''{}'')))
     \<subseteq> config_tags (edge_config ''{}'')"
proof -
  have "default_rendered bad_params [] (edge_snapshot ''{}'')" by code_simp
  from rule_targets_exist[OF this] show ?thesis by (simp only: edge_config_def)
qed

text \<open>
  Without that condition rules are left pointing nowhere: the default node is enabled but its
  parameters are unusable, so its outbound is skipped with a warning, while the rule with action
  proxy still names it.
\<close>

theorem skipped_default_dangles:
  "rule_target ` set (drop (length (system_rules (edge_snapshot ''bad''))) (xc_rules (edge_config ''bad''))) -
     config_tags (edge_config ''bad'') = {''node-n1''}"
proof -
  have "map rule_target (drop (length (system_rules (edge_snapshot ''bad''))) (xc_rules (edge_config ''bad''))) =
      [''node-n1'', ''node-n2'', ''direct'']" by code_simp
  moreover have "map (\<lambda>ob. jstr ob ''tag'') (xc_outbounds (edge_config ''bad'')) = [''direct'', ''block'', ''node-n2'']"
    "xc_balancers (edge_config ''bad'') = []" by code_simp+
  ultimately show ?thesis unfolding config_tags_def set_map[symmetric] by (simp add: insert_Diff_if)
qed

subsection \<open>Marks\<close>

definition outbound_mark :: "obj \<Rightarrow> json option" where
  "outbound_mark ob =
     (case jobj ob ''streamSettings'' of
        None \<Rightarrow> None
      | Some ss \<Rightarrow> (case jobj ss ''sockopt'' of None \<Rightarrow> None | Some so \<Rightarrow> map_of so ''mark''))"

lemma buildOutbound_mark: "buildOutbound unmarshal n = Inr ob \<Longrightarrow> outbound_mark ob = Some (JInt OutboundMark)"
proof (erule buildOutbound_shape)
  fix ob0 let ?m = "mark_stream n (to_lower (protocol_string (n_protocol n))) (fold al_del shorthandKeys ob0)"
  assume ob: "ob = al_put ''tag'' (JStr (NodeTag (n_id n)))
      (al_put ''protocol'' (JStr (to_lower (protocol_string (n_protocol n)))) ?m)"
  obtain ss where "map_of ?m ''streamSettings'' = Some (JObj ss)" "map_of ss ''sockopt'' = Some (JObj [(''mark'', JInt OutboundMark)])"
    using mark_stream_mark by blast
  then show ?thesis by (simp add: ob outbound_mark_def jobj_def)
qed

lemma node_outbound_mark:
  "node_outbound unmarshal wgs n = Inr ob \<Longrightarrow>
     outbound_mark ob \<in> insert (Some (JInt OutboundMark)) ((\<lambda>w. Some (JInt (wi_mark w))) ` set wgs)"
  using find_SomeD[of _ "rev wgs"]
  by (auto simp: node_outbound_def kernel_iface_def dest: buildOutbound_mark split: option.splits)
     (simp add: wgOutbound_def outbound_mark_def jobj_def)

text \<open>
  Whatever the parameters of the nodes say, every outbound that sends traffic is marked, with the
  mark that nft leaves alone or with the mark of the node's own WireGuard interface: none of the
  gateway's traffic is intercepted again.
\<close>

theorem outbounds_marked:
  "outbound_mark ` set (filter (\<lambda>ob. jstr ob ''tag'' \<noteq> TagBlock) (xc_outbounds (xray_config_of unmarshal strategy log wgs s)))
     \<subseteq> insert (Some (JInt OutboundMark)) ((\<lambda>w. Some (JInt (wi_mark w))) ` set wgs)"
proof -
  have fixed: "outbound_mark ` set (filter (\<lambda>ob. jstr ob ''tag'' \<noteq> TagBlock) (fixed_outbounds s)) \<subseteq> {Some (JInt OutboundMark)}"
    by (auto simp: fixed_outbounds_def Let_def outbound_mark_def jobj_def jstr_def mark_sockopt_def)
  have nodes: "outbound_mark ` set (map snd (fst (node_outbounds unmarshal wgs (EnabledNodes s))))
      \<subseteq> insert (Some (JInt OutboundMark)) ((\<lambda>w. Some (JInt (wi_mark w))) ` set wgs)"
    using node_outbounds_sound[of _ _ unmarshal wgs "EnabledNodes s"] node_outbound_mark[of unmarshal wgs] by fastforce
  have "xc_outbounds (xray_config_of unmarshal strategy log wgs s) =
      fixed_outbounds s @ map snd (fst (node_outbounds unmarshal wgs (EnabledNodes s)))"
    using config_parts[of s strategy unmarshal wgs log] by (elim exE conjE)
  then show ?thesis using fixed nodes by (simp add: image_Un subset_iff) blast
qed

subsection \<open>Restarts\<close>

text \<open>
  The structural part, whose hash decides between a hot update and a restart, is the same for two
  configurations exactly when they agree on the base (logging, inbounds, DNS, observatory), on the
  balancers and on the fixed outbounds; rules and node outbounds do not count.
\<close>

theorem structural_exact:
  "structural_json (xray_config_of unmarshal strategy log wgs s) = structural_json (xray_config_of unmarshal' strategy' log' wgs' s') \<longleftrightarrow>
     xc_base (xray_config_of unmarshal strategy log wgs s) = xc_base (xray_config_of unmarshal' strategy' log' wgs' s') \<and>
     xc_balancers (xray_config_of unmarshal strategy log wgs s) = xc_balancers (xray_config_of unmarshal' strategy' log' wgs' s') \<and>
     fixed_outbounds s = fixed_outbounds s'"
proof -
  have obs: "filter (\<lambda>ob. \<not> has_prefix (jstr ob ''tag'') ''node-'') (xc_outbounds (xray_config_of u str l w x)) = fixed_outbounds x"
    for u str l w x
  proof -
    have eq: "xc_outbounds (xray_config_of u str l w x) = fixed_outbounds x @ map snd (fst (node_outbounds u w (EnabledNodes x)))"
      using config_parts[of x str u w l] by (elim exE conjE)
    have fixed: "filter (\<lambda>ob. \<not> has_prefix (jstr ob ''tag'') ''node-'') (fixed_outbounds x) = fixed_outbounds x"
      by (auto simp: fixed_outbounds_def Let_def jstr_def TagDirect_def TagBlock_def TagDNSOut_def)
    have "has_prefix (NodeTag i) ''node-''" for i by (simp add: NodeTag_def)
    then have "filter (\<lambda>ob. \<not> has_prefix (jstr ob ''tag'') ''node-'') (map snd (fst (node_outbounds u w (EnabledNodes x)))) = []"
      using node_outbounds_sound[of _ _ u w "EnabledNodes x"] by (fastforce simp: filter_empty_conv)
    then show ?thesis by (simp add: eq fixed)
  qed
  have "inj JObj" by (simp add: inj_def)
  then show ?thesis by (auto simp: structural_json_def obs inj_map_eq_map split: if_splits)
qed

end
