(* ===== verification/Paths.thy ===== *)
theory Paths
  imports GoStrings
begin

text \<open>
  \<open>internal/paths/paths.go\<close>: the file locations, over \<open>filepath.Join\<close> and \<open>filepath.Clean\<close> on Unix.
\<close>

text \<open>One element of a path, on the reversed list of the elements kept so far.\<close>

definition clean_step :: "bool \<Rightarrow> string \<Rightarrow> string list \<Rightarrow> string list" where
  "clean_step rooted p stack =
     (if p = [] \<or> p = ''.'' then stack
      else if p = ''..''
      then (case stack of
              [] \<Rightarrow> if rooted then [] else [''..'']
            | t # ts \<Rightarrow> if t = ''..'' then ''..'' # stack else ts)
      else p # stack)"

definition file_clean :: "string \<Rightarrow> string" where
  "file_clean path =
     (let rooted = has_prefix path ''/'';
          body = join_with ''/'' (rev (fold (clean_step rooted) (split_on CHR ''/'' path) []))
      in if rooted then ''/'' @ body else if body = [] then ''.'' else body)"

definition file_join :: "string list \<Rightarrow> string" where
  "file_join elems =
     (case dropWhile (\<lambda>e. e = []) elems of [] \<Rightarrow> [] | es \<Rightarrow> file_clean (join_with ''/'' es))"

record paths =
  pa_data :: string
  pa_run :: string

definition new_paths :: "string \<Rightarrow> paths" where
  "new_paths data = \<lparr>pa_data = data, pa_run = ''/run/edgeroutegw''\<rparr>"

definition ComponentsDir :: "paths \<Rightarrow> string" where "ComponentsDir p = file_join [pa_data p, ''components'']"
definition XrayBinary :: "paths \<Rightarrow> string" where "XrayBinary p = file_join [ComponentsDir p, ''xray'', ''xray'']"
definition MosdnsBinary :: "paths \<Rightarrow> string" where "MosdnsBinary p = file_join [ComponentsDir p, ''mosdns'', ''mosdns'']"
definition GeoDir :: "paths \<Rightarrow> string" where "GeoDir p = file_join [pa_data p, ''geodata'']"
definition GeoSitePath :: "paths \<Rightarrow> string" where "GeoSitePath p = file_join [GeoDir p, ''geosite.dat'']"
definition GeoIPPath :: "paths \<Rightarrow> string" where "GeoIPPath p = file_join [GeoDir p, ''geoip.dat'']"
definition KeysDir :: "paths \<Rightarrow> string" where "KeysDir p = file_join [pa_data p, ''keys'']"
definition MasterKey :: "paths \<Rightarrow> string" where "MasterKey p = file_join [KeysDir p, ''master.key'']"
definition XrayDir :: "paths \<Rightarrow> string" where "XrayDir p = file_join [pa_data p, ''xray'']"
definition XrayConfigPath :: "paths \<Rightarrow> string" where "XrayConfigPath p = file_join [XrayDir p, ''config.json'']"
definition XrayAccessLog :: "paths \<Rightarrow> string" where "XrayAccessLog p = file_join [pa_run p, ''xray_access.log'']"
definition MosdnsDir :: "paths \<Rightarrow> string" where "MosdnsDir p = file_join [pa_data p, ''mosdns'']"
definition MosdnsConfigPath :: "paths \<Rightarrow> string" where "MosdnsConfigPath p = file_join [MosdnsDir p, ''config.yaml'']"
definition MosdnsProxyList :: "paths \<Rightarrow> string" where "MosdnsProxyList p = file_join [MosdnsDir p, ''proxy_domains.txt'']"
definition MosdnsCNList :: "paths \<Rightarrow> string" where "MosdnsCNList p = file_join [MosdnsDir p, ''geosite_cn.txt'']"
definition MosdnsLog :: "paths \<Rightarrow> string" where "MosdnsLog p = file_join [pa_run p, ''mosdns.log'']"
definition NftDir :: "paths \<Rightarrow> string" where "NftDir p = file_join [pa_data p, ''nft'']"
definition NftRuleset :: "paths \<Rightarrow> string" where "NftRuleset p = file_join [NftDir p, ''ruleset.nft'']"

end
