(* ===== verification/RenderBase.thy ===== *)
theory RenderBase
  imports RenderConfig Paths
begin

text \<open>
  \<open>internal/render/render.go\<close>: the inputs of the renderers beside the snapshot, and the two text
  helpers of \<open>mosdns.go\<close>.  The last four fields stand for code outside the repository: decoding of JSON
  into a node's parameters, a group's strategy and WireGuard settings, and the two hashes.
\<close>

record wg_peer_settings =
  ws_public_key :: string
  ws_preshared_key :: string
  ws_endpoint :: string
  ws_allowed_ips :: "string list"
  ws_keepalive :: int

record wg_settings =
  wg_address :: "string list"
  wg_mtu :: int
  wg_reserved :: "int list"
  wg_peers :: "wg_peer_settings list"

record render_deps =
  de_paths :: paths
  de_geosite :: "site_source option"
  de_geoip :: "ip_source option"
  de_iface_addr :: "(string \<Rightarrow> prefix result) option"
  de_default_iface :: "string result option"
  de_kernel_wg :: bool
  de_params :: "string \<Rightarrow> obj outcome"
  de_strategy :: "string \<Rightarrow> string option"
  de_wg_params :: "string \<Rightarrow> wg_settings result"
  de_sha1 :: "string \<Rightarrow> string"
  de_sha256 :: "string \<Rightarrow> string"

definition joinLines :: "string list \<Rightarrow> string" where
  "joinLines items = concat (map (\<lambda>it. it @ [CHR 0x0A]) items)"

definition yamlQuote :: "string \<Rightarrow> string" where
  "yamlQuote s =
     ''\"'' @ concat (map (\<lambda>c. if c = CHR 0x5C \<or> c = CHR ''\"'' then [CHR 0x5C, c] else [c]) s) @ ''\"''"

end
