(* ===== verification/RenderWG.thy ===== *)
theory RenderWG
  imports RenderBase
begin

text \<open>
  \<open>internal/render/wg.go\<close>: the kernel interfaces of WireGuard nodes, with the routing table and the mark
  that lead to each.
\<close>

definition WGIfacePrefix :: string where "WGIfacePrefix = ''ergw-''"
definition WGTableBase :: int where "WGTableBase = 300"
definition WGMarkBase :: int where "WGMarkBase = 0x100"
definition WGMaxIfaces :: nat where "WGMaxIfaces = 64"
definition WGKeepalive :: int where "WGKeepalive = 25"
definition WGDefaultMTU :: int where "WGDefaultMTU = 1420"

definition hex_byte :: "char \<Rightarrow> string" where
  "hex_byte c = (let n = (of_char c :: nat); h = (\<lambda>k. if k < 10 then char_of (48 + k) else char_of (87 + k)) in [h (n div 16), h (n mod 16)])"

text \<open>\<open>hex.EncodeToString(sum[:4])\<close>\<close>

definition WGIfaceName :: "(string \<Rightarrow> string) \<Rightarrow> string \<Rightarrow> string" where
  "WGIfaceName sha1 i = WGIfacePrefix @ concat (map hex_byte (take 4 (sha1 i)))"

definition wg_cidr :: "string \<Rightarrow> string" where
  "wg_cidr a = (if str_contains a ''/'' then a else if str_contains a '':'' then a @ ''/128'' else a @ ''/32'')"

definition wg_peer_of :: "node \<Rightarrow> wg_peer_settings \<Rightarrow> wg_peer result" where
  "wg_peer_of n p =
     (if ws_public_key p = [] then Inl ''peer without publicKey''
      else Inr \<lparr>wp_public_key = ws_public_key p, wp_preshared_key = ws_preshared_key p,
                wp_endpoint = or_text (ws_endpoint p) (n_address n @ '':'' @ int_string (n_port n)),
                wp_allowed_ips = (if ws_allowed_ips p = [] then [''0.0.0.0/0'', ''::/0''] else ws_allowed_ips p),
                wp_keepalive = (if ws_keepalive p \<le> 0 then WGKeepalive else ws_keepalive p)\<rparr>)"

fun wg_peers_of :: "node \<Rightarrow> wg_peer_settings list \<Rightarrow> wg_peer list result" where
  "wg_peers_of n [] = Inr []"
| "wg_peers_of n (p # ps) = bind_result (wg_peer_of n p) (\<lambda>x. bind_result (wg_peers_of n ps) (\<lambda>xs. Inr (x # xs)))"

definition is_wireguard :: "node \<Rightarrow> bool" where
  "is_wireguard n \<longleftrightarrow> to_lower (protocol_string (n_protocol n)) = ''wireguard''"

definition kernelWGIface :: "render_deps \<Rightarrow> node \<Rightarrow> wg_iface result" where
  "kernelWGIface d n =
     (if \<not> is_wireguard n then Inl ''not wireguard''
      else if n_credential n = [] then Inl ''no private key''
      else case de_wg_params d (n_params n) of
             Inl e \<Rightarrow> Inl (''params: '' @ e)
           | Inr s \<Rightarrow>
               if wg_reserved s \<noteq> []
               then Inl ''reserved bytes (WARP-style) are only supported by the userspace implementation''
               else if wg_address s = [] \<or> wg_peers s = [] then Inl ''settings.address and settings.peers are required''
               else bind_result (wg_peers_of n (wg_peers s)) (\<lambda>ps.
                 Inr \<lparr>wi_node_id = n_id n, wi_name = WGIfaceName (de_sha1 d) (n_id n), wi_private_key = n_credential n,
                      wi_addresses = map wg_cidr (wg_address s),
                      wi_mtu = (if wg_mtu s \<le> 0 then WGDefaultMTU else wg_mtu s), wi_peers = ps, wi_table = 0, wi_mark = 0\<rparr>))"

text \<open>The interfaces of the nodes that can have one, and the warnings of the others.\<close>

fun wg_ifaces :: "render_deps \<Rightarrow> node list \<Rightarrow> wg_iface list \<times> string list" where
  "wg_ifaces d [] = ([], [])"
| "wg_ifaces d (n # ns) =
     (let (is, ws) = wg_ifaces d ns in
      if \<not> is_wireguard n then (is, ws)
      else case kernelWGIface d n of
             Inl e \<Rightarrow> (is, (''node '' @ quoted (n_name n) @ '' stays on userspace WireGuard: '' @ e) # ws)
           | Inr i \<Rightarrow> (i # is, ws))"

definition number_iface :: "nat \<Rightarrow> wg_iface \<Rightarrow> wg_iface" where
  "number_iface i w = w\<lparr>wi_table := WGTableBase + int i, wi_mark := WGMarkBase + int i\<rparr>"

definition numbered_ifaces :: "wg_iface list \<Rightarrow> wg_iface list" where
  "numbered_ifaces ws = map (\<lambda>(i, w). number_iface i w) (zip [0..<length ws] ws)"

definition renderWG :: "snapshot \<Rightarrow> render_deps \<Rightarrow> artifacts \<Rightarrow> artifacts" where
  "renderWG s d a =
     (if \<not> de_kernel_wg d then a
      else (let (is, ws) = wg_ifaces d (EnabledNodes s);
                sorted = sort_key wi_node_id is;
                extra = (if length sorted > WGMaxIfaces
                         then [''only the first 64 WireGuard nodes use the kernel implementation''] else [])
            in a\<lparr>a_wg := numbered_ifaces (take WGMaxIfaces sorted), a_warnings := a_warnings a @ ws @ extra\<rparr>))"

end
