(* ===== verification/RenderMosdns.thy ===== *)
theory RenderMosdns
  imports RenderBase
begin

text \<open>
  \<open>internal/render/mosdns.go\<close>: the configuration of Mosdns and the two domain lists.
\<close>

definition DefaultLocalUpstreams :: "string list" where
  "DefaultLocalUpstreams = [''https://223.5.5.5/dns-query'', ''tls://1.12.12.12'']"

definition DefaultRemoteUpstreams :: "string list" where
  "DefaultRemoteUpstreams = [''https://1.1.1.1/dns-query'', ''tls://8.8.8.8'']"

definition BootstrapResolver :: string where "BootstrapResolver = ''223.5.5.5''"

subsection \<open>Upstreams\<close>

definition forceTCP :: "string \<Rightarrow> string" where
  "forceTCP up =
     (if str_contains up ''://''
      then (case str_index up ''udp://'' of None \<Rightarrow> up | Some i \<Rightarrow> take i up @ ''tcp://'' @ drop (i + 6) up)
      else ''tcp://'' @ up)"

definition upstream_item :: "bool \<Rightarrow> string \<Rightarrow> string" where
  "upstream_item via_proxy norm =
     (let proxied = via_proxy \<and> IsPublicAddr (UpstreamHost norm);
          up = (if proxied then forceTCP norm else norm);
          host = UpstreamHost up;
          opts = (if proxied then [''socks5: \"127.0.0.1:'' @ int_string SocksPort @ ''\"''] else []) @
                 (if \<not> is_ip_literal host \<and> host \<noteq> [] then [''bootstrap: \"'' @ BootstrapResolver @ ''\"''] else []) @
                 (if has_prefix up ''https://'' \<or> has_prefix up ''tls://'' \<or> has_prefix up ''quic://''
                  then [''idle_timeout: 30''] else []) @
                 (if has_prefix up ''tcp://'' \<or> has_prefix up ''tls://'' then [''enable_pipeline: true''] else [])
      in ''{ addr: \"'' @ up @ ''\"'' @ (if opts = [] then [] else '', '' @ join_with '', '' opts) @ '' }'')"

definition upstream_items :: "bool \<Rightarrow> string list \<Rightarrow> string list" where
  "upstream_items via_proxy ups =
     List.map_filter (\<lambda>raw. case NormalizeUpstream raw of Inl _ \<Rightarrow> None | Inr up \<Rightarrow> Some (upstream_item via_proxy up)) ups"

text \<open>The recursion of the code: without any valid upstream the defaults are rendered.\<close>

definition upstreams :: "string list \<Rightarrow> bool \<Rightarrow> string" where
  "upstreams ups via_proxy =
     (let items = upstream_items via_proxy ups;
          items' = (if items = []
                    then upstream_items via_proxy (if via_proxy then DefaultRemoteUpstreams else DefaultLocalUpstreams)
                    else items)
      in ''['' @ join_with '', '' items' @ '']'')"

subsection \<open>The configuration\<close>

definition domain_set_lines :: "string \<Rightarrow> string \<Rightarrow> string list" where
  "domain_set_lines tag path =
     [''  - tag: '' @ tag, ''    type: domain_set'', ''    args:'', ''      files:'', ''        - '' @ yamlQuote path]"

definition forward_lines :: "string \<Rightarrow> string \<Rightarrow> string list" where
  "forward_lines tag ups = [''  - tag: '' @ tag, ''    type: forward'', ''    args: { upstreams: '' @ ups @ '' }'']"

definition has_resp :: "string list" where
  "has_resp = [''      - matches: [ has_resp ]'', ''        exec: return'']"

definition match_lines :: "string \<Rightarrow> string \<Rightarrow> string list" where
  "match_lines cond exec = [''      - matches: [ '' @ cond @ '' ]'', ''        exec: '' @ exec] @ has_resp"

definition server_lines :: "string \<Rightarrow> string list" where
  "server_lines tag =
     [''  - tag: '' @ tag, ''    type: '' @ tag, ''    args:'', ''      entry: main_sequence'', ''      listen: \":53\"'']"

text \<open>The client subnet, when it is an IPv4 prefix.\<close>

definition ecs_prefix :: "dns_config \<Rightarrow> prefix option" where
  "ecs_prefix dns = (case parse_prefix (dc_ecs_subnet dns) of Some p \<Rightarrow> if is4 (p_addr p) then Some p else None | None \<Rightarrow> None)"

definition ecs_lines :: "prefix \<Rightarrow> string list" where
  "ecs_lines p =
     [''  - tag: ecs_local'', ''    type: ecs_handler'',
      ''    args: { forward: false, send: true, preset: \"'' @ addr_string (p_addr (masked p)) @ ''\", mask4: '' @
        int_string (p_bits p) @ '', mask6: 56 }'',
      ''  - tag: local_seq'', ''    type: sequence'', ''    args:'', ''      - exec: $ecs_local'', ''      - exec: $forward_local'']"

text \<open>The forwarding rules with a valid suffix, with their place in the list.\<close>

definition forward_rules :: "dns_config \<Rightarrow> (nat \<times> dns_forward_rule) list" where
  "forward_rules dns =
     filter (\<lambda>(i, fr). \<not> is_err (ParseDomain (fw_suffix fr))) (zip [0..<length (dc_forward_rules dns)] (dc_forward_rules dns))"

definition internal_tag :: "nat \<Rightarrow> string" where
  "internal_tag i = ''forward_internal_'' @ int_string (int i)"

definition mosdns_lines :: "snapshot \<Rightarrow> render_deps \<Rightarrow> string list" where
  "mosdns_lines s d =
     (let dns = s_dns s; p = de_paths d;
          level = (if dc_log_level dns \<in> {''debug'', ''info'', ''warn'', ''error''} then dc_log_level dns else ''info'');
          size = (if dc_cache_size dns \<le> 0 then 10240 else dc_cache_size dns);
          ttl = (if dc_lazy_cache_ttl dns \<le> 0 then 86400 else dc_lazy_cache_ttl dns);
          local_exec = (if ecs_prefix dns = None then ''$forward_local'' else ''$local_seq'');
          proxy_exec = (if nc_mode (s_network s) = ModeB then ''$forward_fakeip'' else ''$forward_remote'')
      in [''log:'', ''  level: '' @ level, ''  file: '' @ yamlQuote (MosdnsLog p), ''plugins:''] @
         domain_set_lines ''proxy_domain'' (MosdnsProxyList p) @
         domain_set_lines ''geosite_cn'' (MosdnsCNList p) @
         (if dc_lazy_cache dns
          then [''  - tag: lazy_cache'', ''    type: cache'',
                ''    args: { size: '' @ int_string size @ '', lazy_cache_ttl: '' @ int_string ttl @ '' }'']
          else []) @
         forward_lines ''forward_local'' (upstreams (dc_local_upstreams dns) False) @
         forward_lines ''forward_remote'' (upstreams (dc_remote_upstreams dns) True) @
         (case ecs_prefix dns of Some e \<Rightarrow> ecs_lines e | None \<Rightarrow> []) @
         concat (map (\<lambda>(i, fr). forward_lines (internal_tag i) (upstreams [fw_upstream fr] False)) (forward_rules dns)) @
         (if nc_mode (s_network s) = ModeB
          then forward_lines ''forward_fakeip'' (''[{ addr: \"127.0.0.1:'' @ int_string FakeDNSPort @ ''\" }]'') else []) @
         [''  - tag: main_sequence'', ''    type: sequence'', ''    args:''] @
         concat (map (\<lambda>(i, fr). match_lines (''qname domain:'' @ fw_suffix fr) (''$'' @ internal_tag i)) (forward_rules dns)) @
         (if dc_ipv6_mode dns = ''all'' then [''      - matches: [ qtype 28 ]'', ''        exec: reject 0''] else []) @
         (if dc_lazy_cache dns then ''      - exec: $lazy_cache'' # has_resp else []) @
         (if dc_ipv6_mode dns = ''proxy''
          then [''      - matches: [ qname $proxy_domain, qtype 28 ]'', ''        exec: reject 0''] else []) @
         match_lines ''qname $proxy_domain'' proxy_exec @
         match_lines ''qname $geosite_cn'' local_exec @
         [''      - exec: $forward_remote''] @
         server_lines ''udp_server'' @ server_lines ''tcp_server'')"

subsection \<open>The domain lists\<close>

text \<open>The values of one rule, and its warning.\<close>

definition rule_domains :: "site_source option \<Rightarrow> rule \<Rightarrow> string list \<times> string list" where
  "rule_domains src r =
     (if \<not> proxyAction (ru_action_kind r) then ([], [])
      else case ru_match_kind r of
             MatchDomain \<Rightarrow> (case ParseDomain (ru_match_value r) of Inl _ \<Rightarrow> ([], []) | Inr p \<Rightarrow> ([MosdnsValue p], []))
           | MatchGeosite \<Rightarrow>
               (case NormalizeGeoTag (ru_match_value r) of
                  Inl _ \<Rightarrow> ([], [])
                | Inr tag \<Rightarrow>
                    (case src of
                       None \<Rightarrow> ([], [''geosite:'' @ tag @ '' not expanded for DNS: no geodata installed''])
                     | Some g \<Rightarrow>
                         (case site_entries g tag of
                            Inl e \<Rightarrow> ([], [''geosite:'' @ tag @ '' not expanded for DNS: '' @ e])
                          | Inr es \<Rightarrow> (map EntryMosdnsValue es, []))))
           | _ \<Rightarrow> ([], []))"

text \<open>\<open>add\<close>: the list in order of first appearance.\<close>

definition add_domain :: "string \<Rightarrow> string list \<Rightarrow> string list" where
  "add_domain v xs = (if v \<noteq> [] \<and> v \<notin> set xs then xs @ [v] else xs)"

fun proxy_domains :: "site_source option \<Rightarrow> rule list \<Rightarrow> string list \<Rightarrow> string list \<times> string list" where
  "proxy_domains src [] xs = (xs, [])"
| "proxy_domains src (r # rs) xs =
     (let (vs, ws) = rule_domains src r;
          (ys, ws') = proxy_domains src rs (fold add_domain vs xs)
      in (ys, ws @ ws'))"

definition cn_domains :: "site_source option \<Rightarrow> string list option \<times> string list" where
  "cn_domains src =
     (case src of
        None \<Rightarrow> (None, [])
      | Some g \<Rightarrow>
          (case site_entries g ''cn'' of
             Inl e \<Rightarrow> (None, [''geosite:cn not available for DNS split: '' @ e])
           | Inr es \<Rightarrow> (Some (sort (map EntryMosdnsValue es)), [])))"

text \<open>\<open>joinLines\<close> of no lines is a nil slice.\<close>

definition nil_lines :: "string list \<Rightarrow> string option" where
  "nil_lines items = (if items = [] then None else Some (joinLines items))"

definition renderMosdns :: "snapshot \<Rightarrow> render_deps \<Rightarrow> artifacts \<Rightarrow> artifacts" where
  "renderMosdns s d a =
     (let (xs, ws) = proxy_domains (de_geosite d) (ActiveRules s) []; (cn, ws') = cn_domains (de_geosite d) in
      a\<lparr>a_mosdns_config := joinLines (mosdns_lines s d), a_mosdns_proxy_domains := joinLines (sort xs),
        a_mosdns_cn_domains := Option.bind cn nil_lines, a_warnings := a_warnings a @ ws @ ws'\<rparr>)"

end
