(* ===== verification/RenderNft.thy ===== *)
theory RenderNft
  imports RenderBase
begin

text \<open>
  \<open>internal/render/nft.go\<close>: the nftables ruleset, as the lines of the template.  A part of the template
  under a condition is a definition of its own.
\<close>

definition NftTable :: string where "NftTable = ''edgeroutegw''"
definition TProxyMark :: int where "TProxyMark = 1"
definition TProxyRouteTbl :: int where "TProxyRouteTbl = 100"
definition tproxyDefaultPt :: int where "tproxyDefaultPt = 12345"
definition DNSTapGroup :: int where "DNSTapGroup = 100"

record nft_data =
  nd_generation :: int
  nd_mode :: mode
  nd_table :: string
  nd_tproxy_port :: int
  nd_tproxy_mark :: int
  nd_out_mark :: int
  nd_default_policy :: string
  nd_mac_proxy :: string
  nd_mac_direct :: string
  nd_mac_reject :: string
  nd_ip_proxy :: string
  nd_ip_direct :: string
  nd_ip_reject :: string
  nd_ip6_proxy :: string
  nd_ip6_direct :: string
  nd_ip6_reject :: string
  nd_bypass :: string
  nd_dns_hijack :: bool
  nd_block_dot :: bool
  nd_dns_tap :: bool
  nd_dns_tap_group :: int

subsection \<open>The template\<close>

definition elements :: "string \<Rightarrow> string" where
  "elements xs = (if xs = [] then [] else '' elements = { '' @ xs @ '' }'')"

text \<open>The header, the sets and the start of the prerouting chain.\<close>

definition nft_head :: "nft_data \<Rightarrow> string list" where
  "nft_head d =
      [''#!/usr/sbin/nft -f'',
       ''# Generated by EdgeRouteGW (generation '' @ int_string (nd_generation d) @ '', mode '' @ mode_string (nd_mode d) @ ''). Do not edit.'',
       ''table inet '' @ nd_table d,
       ''delete table inet '' @ nd_table d,
       ''table inet '' @ nd_table d @ '' {'',
       ''    set mac_proxy    { type ether_addr;'' @ elements (nd_mac_proxy d) @ '' }'',
       ''    set mac_direct   { type ether_addr;'' @ elements (nd_mac_direct d) @ '' }'',
       ''    set mac_reject   { type ether_addr;'' @ elements (nd_mac_reject d) @ '' }'',
       ''    set ip_proxy     { type ipv4_addr; flags interval;'' @ elements (nd_ip_proxy d) @ '' }'',
       ''    set ip_direct    { type ipv4_addr; flags interval;'' @ elements (nd_ip_direct d) @ '' }'',
       ''    set ip_reject    { type ipv4_addr; flags interval;'' @ elements (nd_ip_reject d) @ '' }'',
       ''    set ip6_proxy    { type ipv6_addr; flags interval;'' @ elements (nd_ip6_proxy d) @ '' }'',
       ''    set ip6_direct   { type ipv6_addr; flags interval;'' @ elements (nd_ip6_direct d) @ '' }'',
       ''    set ip6_reject   { type ipv6_addr; flags interval;'' @ elements (nd_ip6_reject d) @ '' }'',
       ''    set bypass_dst   { type ipv4_addr; flags interval;'' @ elements (nd_bypass d) @ '' }'',
       [],
       ''    chain prerouting {'',
       ''        type filter hook prerouting priority mangle; policy accept;'',
       ''        meta mark '' @ int_string (nd_out_mark d) @ '' return'',
       [],
       ''        # Never intercept local, private or multicast destinations. \"local\"'',
       ''        # covers every address of the gateway itself, including a public'',
       ''        # one on a WAN port, so inbound traffic to the gateway never lands'',
       ''        # in Xray.'',
       ''        fib daddr type local return'',
       ''        ip daddr { 127.0.0.0/8, 10.0.0.0/8, 172.16.0.0/12, 192.168.0.0/16, 169.254.0.0/16, 224.0.0.0/4, 255.255.255.255/32 } return'',
       ''        ip6 daddr { ::1/128, fc00::/7, fe80::/10, ff00::/8 } return'',
       []]"

definition nft_hijack_return :: "string list" where
  "nft_hijack_return =
      [''        # DNS queries never enter Xray: the nat chain below hands them to Mosdns.'',
       ''        meta l4proto { tcp, udp } th dport 53 counter return comment \"dns_to_hijack\"'']"

definition nft_dot :: "string list" where
  "nft_dot =
      [''        # DNS-over-TLS cannot be inspected; refuse it so clients fall back to plain DNS.'',
       ''        tcp dport 853 counter reject with tcp reset comment \"dot_reject\"'',
       ''        udp dport 853 counter reject comment \"doq_reject\"'']"

text \<open>The device rules.\<close>

definition nft_devices :: "nft_data \<Rightarrow> string list" where
  "nft_devices d =
      [[],
       ''        # Per-device overrides (Mode A only; in B/C the main router steers traffic here and a bypass would loop).'',
       ''        ether saddr @mac_reject counter drop comment \"device_mac_reject\"'',
       ''        ip saddr @ip_reject counter drop comment \"device_ip_reject\"'',
       ''        ip6 saddr @ip6_reject counter drop comment \"device_ip6_reject\"'',
       ''        ether saddr @mac_direct counter return comment \"device_mac_direct\"'',
       ''        ip saddr @ip_direct counter return comment \"device_ip_direct\"'',
       ''        ip6 saddr @ip6_direct counter return comment \"device_ip6_direct\"'',
       ''        ether saddr @mac_proxy meta l4proto { tcp, udp } meta nfproto ipv4 mark set '' @ int_string (nd_tproxy_mark d) @ '' tproxy ip to 127.0.0.1:'' @ int_string (nd_tproxy_port d) @ '' counter accept comment \"device_mac_proxy_v4\"'',
       ''        ether saddr @mac_proxy meta l4proto { tcp, udp } meta nfproto ipv6 mark set '' @ int_string (nd_tproxy_mark d) @ '' tproxy ip6 to [::1]:'' @ int_string (nd_tproxy_port d) @ '' counter accept comment \"device_mac_proxy_v6\"'',
       ''        ip saddr @ip_proxy meta l4proto { tcp, udp } mark set '' @ int_string (nd_tproxy_mark d) @ '' tproxy ip to 127.0.0.1:'' @ int_string (nd_tproxy_port d) @ '' counter accept comment \"device_ip_proxy_v4\"'',
       ''        ip6 saddr @ip6_proxy meta l4proto { tcp, udp } mark set '' @ int_string (nd_tproxy_mark d) @ '' tproxy ip6 to [::1]:'' @ int_string (nd_tproxy_port d) @ '' counter accept comment \"device_ip6_proxy_v6\"'']"

definition nft_mode_a :: "string list" where
  "nft_mode_a =
      [[],
       ''        # Mode A: bypass destinations always go direct so a rule mistake cannot cut off the operator.'',
       ''        ip daddr @bypass_dst counter return comment \"bypass_destination\"'',
       [],
       ''        # Mode A: reject QUIC so browsers fall back to TCP immediately.'',
       ''        meta l4proto udp th dport 443 counter reject with icmpx type port-unreachable comment \"quic_reject\"'']"

definition nft_intercept :: "nft_data \<Rightarrow> string list" where
  "nft_intercept d =
      [[],
       ''        # Everything else enters Xray, whose routing applies the rules and'',
       ''        # then the LAN default policy ('' @ nd_default_policy d @ '') as the catch-all'',
       ''        # outbound. Interception must not depend on that policy: domain'',
       ''        # rules need the packet in Xray to be matched at all, and in Mode'',
       ''        # B/C the steered destinations (Fake-IP pool, published routes) are'',
       ''        # looped back here by the main router and would otherwise be'',
       ''        # delivered to the gateway itself.'',
       ''        meta l4proto { tcp, udp } meta nfproto ipv4 mark set '' @ int_string (nd_tproxy_mark d) @ '' tproxy ip to 127.0.0.1:'' @ int_string (nd_tproxy_port d) @ '' counter accept comment \"intercept_v4\"'',
       ''        meta l4proto { tcp, udp } meta nfproto ipv6 mark set '' @ int_string (nd_tproxy_mark d) @ '' tproxy ip6 to [::1]:'' @ int_string (nd_tproxy_port d) @ '' counter accept comment \"intercept_v6\"'',
       ''    }'',
       []]"

text \<open>The chains \<open>dns_hijack\<close> and \<open>input\<close>.\<close>

definition nft_hijack :: "nft_data \<Rightarrow> string list" where
  "nft_hijack d =
      [''    chain dns_hijack {'',
       ''        type nat hook prerouting priority dstnat; policy accept;'',
       ''        # Every DNS query that reaches the gateway (any resolver the client'',
       ''        # chose, except hosts on private networks which may be the client's'',
       ''        # own internal DNS) is answered by Mosdns, so proxied domains are'',
       ''        # never resolved through the local ISP and Fake-IP/rules always apply.'',
       ''        fib daddr type local return'',
       ''        ip daddr { 10.0.0.0/8, 172.16.0.0/12, 192.168.0.0/16, 169.254.0.0/16, 127.0.0.0/8 } return'',
       ''        ip6 daddr { fc00::/7, fe80::/10, ::1/128 } return'',
       ''        meta l4proto { tcp, udp } th dport 53 counter redirect to :53 comment \"dns_hijack\"'',
       ''    }'',
       [],
       ''    chain input {'',
       ''        type filter hook input priority filter; policy accept;'',
       ''        # The TPROXY socket accepts any connection to its port. Only packets'',
       ''        # the prerouting chain marked may reach it; a direct connection to'',
       ''        # <gateway>:port would otherwise be looped back into Xray.'',
       ''        meta mark '' @ int_string (nd_tproxy_mark d) @ '' return'',
       ''        meta l4proto { tcp, udp } th dport '' @ int_string (nd_tproxy_port d) @ '' counter drop comment \"tproxy_port_direct\"'',
       ''    }'',
       []]"

definition nft_tap :: "nft_data \<Rightarrow> string list" where
  "nft_tap d =
      [''    chain dns_tap {'',
       ''        type filter hook output priority filter; policy accept;'',
       ''        # Copies of the DNS answers Mosdns sends to clients go to the control'',
       ''        # plane (nflog group '' @ int_string (nd_dns_tap_group d) @ '') so the observe page can show the'',
       ''        # domain behind an IP target. Observation only; the packet continues.'',
       ''        udp sport 53 log group '' @ int_string (nd_dns_tap_group d) @ '' snaplen 1500 comment \"dns_tap\"'',
       ''    }'',
       []]"

definition nft_forward :: "nft_data \<Rightarrow> string list" where
  "nft_forward d =
      [''    chain forward {'',
       ''        type filter hook forward priority mangle; policy accept;'',
       ''        # Forwarded flows (not intercepted: private destinations, device'',
       ''        # bypasses) get their MSS clamped to the outgoing path MTU so a'',
       ''        # tunnel on the way never has to fragment.'',
       ''        tcp flags syn tcp option maxseg size set rt mtu counter comment \"mss_clamp\"'',
       ''    }'',
       [],
       ''    chain output {'',
       ''        type route hook output priority mangle; policy accept;'',
       ''        meta mark '' @ int_string (nd_out_mark d) @ '' return'',
       ''        ip daddr { 127.0.0.0/8, 10.0.0.0/8, 172.16.0.0/12, 192.168.0.0/16, 169.254.0.0/16, 224.0.0.0/4, 255.255.255.255/32 } return'',
       ''        ip6 daddr { ::1/128, fc00::/7, fe80::/10, ff00::/8 } return'']"

definition nft_bypass_output :: "string list" where
  "nft_bypass_output =
      [''        ip daddr @bypass_dst counter return comment \"bypass_destination_output\"'']"

definition nft_tail :: "string list" where
  "nft_tail =
      [''        # Host-originated traffic is never pulled into TPROXY (self-blackhole guard).'',
       ''        counter return comment \"host_egress_direct\"'',
       ''    }'',
       ''}'']"

definition nft_lines :: "nft_data \<Rightarrow> string list" where
  "nft_lines d = nft_head d @
     (if nd_dns_hijack d then nft_hijack_return else []) @
     (if nd_block_dot d then nft_dot else []) @ nft_devices d @
     (if mode_string (nd_mode d) = ''A'' then nft_mode_a else []) @ nft_intercept d @
     (if nd_dns_hijack d then nft_hijack d else []) @
     (if nd_dns_tap d then nft_tap d else []) @ nft_forward d @
     (if mode_string (nd_mode d) = ''A'' then nft_bypass_output else []) @ nft_tail"

subsection \<open>The data\<close>

text \<open>The device sets in order of the policies, each under its key, and the skipped policies.\<close>

definition device_entry :: "device_policy \<Rightarrow> (string \<times> string) result" where
  "device_entry p =
     (case dp_kind p of
        DeviceMAC \<Rightarrow> (case NormalizeMAC (dp_value p) of
            Inl e \<Rightarrow> Inl e | Inr v \<Rightarrow> Inr (''mac_'' @ device_action_string (dp_action p), v))
      | _ \<Rightarrow> (case NormalizeIPOrCIDR (dp_value p) of
            Inl e \<Rightarrow> Inl e
          | Inr v \<Rightarrow> Inr ((if IsIPv6Prefix v then ''ip6_'' else ''ip_'') @ device_action_string (dp_action p), v)))"

fun device_entries :: "device_policy list \<Rightarrow> (string \<times> string) list \<times> string list" where
  "device_entries [] = ([], [])"
| "device_entries (p # ps) =
     (let (es, ws) = device_entries ps in
      case device_entry p of
        Inl e \<Rightarrow> (es, (''device policy '' @ dp_id p @ '' skipped: '' @ e) # ws)
      | Inr e \<Rightarrow> (e # es, ws))"

definition set_members :: "(string \<times> string) list \<Rightarrow> string \<Rightarrow> string list" where
  "set_members es k = map snd (filter (\<lambda>e. fst e = k) es)"

fun bypass_entries :: "bypass_destination list \<Rightarrow> string list \<times> string list" where
  "bypass_entries [] = ([], [])"
| "bypass_entries (b # bs) =
     (let (vs, ws) = bypass_entries bs in
      case NormalizeIPOrCIDR (bd_cidr b) of
        Inl _ \<Rightarrow> (vs, (''bypass destination '' @ quoted (bd_cidr b) @ '' skipped (IPv4/CIDR only)'') # ws)
      | Inr v \<Rightarrow>
          if IsIPv6Prefix v then (vs, (''bypass destination '' @ quoted (bd_cidr b) @ '' skipped (IPv4/CIDR only)'') # ws)
          else (v # vs, ws))"

definition nft_base :: "snapshot \<Rightarrow> nft_data" where
  "nft_base s =
     (let p = nc_tproxy_port (s_network s) in
      \<lparr>nd_generation = s_generation s, nd_mode = nc_mode (s_network s), nd_table = NftTable,
       nd_tproxy_port = (if p \<le> 0 then tproxyDefaultPt else p), nd_tproxy_mark = TProxyMark, nd_out_mark = OutboundMark,
       nd_default_policy = (if nc_lan_default_policy (s_network s) = ''direct'' then ''direct'' else ''proxy''),
       nd_mac_proxy = [], nd_mac_direct = [], nd_mac_reject = [], nd_ip_proxy = [], nd_ip_direct = [], nd_ip_reject = [],
       nd_ip6_proxy = [], nd_ip6_direct = [], nd_ip6_reject = [], nd_bypass = [],
       nd_dns_hijack = dc_hijack (s_dns s), nd_block_dot = dc_block_dot (s_dns s), nd_dns_tap = dc_tap (s_dns s),
       nd_dns_tap_group = DNSTapGroup\<rparr>)"

definition nft_data_of :: "snapshot \<Rightarrow> nft_data \<times> string list" where
  "nft_data_of s =
     (if nc_mode (s_network s) \<noteq> ModeA then (nft_base s, [])
      else (let (es, ws) = device_entries (s_device_policies s);
                join = (\<lambda>k. join_with '', '' (set_members es k));
                (bypass, ws') = bypass_entries (s_bypass s)
            in ((nft_base s)
                 \<lparr>nd_mac_proxy := join ''mac_proxy'', nd_mac_direct := join ''mac_direct'', nd_mac_reject := join ''mac_reject'',
                  nd_ip_proxy := join ''ip_proxy'', nd_ip_direct := join ''ip_direct'', nd_ip_reject := join ''ip_reject'',
                  nd_ip6_proxy := join ''ip6_proxy'', nd_ip6_direct := join ''ip6_direct'', nd_ip6_reject := join ''ip6_reject'',
                  nd_bypass := join_with '', '' bypass\<rparr>, ws @ ws')))"

definition renderNft :: "snapshot \<Rightarrow> artifacts \<Rightarrow> artifacts" where
  "renderNft s a =
     (let (d, ws) = nft_data_of s in a\<lparr>a_nft := joinLines (nft_lines d), a_warnings := a_warnings a @ ws\<rparr>)"

end
