(* ===== verification/Render.thy ===== *)
theory Render
  imports RenderWG RenderMosdns RenderNft
begin

text \<open>
  \<open>internal/render/routes.go\<close> and \<open>render.go\<close>: the published routes with the FRR configuration, and \<open>Render\<close>,
  which runs the renderers in order.
\<close>

definition default_iface :: "render_deps \<Rightarrow> string option" where
  "default_iface d = (case de_default_iface d of Some (Inr di) \<Rightarrow> if di \<noteq> [] then Some di else None | _ \<Rightarrow> None)"

text \<open>The last words of the warning name the page \<open>network and mode\<close>, in UTF-8.\<close>

definition network_page :: string where
  "network_page = map char_of [0xE7, 0xBD, 0x91, 0xE7, 0xBB, 0x9C, 0xE4, 0xB8, 0x8E, 0xE6, 0xA8, 0xA1, 0xE5, 0xBC, 0x8F :: nat]"

text \<open>The interface OSPF runs on and the warning about a missing setting.\<close>

definition ospf_iface :: "snapshot \<Rightarrow> render_deps \<Rightarrow> string \<times> string list" where
  "ospf_iface s d =
     (if nc_service_iface (s_network s) \<noteq> [] then (nc_service_iface (s_network s), [])
      else case default_iface d of
             Some di \<Rightarrow> (di, [''service interface not set; using '' @ di @ '' (default route) for OSPF, set it under '' @
                            network_page @ '' to silence this''])
           | None \<Rightarrow> ([], []))"

definition lan_prefix :: "string \<Rightarrow> render_deps \<Rightarrow> prefix option \<times> string list" where
  "lan_prefix iface d =
     (if iface = [] then (None, [''service interface not set; OSPF will not join any network''])
      else case de_iface_addr d of
             None \<Rightarrow> (None, [])
           | Some f \<Rightarrow>
               (case f iface of
                  Inl e \<Rightarrow> (None, [''service interface '' @ iface @ '': '' @ e @ ''; OSPF will not join any network until fixed''])
                | Inr p \<Rightarrow> (Some p, [])))"

definition frr_lines :: "prefix option \<Rightarrow> string \<Rightarrow> string list" where
  "frr_lines lan iface =
     [''! Generated by EdgeRouteGW. Do not edit: routes are injected into kernel table '' @ int_string RouteTable @ '' and imported below.'',
      ''frr defaults traditional'', ''hostname edgeroutegw'', ''log syslog informational'', ''no ipv6 forwarding'', ''!'',
      ''ip import-table '' @ int_string RouteTable @ '' distance '' @ int_string FRRDistance, ''!'', ''router ospf''] @
     (case lan of
        Some p \<Rightarrow> if prefix_valid p
                  then ['' ospf router-id '' @ addr_string (p_addr p), '' network '' @ prefix_string (masked p) @ '' area 0''] else []
      | None \<Rightarrow> []) @
     ['' redistribute table '' @ int_string RouteTable, '' passive-interface default''] @
     (if iface = [] then [] else ['' no passive-interface '' @ iface]) @
     [''!'', ''line vty'', ''!'']"

definition renderFRR :: "prefix option \<Rightarrow> string \<Rightarrow> string" where
  "renderFRR lan iface = joinLines (frr_lines lan iface)"

definition RouteSet :: "route list \<Rightarrow> string list" where
  "RouteSet rs = sort (map (\<lambda>r. prefix_string (r_prefix r)) rs)"

definition render_sources :: "render_deps \<Rightarrow> sources" where
  "render_sources d = \<lparr>src_geoip = de_geoip d, src_geosite = de_geosite d, src_default_iface = []\<rparr>"

definition renderRoutes :: "snapshot \<Rightarrow> render_deps \<Rightarrow> artifacts \<Rightarrow> artifacts" where
  "renderRoutes s d a =
     (let res = Compute s (render_sources d);
          a1 = a\<lparr>a_routes := er_publish res, a_route_rejected := er_rejected res, a_resolve_domains := er_domains res,
                a_warnings := a_warnings a @ er_warnings res\<rparr>
      in if nc_mode (s_network s) = ModeA then a1\<lparr>a_frr := None\<rparr>
         else (let (iface, ws) = ospf_iface s d; (lan, ws') = lan_prefix iface d in
               a1\<lparr>a_frr := Some (renderFRR lan iface), a_warnings := a_warnings a1 @ ws @ ws'\<rparr>))"

definition hex_text :: "string \<Rightarrow> string" where
  "hex_text s = concat (map hex_byte s)"

definition hashBytes :: "(string \<Rightarrow> string) \<Rightarrow> string \<Rightarrow> string" where
  "hashBytes sha256 b = hex_text (take 8 (sha256 b))"

definition Render :: "snapshot \<Rightarrow> render_deps \<Rightarrow> artifacts result" where
  "Render s d =
     (let m = nc_mode (s_network s); a = zero_artifacts\<lparr>a_generation := s_generation s, a_mode := m\<rparr> in
      if \<not> mode_valid m then Inl (''invalid mode '' @ quoted (mode_string m))
      else (let a1 = renderWG s d a;
                a2 = renderXray (de_params d) (de_strategy d) (hashBytes (de_sha256 d)) (XrayAccessLog (de_paths d)) s a1;
                a3 = renderRoutes s d (renderNft s (renderMosdns s d a2))
            in Inr (a3\<lparr>a_warnings := sort (a_warnings a3)\<rparr>)))"

end
