(* ===== verification/RenderTexts.thy ===== *)
theory RenderTexts
  imports Render RenderProps
begin

text \<open>
  Properties of the other artifacts and of \<open>Render\<close> as a whole: the result, the marks and tables of the
  kernel interfaces, the domains Mosdns resolves remotely, and the nftables chains.
\<close>

subsection \<open>Kernel interfaces\<close>

lemma numbered_ifaces_nth:
  "numbered_ifaces ws = map (\<lambda>i. number_iface i (ws ! i)) [0..<length ws]"
  by (auto simp: numbered_ifaces_def intro: nth_equalityI)

lemma numbered_marks:
  "map wi_mark (numbered_ifaces ws) = map (\<lambda>i. WGMarkBase + int i) [0..<length ws]"
  "map wi_table (numbered_ifaces ws) = map (\<lambda>i. WGTableBase + int i) [0..<length ws]"
  by (simp_all add: numbered_ifaces_nth number_iface_def)

lemma distinct_shift: "distinct (map (\<lambda>i. b + int i) [0..<k])"
  by (simp add: distinct_map inj_on_def)

lemma set_shift: "k \<le> m \<Longrightarrow> set (map (\<lambda>i. b + int i) [0..<k]) \<subseteq> {b..<b + int m}"
  by auto

lemma renderWG_wg:
  assumes "a_wg a = []"
  obtains ws where "a_wg (renderWG s d a) = numbered_ifaces ws" "length ws \<le> WGMaxIfaces"
proof (cases "de_kernel_wg d")
  case True
  then show ?thesis using that[of "take WGMaxIfaces (sort_key wi_node_id (fst (wg_ifaces d (EnabledNodes s))))"]
    by (simp add: renderWG_def case_prod_beta Let_def)
next
  case False
  then show ?thesis using that[of "[]"] assms by (simp add: renderWG_def numbered_ifaces_def)
qed

text \<open>The renderers change the parts they are named after.\<close>

lemma renderXray_wg [simp]: "a_wg (renderXray u st h l s a) = a_wg a"
  by (simp add: renderXray_def Let_def)

lemma renderMosdns_wg [simp]: "a_wg (renderMosdns s d a) = a_wg a"
  by (simp add: renderMosdns_def case_prod_beta Let_def)

lemma renderNft_wg [simp]: "a_wg (renderNft s a) = a_wg a"
  by (simp add: renderNft_def case_prod_beta Let_def)

lemma renderRoutes_wg [simp]: "a_wg (renderRoutes s d a) = a_wg a"
  by (simp add: renderRoutes_def case_prod_beta Let_def)

lemma Render_Inr:
  assumes "Render s d = Inr a"
  obtains a0 a1 where "a0 = zero_artifacts\<lparr>a_generation := s_generation s, a_mode := nc_mode (s_network s)\<rparr>"
    "mode_valid (nc_mode (s_network s))"
    "a1 = renderRoutes s d (renderNft s (renderMosdns s d
       (renderXray (de_params d) (de_strategy d) (hashBytes (de_sha256 d)) (XrayAccessLog (de_paths d)) s (renderWG s d a0))))"
    "a = a1\<lparr>a_warnings := sort (a_warnings a1)\<rparr>"
  using assms by (auto simp: Render_def Let_def split: if_splits)

text \<open>
  C32. Marks and tables.  In every rendered generation at most 64 nodes have a kernel interface; their
  marks and their routing tables are pairwise distinct and lie in ranges of their own, and every
  outbound of Xray that sends traffic carries the exempt mark or one of those, never the mark that
  TPROXY interception uses.
\<close>

theorem rendered_marks:
  assumes "Render s d = Inr a"
  shows "length (a_wg a) \<le> 64 \<and> distinct (map wi_mark (a_wg a)) \<and> distinct (map wi_table (a_wg a)) \<and>
    set (map wi_mark (a_wg a)) \<subseteq> {0x100..<0x140} \<and> set (map wi_table (a_wg a)) \<subseteq> {300..<364} - {RouteTable, TProxyRouteTbl} \<and>
    outbound_mark ` set (filter (\<lambda>ob. jstr ob ''tag'' \<noteq> TagBlock)
        (xc_outbounds (xray_config_of (de_params d) (de_strategy d) (XrayAccessLog (de_paths d)) (a_wg a) s)))
      \<subseteq> (\<lambda>m. Some (JInt m)) ` ({OutboundMark} \<union> {0x100..<0x140} - {TProxyMark})"
proof -
  obtain a0 a1 where "a0 = zero_artifacts\<lparr>a_generation := s_generation s, a_mode := nc_mode (s_network s)\<rparr>"
    and a1: "a1 = renderRoutes s d (renderNft s (renderMosdns s d
       (renderXray (de_params d) (de_strategy d) (hashBytes (de_sha256 d)) (XrayAccessLog (de_paths d)) s (renderWG s d a0))))"
    and a: "a = a1\<lparr>a_warnings := sort (a_warnings a1)\<rparr>"
    using Render_Inr[OF assms] by blast
  then have "a_wg a0 = []" by (simp add: zero_artifacts_def)
  then obtain ws where ws: "a_wg (renderWG s d a0) = numbered_ifaces ws" "length ws \<le> WGMaxIfaces" by (rule renderWG_wg)
  have wg: "a_wg a = numbered_ifaces ws" by (simp add: a a1 ws(1))
  have marks: "set (map wi_mark (a_wg a)) \<subseteq> {0x100..<0x140}" and tables: "set (map wi_table (a_wg a)) \<subseteq> {300..<364}"
    using set_shift[OF ws(2), of WGMarkBase] set_shift[OF ws(2), of WGTableBase]
    unfolding wg numbered_marks by (simp_all add: WGMarkBase_def WGTableBase_def WGMaxIfaces_def)
  moreover have "insert (Some (JInt OutboundMark)) ((\<lambda>w. Some (JInt (wi_mark w))) ` set (a_wg a))
      \<subseteq> (\<lambda>m. Some (JInt m)) ` ({OutboundMark} \<union> {0x100..<0x140} - {TProxyMark})"
    using marks by (auto simp: OutboundMark_def TProxyMark_def)
  note order.trans[OF outbounds_marked this]
  moreover have "length (a_wg a) \<le> 64" using ws(2) by (simp add: wg numbered_ifaces_def WGMaxIfaces_def)
  moreover have "distinct (map wi_mark (a_wg a))" "distinct (map wi_table (a_wg a))"
    unfolding wg numbered_marks by (rule distinct_shift)+
  moreover have "{300..<364} - {RouteTable, TProxyRouteTbl} = {300..<364 :: int}"
    by (auto simp: RouteTable_def TProxyRouteTbl_def)
  ultimately show ?thesis by (simp only: simp_thms)
qed

subsection \<open>Render\<close>

lemma a_routes_render [simp]: "a_routes (renderRoutes s d a) = er_publish (Compute s (render_sources d))"
  by (simp add: renderRoutes_def case_prod_beta Let_def)



subsection \<open>The domains Mosdns resolves remotely\<close>

lemma set_fold_add_domain: "set (fold add_domain vs xs) = set xs \<union> (set vs - {[]})"
  by (induction vs arbitrary: xs) (auto simp: add_domain_def)

lemma distinct_fold_add_domain: "distinct xs \<Longrightarrow> distinct (fold add_domain vs xs)"
  by (induction vs arbitrary: xs) (auto simp: add_domain_def)

lemma set_proxy_domains:
  "set (fst (proxy_domains src rs xs)) = set xs \<union> ((\<Union>r\<in>set rs. set (fst (rule_domains src r))) - {[]})"
  by (induction rs arbitrary: xs) (auto simp: set_fold_add_domain case_prod_beta)

lemma distinct_proxy_domains: "distinct xs \<Longrightarrow> distinct (fst (proxy_domains src rs xs))"
  by (induction rs arbitrary: xs) (auto simp: distinct_fold_add_domain case_prod_beta)

lemma mosdns_values_not_Nil [simp]: "MosdnsValue p \<noteq> []" "EntryMosdnsValue e \<noteq> []"
  by (simp_all split: domain_kind.split entry_kind.split)

text \<open>The values a rule contributes, as a set.\<close>

definition remote_values :: "site_source option \<Rightarrow> rule \<Rightarrow> string set" where
  "remote_values src r =
     {MosdnsValue p |p. ru_match_kind r = MatchDomain \<and> ParseDomain (ru_match_value r) = Inr p} \<union>
     {EntryMosdnsValue e |e tag g es. ru_match_kind r = MatchGeosite \<and> NormalizeGeoTag (ru_match_value r) = Inr tag \<and>
        src = Some g \<and> site_entries g tag = Inr es \<and> e \<in> set es}"

lemma rule_domains_values:
  "set (fst (rule_domains src r)) = (if proxyAction (ru_action_kind r) then remote_values src r else {})"
proof (cases "ru_match_kind r")
  case MatchDomain
  then show ?thesis by (cases "ParseDomain (ru_match_value r)") (simp_all add: rule_domains_def remote_values_def del: MosdnsValue.simps)
next
  case MatchGeosite
  show ?thesis
  proof (cases "NormalizeGeoTag (ru_match_value r)")
    case (Inr tag)
    then show ?thesis using MatchGeosite
      by (cases src; cases "site_entries (the src) tag")
         (auto simp: rule_domains_def remote_values_def image_iff simp del: EntryMosdnsValue.simps)
  qed (simp add: MatchGeosite rule_domains_def remote_values_def)
qed (simp_all add: rule_domains_def remote_values_def)

lemma remote_values_not_Nil: "[] \<notin> remote_values src r"
  by (auto simp: remote_values_def mosdns_values_not_Nil[symmetric] simp del: MosdnsValue.simps EntryMosdnsValue.simps)

text \<open>
  The list of proxied domains: Mosdns gets, sorted and once each, exactly the values of the valid
  domain rules and of the geosite entries of the active rules that send traffic to a proxy, whatever
  the order of the rules.
\<close>

theorem proxy_list_exact:
  "\<exists>xs. a_mosdns_proxy_domains (renderMosdns s d a) = joinLines xs \<and> sorted xs \<and> distinct xs \<and>
     set xs = (\<Union>r\<in>{r \<in> set (ActiveRules s). proxyAction (ru_action_kind r)}. remote_values (de_geosite d) r)"
proof (intro exI conjI)
  let ?xs = "sort (fst (proxy_domains (de_geosite d) (ActiveRules s) []))"
  show "a_mosdns_proxy_domains (renderMosdns s d a) = joinLines ?xs"
    by (simp add: renderMosdns_def case_prod_beta Let_def)
  show "sorted ?xs" "distinct ?xs" by (simp_all add: distinct_proxy_domains)
  show "set ?xs = (\<Union>r\<in>{r \<in> set (ActiveRules s). proxyAction (ru_action_kind r)}. remote_values (de_geosite d) r)"
    using remote_values_not_Nil[of "de_geosite d"] by (auto simp: set_proxy_domains rule_domains_values split: if_splits)
qed

subsection \<open>The nftables chains\<close>

text \<open>
  The chain that keeps direct connections away from the TPROXY port is present only when DNS
  hijacking is on; with hijacking off the port stays open to everyone who can reach the gateway.
\<close>

theorem tproxy_guard_needs_hijack:
  "''    chain input {'' \<in> set (nft_lines (fst (nft_data_of s))) \<longleftrightarrow> dc_hijack (s_dns s)"
proof -
  have hijack: "nd_dns_hijack (fst (nft_data_of s)) = dc_hijack (s_dns s)"
    by (simp add: nft_data_of_def nft_base_def case_prod_beta Let_def)
  show ?thesis
    unfolding nft_lines_def hijack set_append
    by (simp add: nft_head_def nft_hijack_return_def nft_dot_def nft_devices_def nft_mode_a_def nft_intercept_def
        nft_hijack_def nft_tap_def nft_forward_def nft_bypass_output_def nft_tail_def)
qed

subsection \<open>Example\<close>

definition demo_deps :: render_deps where
  "demo_deps = \<lparr>de_paths = new_paths ''/var/lib/edgeroutegw'', de_geosite = None, de_geoip = None, de_iface_addr = None,
     de_default_iface = None, de_kernel_wg = True, de_params = (\<lambda>_. Inr []), de_strategy = (\<lambda>_. None),
     de_wg_params = (\<lambda>_. Inr \<lparr>wg_address = [''10.8.0.2''], wg_mtu = 0, wg_reserved = [], wg_peers =
        [\<lparr>ws_public_key = ''k'', ws_preshared_key = [], ws_endpoint = [], ws_allowed_ips = [], ws_keepalive = 0\<rparr>]\<rparr>),
     de_sha1 = (\<lambda>s. s), de_sha256 = (\<lambda>s. s)\<rparr>"

definition wg_node :: "string \<Rightarrow> node" where
  "wg_node i = zero_node\<lparr>n_id := i, n_protocol := ProtocolWireGuard, n_credential := ''key'', n_enabled := True\<rparr>"

definition wg_snapshot :: snapshot where
  "wg_snapshot = example_snapshot ModeC [] [wg_node ''n2'', wg_node ''n1'']"

theorem rendered_marks_witness:
  "\<exists>a. Render wg_snapshot demo_deps = Inr a \<and> map wi_node_id (a_wg a) = [''n1'', ''n2''] \<and> distinct (map wi_mark (a_wg a)) \<and>
     set (map wi_mark (a_wg a)) \<subseteq> {0x100..<0x140}"
proof -
  have "mode_valid (nc_mode (s_network wg_snapshot))" by code_simp
  then obtain a where a: "Render wg_snapshot demo_deps = Inr a" by (simp add: Render_def Let_def)
  obtain a0 a1 where "a0 = zero_artifacts\<lparr>a_generation := s_generation wg_snapshot, a_mode := nc_mode (s_network wg_snapshot)\<rparr>"
    and "a1 = renderRoutes wg_snapshot demo_deps (renderNft wg_snapshot (renderMosdns wg_snapshot demo_deps
       (renderXray (de_params demo_deps) (de_strategy demo_deps) (hashBytes (de_sha256 demo_deps))
         (XrayAccessLog (de_paths demo_deps)) wg_snapshot (renderWG wg_snapshot demo_deps a0))))"
    and "a = a1\<lparr>a_warnings := sort (a_warnings a1)\<rparr>"
    using Render_Inr[OF a] by blast
  then have "a_wg a = a_wg (renderWG wg_snapshot demo_deps
      (zero_artifacts\<lparr>a_generation := s_generation wg_snapshot, a_mode := nc_mode (s_network wg_snapshot)\<rparr>))" by simp
  moreover have "map wi_node_id (a_wg (renderWG wg_snapshot demo_deps
      (zero_artifacts\<lparr>a_generation := s_generation wg_snapshot, a_mode := nc_mode (s_network wg_snapshot)\<rparr>))) = [''n1'', ''n2'']"
    by code_simp
  ultimately show ?thesis using a rendered_marks[OF a] by auto
qed

end
