(* ===== verification/Host.thy ===== *)
theory Host
  imports Driver Paths Reconcile
begin

text \<open>
  What the drivers need of the machine: files, commands (\<open>execx.Runner\<close>) and units
  (\<open>systemd.Manager\<close>), as a record of operations on a state \<open>'h\<close>, and the helpers of
  \<open>internal/driver/fsutil.go\<close>.  The contract of the file operations is the locale \<open>file_host\<close>.
\<close>

record unit_state =
  us_name :: string
  us_loaded :: bool
  us_active_state :: string
  us_sub_state :: string
  us_nrestarts :: int

definition Active :: "unit_state \<Rightarrow> bool" where
  "Active u \<longleftrightarrow> us_active_state u = ''active''"

record 'h host =
  ho_read :: "'h \<Rightarrow> string \<Rightarrow> string result"
  ho_missing :: "'h \<Rightarrow> string \<Rightarrow> bool"
  ho_mkdir :: "'h \<Rightarrow> string \<Rightarrow> 'h \<times> string option"
  ho_chmod :: "'h \<Rightarrow> string \<Rightarrow> int \<Rightarrow> 'h \<times> string option"
  ho_temp :: "'h \<Rightarrow> string \<Rightarrow> string \<Rightarrow> 'h \<times> string result"
  ho_write :: "'h \<Rightarrow> string \<Rightarrow> string \<Rightarrow> 'h \<times> string option"
  ho_close :: "'h \<Rightarrow> string \<Rightarrow> 'h \<times> string option"
  ho_rename :: "'h \<Rightarrow> string \<Rightarrow> string \<Rightarrow> 'h \<times> string option"
  ho_remove :: "'h \<Rightarrow> string \<Rightarrow> 'h"
  ho_run :: "'h \<Rightarrow> string \<Rightarrow> string list \<Rightarrow> 'h \<times> string \<times> string option"
  ho_state :: "'h \<Rightarrow> string \<Rightarrow> unit_state result"
  ho_start :: "'h \<Rightarrow> string \<Rightarrow> 'h \<times> string option"
  ho_restart :: "'h \<Rightarrow> string \<Rightarrow> 'h \<times> string option"
  ho_stop :: "'h \<Rightarrow> string \<Rightarrow> 'h \<times> string option"

subsection \<open>Paths\<close>

definition strip_slashes :: "string \<Rightarrow> string" where
  "strip_slashes p = rev (dropWhile (\<lambda>c. c = CHR ''/'') (rev p))"

text \<open>\<open>filepath.Base\<close> and \<open>filepath.Dir\<close>\<close>

definition file_base :: "string \<Rightarrow> string" where
  "file_base p =
     (if p = [] then ''.''
      else let b = last (split_on CHR ''/'' (strip_slashes p)) in if b = [] then ''/'' else b)"

definition file_dir :: "string \<Rightarrow> string" where
  "file_dir p = file_clean (case last_index_byte p CHR ''/'' of None \<Rightarrow> [] | Some i \<Rightarrow> take (Suc i) p)"

subsection \<open>Files\<close>

text \<open>The steps on the temporary file, closed on every early return.\<close>

definition fill_temp :: "'h host \<Rightarrow> 'h \<Rightarrow> string \<Rightarrow> string \<Rightarrow> string \<Rightarrow> int \<Rightarrow> 'h \<times> string option" where
  "fill_temp H h tmp path data perm =
     (case ho_write H h tmp data of
        (h1, Some e) \<Rightarrow> (fst (ho_close H h1 tmp), Some e)
      | (h1, None) \<Rightarrow>
          (case ho_chmod H h1 tmp perm of
             (h2, Some e) \<Rightarrow> (fst (ho_close H h2 tmp), Some e)
           | (h2, None) \<Rightarrow>
               (case ho_close H h2 tmp of
                  (h3, Some e) \<Rightarrow> (h3, Some e)
                | (h3, None) \<Rightarrow> ho_rename H h3 tmp path)))"

definition replace_file :: "'h host \<Rightarrow> 'h \<Rightarrow> string \<Rightarrow> string \<Rightarrow> int \<Rightarrow> 'h \<times> bool result" where
  "replace_file H h path data perm =
     (case ho_mkdir H h (file_dir path) of
        (h1, Some e) \<Rightarrow> (h1, Inl e)
      | (h1, None) \<Rightarrow>
          (case ho_temp H h1 (file_dir path) (''.'' @ file_base path @ ''.*'') of
             (h2, Inl e) \<Rightarrow> (h2, Inl e)
           | (h2, Inr tmp) \<Rightarrow>
               (case fill_temp H h2 tmp path data perm of
                  (h3, Some e) \<Rightarrow> (ho_remove H h3 tmp, Inl e)
                | (h3, None) \<Rightarrow> (h3, Inr True))))"

definition SameContent :: "'h host \<Rightarrow> 'h \<Rightarrow> string \<Rightarrow> string \<Rightarrow> bool" where
  "SameContent H h path data = (case ho_read H h path of Inl _ \<Rightarrow> False | Inr c \<Rightarrow> c = data)"

definition WriteFileAtomic :: "'h host \<Rightarrow> 'h \<Rightarrow> string \<Rightarrow> string \<Rightarrow> int \<Rightarrow> 'h \<times> bool result" where
  "WriteFileAtomic H h path data perm =
     (if SameContent H h path data then (fst (ho_chmod H h path perm), Inr False)
      else replace_file H h path data perm)"

text \<open>\<open>b, _ := os.ReadFile(path)\<close>\<close>

definition read_file :: "'h host \<Rightarrow> 'h \<Rightarrow> string \<Rightarrow> string" where
  "read_file H h path = (case ho_read H h path of Inl _ \<Rightarrow> [] | Inr c \<Rightarrow> c)"

text \<open>The health record as every driver fills it; a zero time of the last apply is left out.\<close>

definition driver_health :: "component \<Rightarrow> component_status \<Rightarrow> string \<Rightarrow> time \<Rightarrow> component_health" where
  "driver_health c st err t = \<lparr>h_name = c, h_status = st, h_version = [], h_last_error = err,
     h_last_apply = (if t = zero_time then None else Some t)\<rparr>"

definition act :: "driver_action_kind \<Rightarrow> string \<Rightarrow> driver_action" where
  "act k detail = \<lparr>da_kind = k, da_detail = detail\<rparr>"

subsection \<open>Differences of texts\<close>

definition count_lines :: "string list \<Rightarrow> string \<Rightarrow> nat" where
  "count_lines ls l = count_list ls l"

fun emit :: "string \<Rightarrow> string list \<Rightarrow> (string \<Rightarrow> nat) \<Rightarrow> string list" where
  "emit pre [] other = []"
| "emit pre (l # ls) other =
     (if other l > 0 then emit pre ls (other(l := other l - 1)) else (pre @ l) # emit pre ls other)"

definition text_lines :: "string \<Rightarrow> string list" where
  "text_lines s = split_on CHR 0x0A (rev (dropWhile (\<lambda>c. c = CHR 0x0A) (rev s)))"

definition LineDiff :: "string \<Rightarrow> string \<Rightarrow> nat \<Rightarrow> string" where
  "LineDiff before after max_lines =
     (if before = after then []
      else (let a = text_lines before; b = text_lines after;
                out = emit ''- '' a (count_lines b) @ emit ''+ '' b (count_lines a);
                out' = (if max_lines > 0 \<and> length out > max_lines
                        then take max_lines out @ [[CHR 0xE2, CHR 0x80, CHR 0xA6] @ '' '' @
                          int_string (int (length out) - int max_lines) @ '' more lines'']
                        else out)
            in if out' = [] then ''(reordered)'' else join_with [CHR 0x0A] out'))"

subsection \<open>The contract of the files\<close>

locale file_host =
  fixes H :: "'h host" and files :: "'h \<Rightarrow> string \<Rightarrow> string option"
  assumes read_files: "ho_read H h p = Inr c \<longleftrightarrow> files h p = Some c"
    and keep_files: "files (fst (ho_mkdir H h p)) = files h" "files (fst (ho_chmod H h p m)) = files h"
      "files (fst (ho_close H h p)) = files h"
    and temp_files: "ho_temp H h d pat = (h', Inr t) \<Longrightarrow> files h t = None \<and> files h' = (files h)(t \<mapsto> [])"
      "ho_temp H h d pat = (h', Inl e) \<Longrightarrow> files h' = files h"
    and temp_base: "ho_temp H h d (''.'' @ b @ ''.*'') = (h', Inr t) \<Longrightarrow> file_base t \<noteq> b"
    and write_files: "ho_write H h t data = (h', r) \<Longrightarrow>
      \<exists>c. files h' = (files h)(t \<mapsto> c) \<and> (r = None \<longrightarrow> c = data)"
    and rename_files: "ho_rename H h t p = (h', None) \<Longrightarrow> t \<noteq> p \<Longrightarrow> files h' = (files h)(p := files h t, t := None)"
      "ho_rename H h t p = (h', Some e) \<Longrightarrow> files h' = files h"
    and remove_files: "files (ho_remove H h t) = files h \<or> files (ho_remove H h t) = (files h)(t := None)"
begin

lemma SameContent_files: "SameContent H h p c \<longleftrightarrow> files h p = Some c"
proof (cases "ho_read H h p")
  case (Inl e)
  then have "files h p \<noteq> Some c" using read_files[of h p c] by auto
  with Inl show ?thesis by (simp add: SameContent_def)
next
  case (Inr d)
  then have "files h p = Some d" using read_files by blast
  with Inr show ?thesis by (auto simp: SameContent_def)
qed

lemma fill_temp_files:
  assumes "fill_temp H h t p data m = (h', r)" "t \<noteq> p"
  shows "(r = None \<longrightarrow> files h' = (files h)(p \<mapsto> data, t := None)) \<and>
    (r \<noteq> None \<longrightarrow> (\<exists>c. files h' = (files h)(t \<mapsto> c)))"
proof -
  obtain h1 r1 where w: "ho_write H h t data = (h1, r1)" by fastforce
  obtain c where c: "files h1 = (files h)(t \<mapsto> c)" "r1 = None \<longrightarrow> c = data" using write_files[OF w] by auto
  obtain h2 r2 where m: "ho_chmod H h1 t m = (h2, r2)" by fastforce
  then have h2: "files h2 = files h1" using keep_files(2)[of h1 t m] by simp
  obtain h3 r3 where cl: "ho_close H h2 t = (h3, r3)" by fastforce
  then have h3: "files h3 = files h1" using keep_files(3)[of h2 t] h2 by simp
  obtain h4 r4 where rn: "ho_rename H h3 t p = (h4, r4)" by fastforce
  have r4: "r4 = None \<Longrightarrow> files h4 = (files h)(p \<mapsto> c, t := None)"
    using rename_files(1)[of h3 t p h4] rn assms(2) h3 c(1) by (auto simp: fun_upd_twist)
  have e4: "r4 \<noteq> None \<Longrightarrow> files h4 = files h1" using rename_files(2)[of h3 t p h4] rn h3 by auto
  show ?thesis
    using assms(1) w m cl rn c r4 e4 h2 h3 keep_files(3)
    by (cases r1; cases r2; cases r3; cases r4) (auto simp: fill_temp_def)
qed

text \<open>A replaced file has the new content; a failed attempt leaves every file but the temporary one.\<close>

definition only_temp :: "'h \<Rightarrow> string \<Rightarrow> 'h \<Rightarrow> bool" where
  "only_temp h path h' \<longleftrightarrow> files h' = files h \<or> (\<exists>t c. t \<noteq> path \<and> files h t = None \<and> files h' = (files h)(t := c))"

lemma replace_file_files:
  assumes "replace_file H h path data m = (h', r)"
  shows "(case r of Inr b \<Rightarrow> b \<and> files h' = (files h)(path \<mapsto> data) | Inl _ \<Rightarrow> only_temp h path h')"
proof -
  obtain h1 r1 where mk: "ho_mkdir H h (file_dir path) = (h1, r1)" by fastforce
  then have h1: "files h1 = files h" using keep_files(1)[of h "file_dir path"] by simp
  obtain h2 r2 where tmp: "ho_temp H h1 (file_dir path) (''.'' @ file_base path @ ''.*'') = (h2, r2)" by fastforce
  show ?thesis
  proof (cases "r1 = None")
    case False
    then show ?thesis using assms mk h1 by (auto simp: replace_file_def only_temp_def)
  next
    case True
    show ?thesis
    proof (cases r2)
      case (Inl e)
      then show ?thesis using assms mk tmp True h1 temp_files(2)[of h1 "file_dir path"]
        by (auto simp: replace_file_def only_temp_def)
    next
      case (Inr t)
      have t: "t \<noteq> path" "files h t = None" "files h2 = (files h)(t \<mapsto> [])"
        using temp_base[OF tmp[unfolded Inr]] temp_files(1)[OF tmp[unfolded Inr]] h1 by auto
      obtain h3 r3 where f: "fill_temp H h2 t path data m = (h3, r3)" by fastforce
      note filled = fill_temp_files[OF f t(1)]
      show ?thesis
      proof (cases r3)
        case None
        have "h' = h3" "r = Inr True" using assms mk tmp True Inr f None by (simp_all add: replace_file_def)
        moreover have "files h3 = (files h)(path \<mapsto> data)" using filled None t by (auto simp: fun_upd_idem_iff fun_eq_iff)
        ultimately show ?thesis by simp
      next
        case (Some e)
        then obtain c where "files h3 = (files h)(t \<mapsto> c)" using filled t by auto
        then have "files (ho_remove H h3 t) = (files h)(t \<mapsto> c) \<or> files (ho_remove H h3 t) = (files h)(t := None)"
          using remove_files[of h3 t] by auto
        moreover have "h' = ho_remove H h3 t" "r = Inl e" using assms mk tmp True Inr f Some by (simp_all add: replace_file_def)
        ultimately show ?thesis using t by (auto simp: only_temp_def)
      qed
    qed
  qed
qed

lemma WriteFileAtomic_files:
  assumes "WriteFileAtomic H h path data m = (h', r)"
  shows "(case r of Inr b \<Rightarrow> files h' = (files h)(path \<mapsto> data) \<and> b = (files h path \<noteq> Some data) | Inl _ \<Rightarrow> only_temp h path h')"
proof (cases "SameContent H h path data")
  case True
  then have "files h path = Some data" by (simp add: SameContent_files)
  then show ?thesis using assms True keep_files(2)[of h path m] by (auto simp: WriteFileAtomic_def fun_upd_idem)
next
  case False
  then show ?thesis using assms replace_file_files[of h path data m h' r]
    by (auto simp: WriteFileAtomic_def SameContent_files split: sum.splits)
qed

end

section \<open>Stand-ins of the tests\<close>

text \<open>
  The stand-ins of the tests: \<open>systemd.Fake\<close> and \<open>execx.Fake\<close>, on a host whose files are kept in memory.
  The handler of \<open>execx.Fake\<close> is an argument that may change a further state \<open>'x\<close>.
\<close>

record unit_fake =
  uf_units :: "string \<Rightarrow> unit_state option"
  uf_restarts :: "string \<Rightarrow> int"
  uf_fail :: "string \<Rightarrow> string option"

definition running :: "string \<Rightarrow> unit_state" where
  "running u = \<lparr>us_name = u, us_loaded = True, us_active_state = ''active'', us_sub_state = ''running'', us_nrestarts = 0\<rparr>"

definition stopped :: "string \<Rightarrow> bool \<Rightarrow> unit_state" where
  "stopped u loaded = \<lparr>us_name = u, us_loaded = loaded, us_active_state = ''inactive'', us_sub_state = ''dead'', us_nrestarts = 0\<rparr>"

definition new_unit_fake :: "string list \<Rightarrow> unit_fake" where
  "new_unit_fake active = \<lparr>uf_units = (\<lambda>u. if u \<in> set active then Some (running u) else None),
     uf_restarts = (\<lambda>_. 0), uf_fail = (\<lambda>_. None)\<rparr>"

definition SetActive :: "string \<Rightarrow> bool \<Rightarrow> unit_fake \<Rightarrow> unit_fake" where
  "SetActive u active f = f\<lparr>uf_units := (uf_units f)(u \<mapsto> (if active then running u else stopped u True))\<rparr>"

definition unit_State :: "unit_fake \<Rightarrow> string \<Rightarrow> unit_state result" where
  "unit_State f u =
     (case uf_fail f u of
        Some e \<Rightarrow> Inl e
      | None \<Rightarrow> Inr (case uf_units f u of None \<Rightarrow> stopped u False | Some st \<Rightarrow> st))"

definition unit_Restart :: "unit_fake \<Rightarrow> string \<Rightarrow> unit_fake \<times> string option" where
  "unit_Restart f u =
     (case uf_fail f u of
        Some e \<Rightarrow> (f, Some e)
      | None \<Rightarrow>
          (let n = (case uf_units f u of None \<Rightarrow> 0 | Some st \<Rightarrow> us_nrestarts st) in
           (f\<lparr>uf_restarts := (uf_restarts f)(u := uf_restarts f u + 1),
              uf_units := (uf_units f)(u \<mapsto> (running u)\<lparr>us_nrestarts := n + 1\<rparr>)\<rparr>, None)))"

definition unit_Start :: "unit_fake \<Rightarrow> string \<Rightarrow> unit_fake \<times> string option" where
  "unit_Start f u = unit_Restart f u"

definition unit_Stop :: "unit_fake \<Rightarrow> string \<Rightarrow> unit_fake \<times> string option" where
  "unit_Stop f u =
     (case uf_fail f u of
        Some e \<Rightarrow> (f, Some e) | None \<Rightarrow> (f\<lparr>uf_units := (uf_units f)(u \<mapsto> stopped u True)\<rparr>, None))"

record run_call =
  rc_name :: string
  rc_args :: "string list"

definition count_calls :: "run_call list \<Rightarrow> string \<Rightarrow> string list \<Rightarrow> nat" where
  "count_calls cs name lead =
     length (filter (\<lambda>c. rc_name c = name \<and> length lead \<le> length (rc_args c) \<and> take (length lead) (rc_args c) = lead) cs)"

record 'x fake_host =
  fh_files :: "string \<Rightarrow> string option"
  fh_next :: nat
  fh_units :: unit_fake
  fh_calls :: "run_call list"
  fh_more :: 'x

text \<open>
  \<open>os.CreateTemp\<close>: a random text replaces the last star of the pattern, which may not contain a
  separator; the random text is a counter.
\<close>

definition temp_text :: "string \<Rightarrow> string \<Rightarrow> string" where
  "temp_text pat rnd =
     (case last_index_byte pat CHR ''*'' of None \<Rightarrow> pat @ rnd | Some i \<Rightarrow> take i pat @ rnd @ drop (Suc i) pat)"

definition fake_temp :: "'x fake_host \<Rightarrow> string \<Rightarrow> string \<Rightarrow> 'x fake_host \<times> string result" where
  "fake_temp h d pat =
     (let t = (if d = [] then ''/tmp'' else d) @ ''/'' @ temp_text pat (replicate (Suc (fh_next h)) CHR ''0'') in
      if CHR ''/'' \<in> set pat then (h, Inl ''pattern contains path separator'')
      else if fh_files h t = None then (h\<lparr>fh_files := (fh_files h)(t \<mapsto> []), fh_next := Suc (fh_next h)\<rparr>, Inr t)
      else (h, Inl ''file exists''))"

type_synonym 'x run_handler = "(string \<Rightarrow> string option) \<Rightarrow> string \<Rightarrow> string list \<Rightarrow> 'x \<Rightarrow> 'x \<times> string \<times> string option"

definition fake_run :: "'x run_handler \<Rightarrow> 'x fake_host \<Rightarrow> string \<Rightarrow> string list \<Rightarrow> 'x fake_host \<times> string \<times> string option" where
  "fake_run handler h name args =
     (case handler (fh_files h) name args (fh_more h) of
        (x, r) \<Rightarrow> (h\<lparr>fh_calls := fh_calls h @ [\<lparr>rc_name = name, rc_args = args\<rparr>], fh_more := x\<rparr>, r))"

definition on_units :: "'x fake_host \<Rightarrow> unit_fake \<times> string option \<Rightarrow> 'x fake_host \<times> string option" where
  "on_units h r = (h\<lparr>fh_units := fst r\<rparr>, snd r)"

definition fake_host_ops :: "'x run_handler \<Rightarrow> 'x fake_host host" where
  "fake_host_ops handler =
     \<lparr>ho_read = (\<lambda>h p. case fh_files h p of None \<Rightarrow> Inl ''no such file or directory'' | Some c \<Rightarrow> Inr c),
      ho_missing = (\<lambda>h p. fh_files h p = None),
      ho_mkdir = (\<lambda>h p. (h, None)), ho_chmod = (\<lambda>h p m. (h, None)), ho_temp = fake_temp,
      ho_write = (\<lambda>h t c. (h\<lparr>fh_files := (fh_files h)(t \<mapsto> c)\<rparr>, None)), ho_close = (\<lambda>h t. (h, None)),
      ho_rename = (\<lambda>h t p. if fh_files h t = None then (h, Some ''no such file or directory'')
         else (h\<lparr>fh_files := (fh_files h)(p := fh_files h t, t := None)\<rparr>, None)),
      ho_remove = (\<lambda>h t. h\<lparr>fh_files := (fh_files h)(t := None)\<rparr>),
      ho_run = fake_run handler, ho_state = (\<lambda>h u. unit_State (fh_units h) u),
      ho_start = (\<lambda>h u. on_units h (unit_Start (fh_units h) u)),
      ho_restart = (\<lambda>h u. on_units h (unit_Restart (fh_units h) u)),
      ho_stop = (\<lambda>h u. on_units h (unit_Stop (fh_units h) u))\<rparr>"

lemma split_on_append: "split_on d (xs @ d # ys) = split_on d xs @ split_on d ys"
  by (induction xs) (auto split: list.split)

lemma split_on_plain: "d \<notin> set s \<Longrightarrow> split_on d s = [s]"
  by (induction s) auto

lemma file_base_under:
  assumes "CHR ''/'' \<notin> set x" "x \<noteq> []"
  shows "file_base (d @ ''/'' @ x) = x"
proof -
  have "last x \<in> set x" using assms(2) by simp
  then have "last x \<noteq> CHR ''/''" using assms(1) by metis
  then have "strip_slashes (d @ ''/'' @ x) = d @ ''/'' @ x"
    using assms(2) by (cases x rule: rev_cases) (simp_all add: strip_slashes_def)
  then show ?thesis using assms by (simp add: file_base_def split_on_append split_on_plain)
qed

lemma last_index_byte_less: "last_index_byte s c = Some i \<Longrightarrow> i < length s"
  by (induction s arbitrary: i) (auto split: option.splits if_splits)

lemma length_temp_text: "Suc (length (temp_text pat rnd)) \<ge> length pat + length rnd"
  by (auto simp: temp_text_def dest: last_index_byte_less split: option.split)

lemma set_temp_text: "set (temp_text pat rnd) \<subseteq> set pat \<union> set rnd"
  by (auto simp: temp_text_def dest: in_set_takeD in_set_dropD split: option.split)

lemma fake_temp_base:
  assumes "fake_temp h d (''.'' @ b @ ''.*'') = (h', Inr t)"
  shows "file_base t \<noteq> b"
proof -
  let ?x = "temp_text (''.'' @ b @ ''.*'') (replicate (Suc (fh_next h)) CHR ''0'')"
  have t: "t = (if d = [] then ''/tmp'' else d) @ ''/'' @ ?x" "CHR ''/'' \<notin> set (''.'' @ b @ ''.*'')"
    using assms by (auto simp: fake_temp_def Let_def split: if_splits)
  have long: "length ?x > length b" using length_temp_text[of "''.'' @ b @ ''.*''" "replicate (Suc (fh_next h)) CHR ''0''"] by simp
  have "CHR ''/'' \<notin> set ?x"
    using t(2) set_temp_text[of "''.'' @ b @ ''.*''" "replicate (Suc (fh_next h)) CHR ''0''"] by (auto simp del: replicate_Suc)
  then have "file_base t = ?x" unfolding t(1) using long by (intro file_base_under) auto
  then show ?thesis using long by auto
qed

interpretation memory: file_host "fake_host_ops handler" fh_files for handler
proof
  fix h h' :: "'a fake_host" and p t d pat c data b r e m
  show "ho_read (fake_host_ops handler) h p = Inr c \<longleftrightarrow> fh_files h p = Some c"
    by (auto simp: fake_host_ops_def split: option.split)
  show "ho_temp (fake_host_ops handler) h d (''.'' @ b @ ''.*'') = (h', Inr t) \<Longrightarrow> file_base t \<noteq> b"
    by (rule fake_temp_base) (simp add: fake_host_ops_def)
  show "ho_temp (fake_host_ops handler) h d pat = (h', Inr t) \<Longrightarrow> fh_files h t = None \<and> fh_files h' = (fh_files h)(t \<mapsto> [])"
    "ho_temp (fake_host_ops handler) h d pat = (h', Inl e) \<Longrightarrow> fh_files h' = fh_files h"
    by (auto simp: fake_host_ops_def fake_temp_def Let_def split: if_splits)
qed (auto simp: fake_host_ops_def split: if_splits)

end
