(* ===== verification/NftDriver.thy ===== *)
theory NftDriver
  imports Host RenderNft
begin

text \<open>
  \<open>internal/driver/nft/nft.go\<close>: the driver of nftables and of the policy route to the TPROXY socket.
\<close>

record nft_driver =
  nv_paths :: paths
  nv_nft_binary :: string
  nv_ip_binary :: string
  nv_last_err :: string
  nv_last_apply :: time
  nv_applied :: bool

definition new_nft_driver :: "paths \<Rightarrow> nft_driver" where
  "new_nft_driver p = \<lparr>nv_paths = p, nv_nft_binary = ''nft'', nv_ip_binary = ''ip'', nv_last_err = [],
     nv_last_apply = zero_time, nv_applied = False\<rparr>"

definition table_line :: string where
  "table_line = ''table inet '' @ NftTable"

text \<open>Whether the live ruleset lacks the table, or cannot be listed.\<close>

definition table_missing :: "'h host \<Rightarrow> nft_driver \<Rightarrow> 'h \<Rightarrow> 'h \<times> bool" where
  "table_missing H d h =
     (case ho_run H h (nv_nft_binary d) [''list'', ''tables'', ''inet''] of
        (h1, out, err) \<Rightarrow> (h1, err \<noteq> None \<or> \<not> str_contains out table_line))"

definition nft_Plan :: "'h host \<Rightarrow> nft_driver \<Rightarrow> 'h \<Rightarrow> artifacts \<Rightarrow> 'h \<times> 'st plan result" where
  "nft_Plan H d h art =
     (let on_disk = read_file H h (NftRuleset (nv_paths d));
          changed = (on_disk \<noteq> a_nft art);
          (h1, need) = (if changed \<or> \<not> nv_applied d then (h, True) else table_missing H d h);
          acts = (if changed then [act ActionWrite (NftRuleset (nv_paths d))] else []) @
                 (if need then [act ActionExec ''nft -f (atomic table replace)''] else []) @
                 (if \<not> nv_applied d then [act ActionExec ''ensure ip rule fwmark lookup + local route''] else [])
      in (h1, Inr \<lparr>pl_component = ComponentNftables,
            pl_actions = (if acts = [] then [act ActionNoop ''ruleset unchanged and loaded''] else acts),
            pl_diff = (if changed then LineDiff on_disk (a_nft art) 100 else []), pl_state = None\<rparr>))"

subsection \<open>Policy routing\<close>

definition strip_pre :: "string \<Rightarrow> string \<Rightarrow> string option" where
  "strip_pre p s = (if has_prefix s p then Some (drop (length p) s) else None)"

definition is_hex_low :: "char \<Rightarrow> bool" where
  "is_hex_low c \<longleftrightarrow> is_digit c \<or> c \<in> set ''abcdef''"

definition word_end :: "string \<Rightarrow> bool" where
  "word_end s = (case s of [] \<Rightarrow> True | c # _ \<Rightarrow> \<not> (is_digit c \<or> is_lower c \<or> is_upper c \<or> c = CHR ''_''))"

text \<open>The regular expression of \<open>countRules\<close>, at the start of a text.\<close>

definition rule_here :: "string \<Rightarrow> string \<Rightarrow> string \<Rightarrow> bool" where
  "rule_here mark table s =
     (case strip_pre (''fwmark 0x'' @ mark) s of
        None \<Rightarrow> False
      | Some r \<Rightarrow>
          (let r' = (case strip_pre ''/0x'' r of
                       None \<Rightarrow> r | Some q \<Rightarrow> if takeWhile is_hex_low q = [] then r else dropWhile is_hex_low q)
           in case strip_pre '' lookup '' r' of
                None \<Rightarrow> False
              | Some q \<Rightarrow> (\<exists>t\<in>{table, ''tproxy''}. case strip_pre t q of None \<Rightarrow> False | Some e \<Rightarrow> word_end e)))"

fun countRules :: "string \<Rightarrow> string \<Rightarrow> string \<Rightarrow> nat" where
  "countRules [] mark table = 0"
| "countRules (c # s) mark table = (if rule_here mark table (c # s) then 1 else 0) + countRules s mark table"

definition trim_is :: "'h host \<Rightarrow> 'h \<Rightarrow> string \<Rightarrow> string \<Rightarrow> bool" where
  "trim_is H h path v = (case ho_read H h path of Inl _ \<Rightarrow> False | Inr b \<Rightarrow> trim_space b = v)"

definition ipv6Disabled :: "'h host \<Rightarrow> 'h \<Rightarrow> bool" where
  "ipv6Disabled H h = trim_is H h ''/proc/sys/net/ipv6/conf/all/disable_ipv6'' ''1''"

definition conntrackTuning :: "(string \<times> string) list" where
  "conntrackTuning =
     [(''net/netfilter/nf_conntrack_max'', ''1048576''),
      (''net/netfilter/nf_conntrack_tcp_timeout_established'', ''3600''),
      (''net/netfilter/nf_conntrack_tcp_timeout_time_wait'', ''120''),
      (''net/netfilter/nf_conntrack_tcp_timeout_close_wait'', ''60''),
      (''net/netfilter/nf_conntrack_tcp_timeout_fin_wait'', ''120'')]"

text \<open>\<open>os.WriteFile\<close> on an existing file is a write to that name.\<close>

fun tune_keys :: "'h host \<Rightarrow> (string \<times> string) list \<Rightarrow> 'h \<Rightarrow> 'h \<times> nat" where
  "tune_keys H [] h = (h, 0)"
| "tune_keys H ((key, want) # kvs) h =
     (let path = ''/proc/sys/'' @ key in
      case ho_read H h path of
        Inl _ \<Rightarrow> tune_keys H kvs h
      | Inr cur \<Rightarrow>
          if trim_space cur = want then tune_keys H kvs h
          else (let (h1, err) = ho_write H h path (want @ [CHR 0x0A]); (h2, n) = tune_keys H kvs h1
                in (h2, if err = None then Suc n else n)))"

definition TuneConntrack :: "'h host \<Rightarrow> 'h \<Rightarrow> 'h \<times> nat" where
  "TuneConntrack H h = tune_keys H conntrackTuning h"

text \<open>Duplicates are removed until one is left or a removal fails.\<close>

fun collapse_rules :: "'h host \<Rightarrow> string \<Rightarrow> string list \<Rightarrow> nat \<Rightarrow> 'h \<Rightarrow> 'h" where
  "collapse_rules H ip args 0 h = h"
| "collapse_rules H ip args (Suc n) h =
     (if n = 0 then h
      else case ho_run H h ip args of (h1, _, Some _) \<Rightarrow> h1 | (h1, _, None) \<Rightarrow> collapse_rules H ip args n h1)"

definition ensure_route :: "'h host \<Rightarrow> string \<Rightarrow> string \<Rightarrow> 'h \<Rightarrow> 'h \<times> string option" where
  "ensure_route H ip fam h =
     (let table = int_string TProxyRouteTbl;
          (h1, out, err) = ho_run H h ip [fam, ''route'', ''show'', ''table'', table];
          out' = (if err = None then out else [])
      in if str_contains out' ''local default dev lo'' then (h1, None)
         else case ho_run H h1 ip [fam, ''route'', ''replace'', ''local'', ''default'', ''dev'', ''lo'', ''table'', table] of
                (h2, _, Some e) \<Rightarrow> (h2, Some (''ip '' @ fam @ '' route replace: '' @ e))
              | (h2, _, None) \<Rightarrow> (h2, None))"

definition ensure_rule :: "'h host \<Rightarrow> string \<Rightarrow> string \<Rightarrow> string \<Rightarrow> 'h \<Rightarrow> 'h \<times> string option" where
  "ensure_rule H ip fam out h =
     (let mark = int_string TProxyMark; table = int_string TProxyRouteTbl;
          n = countRules out mark table;
          h1 = collapse_rules H ip [fam, ''rule'', ''del'', ''fwmark'', mark, ''lookup'', table] n h
      in if n = 0
         then (case ho_run H h1 ip [fam, ''rule'', ''add'', ''fwmark'', mark, ''lookup'', table] of
                 (h2, _, Some e) \<Rightarrow> (h2, Some (''ip '' @ fam @ '' rule add: '' @ e)) | (h2, _, None) \<Rightarrow> ensure_route H ip fam h2)
         else ensure_route H ip fam h1)"

definition ensure_family :: "'h host \<Rightarrow> string \<Rightarrow> string \<Rightarrow> 'h \<Rightarrow> 'h \<times> string option" where
  "ensure_family H ip fam h =
     (if fam = ''-6'' \<and> ipv6Disabled H h then (h, None)
      else case ho_run H h ip [''-N'', fam, ''rule'', ''show''] of
             (h1, out, None) \<Rightarrow> ensure_rule H ip fam out h1
           | (h1, _, Some _) \<Rightarrow>
               (case ho_run H h1 ip [fam, ''rule'', ''show''] of
                  (h2, out, None) \<Rightarrow> ensure_rule H ip fam out h2
                | (h2, _, Some e) \<Rightarrow> (h2, Some (''ip '' @ fam @ '' rule show: '' @ e))))"

definition ensurePolicyRouting :: "'h host \<Rightarrow> nft_driver \<Rightarrow> 'h \<Rightarrow> 'h \<times> string option" where
  "ensurePolicyRouting H d h =
     (case ensure_family H (nv_ip_binary d) ''-4'' h of
        (h1, Some e) \<Rightarrow> (h1, Some e) | (h1, None) \<Rightarrow> ensure_family H (nv_ip_binary d) ''-6'' h1)"

subsection \<open>Apply\<close>

text \<open>The file is written unless it is there, validated and loaded.\<close>

definition nft_load :: "'h host \<Rightarrow> nft_driver \<Rightarrow> artifacts \<Rightarrow> 'h \<Rightarrow> nft_driver \<times> 'h \<times> string option" where
  "nft_load H d art h =
     (let path = NftRuleset (nv_paths d); nft = nv_nft_binary d;
          (h1, w) = (if SameContent H h path (a_nft art) then (h, Inr False) else WriteFileAtomic H h path (a_nft art) 420)
      in case w of
           Inl e \<Rightarrow> (d, h1, Some e)
         | Inr _ \<Rightarrow>
             (case ho_run H h1 nft [''-c'', ''-f'', path] of
                (h2, out, Some _) \<Rightarrow> (d, h2, Some (''ruleset rejected by nft -c: '' @ trim_space out))
              | (h2, _, None) \<Rightarrow>
                  (case ho_run H h2 nft [''-f'', path] of
                     (h3, out, Some _) \<Rightarrow> (d, h3, Some (''nft -f: '' @ trim_space out))
                   | (h3, _, None) \<Rightarrow> (d\<lparr>nv_applied := True\<rparr>, h3, None))))"

definition nft_action :: "'h host \<Rightarrow> artifacts \<Rightarrow> driver_action \<Rightarrow> nft_driver \<Rightarrow> 'h \<Rightarrow> nft_driver \<times> 'h \<times> string option" where
  "nft_action H art a d h =
     (case da_kind a of
        ActionWrite \<Rightarrow>
          (case WriteFileAtomic H h (NftRuleset (nv_paths d)) (a_nft art) 420 of
             (h1, Inl e) \<Rightarrow> (d, h1, Some (''write ruleset: '' @ e)) | (h1, Inr _) \<Rightarrow> (d, h1, None))
      | ActionExec \<Rightarrow>
          if has_prefix (da_detail a) ''nft -f'' then nft_load H d art h
          else (case ensurePolicyRouting H d (fst (TuneConntrack H h)) of (h1, e) \<Rightarrow> (d, h1, e))
      | _ \<Rightarrow> (d, h, None))"

fun nft_actions :: "'h host \<Rightarrow> artifacts \<Rightarrow> driver_action list \<Rightarrow> nft_driver \<Rightarrow> 'h \<Rightarrow> nft_driver \<times> 'h \<times> string option" where
  "nft_actions H art [] d h = (d, h, None)"
| "nft_actions H art (a # as) d h =
     (case nft_action H art a d h of
        (d1, h1, Some e) \<Rightarrow> (d1, h1, Some e) | (d1, h1, None) \<Rightarrow> nft_actions H art as d1 h1)"

definition nft_Apply :: "'h host \<Rightarrow> time \<Rightarrow> nft_driver \<Rightarrow> 'h \<Rightarrow> 'st plan \<Rightarrow> artifacts \<Rightarrow> nft_driver \<times> 'h \<times> string option" where
  "nft_Apply H now d h plan art =
     (case nft_actions H art (pl_actions plan) (d\<lparr>nv_last_apply := now\<rparr>) h of
        (d1, h1, err) \<Rightarrow> (d1\<lparr>nv_last_err := (case err of None \<Rightarrow> [] | Some e \<Rightarrow> e)\<rparr>, h1, err))"

definition nft_Health :: "'h host \<Rightarrow> nft_driver \<Rightarrow> 'h \<Rightarrow> component_health" where
  "nft_Health H d h =
     (let health = (\<lambda>st m. driver_health ComponentNftables st (if nv_last_err d = [] then m else nv_last_err d) (nv_last_apply d)) in
      case ho_run H h (nv_nft_binary d) [''list'', ''tables'', ''inet''] of
        (_, _, Some _) \<Rightarrow> health StatusDown ''nft not available''
      | (_, out, None) \<Rightarrow>
          if \<not> str_contains out table_line then health StatusDown ''table not loaded''
          else if nv_last_err d \<noteq> [] then health StatusDegraded [] else health StatusActive [])"

text \<open>The driver as the reconciler sees it.\<close>

definition nft_drv :: "'h host \<Rightarrow> time \<Rightarrow> (nft_driver \<times> 'h, unit) drv" where
  "nft_drv H now = \<lparr>dr_component = ComponentNftables,
     dr_plan = (\<lambda>w prev art. case nft_Plan H (fst w) (snd w) art of (h, r) \<Rightarrow> ((fst w, h), r)),
     dr_apply = (\<lambda>w plan art. case nft_Apply H now (fst w) (snd w) plan art of (d, h, e) \<Rightarrow> ((d, h), e)),
     dr_health = (\<lambda>w. nft_Health H (fst w) (snd w))\<rparr>"

end
