(* ===== verification/DriverProps.thy ===== *)
theory DriverProps
  imports Host NftDriver ReconcileProps
begin

text \<open>
  Properties of the file helpers and of the nftables driver.  The contract of the host, with the ruleset
  the kernel holds, is the locale \<open>nft_host\<close>; it is interpreted on the in-memory host of the tests.
\<close>

subsection \<open>Files are replaced whole\<close>

text \<open>
  \<open>WriteFileAtomic\<close> is all or nothing: it either returns success and the file has exactly the new
  content, every other file as before, the flag telling whether the content changed; or it returns an
  error and every file is as before, apart from a temporary file that did not exist.
\<close>

theorem write_all_or_nothing:
  assumes "file_host H files" "WriteFileAtomic H h path data m = (h', r)"
  shows "case r of
      Inr changed \<Rightarrow> files h' = (files h)(path \<mapsto> data) \<and> changed = (files h path \<noteq> Some data)
    | Inl _ \<Rightarrow> files h' = files h \<or> (\<exists>t c. t \<noteq> path \<and> files h t = None \<and> files h' = (files h)(t := c))"
  using file_host.WriteFileAtomic_files[OF assms] unfolding file_host.only_temp_def[OF assms(1)] .

subsection \<open>The ruleset the kernel holds\<close>


subsection \<open>The test host\<close>

text \<open>A kernel that holds one ruleset; the candidate texts that \<open>nft -c\<close> accepts are an argument.\<close>

definition nft_handler :: "(string \<Rightarrow> bool) \<Rightarrow> string option run_handler" where
  "nft_handler accepts files name args x =
     (if name = ''nft'' \<and> take 2 args = [''-c'', ''-f'']
      then (if (case files (args ! 2) of None \<Rightarrow> False | Some c \<Rightarrow> accepts c) then (x, [], None) else (x, ''syntax error'', Some ''exit status 1''))
      else if name = ''nft'' \<and> length args = 2 \<and> hd args = ''-f''
      then (case files (args ! 1) of None \<Rightarrow> (x, [], Some ''exit status 1'') | Some c \<Rightarrow> (Some c, [], None))
      else if name = ''nft'' then (x, if x = None then [] else table_line, None)
      else (x, [], None))"

abbreviation nft_machine :: "(string \<Rightarrow> bool) \<Rightarrow> string option fake_host host" where
  "nft_machine accepts \<equiv> fake_host_ops (nft_handler accepts)"


definition new_machine :: "string option fake_host" where
  "new_machine = \<lparr>fh_files = (\<lambda>_. None), fh_next = 0, fh_units = new_unit_fake [], fh_calls = [], fh_more = None\<rparr>"

theorem write_all_or_nothing_witness:
  "fh_files (fst (WriteFileAtomic (nft_machine (\<lambda>_. True)) new_machine ''/d/f'' ''x'' 420)) = [''/d/f'' \<mapsto> ''x'']"
proof -
  have "snd (WriteFileAtomic (nft_machine (\<lambda>_. True)) new_machine ''/d/f'' ''x'' 420) = Inr True" by code_simp
  then obtain h' where run: "WriteFileAtomic (nft_machine (\<lambda>_. True)) new_machine ''/d/f'' ''x'' 420 = (h', Inr True)"
    by (metis prod.collapse)
  show ?thesis using write_all_or_nothing[OF memory.file_host_axioms run] run by (simp add: new_machine_def)
qed

subsection \<open>The kernel after a step of the driver\<close>





subsection \<open>A rejected ruleset is taken for loaded\<close>






end
