(* ===== verification/MosdnsDriver.thy ===== *)
theory MosdnsDriver
  imports Host RenderBase
begin

text \<open>
  \<open>internal/driver/mosdns/mosdns.go\<close>: the driver of Mosdns.  Arguments beside the host: the sleep
  primitive and the clock readings.  The files of a generation are taken in one fixed order, where
  the code ranges over a map.
\<close>

record 'h mosdns_driver =
  mv_paths :: paths
  mv_unit :: string
  mv_gap :: duration
  mv_sleep :: "'h \<Rightarrow> duration \<Rightarrow> 'h \<times> string option"
  mv_last_restart :: time
  mv_last_err :: string
  mv_last_apply :: time

definition new_mosdns_driver :: "paths \<Rightarrow> ('h \<Rightarrow> duration \<Rightarrow> 'h \<times> string option) \<Rightarrow> 'h mosdns_driver" where
  "new_mosdns_driver p sleep = \<lparr>mv_paths = p, mv_unit = ''edgeroutegw-mosdns.service'', mv_gap = 10 * second, mv_sleep = sleep,
     mv_last_restart = zero_time, mv_last_err = [], mv_last_apply = zero_time\<rparr>"

definition mosdns_files :: "paths \<Rightarrow> artifacts \<Rightarrow> (string \<times> string) list" where
  "mosdns_files p art =
     [(MosdnsConfigPath p, a_mosdns_config art), (MosdnsProxyList p, a_mosdns_proxy_domains art)] @
     (case a_mosdns_cn_domains art of None \<Rightarrow> [] | Some cn \<Rightarrow> [(MosdnsCNList p, cn)])"

definition mosdns_missing :: "'h host \<Rightarrow> 'h mosdns_driver \<Rightarrow> 'h \<Rightarrow> bool" where
  "mosdns_missing H d h = ho_missing H h (MosdnsBinary (mv_paths d))"

definition cn_placeholder :: "'h host \<Rightarrow> 'h mosdns_driver \<Rightarrow> 'h \<Rightarrow> artifacts \<Rightarrow> bool" where
  "cn_placeholder H d h art \<longleftrightarrow> a_mosdns_cn_domains art = None \<and> ho_missing H h (MosdnsCNList (mv_paths d))"

definition mosdns_changed :: "'h host \<Rightarrow> 'h mosdns_driver \<Rightarrow> 'h \<Rightarrow> artifacts \<Rightarrow> (string \<times> string) list" where
  "mosdns_changed H d h art = filter (\<lambda>(path, c). \<not> SameContent H h path c) (mosdns_files (mv_paths d) art)"

definition mosdns_Plan :: "'h host \<Rightarrow> 'h mosdns_driver \<Rightarrow> 'h \<Rightarrow> artifacts \<Rightarrow> 'st plan result" where
  "mosdns_Plan H d h art =
     (let p = mv_paths d; changed = mosdns_changed H d h art;
          writes = map (\<lambda>(path, _). act ActionWrite path) changed @
                   (if cn_placeholder H d h art then [act ActionWrite (MosdnsCNList p @ '' (empty placeholder)'')] else []);
          diff = (if MosdnsConfigPath p \<in> fst ` set changed
                  then LineDiff (read_file H h (MosdnsConfigPath p)) (a_mosdns_config art) 100 else []);
          plan = (\<lambda>acts. Inr \<lparr>pl_component = ComponentMosdns, pl_actions = acts, pl_diff = diff, pl_state = None\<rparr>)
      in case ho_state H h (mv_unit d) of
           Inl e \<Rightarrow> Inl (''mosdns unit state: '' @ e)
         | Inr st \<Rightarrow>
             if \<not> Active st
             then plan (writes @ [if mosdns_missing H d h then act ActionSkipped ''mosdns binary not installed'' else act ActionStart (mv_unit d)])
             else if changed \<noteq> [] then plan (writes @ [act ActionRestart ''config or domain list changed''])
             else plan (if writes = [] then [act ActionNoop ''config unchanged, unit active''] else writes))"

fun write_all :: "'h host \<Rightarrow> (string \<times> string) list \<Rightarrow> 'h \<Rightarrow> 'h \<times> string option" where
  "write_all H [] h = (h, None)"
| "write_all H ((path, c) # fs) h =
     (case WriteFileAtomic H h path c 420 of
        (h1, Inl e) \<Rightarrow> (h1, Some (''write '' @ path @ '': '' @ e)) | (h1, Inr _) \<Rightarrow> write_all H fs h1)"

text \<open>The first loop of \<open>apply\<close>, which writes all files once if any write is planned.\<close>

definition mosdns_write :: "'h host \<Rightarrow> 'h mosdns_driver \<Rightarrow> artifacts \<Rightarrow> 'h \<Rightarrow> 'h \<times> string option" where
  "mosdns_write H d art h =
     (case ho_mkdir H h (pa_run (mv_paths d)) of
        (h1, Some e) \<Rightarrow> (h1, Some (''create runtime dir: '' @ e))
      | (h1, None) \<Rightarrow>
          (case write_all H (mosdns_files (mv_paths d) art) h1 of
             (h2, Some e) \<Rightarrow> (h2, Some e)
           | (h2, None) \<Rightarrow>
               if cn_placeholder H d h2 art
               then (case WriteFileAtomic H h2 (MosdnsCNList (mv_paths d)) [] 420 of
                       (h3, Inl e) \<Rightarrow> (h3, Some e) | (h3, Inr _) \<Rightarrow> (h3, None))
               else (h2, None)))"

text \<open>One action of the second loop, at the time \<open>now\<close>; \<open>fin\<close> is the clock after it.\<close>

definition mosdns_action ::
  "'h host \<Rightarrow> time \<Rightarrow> time \<Rightarrow> driver_action \<Rightarrow> 'h mosdns_driver \<Rightarrow> 'h \<Rightarrow> 'h mosdns_driver \<times> 'h \<times> string option" where
  "mosdns_action H now fin a d h =
     (case da_kind a of
        ActionStart \<Rightarrow>
          (case ho_start H h (mv_unit d) of
             (h1, Some e) \<Rightarrow> (d, h1, Some e) | (h1, None) \<Rightarrow> (d\<lparr>mv_last_restart := fin\<rparr>, h1, None))
      | ActionRestart \<Rightarrow>
          (let wait = mv_gap d - time_sub now (mv_last_restart d);
               (h1, slept) = (if wait > 0 \<and> mv_last_restart d \<noteq> zero_time then mv_sleep d h wait else (h, None))
           in case slept of
                Some e \<Rightarrow> (d, h1, Some e)
              | None \<Rightarrow>
                  (case ho_restart H h1 (mv_unit d) of
                     (h2, Some e) \<Rightarrow> (d, h2, Some e) | (h2, None) \<Rightarrow> (d\<lparr>mv_last_restart := fin\<rparr>, h2, None)))
      | _ \<Rightarrow> (d, h, None))"

fun mosdns_actions ::
  "'h host \<Rightarrow> time \<Rightarrow> time \<Rightarrow> driver_action list \<Rightarrow> 'h mosdns_driver \<Rightarrow> 'h \<Rightarrow> 'h mosdns_driver \<times> 'h \<times> string option" where
  "mosdns_actions H now fin [] d h = (d, h, None)"
| "mosdns_actions H now fin (a # as) d h =
     (case mosdns_action H now fin a d h of
        (d1, h1, Some e) \<Rightarrow> (d1, h1, Some e) | (d1, h1, None) \<Rightarrow> mosdns_actions H now fin as d1 h1)"

definition mosdns_Apply ::
  "'h host \<Rightarrow> time \<Rightarrow> time \<Rightarrow> 'h mosdns_driver \<Rightarrow> 'h \<Rightarrow> 'st plan \<Rightarrow> artifacts \<Rightarrow> 'h mosdns_driver \<times> 'h \<times> string option" where
  "mosdns_Apply H now fin d h plan art =
     (let d0 = d\<lparr>mv_last_apply := now\<rparr>;
          (h1, werr) = (if \<exists>a\<in>set (pl_actions plan). da_kind a = ActionWrite then mosdns_write H d0 art h else (h, None));
          (d2, h2, err) = (case werr of Some e \<Rightarrow> (d0, h1, Some e) | None \<Rightarrow> mosdns_actions H now fin (pl_actions plan) d0 h1)
      in (d2\<lparr>mv_last_err := (case err of None \<Rightarrow> [] | Some e \<Rightarrow> e)\<rparr>, h2, err))"

text \<open>The status of a unit-backed component, shared by Mosdns and Xray.\<close>

definition unit_health :: "component \<Rightarrow> bool \<Rightarrow> string \<Rightarrow> unit_state result \<Rightarrow> string \<Rightarrow> time \<Rightarrow> component_health" where
  "unit_health c missing text st err t =
     (if missing then driver_health c StatusDown (if err = [] then text else err) t
      else case st of
             Inl e \<Rightarrow> driver_health c StatusUnknown e t
           | Inr u \<Rightarrow> driver_health c (if \<not> Active u then StatusDown else if err \<noteq> [] then StatusDegraded else StatusActive) err t)"

definition mosdns_Health :: "'h host \<Rightarrow> 'h mosdns_driver \<Rightarrow> 'h \<Rightarrow> component_health" where
  "mosdns_Health H d h = unit_health ComponentMosdns (mosdns_missing H d h) ''mosdns binary not installed''
     (ho_state H h (mv_unit d)) (mv_last_err d) (mv_last_apply d)"

definition mosdns_drv :: "'h host \<Rightarrow> time \<Rightarrow> time \<Rightarrow> ('h mosdns_driver \<times> 'h, unit) drv" where
  "mosdns_drv H now fin = \<lparr>dr_component = ComponentMosdns,
     dr_plan = (\<lambda>w prev art. (w, mosdns_Plan H (fst w) (snd w) art)),
     dr_apply = (\<lambda>w plan art. case mosdns_Apply H now fin (fst w) (snd w) plan art of (d, h, e) \<Rightarrow> ((d, h), e)),
     dr_health = (\<lambda>w. mosdns_Health H (fst w) (snd w))\<rparr>"

end
