(* ===== verification/XrayDriver.thy ===== *)
theory XrayDriver
  imports MosdnsDriver RenderXray
begin

text \<open>
  \<open>internal/driver/xray/xray.go\<close>: the driver of Xray, with hot updates over its API.  The state a plan
  carries is the map of outbounds the running instance holds.  Decoding of JSON is an argument: the
  number of elements of an array, and the node outbounds of a configuration file.
\<close>

type_synonym outbound_map = "(string \<times> string) list"

definition APIListenAddr :: string where "APIListenAddr = ''127.0.0.1:10085''"

record xray_driver =
  xv_paths :: paths
  xv_unit :: string
  xv_last_err :: string
  xv_last_apply :: time

record xray_json =
  xj_count :: "string \<Rightarrow> nat option"
  xj_outbounds :: "string \<Rightarrow> outbound_map option"

definition new_xray_driver :: "paths \<Rightarrow> xray_driver" where
  "new_xray_driver p = \<lparr>xv_paths = p, xv_unit = ''edgeroutegw-xray.service'', xv_last_err = [], xv_last_apply = zero_time\<rparr>"

definition xray_missing :: "'h host \<Rightarrow> xray_driver \<Rightarrow> 'h \<Rightarrow> bool" where
  "xray_missing H d h = ho_missing H h (XrayBinary (xv_paths d))"

text \<open>Tags to add and to remove; a changed outbound is in both.  Both come sorted.\<close>

definition outbound_adds :: "outbound_map \<Rightarrow> outbound_map \<Rightarrow> string list" where
  "outbound_adds old new = map fst (filter (\<lambda>(t, raw). map_of old t \<noteq> Some raw) new)"

definition diffOutbounds :: "outbound_map \<Rightarrow> outbound_map \<Rightarrow> string list \<times> string list" where
  "diffOutbounds old new =
     (sort (outbound_adds old new),
      sort (filter (\<lambda>t. map_of old t \<noteq> None) (outbound_adds old new) @
            filter (\<lambda>t. map_of new t = None) (map fst old)))"

definition count_json_rules :: "xray_json \<Rightarrow> string \<Rightarrow> nat" where
  "count_json_rules J rules = (case xj_count J rules of None \<Rightarrow> 0 | Some n \<Rightarrow> n)"

definition lastLines :: "string \<Rightarrow> nat \<Rightarrow> string" where
  "lastLines s n = (let ls = split_on CHR 0x0A (trim_space s) in
     join_with [CHR 0x0A] (if length ls > n then drop (length ls - n) ls else ls))"

subsection \<open>Plan\<close>

definition xray_Plan ::
  "'h host \<Rightarrow> xray_json \<Rightarrow> xray_driver \<Rightarrow> 'h \<Rightarrow> artifacts option \<Rightarrow> artifacts \<Rightarrow> outbound_map plan result" where
  "xray_Plan H J d h prev art =
     (let path = XrayConfigPath (xv_paths d); on_disk = read_file H h path; changed = (on_disk \<noteq> a_xray art);
          writes = (if changed then [act ActionWrite path] else []);
          plan = (\<lambda>acts st. Inr \<lparr>pl_component = ComponentXray, pl_actions = acts,
                    pl_diff = (if changed then LineDiff on_disk (a_xray art) 200 else []), pl_state = st\<rparr>)
      in case ho_state H h (xv_unit d) of
           Inl e \<Rightarrow> Inl (''xray unit state: '' @ e)
         | Inr u \<Rightarrow>
             if \<not> Active u
             then plan (writes @ [if xray_missing H d h then act ActionSkipped ''xray binary not installed'' else act ActionStart (xv_unit d)]) None
             else if \<not> changed then plan [act ActionNoop ''config unchanged, unit active''] None
             else case prev of
                    None \<Rightarrow> plan (writes @ [act ActionRestart ''first apply since start'']) None
                  | Some p \<Rightarrow>
                      if a_xray_structural_hash p = a_xray_structural_hash art
                      then (let (add, rem) = diffOutbounds (a_xray_outbounds p) (a_xray_outbounds art) in
                            plan (writes @ [act ActionHot (''outbounds +'' @ int_string (int (length add)) @ '' -'' @
                                int_string (int (length rem)) @ '', rules '' @ int_string (int (count_json_rules J (a_xray_rules art))))])
                              (Some (a_xray_outbounds p)))
                      else plan (writes @ [act ActionRestart ''structural change (inbounds/dns/balancers)'']) None)"

subsection \<open>Apply\<close>

text \<open>A temporary file with a payload is handed to a command and removed.\<close>

definition with_temp :: "'h host \<Rightarrow> string \<Rightarrow> string \<Rightarrow> (string \<Rightarrow> 'h \<Rightarrow> 'h \<times> string option) \<Rightarrow> 'h \<Rightarrow> 'h \<times> string option" where
  "with_temp H pat payload run h =
     (case ho_temp H h [] pat of
        (h1, Inl e) \<Rightarrow> (h1, Some e)
      | (h1, Inr tmp) \<Rightarrow>
          (case ho_write H h1 tmp payload of
             (h2, Some e) \<Rightarrow> (ho_remove H (fst (ho_close H h2 tmp)) tmp, Some e)
           | (h2, None) \<Rightarrow> (case run tmp h2 of (h3, r) \<Rightarrow> (ho_remove H h3 tmp, r))))"

definition runWithTempFile :: "'h host \<Rightarrow> xray_driver \<Rightarrow> string \<Rightarrow> string \<Rightarrow> 'h \<Rightarrow> 'h \<times> string option" where
  "runWithTempFile H d sub payload =
     with_temp H (''ergw-xray-'' @ sub @ ''-*.json'') payload (\<lambda>tmp h.
       case ho_close H h tmp of
         (h1, Some e) \<Rightarrow> (h1, Some e)
       | (h1, None) \<Rightarrow> (case ho_run H h1 (XrayBinary (xv_paths d)) [''api'', sub, ''-s'', APIListenAddr, tmp] of (h2, _, r) \<Rightarrow> (h2, r)))"

definition xray_validate :: "'h host \<Rightarrow> xray_driver \<Rightarrow> string \<Rightarrow> 'h \<Rightarrow> 'h \<times> string option" where
  "xray_validate H d cfg h =
     (case ho_mkdir H h (pa_run (xv_paths d)) of
        (h1, Some e) \<Rightarrow> (h1, Some e)
      | (h1, None) \<Rightarrow>
          with_temp H ''ergw-xray-test-*.json'' cfg (\<lambda>tmp h.
            case ho_run H (fst (ho_close H h tmp)) (XrayBinary (xv_paths d)) [''-test'', ''-config'', tmp] of
              (h2, out, Some _) \<Rightarrow> (h2, Some (''xray rejected the rendered config: '' @ trim_space (lastLines out 3)))
            | (h2, _, None) \<Rightarrow> (h2, None)) h1)"

text \<open>The documents sent to \<open>ado\<close> and \<open>adrules\<close>: raw JSON values inside an object.\<close>

definition ado_payload :: "outbound_map \<Rightarrow> string list \<Rightarrow> string" where
  "ado_payload obs add =
     ''{\"outbounds\":['' @ join_with '','' (map (\<lambda>t. case map_of obs t of Some raw \<Rightarrow> raw | None \<Rightarrow> ''null'') add) @ '']}''"

definition adrules_payload :: "string \<Rightarrow> string" where
  "adrules_payload rules = ''{\"routing\":{\"domainStrategy\":\"IPIfNonMatch\",\"rules\":'' @ rules @ ''}}''"

definition hot_remove :: "'h host \<Rightarrow> xray_driver \<Rightarrow> string list \<Rightarrow> 'h \<Rightarrow> 'h \<times> string option" where
  "hot_remove H d rem h =
     (if rem = [] then (h, None)
      else case ho_run H h (XrayBinary (xv_paths d)) ([''api'', ''rmo'', ''-s'', APIListenAddr] @ rem) of
             (h1, out, Some e) \<Rightarrow> (h1, if str_contains (to_lower out) ''not found'' then None else Some (''rmo: '' @ e))
           | (h1, _, None) \<Rightarrow> (h1, None))"

definition hot_add :: "'h host \<Rightarrow> xray_driver \<Rightarrow> outbound_map \<Rightarrow> string list \<Rightarrow> 'h \<Rightarrow> 'h \<times> string option" where
  "hot_add H d obs add h =
     (if add = [] then (h, None)
      else case runWithTempFile H d ''ado'' (ado_payload obs add) h of
             (h1, Some e) \<Rightarrow> (h1, Some (''ado: '' @ e)) | (h1, None) \<Rightarrow> (h1, None))"

definition hotUpdate :: "'h host \<Rightarrow> xray_driver \<Rightarrow> outbound_map \<Rightarrow> artifacts \<Rightarrow> 'h \<Rightarrow> 'h \<times> string option" where
  "hotUpdate H d old art h =
     (let (add, rem) = diffOutbounds old (a_xray_outbounds art) in
      case hot_remove H d rem h of
        (h1, Some e) \<Rightarrow> (h1, Some e)
      | (h1, None) \<Rightarrow>
          (case hot_add H d (a_xray_outbounds art) add h1 of
             (h2, Some e) \<Rightarrow> (h2, Some e)
           | (h2, None) \<Rightarrow>
               (case runWithTempFile H d ''adrules'' (adrules_payload (a_xray_rules art)) h2 of
                  (h3, Some e) \<Rightarrow> (h3, Some (''adrules: '' @ e)) | (h3, None) \<Rightarrow> (h3, None))))"

text \<open>The write of the file; the outbounds of the old file are kept when the plan had none.\<close>

definition xray_write ::
  "'h host \<Rightarrow> xray_json \<Rightarrow> xray_driver \<Rightarrow> artifacts \<Rightarrow> outbound_map option \<Rightarrow> 'h \<Rightarrow> 'h \<times> outbound_map option \<times> string option" where
  "xray_write H J d art old h =
     (let path = XrayConfigPath (xv_paths d);
          (h1, verr) = (if xray_missing H d h then (h, None) else xray_validate H d (a_xray art) h)
      in case verr of
           Some e \<Rightarrow> (h1, old, Some e)
         | None \<Rightarrow>
             (let old' = (case old of Some m \<Rightarrow> Some m
                          | None \<Rightarrow> (case ho_read H h1 path of Inl _ \<Rightarrow> None | Inr c \<Rightarrow> xj_outbounds J c))
              in case ho_mkdir H h1 (pa_run (xv_paths d)) of
                   (h2, Some e) \<Rightarrow> (h2, old', Some (''create runtime dir: '' @ e))
                 | (h2, None) \<Rightarrow>
                     (case WriteFileAtomic H h2 path (a_xray art) 384 of
                        (h3, Inl e) \<Rightarrow> (h3, old', Some (''write xray config: '' @ e)) | (h3, Inr _) \<Rightarrow> (h3, old', None))))"

definition xray_action ::
  "'h host \<Rightarrow> xray_json \<Rightarrow> xray_driver \<Rightarrow> artifacts \<Rightarrow> driver_action \<Rightarrow> outbound_map option \<Rightarrow> 'h \<Rightarrow> 'h \<times> outbound_map option \<times> string option" where
  "xray_action H J d art a old h =
     (case da_kind a of
        ActionWrite \<Rightarrow> xray_write H J d art old h
      | ActionStart \<Rightarrow> (case ho_start H h (xv_unit d) of (h1, e) \<Rightarrow> (h1, old, e))
      | ActionRestart \<Rightarrow> (case ho_restart H h (xv_unit d) of (h1, e) \<Rightarrow> (h1, old, e))
      | ActionHot \<Rightarrow>
          (case hotUpdate H d (case old of None \<Rightarrow> [] | Some m \<Rightarrow> m) art h of
             (h1, None) \<Rightarrow> (h1, old, None)
           | (h1, Some e) \<Rightarrow>
               (case ho_restart H h1 (xv_unit d) of
                  (h2, None) \<Rightarrow> (h2, old, None)
                | (h2, Some e') \<Rightarrow> (h2, old, Some (''hot update failed ('' @ e @ '') and restart failed: '' @ e'))))
      | _ \<Rightarrow> (h, old, None))"

fun xray_actions ::
  "'h host \<Rightarrow> xray_json \<Rightarrow> xray_driver \<Rightarrow> artifacts \<Rightarrow> driver_action list \<Rightarrow> outbound_map option \<Rightarrow> 'h \<Rightarrow> 'h \<times> string option" where
  "xray_actions H J d art [] old h = (h, None)"
| "xray_actions H J d art (a # as) old h =
     (case xray_action H J d art a old h of
        (h1, old1, Some e) \<Rightarrow> (h1, Some e) | (h1, old1, None) \<Rightarrow> xray_actions H J d art as old1 h1)"

definition xray_Apply ::
  "'h host \<Rightarrow> xray_json \<Rightarrow> time \<Rightarrow> xray_driver \<Rightarrow> 'h \<Rightarrow> outbound_map plan \<Rightarrow> artifacts \<Rightarrow> xray_driver \<times> 'h \<times> string option" where
  "xray_Apply H J now d h plan art =
     (case xray_actions H J d art (pl_actions plan) (pl_state plan) h of
        (h1, err) \<Rightarrow> (d\<lparr>xv_last_apply := now, xv_last_err := (case err of None \<Rightarrow> [] | Some e \<Rightarrow> e)\<rparr>, h1, err))"

definition xray_Health :: "'h host \<Rightarrow> xray_driver \<Rightarrow> 'h \<Rightarrow> component_health" where
  "xray_Health H d h = unit_health ComponentXray (xray_missing H d h) ''xray binary not installed''
     (ho_state H h (xv_unit d)) (xv_last_err d) (xv_last_apply d)"

definition fields :: "string \<Rightarrow> string list" where
  "fields s = filter (\<lambda>w. w \<noteq> []) (split_on CHR '' '' (map (\<lambda>c. if is_space c then CHR '' '' else c) s))"

definition xray_Version :: "'h host \<Rightarrow> xray_driver \<Rightarrow> 'h \<Rightarrow> string" where
  "xray_Version H d h =
     (if xray_missing H d h then []
      else case ho_run H h (XrayBinary (xv_paths d)) [''version''] of
             (_, _, Some _) \<Rightarrow> []
           | (_, out, None) \<Rightarrow>
               (let line = hd (split_on CHR 0x0A out); fs = fields line in
                if length fs \<ge> 2 \<and> hd fs = ''Xray'' then fs ! 1 else trim_space line))"

definition xray_drv :: "'h host \<Rightarrow> xray_json \<Rightarrow> time \<Rightarrow> (xray_driver \<times> 'h, outbound_map) drv" where
  "xray_drv H J now = \<lparr>dr_component = ComponentXray,
     dr_plan = (\<lambda>w prev art. (w, xray_Plan H J (fst w) (snd w) prev art)),
     dr_apply = (\<lambda>w plan art. case xray_Apply H J now (fst w) (snd w) plan art of (d, h, e) \<Rightarrow> ((d, h), e)),
     dr_health = (\<lambda>w. xray_Health H (fst w) (snd w))\<rparr>"

end
