(* ===== verification/XrayProps.thy ===== *)
theory XrayProps
  imports Host XrayDriver
begin

text \<open>
  Properties of the Xray driver (the hot update computes exactly the difference of two sets of outbounds,
  a configuration that Xray rejects is never installed) and of the mosdns driver, whose files it shares.
\<close>

subsection \<open>The difference of outbounds\<close>

lemma set_outbound_adds: "distinct (map fst new) \<Longrightarrow>
    t \<in> set (outbound_adds old new) \<longleftrightarrow> map_of new t \<noteq> None \<and> map_of new t \<noteq> map_of old t"
  by (force simp: outbound_adds_def dest: map_of_SomeD)

lemma diff_adds: "distinct (map fst new) \<Longrightarrow>
    t \<in> set (fst (diffOutbounds old new)) \<longleftrightarrow> map_of new t \<noteq> None \<and> map_of new t \<noteq> map_of old t"
  by (simp add: diffOutbounds_def set_outbound_adds)

lemma diff_rems: "distinct (map fst new) \<Longrightarrow>
    t \<in> set (snd (diffOutbounds old new)) \<longleftrightarrow> map_of old t \<noteq> None \<and> map_of new t \<noteq> map_of old t"
proof -
  assume new: "distinct (map fst new)"
  have "t \<in> fst ` set old \<longleftrightarrow> map_of old t \<noteq> None" by (simp add: map_of_eq_None_iff)
  then show ?thesis by (auto simp only: diffOutbounds_def snd_conv set_sort set_append set_filter set_map Un_iff mem_Collect_eq
        set_outbound_adds[OF new])
qed

lemma distinct_adds: "distinct (map fst new) \<Longrightarrow> distinct (outbound_adds old new)"
  by (simp add: outbound_adds_def distinct_map_filter)

lemma diff_sorted:
  assumes "distinct (map fst old)" "distinct (map fst new)"
  shows "sorted (fst (diffOutbounds old new)) \<and> sorted (snd (diffOutbounds old new)) \<and>
    distinct (fst (diffOutbounds old new)) \<and> distinct (snd (diffOutbounds old new))"
  using assms distinct_adds[of new old] by (auto simp: diffOutbounds_def set_outbound_adds)

lemma diff_applied:
  assumes "distinct (map fst new)"
  shows "(map_of old |` (- set (snd (diffOutbounds old new)))) ++ (map_of new |` set (fst (diffOutbounds old new))) = map_of new"
proof
  fix t
  show "((map_of old |` (- set (snd (diffOutbounds old new)))) ++ (map_of new |` set (fst (diffOutbounds old new)))) t = map_of new t"
    using diff_adds[OF assms, of t old] diff_rems[OF assms, of t old]
    by (cases "map_of new t"; cases "map_of old t") (auto simp: map_add_def restrict_map_def split: option.split)
qed

text \<open>
  C37. The hot update of Xray is exact and minimal.  Removing the tags of the second list from the running
  outbounds and then adding the tags of the first list with their new definitions gives the rendered
  outbounds; only tags that are running are removed, no tag is added while it is still running, an
  outbound that did not change is in neither list, and both lists are sorted and without repetition.
\<close>

theorem hot_diff_exact:
  assumes "distinct (map fst old)" "distinct (map fst new)" "diffOutbounds old new = (add, rem)"
  shows "(map_of old |` (- set rem)) ++ (map_of new |` set add) = map_of new
    \<and> set rem \<subseteq> dom (map_of old) \<and> set add \<inter> (dom (map_of old) - set rem) = {}
    \<and> (\<forall>t. map_of old t = map_of new t \<longrightarrow> t \<notin> set add \<union> set rem)
    \<and> sorted add \<and> sorted rem \<and> distinct add \<and> distinct rem"
proof -
  have add: "t \<in> set add \<longleftrightarrow> map_of new t \<noteq> None \<and> map_of new t \<noteq> map_of old t"
    and rem: "t \<in> set rem \<longleftrightarrow> map_of old t \<noteq> None \<and> map_of new t \<noteq> map_of old t" for t
    using diff_adds[OF assms(2), of t old] diff_rems[OF assms(2), of t old] assms(3) by simp_all
  show ?thesis
    using diff_applied[OF assms(2), of old] diff_sorted[OF assms(1,2)] assms(3) by (auto simp: add rem)
qed

theorem hot_diff_exact_witness:
  "diffOutbounds [(''node-a'', ''1''), (''node-b'', ''2'')] [(''node-b'', ''3''), (''node-c'', ''4'')]
     = ([''node-b'', ''node-c''], [''node-a'', ''node-b'']) \<and>
   (map_of [(''node-a'', ''1''), (''node-b'', ''2'')] |` (- {''node-a'', ''node-b''})) ++
     (map_of [(''node-b'', ''3''), (''node-c'', ''4'')] |` {''node-b'', ''node-c''}) = map_of [(''node-b'', ''3''), (''node-c'', ''4'')]"
proof -
  have d: "diffOutbounds [(''node-a'', ''1''), (''node-b'', ''2'')] [(''node-b'', ''3''), (''node-c'', ''4'')]
     = ([''node-b'', ''node-c''], [''node-a'', ''node-b''])" by code_simp
  from hot_diff_exact[OF _ _ d] d show ?thesis by simp
qed

subsection \<open>A rejected configuration is not installed\<close>

lemma xray_Plan_writes:
  assumes "xray_Plan H J d h prev art = Inr plan" "read_file H h (XrayConfigPath (xv_paths d)) \<noteq> a_xray art"
  shows "\<exists>as. pl_actions plan = act ActionWrite (XrayConfigPath (xv_paths d)) # as"
  using assms by (auto simp: xray_Plan_def Let_def split: sum.splits if_splits option.splits prod.splits)

text \<open>Whatever runs on the temporary file, a file that was there before is as it was.\<close>

lemma with_temp_keeps:
  assumes H: "file_host H files" and run: "\<And>tmp g. files (fst (run tmp g)) = files g"
    and r: "with_temp H pat payload run h = (h', e)" and c: "files h p = Some c"
  shows "files h' p = Some c"
proof -
  note temp = file_host.temp_files[OF H] and keep = file_host.keep_files[OF H] and rm = file_host.remove_files[OF H]
  obtain h1 w where t: "ho_temp H h [] pat = (h1, w)" by fastforce
  show ?thesis
  proof (cases w)
    case (Inl m)
    then show ?thesis using r t temp(2)[of h "[]" pat h1 m] c by (simp add: with_temp_def)
  next
    case (Inr tmp)
    have tmp: "files h tmp = None" "files h1 = (files h)(tmp \<mapsto> [])" using temp(1) t Inr by auto
    obtain h2 e2 where w2: "ho_write H h1 tmp payload = (h2, e2)" by fastforce
    then obtain b where b: "files h2 = (files h1)(tmp \<mapsto> b)" using file_host.write_files[OF H] by blast
    have ne: "p \<noteq> tmp" using tmp c by auto
    then have h2: "files h2 p = Some c" using b tmp c by simp
    obtain h3 e3 where h3: "run tmp h2 = (h3, e3)" by fastforce
    have "files h3 = files h2" using run[of tmp h2] h3 by simp
    moreover have "files (ho_remove H g tmp) p = files g p" for g using rm[of g tmp] ne by auto
    ultimately show ?thesis using r t Inr w2 h3 h2 keep(3)[of h2 tmp] by (cases e2) (auto simp: with_temp_def)
  qed
qed

lemma validate_keeps:
  assumes H: "file_host H files" and run: "\<And>h n args. files (fst (ho_run H h n args)) = files h"
    and r: "xray_validate H d cfg h = (h', e)" and c: "files h p = Some c"
  shows "files h' p = Some c"
proof -
  note keep = file_host.keep_files[OF H]
  let ?run = "\<lambda>tmp h. case ho_run H (fst (ho_close H h tmp)) (XrayBinary (xv_paths d)) [''-test'', ''-config'', tmp] of
      (h2, out, Some _) \<Rightarrow> (h2, Some (''xray rejected the rendered config: '' @ trim_space (lastLines out 3)))
    | (h2, _, None) \<Rightarrow> (h2, None)"
  have step: "files (fst (?run tmp g)) = files g" for tmp g
    using run[of "fst (ho_close H g tmp)" "XrayBinary (xv_paths d)" "[''-test'', ''-config'', tmp]"] keep(3)[of g tmp]
    by (auto split: prod.splits option.splits)
  obtain h1 e1 where mk: "ho_mkdir H h (pa_run (xv_paths d)) = (h1, e1)" by fastforce
  then have h1: "files h1 p = Some c" using keep(1)[of h "pa_run (xv_paths d)"] c by simp
  show ?thesis
  proof (cases e1)
    case None
    show ?thesis
      by (rule with_temp_keeps[where run = ?run, OF H step]) (use r mk None h1 in \<open>simp_all only: xray_validate_def prod.case option.case\<close>)
  next
    case (Some m)
    then show ?thesis using r mk h1 by (simp add: xray_validate_def)
  qed
qed

text \<open>
  C36. Xray tests a candidate before the file is touched.  When the binary is there and \<open>xray -test\<close> rejects
  the candidate, the whole apply is that test: it returns its error, records it, leaves the host as the
  test left it, with no start, no restart and no call of the API, and the installed configuration as it was.
\<close>

theorem invalid_config_not_installed:
  assumes "file_host H files" "\<And>h n args. files (fst (ho_run H h n args)) = files h"
    and "\<not> xray_missing H d h" "xray_validate H d (a_xray art) h = (h1, Some e)"
    and "xray_Plan H J d h prev art = Inr plan" "read_file H h (XrayConfigPath (xv_paths d)) \<noteq> a_xray art"
    and "files h (XrayConfigPath (xv_paths d)) = Some c"
  shows "xray_Apply H J now d h plan art = (d\<lparr>xv_last_apply := now, xv_last_err := e\<rparr>, h1, Some e)
    \<and> files h1 (XrayConfigPath (xv_paths d)) = Some c"
proof -
  obtain as where "pl_actions plan = act ActionWrite (XrayConfigPath (xv_paths d)) # as"
    using xray_Plan_writes[OF assms(5,6)] by blast
  then show ?thesis
    using assms(3,4) validate_keeps[OF assms(1,2,4,7)] by (simp add: xray_Apply_def xray_action_def xray_write_def act_def)
qed

definition test_handler :: "unit run_handler" where
  "test_handler files name args x =
     (if take 1 args = [''-test''] then (x, ''line 1'' @ [CHR 0x0A] @ ''bad config'', Some ''exit status 23'') else (x, [], None))"

definition xray_machine :: "unit fake_host" where
  "xray_machine = \<lparr>fh_files = [XrayBinary (new_paths ''/d'') \<mapsto> ''ELF'', XrayConfigPath (new_paths ''/d'') \<mapsto> ''old''], fh_next = 0,
     fh_units = new_unit_fake [''edgeroutegw-xray.service''], fh_calls = [], fh_more = ()\<rparr>"

abbreviation "first_xray \<equiv> new_xray_driver (new_paths ''/d'')"

definition no_json :: xray_json where
  "no_json = \<lparr>xj_count = (\<lambda>_. None), xj_outbounds = (\<lambda>_. None)\<rparr>"

theorem invalid_config_not_installed_witness:
  "\<exists>plan h e. xray_Plan (fake_host_ops test_handler) no_json first_xray xray_machine None (zero_artifacts\<lparr>a_xray := ''new''\<rparr>) = Inr plan
    \<and> xray_Apply (fake_host_ops test_handler) no_json 5 first_xray xray_machine plan (zero_artifacts\<lparr>a_xray := ''new''\<rparr>) =
        (first_xray\<lparr>xv_last_apply := 5, xv_last_err := e\<rparr>, h, Some e)
    \<and> fh_files h (XrayConfigPath (xv_paths first_xray)) = Some ''old''"
proof -
  let ?H = "fake_host_ops test_handler" and ?a = "zero_artifacts\<lparr>a_xray := ''new''\<rparr>"
  have "\<not> xray_missing ?H first_xray xray_machine" by code_simp
  moreover have "snd (xray_validate ?H first_xray (a_xray ?a) xray_machine) \<noteq> None" by code_simp
  then obtain h e where "xray_validate ?H first_xray (a_xray ?a) xray_machine = (h, Some e)" by (metis not_None_eq prod.collapse)
  moreover have "\<not> isl (xray_Plan ?H no_json first_xray xray_machine None ?a)"
    by (simp add: xray_Plan_def Let_def fake_host_ops_def unit_State_def xray_machine_def new_unit_fake_def new_xray_driver_def split: if_split)
  then obtain plan where "xray_Plan ?H no_json first_xray xray_machine None ?a = Inr plan"
    by (cases "xray_Plan ?H no_json first_xray xray_machine None ?a") auto
  moreover have "read_file ?H xray_machine (XrayConfigPath (xv_paths first_xray)) \<noteq> a_xray ?a" by code_simp
  moreover have "fh_files xray_machine (XrayConfigPath (xv_paths first_xray)) = Some ''old''" by code_simp
  moreover have "fh_files (fst (ho_run ?H g n args)) = fh_files g" for g n args
    by (simp add: fake_host_ops_def fake_run_def split: prod.split)
  ultimately show ?thesis
    using invalid_config_not_installed[OF memory.file_host_axioms, of test_handler first_xray xray_machine ?a h e no_json None plan] by blast
qed

section \<open>The DNS service\<close>

text \<open>
  Properties of the Mosdns driver: what a successful write leaves, and what a plan after it sees.
\<close>

lemma write_all_files:
  assumes H: "file_host H files" and r: "write_all H fs h = (h', None)" and d: "distinct (map fst fs)"
  shows "files h' = files h ++ map_of fs"
  using r d
proof (induction fs arbitrary: h)
  case (Cons f fs)
  obtain p c where f: "f = (p, c)" by fastforce
  obtain h1 w where w: "WriteFileAtomic H h p c 420 = (h1, w)" by fastforce
  obtain b where b: "w = Inr b" using Cons.prems w f by (cases w) auto
  have "files h1 = (files h)(p \<mapsto> c)" using file_host.WriteFileAtomic_files[OF H w] b by simp
  moreover have "write_all H fs h1 = (h', None)" using Cons.prems w b f by simp
  moreover have "map_of fs p = None" using Cons.prems(2) f by (simp add: map_of_eq_None_iff)
  ultimately show ?case using Cons.IH[of h1] Cons.prems(2) f by (auto simp: fun_eq_iff map_add_def split: option.split)
qed simp

lemma in_files: "\<lbrakk>distinct (map fst fs); (p, c) \<in> set fs\<rbrakk> \<Longrightarrow> map_of fs p = Some c"
  by simp

text \<open>After a write every file of the generation is there, and the list of domestic names exists.\<close>

lemma mosdns_write_files:
  assumes H: "file_host H files" and missing: "\<And>h p. ho_missing H h p = (files h p = None)"
    and d: "distinct (map fst (mosdns_files (mv_paths d) art))" and new: "MosdnsCNList (mv_paths d) \<notin> fst ` set (mosdns_files (mv_paths d) (art\<lparr>a_mosdns_cn_domains := None\<rparr>))"
    and r: "mosdns_write H d art h = (h', None)"
  shows "(\<forall>(p, c)\<in>set (mosdns_files (mv_paths d) art). files h' p = Some c) \<and> files h' (MosdnsCNList (mv_paths d)) \<noteq> None"
proof -
  let ?fs = "mosdns_files (mv_paths d) art" and ?cn = "MosdnsCNList (mv_paths d)"
  obtain h1 e1 where mk: "ho_mkdir H h (pa_run (mv_paths d)) = (h1, e1)" by fastforce
  obtain h2 e2 where w: "write_all H ?fs h1 = (h2, e2)" by fastforce
  have e: "e1 = None" "e2 = None" using r mk w by (cases e1; cases e2; simp add: mosdns_write_def)+
  have all: "files h2 p = Some c" if "(p, c) \<in> set ?fs" for p c
    using write_all_files[OF H w[unfolded e] d] in_files[OF d that] by simp
  show ?thesis
  proof (cases "cn_placeholder H d h2 art")
    case False
    then have "h' = h2" using r mk w e by (simp add: mosdns_write_def)
    moreover have "files h2 ?cn \<noteq> None"
    proof (cases "a_mosdns_cn_domains art")
      case None
      then show ?thesis using False missing by (simp add: cn_placeholder_def)
    next
      case (Some cn)
      then show ?thesis using all[of ?cn cn] by (simp add: mosdns_files_def)
    qed
    ultimately show ?thesis using all by auto
  next
    case True
    then have none: "a_mosdns_cn_domains art = None" by (simp add: cn_placeholder_def)
    then have "?fs = mosdns_files (mv_paths d) (art\<lparr>a_mosdns_cn_domains := None\<rparr>)" by (simp add: mosdns_files_def)
    then have other: "?cn \<notin> fst ` set ?fs" using new by simp
    obtain h3 w3 where w3: "WriteFileAtomic H h2 ?cn [] 420 = (h3, w3)" by fastforce
    obtain b where b: "w3 = Inr b" using r mk w e True w3 by (cases w3) (auto simp: mosdns_write_def)
    then have "h' = h3" using r mk w e True w3 by (simp add: mosdns_write_def)
    moreover have "files h3 = (files h2)(?cn \<mapsto> [])" using file_host.WriteFileAtomic_files[OF H w3] b by simp
    moreover have "p \<noteq> ?cn" if "(p, c) \<in> set ?fs" for p c using that other by force
    ultimately show ?thesis using all by auto
  qed
qed

text \<open>
  A plan for files that are all written is a no-op as long as the unit runs.  So once the files of a
  generation are on disk, a restart that fails, times out or is cancelled while the driver waits for the
  minimum gap is never made up for: the next pass for the same artifacts changes nothing and succeeds, and
  the running Mosdns keeps the older configuration.
\<close>

theorem mosdns_restart_forgotten:
  assumes "file_host H files" "\<And>h p. ho_missing H h p = (files h p = None)"
    and "distinct (map fst (mosdns_files (mv_paths d) art))"
    and "MosdnsCNList (mv_paths d) \<notin> fst ` set (mosdns_files (mv_paths d) (art\<lparr>a_mosdns_cn_domains := None\<rparr>))"
    and "mosdns_write H d art h = (h1, None)"
    and "files h2 = files h1" "mv_paths d2 = mv_paths d" "ho_state H h2 (mv_unit d2) = Inr u" "Active u"
  shows "\<exists>plan. mosdns_Plan H d2 h2 art = Inr plan \<and> \<not> Changes (plan :: unit plan)"
proof -
  note left = mosdns_write_files[OF assms(1-5)]
  have "mosdns_changed H d2 h2 art = []"
    using left assms(6,7) by (auto simp: mosdns_changed_def filter_empty_conv file_host.SameContent_files[OF assms(1)])
  moreover have "\<not> cn_placeholder H d2 h2 art" using left assms(2,6,7) by (simp add: cn_placeholder_def)
  ultimately show ?thesis using assms(8,9) by (simp add: mosdns_Plan_def Let_def Changes_def act_def)
qed

definition idle :: "unit run_handler" where
  "idle files name args x = (x, [], None)"

definition mosdns_machine :: "unit fake_host" where
  "mosdns_machine = \<lparr>fh_files = (\<lambda>_. None), fh_next = 0, fh_units = new_unit_fake [''edgeroutegw-mosdns.service''], fh_calls = [], fh_more = ()\<rparr>"

abbreviation first_mosdns :: "unit fake_host mosdns_driver" where
  "first_mosdns \<equiv> new_mosdns_driver (new_paths ''/d'') (\<lambda>h t. (h, Some ''context canceled''))"

definition mosdns_text :: artifacts where
  "mosdns_text = zero_artifacts\<lparr>a_mosdns_config := ''new'', a_mosdns_proxy_domains := ''full:a''\<rparr>"

theorem mosdns_restart_forgotten_witness:
  "\<exists>plan h. mosdns_write (fake_host_ops idle) first_mosdns mosdns_text mosdns_machine = (h, None)
    \<and> mosdns_Plan (fake_host_ops idle) first_mosdns h mosdns_text = Inr plan \<and> \<not> Changes (plan :: unit plan)"
proof -
  let ?H = "fake_host_ops idle"
  have "snd (mosdns_write ?H first_mosdns mosdns_text mosdns_machine) = None" by code_simp
  then obtain h where w: "mosdns_write ?H first_mosdns mosdns_text mosdns_machine = (h, None)" by (metis prod.collapse)
  have "(case mosdns_write ?H first_mosdns mosdns_text mosdns_machine of (h, e) \<Rightarrow>
      (case ho_state ?H h (mv_unit first_mosdns) of Inr u \<Rightarrow> Active u | Inl e \<Rightarrow> False))" by code_simp
  then obtain u where u: "ho_state ?H h (mv_unit first_mosdns) = Inr u" "Active u" using w by (auto split: sum.splits)
  have d: "distinct (map fst (mosdns_files (mv_paths first_mosdns) mosdns_text))" by code_simp
  have cn: "MosdnsCNList (mv_paths first_mosdns) \<notin> fst ` set (mosdns_files (mv_paths first_mosdns) (mosdns_text\<lparr>a_mosdns_cn_domains := None\<rparr>))"
    by code_simp
  have m: "ho_missing ?H h p = (fh_files h p = None)" for h p by (simp add: fake_host_ops_def)
  show ?thesis using mosdns_restart_forgotten[OF memory.file_host_axioms m d cn w refl refl u] w by blast
qed

end
