(* ===== verification/WgDriver.thy ===== *)
theory WgDriver
  imports Host RenderWG
begin

text \<open>
  \<open>internal/driver/wg/wg.go\<close> and \<open>fake.go\<close>: the driver of the kernel WireGuard interfaces over the
  interface \<open>Backend\<close>, whose contract is the locale \<open>wg_backend\<close>.  Where the code ranges over a map
  the model takes the order of insertion.
\<close>

record wg_peer_state =
  wq_handshake :: time
  wq_rx :: int
  wq_tx :: int

record 'k wg_ops =
  wo_ensure :: "'k \<Rightarrow> wg_iface \<Rightarrow> 'k \<times> string option"
  wo_remove :: "'k \<Rightarrow> string \<Rightarrow> int \<Rightarrow> int \<Rightarrow> 'k \<times> string option"
  wo_list :: "'k \<Rightarrow> string \<Rightarrow> string list result"
  wo_peers :: "'k \<Rightarrow> string \<Rightarrow> wg_peer_state list result"

record wg_driver =
  wv_last_err :: string
  wv_last_apply :: time
  wv_wanted :: "wg_iface list"

definition new_wg_driver :: wg_driver where
  "new_wg_driver = \<lparr>wv_last_err = [], wv_last_apply = zero_time, wv_wanted = []\<rparr>"

record wg_plan_state =
  wp_add :: "wg_iface list"
  wp_update :: "wg_iface list"
  wp_remove :: "wg_iface list"

definition zero_iface :: "string \<Rightarrow> wg_iface" where
  "zero_iface name = \<lparr>wi_node_id = [], wi_name = name, wi_private_key = [], wi_addresses = [], wi_mtu = 0, wi_peers = [],
     wi_table = 0, wi_mark = 0\<rparr>"

definition by_name :: "wg_iface list \<Rightarrow> (string \<times> wg_iface) list" where
  "by_name ws = fold (\<lambda>w m. al_put (wi_name w) w m) ws []"

definition same_peer :: "wg_peer \<Rightarrow> wg_peer \<Rightarrow> bool" where
  "same_peer p q \<longleftrightarrow> wp_public_key p = wp_public_key q \<and> wp_preshared_key p = wp_preshared_key q \<and>
     wp_endpoint p = wp_endpoint q \<and> wp_keepalive p = wp_keepalive q \<and>
     join_with '','' (wp_allowed_ips p) = join_with '','' (wp_allowed_ips q)"

definition sameIface :: "wg_iface \<Rightarrow> wg_iface \<Rightarrow> bool" where
  "sameIface a b \<longleftrightarrow> wi_node_id a = wi_node_id b \<and> wi_private_key a = wi_private_key b \<and> wi_mtu a = wi_mtu b \<and>
     wi_table a = wi_table b \<and> wi_mark a = wi_mark b \<and> wi_addresses a = wi_addresses b \<and> list_all2 same_peer (wi_peers a) (wi_peers b)"

text \<open>What exists: from the last applied artifacts, or from the kernel after a restart.\<close>

definition wg_have :: "'k wg_ops \<Rightarrow> 'k \<Rightarrow> artifacts option \<Rightarrow> (string \<times> wg_iface) list result" where
  "wg_have B k prev =
     (case prev of
        Some p \<Rightarrow> Inr (by_name (a_wg p))
      | None \<Rightarrow> (case wo_list B k WGIfacePrefix of
                  Inl e \<Rightarrow> Inl e | Inr names \<Rightarrow> Inr (by_name (map zero_iface names))))"

definition wg_plan_state_of :: "(string \<times> wg_iface) list \<Rightarrow> artifacts option \<Rightarrow> artifacts \<Rightarrow> wg_plan_state" where
  "wg_plan_state_of have prev art =
     (let want = by_name (a_wg art) in
      \<lparr>wp_add = sort_key wi_name (map snd (filter (\<lambda>(n, w). map_of have n = None) want)),
       wp_update = sort_key wi_name (map snd (filter (\<lambda>(n, w). case map_of have n of
          None \<Rightarrow> False | Some old \<Rightarrow> prev = None \<or> \<not> sameIface old w) want)),
       wp_remove = map snd (filter (\<lambda>(n, w). map_of want n = None) have)\<rparr>)"

definition hex_number :: "int \<Rightarrow> string" where
  "hex_number n = ''0x'' @ hex_string n"

definition wg_diff :: "wg_plan_state \<Rightarrow> string list" where
  "wg_diff st =
     map (\<lambda>w. ''+ '' @ wi_name w @ '' (node '' @ wi_node_id w @ '') table '' @ int_string (wi_table w) @ '' mark '' @ hex_number (wi_mark w)) (wp_add st) @
     map (\<lambda>w. ''~ '' @ wi_name w @ '' (node '' @ wi_node_id w @ '')'') (wp_update st) @
     map (\<lambda>n. ''- '' @ n) (sort (map wi_name (wp_remove st)))"

definition wg_Plan :: "'k wg_ops \<Rightarrow> 'k \<Rightarrow> artifacts option \<Rightarrow> artifacts \<Rightarrow> wg_plan_state plan result" where
  "wg_Plan B k prev art =
     (case wg_have B k prev of
        Inl e \<Rightarrow> Inl e
      | Inr have \<Rightarrow>
          (let st = wg_plan_state_of have prev art; n = length (wp_add st) + length (wp_update st) + length (wp_remove st) in
           Inr \<lparr>pl_component = ComponentWG,
                pl_actions = [if n = 0
                  then act ActionNoop (if a_wg art = [] then ''no WireGuard nodes on the kernel path''
                    else int_string (int (length (a_wg art))) @ '' kernel interface(s) unchanged'')
                  else act ActionExec (''wireguard interfaces +'' @ int_string (int (length (wp_add st))) @ '' ~'' @
                    int_string (int (length (wp_update st))) @ '' -'' @ int_string (int (length (wp_remove st))))],
                pl_diff = (if n = 0 then [] else joinLines (wg_diff st)), pl_state = Some st\<rparr>))"

subsection \<open>Apply\<close>

text \<open>Every step is tried; the first error is kept.\<close>

fun wg_removes :: "'k wg_ops \<Rightarrow> wg_iface list \<Rightarrow> 'k \<Rightarrow> string option \<Rightarrow> 'k \<times> string option" where
  "wg_removes B [] k err = (k, err)"
| "wg_removes B (w # ws) k err =
     (let (k1, e) = wo_remove B k (wi_name w) (wi_table w) (wi_mark w);
          err1 = (case (err, e) of (None, Some m) \<Rightarrow> Some (''remove '' @ wi_name w @ '': '' @ m) | _ \<Rightarrow> err)
      in wg_removes B ws k1 err1)"

fun wg_ensures :: "'k wg_ops \<Rightarrow> wg_iface list \<Rightarrow> 'k \<Rightarrow> string option \<Rightarrow> 'k \<times> string option" where
  "wg_ensures B [] k err = (k, err)"
| "wg_ensures B (w # ws) k err =
     (let (k1, e) = wo_ensure B k w;
          err1 = (case (err, e) of (None, Some m) \<Rightarrow> Some (''configure '' @ wi_name w @ '': '' @ m) | _ \<Rightarrow> err)
      in wg_ensures B ws k1 err1)"

definition wg_Apply :: "'k wg_ops \<Rightarrow> time \<Rightarrow> wg_driver \<Rightarrow> 'k \<Rightarrow> wg_plan_state plan \<Rightarrow> artifacts \<Rightarrow> wg_driver \<times> 'k \<times> string option" where
  "wg_Apply B now d k plan art =
     (let d1 = d\<lparr>wv_last_apply := now, wv_wanted := a_wg art\<rparr> in
      case pl_state plan of
        None \<Rightarrow> (d1, k, None)
      | Some st \<Rightarrow>
          (let (k1, e1) = wg_removes B (wp_remove st) k None; (k2, e2) = wg_ensures B (wp_add st @ wp_update st) k1 e1 in
           (d1\<lparr>wv_last_err := (case e2 of None \<Rightarrow> [] | Some e \<Rightarrow> e)\<rparr>, k2, e2)))"

subsection \<open>Health\<close>

definition HandshakeGrace :: duration where "HandshakeGrace = 3 * minute"

definition stale_peer :: "time \<Rightarrow> wg_peer_state \<Rightarrow> bool" where
  "stale_peer now p \<longleftrightarrow> wq_handshake p = zero_time \<or> time_sub now (wq_handshake p) > HandshakeGrace"

fun stale_ifaces :: "'k wg_ops \<Rightarrow> time \<Rightarrow> 'k \<Rightarrow> wg_iface list \<Rightarrow> string list result" where
  "stale_ifaces B now k [] = Inr []"
| "stale_ifaces B now k (w # ws) =
     (case wo_peers B k (wi_name w) of
        Inl e \<Rightarrow> Inl (wi_name w @ '': '' @ e)
      | Inr ps \<Rightarrow>
          (case stale_ifaces B now k ws of
             Inl e \<Rightarrow> Inl e | Inr ns \<Rightarrow> Inr ((if \<exists>p\<in>set ps. stale_peer now p then [wi_name w] else []) @ ns)))"

definition wg_Health :: "'k wg_ops \<Rightarrow> time \<Rightarrow> wg_driver \<Rightarrow> 'k \<Rightarrow> component_health" where
  "wg_Health B now d k =
     (let health = (\<lambda>st m. driver_health ComponentWG st m (wv_last_apply d)) in
      if wv_wanted d = [] then health StatusDisabled (wv_last_err d)
      else if wv_last_err d \<noteq> [] then health StatusDegraded (wv_last_err d)
      else case stale_ifaces B now k (wv_wanted d) of
             Inl e \<Rightarrow> health StatusDown e
           | Inr [] \<Rightarrow> health StatusActive []
           | Inr ns \<Rightarrow> health StatusDegraded (''no recent handshake on '' @ join_with '', '' ns @ '' (endpoint unreachable or keys mismatch)''))"

definition wg_drv :: "'k wg_ops \<Rightarrow> time \<Rightarrow> (wg_driver \<times> 'k, wg_plan_state) drv" where
  "wg_drv B now = \<lparr>dr_component = ComponentWG,
     dr_plan = (\<lambda>w prev art. (w, wg_Plan B (snd w) prev art)),
     dr_apply = (\<lambda>w plan art. case wg_Apply B now (fst w) (snd w) plan art of (d, k, e) \<Rightarrow> ((d, k), e)),
     dr_health = (\<lambda>w. wg_Health B now (fst w) (snd w))\<rparr>"

subsection \<open>The in-memory backend\<close>

record wg_fake =
  wf_ifaces :: "(string \<times> wg_iface) list"
  wf_handshake :: "string \<Rightarrow> time"
  wf_calls :: "string list"
  wf_fail_on :: string

definition new_wg_fake :: wg_fake where
  "new_wg_fake = \<lparr>wf_ifaces = [], wf_handshake = (\<lambda>_. zero_time), wf_calls = [], wf_fail_on = []\<rparr>"

definition fake_ensure :: "wg_fake \<Rightarrow> wg_iface \<Rightarrow> wg_fake \<times> string option" where
  "fake_ensure f w =
     (let f1 = f\<lparr>wf_calls := wf_calls f @ [''ensure '' @ wi_name w]\<rparr> in
      if wf_fail_on f = wi_name w then (f1, Some ''simulated failure'')
      else (f1\<lparr>wf_ifaces := al_put (wi_name w) w (wf_ifaces f)\<rparr>, None))"

definition fake_remove :: "wg_fake \<Rightarrow> string \<Rightarrow> int \<Rightarrow> int \<Rightarrow> wg_fake \<times> string option" where
  "fake_remove f name table mark =
     (f\<lparr>wf_calls := wf_calls f @ [''remove '' @ name], wf_ifaces := al_del name (wf_ifaces f)\<rparr>, None)"

definition fake_list :: "wg_fake \<Rightarrow> string \<Rightarrow> string list result" where
  "fake_list f pre = Inr (sort (map fst (wf_ifaces f)))"

definition fake_peers :: "wg_fake \<Rightarrow> string \<Rightarrow> wg_peer_state list result" where
  "fake_peers f name =
     (case map_of (wf_ifaces f) name of
        None \<Rightarrow> Inl ''no such device'' | Some _ \<Rightarrow> Inr [\<lparr>wq_handshake = wf_handshake f name, wq_rx = 0, wq_tx = 0\<rparr>])"

definition wg_fake_ops :: "wg_fake wg_ops" where
  "wg_fake_ops = \<lparr>wo_ensure = fake_ensure, wo_remove = fake_remove, wo_list = fake_list, wo_peers = fake_peers\<rparr>"

end
