(* ===== verification/WgProps.thy ===== *)
theory WgProps
  imports WgDriver ReconcileProps
begin

text \<open>
  Properties of the WireGuard driver.  What it relies on in the kernel is the locale \<open>wg_backend\<close>,
  interpreted on the in-memory backend \<open>Fake\<close> of the package.
\<close>

subsection \<open>Maps of interfaces by name\<close>

abbreviation named :: "wg_iface list \<Rightarrow> (string \<times> wg_iface) list" where
  "named ws \<equiv> map (\<lambda>w. (wi_name w, w)) ws"

lemma map_of_fold_put: "map_of (fold (\<lambda>w m. al_put (wi_name w) w m) ws m) = map_of m ++ map_of (rev (named ws))"
  by (induction ws arbitrary: m) (simp_all add: fun_upd_def map_add_def fun_eq_iff split: option.split)

lemma map_of_by_name: "map_of (by_name ws) = map_of (rev (named ws))"
  by (simp add: by_name_def map_of_fold_put)

lemma by_name_names: "(n, w) \<in> set (by_name ws) \<Longrightarrow> n = wi_name w"
proof -
  have "\<forall>(n, w)\<in>set m. n = wi_name w \<Longrightarrow> \<forall>(n, w)\<in>set (fold (\<lambda>w m. al_put (wi_name w) w m) ws m). n = wi_name w" for m
  proof (induction ws arbitrary: m)
    case (Cons v ws)
    have put: "set (al_put k w m) \<subseteq> insert (k, w) (set m)" for k :: string and w :: wg_iface and m
      by (induction k w m rule: al_put.induct) auto
    have "\<forall>(n, w)\<in>set (al_put (wi_name v) v m). n = wi_name w" using Cons.prems put[of "wi_name v" v m] by blast
    then show ?case using Cons.IH[of "al_put (wi_name v) v m"] by simp
  qed simp
  from this[of "[]"] show "(n, w) \<in> set (by_name ws) \<Longrightarrow> n = wi_name w" by (auto simp: by_name_def)
qed

lemma by_name_distinct: "distinct (map fst (by_name ws))"
proof -
  have "distinct (map fst m) \<Longrightarrow> distinct (map fst (fold (\<lambda>w m. al_put (wi_name w) w m) ws m))" for m
    by (induction ws arbitrary: m) simp_all
  from this[of "[]"] show ?thesis by (simp add: by_name_def)
qed

lemma by_name_in: "(n, w) \<in> set (by_name ws) \<longleftrightarrow> map_of (by_name ws) n = Some w"
  by (simp add: by_name_distinct)

lemma same_peer_trans: "same_peer p q \<Longrightarrow> same_peer q r \<Longrightarrow> same_peer p r"
  by (simp add: same_peer_def)

lemma sameIface_refl [simp]: "sameIface w w"
  by (simp add: sameIface_def list_all2_refl same_peer_def)

lemma sameIface_trans: "sameIface a b \<Longrightarrow> sameIface b c \<Longrightarrow> sameIface a c"
  unfolding sameIface_def by (auto intro: list_all2_trans[where ?P2.0 = same_peer] same_peer_trans)

subsection \<open>The plan, by name\<close>

lemma by_name_name: "map_of (by_name ws) n = Some w \<Longrightarrow> wi_name w = n"
  using by_name_names[of n w ws] by (simp add: by_name_in)

lemma in_filtered: "w \<in> snd ` set (filter P (by_name ws)) \<longleftrightarrow> map_of (by_name ws) (wi_name w) = Some w \<and> P (wi_name w, w)"
proof
  assume "w \<in> snd ` set (filter P (by_name ws))"
  then obtain n where "(n, w) \<in> set (by_name ws)" "P (n, w)" by auto
  then show "map_of (by_name ws) (wi_name w) = Some w \<and> P (wi_name w, w)"
    using by_name_names[of n w ws] by (simp add: by_name_in)
next
  assume "map_of (by_name ws) (wi_name w) = Some w \<and> P (wi_name w, w)"
  then show "w \<in> snd ` set (filter P (by_name ws))"
    by (intro rev_image_eqI[of "(wi_name w, w)"]) (simp_all add: by_name_in)
qed

lemma plan_add: "w \<in> set (wp_add (wg_plan_state_of have prev art)) \<longleftrightarrow>
    map_of (by_name (a_wg art)) (wi_name w) = Some w \<and> map_of have (wi_name w) = None"
  by (simp only: wg_plan_state_of_def Let_def wg_plan_state.simps set_sort set_map in_filtered prod.case)

lemma plan_update: "w \<in> set (wp_update (wg_plan_state_of have prev art)) \<longleftrightarrow>
    map_of (by_name (a_wg art)) (wi_name w) = Some w \<and>
    (\<exists>old. map_of have (wi_name w) = Some old \<and> (prev = None \<or> \<not> sameIface old w))"
  by (simp only: wg_plan_state_of_def Let_def wg_plan_state.simps set_sort set_map in_filtered prod.case) (auto split: option.split)

lemma plan_remove: "w \<in> set (wp_remove (wg_plan_state_of (by_name vs) prev art)) \<longleftrightarrow>
    map_of (by_name vs) (wi_name w) = Some w \<and> map_of (by_name (a_wg art)) (wi_name w) = None"
  by (simp only: wg_plan_state_of_def Let_def wg_plan_state.simps set_map in_filtered prod.case)

text \<open>The interfaces that match a published list, name by name.\<close>

definition wg_sync :: "(string \<Rightarrow> wg_iface option) \<Rightarrow> wg_iface list \<Rightarrow> bool" where
  "wg_sync ifs ws \<longleftrightarrow> (\<forall>n. rel_option sameIface (ifs n) (map_of (by_name ws) n))"

text \<open>Two maps that agree on what the plan leaves alone, and one that has the plan's steps carried out.\<close>

definition planned :: "wg_plan_state \<Rightarrow> (string \<Rightarrow> wg_iface option) \<Rightarrow> (string \<Rightarrow> wg_iface option)" where
  "planned st ifs = (\<lambda>n. if n \<in> wi_name ` set (wp_remove st) then None else ifs n) ++
     map_of (rev (named (wp_add st @ wp_update st)))"

lemma planned_new:
  assumes "map_of (by_name (a_wg art)) n = Some w" "w \<in> set (wp_add st) \<union> set (wp_update st)" "st = wg_plan_state_of have prev art"
  shows "planned st ifs n = Some w"
proof -
  have n: "wi_name w = n" using assms(1) by (rule by_name_name)
  then have "n \<in> fst ` set (rev (named (wp_add st @ wp_update st)))" using assms(2) by force
  then obtain v where v: "map_of (rev (named (wp_add st @ wp_update st))) n = Some v"
    by (metis map_of_eq_None_iff not_None_eq)
  then have "v \<in> set (wp_add st @ wp_update st) \<and> wi_name v = n" by (auto dest!: map_of_SomeD)
  then have "map_of (by_name (a_wg art)) n = Some v" by (auto simp: assms(3) plan_add plan_update)
  with v assms(1) show ?thesis unfolding planned_def by (simp add: map_add_Some_iff del: map_append rev_append)
qed

lemma planned_old:
  assumes "n \<notin> wi_name ` (set (wp_add st) \<union> set (wp_update st))"
  shows "planned st ifs n = (if n \<in> wi_name ` set (wp_remove st) then None else ifs n)"
proof -
  have "map_of (rev (named (wp_add st @ wp_update st))) n = None" using assms by (auto simp: map_of_eq_None_iff)
  then show ?thesis by (simp add: planned_def map_add_def)
qed

lemma planned_sync:
  assumes st: "st = wg_plan_state_of (by_name vs) prev art"
    and prev: "case prev of None \<Rightarrow> \<forall>n. (ifs n = None) = (map_of (by_name vs) n = None) | Some p \<Rightarrow> wg_sync ifs (a_wg p) \<and> vs = a_wg p"
  shows "wg_sync (planned st ifs) (a_wg art)"
  unfolding wg_sync_def
proof
  fix n
  have dom: "ifs n = None \<longleftrightarrow> map_of (by_name vs) n = None"
  proof (cases prev)
    case None
    then show ?thesis using prev by simp
  next
    case (Some p)
    then have "rel_option sameIface (ifs n) (map_of (by_name vs) n)" using prev by (simp add: wg_sync_def)
    then show ?thesis by (cases "ifs n"; cases "map_of (by_name vs) n") simp_all
  qed
  show "rel_option sameIface (planned st ifs n) (map_of (by_name (a_wg art)) n)"
  proof (cases "map_of (by_name (a_wg art)) n")
    case None
    then have "n \<notin> wi_name ` (set (wp_add st) \<union> set (wp_update st))" by (auto simp: st plan_add plan_update)
    moreover have "ifs n \<noteq> None \<Longrightarrow> n \<in> wi_name ` set (wp_remove st)"
    proof -
      assume "ifs n \<noteq> None"
      then obtain v where v: "map_of (by_name vs) n = Some v" using dom by auto
      then have "wi_name v = n" by (rule by_name_name)
      then have "v \<in> set (wp_remove st)" using v None by (simp add: st plan_remove)
      then show ?thesis using \<open>wi_name v = n\<close> by blast
    qed
    ultimately show ?thesis using planned_old[of n st ifs] None by auto
  next
    case (Some w)
    then have n: "wi_name w = n" by (rule by_name_name)
    show ?thesis
    proof (cases "w \<in> set (wp_add st) \<union> set (wp_update st)")
      case True
      then show ?thesis using planned_new[OF Some True st] Some by simp
    next
      case False
      then obtain old p where old: "map_of (by_name vs) n = Some old" "prev = Some p" "sameIface old w"
        using Some n by (auto simp: st plan_add plan_update)
      have "n \<notin> wi_name ` (set (wp_add st) \<union> set (wp_update st))"
        using False Some by (auto simp: st plan_add plan_update)
      moreover have "n \<notin> wi_name ` set (wp_remove st)" using Some by (auto simp: st plan_remove)
      ultimately have eq: "planned st ifs n = ifs n" by (simp add: planned_old)
      have "rel_option sameIface (ifs n) (Some old)" using prev old by (simp add: wg_sync_def) (metis old(1))
      then show ?thesis using eq Some old(3) by (cases "ifs n") (auto intro: sameIface_trans)
    qed
  qed
qed

subsection \<open>The kernel backend\<close>

text \<open>\<open>ifaces\<close> are the WireGuard interfaces whose names have the prefix of the gateway.\<close>

locale wg_backend =
  fixes B :: "'k wg_ops" and ifaces :: "'k \<Rightarrow> string \<Rightarrow> wg_iface option"
  assumes ensure_ok: "wo_ensure B k w = (k', None) \<Longrightarrow> ifaces k' = (ifaces k)(wi_name w \<mapsto> w)"
    and remove_ok: "wo_remove B k n t m = (k', None) \<Longrightarrow> ifaces k' = (ifaces k)(n := None)"
    and list_ok: "wo_list B k WGIfacePrefix = Inr ns \<Longrightarrow> set ns = {n. ifaces k n \<noteq> None}"
begin

lemma wg_removes_ok:
  "wg_removes B ws k err = (k', None) \<Longrightarrow> err = None \<and> ifaces k' = (\<lambda>n. if n \<in> wi_name ` set ws then None else ifaces k n)"
proof (induction ws arbitrary: k err)
  case (Cons w ws)
  obtain k1 e where r: "wo_remove B k (wi_name w) (wi_table w) (wi_mark w) = (k1, e)" by fastforce
  have e: "err = None \<and> e = None" "ifaces k' = (\<lambda>n. if n \<in> wi_name ` set ws then None else ifaces k1 n)"
    using Cons.IH[of k1 "case (err, e) of (None, Some m) \<Rightarrow> Some (''remove '' @ wi_name w @ '': '' @ m) | _ \<Rightarrow> err"] Cons.prems r
    by (auto simp: Let_def split: option.splits)
  then show ?case using remove_ok[of k "wi_name w" "wi_table w" "wi_mark w" k1] r by (auto simp: fun_eq_iff)
qed simp

lemma wg_ensures_ok:
  "wg_ensures B ws k err = (k', None) \<Longrightarrow> err = None \<and> ifaces k' = ifaces k ++ map_of (rev (named ws))"
proof (induction ws arbitrary: k err)
  case (Cons w ws)
  obtain k1 e where r: "wo_ensure B k w = (k1, e)" by fastforce
  have e: "err = None \<and> e = None" "ifaces k' = ifaces k1 ++ map_of (rev (named ws))"
    using Cons.IH[of k1 "case (err, e) of (None, Some m) \<Rightarrow> Some (''configure '' @ wi_name w @ '': '' @ m) | _ \<Rightarrow> err"] Cons.prems r
    by (auto simp: Let_def split: option.splits)
  then show ?case using ensure_ok[of k w k1] r by (simp add: fun_eq_iff map_add_def split: option.split)
qed simp

lemma wg_step:
  assumes plan: "wg_Plan B k prev art = Inr plan"
    and prev: "case prev of None \<Rightarrow> True | Some p \<Rightarrow> wg_sync (ifaces k) (a_wg p)"
    and run: "(if Changes plan then wg_Apply B now d k plan art else (d, k, None)) = (d', k', None)"
  shows "wg_sync (ifaces k') (a_wg art)"
proof -
  obtain vs where vs: "wg_have B k prev = Inr (by_name vs)"
    and old: "case prev of None \<Rightarrow> \<forall>n. (ifaces k n = None) = (map_of (by_name vs) n = None)
      | Some p \<Rightarrow> wg_sync (ifaces k) (a_wg p) \<and> vs = a_wg p"
  proof (cases prev)
    case None
    then obtain ns where ns: "wo_list B k WGIfacePrefix = Inr ns"
      using plan by (auto simp: wg_Plan_def wg_have_def split: sum.splits)
    have "(ifaces k n = None) = (map_of (by_name (map zero_iface ns)) n = None)" for n
      using list_ok[OF ns] by (force simp: map_of_by_name map_of_eq_None_iff zero_iface_def)
    then show ?thesis using that[of "map zero_iface ns"] None ns by (simp add: wg_have_def)
  next
    case (Some p)
    then show ?thesis using that[of "a_wg p"] prev by (simp add: wg_have_def)
  qed
  define st where "st = wg_plan_state_of (by_name vs) prev art"
  have state: "pl_state plan = Some st" and acts: "Changes plan \<longleftrightarrow> wp_add st \<noteq> [] \<or> wp_update st \<noteq> [] \<or> wp_remove st \<noteq> []"
    using plan vs by (auto simp: wg_Plan_def Let_def st_def Changes_def act_def split: if_splits)
  have "ifaces k' = planned st (ifaces k)"
  proof (cases "Changes plan")
    case True
    obtain k1 e1 where r: "wg_removes B (wp_remove st) k None = (k1, e1)" by fastforce
    obtain k2 e2 where e: "wg_ensures B (wp_add st @ wp_update st) k1 e1 = (k2, e2)" by fastforce
    have "k2 = k'" "e2 = None" using run True r e state by (simp_all add: wg_Apply_def Let_def)
    then have "e1 = None" "ifaces k' = ifaces k1 ++ map_of (rev (named (wp_add st @ wp_update st)))"
      using wg_ensures_ok[of "wp_add st @ wp_update st" k1 e1 k'] e by blast+
    moreover from this have "ifaces k1 = (\<lambda>n. if n \<in> wi_name ` set (wp_remove st) then None else ifaces k n)"
      using wg_removes_ok[of "wp_remove st" k None k1] r by blast
    ultimately show ?thesis by (simp only: planned_def)
  next
    case False
    then show ?thesis using run acts by (simp add: planned_def)
  qed
  then show ?thesis using planned_sync[OF st_def old] by simp
qed

end

interpretation wg_fake: wg_backend wg_fake_ops "\<lambda>f. map_of (wf_ifaces f)"
proof
  fix k k' :: wg_fake and n t m ns
  show "wo_remove wg_fake_ops k n t m = (k', None) \<Longrightarrow> map_of (wf_ifaces k') = (map_of (wf_ifaces k))(n := None)"
    by (auto simp: wg_fake_ops_def fake_remove_def)
  show "wo_list wg_fake_ops k WGIfacePrefix = Inr ns \<Longrightarrow> set ns = {n. map_of (wf_ifaces k) n \<noteq> None}"
    by (force simp: wg_fake_ops_def fake_list_def map_of_eq_None_iff)
qed (auto simp: wg_fake_ops_def fake_ensure_def Let_def split: if_splits)


definition example_iface :: "string \<Rightarrow> int \<Rightarrow> wg_iface" where
  "example_iface n mtu = (zero_iface n)\<lparr>wi_mtu := mtu, wi_table := 31000, wi_mark := 5\<rparr>"

definition wg_arts :: "wg_iface list \<Rightarrow> artifacts" where
  "wg_arts ws = zero_artifacts\<lparr>a_wg := ws\<rparr>"



subsection \<open>A failed apply is not undone\<close>

definition wg_env :: "int \<Rightarrow> wg_iface list \<Rightarrow> pass_env" where
  "wg_env gen ws = example_pass_env\<lparr>pe_load := Inr ((example_snapshot ModeC [] [])\<lparr>s_generation := gen\<rparr>),
     pe_render := (\<lambda>_. Inr (wg_arts ws))\<rparr>"

abbreviation wg_fake_drv :: "(wg_driver \<times> wg_fake, wg_plan_state) drv" where
  "wg_fake_drv \<equiv> wg_drv wg_fake_ops 0"

definition wg_passes :: "(int \<times> wg_iface list) list \<Rightarrow>
    (wg_driver \<times> wg_fake, wg_plan_state) reconciler \<times> string option list" where
  "wg_passes = foldl (\<lambda>(r, es) (gen, ws). case pass (wg_env gen ws) [wg_fake_drv] r of (r', e) \<Rightarrow> (r', es @ [e]))
     (New [wg_fake_drv] (new_wg_driver, new_wg_fake\<lparr>wf_fail_on := ''ergw1''\<rparr>), [])"

text \<open>
  The plan trusts the artifacts that were last applied in full.  Generation 1 brings up an interface;
  generation 2 replaces it by one that cannot be configured, so the pass fails after the removal; when the
  user goes back, generation 3 finds the artifacts of generation 1 unchanged, plans nothing, succeeds and
  is recorded as applied, while the kernel has no interface at all.
\<close>

theorem wg_rollback_forgotten:
  "(case wg_passes [(1, [example_iface ''ergw0'' 1420]), (2, [example_iface ''ergw1'' 1420]), (3, [example_iface ''ergw0'' 1420])] of
      (r, es) \<Rightarrow> (map (\<lambda>e. e = None) es, rc_db_applied r, map Changes (rc_last_plans (rc_status r)), wf_ifaces (snd (rc_world r))))
    = ([True, False, True], 3, [False], [])"
  by code_simp

text \<open>
  An interface found in the kernel after a restart is removed with table 0 and mark 0, since the plan knows
  only its name; \<open>Remove\<close> then leaves its rule and table alone.
\<close>

lemma orphans_removed_without_table:
  "wg_Plan B k None art = Inr plan \<Longrightarrow> pl_state plan = Some st \<Longrightarrow> w \<in> set (wp_remove st) \<Longrightarrow>
    wi_table w = 0 \<and> wi_mark w = 0"
proof -
  assume a: "wg_Plan B k None art = Inr plan" "pl_state plan = Some st" "w \<in> set (wp_remove st)"
  then obtain ns where st: "st = wg_plan_state_of (by_name (map zero_iface ns)) None art"
    by (auto simp: wg_Plan_def wg_have_def Let_def split: sum.splits)
  have "map_of (rev (named (map zero_iface ns))) (wi_name w) = Some w" using a(3) by (simp add: st plan_remove map_of_by_name)
  then have "w \<in> zero_iface ` set ns" by (auto dest!: map_of_SomeD)
  then show ?thesis by (auto simp: zero_iface_def)
qed

end
