(* ===== verification/FrrDriver.thy ===== *)
theory FrrDriver
  imports Host RouteDriver
begin

text \<open>
  \<open>internal/driver/frr/frr.go\<close>: the driver of FRR, which wraps the driver of the kernel routes.  The
  state of the kernel and of the host are apart.  The state of a plan is the plan of the routes, where
  there is one.  JSON decoding and the text of a number of seconds are arguments.
\<close>

record frr_driver =
  fv_conf_dir :: string
  fv_unit :: string
  fv_has_run :: bool
  fv_last_err :: string
  fv_last_apply :: time
  fv_mode :: mode

definition new_frr_driver :: frr_driver where
  "new_frr_driver = \<lparr>fv_conf_dir = ''/etc/frr'', fv_unit = ''frr.service'', fv_has_run = True, fv_last_err = [],
     fv_last_apply = zero_time, fv_mode = ModeOther []\<rparr>"

definition confPath :: "frr_driver \<Rightarrow> string" where "confPath d = file_join [fv_conf_dir d, ''frr.conf'']"
definition daemonsPath :: "frr_driver \<Rightarrow> string" where "daemonsPath d = file_join [fv_conf_dir d, ''daemons'']"

definition frr_installed :: "'h host \<Rightarrow> frr_driver \<Rightarrow> 'h \<Rightarrow> bool" where
  "frr_installed H d h \<longleftrightarrow> \<not> ho_missing H h (fv_conf_dir d)"

type_synonym frr_plan_state = "plan_state plan option"

text \<open>\<open>next.FRR\<close> as bytes, where nil and the empty slice are the same.\<close>

definition frr_text :: "artifacts \<Rightarrow> string" where
  "frr_text art = (case a_frr art of None \<Rightarrow> [] | Some t \<Rightarrow> t)"

subsection \<open>The daemons file\<close>

definition ospfd_line :: "string \<Rightarrow> bool" where
  "ospfd_line l = has_prefix l ''ospfd=''"

definition ospfd_on :: "string \<Rightarrow> bool" where
  "ospfd_on b = (case filter ospfd_line (split_on CHR 0x0A b) of [] \<Rightarrow> False | l # _ \<Rightarrow> str_contains l ''=yes'')"

definition ospfd_rewrite :: "string \<Rightarrow> string" where
  "ospfd_rewrite b =
     (let ls = split_on CHR 0x0A b in
      if \<exists>l\<in>set ls. ospfd_line l
      then join_with [CHR 0x0A] (map (\<lambda>l. if ospfd_line l then ''ospfd=yes'' else l) ls)
      else rev (dropWhile (\<lambda>c. c = CHR 0x0A) (rev b)) @ [CHR 0x0A] @ ''ospfd=yes'' @ [CHR 0x0A])"

definition chownFRR :: "'h host \<Rightarrow> frr_driver \<Rightarrow> string \<Rightarrow> 'h \<Rightarrow> 'h" where
  "chownFRR H d path h = (if fv_has_run d then fst (ho_run H h ''chown'' [''frr:frr'', path]) else h)"

definition daemonsEnableOSPF :: "'h host \<Rightarrow> frr_driver \<Rightarrow> bool \<Rightarrow> 'h \<Rightarrow> 'h \<times> bool" where
  "daemonsEnableOSPF H d write h =
     (let b = read_file H h (daemonsPath d) in
      if ospfd_on b then (h, True)
      else if \<not> write then (h, False)
      else case WriteFileAtomic H h (daemonsPath d) (ospfd_rewrite b) 416 of
             (h1, Inl _) \<Rightarrow> (h1, False) | (h1, Inr _) \<Rightarrow> (chownFRR H d (daemonsPath d) h1, True))"

subsection \<open>Plan\<close>

definition route_actions :: "plan_state plan \<Rightarrow> driver_action list" where
  "route_actions rp = (if Changes rp then pl_actions rp else [])"

definition frr_plan :: "driver_action list \<Rightarrow> driver_action \<Rightarrow> string \<Rightarrow> frr_plan_state \<Rightarrow> frr_plan_state plan" where
  "frr_plan acts idle diff st = \<lparr>pl_component = ComponentFRR, pl_actions = (if acts = [] then [idle] else acts),
     pl_diff = diff, pl_state = Some st\<rparr>"

text \<open>Mode A: the routes are withdrawn and FRR is stopped.\<close>

definition frr_plan_off ::
  "'h host \<Rightarrow> frr_driver \<Rightarrow> 'k route_driver \<Rightarrow> 'k \<Rightarrow> 'h \<Rightarrow> artifacts \<Rightarrow> frr_plan_state plan result" where
  "frr_plan_off H d rd k h art =
     (let stop = (if frr_installed H d h
                  then (case ho_state H h (fv_unit d) of
                          Inl _ \<Rightarrow> []
                        | Inr u \<Rightarrow> if Active u then [act ActionExec (''stop '' @ fv_unit d @ '' (Mode A)'')] else [])
                  else []);
          idle = act ActionSkipped ''not used in Mode A''
      in case route_Plan rd k art of
           Inl e \<Rightarrow> if frr_installed H d h then Inl e else Inr (frr_plan stop idle [] None)
         | Inr rp \<Rightarrow> Inr (frr_plan (route_actions rp @ stop) idle [] (Some rp)))"

definition frr_plan_on ::
  "'h host \<Rightarrow> frr_driver \<Rightarrow> 'k route_driver \<Rightarrow> 'k \<Rightarrow> 'h \<Rightarrow> artifacts \<Rightarrow> frr_plan_state plan result" where
  "frr_plan_on H d rd k h art =
     (let conf = \<not> SameContent H h (confPath d) (frr_text art);
          off = \<not> snd (daemonsEnableOSPF H d False h);
          diff = (if conf then LineDiff (read_file H h (confPath d)) (frr_text art) 60 else []);
          writes = (if conf then [act ActionWrite (confPath d)] else []) @
                   (if off then [act ActionWrite (daemonsPath d @ '' (ospfd=yes)'')] else [])
      in case ho_state H h (fv_unit d) of
           Inl e \<Rightarrow> Inl (''frr unit state: '' @ e)
         | Inr u \<Rightarrow>
             (let acts = writes @ (if \<not> Active u then [act ActionStart (fv_unit d)]
                                   else if conf \<or> off then [act ActionRestart ''frr.conf or daemons changed''] else [])
              in case route_Plan rd k art of
                   Inl e \<Rightarrow> Inl e
                 | Inr rp \<Rightarrow> Inr (frr_plan (acts @ route_actions rp) (act ActionNoop ''config and routes unchanged, unit active'')
                     (if Changes rp \<and> diff = [] then pl_diff rp else diff) (Some rp))))"

definition frr_Plan ::
  "'h host \<Rightarrow> frr_driver \<Rightarrow> 'k route_driver \<Rightarrow> 'k \<Rightarrow> 'h \<Rightarrow> artifacts \<Rightarrow> frr_driver \<times> frr_plan_state plan result" where
  "frr_Plan H d rd k h art =
     (d\<lparr>fv_mode := a_mode art\<rparr>,
      if a_mode art = ModeA then frr_plan_off H d rd k h art
      else if \<not> frr_installed H d h
           then Inr (frr_plan [] (act ActionSkipped ''frr is not installed (apt install frr)'') [] None)
      else frr_plan_on H d rd k h art)"

subsection \<open>Apply\<close>

definition frr_action :: "'h host \<Rightarrow> frr_driver \<Rightarrow> artifacts \<Rightarrow> driver_action \<Rightarrow> 'h \<Rightarrow> 'h \<times> string option" where
  "frr_action H d art a h =
     (if da_kind a = ActionWrite \<and> da_detail a = confPath d
      then (case WriteFileAtomic H h (confPath d) (frr_text art) 416 of
              (h1, Inl e) \<Rightarrow> (h1, Some (''write frr.conf: '' @ e)) | (h1, Inr _) \<Rightarrow> (chownFRR H d (confPath d) h1, None))
      else if da_kind a = ActionWrite \<and> has_prefix (da_detail a) (daemonsPath d)
      then (case daemonsEnableOSPF H d True h of
              (h1, ok) \<Rightarrow> (h1, if ok then None else Some (''enable ospfd in '' @ daemonsPath d)))
      else if da_kind a = ActionStart then ho_start H h (fv_unit d)
      else if da_kind a = ActionRestart then ho_restart H h (fv_unit d)
      else if da_kind a = ActionExec \<and> has_prefix (da_detail a) ''stop '' then ho_stop H h (fv_unit d)
      else (h, None))"

fun frr_actions :: "'h host \<Rightarrow> frr_driver \<Rightarrow> artifacts \<Rightarrow> driver_action list \<Rightarrow> 'h \<Rightarrow> 'h \<times> string option" where
  "frr_actions H d art [] h = (h, None)"
| "frr_actions H d art (a # as) h =
     (case frr_action H d art a h of
        (h1, Some e) \<Rightarrow> (h1, Some e) | (h1, None) \<Rightarrow> frr_actions H d art as h1)"

text \<open>The routes first; they stay out when the plan of the routes changes nothing.\<close>

definition frr_routes ::
  "time \<Rightarrow> 'k route_driver \<Rightarrow> 'k \<Rightarrow> frr_plan_state plan \<Rightarrow> 'k route_driver \<times> 'k \<times> string option" where
  "frr_routes now rd k plan =
     (case pl_state plan of
        Some (Some rp) \<Rightarrow> if Changes rp then route_Apply now rd k rp else (rd, k, None)
      | _ \<Rightarrow> (rd, k, None))"

definition frr_Apply ::
  "'h host \<Rightarrow> time \<Rightarrow> frr_driver \<Rightarrow> 'k route_driver \<Rightarrow> 'k \<Rightarrow> 'h \<Rightarrow> frr_plan_state plan \<Rightarrow> artifacts
    \<Rightarrow> (frr_driver \<times> 'k route_driver \<times> 'k \<times> 'h) \<times> string option" where
  "frr_Apply H now d rd k h plan art =
     (let d1 = d\<lparr>fv_last_apply := now, fv_mode := a_mode art\<rparr>;
          (rd1, k1, rerr) = frr_routes now rd k plan;
          (h1, err) = (case rerr of Some e \<Rightarrow> (h, Some e) | None \<Rightarrow> frr_actions H d1 art (pl_actions plan) h)
      in ((d1\<lparr>fv_last_err := (case err of None \<Rightarrow> [] | Some e \<Rightarrow> e)\<rparr>, rd1, k1, h1), err))"

definition frr_Health :: "'h host \<Rightarrow> frr_driver \<Rightarrow> 'k route_driver \<Rightarrow> 'h \<Rightarrow> component_health" where
  "frr_Health H d rd h =
     (let health = (\<lambda>st m. driver_health ComponentFRR st m (fv_last_apply d)); err = fv_last_err d in
      if fv_mode d = ModeA \<or> fv_mode d = ModeOther [] then health StatusDisabled err
      else if \<not> frr_installed H d h then health StatusDown (if err = [] then ''frr not installed'' else err)
      else case ho_state H h (fv_unit d) of
             Inl e \<Rightarrow> health StatusUnknown e
           | Inr u \<Rightarrow>
               if \<not> Active u then health StatusDown err
               else if err \<noteq> [] \<or> h_status (route_Health rd) = StatusDegraded
               then health StatusDegraded (if err = [] then h_last_error (route_Health rd) else err)
               else health StatusActive err)"

definition frr_drv :: "'h host \<Rightarrow> time \<Rightarrow> (frr_driver \<times> 'k route_driver \<times> 'k \<times> 'h, frr_plan_state) drv" where
  "frr_drv H now = \<lparr>dr_component = ComponentFRR,
     dr_plan = (\<lambda>(d, rd, k, h) prev art. case frr_Plan H d rd k h art of (d1, r) \<Rightarrow> ((d1, rd, k, h), r)),
     dr_apply = (\<lambda>(d, rd, k, h) plan art. frr_Apply H now d rd k h plan art),
     dr_health = (\<lambda>(d, rd, k, h). frr_Health H d rd h)\<rparr>"

subsection \<open>Neighbours\<close>

record neighbor =
  ng_router_id :: string
  ng_address :: string
  ng_interface :: string
  ng_state :: string
  ng_priority :: int
  ng_dead_time :: string

record neighbor_json =
  nj_priority :: int
  nj_state :: string
  nj_converged :: string
  nj_address :: string
  nj_iface_address :: string
  nj_iface_name :: string
  nj_dead_msecs :: int
  nj_nbr_priority :: int
  nj_nbr_state :: string

record neighbor_decoder =
  nd_object :: "string \<Rightarrow> (string \<times> string) list result"
  nd_neighbors :: "string \<Rightarrow> (string \<times> neighbor_json list) list result"
  nd_seconds :: "int \<Rightarrow> string"

definition neighbor_of :: "neighbor_decoder \<Rightarrow> string \<Rightarrow> neighbor_json \<Rightarrow> neighbor" where
  "neighbor_of J router n =
     (let st = (if nj_state n = [] then nj_nbr_state n else nj_state n) in
      \<lparr>ng_router_id = router, ng_address = (if nj_address n = [] then nj_iface_address n else nj_address n),
       ng_interface = nj_iface_name n,
       ng_state = (if nj_converged n \<noteq> [] \<and> \<not> str_contains st ''/'' then nj_converged n else st),
       ng_priority = (if nj_priority n = 0 then nj_nbr_priority n else nj_priority n),
       ng_dead_time = nd_seconds J (nj_dead_msecs n)\<rparr>)"

definition neighbors_raw :: "neighbor_decoder \<Rightarrow> (string \<times> string) list \<Rightarrow> string option" where
  "neighbors_raw J raw =
     (case map_of raw ''neighbors'' of
        Some nb \<Rightarrow> Some nb
      | None \<Rightarrow>
          (case map_of raw ''default'' of
             None \<Rightarrow> None
           | Some def \<Rightarrow> (case nd_object J def of Inl _ \<Rightarrow> None | Inr inner \<Rightarrow> map_of inner ''neighbors'')))"

definition ParseNeighbors :: "neighbor_decoder \<Rightarrow> string \<Rightarrow> neighbor list result" where
  "ParseNeighbors J b =
     (case nd_object J b of
        Inl e \<Rightarrow> Inl (''parse neighbor json: '' @ e)
      | Inr raw \<Rightarrow>
          (case neighbors_raw J raw of
             None \<Rightarrow> Inr []
           | Some nb \<Rightarrow>
               (case nd_neighbors J nb of
                  Inl e \<Rightarrow> Inl (''parse neighbors: '' @ e)
                | Inr by_id \<Rightarrow> Inr (concat (map (\<lambda>(router, ns). map (neighbor_of J router) ns) by_id)))))"

definition Neighbors :: "'h host \<Rightarrow> neighbor_decoder \<Rightarrow> frr_driver \<Rightarrow> 'h \<Rightarrow> 'h \<times> neighbor list result" where
  "Neighbors H J d h =
     (if \<not> fv_has_run d then (h, Inl ''no runner'')
      else case ho_run H h ''vtysh'' [''-c'', ''show ip ospf neighbor json''] of
             (h1, _, Some e) \<Rightarrow> (h1, Inl e) | (h1, out, None) \<Rightarrow> (h1, ParseNeighbors J out))"

end
