(* ===== verification/FrrProps.thy ===== *)
theory FrrProps
  imports FrrDriver ReconcileProps
begin

text \<open>
  Properties of the FRR driver: it meets the contract of a component, with the kernel routes in sync
  whenever FRR is installed, and its rewriting of the daemons file takes effect.
\<close>

subsection \<open>The daemons file\<close>

lemma lines_trimmed: "l \<in> set (split_on c (rev (dropWhile (\<lambda>x. x = c) (rev b)))) \<Longrightarrow> l \<in> set (split_on c b)"
proof (induction b rule: rev_induct)
  case (snoc x b)
  show ?case
  proof (cases "x = c")
    case True
    then have "l \<in> set (split_on c b)" using snoc by simp
    moreover have "split_on c (b @ [c]) = split_on c b @ split_on c []" using split_on_append[of c b "[]"] by simp
    ultimately show ?thesis using True by simp
  next
    case False
    then show ?thesis using snoc by simp
  qed
qed simp

lemma ospfd_on_lines: "ospfd_on b \<longleftrightarrow> (\<exists>l ls. filter ospfd_line (split_on CHR 0x0A b) = l # ls \<and> str_contains l ''=yes'')"
  by (auto simp: ospfd_on_def split: list.split)

lemma yes_line: "ospfd_line ''ospfd=yes''" "str_contains ''ospfd=yes'' ''=yes''" "CHR 0x0A \<notin> set ''ospfd=yes''"
  by code_simp+

text \<open>
  Rewriting the daemons file enables ospfd whatever the file held: a second look finds it enabled, so
  the driver rewrites and restarts at most once.
\<close>

theorem ospfd_rewrite_enables: "ospfd_on (ospfd_rewrite b)"
proof (cases "\<exists>l\<in>set (split_on CHR 0x0A b). ospfd_line l")
  case True
  let ?f = "\<lambda>l. if ospfd_line l then ''ospfd=yes'' else l" and ?ls = "split_on CHR 0x0A b"
  have "\<forall>p\<in>set (map ?f ?ls). CHR 0x0A \<notin> set p" using split_on_no_sep yes_line(3) by auto
  then have lines: "split_on CHR 0x0A (ospfd_rewrite b) = map ?f ?ls"
    using True split_on_join[of "map ?f ?ls" "CHR 0x0A"] by (simp add: ospfd_rewrite_def Let_def)
  have "filter ospfd_line (map ?f ls) = map (\<lambda>_. ''ospfd=yes'') (filter ospfd_line ls)" for ls
    by (induction ls) (simp_all add: yes_line(1))
  moreover have "filter ospfd_line ?ls \<noteq> []" using True by (simp add: filter_empty_conv)
  ultimately show ?thesis using yes_line(2) lines by (cases "filter ospfd_line ?ls") (auto simp: ospfd_on_lines)
next
  case False
  let ?t = "rev (dropWhile (\<lambda>c. c = CHR 0x0A) (rev b))"
  have none: "filter ospfd_line (split_on CHR 0x0A ?t) = []"
    using False lines_trimmed[of _ "CHR 0x0A" b] by (auto simp: filter_empty_conv)
  have "ospfd_rewrite b = ?t @ CHR 0x0A # ''ospfd=yes'' @ CHR 0x0A # []" using False by (simp add: ospfd_rewrite_def Let_def)
  then have "split_on CHR 0x0A (ospfd_rewrite b) = split_on CHR 0x0A ?t @ [''ospfd=yes'', []]"
    using split_on_append[of "CHR 0x0A" ?t "''ospfd=yes'' @ [CHR 0x0A]"] split_on_append[of "CHR 0x0A" "''ospfd=yes''" "[]"]
      split_on_plain[OF yes_line(3)] by simp
  then show ?thesis using none yes_line by (auto simp: ospfd_on_lines)
qed

subsection \<open>The contract of a component\<close>

definition frr_sync :: "'h host \<Rightarrow> ('k \<Rightarrow> int \<Rightarrow> prefix set) \<Rightarrow> (prefix \<Rightarrow> bool)
    \<Rightarrow> frr_driver \<times> 'k route_driver \<times> 'k \<times> 'h \<Rightarrow> artifacts \<Rightarrow> bool" where
  "frr_sync H table legal w art =
     (case w of (d, rd, k, h) \<Rightarrow> frr_installed H d h \<longrightarrow> route_sync table legal (rd, k) art)"

text \<open>A plan of an installed FRR carries the plan of the routes.\<close>

lemma frr_plan_fields [simp]:
  "pl_state (frr_plan acts idle diff st) = Some st"
  "pl_actions (frr_plan acts idle diff st) = (if acts = [] then [idle] else acts)"
  by (simp_all add: frr_plan_def)

lemma frr_Plan_routes:
  assumes "frr_Plan H d rd k h art = (d', Inr p)" "frr_installed H d h \<or> Changes p"
  shows "\<exists>rp. route_Plan rd k art = Inr rp \<and> pl_state p = Some (Some rp) \<and> (Changes rp \<longrightarrow> Changes p)"
proof -
  have sub: "Changes rp \<Longrightarrow> \<exists>a\<in>set (route_actions rp). da_kind a \<noteq> ActionNoop \<and> da_kind a \<noteq> ActionSkipped" for rp
    by (simp add: route_actions_def Changes_def)
  have idle: "\<not> Changes (frr_plan [] (act ActionSkipped t) [] None)" for t by (simp add: Changes_def frr_plan_def act_def)
  show ?thesis
  proof (cases "route_Plan rd k art")
    case (Inl e)
    then show ?thesis using assms idle
      by (auto simp: frr_Plan_def frr_plan_off_def frr_plan_on_def Let_def split: if_splits sum.splits)
  next
    case (Inr rp)
    then show ?thesis using assms sub[of rp] idle
      by (auto simp: frr_Plan_def frr_plan_off_def frr_plan_on_def Let_def Changes_def[of p] split: if_splits sum.splits; fastforce)
  qed
qed

lemma frr_Plan_driver: "frr_Plan H d rd k h art = (d', r) \<Longrightarrow> d' = d\<lparr>fv_mode := a_mode art\<rparr>"
  by (simp add: frr_Plan_def)

lemma frr_Apply_parts:
  assumes "frr_Apply H now d rd k h p art = ((d', rd', k', h'), e)"
  obtains e' where "frr_routes now rd k p = (rd', k', e')" "e = None \<Longrightarrow> e' = None"
  using assms by (auto simp: frr_Apply_def Let_def split: prod.splits option.splits)

context kernel
begin

lemma frr_component:
  "component_driver (frr_drv H now) (\<lambda>(d, rd, k, h). drives rd) (frr_sync H table legal)"
proof unfold_locales
  fix w prev arts w' res
  assume "case w of (d, rd, k, h) \<Rightarrow> drives rd" "dr_plan (frr_drv H now) w prev arts = (w', res)"
  then show "case w' of (d, rd, k, h) \<Rightarrow> drives rd" by (auto simp: frr_drv_def split: prod.splits)
next
  fix w prev arts w1 p w2 err
  assume a: "case w of (d, rd, k, h) \<Rightarrow> drives rd" "dr_plan (frr_drv H now) w prev arts = (w1, Inr p)"
    "dr_apply (frr_drv H now) w1 p arts = (w2, err)"
  obtain d rd k h where w1: "w1 = (d, rd, k, h)" by (metis prod_cases4)
  have drives: "drives rd" using a(1,2) w1 by (auto simp: frr_drv_def split: prod.splits)
  obtain d' rd' k' h' where w2: "w2 = (d', rd', k', h')" by (metis prod_cases4)
  have "frr_Apply H now d rd k h p arts = ((d', rd', k', h'), err)" using a(3) w1 w2 by (simp add: frr_drv_def)
  then obtain e' where r: "frr_routes now rd k p = (rd', k', e')" by (rule frr_Apply_parts)
  have "drives rd'"
    using r drives route_Apply_drives[OF drives] by (auto simp: frr_routes_def split: option.splits if_splits)
  then show "case w2 of (d, rd, k, h) \<Rightarrow> drives rd" using w2 by simp
next
  fix w prev arts w' p
  assume a: "case w of (d, rd, k, h) \<Rightarrow> drives rd" "dr_plan (frr_drv H now) w prev arts = (w', Inr p)" "\<not> Changes p"
  obtain d rd k h where w: "w = (d, rd, k, h)" by (metis prod_cases4)
  obtain d' where d': "frr_Plan H d rd k h arts = (d', Inr p)" "w' = (d', rd, k, h)"
    using a(2) w by (auto simp: frr_drv_def split: prod.splits)
  have "route_sync table legal (rd, k) arts" if "frr_installed H d' h"
  proof -
    have "frr_installed H d h" using that frr_Plan_driver[OF d'(1)] by (simp add: frr_installed_def)
    then obtain rp where "route_Plan rd k arts = Inr rp" "\<not> Changes rp" using frr_Plan_routes[OF d'(1)] a(3) by blast
    then show ?thesis using component_driver.noop_sync[OF route_component, of "(rd, k)" now prev arts "(rd, k)" rp] a(1) w
      by (simp add: route_drv_def)
  qed
  then show "frr_sync H table legal w' arts" using d'(2) by (simp add: frr_sync_def)
next
  fix w prev arts w1 p w2
  assume a: "case w of (d, rd, k, h) \<Rightarrow> drives rd" "dr_plan (frr_drv H now) w prev arts = (w1, Inr p)" "Changes p"
    "dr_apply (frr_drv H now) w1 p arts = (w2, None)"
  obtain d rd k h where w: "w = (d, rd, k, h)" by (metis prod_cases4)
  obtain d' where d': "frr_Plan H d rd k h arts = (d', Inr p)" "w1 = (d', rd, k, h)"
    using a(2) w by (auto simp: frr_drv_def split: prod.splits)
  obtain rp where rp: "route_Plan rd k arts = Inr rp" "pl_state p = Some (Some rp)" using frr_Plan_routes[OF d'(1)] a(3) by blast
  obtain d2 rd2 k2 h2 where w2: "w2 = (d2, rd2, k2, h2)" by (metis prod_cases4)
  have "frr_Apply H now d' rd k h p arts = ((d2, rd2, k2, h2), None)" using a(4) d'(2) w2 by (simp add: frr_drv_def)
  then have r: "frr_routes now rd k p = (rd2, k2, None)" by (rule frr_Apply_parts) simp
  have drives: "drives rd" using a(1) w by simp
  have "route_sync table legal (rd2, k2) arts"
  proof (cases "Changes rp")
    case True
    then have "route_Apply now rd k rp = (rd2, k2, None)" using r rp by (simp add: frr_routes_def)
    then show ?thesis using component_driver.apply_sync[OF route_component, of "(rd, k)" now prev arts "(rd, k)" rp "(rd2, k2)"] drives rp True
      by (simp add: route_drv_def)
  next
    case False
    then have "rd2 = rd" "k2 = k" using r rp by (simp_all add: frr_routes_def)
    then show ?thesis using component_driver.noop_sync[OF route_component, of "(rd, k)" now prev arts "(rd, k)" rp] drives rp False
      by (simp add: route_drv_def)
  qed
  then show "frr_sync H table legal w2 arts" using w2 by (simp add: frr_sync_def)
qed

end

sublocale kernel \<subseteq> frr: component_driver "frr_drv H now" "\<lambda>(d, rd, k, h). drives rd" "frr_sync H table legal"
  for H now
  by (rule frr_component)

interpretation fake_frr: component_driver "frr_drv H now"
  "\<lambda>(d, rd, k, h). kernel.drives fake_ops (sleepCtx ctx) rd" "frr_sync H fake_table (\<lambda>_. True)"
  for H :: "'h host" and now :: time and ctx :: "string option"
  by (rule fake.frr_component)

end
