(* ===== verification/ShareLink.thy ===== *)
theory ShareLink
  imports Model Json Base64
begin

text \<open>
  \<open>internal/sharelink/sharelink.go\<close>: share links into nodes.  \<open>net/url\<close>'s escapes and queries are
  modelled (without its limit on the number of parameters); \<open>url.Parse\<close> and the decoding of the vmess
  payload are arguments.
\<close>

subsection \<open>Strings and escapes\<close>

text \<open>\<open>strings.Cut\<close>; \<open>None\<close> when the separator is absent.\<close>

definition cut_at :: "string \<Rightarrow> string \<Rightarrow> (string \<times> string) option" where
  "cut_at sep s = map_option (\<lambda>i. (take i s, drop (i + length sep) s)) (str_index s sep)"

definition cut_last :: "char \<Rightarrow> string \<Rightarrow> (string \<times> string) option" where
  "cut_last c s = map_option (\<lambda>i. (take i s, drop (Suc i) s)) (last_index_byte s c)"

text \<open>The number \<open>n\<close> of \<open>n, _ := strconv.Atoi(s)\<close>: saturated when out of range, else 0 on errors.\<close>

definition atoi_value :: "string \<Rightarrow> int" where
  "atoi_value s =
     (let (neg, ds) = (case s of [] \<Rightarrow> (False, [])
                       | c # r \<Rightarrow> if c = CHR ''-'' then (True, r) else if c = CHR ''+'' then (False, r) else (False, s));
          v = (if neg then - digits_value 0 ds else digits_value 0 ds)
      in if ds \<noteq> [] \<and> list_all is_digit ds then max (- (2 ^ 63)) (min (2 ^ 63 - 1) v) else 0)"

definition hex_value :: "char \<Rightarrow> int option" where
  "hex_value c =
     (let n = byte c in
      if is_digit c then Some (n - 48) else if 97 \<le> n \<and> n \<le> 102 then Some (n - 87)
      else if 65 \<le> n \<and> n \<le> 70 then Some (n - 55) else None)"

text \<open>\<open>url.QueryUnescape\<close> (\<open>form\<close>) and \<open>url.PathUnescape\<close>; \<open>None\<close> is an error.\<close>

fun unescape :: "bool \<Rightarrow> string \<Rightarrow> string option" where
  "unescape form [] = Some []"
| "unescape form (c # s) =
     (if c = CHR ''%''
      then (case s of
              a # b # r \<Rightarrow>
                (case (hex_value a, hex_value b) of
                   (Some x, Some y) \<Rightarrow> map_option (\<lambda>t. char_of (x * 16 + y) # t) (unescape form r)
                 | _ \<Rightarrow> None)
            | _ \<Rightarrow> None)
      else map_option (\<lambda>t. (if form \<and> c = CHR ''+'' then CHR '' '' else c) # t) (unescape form s))"

text \<open>\<open>v, _ := url.QueryUnescape(s)\<close>\<close>

definition query_unescape :: "string \<Rightarrow> string" where
  "query_unescape s = (case unescape True s of None \<Rightarrow> [] | Some t \<Rightarrow> t)"

type_synonym url_query = "(string \<times> string) list"

definition parse_pair :: "string \<Rightarrow> (string \<times> string) option" where
  "parse_pair p =
     (if CHR '';'' \<in> set p \<or> p = [] then None
      else let (k, v) = (case cut_at ''='' p of None \<Rightarrow> (p, []) | Some kv \<Rightarrow> kv) in
           case (unescape True k, unescape True v) of (Some k', Some v') \<Rightarrow> Some (k', v') | _ \<Rightarrow> None)"

definition ParseQuery :: "string \<Rightarrow> url_query" where
  "ParseQuery s = List.map_filter parse_pair (split_on CHR ''&'' s)"

definition query_get :: "url_query \<Rightarrow> string \<Rightarrow> string" where
  "query_get q k = (case map_of q k of None \<Rightarrow> [] | Some v \<Rightarrow> v)"

record share_url =
  su_user :: string
  su_hostname :: string
  su_port :: string
  su_query :: url_query
  su_fragment :: string

datatype port_value = PortNumber int | PortText string | PortOther

record vmess_json =
  vm_ps :: string
  vm_add :: string
  vm_id :: string
  vm_net :: string
  vm_tls :: string
  vm_sni :: string
  vm_path :: string
  vm_host :: string
  vm_scy :: string
  vm_fp :: string
  vm_port :: port_value

record link_decoder =
  ld_url :: "string \<Rightarrow> share_url result"
  ld_vmess :: "string \<Rightarrow> vmess_json option"

text \<open>\<open>Parsed\<close>: the node and its credential.\<close>

type_synonym parsed = "node \<times> string"

definition link_node :: "string \<Rightarrow> protocol \<Rightarrow> string \<Rightarrow> int \<Rightarrow> obj \<Rightarrow> string \<Rightarrow> parsed" where
  "link_node name proto addr port params cred =
     (zero_node\<lparr>n_name := (if name = [] then addr else name), n_protocol := proto, n_address := addr, n_port := port,
        n_params := json_text (JObj params), n_enabled := True\<rparr>, cred)"

definition decodeB64 :: "string \<Rightarrow> string result" where
  "decodeB64 s0 =
     (let s = trim_space s0;
          plain = filter (\<lambda>c. c \<noteq> CHR 0x0A \<and> c \<noteq> CHR 0x0D) s;
          body = (if has_suffix plain ''=='' then take (length plain - 2) plain
                  else if has_suffix plain ''='' then take (length plain - 1) plain else plain);
          padded = (\<lambda>al. if length plain mod 4 = 0 then b64_decode al body else Inl [])
      in case (padded std_alphabet, b64_decode std_alphabet s, padded url_alphabet, b64_decode url_alphabet s) of
           (Inr b, _) \<Rightarrow> Inr b | (_, Inr b, _) \<Rightarrow> Inr b | (_, _, Inr b, _) \<Rightarrow> Inr b | (_, _, _, Inr b) \<Rightarrow> Inr b
         | _ \<Rightarrow> Inl ''invalid base64'')"

definition anyPort :: "port_value \<Rightarrow> int" where
  "anyPort v = (case v of PortNumber n \<Rightarrow> n | PortText s \<Rightarrow> atoi_value s | PortOther \<Rightarrow> 0)"

text \<open>A field set when its text is not empty.\<close>

definition some_field :: "string \<Rightarrow> string \<Rightarrow> obj" where
  "some_field k v = (if v = [] then [] else [(k, JStr v)])"

definition some_obj :: "string \<Rightarrow> obj \<Rightarrow> obj" where
  "some_obj k x = (if x = [] then [] else [(k, JObj x)])"

definition host_header :: "string \<Rightarrow> obj" where
  "host_header h = (if h = [] then [] else [(''headers'', JObj [(''Host'', JStr h)])])"

subsection \<open>vmess\<close>

definition vmess_transport :: "vmess_json \<Rightarrow> obj" where
  "vmess_transport v =
     (if vm_net v = ''ws'' then some_obj ''wsSettings'' (some_field ''path'' (vm_path v) @ host_header (vm_host v))
      else if vm_net v = ''grpc''
      then (if vm_path v = [] then [] else [(''grpcSettings'', JObj [(''serviceName'', JStr (vm_path v))])])
      else if vm_net v = ''h2''
      then some_obj ''httpSettings'' (some_field ''path'' (vm_path v) @
             (if vm_host v = [] then [] else [(''host'', JStrs [vm_host v])]))
      else [])"

definition vmess_tls :: "vmess_json \<Rightarrow> obj" where
  "vmess_tls v =
     (if vm_tls v = ''tls''
      then [(''security'', JStr ''tls'')] @
           some_obj ''tlsSettings'' (some_field ''serverName'' (vm_sni v) @ some_field ''fingerprint'' (vm_fp v))
      else [])"

definition vmess_params :: "vmess_json \<Rightarrow> obj" where
  "vmess_params v =
     some_obj ''streamSettings'' (some_field ''network'' (vm_net v) @ vmess_transport v @ vmess_tls v) @
     (if vm_scy v \<noteq> ''auto'' then some_field ''security'' (vm_scy v) else [])"

definition parseVmess :: "link_decoder \<Rightarrow> string \<Rightarrow> parsed result" where
  "parseVmess L b64 =
     (case decodeB64 b64 of
        Inl _ \<Rightarrow> Inl ''vmess: invalid base64''
      | Inr raw \<Rightarrow>
          (case ld_vmess L raw of
             None \<Rightarrow> Inl ''vmess: invalid payload''
           | Some v \<Rightarrow>
               if vm_add v = [] \<or> vm_id v = [] \<or> anyPort (vm_port v) = 0 then Inl ''vmess: missing address, id or port''
               else Inr (link_node (vm_ps v) ProtocolVMess (vm_add v) (anyPort (vm_port v)) (vmess_params v) (vm_id v))))"

subsection \<open>vless and trojan\<close>

definition url_keys :: "string list" where
  "url_keys = [''type'', ''security'', ''sni'', ''fp'', ''pbk'', ''sid'', ''flow'', ''encryption'', ''spx'']"

definition short_keys :: "string list" where
  "short_keys = [''type'', ''security'', ''sni'', ''fp'', ''pbk'', ''sid'', ''spx'']"

text \<open>\<open>applySecurity\<close> on the stream settings \<open>ss\<close> and the other parameters.\<close>

definition security_fields :: "obj \<Rightarrow> obj" where
  "security_fields params =
     (if jstr params ''security'' = ''tls''
      then [(''security'', JStr ''tls''), (''tlsSettings'', JObj (some_field ''serverName'' (jstr params ''sni'') @
              some_field ''fingerprint'' (jstr params ''fp'')))]
      else if jstr params ''security'' = ''reality''
      then [(''security'', JStr ''reality''),
            (''realitySettings'', JObj ([(''serverName'', JStr (jstr params ''sni'')), (''publicKey'', JStr (jstr params ''pbk'')),
               (''shortId'', JStr (jstr params ''sid'')),
               (''spiderX'', JStr (if jstr params ''spx'' = [] then ''/'' else jstr params ''spx''))] @
               some_field ''fingerprint'' (jstr params ''fp'')))]
      else [])"

definition applySecurity :: "obj \<Rightarrow> obj \<Rightarrow> obj" where
  "applySecurity ss params =
     (''streamSettings'', JObj (ss @ security_fields params)) # filter (\<lambda>(k, _). k \<notin> set short_keys) params"

text \<open>The transport settings of the query; \<open>None\<close> when none are built.\<close>

definition url_transport :: "url_query \<Rightarrow> obj option" where
  "url_transport q =
     (let t = query_get q ''type''; path = some_field ''path'' (query_get q ''path''); host = query_get q ''host'' in
      if t = ''ws''
      then (let ws = path @ host_header host in
            if ws = [] then None else Some [(''network'', JStr ''ws''), (''wsSettings'', JObj ws)])
      else if t = ''grpc''
      then (let sn = query_get q ''serviceName'' in
            if sn = [] then None else Some [(''network'', JStr ''grpc''), (''grpcSettings'', JObj [(''serviceName'', JStr sn)])])
      else if t = ''xhttp'' \<or> t = ''splithttp''
      then Some [(''network'', JStr ''xhttp''),
             (''xhttpSettings'', JObj (path @ some_field ''host'' host @ some_field ''mode'' (query_get q ''mode'')))]
      else None)"

definition url_params :: "url_query \<Rightarrow> obj" where
  "url_params q =
     (let params = concat (map (\<lambda>k. some_field k (query_get q k)) url_keys) in
      case url_transport q of None \<Rightarrow> params | Some ss \<Rightarrow> applySecurity ss params)"

definition parseURLStyle :: "link_decoder \<Rightarrow> string \<Rightarrow> protocol \<Rightarrow> parsed result" where
  "parseURLStyle L link proto =
     (case ld_url L link of
        Inl e \<Rightarrow> Inl (protocol_string proto @ '': '' @ e)
      | Inr u \<Rightarrow>
          (let port = atoi_value (su_port u) in
           if su_hostname u = [] \<or> su_user u = [] \<or> port \<le> 0 \<or> port > 65535
           then Inl (protocol_string proto @ '': missing host, credential or port'')
           else Inr (link_node (query_unescape (su_fragment u)) proto (su_hostname u) port (url_params (su_query u)) (su_user u))))"

subsection \<open>shadowsocks\<close>

definition host_brackets :: "string \<Rightarrow> string" where
  "host_brackets s = (let t = dropWhile (\<lambda>c. c \<in> {CHR ''['', CHR '']''}) in rev (t (rev (t s))))"

definition splitHostPort :: "string \<Rightarrow> (string \<times> string) result" where
  "splitHostPort s =
     (case cut_last CHR '':'' s of
        None \<Rightarrow> Inl (''missing port in '' @ quoted s)
      | Some (h, p) \<Rightarrow> if host_brackets h = [] then Inl ''missing host'' else Inr (host_brackets h, p))"

text \<open>The part before the host: base64 with a colon in it, else percent-encoded text, else as it is.\<close>

definition ss_userinfo :: "string \<Rightarrow> string" where
  "ss_userinfo u =
     (let plain = (case unescape False u of Some t \<Rightarrow> t | None \<Rightarrow> u) in
      case decodeB64 u of Inr dec \<Rightarrow> if CHR '':'' \<in> set dec then dec else plain | Inl _ \<Rightarrow> plain)"

definition ss_authority :: "string \<Rightarrow> (string \<times> string) result" where
  "ss_authority body =
     (case cut_last CHR ''@'' body of
        Some (u, hp) \<Rightarrow> Inr (ss_userinfo u, hp)
      | None \<Rightarrow>
          (case decodeB64 body of
             Inl _ \<Rightarrow> Inl ''ss: invalid base64''
           | Inr dec \<Rightarrow> (case cut_last CHR ''@'' dec of None \<Rightarrow> Inl ''ss: malformed legacy link'' | Some uh \<Rightarrow> Inr uh)))"

definition parseShadowsocks :: "string \<Rightarrow> parsed result" where
  "parseShadowsocks link =
     (let body0 = trim_prefix link ''ss://'';
          (body1, name) = (case cut_last CHR ''#'' body0 of None \<Rightarrow> (body0, []) | Some (b, f) \<Rightarrow> (b, query_unescape f));
          body = takeWhile (\<lambda>c. c \<noteq> CHR ''?'') body1
      in case ss_authority body of
           Inl e \<Rightarrow> Inl e
         | Inr (userinfo, hostport) \<Rightarrow>
             (case cut_at '':'' userinfo of
                None \<Rightarrow> Inl ''ss: missing method or password''
              | Some (m, pass) \<Rightarrow>
                  if m = [] then Inl ''ss: missing method or password''
                  else case splitHostPort hostport of
                         Inl e \<Rightarrow> Inl (''ss: '' @ e)
                       | Inr (host, p) \<Rightarrow>
                           if atoi_value p \<le> 0 \<or> atoi_value p > 65535 then Inl ''ss: invalid port''
                           else Inr (link_node name ProtocolShadowsocks host (atoi_value p) [(''method'', JStr m)] pass)))"

subsection \<open>wireguard\<close>

definition wg_reserved_of :: "string \<Rightarrow> obj" where
  "wg_reserved_of rsv =
     (let nums = List.map_filter (\<lambda>p. atoi (trim_space p)) (split_on CHR '','' rsv) in
      if rsv \<noteq> [] \<and> length nums = 3 then [(''reserved'', JArr (map JInt nums))] else [])"

definition wg_link_settings :: "share_url \<Rightarrow> string \<Rightarrow> int \<Rightarrow> obj" where
  "wg_link_settings u pub port =
     (let q = su_query u; addr = query_get q ''address'';
          peer = [(''endpoint'', JStr (su_hostname u @ '':'' @ int_string port)), (''publicKey'', JStr pub)] @
                 some_field ''preSharedKey'' (query_get q ''presharedkey'')
      in [(''peers'', JArr [JObj peer])] @
         (if addr = [] then [] else [(''address'', JStrs (split_on CHR '','' addr))]) @
         (case atoi (query_get q ''mtu'') of Some m \<Rightarrow> if m > 0 then [(''mtu'', JInt m)] else [] | None \<Rightarrow> []) @
         wg_reserved_of (query_get q ''reserved''))"

definition parseWireGuard :: "link_decoder \<Rightarrow> string \<Rightarrow> parsed result" where
  "parseWireGuard L link =
     (case ld_url L link of
        Inl e \<Rightarrow> Inl (''wireguard: '' @ e)
      | Inr u \<Rightarrow>
          (let port = atoi_value (su_port u); pk = query_get (su_query u) ''publickey'';
               pub = (if pk = [] then query_get (su_query u) ''peer_public_key'' else pk)
           in if su_user u = [] \<or> su_hostname u = [] \<or> port \<le> 0 \<or> port > 65535
              then Inl ''wireguard: missing private key, host or port''
              else if pub = [] then Inl ''wireguard: missing peer public key''
              else Inr (link_node (query_unescape (su_fragment u)) ProtocolWireGuard (su_hostname u) port
                     [(''settings'', JObj (wg_link_settings u pub port))] (su_user u))))"

subsection \<open>hysteria2\<close>

text \<open>The host and the ports of the authority; the port is 443 when none is given.\<close>

definition hy_host_port :: "string \<Rightarrow> string \<times> string" where
  "hy_host_port rest =
     (if has_prefix rest ''[''
      then (case cut_at '']'' rest of
              None \<Rightarrow> (rest, ''443'')
            | Some (h, after) \<Rightarrow> (drop 1 h, case after of c # p \<Rightarrow> if c = CHR '':'' then p else ''443'' | [] \<Rightarrow> ''443''))
      else case cut_last CHR '':'' rest of None \<Rightarrow> (rest, ''443'') | Some hp \<Rightarrow> hp)"

definition hy_params :: "url_query \<Rightarrow> string \<Rightarrow> string \<Rightarrow> obj result" where
  "hy_params q spec first =
     (let pin = query_get q ''pinSHA256''; obfs = query_get q ''obfs'';
          base = some_field ''sni'' (query_get q ''sni'') @ some_field ''pin'' pin;
          hop = (if spec \<noteq> first then [(''hop'', JStr spec)] else [])
      in if query_get q ''insecure'' = ''1'' \<and> pin = []
         then Inl ''hysteria2: insecure=1 without pinSHA256 is not supported (Xray no longer skips certificate verification; pin the server certificate or use a valid one)''
         else if obfs = [] then Inr (base @ hop)
         else if obfs = ''salamander''
         then Inr (base @ [(''obfs'', JStr obfs), (''obfs_password'', JStr (query_get q ''obfs-password''))] @ hop)
         else Inl (''hysteria2: unsupported obfs '' @ quoted obfs))"

definition parseHysteria2 :: "string \<Rightarrow> parsed result" where
  "parseHysteria2 link =
     (let rest0 = (case cut_at ''://'' link of Some (_, r) \<Rightarrow> r | None \<Rightarrow> drop 2 link);
          (rest1, name) = (case cut_last CHR ''#'' rest0 of None \<Rightarrow> (rest0, []) | Some (b, f) \<Rightarrow> (b, query_unescape f));
          (rest2, query) = (case cut_at ''?'' rest1 of None \<Rightarrow> (rest1, []) | Some rq \<Rightarrow> rq);
          rest3 = trim_suffix rest2 ''/'';
          (auth, rest) = (case cut_last CHR ''@'' rest3 of
              None \<Rightarrow> ([], rest3)
            | Some (a, r) \<Rightarrow> ((case unescape False a of None \<Rightarrow> [] | Some t \<Rightarrow> t), r));
          (host, spec) = hy_host_port rest;
          first = takeWhile (\<lambda>c. c \<notin> {CHR '','', CHR ''-''}) spec; port = atoi_value first
      in if host = [] \<or> auth = [] \<or> port \<le> 0 \<or> port > 65535 then Inl ''hysteria2: missing host, auth or port''
         else case hy_params (ParseQuery query) spec first of
                Inl e \<Rightarrow> Inl e
              | Inr params \<Rightarrow> Inr (link_node name ProtocolHysteria host port params auth))"

subsection \<open>The dispatch\<close>

definition Parse :: "link_decoder \<Rightarrow> string \<Rightarrow> parsed result" where
  "Parse L link0 =
     (let link = trim_space link0 in
      case cut_at ''://'' link of
        None \<Rightarrow> Inl ''not a share link''
      | Some (scheme, rest) \<Rightarrow>
          (let s = to_lower scheme in
           if s = ''vmess'' then parseVmess L rest
           else if s = ''vless'' then parseURLStyle L link ProtocolVLESS
           else if s = ''trojan'' then parseURLStyle L link ProtocolTrojan
           else if s = ''ss'' then parseShadowsocks link
           else if s = ''wireguard'' \<or> s = ''wg'' then parseWireGuard L link
           else if s = ''hysteria2'' \<or> s = ''hy2'' then parseHysteria2 link
           else Inl (''unsupported share link scheme '' @ quoted scheme)))"

end
