(* ===== verification/ShareProps.thy ===== *)
theory ShareProps
  imports ShareLink ApiProps NetIPFacts
begin

text \<open>
  Properties of the share links: what a parsed node satisfies, the round trip of the \<open>ss\<close> form, and
  how an import treats a link whose node the database refuses.
\<close>

subsection \<open>What a parsed node satisfies\<close>

definition link_protocols :: "protocol set" where
  "link_protocols = {ProtocolVMess, ProtocolVLESS, ProtocolTrojan, ProtocolShadowsocks, ProtocolWireGuard, ProtocolHysteria}"

definition link_ok :: "parsed \<Rightarrow> bool" where
  "link_ok p =
     (case p of (n, cred) \<Rightarrow> n_id n = [] \<and> n_enabled n \<and> \<not> n_is_default n \<and> n_name n \<noteq> [] \<and> n_address n \<noteq> [] \<and>
        n_protocol n \<in> link_protocols \<and>
        (if n_protocol n = ProtocolVMess then n_port n \<noteq> 0 else 1 \<le> n_port n \<and> n_port n \<le> 65535) \<and>
        (n_protocol n = ProtocolShadowsocks \<or> cred \<noteq> []))"

lemma link_node_ok:
  "addr \<noteq> [] \<Longrightarrow> proto \<in> link_protocols \<Longrightarrow> (if proto = ProtocolVMess then port \<noteq> 0 else 1 \<le> port \<and> port \<le> 65535) \<Longrightarrow>
    (proto = ProtocolShadowsocks \<or> cred \<noteq> []) \<Longrightarrow> link_ok (link_node name proto addr port params cred)"
  by (simp add: link_ok_def link_node_def zero_node_def)

lemma parse_ok:
  "parseVmess L b = Inr p \<Longrightarrow> link_ok p"
  "parseURLStyle L l proto = Inr p \<Longrightarrow> proto \<in> {ProtocolVLESS, ProtocolTrojan} \<Longrightarrow> link_ok p"
  "parseShadowsocks l = Inr p \<Longrightarrow> link_ok p"
  "parseWireGuard L l = Inr p \<Longrightarrow> link_ok p"
  "parseHysteria2 l = Inr p \<Longrightarrow> link_ok p"
proof -
  show "parseVmess L b = Inr p \<Longrightarrow> link_ok p"
    by (auto simp: parseVmess_def link_protocols_def intro!: link_node_ok split: sum.splits option.splits if_splits)
  show "parseURLStyle L l proto = Inr p \<Longrightarrow> proto \<in> {ProtocolVLESS, ProtocolTrojan} \<Longrightarrow> link_ok p"
    by (auto simp: parseURLStyle_def Let_def link_protocols_def intro!: link_node_ok split: sum.splits if_splits)
  show "parseWireGuard L l = Inr p \<Longrightarrow> link_ok p"
    by (auto simp: parseWireGuard_def Let_def link_protocols_def intro!: link_node_ok split: sum.splits if_splits)
  show "parseHysteria2 l = Inr p \<Longrightarrow> link_ok p"
    by (auto simp: parseHysteria2_def Let_def link_protocols_def intro!: link_node_ok split: sum.splits if_splits prod.splits)
  show "parseShadowsocks l = Inr p \<Longrightarrow> link_ok p"
    by (auto simp: parseShadowsocks_def splitHostPort_def Let_def link_protocols_def intro!: link_node_ok
        split: sum.splits if_splits prod.splits option.splits)
qed

text \<open>
  C38. Every share link that parses gives a node with a name, an address, one of the six protocols and,
  outside Shadowsocks, a credential; it has no id yet, is enabled and not the default.  Its port is in
  range for every protocol but VMess, where the parser only refuses zero.
\<close>

theorem Parse_sound:
  "Parse L link = Inr (n, cred) \<Longrightarrow> n_id n = [] \<and> n_enabled n \<and> \<not> n_is_default n \<and> n_name n \<noteq> [] \<and> n_address n \<noteq> [] \<and>
     n_protocol n \<in> {ProtocolVMess, ProtocolVLESS, ProtocolTrojan, ProtocolShadowsocks, ProtocolWireGuard, ProtocolHysteria} \<and>
     (if n_protocol n = ProtocolVMess then n_port n \<noteq> 0 else 1 \<le> n_port n \<and> n_port n \<le> 65535) \<and>
     (n_protocol n = ProtocolShadowsocks \<or> cred \<noteq> [])"
proof -
  assume p: "Parse L link = Inr (n, cred)"
  have "link_ok (n, cred)"
    using p parse_ok[where p = "(n, cred)"] by (auto simp: Parse_def Let_def split: option.splits if_splits)
  then show ?thesis by (simp add: link_ok_def link_protocols_def)
qed

subsection \<open>Encoding a Shadowsocks link\<close>

definition b64_plain :: "char \<Rightarrow> bool" where
  "b64_plain c \<longleftrightarrow> c \<in> set std_alphabet"

lemma b64_alphabet: "list_all (\<lambda>c. c \<notin> set ''=@#?: '' \<and> c \<noteq> CHR 0x0A \<and> c \<noteq> CHR 0x0D \<and> \<not> is_space c) std_alphabet"
  by code_simp

lemma index_of_in: "index_of c s = Some v \<Longrightarrow> c \<in> set s"
  by (induction s arbitrary: v) (auto split: if_splits)

lemma plain_sextet_in: "plain_sextet v c \<Longrightarrow> c \<in> set std_alphabet"
  by (auto simp: plain_sextet_def dest: index_of_in)

lemma b64_encode_chars: "set (b64_encode std_alphabet bs) \<subseteq> set std_alphabet"
proof (induction bs rule: bytes3_induct)
  case (One a)
  show ?case using sextet_ok(1,2)[of a, THEN plain_sextet_in] by (simp add: Let_def)
next
  case (Two a b)
  show ?case using sextet_ok(1,3,4)[of a, THEN plain_sextet_in] sextet_ok(3)[of a b, THEN plain_sextet_in]
      sextet_ok(4)[of b, THEN plain_sextet_in] by (simp add: Let_def)
next
  case (Three a b c r)
  then show ?case using sextet_ok(1)[of a, THEN plain_sextet_in] sextet_ok(3)[of a b, THEN plain_sextet_in]
      sextet_ok(5)[of b c, THEN plain_sextet_in] sextet_ok(6)[of c, THEN plain_sextet_in] by (simp add: Let_def)
qed simp

lemma b64_encode_free: "c \<in> set (b64_encode std_alphabet bs) \<Longrightarrow> c \<notin> set ''=@#?: '' \<and> c \<noteq> CHR 0x0A \<and> c \<noteq> CHR 0x0D \<and> \<not> is_space c"
  using b64_encode_chars[of bs] b64_alphabet unfolding list_all_iff by blast

lemma decodeB64_encode: "decodeB64 (b64_encode std_alphabet bs) = Inr bs"
proof -
  define e where "e = b64_encode std_alphabet bs"
  have trim: "trim_space e = e" unfolding e_def using b64_encode_free by (intro trim_space_id) blast
  have plain: "filter (\<lambda>c. c \<noteq> CHR 0x0A \<and> c \<noteq> CHR 0x0D) e = e" unfolding e_def using b64_encode_free by (simp add: filter_id_conv)
  have "CHR ''='' \<notin> set e" unfolding e_def using b64_encode_free[of "CHR ''=''" bs] by auto
  then have "\<not> has_suffix e ''==''" "\<not> has_suffix e ''=''" by (auto simp: has_suffix_iff)
  then show ?thesis using b64_round_trip[of bs] by (simp add: decodeB64_def Let_def trim plain flip: e_def)
qed

text \<open>A label with every byte escaped, and a link in the form of SIP002.\<close>

definition hex_upper :: "int \<Rightarrow> char" where
  "hex_upper k = (if k < 10 then char_of (48 + k) else char_of (55 + k))"

definition percent :: "string \<Rightarrow> string" where
  "percent s = concat (map (\<lambda>c. [CHR ''%'', hex_upper (byte c div 16), hex_upper (byte c mod 16)]) s)"

definition ss_link :: "string \<Rightarrow> string \<Rightarrow> string \<Rightarrow> int \<Rightarrow> string \<Rightarrow> string" where
  "ss_link m pass host port name =
     ''ss://'' @ b64_encode std_alphabet (m @ '':'' @ pass) @ ''@'' @ host @ '':'' @ int_string port @ ''#'' @ percent name"

lemma hex_digits: "list_all (\<lambda>k. hex_value (hex_upper k) = Some k \<and> hex_upper k \<notin> set ''#@?'' \<and> \<not> is_space (hex_upper k)) [0..15]"
  by code_simp

lemma hex_digit_value:
  assumes "0 \<le> k" "k < 16"
  shows "hex_value (hex_upper k) = Some k \<and> hex_upper k \<notin> set ''#@?'' \<and> \<not> is_space (hex_upper k)"
proof -
  have "k \<in> set [0..15]" using assms by simp
  then show ?thesis using hex_digits unfolding list_all_iff by blast
qed

lemma byte_hex: "0 \<le> byte c div 16" "byte c div 16 < 16" "0 \<le> byte c mod 16" "byte c mod 16 < 16"
  using byte_range[of c] by presburger+

lemma unescape_percent: "unescape form (percent s) = Some s"
proof (induction s)
  case (Cons c s)
  have "byte c div 16 * 16 + byte c mod 16 = byte c" by simp
  then show ?case using Cons hex_digit_value[OF byte_hex(1,2)[of c]] hex_digit_value[OF byte_hex(3,4)[of c]]
    by (simp add: percent_def)
qed (simp add: percent_def)

lemma percent_chars: "c \<in> set (percent s) \<Longrightarrow> c \<notin> set ''#@?'' \<and> \<not> is_space c"
proof (induction s)
  case (Cons b s)
  have "\<not> is_space CHR ''%''" by code_simp
  then show ?case using Cons hex_digit_value[OF byte_hex(1,2)[of b]] hex_digit_value[OF byte_hex(3,4)[of b]]
    by (auto simp: percent_def)
qed (simp add: percent_def)

lemma cut_last_append: "c \<notin> set r \<Longrightarrow> cut_last c (s @ c # r) = Some (s, r)"
  by (simp add: cut_last_def last_index_byte_append)

lemma cut_at_char: "c \<notin> set s \<Longrightarrow> cut_at [c] (s @ c # r) = Some (s, r)"
proof -
  assume c: "c \<notin> set s"
  then have "str_index (s @ c # r) [c] = Some (length s)" by (induction s) auto
  then show ?thesis by (simp add: cut_at_def)
qed

lemma trim_ends: "s \<noteq> [] \<Longrightarrow> \<not> is_space (hd s) \<Longrightarrow> \<not> is_space (last s) \<Longrightarrow> trim_space s = s"
proof -
  have keep: "dropWhile is_space r = r" if "r \<noteq> []" "\<not> is_space (hd r)" for r using that by (cases r) auto
  assume s: "s \<noteq> []" "\<not> is_space (hd s)" "\<not> is_space (last s)"
  then show ?thesis using keep[of s] keep[of "rev s"] by (simp add: trim_space_def trim_left_def trim_right_def hd_rev)
qed

lemma atoi_value_atoi: "atoi s = Some v \<Longrightarrow> atoi_value s = v"
  by (auto simp: atoi_def atoi_value_def Let_def split: if_splits prod.splits list.splits)

lemma host_brackets_id: "CHR ''['' \<notin> set s \<Longrightarrow> CHR '']'' \<notin> set s \<Longrightarrow> host_brackets s = s"
proof -
  have d: "dropWhile (\<lambda>c. c \<in> {CHR ''['', CHR '']''}) r = r" if "CHR ''['' \<notin> set r" "CHR '']'' \<notin> set r" for r
    using that by (cases r) auto
  assume "CHR ''['' \<notin> set s" "CHR '']'' \<notin> set s"
  then show ?thesis using d[of s] d[of "rev s"] by (simp add: host_brackets_def Let_def)
qed

lemma takeWhile_all: "c \<notin> set s \<Longrightarrow> takeWhile (\<lambda>x. x \<noteq> c) s = s"
  by (simp add: takeWhile_eq_all_conv) blast

lemma ss_link_parsed:
  assumes "m \<noteq> []" "CHR '':'' \<notin> set m" "host \<noteq> []" "\<forall>c\<in>set host. c \<notin> set ''@#?[]''" "1 \<le> port" "port \<le> 65535"
  shows "Parse L (ss_link m pass host port name) =
    Inr (link_node name ProtocolShadowsocks host port [(''method'', JStr m)] pass)"
proof -
  define e where "e = b64_encode std_alphabet (m @ '':'' @ pass)"
  define p where "p = nat_string port"
  define n where "n = percent name"
  define body where "body = e @ CHR ''@'' # host @ CHR '':'' # p"
  have e: "CHR ''?'' \<notin> set e" "decodeB64 e = Inr (m @ CHR '':'' # pass)"
    using b64_encode_free[of "CHR ''?''" "m @ '':'' @ pass"] decodeB64_encode[of "m @ '':'' @ pass"] by (auto simp: e_def)
  have digits: "c \<notin> set p" if "\<not> is_digit c" for c using not_digit_in_nat_string assms(5) that by (simp add: p_def)
  have "\<not> is_digit CHR ''@''" "\<not> is_digit CHR '':''" "\<not> is_digit CHR ''?''" by code_simp+
  then have p: "CHR ''@'' \<notin> set p" "CHR '':'' \<notin> set p" "CHR ''?'' \<notin> set p" using digits by simp_all
  have n: "CHR ''#'' \<notin> set n" "n \<noteq> [] \<Longrightarrow> \<not> is_space (last n)" "query_unescape n = name"
    using percent_chars[of "CHR ''#''" name] percent_chars[of "last n" name] by (auto simp: n_def query_unescape_def unescape_percent)
  have host: "CHR ''@'' \<notin> set host" "CHR ''?'' \<notin> set host" "CHR ''['' \<notin> set host" "CHR '']'' \<notin> set host"
    using assms(4) by auto
  have link: "ss_link m pass host port name = ''ss://'' @ body @ CHR ''#'' # n"
    using assms(5) by (simp add: ss_link_def int_string_def e_def p_def n_def body_def)
  have space: "\<not> is_space CHR ''s''" "\<not> is_space CHR ''#''" by code_simp+
  have trim: "trim_space (''ss://'' @ body @ CHR ''#'' # n) = ''ss://'' @ body @ CHR ''#'' # n"
    using space n(2) by (intro trim_ends) (cases "n = []"; simp)+
  have cut: "cut_at ''://'' (''ss://'' @ body @ CHR ''#'' # n) = Some (''ss'', body @ CHR ''#'' # n)" by (simp add: cut_at_def)
  have lower: "to_lower ''ss'' = ''ss''" by code_simp
  have query: "takeWhile (\<lambda>c. c \<noteq> CHR ''?'') body = body" using e p host by (intro takeWhile_all) (simp add: body_def)
  have at: "cut_last CHR ''@'' body = Some (e, host @ CHR '':'' # p)" unfolding body_def using p host by (intro cut_last_append) simp
  have user: "ss_userinfo e = m @ CHR '':'' # pass" by (simp add: ss_userinfo_def e)
  have hp: "splitHostPort (host @ CHR '':'' # p) = Inr (host, p)"
    using cut_last_append[OF p(2), of host] host_brackets_id[OF host(3,4)] assms(3) by (simp add: splitHostPort_def)
  have port: "atoi_value p = port" unfolding p_def using atoi_nat_string[of port] assms(5,6) by (intro atoi_value_atoi) simp
  have "parseShadowsocks (''ss://'' @ body @ CHR ''#'' # n) = Inr (link_node name ProtocolShadowsocks host port [(''method'', JStr m)] pass)"
    unfolding parseShadowsocks_def Let_def trim_prefix_append cut_last_append[OF n(1), of body]
    using assms(1,5,6) by (simp add: ss_authority_def query at user hp port n(3) cut_at_char[OF assms(2)])
  then show ?thesis unfolding link Parse_def Let_def trim cut using lower by simp
qed

text \<open>
  C39. A Shadowsocks link in the form of SIP002 reads back: for every method without a colon, every
  password, every host without the separators of the form, every port in range and every label, the
  parser gives the node with exactly these parts.
\<close>

theorem ss_round_trip:
  assumes "m \<noteq> []" "CHR '':'' \<notin> set m" "host \<noteq> []" "\<forall>c\<in>set host. c \<notin> set ''@#?[]''" "1 \<le> port" "port \<le> 65535"
  shows "Parse L (ss_link m pass host port name) =
    Inr (link_node name ProtocolShadowsocks host port [(''method'', JStr m)] pass)"
  using ss_link_parsed[OF assms] .

definition no_links :: link_decoder where
  "no_links = \<lparr>ld_url = (\<lambda>_. Inl ''invalid''), ld_vmess = (\<lambda>_. None)\<rparr>"

theorem ss_round_trip_witness:
  "Parse no_links (ss_link ''aes-128-gcm'' ''p@ss:w'' ''192.0.2.7'' 8388 ''my node'') =
    Inr (link_node ''my node'' ProtocolShadowsocks ''192.0.2.7'' 8388 [(''method'', JStr ''aes-128-gcm'')] ''p@ss:w'')"
  by (rule ss_round_trip) simp_all

text \<open>
  The scheme is compared without regard to case, but the parser of Shadowsocks links strips only the
  lower-case one: a link that starts with SS:// is accepted as a node whose method is the scheme itself
  and whose password is the undecoded rest.
\<close>

theorem uppercase_ss_garbled:
  "Parse L ''SS://YWVzLTEyODpwdw@h:8388'' =
     Inr (link_node [] ProtocolShadowsocks ''h'' 8388 [(''method'', JStr ''SS'')] ''//YWVzLTEyODpwdw'')"
  by code_simp

theorem Parse_sound_witness:
  "n_port (fst (projr (Parse no_links (ss_link ''aes-128-gcm'' ''pw'' ''192.0.2.7'' 8388 ''x'')))) \<le> 65535"
proof -
  let ?n = "link_node ''x'' ProtocolShadowsocks ''192.0.2.7'' 8388 [(''method'', JStr ''aes-128-gcm'')] ''pw''"
  have p: "Parse no_links (ss_link ''aes-128-gcm'' ''pw'' ''192.0.2.7'' 8388 ''x'') = Inr ?n" by (rule ss_link_parsed) simp_all
  then have "Parse no_links (ss_link ''aes-128-gcm'' ''pw'' ''192.0.2.7'' 8388 ''x'') = Inr (fst ?n, snd ?n)" by simp
  from Parse_sound[OF this] show ?thesis unfolding p by (simp add: link_node_def)
qed

subsection \<open>An import with a node the database refuses\<close>

lemma row_port: "n_port (row_of_node n c) = n_port n"
  by (cases n) (simp add: row_of_node_def node.extend_def)

lemma parse_links_rows:
  assumes enc: "\<forall>t. \<not> isl (encrypt enc t)"
  shows "\<exists>rs rows. parse_links parse enc E k links = Inr (rs, rows) \<and>
     (\<forall>link\<in>set links. \<forall>n c. parse link = Inr (n, c) \<longrightarrow> (\<exists>row\<in>set rows. n_port row = n_port n))"
proof (induction links arbitrary: k)
  case (Cons l links)
  obtain rs rows where k: "parse_links parse enc E k links = Inr (rs, rows)"
    "\<forall>link\<in>set links. \<forall>n c. parse link = Inr (n, c) \<longrightarrow> (\<exists>row\<in>set rows. n_port row = n_port n)" using Cons[of k] by blast
  obtain rs' rows' where k': "parse_links parse enc E (Suc k) links = Inr (rs', rows')"
    "\<forall>link\<in>set links. \<forall>n c. parse link = Inr (n, c) \<longrightarrow> (\<exists>row\<in>set rows'. n_port row = n_port n)" using Cons[of "Suc k"] by blast
  show ?case
  proof (cases "parse l")
    case (Inl e)
    then show ?thesis using k by simp
  next
    case (Inr p)
    obtain n c where p: "p = (n, c)" by fastforce
    obtain c' where "encrypt enc c = Inr c'" using enc by (metis sum.collapse(2))
    then show ?thesis using k' Inr p by (simp add: Let_def row_port)
  qed
qed simp

lemma insert_refused:
  "row \<in> set rows \<Longrightarrow> \<not> node_check row \<Longrightarrow> \<exists>e. fold_outcome (InsertNode now) rows db = Inl e"
proof (induction rows arbitrary: db)
  case (Cons r rows)
  show ?case
  proof (cases "InsertNode now r db")
    case (Inr db')
    then have "row \<noteq> r" using Cons.prems(2) by (auto simp: InsertNode_def)
    then show ?thesis using Cons Inr by simp
  qed simp
qed simp

lemma mutate_reply_refused:
  assumes "fn (ap_tables s) = Inl e"
  shows "mutate_reply E summary fn k s = (api_fail e, s)"
  using assms by (simp add: mutate_reply_def api_mutate_def Mutate_def)

text \<open>
  C40. The parser lets a VMess link with a port out of range through and the import does not validate the
  parsed nodes.  One such link among the links of a request makes the whole import fail on a constraint of
  the table, so that none of the nodes is stored; the dry run of the same request reports success.
\<close>

theorem import_bad_port_aborts:
  assumes "Parse L link = Inr (n, c)" "\<not> (1 \<le> n_port n \<and> n_port n \<le> 65535)" "link \<in> set links" "length links \<le> 200" "\<forall>t. \<not> isl (encrypt enc t)"
  shows "rp_status (fst (importNodes (Parse L) enc E (Inr (links, True)) s)) = 200 \<and>
    rp_status (fst (importNodes (Parse L) enc E (Inr (links, False)) s)) \<ge> 400 \<and>
    snd (importNodes (Parse L) enc E (Inr (links, False)) s) = s"
proof -
  obtain rs rows where p: "parse_links (Parse L) enc E 1 links = Inr (rs, rows)"
    "\<forall>link\<in>set links. \<forall>n c. Parse L link = Inr (n, c) \<longrightarrow> (\<exists>row\<in>set rows. n_port row = n_port n)"
    using parse_links_rows[OF assms(5), of "Parse L" E 1 links] by blast
  then obtain row where row: "row \<in> set rows" "n_port row = n_port n" using assms(1,3) by blast
  then have "\<not> node_check row" using assms(2) by (auto simp: node_check_def)
  then obtain e where "fold_outcome (InsertNode (av_now E)) rows (ap_tables s) = Inl e" using insert_refused[OF row(1)] by blast
  note refused = mutate_reply_refused[where fn = "fold_outcome (InsertNode (av_now E)) rows" and s = s, OF this]
  show ?thesis
    using refused p(1) assms(3,4) row(1) api_fail_status[of e] by (auto simp: importNodes_def writeJSON_def)
qed

definition big_port :: link_decoder where
  "big_port = no_links\<lparr>ld_vmess := (\<lambda>_. Some \<lparr>vm_ps = ''x'', vm_add = ''h'', vm_id = ''u'', vm_net = [], vm_tls = [], vm_sni = [],
     vm_path = [], vm_host = [], vm_scy = [], vm_fp = [], vm_port = PortNumber 70000\<rparr>)\<rparr>"

theorem import_bad_port_aborts_witness:
  "rp_status (fst (importNodes (Parse big_port) None (demo_env CHR ''b'') (Inr ([''vmess://'', ''x''], True)) one_rule_set)) = 200 \<and>
   rp_status (fst (importNodes (Parse big_port) None (demo_env CHR ''b'') (Inr ([''vmess://'', ''x''], False)) one_rule_set)) \<ge> 400"
proof -
  have "Parse big_port ''vmess://'' = Inr (link_node ''x'' ProtocolVMess ''h'' 70000 [] ''u'')" by code_simp
  then have "Parse big_port ''vmess://'' =
      Inr (fst (link_node ''x'' ProtocolVMess ''h'' 70000 [] ''u''), snd (link_node ''x'' ProtocolVMess ''h'' 70000 [] ''u''))" by simp
  from import_bad_port_aborts[OF this, of "[''vmess://'', ''x'']" None "demo_env CHR ''b''" one_rule_set] show ?thesis
    by (simp add: link_node_def encrypt_def)
qed

end
