(* ===== verification/ReconcileLoop.thy ===== *)
theory ReconcileLoop
  imports ReconcileProps
begin

text \<open>
  The loop around the passes (\<open>Run\<close>, \<open>coalesce\<close>, \<open>Notify\<close> and \<open>ReconcileNow\<close> of
  \<open>internal/reconcile/reconcile.go\<close>) as a step relation: writers that commit a generation and then notify,
  the loop with its channel of capacity one and its timers, and passes that a request asks for.  \<open>runMu\<close>
  keeps two passes apart; a pass is split where it loads the desired state, since commits can
  come between that and its end.
\<close>

datatype loop_phase =
    Deciding
  | Waiting bool
  | Absorbing
  | Entering
  | Passing pass_env
  | Returned

text \<open>
  \<open>lp_owed\<close> counts the writers that have committed and not yet notified, \<open>lp_notify\<close> is the channel,
  \<open>lp_other\<close> the pass of a request that holds \<open>runMu\<close>, \<open>lp_done\<close> the cancelled context of the loop.
\<close>

record ('w, 'p) loop_sys =
  lp_gen :: int
  lp_owed :: nat
  lp_notify :: bool
  lp_phase :: loop_phase
  lp_other :: "pass_env option"
  lp_done :: bool
  lp_rec :: "('w, 'p) reconciler"

definition Notify :: "('w, 'p) loop_sys \<Rightarrow> ('w, 'p) loop_sys" where
  "Notify s = s\<lparr>lp_notify := True\<rparr>"

definition commit_write :: "('w, 'p) loop_sys \<Rightarrow> ('w, 'p) loop_sys" where
  "commit_write s = s\<lparr>lp_gen := lp_gen s + 1, lp_owed := Suc (lp_owed s)\<rparr>"

text \<open>The retry timer is armed from the retry time as it is when the loop comes to its select.\<close>

definition arm_retry :: "('w, 'p) loop_sys \<Rightarrow> ('w, 'p) loop_sys" where
  "arm_retry s = s\<lparr>lp_phase := Waiting (rc_retry_at (lp_rec s) \<noteq> zero_time)\<rparr>"

definition receive_notify :: "('w, 'p) loop_sys \<Rightarrow> ('w, 'p) loop_sys" where
  "receive_notify s = s\<lparr>lp_notify := False, lp_phase := Absorbing\<rparr>"

definition free_lock :: "('w, 'p) loop_sys \<Rightarrow> bool" where
  "free_lock s \<longleftrightarrow> lp_other s = None \<and> (case lp_phase s of Passing _ \<Rightarrow> False | _ \<Rightarrow> True)"

text \<open>A pass loads the generation of that moment or fails to, and the clock is past 1970.\<close>

definition loads_at :: "int \<Rightarrow> pass_env \<Rightarrow> bool" where
  "loads_at gen env \<longleftrightarrow> 0 \<le> pe_end env \<and>
     (case pe_load env of Inl _ \<Rightarrow> True | Inr snap \<Rightarrow> s_generation snap = gen)"

definition finish_pass :: "('w, 'p) drv list \<Rightarrow> pass_env \<Rightarrow> ('w, 'p) loop_sys \<Rightarrow> ('w, 'p) loop_sys" where
  "finish_pass ds env s = s\<lparr>lp_rec := fst (pass env ds (lp_rec s))\<rparr>"

inductive loop_step :: "('w, 'p) drv list \<Rightarrow> ('w, 'p) loop_sys \<Rightarrow> ('w, 'p) loop_sys \<Rightarrow> bool" for ds where
  commit: "loop_step ds s (commit_write s)"
| tell: "lp_owed s = Suc n \<Longrightarrow> loop_step ds s (Notify (s\<lparr>lp_owed := n\<rparr>))"
| nudge: "loop_step ds s (Notify s)"
| cancel: "loop_step ds s (s\<lparr>lp_done := True\<rparr>)"
| select: "lp_phase s = Deciding \<Longrightarrow> loop_step ds s (arm_retry s)"
| wake: "lp_phase s = Waiting a \<Longrightarrow> lp_notify s \<Longrightarrow> loop_step ds s (receive_notify s)"
| absorb: "lp_phase s = Absorbing \<Longrightarrow> lp_notify s \<Longrightarrow> loop_step ds s (receive_notify s)"
| window: "lp_phase s = Absorbing \<Longrightarrow> loop_step ds s (s\<lparr>lp_phase := Entering\<rparr>)"
| resync: "lp_phase s = Waiting a \<Longrightarrow> loop_step ds s (s\<lparr>lp_phase := Entering\<rparr>)"
| retry: "lp_phase s = Waiting True \<Longrightarrow> loop_step ds s (s\<lparr>lp_phase := Entering\<rparr>)"
| load: "lp_phase s = Entering \<Longrightarrow> free_lock s \<Longrightarrow> loads_at (lp_gen s) env \<Longrightarrow>
    (pe_ctx_err env \<noteq> None \<longleftrightarrow> lp_done s) \<Longrightarrow> loop_step ds s (s\<lparr>lp_phase := Passing env\<rparr>)"
| finish: "lp_phase s = Passing env \<Longrightarrow> loop_step ds s ((finish_pass ds env s)\<lparr>lp_phase := Deciding\<rparr>)"
| request: "free_lock s \<Longrightarrow> loads_at (lp_gen s) env \<Longrightarrow> loop_step ds s (s\<lparr>lp_other := Some env\<rparr>)"
| reply: "lp_other s = Some env \<Longrightarrow> loop_step ds s ((finish_pass ds env s)\<lparr>lp_other := None\<rparr>)"
| return: "lp_phase s = Waiting a \<Longrightarrow> lp_done s \<Longrightarrow> loop_step ds s (s\<lparr>lp_phase := Returned\<rparr>)"

definition loop_start :: "('w, 'p) drv list \<Rightarrow> 'w \<Rightarrow> int \<Rightarrow> ('w, 'p) loop_sys" where
  "loop_start ds w g = \<lparr>lp_gen = g, lp_owed = 0, lp_notify = False, lp_phase = Entering, lp_other = None,
     lp_done = False, lp_rec = New ds w\<rparr>"

inductive loop_reach :: "('w, 'p) drv list \<Rightarrow> 'w \<Rightarrow> int \<Rightarrow> ('w, 'p) loop_sys \<Rightarrow> bool" for ds w g where
  loop_init: "loop_reach ds w g (loop_start ds w g)"
| loop_next: "loop_reach ds w g s \<Longrightarrow> loop_step ds s s' \<Longrightarrow> loop_reach ds w g s'"

lemmas loop_ops = commit_write_def Notify_def arm_retry_def receive_notify_def finish_pass_def

subsection \<open>What a pass does to the retry time and the applied generation\<close>

definition settled_at :: "int \<Rightarrow> ('w, 'p) reconciler \<Rightarrow> ('w, 'p) reconciler \<Rightarrow> bool" where
  "settled_at g r r' \<longleftrightarrow> rc_applied_gen (rc_status r') = g \<and> rc_backoff r' = 0 \<and> rc_retry_at r' = zero_time \<and>
     rc_max_backoff r' = rc_max_backoff r"

lemma pass_moves:
  obtains (skipped) "pe_ctx_err env \<noteq> None" "fst (pass env ds r) = r"
  | (settled) snap where "pe_ctx_err env = None" "pe_load env = Inr snap"
      "settled_at (s_generation snap) r (fst (pass env ds r))"
  | (failed) "pe_ctx_err env = None" "backed_off (pe_end env) r (fst (pass env ds r))"
proof -
  obtain r' err where p: "pass env ds r = (r', err)" by fastforce
  then show thesis
  proof (cases rule: pass_cases)
    case (driven snap arts r1 ps es)
    show thesis
    proof (cases err)
      case None
      have "rc_max_backoff r1 = rc_max_backoff r"
        using drive_fold_frame[OF driven(4)] by (simp add: drive_frame_def)
      with None driven p show thesis by (intro settled) (auto simp: settled_at_def)
    next
      case (Some e)
      with p pass_failed[of env ds r r' e] driven(1) show thesis by (intro failed) auto
    qed
  qed (use p skipped failed in auto)
qed

subsection \<open>No committed generation is forgotten\<close>

definition told :: "('w, 'p) loop_sys \<Rightarrow> bool" where
  "told s \<longleftrightarrow> 0 < lp_owed s \<or> lp_notify s"

text \<open>A generation \<open>g\<close> that is or will be applied is the latest one, or the loop will look again.\<close>

definition heard :: "('w, 'p) loop_sys \<Rightarrow> int \<Rightarrow> bool" where
  "heard s g \<longleftrightarrow> g \<le> lp_gen s \<and> (g = lp_gen s \<or> told s)"

definition loaded_heard :: "('w, 'p) loop_sys \<Rightarrow> pass_env \<Rightarrow> bool" where
  "loaded_heard s env \<longleftrightarrow> 0 \<le> pe_end env \<and> (\<forall>snap. pe_load env = Inr snap \<longrightarrow> heard s (s_generation snap))"

abbreviation applied_of :: "('w, 'p) loop_sys \<Rightarrow> int" where
  "applied_of s \<equiv> rc_applied_gen (rc_status (lp_rec s))"

definition phase_ok :: "('w, 'p) loop_sys \<Rightarrow> bool" where
  "phase_ok s \<longleftrightarrow> (case lp_phase s of
       Deciding \<Rightarrow> heard s (applied_of s) \<or> rc_retry_at (lp_rec s) \<noteq> zero_time
     | Waiting armed \<Rightarrow> heard s (applied_of s) \<or> armed
     | Passing env \<Rightarrow> pe_ctx_err env = None \<and> loaded_heard s env
     | _ \<Rightarrow> True)"

text \<open>While the loop is on its way to a pass, what another pass has loaded does not matter.\<close>

definition other_ok :: "('w, 'p) loop_sys \<Rightarrow> bool" where
  "other_ok s \<longleftrightarrow> (\<forall>env. lp_other s = Some env \<longrightarrow> 0 \<le> pe_end env \<and>
     (lp_phase s \<in> {Absorbing, Entering} \<or> loaded_heard s env) \<and> (\<forall>e. lp_phase s \<noteq> Passing e))"

definition timers_ok :: "('w, 'p) reconciler \<Rightarrow> bool" where
  "timers_ok r \<longleftrightarrow> 0 \<le> rc_backoff r \<and> second \<le> rc_max_backoff r"

definition loop_inv :: "('w, 'p) loop_sys \<Rightarrow> bool" where
  "loop_inv s \<longleftrightarrow> lp_done s \<or> timers_ok (lp_rec s) \<and> phase_ok s \<and> other_ok s"

lemma backed_off_arms:
  assumes "backed_off t r r'" "timers_ok r" "0 \<le> t"
  shows "timers_ok r'" "rc_retry_at r' \<noteq> zero_time" "rc_applied_gen (rc_status r') = rc_applied_gen (rc_status r)"
  using assms by (auto simp: backed_off_def timers_ok_def next_backoff_def zero_time_def second_def)

lemma settled_timers: "settled_at g r r' \<Longrightarrow> timers_ok r \<Longrightarrow> timers_ok r'"
  by (simp add: settled_at_def timers_ok_def)

lemma loaded_heard_gen: "loads_at (lp_gen s) env \<Longrightarrow> loaded_heard s env"
  by (auto simp: loads_at_def loaded_heard_def heard_def split: sum.splits)

lemma finish_timers: "timers_ok (lp_rec s) \<Longrightarrow> 0 \<le> pe_end env \<Longrightarrow> timers_ok (lp_rec (finish_pass ds env s))"
  by (rule pass_moves[of env ds "lp_rec s"])
    (auto simp: finish_pass_def dest: settled_timers backed_off_arms)

text \<open>A pass of the loop ends with a generation that is heard or with a retry time.\<close>

lemma finish_own:
  assumes "timers_ok (lp_rec s)" "loaded_heard s env" "pe_ctx_err env = None"
  shows "heard s (applied_of (finish_pass ds env s)) \<or> rc_retry_at (lp_rec (finish_pass ds env s)) \<noteq> zero_time"
  using assms by (cases rule: pass_moves[of env ds "lp_rec s"])
    (auto simp: finish_pass_def loaded_heard_def settled_at_def dest: backed_off_arms)

text \<open>A pass of a request takes nothing away that the loop relies on.\<close>

lemma finish_other:
  assumes "timers_ok (lp_rec s)" "loaded_heard s env" "heard s (applied_of s) \<or> armed"
  shows "heard s (applied_of (finish_pass ds env s)) \<or> armed"
  using assms by (cases rule: pass_moves[of env ds "lp_rec s"])
    (auto simp: finish_pass_def loaded_heard_def settled_at_def dest: backed_off_arms)

lemma finish_other_deciding:
  assumes "timers_ok (lp_rec s)" "loaded_heard s env" "heard s (applied_of s) \<or> rc_retry_at (lp_rec s) \<noteq> zero_time"
  shows "heard s (applied_of (finish_pass ds env s)) \<or> rc_retry_at (lp_rec (finish_pass ds env s)) \<noteq> zero_time"
  using assms by (cases rule: pass_moves[of env ds "lp_rec s"])
    (auto simp: finish_pass_def loaded_heard_def settled_at_def dest: backed_off_arms)

lemma heard_gen [simp]: "heard s (lp_gen s)"
  by (simp add: heard_def)

lemma heard_commit [simp]: "heard s g \<Longrightarrow> heard (commit_write s) g"
  by (auto simp: heard_def told_def commit_write_def)

lemma heard_notify [simp]: "heard s g \<Longrightarrow> heard (Notify s) g" "heard s g \<Longrightarrow> heard (Notify (s\<lparr>lp_owed := n\<rparr>)) g"
  by (auto simp: heard_def told_def Notify_def)

lemma heard_frame [simp]:
  "heard (s\<lparr>lp_phase := p\<rparr>) g = heard s g" "heard (s\<lparr>lp_other := q\<rparr>) g = heard s g"
  "heard (s\<lparr>lp_rec := r\<rparr>) g = heard s g" "heard (arm_retry s) g = heard s g"
  by (simp_all add: heard_def told_def arm_retry_def)

lemma heard_step:
  assumes "\<And>g. heard s g \<Longrightarrow> heard s' g" "lp_phase s' = lp_phase s" "lp_other s' = lp_other s"
    "lp_rec s' = lp_rec s" "lp_done s' = lp_done s" "loop_inv s"
  shows "loop_inv s'"
  using assms by (auto simp: loop_inv_def phase_ok_def other_ok_def loaded_heard_def split: loop_phase.splits)

lemma loop_step_inv: "loop_step ds s s' \<Longrightarrow> loop_inv s \<Longrightarrow> loop_inv s'"
proof (induction rule: loop_step.induct)
  case (commit s)
  show ?case by (rule heard_step[OF heard_commit _ _ _ _ commit]) (simp_all add: commit_write_def)
next
  case (tell s n)
  show ?case by (rule heard_step[OF heard_notify(2) _ _ _ _ tell(2)]) (simp_all add: Notify_def)
next
  case (nudge s)
  show ?case by (rule heard_step[OF heard_notify(1) _ _ _ _ nudge]) (simp_all add: Notify_def)
next
  case (finish s env)
  have ?case if "\<not> lp_done s"
  proof -
    from that finish have *: "timers_ok (lp_rec s)" "loaded_heard s env" "pe_ctx_err env = None"
      and none: "lp_other s = None"
      by (auto simp: loop_inv_def phase_ok_def other_ok_def)
    with finish_timers[OF *(1), of env] finish_own[OF *, of ds] show ?thesis
      by (simp add: loop_inv_def phase_ok_def other_ok_def loaded_heard_def finish_pass_def)
  qed
  then show ?case by (auto simp: loop_inv_def finish_pass_def)
next
  case (reply s env)
  have ?case if "\<not> lp_done s"
  proof -
    from that reply have *: "timers_ok (lp_rec s)" "0 \<le> pe_end env" "phase_ok s"
      "lp_phase s \<in> {Absorbing, Entering} \<or> loaded_heard s env" "\<forall>e. lp_phase s \<noteq> Passing e"
      by (auto simp: loop_inv_def other_ok_def)
    have "phase_ok ((finish_pass ds env s)\<lparr>lp_other := None\<rparr>)"
      using *(3-5) finish_other[OF *(1), of env _ ds] finish_other_deciding[OF *(1), of env ds]
      by (auto simp: phase_ok_def finish_pass_def split: loop_phase.splits)
    with finish_timers[OF *(1,2)] show ?thesis by (simp add: loop_inv_def other_ok_def)
  qed
  then show ?case by (auto simp: loop_inv_def finish_pass_def)
qed (auto simp: loop_inv_def phase_ok_def other_ok_def loop_ops free_lock_def loaded_heard_gen loaded_heard_def
    loads_at_def split: loop_phase.splits)

lemma loop_reach_inv: "loop_reach ds w g s \<Longrightarrow> 0 \<le> g \<Longrightarrow> loop_inv s"
proof (induction rule: loop_reach.induct)
  case loop_init
  then show ?case
    by (simp add: loop_inv_def loop_start_def phase_ok_def other_ok_def timers_ok_def New_def second_def)
next
  case (loop_next s s')
  then show ?case using loop_step_inv by blast
qed

text \<open>
  C12. No committed write is forgotten.  However writers, requests for an immediate pass and the timers
  interleave with the loop, whenever the loop waits in its select with a live context, the generation it
  has applied is the committed one, or a writer is still about to notify, or a notification is in the
  channel, or the retry timer is armed: the loop never settles down on an old generation.
\<close>

theorem no_lost_update:
  assumes "loop_reach ds w g s" "0 \<le> g" "lp_phase s = Waiting armed" "\<not> lp_done s"
  shows "rc_applied_gen (rc_status (lp_rec s)) = lp_gen s \<or> 0 < lp_owed s \<or> lp_notify s \<or> armed"
  using loop_reach_inv[OF assms(1,2)] assms(3,4) by (auto simp: loop_inv_def phase_ok_def heard_def told_def)

subsection \<open>Example runs\<close>

definition calm_env :: "int \<Rightarrow> pass_env" where
  "calm_env g = example_pass_env\<lparr>pe_load := Inr ((example_snapshot ModeC [] [])\<lparr>s_generation := g\<rparr>),
     pe_render := (\<lambda>_. Inr zero_artifacts)\<rparr>"

lemma calm_pass: "settled_at g r (fst (pass (calm_env g) ([] :: (unit, unit) drv list) r))"
  by (rule pass_moves[of "calm_env g" "[]" r])
    (auto simp: calm_env_def example_pass_env_def pass_def pass_body_def Let_def settled_at_def)

lemma calm_loads: "loads_at g (calm_env g)" "pe_ctx_err (calm_env g) = None"
  by (simp_all add: loads_at_def calm_env_def example_pass_env_def second_def)

abbreviation empty_start :: "(unit, unit) loop_sys" where
  "empty_start \<equiv> loop_start [] () 0"

text \<open>A pass of the loop, from the moment it wants the lock to its next select.\<close>

lemma calm_round:
  assumes "loop_reach ([] :: (unit, unit) drv list) () 0 s" "lp_phase s = Entering" "lp_other s = None" "\<not> lp_done s"
  shows "loop_reach [] () 0 ((finish_pass [] (calm_env (lp_gen s)) s)\<lparr>lp_phase := Waiting False\<rparr>)"
proof -
  let ?e = "calm_env (lp_gen s)"
  let ?f = "(finish_pass [] ?e s)\<lparr>lp_phase := Deciding\<rparr>"
  have "loop_step [] s (s\<lparr>lp_phase := Passing ?e\<rparr>)"
    using assms by (intro load) (auto simp: calm_loads free_lock_def)
  moreover have "loop_step [] (s\<lparr>lp_phase := Passing ?e\<rparr>) ?f"
    using finish[of "s\<lparr>lp_phase := Passing ?e\<rparr>" ?e "[]"] by (simp add: finish_pass_def)
  moreover have "rc_retry_at (lp_rec ?f) = zero_time"
    using calm_pass[of "lp_gen s" "lp_rec s"] by (simp add: finish_pass_def settled_at_def)
  then have "loop_step [] ?f ((finish_pass [] ?e s)\<lparr>lp_phase := Waiting False\<rparr>)"
    using select[of ?f "[]"] by (simp add: arm_retry_def)
  ultimately show ?thesis using assms(1) by (meson loop_next)
qed

text \<open>A write that comes while the first pass is already under way is applied by a second one.\<close>

theorem no_lost_update_witness:
  "\<exists>s. loop_reach ([] :: (unit, unit) drv list) () 0 s \<and> lp_phase s = Waiting False \<and>
     lp_gen s = 1 \<and> rc_applied_gen (rc_status (lp_rec s)) = 1"
proof -
  define s1 where "s1 = (finish_pass [] (calm_env 0) empty_start)\<lparr>lp_phase := Waiting False\<rparr>"
  define s2 where "s2 = Notify ((commit_write s1)\<lparr>lp_owed := 0\<rparr>)"
  define s3 where "s3 = (receive_notify s2)\<lparr>lp_phase := Entering\<rparr>"
  define s4 where "s4 = (finish_pass [] (calm_env 1) s3)\<lparr>lp_phase := Waiting False\<rparr>"
  note defs = s1_def s2_def s3_def s4_def loop_ops loop_start_def
  have r1: "loop_reach [] () 0 s1"
    using calm_round[OF loop_init] by (simp add: loop_start_def s1_def)
  have "loop_step [] s1 (commit_write s1)" by (rule commit)
  moreover have "loop_step [] (commit_write s1) s2"
    unfolding s2_def by (rule tell) (simp add: defs)
  moreover have "loop_step [] s2 (receive_notify s2)" by (rule wake[of _ False]) (simp_all add: defs)
  moreover have "loop_step [] (receive_notify s2) s3" unfolding s3_def by (rule window) (simp add: defs)
  ultimately have r3: "loop_reach [] () 0 s3" using r1 by (meson loop_next)
  have s3: "lp_phase s3 = Entering" "lp_other s3 = None" "\<not> lp_done s3" "lp_gen s3 = 1" by (simp_all add: defs)
  have r4: "loop_reach [] () 0 s4" using calm_round[OF r3 s3(1-3)] s3(4) by (simp add: s4_def)
  have "lp_phase s4 = Waiting False" "\<not> lp_done s4" "lp_owed s4 = 0" "\<not> lp_notify s4" "lp_gen s4 = 1"
    by (simp_all add: defs)
  with no_lost_update[OF r4, of False] r4 show ?thesis by (intro exI[of _ s4]) simp
qed

text \<open>
  A retry can be announced that no timer stands for.  The loop reads the retry time when it comes to
  its select; a pass of a request that fails while the loop waits there sets the time and the delay
  the status shows, but the loop goes on waiting without the timer.
\<close>

theorem retry_not_armed:
  "\<exists>s. loop_reach ([] :: (unit, unit) drv list) () 0 s \<and> lp_phase s = Waiting False \<and> \<not> lp_notify s \<and>
     lp_owed s = 0 \<and> rc_retry_at (lp_rec s) = pe_end example_pass_env + second"
proof -
  define e where "e = example_pass_env\<lparr>pe_load := Inl ''disk I/O error''\<rparr>"
  define s1 where "s1 = (finish_pass [] (calm_env 0) empty_start)\<lparr>lp_phase := Waiting False\<rparr>"
  define s2 where "s2 = (finish_pass [] e s1)\<lparr>lp_other := None\<rparr>"
  have r1: "loop_reach [] () 0 s1" using calm_round[OF loop_init] by (simp add: loop_start_def s1_def)
  have "loop_step [] s1 (s1\<lparr>lp_other := Some e\<rparr>)"
    by (rule request) (simp_all add: s1_def free_lock_def loop_ops loop_start_def e_def loads_at_def
        example_pass_env_def second_def)
  moreover have "loop_step [] (s1\<lparr>lp_other := Some e\<rparr>) s2"
    using reply[of "s1\<lparr>lp_other := Some e\<rparr>" e "[]"] by (simp add: s2_def finish_pass_def)
  ultimately have r2: "loop_reach [] () 0 s2" using r1 by (meson loop_next)
  have "rc_backoff (lp_rec s1) = 0"
    using calm_pass[of 0 "lp_rec empty_start"] by (simp add: s1_def finish_pass_def settled_at_def)
  then have "rc_retry_at (lp_rec s2) = pe_end example_pass_env + second"
    by (simp add: s2_def finish_pass_def e_def example_pass_env_def pass_def pass_body_def fail_def Let_def
        next_backoff_def)
  moreover have "lp_phase s2 = Waiting False" "\<not> lp_notify s2" "lp_owed s2 = 0"
    by (simp_all add: s2_def s1_def loop_ops loop_start_def)
  ultimately show ?thesis using r2 by blast
qed

end
