(* ===== verification/Spec2Isabelle.thy ===== *)
theory Spec2Isabelle
  imports NetlinkProps Trace ResolverProps ReconcileProps EventBus AuthPolicy ValidProps GeoProps RenderProps RenderTexts
    DriverProps XrayProps WgProps FrrProps ShareProps ReconcileLoop
begin

text \<open>
  EdgeRouteGW: a verification development of the gateway's control plane.

  \<^bold>\<open>The program.\<close>  EdgeRouteGW turns a Linux host into a transparent-proxy gateway.  Operators edit a
  desired state (nodes, groups, rule sets, device policies, DNS and network settings) through an
  HTTP API; the store (\<open>src/internal/store\<close>) keeps it in SQLite with a generation counter and a
  changeset ledger.  The reconciler (\<open>src/internal/reconcile\<close>) loads a consistent snapshot
  (\<open>src/internal/desired\<close>), renders it into artifacts (\<open>src/internal/render\<close>: Xray, Mosdns, nftables,
  FRR, WireGuard), lets one driver per component apply them (\<open>src/internal/driver\<close>), records the
  generation and backs off after errors.  In modes B and C the route engine (\<open>src/internal/routes\<close>)
  decides which IPv4 prefixes are announced to the main router; the resolver (\<open>src/internal/resolver\<close>)
  keeps the addresses of domain rules fresh; geodata (\<open>src/internal/geo\<close>) is read from protobuf files.
  The trace (\<open>src/internal/trace\<close>) explains where a target would go, the event bus
  (\<open>src/internal/events\<close>) feeds the UI, and \<open>src/internal/auth\<close> guards the API.

  \<^bold>\<open>Theories and sources.\<close>

  \<^item> \<open>Prelude\<close>, \<open>GoStrings\<close>, \<open>Errors\<close>, \<open>NetIP\<close>, \<open>NetIPFacts\<close>, \<open>Base64\<close>, \<open>Table\<close>, \<open>Json\<close>: what the code
    uses of the Go standard library (byte strings and \<open>strings\<close>, \<open>net/netip\<close>, \<open>encoding/base64\<close>, the
    printers of \<open>encoding/json\<close>), durations and times in nanoseconds, errors as values, keyed tables.
  \<^item> \<open>Model\<close> (\<open>model/model.go\<close>), \<open>Rulespec\<close> (\<open>rulespec/\<close>): data types and rule values; matching
    refines the documented label semantics and parsing has normal forms.
  \<^item> \<open>Desired\<close> (\<open>desired/snapshot.go\<close>): snapshot, queries and the loader over a history of database
    states; a loaded snapshot is one instant of the store.
  \<^item> \<open>GeoData\<close>, \<open>GeoWire\<close>, \<open>GeoReader\<close>, \<open>GeoIndex\<close> (\<open>geo/\<close>): wire format, caching readers (locale
    \<open>geo_cache\<close>, interpreted for sites and addresses) and reverse indexes; \<open>GeoWireFacts\<close>,
    \<open>GeoIndexFacts\<close>, \<open>GeoSiteFacts\<close>, \<open>GeoProps\<close>: the loops end on every file, encoders round-trip, lookups
    are exact within the bound of the code.
  \<^item> \<open>RouteEngine\<close> (\<open>routes/engine.go\<close>), \<open>RouteProps\<close>, \<open>RouteSafety\<close>: the candidates, the
    publishing policy and pruning; published prefixes obey the policy, form the maximal antichain of
    the candidates and never contain an endpoint.
  \<^item> \<open>Driver\<close>, \<open>RouteDriver\<close>, \<open>KernelProps\<close>, \<open>NetlinkProps\<close> (\<open>driver/driver.go\<close>, \<open>driver/route/\<close>): plans and
    the kernel route driver over the locale \<open>kernel\<close>, interpreted on the in-memory table and on netlink.
  \<^item> \<open>Host\<close> (\<open>driver/fsutil.go\<close>, the interfaces and stand-ins of \<open>driver/execx\<close> and
    \<open>driver/systemd\<close>; locale \<open>file_host\<close>), \<open>NftDriver\<close>, \<open>MosdnsDriver\<close>, \<open>XrayDriver\<close>, \<open>WgDriver\<close> (\<open>driver/nft/\<close>,
    \<open>driver/mosdns/\<close>, \<open>driver/xray/\<close>, \<open>driver/wg/\<close>), \<open>DriverProps\<close> (locale \<open>nft_host\<close>), \<open>XrayProps\<close>,
    \<open>WgProps\<close> (locale \<open>wg_backend\<close>), \<open>FrrDriver\<close>, \<open>FrrProps\<close> (\<open>driver/frr/\<close>, over the route driver): files
    are replaced whole, an error-free step leaves the kernel as rendered, a rejected Xray configuration is not installed, and what a failed apply leaves
    behind for the next plan.
  \<^item> \<open>Resolver\<close>, \<open>ResolverProps\<close> (\<open>resolver/\<close>): cache and refresh, and the names of endpoints; \<open>EventBus\<close> (\<open>events/\<close>): the interleaved
    bus as a step relation; \<open>Trace\<close> (\<open>trace/trace.go\<close>): first match and failover.
  \<^item> \<open>PublishedStore\<close>, \<open>Reconcile\<close>, \<open>ReconcileProps\<close> (\<open>reconcile/\<close>, \<open>store/routes.go\<close>): a pass over drivers
    that satisfy the locale \<open>component_driver\<close>; \<open>ReconcileLoop\<close>: the loop around it, as a step relation in
    which no committed generation is forgotten.
  \<^item> \<open>Artifacts\<close>, \<open>RenderOutbound\<close>, \<open>RenderXray\<close>, \<open>RenderConfig\<close>, \<open>RenderBase\<close>, \<open>RenderWG\<close>, \<open>RenderMosdns\<close>,
    \<open>RenderNft\<close>, \<open>Render\<close>, \<open>Paths\<close> (\<open>render/\<close>, \<open>paths/\<close>): every artifact as text; \<open>RenderProps\<close> and
    \<open>RenderTexts\<close>: rules agree with the trace, their targets exist, marks are exempt and distinct.
  \<^item> \<open>AuthStore\<close>, \<open>Password\<close>, \<open>Auth\<close>, \<open>AuthApi\<close>, \<open>AuthInv\<close>, \<open>AuthProps\<close>, \<open>AuthPolicy\<close> (\<open>auth/\<close>,
    \<open>store/auth.go\<close>, \<open>api/v2/auth.go\<close>): sessions, tokens, passwords, the rate limiter and the gate, as
    one reachable state space.
  \<^item> \<open>StoreDb\<close>, \<open>StoreRules\<close>, \<open>StoreMutate\<close>, \<open>StoreRevert\<close>, \<open>StoreLedger\<close>, \<open>StoreInv\<close>, \<open>StoreProps\<close>
    (\<open>store/\<close>, the migrations): the tables with their constraints, Mutate, snapshots and
    revert; \<open>ApiCore\<close>, \<open>ApiState\<close>, \<open>ApiNodes\<close>, \<open>ApiRouting\<close>, \<open>ApiInv\<close>, \<open>ApiProps\<close>, \<open>ValidProps\<close>
    (\<open>api/v2/\<close>): the handlers that edit the desired state, and the invariant of every history of requests.
  \<^item> \<open>ShareLink\<close>, \<open>ShareProps\<close> (\<open>sharelink/\<close>): the parser of share links, the round trip of the Shadowsocks
    form, and the import of nodes with it.
  \<^item> This theory: a pass of renderer, reconciler, FRR driver, route driver and kernel together.

  \<^bold>\<open>Conventions.\<close>  A Go string or byte slice is a list of 8-bit characters; case folding, trimming and
  the like are modelled for ASCII.  A struct is a record, an error result a sum, a nil pointer or
  slice an option where the code tells it apart.  Maps are functions or association lists
  (\<open>al_put\<close>); where the code ranges over a map the model uses one order and the result is sorted or
  shown not to depend on it.  \<open>sort.Slice\<close> is the stable \<open>sort_key\<close>.  Times are integers in nanoseconds
  (the database keeps milliseconds); clocks, random bytes and other readings of the environment are
  arguments.  Counters bounded by a documented range are integers, IPv4 and IPv6 addresses are
  words.  The IPv6 parser recurses on fuel 8, the number of groups of an address.  Loops over
  geodata are \<open>partial_function (option)\<close>, where \<open>None\<close> means that the call does not come back;
  that they come back is proved.  A list of groups is read in one statement; statements within a
  transaction see one time.

  \<^bold>\<open>Arguments that stand for code outside the repository\<close>: JSON decoding, argon2 and the SHA hashes,
  AES-GCM, regular expressions, DNS queries, netlink, the protobuf wire primitives, the file system,
  systemd units and external commands.  Where a theorem relies on their documented behaviour it has
  a named hypothesis (\<open>netlink_laws\<close>, \<open>wire_round_trip\<close>, \<open>wire_bounded\<close> and the like) and the witness
  gives a concrete instance.

  \<^bold>\<open>Not modelled\<close>: process wiring and flags (\<open>cmd/\<close>), HTTP plumbing and static files, read-only API
  handlers and backups, SSH provisioning, sysctl tuning, downloads and self-update, the one-shot
  import of version 1, observation of the kernel's
  counters, opening and migrating the database, and the janitor: they are dominated by input and
  output or by third-party protocols.  The same holds for the netlink back end of the WireGuard driver and
  the D-Bus client; in the models they are arguments.
\<close>

subsection \<open>A pass of the whole control plane\<close>























end
